(* ===== verification/Prelude.thy ===== *)
theory Prelude
  imports Main "HOL-Library.List_Lexorder" "HOL-Library.Char_ord" "HOL-Library.Product_Lexorder"
    "HOL-Library.Option_ord" "HOL-Library.Sublist"
begin

text \<open>
  The shared vocabulary of the development.

  \<^item> JavaScript strings are \<^typ>\<open>string\<close>: sequences of 8-bit code units, that is the
    JavaScript strings all of whose UTF-16 code units are below 256. The order of
    \<open>List_Lexorder\<close> over \<open>Char_ord\<close> is then the code-unit order of the JavaScript
    operators \<open><\<close> and \<open>>\<close>, and \<open>sort_key\<close> (stable) is \<open>Array.prototype.sort\<close> with a
    comparator on a string key.
  \<^item> \<open>Result<Value, Error>\<close> of \<open>domain/primitives.ts\<close> is a sum: \<open>Inl\<close> the error,
    \<open>Inr\<close> the value.
  \<^item> A JavaScript object used as a record of values is an association list in the
    object's enumeration order (\<open>js_obj\<close>), with JavaScript's rule that array-index keys
    enumerate first and in numeric order.
\<close>

named_theorems store_defs \<open>definitions of the run-record transactions and of the row updates they use\<close>
named_theorems row_simps \<open>how row updates act on the rows of a table\<close>

section \<open>Results\<close>

abbreviation Ok :: "'a \<Rightarrow> 'e + 'a" where "Ok \<equiv> Inr"
abbreviation Err :: "'e \<Rightarrow> 'e + 'a" where "Err \<equiv> Inl"

fun bind_result :: "'e + 'a \<Rightarrow> ('a \<Rightarrow> 'e + 'b) \<Rightarrow> 'e + 'b" where
  "bind_result (Inl e) f = Inl e"
| "bind_result (Inr a) f = f a"

lemma bind_result_eq_Inr [simp]:
  "bind_result r f = Inr b \<longleftrightarrow> (\<exists>a. r = Inr a \<and> f a = Inr b)"
  by (cases r) auto

lemma bind_result_eq_Inl:
  "bind_result r f = Inl e \<longleftrightarrow> r = Inl e \<or> (\<exists>a. r = Inr a \<and> f a = Inl e)"
  by (cases r) auto

text \<open>
  A function that may also throw: \<open>Thrown\<close> carries the message of the exception,
  \<open>Refused\<close> the error value the function returns.
\<close>

datatype 'e failure = Thrown string | Refused 'e

abbreviation Throw :: "string \<Rightarrow> 'e failure + 'a" where "Throw m \<equiv> Inl (Thrown m)"
abbreviation Refuse :: "'e \<Rightarrow> 'e failure + 'a" where "Refuse e \<equiv> Inl (Refused e)"

text \<open>A \<open>for\<close> loop over a list whose body may return early with an error.\<close>

fun map_result :: "('a \<Rightarrow> 'e + 'b) \<Rightarrow> 'a list \<Rightarrow> 'e + 'b list" where
  "map_result f [] = Inr []"
| "map_result f (x # xs) = bind_result (f x) (\<lambda>y. bind_result (map_result f xs) (\<lambda>ys. Inr (y # ys)))"

fun fold_result :: "('a \<Rightarrow> 's \<Rightarrow> 'e + 's) \<Rightarrow> 'a list \<Rightarrow> 's \<Rightarrow> 'e + 's" where
  "fold_result f [] s = Inr s"
| "fold_result f (x # xs) s = bind_result (f x s) (fold_result f xs)"

lemma map_result_Inr_iff:
  "map_result f xs = Inr ys \<longleftrightarrow> list_all2 (\<lambda>x y. f x = Inr y) xs ys"
proof (induction xs arbitrary: ys)
  case Nil
  then show ?case by auto
next
  case (Cons x xs)
  then show ?case by (cases ys) auto
qed

lemma map_result_length: "map_result f xs = Inr ys \<Longrightarrow> length ys = length xs"
  by (simp add: map_result_Inr_iff list_all2_lengthD)

lemma map_result_set:
  assumes "map_result f xs = Inr ys" and "y \<in> set ys"
  shows "\<exists>x\<in>set xs. f x = Inr y"
  using assms by (induction xs arbitrary: ys) auto

lemma map_result_witness:
  assumes "\<And>x. x \<in> set xs \<Longrightarrow> \<exists>y. f x = Inr y \<and> P x y"
  shows "\<exists>ys. map_result f xs = Inr ys \<and> list_all2 P xs ys"
  using assms by (induction xs) fastforce+

lemma map_result_Inl:
  "map_result f xs = Inl e \<Longrightarrow> \<exists>x\<in>set xs. f x = Inl e"
  by (induction xs) (auto simp: bind_result_eq_Inl)

lemma fold_result_append:
  "fold_result f (xs @ ys) s = bind_result (fold_result f xs s) (fold_result f ys)"
proof (induction xs arbitrary: s)
  case Nil
  then show ?case by simp
next
  case (Cons x xs)
  then show ?case by (cases "f x s") simp_all
qed

text \<open>Anything every step of a loop preserves is preserved by the loop.\<close>

lemma fold_result_invariant:
  assumes "fold_result f xs s = Inr t" and "P s"
    and "\<And>x s t. x \<in> set xs \<Longrightarrow> P s \<Longrightarrow> f x s = Inr t \<Longrightarrow> P t"
  shows "P t"
  using assms by (induction xs arbitrary: s) auto

section \<open>Lists\<close>

text \<open>\<open>xs.find(p)\<close> of JavaScript and \<open>rows[0]\<close> of a filtered query are \<^const>\<open>List.find\<close>.\<close>

lemma find_Some_set: "List.find p xs = Some x \<Longrightarrow> x \<in> set xs \<and> p x"
  by (induction xs) (auto split: if_splits)

lemma find_None_set: "List.find p xs = None \<longleftrightarrow> (\<forall>x\<in>set xs. \<not> p x)"
  by (induction xs) auto

text \<open>Insertion-ordered removal of duplicates, first occurrence kept: iteration order of a \<open>Set\<close>.\<close>

fun dedup :: "'a list \<Rightarrow> 'a list" where
  "dedup [] = []"
| "dedup (x # xs) = x # dedup (filter (\<lambda>y. y \<noteq> x) xs)"

lemma set_dedup [simp]: "set (dedup xs) = set xs"
  by (induction xs rule: dedup.induct) auto

lemma distinct_dedup [simp]: "distinct (dedup xs)"
  by (induction xs rule: dedup.induct) auto

text \<open>Rows with distinct keys are determined by their key.\<close>

lemma distinct_map_inj:
  "distinct (map f xs) \<Longrightarrow> x \<in> set xs \<Longrightarrow> y \<in> set xs \<Longrightarrow> f x = f y \<Longrightarrow> x = y"
  by (auto simp: distinct_map dest: inj_onD)

lemma find_distinct_key:
  assumes "distinct (map f xs)" and "x \<in> set xs"
  shows "List.find (\<lambda>y. f y = f x) xs = Some x"
  using assms by (induction xs) force+

lemma distinct_concat_disjoint:
  "distinct (concat (map f xs)) \<Longrightarrow> x \<in> set xs \<Longrightarrow> y \<in> set xs \<Longrightarrow> x \<noteq> y \<Longrightarrow> set (f x) \<inter> set (f y) = {}"
  by (induction xs) auto

section \<open>JavaScript objects\<close>

type_synonym 'v js_obj = "(string \<times> 'v) list"

definition is_digit :: "char \<Rightarrow> bool" where
  "is_digit c \<longleftrightarrow> 48 \<le> (of_char c :: nat) \<and> (of_char c :: nat) \<le> 57"

text \<open>\<open>Number(token)\<close> on a token of decimal digits.\<close>

definition digits_value :: "string \<Rightarrow> nat" where
  "digits_value s = foldl (\<lambda>n c. 10 * n + (of_char c - 48)) 0 s"

definition all_digits :: "string \<Rightarrow> bool" where
  "all_digits s \<longleftrightarrow> s \<noteq> [] \<and> list_all is_digit s"

text \<open>Array-index keys (canonical decimal, below 2 ^ 32 - 1) enumerate before all others.\<close>

definition is_index_key :: "string \<Rightarrow> bool" where
  "is_index_key s \<longleftrightarrow> all_digits s \<and> (hd s \<noteq> CHR ''0'' \<or> s = ''0'') \<and> digits_value s < 4294967295"

definition obj_get :: "'v js_obj \<Rightarrow> string \<Rightarrow> 'v option" where
  "obj_get = map_of"

definition obj_keys :: "'v js_obj \<Rightarrow> string list" where
  "obj_keys = map fst"

definition obj_values :: "'v js_obj \<Rightarrow> 'v list" where
  "obj_values = map snd"

fun obj_insert_index :: "string \<Rightarrow> 'v \<Rightarrow> 'v js_obj \<Rightarrow> 'v js_obj" where
  "obj_insert_index k v [] = [(k, v)]"
| "obj_insert_index k v ((k', v') # rest) =
     (if is_index_key k' \<and> digits_value k' < digits_value k
      then (k', v') # obj_insert_index k v rest
      else (k, v) # (k', v') # rest)"

text \<open>\<open>obj[k] = v\<close>: an existing key keeps its place, a new one is placed by JavaScript's rule.\<close>

definition obj_set :: "string \<Rightarrow> 'v \<Rightarrow> 'v js_obj \<Rightarrow> 'v js_obj" where
  "obj_set k v ob =
     (if k \<in> set (map fst ob) then map (\<lambda>(k', v'). (k', if k' = k then v else v')) ob
      else if is_index_key k then obj_insert_index k v ob
      else ob @ [(k, v)])"

text \<open>
  Assignment on an object that starts as the literal \<open>{}\<close>: the key \<open>__proto__\<close> reaches the
  inherited setter, so it never becomes an own member.
\<close>

definition obj_put :: "string \<Rightarrow> 'v \<Rightarrow> 'v js_obj \<Rightarrow> 'v js_obj" where
  "obj_put k v ob = (if k = ''__proto__'' then ob else obj_set k v ob)"

text \<open>\<open>Object.assign(target, source)\<close> and the spread \<open>{ ...target, ...source }\<close>.\<close>

definition obj_assign :: "'v js_obj \<Rightarrow> 'v js_obj \<Rightarrow> 'v js_obj" where
  "obj_assign target source = fold (\<lambda>(k, v). obj_set k v) source target"

lemma set_obj_insert_index: "set (obj_insert_index k v ob) = insert (k, v) (set ob)"
  by (induction k v ob rule: obj_insert_index.induct) auto

lemma map_of_obj_insert_index:
  "k \<notin> fst ` set ob \<Longrightarrow> map_of (obj_insert_index k v ob) = (map_of ob)(k \<mapsto> v)"
  by (induction k v ob rule: obj_insert_index.induct) (auto simp: fun_eq_iff)

lemma map_of_replace:
  "k \<in> fst ` set ob \<Longrightarrow>
   map_of (map (\<lambda>(k', v'). (k', if k' = k then v else v')) ob) = (map_of ob)(k \<mapsto> v)"
proof (induction ob)
  case Nil
  then show ?case by simp
next
  case (Cons kv ob)
  obtain k' v' where kv: "kv = (k', v')" by (cases kv)
  have absent: "k \<notin> fst ` set ob \<Longrightarrow>
      map (\<lambda>(k', v'). (k', if k' = k then v else v')) ob = ob"
    by (induction ob) auto
  show ?case
  proof (cases "k \<in> fst ` set ob")
    case True
    then show ?thesis using Cons.IH kv by (auto simp: fun_eq_iff)
  next
    case False
    then show ?thesis using Cons.prems kv absent by (auto simp: fun_eq_iff)
  qed
qed

lemma obj_get_set: "obj_get (obj_set k v ob) k' = (if k' = k then Some v else obj_get ob k')"
proof -
  have "map_of (ob @ [(k, v)]) = (map_of ob)(k \<mapsto> v)" if "k \<notin> fst ` set ob"
    using that map_of_eq_None_iff [of ob k] by (auto simp: fun_eq_iff map_add_def split: option.splits)
  then show ?thesis
    by (auto simp: obj_get_def obj_set_def map_of_replace map_of_obj_insert_index)
qed

lemma obj_get_assign:
  "obj_get (obj_assign t s) k = (case obj_get (rev s) k of Some v \<Rightarrow> Some v | None \<Rightarrow> obj_get t k)"
proof (induction s arbitrary: t)
  case Nil
  then show ?case by (simp add: obj_assign_def obj_get_def)
next
  case (Cons kv s)
  obtain k0 v0 where kv: "kv = (k0, v0)" by (cases kv)
  have "obj_get (obj_assign t (kv # s)) k = obj_get (obj_assign (obj_set k0 v0 t) s) k"
    by (simp add: obj_assign_def kv)
  also have "\<dots> = (case obj_get (rev s) k of Some v \<Rightarrow> Some v
      | None \<Rightarrow> obj_get (obj_set k0 v0 t) k)"
    by (rule Cons.IH)
  also have "\<dots> = (case obj_get (rev (kv # s)) k of Some v \<Rightarrow> Some v | None \<Rightarrow> obj_get t k)"
    using obj_get_set [of k0 v0 t k]
    by (cases "map_of (rev s) k") (auto simp: kv obj_get_def map_add_def)
  finally show ?case .
qed

lemma obj_keys_set: "set (obj_keys (obj_set k v ob)) = insert k (set (obj_keys ob))"
  by (force simp: obj_keys_def obj_set_def set_obj_insert_index image_iff case_prod_beta split: if_splits)

lemma distinct_obj_insert_index:
  "distinct (map fst ob) \<Longrightarrow> k \<notin> fst ` set ob \<Longrightarrow> distinct (map fst (obj_insert_index k v ob))"
  by (induction k v ob rule: obj_insert_index.induct) (auto simp: set_obj_insert_index)

lemma distinct_obj_set: "distinct (obj_keys ob) \<Longrightarrow> distinct (obj_keys (obj_set k v ob))"
  by (auto simp: obj_keys_def obj_set_def distinct_obj_insert_index comp_def case_prod_beta)

lemma obj_get_None_iff: "obj_get ob k = None \<longleftrightarrow> k \<notin> set (obj_keys ob)"
  by (simp add: obj_get_def obj_keys_def map_of_eq_None_iff)

lemma obj_get_Some_in: "obj_get ob k = Some v \<Longrightarrow> (k, v) \<in> set ob"
  by (simp add: obj_get_def map_of_SomeD)

section \<open>Strings\<close>

text \<open>A value in single quotes, as the error messages print it.\<close>

definition sq :: "string \<Rightarrow> string" where
  "sq s = CHR 0x27 # s @ [CHR 0x27]"

definition is_prefix_of :: "string \<Rightarrow> string \<Rightarrow> bool" where
  "is_prefix_of p s \<longleftrightarrow> take (length p) s = p"

text \<open>\<open>s.split(c)\<close> for a one-character separator: never the empty list.\<close>

fun js_split :: "char \<Rightarrow> string \<Rightarrow> string list" where
  "js_split sep [] = [[]]"
| "js_split sep (c # cs) =
     (if c = sep then [] # js_split sep cs
      else case js_split sep cs of [] \<Rightarrow> [[c]] | w # ws \<Rightarrow> (c # w) # ws)"

text \<open>\<open>s.replaceAll(pat, rep)\<close> for a non-empty pattern, leftmost and non-overlapping.\<close>

fun replace_all :: "string \<Rightarrow> string \<Rightarrow> string \<Rightarrow> string" where
  "replace_all pat rep [] = []"
| "replace_all pat rep (c # cs) =
     (if pat \<noteq> [] \<and> is_prefix_of pat (c # cs)
      then rep @ replace_all pat rep (drop (length pat - 1) cs)
      else c # replace_all pat rep cs)"

text \<open>
  The substitution patterns ECMAScript expands in a replacement string (\<open>GetSubstitution\<close>
  without captures): \<open>$$\<close> a dollar sign, \<open>$&\<close> the match, and the dollar sign followed by a
  backquote or a quote the text before or after the match.
\<close>

fun js_substitution :: "string \<Rightarrow> string \<Rightarrow> string \<Rightarrow> string \<Rightarrow> string" where
  "js_substitution matched before after (c # d # rest) =
     (if c = CHR ''$'' \<and> d = CHR ''$'' then CHR ''$'' # js_substitution matched before after rest
      else if c = CHR ''$'' \<and> d = CHR ''&'' then matched @ js_substitution matched before after rest
      else if c = CHR ''$'' \<and> d = CHR 0x60 then before @ js_substitution matched before after rest
      else if c = CHR ''$'' \<and> d = CHR 0x27 then after @ js_substitution matched before after rest
      else c # js_substitution matched before after (d # rest))"
| "js_substitution matched before after rest = rest"

text \<open>\<open>s.replaceAll(pat, rep)\<close> with those patterns; \<open>before\<close> is the part of the text already passed.\<close>

function replace_all_from :: "string \<Rightarrow> string \<Rightarrow> string \<Rightarrow> string \<Rightarrow> string" where
  "replace_all_from pat rep before [] = []"
| "replace_all_from pat rep before (c # cs) =
     (if pat \<noteq> [] \<and> is_prefix_of pat (c # cs)
      then js_substitution pat before (drop (length pat) (c # cs)) rep @
           replace_all_from pat rep (before @ pat) (drop (length pat - 1) cs)
      else c # replace_all_from pat rep (before @ [c]) cs)"
  by pat_completeness auto
termination
  by (relation "measure (\<lambda>(_, _, _, s). length s)") auto

lemma js_substitution_literal: "CHR ''$'' \<notin> set rep \<Longrightarrow> js_substitution m b a rep = rep"
  by (induction m b a rep rule: js_substitution.induct) auto

lemma replace_all_from_literal:
  "CHR ''$'' \<notin> set rep \<Longrightarrow> replace_all_from pat rep before s = replace_all pat rep s"
  by (induction pat rep before s rule: replace_all_from.induct) (auto simp: js_substitution_literal)

text \<open>\<open>s.trim()\<close>: JavaScript white space among the first 256 code units.\<close>

definition is_space :: "char \<Rightarrow> bool" where
  "is_space c \<longleftrightarrow> (of_char c :: nat) \<in> {9, 10, 11, 12, 13, 32, 160}"

definition js_trim :: "string \<Rightarrow> string" where
  "js_trim s = rev (dropWhile is_space (rev (dropWhile is_space s)))"

text \<open>\<open>toLocaleLowerCase("en-US")\<close> on the first 256 code units.\<close>

definition lower_char :: "char \<Rightarrow> char" where
  "lower_char c =
     (let n = (of_char c :: nat)
      in if (65 \<le> n \<and> n \<le> 90) \<or> (192 \<le> n \<and> n \<le> 222 \<and> n \<noteq> 215) then char_of (n + 32) else c)"

definition js_lower :: "string \<Rightarrow> string" where
  "js_lower = map lower_char"

text \<open>\<open>xs.join(sep)\<close>.\<close>

fun js_join :: "string \<Rightarrow> string list \<Rightarrow> string" where
  "js_join sep [] = []"
| "js_join sep [x] = x"
| "js_join sep (x # y # ys) = x @ sep @ js_join sep (y # ys)"

lemma js_split_ne [simp]: "js_split sep s \<noteq> []"
  by (cases s) (auto split: list.splits)

lemma js_split_no_sep: "sep \<notin> set s \<Longrightarrow> js_split sep s = [s]"
  by (induction s) auto

lemma js_split_app:
  "sep \<notin> set s \<Longrightarrow> js_split sep (s @ sep # t) = s # js_split sep t"
  by (induction s) auto

lemma js_split_append_sep:
  "js_split sep (s @ sep # t) = js_split sep s @ js_split sep t"
  by (induction s) (auto split: list.splits)

lemma js_join_split: "js_join [sep] (js_split sep s) = s"
proof (induction s)
  case Nil
  then show ?case by simp
next
  case (Cons c cs)
  show ?case
  proof (cases "js_split sep cs")
    case Nil
    then show ?thesis by simp
  next
    case (Cons w ws)
    with \<open>js_join [sep] (js_split sep cs) = cs\<close> show ?thesis
      by (cases ws) auto
  qed
qed

text \<open>Decimal rendering of a natural number, \<open>String(n)\<close>.\<close>

fun nat_to_string :: "nat \<Rightarrow> string" where
  "nat_to_string n =
     (if n < 10 then [char_of (48 + n)] else nat_to_string (n div 10) @ [char_of (48 + n mod 10)])"

declare nat_to_string.simps [simp del]

end
