(* ===== verification/Json.thy ===== *)
theory Json
  imports Prelude
begin

text \<open>
  JSON values (\<open>domain/primitives.ts\<close>), JSON Pointers (\<open>domain/json-pointer.ts\<close>) and
  \<open>JSON.stringify\<close>.

  A JSON number is represented by its ECMAScript rendering (\<open>String(n)\<close>), which
  determines it; equality of numbers is equality of renderings. An object is an
  association list in enumeration order.

  Property reads in JavaScript see the members an object literal inherits from
  \<open>Object.prototype\<close>. \<open>readJsonPointer\<close> reads with a plain index, so its result is not
  always a JSON value: the model has the type \<open>js_value\<close> for what it can return.
\<close>

datatype json =
    JNull
  | JBool bool
  | JNum string
  | JStr string
  | JArr "json list"
  | JObj "(string \<times> json) list"

text \<open>\<open>undefined\<close>, a JSON value, \<open>Object.prototype\<close> itself, or one of its functions.\<close>

datatype js_value =
    Undefined
  | JsonV json
  | ObjectPrototype
  | PrototypeFunction string

text \<open>The functions every object literal inherits (ECMAScript, \<open>Object.prototype\<close>).\<close>

definition object_prototype_functions :: "string list" where
  "object_prototype_functions =
     [''constructor'', ''hasOwnProperty'', ''isPrototypeOf'', ''propertyIsEnumerable'',
      ''toLocaleString'', ''toString'', ''valueOf'', ''__defineGetter__'', ''__defineSetter__'',
      ''__lookupGetter__'', ''__lookupSetter__'']"

text \<open>\<open>object[key]\<close> on an object literal.\<close>

definition index_object :: "(string \<times> json) list \<Rightarrow> string \<Rightarrow> js_value" where
  "index_object ob key =
     (case obj_get ob key of
        Some v \<Rightarrow> JsonV v
      | None \<Rightarrow>
          if key = ''__proto__'' then ObjectPrototype
          else if key \<in> set object_prototype_functions then PrototypeFunction key
          else Undefined)"

definition decodeJsonPointerSegment :: "string \<Rightarrow> string" where
  "decodeJsonPointerSegment segment = replace_all ''~0'' ''~'' (replace_all ''~1'' ''/'' segment)"

text \<open>
  One iteration of the loop of \<open>readJsonPointer\<close>. The early \<open>return undefined\<close> is
  \<^const>\<open>Undefined\<close>, which every later iteration keeps.
\<close>

fun pointer_step :: "js_value \<Rightarrow> string \<Rightarrow> js_value" where
  "pointer_step (JsonV (JArr xs)) token =
     (if all_digits token
      then (if digits_value token < length xs then JsonV (xs ! digits_value token) else Undefined)
      else Undefined)"
| "pointer_step (JsonV (JObj ob)) token = index_object ob token"
| "pointer_step ObjectPrototype token =
     (if token = ''__proto__'' then JsonV JNull
      else if token \<in> set object_prototype_functions then PrototypeFunction token
      else Undefined)"
| "pointer_step _ token = Undefined"

definition pointer_tokens :: "string \<Rightarrow> string list" where
  "pointer_tokens pointer = map decodeJsonPointerSegment (js_split (CHR ''/'') (drop 1 pointer))"

definition readJsonPointer :: "json \<Rightarrow> string \<Rightarrow> js_value" where
  "readJsonPointer value pointer =
     (if pointer = [] then JsonV value
      else if hd pointer \<noteq> CHR ''/'' then Undefined
      else foldl pointer_step (JsonV value) (pointer_tokens pointer))"

text \<open>\<open>typeof v === "string"\<close> narrowed to the string.\<close>

fun as_string :: "js_value \<Rightarrow> string option" where
  "as_string (JsonV (JStr s)) = Some s"
| "as_string _ = None"

text \<open>\<open>typeof v === "string" && v.length > 0\<close>, the narrowing most readers apply.\<close>

definition as_nonempty_string :: "js_value \<Rightarrow> string option" where
  "as_nonempty_string v = (case as_string v of Some s \<Rightarrow> if s = [] then None else Some s | None \<Rightarrow> None)"

text \<open>\<open>Array.isArray(v)\<close> narrowed to the elements.\<close>

fun as_array :: "js_value \<Rightarrow> json list option" where
  "as_array (JsonV (JArr xs)) = Some xs"
| "as_array _ = None"

section \<open>JSON.stringify\<close>

definition hex_digit :: "nat \<Rightarrow> char" where
  "hex_digit n = (if n < 10 then char_of (48 + n) else char_of (87 + n))"

definition escape_char :: "char \<Rightarrow> string" where
  "escape_char c =
     (let n = (of_char c :: nat)
      in if n = 34 then [char_of (92::nat), char_of (34::nat)]
         else if n = 92 then [char_of (92::nat), char_of (92::nat)]
         else if n = 8 then [char_of (92::nat), CHR ''b'']
         else if n = 9 then [char_of (92::nat), CHR ''t'']
         else if n = 10 then [char_of (92::nat), CHR ''n'']
         else if n = 12 then [char_of (92::nat), CHR ''f'']
         else if n = 13 then [char_of (92::nat), CHR ''r'']
         else if n < 32 then [char_of (92::nat), CHR ''u'', CHR ''0'', CHR ''0'', hex_digit (n div 16), hex_digit (n mod 16)]
         else [c])"

definition quote_string :: "string \<Rightarrow> string" where
  "quote_string s = char_of (34::nat) # concat (map escape_char s) @ [char_of (34::nat)]"

fun json_stringify :: "json \<Rightarrow> string" where
  "json_stringify JNull = ''null''"
| "json_stringify (JBool b) = (if b then ''true'' else ''false'')"
| "json_stringify (JNum n) = n"
| "json_stringify (JStr s) = quote_string s"
| "json_stringify (JArr xs) = ''['' @ js_join '','' (map json_stringify xs) @ '']''"
| "json_stringify (JObj kvs) =
     ''{'' @ js_join '','' (map (\<lambda>(k, v). quote_string k @ '':'' @ json_stringify v) kvs) @ ''}''"

section \<open>The runtime the code runs on\<close>

text \<open>
  What the code calls outside the repository and the model takes as a parameter:
  SHA-256 in its two digest encodings (\<open>node:crypto\<close>), the source text the engine prints
  for a built-in function, and the sort keys of the database's text collation.
\<close>

record runtime_env =
  sha256_hex :: "string \<Rightarrow> string"
  sha256_base64url :: "string \<Rightarrow> string"
  function_text :: "string \<Rightarrow> string"
  collate :: "string \<Rightarrow> string"

section \<open>Identifiers\<close>

definition is_hex :: "char \<Rightarrow> bool" where
  "is_hex c \<longleftrightarrow> is_digit c \<or> (let n = (of_char c :: nat) in (97 \<le> n \<and> n \<le> 102) \<or> (65 \<le> n \<and> n \<le> 70))"

definition hex_group :: "nat \<Rightarrow> string \<Rightarrow> bool" where
  "hex_group n s \<longleftrightarrow> length s = n \<and> list_all is_hex s"

text \<open>The pattern \<open>8-4-4-4-12\<close> of hexadecimal digits, in either case.\<close>

definition parseUuidId :: "string option \<Rightarrow> string option" where
  "parseUuidId raw =
     (case raw of
        None \<Rightarrow> None
      | Some s \<Rightarrow>
          (case js_split (CHR ''-'') s of
             [a, b, c, d, e] \<Rightarrow>
               if hex_group 8 a \<and> hex_group 4 b \<and> hex_group 4 c \<and> hex_group 4 d \<and> hex_group 12 e
               then Some s else None
           | _ \<Rightarrow> None))"

section \<open>Lemmas\<close>

lemma pointer_step_Undefined [simp]: "pointer_step Undefined t = Undefined"
  by simp

lemma foldl_pointer_Undefined [simp]: "foldl pointer_step Undefined ts = Undefined"
  by (induction ts) auto

text \<open>Reading a pointer from whatever an earlier pointer resolved to.\<close>

definition readFrom :: "js_value \<Rightarrow> string \<Rightarrow> js_value" where
  "readFrom v pointer =
     (if pointer = [] then v
      else if hd pointer \<noteq> CHR ''/'' then Undefined
      else foldl pointer_step v (pointer_tokens pointer))"

definition is_pointer :: "string \<Rightarrow> bool" where
  "is_pointer p \<longleftrightarrow> p = [] \<or> hd p = CHR ''/''"

lemma readFrom_JsonV: "readFrom (JsonV v) p = readJsonPointer v p"
  by (simp add: readFrom_def readJsonPointer_def)

lemma pointer_tokens_append:
  assumes "p \<noteq> []" and "q \<noteq> []" and "hd q = CHR ''/''"
  shows "pointer_tokens (p @ q) = pointer_tokens p @ pointer_tokens q"
proof -
  obtain c p' where p: "p = c # p'" using assms(1) by (cases p) auto
  obtain q' where q: "q = CHR ''/'' # q'" using assms(2,3) by (cases q) auto
  show ?thesis by (simp add: pointer_tokens_def p q js_split_append_sep)
qed

text \<open>
  The escape a writer of pointers applies to a key (RFC 6901): \<open>~\<close> to \<open>~0\<close>, then
  \<open>/\<close> to \<open>~1\<close>. It is the reference the decoder is compared with.
\<close>

definition escape_segment :: "string \<Rightarrow> string" where
  "escape_segment s = concat (map (\<lambda>c. if c = CHR ''~'' then ''~0'' else if c = CHR ''/'' then ''~1'' else [c]) s)"

lemma replace_all_tilde1:
  "replace_all ''~1'' ''/'' (escape_segment s) =
     concat (map (\<lambda>c. if c = CHR ''~'' then ''~0'' else [c]) s)"
proof (induction s)
  case Nil
  then show ?case by (simp add: escape_segment_def)
next
  case (Cons c s)
  have unfold: "escape_segment (d # s) =
      (if d = CHR ''~'' then ''~0'' else if d = CHR ''/'' then ''~1'' else [d]) @ escape_segment s" for d
    by (simp add: escape_segment_def)
  consider "c = CHR ''~''" | "c = CHR ''/''" | "c \<noteq> CHR ''~''" "c \<noteq> CHR ''/''" by blast
  then show ?case
    by cases (use Cons in \<open>auto simp: unfold is_prefix_of_def\<close>)
qed

lemma replace_all_tilde0:
  "replace_all ''~0'' ''~'' (concat (map (\<lambda>c. if c = CHR ''~'' then ''~0'' else [c]) s)) = s"
  by (induction s) (auto simp: is_prefix_of_def)

lemma decode_escape: "decodeJsonPointerSegment (escape_segment s) = s"
  by (simp add: decodeJsonPointerSegment_def replace_all_tilde1 replace_all_tilde0)

lemma escape_no_slash: "CHR ''/'' \<notin> set (escape_segment s)"
  by (induction s) (auto simp: escape_segment_def)

definition pointer_to :: "string list \<Rightarrow> string" where
  "pointer_to keys = concat (map (\<lambda>k. ''/'' @ escape_segment k) keys)"

lemma pointer_tokens_to: "keys \<noteq> [] \<Longrightarrow> pointer_tokens (pointer_to keys) = keys"
proof (induction keys)
  case Nil
  then show ?case by simp
next
  case (Cons k keys)
  show ?case
  proof (cases "keys = []")
    case True
    then show ?thesis
      by (simp add: pointer_to_def pointer_tokens_def js_split_no_sep escape_no_slash decode_escape)
  next
    case False
    have split: "pointer_to (k # keys) = (''/'' @ escape_segment k) @ pointer_to keys"
      by (simp add: pointer_to_def)
    have "pointer_to keys \<noteq> []" and "hd (pointer_to keys) = CHR ''/''"
      using False by (auto simp: pointer_to_def neq_Nil_conv)
    then have "pointer_tokens (pointer_to (k # keys)) =
        pointer_tokens (''/'' @ escape_segment k) @ pointer_tokens (pointer_to keys)"
      unfolding split by (intro pointer_tokens_append) auto
    also have "pointer_tokens (''/'' @ escape_segment k) = [k]"
      by (simp add: pointer_tokens_def js_split_no_sep escape_no_slash decode_escape)
    finally show ?thesis using Cons.IH False by simp
  qed
qed

lemma readJsonPointer_pointer_to:
  "readJsonPointer v (pointer_to keys) = foldl pointer_step (JsonV v) keys"
proof (cases "keys = []")
  case True
  then show ?thesis by (simp add: pointer_to_def readJsonPointer_def)
next
  case False
  then have "pointer_to keys \<noteq> []" "hd (pointer_to keys) = CHR ''/''"
    by (auto simp: pointer_to_def neq_Nil_conv)
  with False show ?thesis by (simp add: readJsonPointer_def pointer_tokens_to)
qed

lemma as_nonempty_string_Some [simp]:
  "as_nonempty_string v = Some s \<longleftrightarrow> v = JsonV (JStr s) \<and> s \<noteq> []"
proof -
  have "as_string v = Some t \<longleftrightarrow> v = JsonV (JStr t)" for t
    by (cases v rule: as_string.cases) auto
  moreover have "as_nonempty_string v = Some s \<longleftrightarrow> as_string v = Some s \<and> s \<noteq> []"
    by (cases "as_string v") (auto simp: as_nonempty_string_def)
  ultimately show ?thesis by simp
qed

section \<open>Properties\<close>

text \<open>
  Pointers compose: reading the concatenation of two pointers is reading the second
  from whatever the first resolves to. A pointer that resolves to nothing therefore stops
  every longer one.
\<close>
theorem readJsonPointer_append:
  assumes "is_pointer p" and "is_pointer q"
  shows "readJsonPointer v (p @ q) = readFrom (readJsonPointer v p) q"
proof (cases "p = [] \<or> q = []")
  case True
  have empty: "readJsonPointer v [] = JsonV v" by (simp add: readJsonPointer_def)
  from True show ?thesis
  proof
    assume "p = []"
    then show ?thesis by (simp add: empty readFrom_JsonV)
  next
    assume "q = []"
    then show ?thesis by (simp add: readFrom_def)
  qed
next
  case False
  with assms have "hd p = CHR ''/''" "hd q = CHR ''/''" by (auto simp: is_pointer_def)
  with False show ?thesis
    by (simp add: readJsonPointer_def readFrom_def pointer_tokens_append)
qed

theorem readJsonPointer_append_witness:
  "readJsonPointer (JObj [(''a'', JArr [JStr ''x'', JStr ''y''])]) (''/a'' @ ''/1'')
     = readFrom (readJsonPointer (JObj [(''a'', JArr [JStr ''x'', JStr ''y''])]) ''/a'') ''/1''"
  by (rule readJsonPointer_append) (simp_all add: is_pointer_def)

text \<open>
  The decoder is the inverse of the RFC 6901 escape: a pointer written for a list of
  keys, whatever characters (including \<open>~\<close> and \<open>/\<close>) they hold, is read as exactly those
  keys, one index per key.
\<close>
theorem readJsonPointer_escaped:
  "readJsonPointer v (pointer_to keys) = foldl pointer_step (JsonV v) keys"
  by (rule readJsonPointer_pointer_to)

text \<open>
  A pointer that names a member of \<open>Object.prototype\<close> resolves on every object that
  lacks the key: \<open>readJsonPointer\<close> reads with a plain index and returns the inherited
  function instead of \<open>undefined\<close>.
\<close>
theorem readJsonPointer_inherited:
  assumes "key \<in> set object_prototype_functions" and "obj_get ob key = None"
  shows "readJsonPointer (JObj ob) (pointer_to [key]) = PrototypeFunction key"
  using assms
  by (auto simp: readJsonPointer_pointer_to index_object_def object_prototype_functions_def)

theorem readJsonPointer_inherited_witness:
  "readJsonPointer (JObj [(''name'', JStr ''x'')]) (pointer_to [''constructor'']) = PrototypeFunction ''constructor''"
  by (rule readJsonPointer_inherited)
    (simp_all add: object_prototype_functions_def obj_get_def)

end
