(* ===== verification/Workflow.thy ===== *)
theory Workflow
  imports Json
begin

text \<open>
  Workflow definitions and their validation: \<open>domain/workflow.ts\<close>,
  \<open>domain/delegated-session.ts\<close>, \<open>domain/compiled-workflow.ts\<close>, \<open>domain/gates.ts\<close>,
  \<open>validation/delegated-session.ts\<close>, \<open>validation/repository-provisioning.ts\<close> and
  \<open>validation/workflow-definition.ts\<close>.

  The schemas are written with zod, which is not part of the repository. Its conversion
  of untyped JSON into the typed record is the parameter \<open>zod_env\<close>; the constraints the
  schemas declare on the result (minimum lengths, positive numbers, the \<open>superRefine\<close>
  callbacks) are translated.
\<close>

section \<open>Definitions, as an operator uploads them\<close>

datatype input_delivery = ProducerComplete | UnitComplete

datatype operator_role =
  RoleSpec | RolePlan | RoleBrief | RoleBuild | RoleAssessment | RoleFinalIntegration

record input_slot =
  is_name :: string
  is_artifact_type :: string
  is_optional :: bool
  is_collect :: bool
  is_delivery :: input_delivery

record output_slot =
  os_name :: string
  os_artifact_type :: string

record edge =
  from_stage :: string
  from_slot :: string
  to_stage :: string
  to_slot :: string

record stage_node =
  sn_stage_type :: string
  sn_operator_role :: "operator_role option"
  sn_config :: json
  sn_inputs :: "input_slot list"
  sn_outputs :: "output_slot list"

record workflow_graph =
  graph_stages :: "stage_node js_obj"
  graph_edges :: "edge list"

record workflow_definition =
  wd_id :: string
  wd_name :: string
  wd_version :: nat
  wd_graph :: workflow_graph
  wd_created_at :: string
  wd_archived :: bool

datatype stage_outcome =
    Succeeded
  | Failed string string
  | Cancelled "string option"

section \<open>Stage configurations\<close>

datatype slot_binding =
    FromInput string "string option"
  | FromContext string
  | FromLiteral string
  | FromItem string
  | FromContextLookup string string string string
  | FromInputLookup string string string string

fun binding_from :: "slot_binding \<Rightarrow> string" where
  "binding_from (FromInput _ _) = ''input''"
| "binding_from (FromContext _) = ''context''"
| "binding_from (FromLiteral _) = ''literal''"
| "binding_from (FromItem _) = ''item''"
| "binding_from (FromContextLookup _ _ _ _) = ''context_lookup''"
| "binding_from (FromInputLookup _ _ _ _) = ''input_lookup''"

datatype bindable = BindString string | BindSlot slot_binding

record worktree_identity =
  wi_branch_name :: string
  wi_worktree_subdir :: string
  wi_base_ref :: "string option"

record worktree_template =
  wt_branch_name :: bindable
  wt_worktree_subdir :: bindable
  wt_base_ref :: "bindable option"

record fan_out_definition =
  fo_over :: slot_binding
  fo_unit_id_path :: string
  fo_session_mode :: "string option"
  fo_depends_on_path :: "string option"
  fo_max_parallel :: "nat option"
  fo_manual_admission :: "bool option"
  fo_item_bindings :: "slot_binding js_obj option"
  fo_workdir :: "slot_binding option"
  fo_worktree :: "worktree_template option"
  fo_inherit_worktree_from :: "string option"

record artifact_collection_definition =
  ac_over :: slot_binding
  ac_id_path :: string

record output_gate_step =
  gs_type :: string
  gs_actions :: "string list"

datatype gate_revision_target = SelfStage | UpstreamHandoff

record output_gate_definition =
  og_output :: string
  og_steps :: "output_gate_step list"
  og_requires_zero_open_review_items :: "bool option"
  og_revision_target :: "gate_revision_target option"

record output_handoff_definition =
  oh_output :: string
  oh_downstream_role :: operator_role
  oh_approved_wait_kind :: string

record delegated_session_config =
  dc_runtime :: bindable
  dc_prompt_template_path :: string
  dc_slot_bindings :: "slot_binding js_obj"
  dc_workdir :: slot_binding
  dc_session_name :: string
  dc_model :: "bindable option"
  dc_effort :: "bindable option"
  dc_worktree :: "worktree_identity option"
  dc_pre_authorized_tools :: "string list option"
  dc_yolo :: "bool option"
  dc_fan_out :: "fan_out_definition option"
  dc_artifacts :: "artifact_collection_definition option"
  dc_gate_output :: "string option"
  dc_output_gate :: "output_gate_definition option"
  dc_output_handoff :: "output_handoff_definition option"

record repository_provisioning_config =
  rp_repositories :: slot_binding
  rp_base_branch :: slot_binding
  rp_max_parallel :: nat

definition PROVISION_REPOSITORY_REFS_STAGE_TYPE :: string where
  "PROVISION_REPOSITORY_REFS_STAGE_TYPE = ''provision_repository_refs''"

definition REPOSITORY_REFS_ARTIFACT_TYPE :: string where
  "REPOSITORY_REFS_ARTIFACT_TYPE = ''dev.repository_refs''"

definition RUN_CONTEXT_REPOSITORY_KEY_POINTER :: string where
  "RUN_CONTEXT_REPOSITORY_KEY_POINTER = ''/key''"

section \<open>Gates\<close>

datatype gate_disposition = Release | Revise | Terminal

record gate_action =
  ga_name :: string
  ga_disposition :: gate_disposition

definition BUILT_IN_GATE_DISPOSITIONS :: "gate_disposition js_obj" where
  "BUILT_IN_GATE_DISPOSITIONS =
     [(''pass'', Release), (''approve'', Release), (''confirm_merged'', Release),
      (''closed_without_merge'', Release), (''rerun'', Revise), (''request_revision'', Revise),
      (''fail'', Terminal)]"

text \<open>\<open>readOwn\<close> and \<open>hasOwn\<close> of \<open>domain/records.ts\<close>: own members only.\<close>

definition readOwn :: "'v js_obj \<Rightarrow> string \<Rightarrow> 'v option" where
  "readOwn ob key = (if key \<in> set (obj_keys ob) then obj_get ob key else None)"

definition hasOwn :: "'v js_obj \<Rightarrow> string \<Rightarrow> bool" where
  "hasOwn ob key \<longleftrightarrow> key \<in> set (obj_keys ob)"

definition isBuiltInGateAction :: "string \<Rightarrow> bool" where
  "isBuiltInGateAction action \<longleftrightarrow> hasOwn BUILT_IN_GATE_DISPOSITIONS action"

definition selectBuiltInGateDisposition :: "string \<Rightarrow> gate_disposition" where
  "selectBuiltInGateDisposition action =
     (case readOwn BUILT_IN_GATE_DISPOSITIONS action of Some d \<Rightarrow> d | None \<Rightarrow> Terminal)"

section \<open>Compiled workflows\<close>

record compiled_gate_step =
  cg_type :: string
  cg_actions :: "gate_action list"

datatype output_release =
    Immediate
  | Gate "compiled_gate_step list" bool gate_revision_target
  | Handoff operator_role string

record compiled_output =
  co_name :: string
  co_artifact_type :: string
  co_release :: output_release

datatype materialization =
    Scalar
  | ArtifactCollection slot_binding string
  | FanOut slot_binding string "string option" nat bool

datatype definition_config =
    DelegatedConfig delegated_session_config
  | ProvisioningConfig repository_provisioning_config
  | OpaqueConfig json

record compiled_stage =
  cs_stage_key :: string
  cs_stage_type :: string
  cs_operator_role :: "operator_role option"
  cs_inputs :: "input_slot list"
  cs_outputs :: "compiled_output list"
  cs_materialization :: materialization
  cs_executor_type :: string
  cs_definition_config :: definition_config

record compiled_edge =
  ce_producer_stage :: string
  ce_producer_output :: string
  ce_consumer_stage :: string
  ce_consumer_input :: string
  ce_delivery :: input_delivery

record compiled_workflow =
  cw_stages :: "compiled_stage js_obj"
  cw_edges :: "compiled_edge list"
  cw_source_stages :: "string list"

record execution_unit =
  eu_unit_id :: string
  eu_parameters :: json
  eu_depends_on :: "string list"

section \<open>Schemas\<close>

text \<open>
  The conversions of zod: an untyped value to the typed record of each schema, or the
  message of the failure; the rendering of a list of custom issues; and
  \<open>z.prettifyError\<close>.
\<close>

record zod_env =
  zod_slot_binding :: "json \<Rightarrow> slot_binding option"
  zod_delegated_shape :: "json \<Rightarrow> string + delegated_session_config"
  zod_provisioning_shape :: "json \<Rightarrow> string + repository_provisioning_config"
  zod_definition_shape :: "json \<Rightarrow> string + workflow_definition"
  zod_issues :: "string list \<Rightarrow> string"

definition binding_shape_ok :: "slot_binding \<Rightarrow> bool" where
  "binding_shape_ok b =
     (case b of FromInput n _ \<Rightarrow> n \<noteq> [] | FromInputLookup n _ _ _ \<Rightarrow> n \<noteq> [] | _ \<Rightarrow> True)"

definition bindable_shape_ok :: "bindable \<Rightarrow> bool" where
  "bindable_shape_ok b = (case b of BindString _ \<Rightarrow> True | BindSlot s \<Rightarrow> binding_shape_ok s)"

definition gate_shape_ok :: "output_gate_definition \<Rightarrow> bool" where
  "gate_shape_ok g \<longleftrightarrow>
     og_output g \<noteq> [] \<and> og_steps g \<noteq> [] \<and>
     list_all (\<lambda>s. gs_type s \<in> {''artifact_approval'', ''merge_confirmation''} \<and>
       gs_actions s \<noteq> [] \<and> list_all (\<lambda>a. a \<noteq> []) (gs_actions s)) (og_steps g)"

definition fan_out_shape_ok :: "fan_out_definition \<Rightarrow> bool" where
  "fan_out_shape_ok f \<longleftrightarrow>
     binding_shape_ok (fo_over f) \<and> fo_unit_id_path f \<noteq> [] \<and>
     (case fo_session_mode f of None \<Rightarrow> True | Some m \<Rightarrow> m \<in> {''per_unit'', ''shared''}) \<and>
     (case fo_max_parallel f of None \<Rightarrow> True | Some n \<Rightarrow> 0 < n) \<and>
     (case fo_item_bindings f of None \<Rightarrow> True | Some bs \<Rightarrow> list_all binding_shape_ok (obj_values bs)) \<and>
     (case fo_workdir f of None \<Rightarrow> True | Some b \<Rightarrow> binding_shape_ok b) \<and>
     (case fo_worktree f of None \<Rightarrow> True
      | Some w \<Rightarrow> bindable_shape_ok (wt_branch_name w) \<and> bindable_shape_ok (wt_worktree_subdir w) \<and>
          (case wt_base_ref w of None \<Rightarrow> True | Some b \<Rightarrow> bindable_shape_ok b))"

definition delegated_shape_ok :: "delegated_session_config \<Rightarrow> bool" where
  "delegated_shape_ok c \<longleftrightarrow>
     bindable_shape_ok (dc_runtime c) \<and> dc_prompt_template_path c \<noteq> [] \<and>
     list_all binding_shape_ok (obj_values (dc_slot_bindings c)) \<and>
     binding_shape_ok (dc_workdir c) \<and> dc_session_name c \<noteq> [] \<and>
     (case dc_model c of None \<Rightarrow> True | Some b \<Rightarrow> bindable_shape_ok b) \<and>
     (case dc_effort c of None \<Rightarrow> True | Some b \<Rightarrow> bindable_shape_ok b) \<and>
     (case dc_fan_out c of None \<Rightarrow> True | Some f \<Rightarrow> fan_out_shape_ok f) \<and>
     (case dc_artifacts c of None \<Rightarrow> True | Some a \<Rightarrow> binding_shape_ok (ac_over a) \<and> ac_id_path a \<noteq> []) \<and>
     (case dc_output_gate c of None \<Rightarrow> True | Some g \<Rightarrow> gate_shape_ok g) \<and>
     (case dc_output_handoff c of None \<Rightarrow> True
      | Some h \<Rightarrow> oh_output h \<noteq> [] \<and> oh_approved_wait_kind h \<noteq> [])"

text \<open>The \<open>superRefine\<close> callback of the output gate: one message per repeated step type or unknown action.\<close>

fun gate_step_issues :: "string list \<Rightarrow> output_gate_step list \<Rightarrow> string list" where
  "gate_step_issues seen [] = []"
| "gate_step_issues seen (step # steps) =
     (if gs_type step \<in> set seen
      then [''output_gate step type '' @ sq (gs_type step) @ '' must be unique''] else []) @
     map (\<lambda>a. ''output_gate step '' @ sq (gs_type step) @ '' action '' @ sq a @
            '' has no known disposition; expected one of '' @
            js_join '', '' (obj_keys BUILT_IN_GATE_DISPOSITIONS))
       (filter (\<lambda>a. \<not> isBuiltInGateAction a) (gs_actions step)) @
     gate_step_issues (gs_type step # seen) steps"

definition output_gate_issues :: "output_gate_definition \<Rightarrow> string list" where
  "output_gate_issues gate = gate_step_issues [] (og_steps gate)"

text \<open>\<open>[a, b, c].filter(Boolean)\<close>: an absent policy and the empty string are dropped.\<close>

definition terminal_policies :: "delegated_session_config \<Rightarrow> nat" where
  "terminal_policies c =
     (case dc_gate_output c of Some (_ # _) \<Rightarrow> 1 | _ \<Rightarrow> 0) +
     (if dc_output_gate c \<noteq> None then 1 else 0) +
     (if dc_output_handoff c \<noteq> None then 1 else 0)"

definition delegated_session_issues :: "delegated_session_config \<Rightarrow> string list" where
  "delegated_session_issues c =
     (case dc_output_gate c of None \<Rightarrow> [] | Some g \<Rightarrow> output_gate_issues g) @
     (if dc_fan_out c \<noteq> None \<and> dc_artifacts c \<noteq> None
      then [''fan_out and artifacts are mutually exclusive''] else []) @
     (case dc_fan_out c of
        None \<Rightarrow> []
      | Some f \<Rightarrow>
          if fo_worktree f \<noteq> None \<and> (case fo_inherit_worktree_from f of Some (_ # _) \<Rightarrow> True | _ \<Rightarrow> False)
          then [''fan_out.worktree and fan_out.inherit_worktree_from are mutually exclusive''] else []) @
     (if 1 < terminal_policies c
      then [''gate_output, output_gate, and output_handoff are mutually exclusive''] else [])"

definition delegatedSessionDefinitionSchema :: "zod_env \<Rightarrow> json \<Rightarrow> string + delegated_session_config" where
  "delegatedSessionDefinitionSchema z raw =
     bind_result (zod_delegated_shape z raw)
       (\<lambda>c. if \<not> delegated_shape_ok c then Err (zod_issues z [])
            else if delegated_session_issues c \<noteq> [] then Err (zod_issues z (delegated_session_issues c))
            else Ok c)"

definition repositoryProvisioningDefinitionSchema ::
    "zod_env \<Rightarrow> json \<Rightarrow> string + repository_provisioning_config" where
  "repositoryProvisioningDefinitionSchema z raw =
     bind_result (zod_provisioning_shape z raw)
       (\<lambda>c. if binding_shape_ok (rp_repositories c) \<and> binding_shape_ok (rp_base_branch c) \<and> 0 < rp_max_parallel c
            then Ok c else Err (zod_issues z []))"

section \<open>Validating the graph\<close>

datatype validation_operation = ParseWorkflowDefinition | ValidateWorkflowGraph

record validation_error =
  ve_operation :: validation_operation
  ve_detail :: string

abbreviation graph_error :: "string \<Rightarrow> validation_error" where
  "graph_error detail \<equiv> \<lparr>ve_operation = ValidateWorkflowGraph, ve_detail = detail\<rparr>"

definition selectIncrementalInputViolation ::
    "string \<Rightarrow> input_slot list \<Rightarrow> fan_out_definition option \<Rightarrow> string option" where
  "selectIncrementalInputViolation stageKey inputs fanOut =
     (case filter (\<lambda>slot. is_delivery slot = UnitComplete) inputs of
        [] \<Rightarrow> None
      | first # _ \<Rightarrow>
          (case fanOut of
             None \<Rightarrow> Some (''stage '' @ sq stageKey @ '' consumes incremental input '' @ sq (is_name first) @
                        '' but does not fan out'')
           | Some f \<Rightarrow>
               if binding_from (fo_over f) \<noteq> ''input''
               then Some (''stage '' @ sq stageKey @ '' fans out over a '' @ sq (binding_from (fo_over f)) @
                          '' binding, so incremental input '' @ sq (is_name first) @ '' drives nothing'')
               else None))"

text \<open>\<open>gate_output ?? output_gate?.output ?? output_handoff?.output\<close>, then tested for truth.\<close>

definition terminal_output :: "delegated_session_config \<Rightarrow> string option" where
  "terminal_output c =
     (case dc_gate_output c of
        Some g \<Rightarrow> Some g
      | None \<Rightarrow>
          (case dc_output_gate c of
             Some g \<Rightarrow> Some (og_output g)
           | None \<Rightarrow> map_option oh_output (dc_output_handoff c)))"

definition validate_delegated ::
    "zod_env \<Rightarrow> string \<Rightarrow> stage_node \<Rightarrow> validation_error + fan_out_definition option" where
  "validate_delegated z stageKey stage =
     (if sn_stage_type stage \<noteq> ''delegated_session'' then Ok None
      else case delegatedSessionDefinitionSchema z (sn_config stage) of
        Inl e \<Rightarrow> Err (graph_error (''stage '' @ sq stageKey @ '' config invalid: '' @ e))
      | Inr config \<Rightarrow>
          (case terminal_output config of
             Some (t # ts) \<Rightarrow>
               if \<not> list_ex (\<lambda>output. os_name output = t # ts) (sn_outputs stage)
               then Err (graph_error (''stage '' @ sq stageKey @ '' terminal output '' @ sq (t # ts) @ '' is not declared''))
               else Ok (dc_fan_out config)
           | _ \<Rightarrow> Ok (dc_fan_out config)))"

definition validate_provisioning :: "zod_env \<Rightarrow> string \<Rightarrow> stage_node \<Rightarrow> validation_error + unit" where
  "validate_provisioning z stageKey stage =
     (if sn_stage_type stage \<noteq> PROVISION_REPOSITORY_REFS_STAGE_TYPE then Ok ()
      else case repositoryProvisioningDefinitionSchema z (sn_config stage) of
        Inl e \<Rightarrow> Err (graph_error (''stage '' @ sq stageKey @ '' config invalid: '' @ e))
      | Inr config \<Rightarrow>
          (case sn_outputs stage of
             [output] \<Rightarrow>
               if os_artifact_type output \<noteq> REPOSITORY_REFS_ARTIFACT_TYPE
               then Err (graph_error (''stage '' @ sq stageKey @ '' output '' @ sq (os_name output) @
                      '' must have artifact type '' @ sq REPOSITORY_REFS_ARTIFACT_TYPE))
               else Ok ()
           | outputs \<Rightarrow> Err (graph_error (''stage '' @ sq stageKey @ '' must declare exactly one output, found '' @
                      nat_to_string (length outputs)))))"

definition validate_stage :: "zod_env \<Rightarrow> string \<times> stage_node \<Rightarrow> validation_error + unit" where
  "validate_stage z entry =
     (let (stageKey, stage) = entry
      in if sn_outputs stage = [] then Err (graph_error (''stage '' @ sq stageKey @ '' must declare at least one output''))
         else bind_result (validate_delegated z stageKey stage) (\<lambda>fanOut.
              bind_result (validate_provisioning z stageKey stage) (\<lambda>_.
                case selectIncrementalInputViolation stageKey (sn_inputs stage) fanOut of
                  Some violation \<Rightarrow> Err (graph_error violation)
                | None \<Rightarrow> Ok ())))"

definition validate_edge :: "stage_node js_obj \<Rightarrow> edge \<Rightarrow> validation_error + unit" where
  "validate_edge stages e =
     (case (readOwn stages (from_stage e), readOwn stages (to_stage e)) of
        (Some producer, Some consumer) \<Rightarrow>
          (case (List.find (\<lambda>slot. os_name slot = from_slot e) (sn_outputs producer),
                 List.find (\<lambda>slot. is_name slot = to_slot e) (sn_inputs consumer)) of
             (Some output, Some input) \<Rightarrow>
               if os_artifact_type output \<noteq> is_artifact_type input
               then Err (graph_error (''edge artifact types differ: '' @ os_artifact_type output @ '' -> '' @ is_artifact_type input))
               else Ok ()
           | _ \<Rightarrow> Err (graph_error (''edge references unknown slot: '' @ from_stage e @ ''.'' @ from_slot e @
                    '' -> '' @ to_stage e @ ''.'' @ to_slot e)))
      | _ \<Rightarrow> Err (graph_error (''edge references unknown stage: '' @ from_stage e @ '' -> '' @ to_stage e)))"

definition validateGraphReferences ::
    "zod_env \<Rightarrow> workflow_definition \<Rightarrow> validation_error + workflow_definition" where
  "validateGraphReferences z d =
     bind_result (map_result (validate_stage z) (graph_stages (wd_graph d))) (\<lambda>_.
     bind_result (map_result (validate_edge (graph_stages (wd_graph d))) (graph_edges (wd_graph d))) (\<lambda>_.
       Ok d))"

definition parseWorkflowDefinition :: "zod_env \<Rightarrow> json \<Rightarrow> validation_error + workflow_definition" where
  "parseWorkflowDefinition z input =
     (case zod_definition_shape z input of
        Inl e \<Rightarrow> Err \<lparr>ve_operation = ParseWorkflowDefinition, ve_detail = e\<rparr>
      | Inr d \<Rightarrow> validateGraphReferences z d)"

section \<open>Lemmas\<close>

lemma readOwn_eq [simp]: "readOwn ob key = obj_get ob key"
  using obj_get_None_iff [of ob key] by (auto simp: readOwn_def)

lemma map_result_unit:
  "map_result f xs = Inr us \<Longrightarrow> x \<in> set xs \<Longrightarrow> \<exists>u. f x = Inr u"
  by (auto simp: map_result_Inr_iff list_all2_conv_all_nth in_set_conv_nth)

lemma gate_step_issues_builtin:
  "gate_step_issues seen steps = [] \<Longrightarrow> step \<in> set steps \<Longrightarrow> action \<in> set (gs_actions step) \<Longrightarrow>
   isBuiltInGateAction action"
  by (induction seen steps rule: gate_step_issues.induct) (auto simp: filter_empty_conv)

lemma delegated_schema_issues:
  "delegatedSessionDefinitionSchema z raw = Inr c \<Longrightarrow>
   delegated_session_issues c = [] \<and> delegated_shape_ok c \<and> zod_delegated_shape z raw = Inr c"
  by (auto simp: delegatedSessionDefinitionSchema_def split: if_splits)

lemma validateGraphReferences_same:
  "validateGraphReferences z d = Inr d' \<Longrightarrow> d' = d"
  by (auto simp: validateGraphReferences_def)

lemma validateGraphReferences_stage:
  assumes "validateGraphReferences z d = Inr d'" and "(k, node) \<in> set (graph_stages (wd_graph d))"
  shows "validate_stage z (k, node) = Inr ()"
  using assms by (auto simp: validateGraphReferences_def dest: map_result_unit)

lemma validateGraphReferences_edge:
  assumes "validateGraphReferences z d = Inr d'" and "e \<in> set (graph_edges (wd_graph d))"
  shows "validate_edge (graph_stages (wd_graph d)) e = Inr ()"
  using assms by (auto simp: validateGraphReferences_def dest: map_result_unit)

lemma validate_edge_slots:
  assumes "validate_edge stages e = Inr ()"
  obtains producer consumer outp inp
  where "obj_get stages (from_stage e) = Some producer" "obj_get stages (to_stage e) = Some consumer"
    "List.find (\<lambda>slot. os_name slot = from_slot e) (sn_outputs producer) = Some outp"
    "List.find (\<lambda>slot. is_name slot = to_slot e) (sn_inputs consumer) = Some inp"
    "os_artifact_type outp = is_artifact_type inp"
  using assms that by (auto simp: validate_edge_def split: option.splits if_splits)

lemma validate_stage_delegated:
  assumes "validate_stage z (k, node) = Inr ()" and "sn_stage_type node = ''delegated_session''"
  obtains c where "delegatedSessionDefinitionSchema z (sn_config node) = Inr c"
  using assms that
  by (auto simp: validate_stage_def validate_delegated_def split: if_splits sum.splits)

lemma validate_stage_provisioning:
  assumes "validate_stage z (k, node) = Inr ()"
    and "sn_stage_type node = PROVISION_REPOSITORY_REFS_STAGE_TYPE"
  obtains c where "repositoryProvisioningDefinitionSchema z (sn_config node) = Inr c"
  using assms that
  by (auto simp: validate_stage_def validate_provisioning_def split: if_splits sum.splits)

lemma validate_stage_outputs: "validate_stage z (k, node) = Inr () \<Longrightarrow> sn_outputs node \<noteq> []"
  by (auto simp: validate_stage_def)

end
