(* ===== verification/RunTypes.thy ===== *)
theory RunTypes
  imports Workflow
begin

text \<open>
  The vocabulary of runs: \<open>domain/execution.ts\<close>, \<open>domain/run-record.ts\<close>,
  \<open>domain/wait.ts\<close>, \<open>decision/snapshot.ts\<close> and \<open>decision/commands.ts\<close>.

  Identifiers and timestamps are strings. An artifact envelope that reaches the decision
  layer is an \<open>AvailableArtifact\<close>, so the record of envelopes has the optional members of
  both interfaces.
\<close>

section \<open>Executions\<close>

record artifact_envelope =
  ae_artifact_id :: string
  ae_chain_id :: "string option"
  ae_producer_stage_key :: "string option"
  ae_producer_execution_id :: "string option"
  ae_unit_id :: string
  ae_output_name :: string
  ae_artifact_type :: string
  ae_body :: json

text \<open>The envelope as \<open>JSON.stringify\<close> sees it: members in the order the storage layer writes them.\<close>

definition envelope_json :: "artifact_envelope \<Rightarrow> json" where
  "envelope_json a =
     JObj ([(''artifact_id'', JStr (ae_artifact_id a))] @
           (case ae_chain_id a of None \<Rightarrow> [] | Some c \<Rightarrow> [(''chain_id'', JStr c)]) @
           (case ae_producer_stage_key a of None \<Rightarrow> [] | Some k \<Rightarrow> [(''producer_stage_key'', JStr k)]) @
           (case ae_producer_execution_id a of None \<Rightarrow> [] | Some e \<Rightarrow> [(''producer_execution_id'', JStr e)]) @
           [(''unit_id'', JStr (ae_unit_id a)), (''output_name'', JStr (ae_output_name a)),
            (''artifact_type'', JStr (ae_artifact_type a)), (''body'', ae_body a)])"

datatype stage_input = One artifact_envelope | Many "artifact_envelope list"

type_synonym stage_input_set = "stage_input js_obj"

datatype terminal_observation =
    ObservedSucceeded json
  | ObservedFailed string string
  | ObservedCancelled "string option"

datatype external_reference =
    KbblSession string "string option"
  | HeadlessRun string
  | CompletedWork terminal_observation
  | NoReference

datatype observation_attempt = ObservationPending | ObservationTerminal terminal_observation

record output_contract =
  oc_name :: string
  oc_artifact_type :: string
  oc_required :: bool

record expected_artifact =
  ea_unit_id :: string
  ea_output_name :: string
  ea_artifact_type :: string

record execution_request =
  er_execution_id :: string
  er_stage_instance_id :: string
  er_unit_id :: string
  er_executor_type :: string
  er_resolved_config :: json
  er_inputs :: "artifact_envelope list"
  er_declared_outputs :: "output_contract list"
  er_expected_artifacts :: "expected_artifact list"
  er_workspace_source :: "(string \<times> external_reference) option"

section \<open>Run records\<close>

datatype run_state = RunActive | RunSucceeded | RunFailed | RunCancelled
datatype unit_state = UReady | UWorking | UWaiting | USatisfied | UFailed | UCancelled
datatype work_order_state = WAvailable | WStarted | WCompleted | WAbandoned
datatype work_order_reason = ReasonInitial | ReasonOperatorRetry | ReasonInputRevision

record workflow_run =
  run_id :: string
  run_definition_id :: string
  run_definition_version :: nat
  run_context :: json
  run_state :: run_state
  run_outcome :: "stage_outcome option"
  run_record_version :: nat
  run_created_at :: string
  run_ended_at :: "string option"

datatype slot_identity = ScalarSlot string | CollectionMember string string

fun identity_output_name :: "slot_identity \<Rightarrow> string" where
  "identity_output_name (ScalarSlot n) = n"
| "identity_output_name (CollectionMember n _) = n"

fun identity_collection_key :: "slot_identity \<Rightarrow> string option" where
  "identity_collection_key (ScalarSlot _) = None"
| "identity_collection_key (CollectionMember _ k) = Some k"

datatype invalidation_reason = InputRevised string | OperatorInvalidated string

datatype slot_state =
    SlotEmpty
  | SlotPending string string string
  | SlotReleased string string
  | SlotInvalidated "string option" invalidation_reason string

record run_output_slot =
  slot_run_unit_id :: string
  slot_identity :: slot_identity
  slot_artifact_type :: string
  slot_required :: bool
  slot_release :: output_release
  slot_state :: slot_state
  slot_updated_by :: "string option"
  slot_version :: nat

record work_order =
  wo_id :: string
  wo_run_unit_id :: string
  wo_reason :: work_order_reason
  wo_input_snapshot :: "artifact_envelope list"
  wo_input_fingerprint :: string
  wo_state :: work_order_state
  wo_workflow_id :: string
  wo_request_idempotency_key :: string
  wo_created_at :: string
  wo_completed_at :: "string option"

datatype executor_health =
    HealthRunning string
  | HealthUnresponsive string string
  | HealthEndedSucceeded json string
  | HealthEndedFailed string string string
  | HealthEndedCancelled "string option" string

datatype cleanup_state = CleanupNotNeeded | CleanupRequested | CleanupComplete | CleanupFailed

record executor_attachment =
  at_work_order_id :: string
  at_executor_type :: string
  at_external_reference :: "external_reference option"
  at_health :: "executor_health option"
  at_cleanup_state :: cleanup_state
  at_updated_at :: string

record materialized_output =
  mo_identity :: slot_identity
  mo_artifact_type :: string
  mo_required :: bool
  mo_release :: output_release

record materialized_work_order =
  mw_id :: string
  mw_workflow_id :: string
  mw_capability_hash :: string
  mw_request :: execution_request

record materialized_unit =
  mu_id :: string
  mu_unit_id :: string
  mu_parameters :: json
  mu_input_snapshot :: "artifact_envelope list"
  mu_input_fingerprint :: string
  mu_depends_on :: "string list"
  mu_outputs :: "materialized_output list"
  mu_initial_work_order :: materialized_work_order

definition executorHealthFromTerminal :: "terminal_observation \<Rightarrow> string \<Rightarrow> executor_health" where
  "executorHealthFromTerminal observation observed_at =
     (case observation of
        ObservedSucceeded metadata \<Rightarrow> HealthEndedSucceeded metadata observed_at
      | ObservedFailed code detail \<Rightarrow> HealthEndedFailed code detail observed_at
      | ObservedCancelled detail \<Rightarrow> HealthEndedCancelled detail observed_at)"

section \<open>Waits\<close>

datatype wait_kind = WaitGate | WaitHandoffDownstream | WaitHandoffExternal

datatype wait_closes_on =
    ClosesGate string "string list"
  | ClosesHandoffDownstream operator_role
  | ClosesHandoffExternal string string

fun closes_on_kind :: "wait_closes_on \<Rightarrow> wait_kind" where
  "closes_on_kind (ClosesGate _ _) = WaitGate"
| "closes_on_kind (ClosesHandoffDownstream _) = WaitHandoffDownstream"
| "closes_on_kind (ClosesHandoffExternal _ _) = WaitHandoffExternal"

datatype wait_outcome =
    WaitDecided string "string option" "string option"
  | WaitExternalCompleted string
  | WaitSuperseded string
  | WaitWithdrawn
  | WaitCancelled "string option"

datatype wait_status = WaitOpen | WaitClosed wait_outcome string

record wait =
  wait_id :: string
  wait_stage_instance_id :: string
  wait_unit_id :: string
  wait_artifact_revision_id :: string
  wait_closes_on :: wait_closes_on
  wait_status :: wait_status
  wait_run_unit_id :: "string option"
  wait_output_name :: "string option"
  wait_collection_key :: "string option"
  wait_execution_workflow_id :: string
  wait_command_workflow_id :: string
  wait_opened_at :: string

datatype handoff_wait_kind = HandoffDownstreamWait | HandoffExternalWait
datatype handoff_status =
    AwaitingDownstream | AwaitingExternal | RevisionRequested | HandoffReleased
  | HandoffSuperseded | HandoffWithdrawn | HandoffCancelled

text \<open>The status and outcome columns of a row; the outcome may be absent.\<close>

definition selectHandoffStatusFromWait ::
    "handoff_wait_kind \<Rightarrow> bool \<Rightarrow> wait_outcome option \<Rightarrow> string + handoff_status" where
  "selectHandoffStatusFromWait kind is_open outcome =
     (if is_open then Ok (if kind = HandoffExternalWait then AwaitingExternal else AwaitingDownstream)
      else case outcome of
        Some (WaitSuperseded _) \<Rightarrow> Ok HandoffSuperseded
      | Some WaitWithdrawn \<Rightarrow> Ok HandoffWithdrawn
      | Some (WaitCancelled _) \<Rightarrow> Ok HandoffCancelled
      | Some (WaitExternalCompleted _) \<Rightarrow> Ok HandoffReleased
      | Some (WaitDecided _ _ _) \<Rightarrow> Ok RevisionRequested
      | None \<Rightarrow> Err (''a closed handoff wait carries no outcome (kind '' @
          sq (case kind of HandoffExternalWait \<Rightarrow> ''handoff_external'' | HandoffDownstreamWait \<Rightarrow> ''handoff_downstream'') @
          '')''))"

section \<open>The snapshot the decision layer reads\<close>

record stage_policy =
  max_parallel :: nat
  manual_admission :: bool

record unit_snapshot =
  us_id :: string
  us_unit_id :: string
  us_parameters :: json
  us_input_fingerprint :: string
  us_state :: unit_state
  us_admitted :: bool
  us_outcome :: "stage_outcome option"
  us_depends_on :: "string list"
  us_required_slots :: "run_output_slot list"
  us_open_waits :: "wait list"
  us_work_orders :: "work_order list"

record stage_snapshot =
  ss_id :: string
  ss_stage_key :: string
  ss_state :: run_state
  ss_materialization_closed :: bool
  ss_policy :: stage_policy
  ss_units :: "unit_snapshot list"

record run_snapshot =
  snap_run :: workflow_run
  snap_definition :: compiled_workflow
  snap_stages :: "stage_snapshot list"
  snap_available_artifacts :: "artifact_envelope list"

section \<open>Commands and contradictions\<close>

record materialize_unit_command =
  mc_stage_key :: string
  mc_stage_instance_id :: string
  mc_run_unit_id :: string
  mc_unit_id :: string
  mc_parameters :: json
  mc_depends_on :: "string list"
  mc_inputs :: stage_input_set
  mc_input_snapshot :: "artifact_envelope list"
  mc_input_fingerprint :: string
  mc_outputs :: "materialized_output list"
  mc_policy :: stage_policy

record revise_unit_command =
  rc_stage_key :: string
  rc_stage_instance_id :: string
  rc_run_unit_id :: string
  rc_unit_id :: string
  rc_parameters :: json
  rc_inputs :: stage_input_set
  rc_input_snapshot :: "artifact_envelope list"
  rc_input_fingerprint :: string

datatype command =
    MaterializeStage string string stage_policy
  | MaterializeUnit materialize_unit_command
  | ReviseUnit revise_unit_command
  | CloseMaterialization string string stage_policy
  | MarkUnitSatisfied string
  | StartWork string string
  | MarkStageSucceeded string
  | CompleteRun stage_outcome

datatype contradiction =
    UnknownDependencyAtClose string string string
  | DependencyCycle string "string list"
  | MalformedDriverArtifact string "string option" string string

datatype ask_result =
    AskComplete stage_outcome
  | AskRecheck nat "(string \<times> string) list"
  | AskWait nat

end
