(* ===== verification/Compiler.thy ===== *)
theory Compiler
  imports RunTypes
begin

text \<open>
  From a validated definition to what runs: \<open>compiler/compile-workflow.ts\<close> (the compiled
  workflow), \<open>compiler/context-requirements.ts\<close> (what a launch must supply) and
  \<open>compiler/resolve-execution.ts\<close> (the bindings and the prompt of one execution).
\<close>

section \<open>Compiling a definition\<close>

record compile_error =
  cerr_stage_key :: "string option"
  cerr_detail :: string

record stage_type_compilation =
  stc_definition_config :: definition_config
  stc_materialization :: materialization
  stc_output_release :: "string \<Rightarrow> output_release"

type_synonym stage_type_compiler = "string \<Rightarrow> json \<Rightarrow> compile_error + stage_type_compilation"

definition compileGateStep :: "output_gate_step \<Rightarrow> compiled_gate_step" where
  "compileGateStep step =
     \<lparr>cg_type = gs_type step,
      cg_actions = map (\<lambda>name. \<lparr>ga_name = name, ga_disposition = selectBuiltInGateDisposition name\<rparr>) (gs_actions step)\<rparr>"

definition gate_output_steps :: "output_gate_step list" where
  "gate_output_steps =
     [\<lparr>gs_type = ''artifact_approval'', gs_actions = [''approve'', ''request_revision'']\<rparr>,
      \<lparr>gs_type = ''merge_confirmation'', gs_actions = [''confirm_merged'', ''closed_without_merge'']\<rparr>]"

definition outputRelease :: "string \<Rightarrow> delegated_session_config \<Rightarrow> output_release" where
  "outputRelease outputName config =
     (let otherwise =
        (if dc_gate_output config = Some outputName
         then Gate (map compileGateStep gate_output_steps) True SelfStage
         else case dc_output_handoff config of
           Some h \<Rightarrow> if oh_output h = outputName then Handoff (oh_downstream_role h) (oh_approved_wait_kind h) else Immediate
         | None \<Rightarrow> Immediate)
      in case dc_output_gate config of
           Some g \<Rightarrow>
             if og_output g = outputName
             then Gate (map compileGateStep (og_steps g))
                    (case og_requires_zero_open_review_items g of Some b \<Rightarrow> b | None \<Rightarrow> False)
                    (case og_revision_target g of Some t \<Rightarrow> t | None \<Rightarrow> SelfStage)
             else otherwise
         | None \<Rightarrow> otherwise)"

definition materialization_of :: "delegated_session_config \<Rightarrow> materialization" where
  "materialization_of config =
     (case dc_artifacts config of
        Some a \<Rightarrow> ArtifactCollection (ac_over a) (ac_id_path a)
      | None \<Rightarrow>
          (case dc_fan_out config of
             Some f \<Rightarrow> FanOut (fo_over f) (fo_unit_id_path f) (fo_depends_on_path f)
                         (case fo_max_parallel f of Some n \<Rightarrow> n | None \<Rightarrow> 8)
                         (case fo_manual_admission f of Some b \<Rightarrow> b | None \<Rightarrow> False)
           | None \<Rightarrow> Scalar))"

definition delegatedSessionStageTypeCompiler :: "zod_env \<Rightarrow> stage_type_compiler" where
  "delegatedSessionStageTypeCompiler z stageKey rawConfig =
     (case delegatedSessionDefinitionSchema z rawConfig of
        Inl e \<Rightarrow> Err \<lparr>cerr_stage_key = Some stageKey, cerr_detail = e\<rparr>
      | Inr config \<Rightarrow>
          Ok \<lparr>stc_definition_config = DelegatedConfig config,
              stc_materialization = materialization_of config,
              stc_output_release = (\<lambda>outputName. outputRelease outputName config)\<rparr>)"

definition repositoryProvisioningStageTypeCompiler :: "zod_env \<Rightarrow> stage_type_compiler" where
  "repositoryProvisioningStageTypeCompiler z stageKey rawConfig =
     (case repositoryProvisioningDefinitionSchema z rawConfig of
        Inl e \<Rightarrow> Err \<lparr>cerr_stage_key = Some stageKey, cerr_detail = e\<rparr>
      | Inr config \<Rightarrow>
          Ok \<lparr>stc_definition_config = ProvisioningConfig config,
              stc_materialization =
                FanOut (rp_repositories config) RUN_CONTEXT_REPOSITORY_KEY_POINTER None (rp_max_parallel config) False,
              stc_output_release = (\<lambda>_. Immediate)\<rparr>)"

definition builtInStageTypeCompilers :: "zod_env \<Rightarrow> stage_type_compiler js_obj" where
  "builtInStageTypeCompilers z =
     [(''delegated_session'', delegatedSessionStageTypeCompiler z),
      (PROVISION_REPOSITORY_REFS_STAGE_TYPE, repositoryProvisioningStageTypeCompiler z)]"

text \<open>
  \<open>registry[node.stage_type]\<close> is a plain index: for the name of a member of
  \<open>Object.prototype\<close> it finds an object without a \<open>compile\<close> method, and the call throws.
\<close>

definition compileStage ::
    "stage_type_compiler js_obj \<Rightarrow> string \<Rightarrow> stage_node \<Rightarrow> compile_error failure + compiled_stage" where
  "compileStage registry stageKey node =
     (case obj_get registry (sn_stage_type node) of
        None \<Rightarrow>
          if sn_stage_type node \<in> set (''__proto__'' # object_prototype_functions)
          then Throw ''TypeError: compiler.compile is not a function''
          else Refuse \<lparr>cerr_stage_key = Some stageKey, cerr_detail = ''unregistered stage type '' @ sq (sn_stage_type node)\<rparr>
      | Some compiler \<Rightarrow>
          (case compiler stageKey (sn_config node) of
             Inl e \<Rightarrow> Refuse e
           | Inr c \<Rightarrow>
               Ok \<lparr>cs_stage_key = stageKey, cs_stage_type = sn_stage_type node,
                   cs_operator_role = sn_operator_role node, cs_inputs = sn_inputs node,
                   cs_outputs = map (\<lambda>out. \<lparr>co_name = os_name out, co_artifact_type = os_artifact_type out,
                                           co_release = stc_output_release c (os_name out)\<rparr>) (sn_outputs node),
                   cs_materialization = stc_materialization c,
                   cs_executor_type = sn_stage_type node,
                   cs_definition_config = stc_definition_config c\<rparr>))"

definition find_input :: "compiled_stage js_obj \<Rightarrow> string \<Rightarrow> string \<Rightarrow> input_slot option" where
  "find_input stages stage slot =
     (case readOwn stages stage of
        None \<Rightarrow> None
      | Some consumer \<Rightarrow> List.find (\<lambda>candidate. is_name candidate = slot) (cs_inputs consumer))"

definition compileEdge :: "compiled_stage js_obj \<Rightarrow> edge \<Rightarrow> compile_error failure + compiled_edge" where
  "compileEdge stages e =
     (case find_input stages (to_stage e) (to_slot e) of
        None \<Rightarrow> Throw (''validated edge input disappeared: '' @ to_stage e @ ''.'' @ to_slot e)
      | Some inp \<Rightarrow>
          Ok \<lparr>ce_producer_stage = from_stage e, ce_producer_output = from_slot e,
              ce_consumer_stage = to_stage e, ce_consumer_input = to_slot e, ce_delivery = is_delivery inp\<rparr>)"

text \<open>An edge whose consumer input is found and optional does not block its consumer.\<close>

definition blocks :: "compiled_stage js_obj \<Rightarrow> compiled_edge \<Rightarrow> bool" where
  "blocks stages e =
     (case find_input stages (ce_consumer_stage e) (ce_consumer_input e) of
        None \<Rightarrow> True
      | Some inp \<Rightarrow> \<not> is_optional inp)"

definition compile_stages ::
    "stage_type_compiler js_obj \<Rightarrow> stage_node js_obj \<Rightarrow> compile_error failure + compiled_stage js_obj" where
  "compile_stages registry nodes =
     fold_result (\<lambda>(stageKey, node) stages.
       bind_result (compileStage registry stageKey node) (\<lambda>compiled. Ok (obj_put stageKey compiled stages)))
       nodes []"

definition compileWorkflowDefinition ::
    "stage_type_compiler js_obj \<Rightarrow> workflow_definition \<Rightarrow> compile_error failure + compiled_workflow" where
  "compileWorkflowDefinition registry d =
     bind_result (compile_stages registry (graph_stages (wd_graph d))) (\<lambda>stages.
     bind_result (map_result (compileEdge stages) (graph_edges (wd_graph d))) (\<lambda>edges.
       let blocked = map ce_consumer_stage (filter (blocks stages) edges)
       in Ok \<lparr>cw_stages = stages, cw_edges = edges,
              cw_source_stages = sort (filter (\<lambda>stageKey. stageKey \<notin> set blocked) (obj_keys stages))\<rparr>))"

section \<open>Context requirements\<close>

record context_requirement =
  cr_pointer :: string
  cr_stage_key :: string

definition slotBindingSchema :: "zod_env \<Rightarrow> json \<Rightarrow> slot_binding option" where
  "slotBindingSchema z raw =
     (case zod_slot_binding z raw of
        Some b \<Rightarrow> if binding_shape_ok b then Some b else None
      | None \<Rightarrow> None)"

definition contextPointersOf :: "zod_env \<Rightarrow> json \<Rightarrow> string list" where
  "contextPointersOf z binding =
     (case slotBindingSchema z binding of
        Some (FromContext path) \<Rightarrow> [path]
      | Some (FromContextLookup collection_path _ _ _) \<Rightarrow> [collection_path]
      | _ \<Rightarrow> [])"

text \<open>The pointers \<open>collect\<close> is called with, in order.\<close>

fun walkConfig :: "zod_env \<Rightarrow> json \<Rightarrow> string list" where
  "walkConfig z (JArr xs) = concat (map (walkConfig z) xs)"
| "walkConfig z (JObj kvs) =
     (case contextPointersOf z (JObj kvs) of
        [] \<Rightarrow> concat (map (\<lambda>kv. walkConfig z (snd kv)) kvs)
      | pointers \<Rightarrow> pointers)"
| "walkConfig z _ = []"

text \<open>\<open>byPointer\<close>: a \<open>Map\<close> in insertion order, the first stage kept.\<close>

definition collect_requirement :: "string \<Rightarrow> string \<Rightarrow> context_requirement list \<Rightarrow> context_requirement list" where
  "collect_requirement stageKey pointer byPointer =
     (if list_ex (\<lambda>r. cr_pointer r = pointer) byPointer then byPointer
      else byPointer @ [\<lparr>cr_pointer = pointer, cr_stage_key = stageKey\<rparr>])"

definition contextRequirementsOf :: "zod_env \<Rightarrow> workflow_graph \<Rightarrow> context_requirement list" where
  "contextRequirementsOf z g =
     fold (\<lambda>(stageKey, stage). fold (collect_requirement stageKey) (walkConfig z (sn_config stage)))
       (graph_stages g) []"

definition unsatisfiedContextRequirements ::
    "json \<Rightarrow> context_requirement list \<Rightarrow> context_requirement list" where
  "unsatisfiedContextRequirements context requirements =
     filter (\<lambda>r. readJsonPointer context (cr_pointer r) = Undefined) requirements"

definition describeUnsatisfiedRequirements :: "context_requirement list \<Rightarrow> string" where
  "describeUnsatisfiedRequirements unsatisfied =
     js_join '', '' (map (\<lambda>r. cr_pointer r @ '' ('' @ cr_stage_key r @ '')'') unsatisfied)"

section \<open>Bindings\<close>

record binding_environment =
  be_inputs :: stage_input_set
  be_context :: json
  be_item :: json

text \<open>The error of \<open>resolve_execution\<close> is its detail.\<close>

type_synonym resolve_error = string

definition stringify :: "runtime_env \<Rightarrow> js_value \<Rightarrow> string" where
  "stringify env v =
     (case v of
        JsonV (JStr s) \<Rightarrow> s
      | JsonV j \<Rightarrow> json_stringify j
      | ObjectPrototype \<Rightarrow> ''{}''
      | PrototypeFunction f \<Rightarrow> function_text env f
      | Undefined \<Rightarrow> ''undefined'')"

definition unit_item :: "artifact_envelope \<Rightarrow> json" where
  "unit_item artifact = JObj [(''unit_id'', JStr (ae_unit_id artifact)), (''artifact'', ae_body artifact)]"

fun inputBindingValue :: "stage_input \<Rightarrow> json" where
  "inputBindingValue (Many artifacts) = JArr (map unit_item artifacts)"
| "inputBindingValue (One artifact) = ae_body artifact"

text \<open>
  \<open>environment.inputs[name]\<close>, then \<open>inputBindingValue\<close> of it: \<^const>\<open>None\<close> when the index is
  \<open>undefined\<close>. A member inherited from \<open>Object.prototype\<close> is found and has no \<open>body\<close>.
\<close>

definition input_source :: "stage_input_set \<Rightarrow> string \<Rightarrow> js_value option" where
  "input_source inputs name =
     (case obj_get inputs name of
        Some i \<Rightarrow> Some (JsonV (inputBindingValue i))
      | None \<Rightarrow> if name \<in> set (''__proto__'' # object_prototype_functions) then Some Undefined else None)"

definition input_not_found :: "string \<Rightarrow> resolve_error" where
  "input_not_found name = ''input '' @ sq name @ '' not found''"

definition lookup_binding ::
    "string \<Rightarrow> json \<Rightarrow> (resolve_error + js_value \<times> string) \<Rightarrow> string \<Rightarrow> string \<Rightarrow> string \<Rightarrow> resolve_error + js_value" where
  "lookup_binding lookup item source_of collection_key_path item_key_path value_path =
     (if item = JNull then Err (lookup @ '' used outside fan-out'')
      else case as_nonempty_string (readJsonPointer item item_key_path) of
        None \<Rightarrow> Err (lookup @ '' item key '' @ sq item_key_path @ '' must be a non-empty string'')
      | Some itemKey \<Rightarrow>
          bind_result source_of (\<lambda>(collection, source).
            case as_array collection of
              None \<Rightarrow> Err (lookup @ '' collection '' @ sq source @ '' must be an array'')
            | Some entries \<Rightarrow>
                (case filter (\<lambda>entry. readJsonPointer entry collection_key_path = JsonV (JStr itemKey)) entries of
                   [entry] \<Rightarrow>
                     (case readJsonPointer entry value_path of
                        Undefined \<Rightarrow> Err (lookup @ '' value '' @ sq value_path @ '' not found'')
                      | value \<Rightarrow> Ok value)
                 | matches \<Rightarrow> Err (lookup @ '' key '' @ sq itemKey @ '' matched '' @
                     nat_to_string (length matches) @ '' entries in '' @ sq source))))"

fun resolveBindingValue :: "slot_binding \<Rightarrow> binding_environment \<Rightarrow> resolve_error + js_value" where
  "resolveBindingValue (FromLiteral value) be = Ok (JsonV (JStr value))"
| "resolveBindingValue (FromInput input_name path) be =
     (case input_source (be_inputs be) input_name of
        None \<Rightarrow> Err (input_not_found input_name)
      | Some source \<Rightarrow>
          (case (case path of None \<Rightarrow> source | Some p \<Rightarrow> readFrom source p) of
             Undefined \<Rightarrow> Err (''input pointer '' @ sq (case path of None \<Rightarrow> ''null'' | Some p \<Rightarrow> p) @ '' not found'')
           | value \<Rightarrow> Ok value))"
| "resolveBindingValue (FromContext path) be =
     (case readJsonPointer (be_context be) path of
        Undefined \<Rightarrow> Err (''context pointer '' @ sq path @ '' not found'')
      | value \<Rightarrow> Ok value)"
| "resolveBindingValue (FromItem path) be =
     (if be_item be = JNull then Err ''item binding used outside fan-out''
      else case readJsonPointer (be_item be) path of
        Undefined \<Rightarrow> Err (''item pointer '' @ sq path @ '' not found'')
      | value \<Rightarrow> Ok value)"
| "resolveBindingValue (FromContextLookup collection_path collection_key_path item_key_path value_path) be =
     lookup_binding ''context lookup'' (be_item be)
       (Ok (readJsonPointer (be_context be) collection_path, collection_path))
       collection_key_path item_key_path value_path"
| "resolveBindingValue (FromInputLookup input_name collection_key_path item_key_path value_path) be =
     lookup_binding ''input lookup'' (be_item be)
       (case input_source (be_inputs be) input_name of
          None \<Rightarrow> Err (input_not_found input_name)
        | Some source \<Rightarrow> Ok (source, input_name))
       collection_key_path item_key_path value_path"

definition resolveBinding :: "runtime_env \<Rightarrow> slot_binding \<Rightarrow> binding_environment \<Rightarrow> resolve_error + string" where
  "resolveBinding env binding be = bind_result (resolveBindingValue binding be) (\<lambda>v. Ok (stringify env v))"

definition resolveBindable ::
    "runtime_env \<Rightarrow> bindable option \<Rightarrow> binding_environment \<Rightarrow> resolve_error + string option" where
  "resolveBindable env value be =
     (case value of
        None \<Rightarrow> Ok None
      | Some (BindString s) \<Rightarrow> Ok (Some s)
      | Some (BindSlot b) \<Rightarrow>
          bind_result (resolveBindingValue b be)
            (\<lambda>v. Ok (if v = JsonV JNull then None else Some (stringify env v))))"

section \<open>Rendering the prompt\<close>

definition is_brace :: "char \<Rightarrow> bool" where
  "is_brace c \<longleftrightarrow> c = CHR 0x7B \<or> c = CHR 0x7D"

text \<open>
  A match of the pattern of \<open>renderPrompt\<close> at the head of the text: two opening braces, a
  non-empty run without braces, two closing braces. The key and the text after the match.
\<close>

definition match_slot :: "string \<Rightarrow> (string \<times> string) option" where
  "match_slot s =
     (let body = drop 2 s; key = takeWhile (\<lambda>c. \<not> is_brace c) body; rest = dropWhile (\<lambda>c. \<not> is_brace c) body
      in if take 2 s = [CHR 0x7B, CHR 0x7B] \<and> key \<noteq> [] \<and> take 2 rest = [CHR 0x7D, CHR 0x7D]
         then Some (key, drop 2 rest) else None)"

lemma match_slot_length: "match_slot s = Some (key, rest) \<Longrightarrow> length rest < length s"
proof -
  assume "match_slot s = Some (key, rest)"
  then have ne: "take 2 s \<noteq> []" and rest: "rest = drop 2 (dropWhile (\<lambda>c. \<not> is_brace c) (drop 2 s))"
    by (auto simp: match_slot_def Let_def split: if_splits)
  have "length rest \<le> length (drop 2 s)"
    unfolding rest using length_dropWhile_le [of "\<lambda>c. \<not> is_brace c" "drop 2 s"] by simp
  with ne show ?thesis by (cases s) auto
qed

text \<open>
  The replacer runs on each match from left to right. The result is the rendered text and
  the last key without a value. \<open>slots[key]\<close> is a plain index, so the name of an inherited
  member has a value: the text of a function, or of \<open>Object.prototype\<close>.
\<close>

definition slot_text :: "runtime_env \<Rightarrow> string js_obj \<Rightarrow> string \<Rightarrow> string option" where
  "slot_text env slots key =
     (case obj_get slots key of
        Some v \<Rightarrow> Some v
      | None \<Rightarrow>
          if key = ''__proto__'' then Some ''[object Object]''
          else if key \<in> set object_prototype_functions then Some (function_text env key)
          else None)"

function render :: "(string \<Rightarrow> string option) \<Rightarrow> string \<Rightarrow> string \<times> string option" where
  "render value [] = ([], None)"
| "render value (c # cs) =
     (case match_slot (c # cs) of
        None \<Rightarrow> (let (text, missing) = render value cs in (c # text, missing))
      | Some (key, rest) \<Rightarrow>
          (let (text, missing) = render value rest
           in case value key of
                None \<Rightarrow> (text, if missing = None then Some key else missing)
              | Some v \<Rightarrow> (v @ text, missing)))"
  by pat_completeness auto
termination
  by (relation "measure (\<lambda>(_, s). length s)") (auto dest: match_slot_length)

definition renderPrompt :: "runtime_env \<Rightarrow> string \<Rightarrow> string js_obj \<Rightarrow> resolve_error + string" where
  "renderPrompt env template slots =
     (case render (slot_text env slots) template of
        (rendered, Some missing) \<Rightarrow>
          Err (''template slot '' @ sq ([CHR 0x7B, CHR 0x7B] @ missing @ [CHR 0x7D, CHR 0x7D]) @ '' has no binding'')
      | (rendered, None) \<Rightarrow> Ok rendered)"

section \<open>Resolving one execution\<close>

record resolve_input =
  ri_definition :: delegated_session_config
  ri_environment :: binding_environment
  ri_unit :: execution_unit
  ri_stage_instance_id :: string
  ri_prompt_template :: string

record resolved_executor_config =
  rx_runtime :: string
  rx_rendered_prompt :: string
  rx_workdir :: string
  rx_session_name :: string
  rx_model :: "string option"
  rx_effort :: "string option"
  rx_worktree :: "worktree_identity option"
  rx_pre_authorized_tools :: "string list"
  rx_yolo :: bool

definition DELEGATED_RUNTIME_IDS :: "string list" where
  "DELEGATED_RUNTIME_IDS = [''claude-code'', ''codex'']"

definition isDelegatedRuntimeId :: "string option \<Rightarrow> bool" where
  "isDelegatedRuntimeId v = (case v of None \<Rightarrow> False | Some s \<Rightarrow> s \<in> set DELEGATED_RUNTIME_IDS)"

definition resolve_slots ::
    "runtime_env \<Rightarrow> binding_environment \<Rightarrow> slot_binding js_obj \<Rightarrow> string js_obj \<Rightarrow> resolve_error + string js_obj" where
  "resolve_slots env be bindings slots =
     fold_result (\<lambda>(name, binding) acc.
       bind_result (resolveBinding env binding be) (\<lambda>value. Ok (obj_put name value acc))) bindings slots"

definition identity_slots :: "execution_unit \<Rightarrow> string \<Rightarrow> string js_obj" where
  "identity_slots u stage_instance_id =
     [(''UNIT_ID'', eu_unit_id u), (''STAGE_INSTANCE_ID'', stage_instance_id)]"

definition substituteIdentity :: "execution_unit \<Rightarrow> string \<Rightarrow> string \<Rightarrow> string" where
  "substituteIdentity u stage_instance_id value =
     replace_all_from ([CHR 0x7B, CHR 0x7B] @ ''STAGE_INSTANCE_ID'' @ [CHR 0x7D, CHR 0x7D]) stage_instance_id []
       (replace_all_from ([CHR 0x7B, CHR 0x7B] @ ''UNIT_ID'' @ [CHR 0x7D, CHR 0x7D]) (eu_unit_id u) [] value)"

definition resolve_worktree ::
    "runtime_env \<Rightarrow> binding_environment \<Rightarrow> execution_unit \<Rightarrow> string \<Rightarrow> worktree_template
     \<Rightarrow> resolve_error + worktree_identity" where
  "resolve_worktree env be u sid t =
     bind_result (resolveBindable env (Some (wt_branch_name t)) be) (\<lambda>branchName.
     bind_result (resolveBindable env (Some (wt_worktree_subdir t)) be) (\<lambda>worktreeSubdir.
     bind_result (resolveBindable env (wt_base_ref t) be) (\<lambda>baseRef.
       case (branchName, worktreeSubdir) of
         (Some (b # bs), Some (w # ws)) \<Rightarrow>
           Ok \<lparr>wi_branch_name = substituteIdentity u sid (b # bs),
               wi_worktree_subdir = substituteIdentity u sid (w # ws),
               wi_base_ref = (case baseRef of Some (r # rs) \<Rightarrow> Some (substituteIdentity u sid (r # rs)) | _ \<Rightarrow> None)\<rparr>
       | _ \<Rightarrow> Err ''worktree branch name and subdirectory must resolve to non-empty strings'')))"

definition delegated_slots :: "runtime_env \<Rightarrow> resolve_input \<Rightarrow> resolve_error + string js_obj" where
  "delegated_slots env inp =
     (let be = (ri_environment inp)\<lparr>be_item := eu_parameters (ri_unit inp)\<rparr>; d = ri_definition inp
      in bind_result (resolve_slots env be (dc_slot_bindings d) []) (\<lambda>slots.
         bind_result
           (resolve_slots env be
              (case dc_fan_out d of
                 None \<Rightarrow> []
               | Some f \<Rightarrow> (case fo_item_bindings f of None \<Rightarrow> [] | Some bs \<Rightarrow> bs)) slots) (\<lambda>slots.
           Ok (obj_assign slots (identity_slots (ri_unit inp) (ri_stage_instance_id inp))))))"

definition resolveDelegatedExecution ::
    "runtime_env \<Rightarrow> resolve_input \<Rightarrow> resolve_error + resolved_executor_config" where
  "resolveDelegatedExecution env inp =
     (let be = (ri_environment inp)\<lparr>be_item := eu_parameters (ri_unit inp)\<rparr>; d = ri_definition inp;
          u = ri_unit inp; sid = ri_stage_instance_id inp;
          workdirBinding = (case dc_fan_out d of
              None \<Rightarrow> dc_workdir d
            | Some f \<Rightarrow> (case fo_workdir f of Some b \<Rightarrow> b | None \<Rightarrow> dc_workdir d))
      in bind_result (delegated_slots env inp) (\<lambda>slots.
         bind_result (renderPrompt env (ri_prompt_template inp) slots) (\<lambda>prompt.
         bind_result (resolveBindable env (Some (dc_runtime d)) be) (\<lambda>runtime.
         bind_result (resolveBindable env (dc_model d) be) (\<lambda>model.
         bind_result (resolveBindable env (dc_effort d) be) (\<lambda>effort.
         bind_result (resolveBinding env workdirBinding be) (\<lambda>workdir.
           if \<not> isDelegatedRuntimeId runtime
           then Err (''unsupported delegated runtime '' @ sq (case runtime of None \<Rightarrow> ''null'' | Some r \<Rightarrow> r))
           else
             bind_result
               (case (case dc_fan_out d of None \<Rightarrow> None | Some f \<Rightarrow> fo_worktree f) of
                  None \<Rightarrow> Ok None
                | Some t \<Rightarrow> bind_result (resolve_worktree env be u sid t) (\<lambda>w. Ok (Some w))) (\<lambda>worktree.
             Ok \<lparr>rx_runtime = (case runtime of None \<Rightarrow> [] | Some r \<Rightarrow> r), rx_rendered_prompt = prompt,
                 rx_workdir = workdir, rx_session_name = substituteIdentity u sid (dc_session_name d),
                 rx_model = model, rx_effort = effort, rx_worktree = worktree,
                 rx_pre_authorized_tools = (case dc_pre_authorized_tools d of None \<Rightarrow> [] | Some ts \<Rightarrow> ts),
                 rx_yolo = (case dc_yolo d of None \<Rightarrow> False | Some b \<Rightarrow> b)\<rparr>))))))))"

section \<open>Lemmas on compiled stages\<close>

lemma compile_stages_snoc:
  "compile_stages registry (nodes @ [(k, node)]) =
     bind_result (compile_stages registry nodes) (\<lambda>stages.
       bind_result (compileStage registry k node) (\<lambda>c. Ok (obj_put k c stages)))"
  by (cases "compile_stages registry nodes"; cases "compileStage registry k node")
    (auto simp: compile_stages_def fold_result_append)

text \<open>The stages object holds exactly the compilation of every node, under the node's key.\<close>

lemma compile_stages_get:
  assumes "compile_stages registry nodes = Inr stages" and "distinct (obj_keys nodes)"
    and "''__proto__'' \<notin> set (obj_keys nodes)"
  shows "distinct (obj_keys stages) \<and> set (obj_keys stages) = set (obj_keys nodes) \<and>
    (\<forall>k c. obj_get stages k = Some c \<longleftrightarrow> (\<exists>node. obj_get nodes k = Some node \<and> compileStage registry k node = Inr c))"
  using assms
proof (induction nodes arbitrary: stages rule: rev_induct)
  case Nil
  then show ?case by (simp add: compile_stages_def obj_keys_def obj_get_def)
next
  case (snoc kn nodes)
  obtain k node where kn: "kn = (k, node)" by (cases kn)
  obtain before c where before: "compile_stages registry nodes = Inr before"
    and c: "compileStage registry k node = Inr c" and stages: "stages = obj_set k c before"
    using snoc.prems by (auto simp: kn compile_stages_snoc obj_put_def obj_keys_def)
  have fresh: "k \<notin> set (obj_keys nodes)" and dist: "distinct (obj_keys nodes)"
    and np: "''__proto__'' \<notin> set (obj_keys nodes)"
    using snoc.prems by (auto simp: kn obj_keys_def)
  note IH = snoc.IH [OF before dist np]
  have get: "obj_get (nodes @ [kn]) k' = (if k' = k then Some node else obj_get nodes k')" for k'
    using fresh obj_get_None_iff [of nodes k] by (auto simp: kn obj_get_def map_add_def split: option.splits)
  have "set (obj_keys (nodes @ [kn])) = insert k (set (obj_keys nodes))" by (simp add: kn obj_keys_def)
  then show ?case
    unfolding get stages obj_keys_set obj_get_set
    using IH fresh c by (auto simp: distinct_obj_set split: if_splits)
qed

lemma compile_stages_ok:
  assumes "\<And>k node. (k, node) \<in> set nodes \<Longrightarrow> \<exists>c. compileStage registry k node = Inr c"
  shows "\<exists>stages. compile_stages registry nodes = Inr stages"
  using assms
proof (induction nodes rule: rev_induct)
  case Nil
  then show ?case by (simp add: compile_stages_def)
next
  case (snoc kn nodes)
  obtain k node where kn: "kn = (k, node)" by (cases kn)
  from snoc show ?case by (fastforce simp: kn compile_stages_snoc)
qed

text \<open>What one compiled stage keeps of its node.\<close>

lemma compileStage_shape:
  assumes "compileStage registry k node = Inr c"
  shows "cs_stage_key c = k" "cs_inputs c = sn_inputs node"
    "map co_name (cs_outputs c) = map os_name (sn_outputs node)"
    "map co_artifact_type (cs_outputs c) = map os_artifact_type (sn_outputs node)"
  using assms by (auto simp: compileStage_def split: option.splits sum.splits if_splits)

lemma compileStage_validated:
  assumes "validate_stage z (k, node) = Inr ()"
    and "sn_stage_type node \<in> set (obj_keys (builtInStageTypeCompilers z))"
  shows "\<exists>c. compileStage (builtInStageTypeCompilers z) k node = Inr c"
proof -
  have ne: "PROVISION_REPOSITORY_REFS_STAGE_TYPE \<noteq> ''delegated_session''"
    by (simp add: PROVISION_REPOSITORY_REFS_STAGE_TYPE_def)
  consider "sn_stage_type node = ''delegated_session''"
    | "sn_stage_type node = PROVISION_REPOSITORY_REFS_STAGE_TYPE"
    using assms(2) by (auto simp: builtInStageTypeCompilers_def obj_keys_def)
  then show ?thesis
  proof cases
    case 1
    with assms(1) obtain c where "delegatedSessionDefinitionSchema z (sn_config node) = Inr c"
      by (rule validate_stage_delegated)
    with 1 show ?thesis
      by (simp add: compileStage_def builtInStageTypeCompilers_def obj_get_def delegatedSessionStageTypeCompiler_def)
  next
    case 2
    with assms(1) obtain c where "repositoryProvisioningDefinitionSchema z (sn_config node) = Inr c"
      by (rule validate_stage_provisioning)
    with 2 ne show ?thesis
      by (simp add: compileStage_def builtInStageTypeCompilers_def obj_get_def repositoryProvisioningStageTypeCompiler_def)
  qed
qed

lemma find_same_name:
  assumes "List.find (\<lambda>slot. os_name slot = n) outs = Some x"
    and "map co_name couts = map os_name outs" and "map co_artifact_type couts = map os_artifact_type outs"
  shows "\<exists>y \<in> set couts. co_name y = n \<and> co_artifact_type y = os_artifact_type x"
  using assms
proof (induction outs arbitrary: couts)
  case Nil
  then show ?case by simp
next
  case (Cons out outs)
  then show ?case by (cases couts) (auto split: if_splits)
qed

text \<open>How a compiled edge relates to the edge of the definition it comes from.\<close>

definition edge_compiled :: "compiled_stage js_obj \<Rightarrow> edge \<Rightarrow> compiled_edge \<Rightarrow> bool" where
  "edge_compiled stages e ce \<longleftrightarrow>
     ce_producer_stage ce = from_stage e \<and> ce_producer_output ce = from_slot e \<and>
     ce_consumer_stage ce = to_stage e \<and> ce_consumer_input ce = to_slot e \<and>
     (case (obj_get stages (from_stage e), find_input stages (to_stage e) (to_slot e)) of
        (Some producer, Some inp) \<Rightarrow>
          ce_delivery ce = is_delivery inp \<and>
          list_ex (\<lambda>out. co_name out = from_slot e \<and> co_artifact_type out = is_artifact_type inp) (cs_outputs producer)
      | _ \<Rightarrow> False)"

lemma compileEdge_validated:
  assumes "validate_edge nodes e = Inr ()"
    and get: "\<And>k c. obj_get stages k = Some c \<longleftrightarrow> (\<exists>node. obj_get nodes k = Some node \<and> compileStage registry k node = Inr c)"
    and all: "\<And>k node. obj_get nodes k = Some node \<Longrightarrow> \<exists>c. compileStage registry k node = Inr c"
  shows "\<exists>ce. compileEdge stages e = Inr ce \<and> edge_compiled stages e ce"
proof -
  obtain prod cons outp inp where
      prod: "obj_get nodes (from_stage e) = Some prod" and cons: "obj_get nodes (to_stage e) = Some cons"
    and outp: "List.find (\<lambda>slot. os_name slot = from_slot e) (sn_outputs prod) = Some outp"
    and inp: "List.find (\<lambda>slot. is_name slot = to_slot e) (sn_inputs cons) = Some inp"
    and eq: "os_artifact_type outp = is_artifact_type inp"
    using assms(1) by (rule validate_edge_slots)
  obtain cprod where cprod: "compileStage registry (from_stage e) prod = Inr cprod" using all [OF prod] by auto
  obtain ccons where ccons: "compileStage registry (to_stage e) cons = Inr ccons" using all [OF cons] by auto
  have gets: "obj_get stages (from_stage e) = Some cprod" "obj_get stages (to_stage e) = Some ccons"
    using get prod cprod cons ccons by blast+
  have found: "find_input stages (to_stage e) (to_slot e) = Some inp"
    using gets inp compileStage_shape(2) [OF ccons] by (simp add: find_input_def)
  from find_same_name [OF outp compileStage_shape(3,4) [OF cprod]] eq
  have "\<exists>y \<in> set (cs_outputs cprod). co_name y = from_slot e \<and> co_artifact_type y = is_artifact_type inp"
    by simp
  then show ?thesis
    using gets found by (auto simp: compileEdge_def edge_compiled_def list_ex_iff)
qed

section \<open>Properties of the compiler\<close>

text \<open>
  C37. Every definition the validator accepts, with built-in stage types, compiles: no stage
  is refused and no edge \<open>disappears\<close> (the exception in \<open>compileWorkflowDefinition\<close> is dead code).
  The compiled workflow has exactly the definition's stages, and edge for edge it links the
  same slots, carries the delivery the consumer's input declares, and joins an output and an
  input of the same artifact type.
\<close>
theorem compileWorkflowDefinition_validated:
  assumes parsed: "parseWorkflowDefinition z input = Inr d"
    and types: "\<And>k node. (k, node) \<in> set (graph_stages (wd_graph d)) \<Longrightarrow>
      sn_stage_type node \<in> set (obj_keys (builtInStageTypeCompilers z))"
    and keys: "distinct (obj_keys (graph_stages (wd_graph d)))" "''__proto__'' \<notin> set (obj_keys (graph_stages (wd_graph d)))"
  shows "\<exists>cw. compileWorkflowDefinition (builtInStageTypeCompilers z) d = Inr cw \<and>
    set (obj_keys (cw_stages cw)) = set (obj_keys (graph_stages (wd_graph d))) \<and>
    list_all2 (edge_compiled (cw_stages cw)) (graph_edges (wd_graph d)) (cw_edges cw)"
proof -
  let ?r = "builtInStageTypeCompilers z" and ?nodes = "graph_stages (wd_graph d)"
  have valid: "validateGraphReferences z d = Inr d"
    using parsed validateGraphReferences_same
    by (fastforce simp: parseWorkflowDefinition_def split: sum.splits)
  have compiles: "\<exists>c. compileStage ?r k node = Inr c" if "(k, node) \<in> set ?nodes" for k node
    using compileStage_validated [OF validateGraphReferences_stage [OF valid that] types [OF that]] .
  obtain stages where stages: "compile_stages ?r ?nodes = Inr stages"
    using compile_stages_ok [of ?nodes ?r] compiles by blast
  note get = compile_stages_get [OF stages keys]
  have edge: "\<exists>ce. compileEdge stages e = Inr ce \<and> edge_compiled stages e ce" if "e \<in> set (graph_edges (wd_graph d))" for e
    by (rule compileEdge_validated [OF validateGraphReferences_edge [OF valid that]])
      (use get compiles in \<open>auto dest: obj_get_Some_in\<close>)
  have "\<exists>es. map_result (compileEdge stages) (graph_edges (wd_graph d)) = Inr es \<and>
      list_all2 (edge_compiled stages) (graph_edges (wd_graph d)) es"
    using edge by (rule map_result_witness)
  then show ?thesis
    using stages get by (fastforce simp: compileWorkflowDefinition_def Let_def)
qed

text \<open>A definition with one delegated session stage, and a zod that parses exactly it.\<close>

definition sample_config :: delegated_session_config where
  "sample_config =
     \<lparr>dc_runtime = BindString ''codex'', dc_prompt_template_path = ''p'',
      dc_slot_bindings = [(''OAKRIDGE_URL'', FromContext ''/oakridge_url'')],
      dc_workdir = FromContext ''/workdir'', dc_session_name = ''s'', dc_model = None, dc_effort = None,
      dc_worktree = None, dc_pre_authorized_tools = None, dc_yolo = None, dc_fan_out = None, dc_artifacts = None,
      dc_gate_output = None,
      dc_output_gate = Some \<lparr>og_output = ''spec'', og_steps = [\<lparr>gs_type = ''artifact_approval'', gs_actions = [''approve'', ''fail'']\<rparr>],
        og_requires_zero_open_review_items = None, og_revision_target = None\<rparr>,
      dc_output_handoff = None\<rparr>"

definition sample_node :: stage_node where
  "sample_node =
     \<lparr>sn_stage_type = ''delegated_session'', sn_operator_role = None,
      sn_config = JObj [(''url'', JObj [(''from'', JStr ''context''), (''path'', JStr ''/oakridge_url'')])],
      sn_inputs = [\<lparr>is_name = ''prior'', is_artifact_type = ''t'', is_optional = True, is_collect = False, is_delivery = ProducerComplete\<rparr>],
      sn_outputs = [\<lparr>os_name = ''spec'', os_artifact_type = ''t''\<rparr>]\<rparr>"

definition sample_definition :: workflow_definition where
  "sample_definition =
     \<lparr>wd_id = ''d'', wd_name = ''n'', wd_version = 1,
      wd_graph = \<lparr>graph_stages = [(''spec'', sample_node)],
        graph_edges = [\<lparr>from_stage = ''spec'', from_slot = ''spec'', to_stage = ''spec'', to_slot = ''prior''\<rparr>]\<rparr>,
      wd_created_at = ''t0'', wd_archived = False\<rparr>"

definition sample_zod :: zod_env where
  "sample_zod =
     \<lparr>zod_slot_binding =
        (\<lambda>j. if j = JObj [(''from'', JStr ''context''), (''path'', JStr ''/oakridge_url'')] then Some (FromContext ''/oakridge_url'') else None),
      zod_delegated_shape = (\<lambda>j. Inr sample_config), zod_provisioning_shape = (\<lambda>j. Inl ''no''),
      zod_definition_shape = (\<lambda>j. Inr sample_definition), zod_issues = (\<lambda>_. ''issues'')\<rparr>"

lemma sample_parses: "parseWorkflowDefinition sample_zod JNull = Inr sample_definition"
  by code_simp

theorem compileWorkflowDefinition_validated_witness:
  "\<exists>cw. compileWorkflowDefinition (builtInStageTypeCompilers sample_zod) sample_definition = Inr cw \<and>
    set (obj_keys (cw_stages cw)) = set (obj_keys (graph_stages (wd_graph sample_definition))) \<and>
    list_all2 (edge_compiled (cw_stages cw)) (graph_edges (wd_graph sample_definition)) (cw_edges cw)"
  by (rule compileWorkflowDefinition_validated [OF sample_parses])
    (auto simp: sample_definition_def sample_node_def builtInStageTypeCompilers_def obj_keys_def)

text \<open>
  \<open>source_stages\<close>: the stages of the compiled workflow none of whose incoming edges feeds a
  required input, each once, in code-unit order. A stage fed only through optional inputs is
  a source.
\<close>
theorem compileWorkflowDefinition_sources:
  assumes "compileWorkflowDefinition registry d = Inr cw"
    and "distinct (obj_keys (graph_stages (wd_graph d)))" "''__proto__'' \<notin> set (obj_keys (graph_stages (wd_graph d)))"
  shows "sorted (cw_source_stages cw) \<and> distinct (cw_source_stages cw) \<and>
    (\<forall>k. k \<in> set (cw_source_stages cw) \<longleftrightarrow>
       k \<in> set (obj_keys (graph_stages (wd_graph d))) \<and>
       (\<forall>e \<in> set (cw_edges cw). ce_consumer_stage e = k \<longrightarrow>
          (\<exists>inp. find_input (cw_stages cw) k (ce_consumer_input e) = Some inp \<and> is_optional inp)))"
proof -
  obtain stages where stages: "compile_stages registry (graph_stages (wd_graph d)) = Inr stages"
    and cw: "cw_stages cw = stages" "cw_source_stages cw =
      sort (filter (\<lambda>k. k \<notin> set (map ce_consumer_stage (filter (blocks stages) (cw_edges cw)))) (obj_keys stages))"
    using assms(1) by (auto simp: compileWorkflowDefinition_def Let_def)
  have keys: "distinct (obj_keys stages)" "set (obj_keys stages) = set (obj_keys (graph_stages (wd_graph d)))"
    using compile_stages_get [OF stages assms(2,3)] by auto
  have "k \<in> set (map ce_consumer_stage (filter (blocks stages) (cw_edges cw))) \<longleftrightarrow>
      (\<exists>e \<in> set (cw_edges cw). ce_consumer_stage e = k \<and>
        \<not> (\<exists>inp. find_input stages k (ce_consumer_input e) = Some inp \<and> is_optional inp))" for k
    by (force simp: blocks_def split: option.splits)
  then have "k \<in> set (cw_source_stages cw) \<longleftrightarrow> k \<in> set (obj_keys stages) \<and>
      (\<forall>e \<in> set (cw_edges cw). ce_consumer_stage e = k \<longrightarrow>
        (\<exists>inp. find_input stages k (ce_consumer_input e) = Some inp \<and> is_optional inp))" for k
    unfolding cw set_sort set_filter mem_Collect_eq by blast
  moreover have "sorted (cw_source_stages cw)" "distinct (cw_source_stages cw)"
    using keys by (simp_all add: cw)
  ultimately show ?thesis using keys cw(1) by simp
qed

definition sample_steps :: "compiled_gate_step list" where
  "sample_steps =
     [\<lparr>cg_type = ''artifact_approval'',
       cg_actions = [\<lparr>ga_name = ''approve'', ga_disposition = Release\<rparr>, \<lparr>ga_name = ''fail'', ga_disposition = Terminal\<rparr>]\<rparr>]"

definition sample_output :: compiled_output where
  "sample_output = \<lparr>co_name = ''spec'', co_artifact_type = ''t'', co_release = Gate sample_steps False SelfStage\<rparr>"

definition sample_stage :: compiled_stage where
  "sample_stage =
     \<lparr>cs_stage_key = ''spec'', cs_stage_type = ''delegated_session'', cs_operator_role = None,
      cs_inputs = sn_inputs sample_node, cs_outputs = [sample_output],
      cs_materialization = Scalar, cs_executor_type = ''delegated_session'',
      cs_definition_config = DelegatedConfig sample_config\<rparr>"

definition sample_compiled :: compiled_workflow where
  "sample_compiled =
     \<lparr>cw_stages = [(''spec'', sample_stage)],
      cw_edges = [\<lparr>ce_producer_stage = ''spec'', ce_producer_output = ''spec'', ce_consumer_stage = ''spec'',
        ce_consumer_input = ''prior'', ce_delivery = ProducerComplete\<rparr>],
      cw_source_stages = [''spec'']\<rparr>"

lemma sample_compiles:
  "compileWorkflowDefinition (builtInStageTypeCompilers sample_zod) sample_definition = Inr sample_compiled"
  by code_simp

theorem compileWorkflowDefinition_sources_witness:
  "sorted (cw_source_stages sample_compiled) \<and> distinct (cw_source_stages sample_compiled) \<and>
   ''spec'' \<in> set (cw_source_stages sample_compiled)"
  using compileWorkflowDefinition_sources [OF sample_compiles]
  by (simp add: sample_definition_def sample_compiled_def obj_keys_def)

text \<open>
  The gate of an output of a compiled definition has at least one step, and every action an
  operator can take on it is built in, with the disposition \<open>domain/gates.ts\<close> gives it; so the
  only action that ends a run is \<open>fail\<close> (the fallback disposition is never used).
\<close>
theorem compiled_gate_actions:
  assumes "compileWorkflowDefinition (builtInStageTypeCompilers z) d = Inr cw"
    and "distinct (obj_keys (graph_stages (wd_graph d)))" "''__proto__'' \<notin> set (obj_keys (graph_stages (wd_graph d)))"
    and "obj_get (cw_stages cw) k = Some c" "out \<in> set (cs_outputs c)" "co_release out = Gate steps zero target"
  shows "steps \<noteq> [] \<and> (\<forall>step \<in> set steps. \<forall>action \<in> set (cg_actions step).
    isBuiltInGateAction (ga_name action) \<and>
    obj_get BUILT_IN_GATE_DISPOSITIONS (ga_name action) = Some (ga_disposition action) \<and>
    (ga_disposition action = Terminal \<longleftrightarrow> ga_name action = ''fail''))"
proof -
  obtain stages where "compile_stages (builtInStageTypeCompilers z) (graph_stages (wd_graph d)) = Inr stages"
    and "cw_stages cw = stages"
    using assms(1) by (auto simp: compileWorkflowDefinition_def Let_def)
  with compile_stages_get [OF _ assms(2,3)] assms(4) obtain node
    where node: "compileStage (builtInStageTypeCompilers z) k node = Inr c" by blast
  obtain n where rel: "(\<exists>config. delegatedSessionDefinitionSchema z (sn_config node) = Inr config \<and>
      outputRelease n config = Gate steps zero target)"
    using node assms(5,6)
    by (auto simp: compileStage_def builtInStageTypeCompilers_def obj_get_def delegatedSessionStageTypeCompiler_def
        repositoryProvisioningStageTypeCompiler_def split: if_splits option.splits sum.splits)
  then obtain config where config: "delegated_session_issues config = []" "delegated_shape_ok config"
    and gate: "outputRelease n config = Gate steps zero target"
    by (auto dest: delegated_schema_issues)
  obtain raw where raw: "raw \<noteq> []" "steps = map compileGateStep raw"
    and builtin: "\<And>step a. step \<in> set raw \<Longrightarrow> a \<in> set (gs_actions step) \<Longrightarrow> isBuiltInGateAction a"
  proof (cases "dc_output_gate config")
    case None
    then have "steps = map compileGateStep gate_output_steps"
      using gate by (auto simp: outputRelease_def Let_def split: if_splits option.splits)
    moreover have "isBuiltInGateAction a" if "step \<in> set gate_output_steps" "a \<in> set (gs_actions step)" for step a
      using that by (auto simp: gate_output_steps_def isBuiltInGateAction_def hasOwn_def BUILT_IN_GATE_DISPOSITIONS_def obj_keys_def)
    ultimately show ?thesis using that [of gate_output_steps] by (auto simp: gate_output_steps_def)
  next
    case (Some g)
    have steps: "steps = map compileGateStep (og_steps g) \<or> steps = map compileGateStep gate_output_steps"
      using gate Some by (auto simp: outputRelease_def Let_def split: if_splits option.splits)
    have ok: "gate_step_issues [] (og_steps g) = []" "og_steps g \<noteq> []"
      using config Some by (auto simp: delegated_session_issues_def output_gate_issues_def delegated_shape_ok_def gate_shape_ok_def)
    have "isBuiltInGateAction a" if "step \<in> set gate_output_steps" "a \<in> set (gs_actions step)" for step a
      using that by (auto simp: gate_output_steps_def isBuiltInGateAction_def hasOwn_def BUILT_IN_GATE_DISPOSITIONS_def obj_keys_def)
    with steps ok that show ?thesis
      by (metis gate_step_issues_builtin gate_output_steps_def list.distinct(1))
  qed
  have disp: "obj_get BUILT_IN_GATE_DISPOSITIONS a = Some (selectBuiltInGateDisposition a) \<and>
      (selectBuiltInGateDisposition a = Terminal \<longleftrightarrow> a = ''fail'')" if "isBuiltInGateAction a" for a
    using that by (auto simp: isBuiltInGateAction_def hasOwn_def selectBuiltInGateDisposition_def
        BUILT_IN_GATE_DISPOSITIONS_def obj_keys_def obj_get_def)
  show ?thesis using raw builtin disp by (auto simp: compileGateStep_def)
qed

theorem compiled_gate_actions_witness:
  "sample_steps \<noteq> [] \<and> isBuiltInGateAction ''approve''"
  using compiled_gate_actions [OF sample_compiles, of "''spec''" sample_stage sample_output sample_steps False SelfStage]
  by (simp add: sample_definition_def sample_compiled_def sample_stage_def sample_output_def sample_steps_def obj_keys_def obj_get_def)

section \<open>Properties of launch and resolution\<close>

text \<open>The nodes \<open>walkConfig\<close> reaches: arrays and objects are entered, bindings are not.\<close>

inductive config_node :: "zod_env \<Rightarrow> json \<Rightarrow> json \<Rightarrow> bool" for z where
  config_here: "config_node z j j"
| config_element: "x \<in> set xs \<Longrightarrow> config_node z x j \<Longrightarrow> config_node z (JArr xs) j"
| config_member: "contextPointersOf z (JObj kvs) = [] \<Longrightarrow> (k, v) \<in> set kvs \<Longrightarrow> config_node z v j \<Longrightarrow> config_node z (JObj kvs) j"

lemma contextPointersOf_object:
  "walkConfig z (JObj kvs) = (if contextPointersOf z (JObj kvs) = [] then concat (map (\<lambda>kv. walkConfig z (snd kv)) kvs)
     else contextPointersOf z (JObj kvs))"
  by (auto split: list.splits)

lemma walkConfig_node:
  assumes "config_node z root (JObj kvs)"
  shows "set (contextPointersOf z (JObj kvs)) \<subseteq> set (walkConfig z root)"
  using assms
proof (induction root "JObj kvs" rule: config_node.induct)
  case config_here
  then show ?case by (cases "contextPointersOf z (JObj kvs)") auto
next
  case (config_element x xs)
  then show ?case by auto
next
  case (config_member kvs' k v)
  then have "set (walkConfig z v) \<subseteq> set (walkConfig z (JObj kvs'))"
    unfolding contextPointersOf_object by (auto intro!: bexI [of _ "(k, v)"])
  with config_member show ?case by blast
qed

lemma collect_requirement_pointers:
  "set (map cr_pointer (fold (collect_requirement k) ps acc)) = set (map cr_pointer acc) \<union> set ps"
  by (induction ps arbitrary: acc) (auto simp: collect_requirement_def list_ex_iff image_iff)

lemma collect_requirement_distinct:
  "distinct (map cr_pointer acc) \<Longrightarrow> distinct (map cr_pointer (fold (collect_requirement k) ps acc))"
proof (induction ps arbitrary: acc)
  case Nil
  then show ?case by simp
next
  case (Cons p ps)
  then have "distinct (map cr_pointer (collect_requirement k p acc))"
    by (auto simp: collect_requirement_def list_ex_iff)
  then show ?case using Cons.IH by simp
qed

lemma contextRequirementsOf_fold:
  "set (map cr_pointer (fold (\<lambda>(k, stage). fold (collect_requirement k) (walkConfig z (sn_config stage))) stages acc)) =
     set (map cr_pointer acc) \<union> (\<Union>(k, stage) \<in> set stages. set (walkConfig z (sn_config stage)))"
proof (induction stages arbitrary: acc)
  case Nil
  then show ?case by simp
next
  case (Cons kn stages)
  then show ?case by (cases kn) (simp only: fold_simps comp_apply collect_requirement_pointers set_simps case_prod_conv UN_insert Un_assoc)
qed

lemma contextRequirementsOf_pointers:
  "set (map cr_pointer (contextRequirementsOf z g)) =
     (\<Union>(k, stage) \<in> set (graph_stages g). set (walkConfig z (sn_config stage)))"
  unfolding contextRequirementsOf_def contextRequirementsOf_fold by simp

lemma contextRequirementsOf_distinct: "distinct (map cr_pointer (contextRequirementsOf z g))"
proof -
  have "distinct (map cr_pointer (fold (\<lambda>(k, stage). fold (collect_requirement k) (walkConfig z (sn_config stage))) stages acc))"
    if "distinct (map cr_pointer acc)" for stages :: "stage_node js_obj" and acc
    using that by (induction stages arbitrary: acc) (auto simp: collect_requirement_distinct)
  then show ?thesis by (simp add: contextRequirementsOf_def)
qed

text \<open>
  C38. The launch check is sound: when no requirement of the definition is unsatisfied, a
  \<open>context\<close> binding that sits anywhere in a stage's configuration resolves against that context,
  and a \<open>context_lookup\<close> finds its collection. No stage of the run can then fail on a missing
  context pointer.
\<close>
theorem launch_check_sound:
  assumes "unsatisfiedContextRequirements context (contextRequirementsOf z g) = []"
    and "(k, stage) \<in> set (graph_stages g)" and "config_node z (sn_config stage) (JObj kvs)"
    and "slotBindingSchema z (JObj kvs) = Some binding" and "be_context be = context"
  shows "case binding of
      FromContext path \<Rightarrow> resolveBindingValue binding be = Inr (readJsonPointer context path)
    | FromContextLookup path _ _ _ \<Rightarrow> readJsonPointer context path \<noteq> Undefined
    | _ \<Rightarrow> True"
proof -
  have "readJsonPointer context p \<noteq> Undefined" if "p \<in> set (contextPointersOf z (JObj kvs))" for p
  proof -
    have "p \<in> set (map cr_pointer (contextRequirementsOf z g))"
      unfolding contextRequirementsOf_pointers
      using that walkConfig_node [OF assms(3)] assms(2) by auto
    with assms(1) show ?thesis by (auto simp: unsatisfiedContextRequirements_def filter_empty_conv)
  qed
  with assms(4,5) show ?thesis
    by (auto simp: contextPointersOf_def split: slot_binding.splits js_value.splits)
qed

theorem launch_check_sound_witness:
  "resolveBindingValue (FromContext ''/oakridge_url'')
     \<lparr>be_inputs = [], be_context = JObj [(''oakridge_url'', JStr ''u'')], be_item = JNull\<rparr> =
   Inr (readJsonPointer (JObj [(''oakridge_url'', JStr ''u'')]) ''/oakridge_url'')"
proof -
  have "unsatisfiedContextRequirements (JObj [(''oakridge_url'', JStr ''u'')])
      (contextRequirementsOf sample_zod (wd_graph sample_definition)) = []"
    by code_simp
  moreover have "(''spec'', sample_node) \<in> set (graph_stages (wd_graph sample_definition))"
    by (simp add: sample_definition_def)
  moreover have "config_node sample_zod (sn_config sample_node) (JObj [(''from'', JStr ''context''), (''path'', JStr ''/oakridge_url'')])"
    by (auto intro!: config_node.intros simp: sample_node_def contextPointersOf_def slotBindingSchema_def sample_zod_def)
  moreover have "slotBindingSchema sample_zod (JObj [(''from'', JStr ''context''), (''path'', JStr ''/oakridge_url'')]) =
      Some (FromContext ''/oakridge_url'')"
    by (simp add: slotBindingSchema_def sample_zod_def binding_shape_ok_def)
  ultimately show ?thesis
    using launch_check_sound [of "JObj [(''oakridge_url'', JStr ''u'')]" sample_zod "wd_graph sample_definition" "''spec''" sample_node
      _ "FromContext ''/oakridge_url''" "\<lparr>be_inputs = [], be_context = JObj [(''oakridge_url'', JStr ''u'')], be_item = JNull\<rparr>"]
    by simp
qed
















text \<open>
  Identity wins: whatever a definition binds, the slots of a resolved execution give
  \<open>UNIT_ID\<close> and \<open>STAGE_INSTANCE_ID\<close> the unit and the stage instance being launched, and the prompt
  is the template rendered with exactly these slots.
\<close>
theorem identity_slots_win:
  assumes "resolveDelegatedExecution env inp = Inr cfg"
  shows "\<exists>slots. delegated_slots env inp = Inr slots \<and>
    obj_get slots ''UNIT_ID'' = Some (eu_unit_id (ri_unit inp)) \<and>
    obj_get slots ''STAGE_INSTANCE_ID'' = Some (ri_stage_instance_id inp) \<and>
    renderPrompt env (ri_prompt_template inp) slots = Inr (rx_rendered_prompt cfg)"
proof -
  obtain slots where slots: "delegated_slots env inp = Inr slots"
    and prompt: "renderPrompt env (ri_prompt_template inp) slots = Inr (rx_rendered_prompt cfg)"
    using assms by (auto simp: resolveDelegatedExecution_def Let_def split: if_splits)
  then obtain before where "slots = obj_assign before (identity_slots (ri_unit inp) (ri_stage_instance_id inp))"
    by (auto simp: delegated_slots_def Let_def)
  then show ?thesis
    using slots prompt by (simp add: obj_get_assign) (simp add: identity_slots_def obj_get_def)
qed

definition sample_resolve :: resolve_input where
  "sample_resolve =
     \<lparr>ri_definition = sample_config\<lparr>dc_slot_bindings := [(''UNIT_ID'', FromLiteral ''0''), (''OAKRIDGE_URL'', FromContext ''/oakridge_url'')]\<rparr>,
      ri_environment = \<lparr>be_inputs = [], be_context = JObj [(''oakridge_url'', JStr ''u''), (''workdir'', JStr ''w'')], be_item = JNull\<rparr>,
      ri_unit = \<lparr>eu_unit_id = ''c7'', eu_parameters = JObj [], eu_depends_on = []\<rparr>,
      ri_stage_instance_id = ''si'', ri_prompt_template = [CHR 0x7B, CHR 0x7B] @ ''UNIT_ID'' @ [CHR 0x7D, CHR 0x7D] @ '' at '' @ [CHR 0x7B, CHR 0x7B] @ ''OAKRIDGE_URL'' @ [CHR 0x7D, CHR 0x7D]\<rparr>"

definition sample_env :: runtime_env where
  "sample_env = \<lparr>sha256_hex = (\<lambda>s. replicate 64 (CHR ''0'')), sha256_base64url = (\<lambda>s. ''cap''), function_text = (\<lambda>f. ''fn''), collate = (\<lambda>s. s)\<rparr>"

definition sample_resolved :: resolved_executor_config where
  "sample_resolved =
     \<lparr>rx_runtime = ''codex'', rx_rendered_prompt = ''c7 at u'', rx_workdir = ''w'', rx_session_name = ''s'', rx_model = None,
      rx_effort = None, rx_worktree = None, rx_pre_authorized_tools = [], rx_yolo = False\<rparr>"

lemma sample_resolves: "resolveDelegatedExecution sample_env sample_resolve = Inr sample_resolved"
  by code_simp

theorem identity_slots_win_witness:
  "\<exists>slots. delegated_slots sample_env sample_resolve = Inr slots \<and> obj_get slots ''UNIT_ID'' = Some ''c7'' \<and>
    renderPrompt sample_env (ri_prompt_template sample_resolve) slots = Inr ''c7 at u''"
  using identity_slots_win [OF sample_resolves] by (auto simp: sample_resolve_def sample_resolved_def)

end
