(* ===== verification/Decision.thy ===== *)
theory Decision
  imports Compiler
begin

text \<open>
  The decision layer: \<open>decision/ids.ts\<close> and \<open>decision/derive.ts\<close>. \<open>derive\<close> reads a snapshot of
  the persisted run and returns the batch of commands provable from it, or a contradiction.

  The depth-first search of \<open>findCycle\<close> is the pair \<open>visit\<close> and \<open>visit_deps\<close>; the accumulator of
  the stage loop is the list of commands and the list of stage instances the batch revises.
\<close>

section \<open>Minted identifiers\<close>

definition slice :: "nat \<Rightarrow> nat \<Rightarrow> string \<Rightarrow> string" where
  "slice i j s = take (j - i) (drop i s)"

definition stableUuid :: "runtime_env \<Rightarrow> string \<Rightarrow> string" where
  "stableUuid env identity =
     (let hex = take 32 (sha256_hex env identity)
      in slice 0 8 hex @ ''-'' @ slice 8 12 hex @ ''-4'' @ slice 13 16 hex @ ''-8'' @ slice 17 20 hex @ ''-'' @ drop 20 hex)"

definition stageInstanceIdFor :: "runtime_env \<Rightarrow> string \<Rightarrow> string \<Rightarrow> string" where
  "stageInstanceIdFor env rid stage_key = stableUuid env (rid @ '':stage:'' @ stage_key)"

definition runUnitIdFor :: "runtime_env \<Rightarrow> string \<Rightarrow> string \<Rightarrow> string \<Rightarrow> string" where
  "runUnitIdFor env rid stage_key unit_id = stableUuid env (rid @ '':'' @ stage_key @ '':unit:'' @ unit_id)"

definition workOrderIdFor :: "runtime_env \<Rightarrow> string \<Rightarrow> string \<Rightarrow> string \<Rightarrow> string \<Rightarrow> string" where
  "workOrderIdFor env rid stage_key unit_id identity =
     stableUuid env (rid @ '':'' @ stage_key @ '':'' @ unit_id @ '':'' @ identity)"

definition workOrderWorkflowId :: "string \<Rightarrow> string" where
  "workOrderWorkflowId work_order_id = ''v2-work:'' @ work_order_id"

definition fingerprintOf :: "runtime_env \<Rightarrow> artifact_envelope list \<Rightarrow> string" where
  "fingerprintOf env envs = sha256_hex env (json_stringify (JArr (map envelope_json envs)))"

section \<open>Reading the snapshot\<close>

definition TERMINAL_UNIT_STATES :: "unit_state list" where
  "TERMINAL_UNIT_STATES = [USatisfied, UFailed, UCancelled]"

definition sorted_stages :: "run_snapshot \<Rightarrow> stage_snapshot list" where
  "sorted_stages snapshot = sort_key ss_stage_key (snap_stages snapshot)"

definition sorted_units :: "stage_snapshot \<Rightarrow> unit_snapshot list" where
  "sorted_units stage = sort_key us_unit_id (ss_units stage)"

definition findFirstUnit :: "run_snapshot \<Rightarrow> (unit_snapshot \<Rightarrow> bool) \<Rightarrow> unit_snapshot option" where
  "findFirstUnit snapshot predicate =
     List.find predicate (concat (map sorted_units (sorted_stages snapshot)))"

fun input_envelopes :: "stage_input \<Rightarrow> artifact_envelope list" where
  "input_envelopes (Many xs) = xs"
| "input_envelopes (One a) = [a]"

definition envelopes :: "stage_input_set \<Rightarrow> artifact_envelope list" where
  "envelopes inputs = concat (map input_envelopes (obj_values inputs))"

definition delivered_by :: "compiled_edge \<Rightarrow> artifact_envelope \<Rightarrow> bool" where
  "delivered_by e artifact \<longleftrightarrow>
     ae_producer_stage_key artifact = Some (ce_producer_stage e) \<and> ae_output_name artifact = ce_producer_output e"

definition is_driver_input :: "compiled_stage \<Rightarrow> string \<Rightarrow> bool" where
  "is_driver_input stage input_name =
     (case cs_materialization stage of
        FanOut (FromInput n _) _ _ _ _ \<Rightarrow> n = input_name
      | _ \<Rightarrow> False)"

definition stageInputs :: "string \<Rightarrow> compiled_workflow \<Rightarrow> run_snapshot \<Rightarrow> stage_input_set" where
  "stageInputs stage_key d snapshot =
     (case obj_get (cw_stages d) stage_key of
        None \<Rightarrow> []
      | Some stage \<Rightarrow>
          fold (\<lambda>e result.
              let values = filter (delivered_by e) (snap_available_artifacts snapshot);
                  inp = List.find (\<lambda>candidate. is_name candidate = ce_consumer_input e) (cs_inputs stage);
                  collect = (case inp of Some i \<Rightarrow> is_collect i | None \<Rightarrow> False)
              in if ce_delivery e = UnitComplete \<or> collect \<or> is_driver_input stage (ce_consumer_input e)
                 then obj_put (ce_consumer_input e) (Many values) result
                 else case values of
                   [] \<Rightarrow> result
                 | first # _ \<Rightarrow> obj_put (ce_consumer_input e) (One first) result)
            (filter (\<lambda>candidate. ce_consumer_stage candidate = stage_key) (cw_edges d)) [])"

definition find_stage :: "run_snapshot \<Rightarrow> string \<Rightarrow> stage_snapshot option" where
  "find_stage snapshot stage_key = List.find (\<lambda>candidate. ss_stage_key candidate = stage_key) (snap_stages snapshot)"

definition all_satisfied :: "stage_snapshot \<Rightarrow> bool" where
  "all_satisfied stage \<longleftrightarrow> list_all (\<lambda>u. us_state u = USatisfied) (ss_units stage)"

definition stageFinished :: "run_snapshot \<Rightarrow> string \<Rightarrow> bool" where
  "stageFinished snapshot stage_key =
     (case find_stage snapshot stage_key of
        None \<Rightarrow> False
      | Some stage \<Rightarrow> ss_materialization_closed stage \<and> all_satisfied stage)"

definition input_ready :: "string \<Rightarrow> compiled_workflow \<Rightarrow> run_snapshot \<Rightarrow> input_slot \<Rightarrow> bool" where
  "input_ready stage_key d snapshot inp =
     (case List.find (\<lambda>candidate. ce_consumer_stage candidate = stage_key \<and> ce_consumer_input candidate = is_name inp) (cw_edges d) of
        None \<Rightarrow> False
      | Some e \<Rightarrow>
          (let available = list_ex (delivered_by e) (snap_available_artifacts snapshot)
           in if ce_delivery e = ProducerComplete then stageFinished snapshot (ce_producer_stage e)
              else available \<or> stageFinished snapshot (ce_producer_stage e)))"

definition isReady :: "string \<Rightarrow> compiled_workflow \<Rightarrow> run_snapshot \<Rightarrow> bool" where
  "isReady stage_key d snapshot =
     (case obj_get (cw_stages d) stage_key of
        None \<Rightarrow> False
      | Some stage \<Rightarrow> list_all (input_ready stage_key d snapshot) (filter (\<lambda>i. \<not> is_optional i) (cs_inputs stage)))"

definition shouldClose :: "string \<Rightarrow> compiled_workflow \<Rightarrow> run_snapshot \<Rightarrow> bool" where
  "shouldClose stage_key d snapshot =
     list_all (\<lambda>e. stageFinished snapshot (ce_producer_stage e))
       (filter (\<lambda>e. ce_consumer_stage e = stage_key \<and> ce_delivery e = UnitComplete) (cw_edges d))"

section \<open>Minting units\<close>

definition selectInputsForUnit :: "compiled_stage \<Rightarrow> stage_input_set \<Rightarrow> execution_unit \<Rightarrow> stage_input_set" where
  "selectInputsForUnit stage inputs u =
     (case cs_materialization stage of
        FanOut _ _ _ _ _ \<Rightarrow>
          (let perUnit = map is_name (filter (\<lambda>i. is_delivery i = UnitComplete) (cs_inputs stage))
           in map (\<lambda>(name, v).
                (name, case v of
                   Many xs \<Rightarrow> if name \<in> set perUnit then Many (filter (\<lambda>a. ae_unit_id a = eu_unit_id u) xs) else Many xs
                 | One a \<Rightarrow> One a)) inputs)
      | _ \<Rightarrow> inputs)"

text \<open>
  \<open>outputSlots\<close>. The parameters of an artifact collection's unit are the array \<open>mintUnits\<close>
  resolved, so the loop is over its items.
\<close>

definition collection_items :: "json \<Rightarrow> json list" where
  "collection_items parameters = (case parameters of JArr items \<Rightarrow> items | _ \<Rightarrow> [])"

definition outputSlots :: "compiled_stage \<Rightarrow> execution_unit \<Rightarrow> (string \<times> string) + materialized_output list" where
  "outputSlots contract u =
     (case cs_materialization contract of
        ArtifactCollection _ id_path \<Rightarrow>
          bind_result
            (map_result (\<lambda>item.
               case as_nonempty_string (readJsonPointer item id_path) of
                 None \<Rightarrow> Err (id_path, ''artifact collection key '' @ sq id_path @ '' must be a non-empty string'')
               | Some key \<Rightarrow>
                   Ok (map (\<lambda>out. \<lparr>mo_identity = CollectionMember (co_name out) key, mo_artifact_type = co_artifact_type out,
                                  mo_required = True, mo_release = co_release out\<rparr>) (cs_outputs contract)))
               (collection_items (eu_parameters u)))
            (\<lambda>slots. Ok (concat slots))
      | _ \<Rightarrow>
          Ok (map (\<lambda>out. \<lparr>mo_identity = ScalarSlot (co_name out), mo_artifact_type = co_artifact_type out,
                          mo_required = True, mo_release = co_release out\<rparr>) (cs_outputs contract)))"

fun bindingPath :: "slot_binding \<Rightarrow> string" where
  "bindingPath (FromInput _ (Some p)) = p"
| "bindingPath (FromContext p) = p"
| "bindingPath (FromItem p) = p"
| "bindingPath _ = []"

fun sourceArtifactId :: "slot_binding \<Rightarrow> stage_input_set \<Rightarrow> string option" where
  "sourceArtifactId (FromInput name _) inputs =
     (case obj_get inputs name of
        Some (One a) \<Rightarrow> Some (ae_artifact_id a)
      | Some (Many (a # _)) \<Rightarrow> Some (ae_artifact_id a)
      | _ \<Rightarrow> None)"
| "sourceArtifactId _ inputs = None"

definition policyOf :: "compiled_stage \<Rightarrow> stage_policy" where
  "policyOf contract =
     (case cs_materialization contract of
        FanOut _ _ _ mp manual \<Rightarrow> \<lparr>max_parallel = mp, manual_admission = manual\<rparr>
      | _ \<Rightarrow> \<lparr>max_parallel = 1, manual_admission = False\<rparr>)"

definition nonempty_strings :: "json list \<Rightarrow> string list option" where
  "nonempty_strings xs =
     (if list_all (\<lambda>x. as_nonempty_string (JsonV x) \<noteq> None) xs
      then Some (map (\<lambda>x. the (as_nonempty_string (JsonV x))) xs) else None)"

definition parseUnit :: "json \<Rightarrow> string \<Rightarrow> string option \<Rightarrow> (string \<times> string) + execution_unit" where
  "parseUnit item unit_id_path depends_on_path =
     (case as_nonempty_string (readJsonPointer item unit_id_path) of
        None \<Rightarrow> Err (unit_id_path, ''unit_id at '' @ sq unit_id_path @ '' must be a non-empty string'')
      | Some uid \<Rightarrow>
          (let path = (case depends_on_path of None \<Rightarrow> [] | Some p \<Rightarrow> p);
               raw = (case depends_on_path of None \<Rightarrow> JsonV (JArr []) | Some p \<Rightarrow> readJsonPointer item p)
           in case (case as_array raw of None \<Rightarrow> None | Some xs \<Rightarrow> nonempty_strings xs) of
                None \<Rightarrow> Err (path, ''depends_on must be an array of non-empty strings'')
              | Some deps \<Rightarrow>
                  if uid \<in> set deps then Err (path, ''unit cannot depend on itself'')
                  else if \<not> distinct deps then Err (path, ''unit repeats a dependency'')
                  else Ok \<lparr>eu_unit_id = uid, eu_parameters = item, eu_depends_on = deps\<rparr>))"

record minted_unit =
  mn_unit_id :: string
  mn_parameters :: json
  mn_depends_on :: "string list"
  mn_inputs :: stage_input_set
  mn_input_snapshot :: "artifact_envelope list"
  mn_input_fingerprint :: string
  mn_outputs :: "materialized_output list"
  mn_source_artifact_id :: "string option"

definition finalizeMintedUnits ::
    "runtime_env \<Rightarrow> compiled_stage \<Rightarrow> stage_input_set \<Rightarrow> (execution_unit \<times> string option) list
     \<Rightarrow> contradiction + minted_unit list" where
  "finalizeMintedUnits env contract inputs driverUnits =
     map_result (\<lambda>(u, source).
       let unitInputs = selectInputsForUnit contract inputs u; input_snapshot = envelopes unitInputs
       in case outputSlots contract u of
            Inl (path, detail) \<Rightarrow> Err (MalformedDriverArtifact (cs_stage_key contract) source path detail)
          | Inr outputs \<Rightarrow>
              Ok \<lparr>mn_unit_id = eu_unit_id u, mn_parameters = eu_parameters u, mn_depends_on = eu_depends_on u,
                  mn_inputs = unitInputs, mn_input_snapshot = input_snapshot,
                  mn_input_fingerprint = fingerprintOf env input_snapshot, mn_outputs = outputs,
                  mn_source_artifact_id = source\<rparr>) driverUnits"

text \<open>The driver loop: each item with the artifact it comes from; \<open>seen\<close> are the unit ids so far.\<close>

fun parse_drivers ::
    "string \<Rightarrow> string \<Rightarrow> string option \<Rightarrow> string list \<Rightarrow> (json \<times> string option) list
     \<Rightarrow> contradiction + (execution_unit \<times> string option) list" where
  "parse_drivers stage_key idp depp seen [] = Inr []"
| "parse_drivers stage_key idp depp seen ((item, source) # rest) =
     (case parseUnit item idp depp of
        Inl (path, detail) \<Rightarrow> Err (MalformedDriverArtifact stage_key source path detail)
      | Inr u \<Rightarrow>
          if eu_unit_id u \<in> set seen
          then Err (MalformedDriverArtifact stage_key source idp (''duplicate unit_id '' @ sq (eu_unit_id u)))
          else bind_result (parse_drivers stage_key idp depp (eu_unit_id u # seen) rest)
                 (\<lambda>us. Ok ((u, source) # us)))"

text \<open>
  \<open>inputs[input_name]\<close> of an undelivered input whose name is a member of \<open>Object.prototype\<close> is not
  \<open>undefined\<close>: the loop sees one driver without fields, whose unit id cannot be read.
\<close>

definition driver_items :: "stage_input_set \<Rightarrow> string \<Rightarrow> (json \<times> string option) list" where
  "driver_items inputs input_name =
     (case obj_get inputs input_name of
        None \<Rightarrow> if input_name \<in> set (''__proto__'' # object_prototype_functions) then [(JNull, None)] else []
      | Some v \<Rightarrow> map (\<lambda>a. (unit_item a, Some (ae_artifact_id a))) (input_envelopes v))"

definition not_an_array :: "string \<Rightarrow> string" where
  "not_an_array kind = kind @ ''.over must resolve to an array''"

definition mintUnits ::
    "runtime_env \<Rightarrow> compiled_stage \<Rightarrow> stage_input_set \<Rightarrow> json \<Rightarrow> contradiction + minted_unit list" where
  "mintUnits env contract inputs context =
     (let key = cs_stage_key contract; be = \<lparr>be_inputs = inputs, be_context = context, be_item = JNull\<rparr>
      in case cs_materialization contract of
        Scalar \<Rightarrow>
          finalizeMintedUnits env contract inputs [(\<lparr>eu_unit_id = ''0'', eu_parameters = JObj [], eu_depends_on = []\<rparr>, None)]
      | ArtifactCollection over id_path \<Rightarrow>
          (let sourceId = sourceArtifactId over inputs; path = bindingPath over
           in case resolveBindingValue over be of
                Inl detail \<Rightarrow> Err (MalformedDriverArtifact key sourceId path detail)
              | Inr v \<Rightarrow>
                  (case as_array v of
                     None \<Rightarrow> Err (MalformedDriverArtifact key sourceId path (not_an_array ''artifact_collection''))
                   | Some items \<Rightarrow>
                       finalizeMintedUnits env contract inputs
                         [(\<lparr>eu_unit_id = ''0'', eu_parameters = JArr items, eu_depends_on = []\<rparr>, sourceId)]))
      | FanOut over idp depp _ _ \<Rightarrow>
          (case over of
             FromInput input_name _ \<Rightarrow>
               bind_result (parse_drivers key idp depp [] (driver_items inputs input_name))
                 (finalizeMintedUnits env contract inputs)
           | _ \<Rightarrow>
               (case resolveBindingValue over be of
                  Inl detail \<Rightarrow> Err (MalformedDriverArtifact key None (bindingPath over) detail)
                | Inr v \<Rightarrow>
                    (case as_array v of
                       None \<Rightarrow> Err (MalformedDriverArtifact key None (bindingPath over) (not_an_array ''fan_out''))
                     | Some items \<Rightarrow>
                         bind_result (parse_drivers key idp depp [] (map (\<lambda>item. (item, None)) items))
                           (finalizeMintedUnits env contract inputs)))))"

section \<open>Dependency cycles\<close>

type_synonym cycle_node = "string \<times> string list"

text \<open>\<open>new Map(...)\<close>: the last node of an id wins. \<open>byId.get(id)?.depends_on ?? []\<close>.\<close>

definition node_deps :: "cycle_node list \<Rightarrow> string \<Rightarrow> string list" where
  "node_deps nodes i = (case map_of (rev nodes) i of None \<Rightarrow> [] | Some ds \<Rightarrow> ds)"

text \<open>
  The closure \<open>visit\<close>: \<open>path\<close> (whose members are \<open>onPath\<close>) and \<open>visited\<close>, newest first, are its
  captured state. \<^const>\<open>Inl\<close> is the returned cycle, \<^const>\<open>Inr\<close> the new \<open>visited\<close>.
\<close>

function visit :: "cycle_node list \<Rightarrow> string list \<Rightarrow> string list \<Rightarrow> string \<Rightarrow> string list + string list"
  and visit_deps :: "cycle_node list \<Rightarrow> string list \<Rightarrow> string list \<Rightarrow> string list \<Rightarrow> string list + string list" where
  "visit nodes path visited i =
     (if i \<in> set path then Inl (dropWhile (\<lambda>j. j \<noteq> i) path @ [i])
      else if i \<in> set visited then Inr visited
      else case visit_deps nodes (path @ [i]) visited (node_deps nodes i) of
        Inl cycle \<Rightarrow> Inl cycle
      | Inr visited' \<Rightarrow> Inr (i # visited'))"
| "visit_deps nodes path visited [] = Inr visited"
| "visit_deps nodes path visited (d # ds) =
     (if d \<in> set (map fst nodes)
      then case visit nodes path visited d of
        Inl cycle \<Rightarrow> Inl cycle
      | Inr visited' \<Rightarrow> visit_deps nodes path visited' ds
      else visit_deps nodes path visited ds)"
  by pat_completeness auto
termination
proof (relation "measures [\<lambda>x. case x of Inl (nodes, path, _) \<Rightarrow> card (fst ` set nodes - set path)
      | Inr (nodes, path, _, _) \<Rightarrow> card (fst ` set nodes - set path),
    \<lambda>x. case x of Inl _ \<Rightarrow> 1 | Inr (_, _, _, ds) \<Rightarrow> 2 * length ds]", goal_cases)
  case (2 nodes path visited i)
  show ?case
  proof (cases "i \<in> fst ` set nodes")
    case True
    have "card (fst ` set nodes - insert i (set path)) < card (fst ` set nodes - set path)"
      by (rule psubset_card_mono) (use True 2 in auto)
    then show ?thesis by simp
  next
    case False
    then have "map_of (rev nodes) i = None" by (auto simp: map_of_eq_None_iff)
    moreover have "fst ` set nodes - insert i (set path) = fst ` set nodes - set path" using False by auto
    ultimately show ?thesis by (simp add: node_deps_def)
  qed
qed auto

text \<open>The root loop visits every node in id order, with an empty path; every root is a key of the map.\<close>

definition findCycle :: "cycle_node list \<Rightarrow> string list option" where
  "findCycle nodes =
     (case visit_deps nodes [] [] (map fst (sort_key fst nodes)) of
        Inl cycle \<Rightarrow> Some cycle
      | Inr _ \<Rightarrow> None)"

section \<open>derive\<close>

definition materializeUnitCommand ::
    "runtime_env \<Rightarrow> string \<Rightarrow> string \<Rightarrow> string \<Rightarrow> minted_unit \<Rightarrow> stage_policy \<Rightarrow> command" where
  "materializeUnitCommand env rid stage_key sid u policy =
     MaterializeUnit \<lparr>mc_stage_key = stage_key, mc_stage_instance_id = sid,
       mc_run_unit_id = runUnitIdFor env rid stage_key (mn_unit_id u), mc_unit_id = mn_unit_id u,
       mc_parameters = mn_parameters u, mc_depends_on = mn_depends_on u, mc_inputs = mn_inputs u,
       mc_input_snapshot = mn_input_snapshot u, mc_input_fingerprint = mn_input_fingerprint u,
       mc_outputs = mn_outputs u, mc_policy = policy\<rparr>"

definition reviseUnitCommand :: "string \<Rightarrow> string \<Rightarrow> unit_snapshot \<Rightarrow> minted_unit \<Rightarrow> command" where
  "reviseUnitCommand stage_key sid existing u =
     ReviseUnit \<lparr>rc_stage_key = stage_key, rc_stage_instance_id = sid, rc_run_unit_id = us_id existing,
       rc_unit_id = mn_unit_id u, rc_parameters = mn_parameters u, rc_inputs = mn_inputs u,
       rc_input_snapshot = mn_input_snapshot u, rc_input_fingerprint = mn_input_fingerprint u\<rparr>"

definition find_unit :: "stage_snapshot \<Rightarrow> string \<Rightarrow> unit_snapshot option" where
  "find_unit stored uid = List.find (\<lambda>candidate. us_unit_id candidate = uid) (ss_units stored)"

text \<open>The command one minted unit of a stored stage gives, if any.\<close>

definition unit_commands ::
    "runtime_env \<Rightarrow> string \<Rightarrow> compiled_stage \<Rightarrow> string \<Rightarrow> stage_snapshot \<Rightarrow> minted_unit \<Rightarrow> command list" where
  "unit_commands env rid contract stage_key stored u =
     (case find_unit stored (mn_unit_id u) of
        Some existing \<Rightarrow>
          if us_input_fingerprint existing \<noteq> mn_input_fingerprint u
          then [reviseUnitCommand stage_key (ss_id stored) existing u] else []
      | None \<Rightarrow>
          if \<not> ss_materialization_closed stored
          then [materializeUnitCommand env rid stage_key (ss_id stored) u (policyOf contract)] else [])"

definition is_revision :: "command \<Rightarrow> bool" where
  "is_revision c = (case c of ReviseUnit _ \<Rightarrow> True | _ \<Rightarrow> False)"

definition is_materialize_unit :: "command \<Rightarrow> bool" where
  "is_materialize_unit c = (case c of MaterializeUnit _ \<Rightarrow> True | _ \<Rightarrow> False)"

text \<open>The first dependency, in unit order, that names no stored unit.\<close>

definition unknown_dependency :: "stage_snapshot \<Rightarrow> (string \<times> string) option" where
  "unknown_dependency stored =
     List.find (\<lambda>(u, d). \<not> list_ex (\<lambda>candidate. us_unit_id candidate = d) (ss_units stored))
       (concat (map (\<lambda>u. map (\<lambda>d. (us_unit_id u, d)) (us_depends_on u)) (sorted_units stored)))"

definition stored_nodes :: "stage_snapshot \<Rightarrow> cycle_node list" where
  "stored_nodes stored = map (\<lambda>u. (us_unit_id u, us_depends_on u)) (ss_units stored)"

definition minted_nodes :: "minted_unit list \<Rightarrow> cycle_node list" where
  "minted_nodes minted = map (\<lambda>u. (mn_unit_id u, mn_depends_on u)) minted"

text \<open>One iteration of the materialization loop for a stage without a row.\<close>

definition derive_new_stage ::
    "runtime_env \<Rightarrow> run_snapshot \<Rightarrow> string \<Rightarrow> compiled_stage \<Rightarrow> contradiction + command list" where
  "derive_new_stage env snapshot stage_key contract =
     (let rid = run_id (snap_run snapshot); sid = stageInstanceIdFor env rid stage_key
      in bind_result
        (mintUnits env contract (stageInputs stage_key (snap_definition snapshot) snapshot) (run_context (snap_run snapshot)))
        (\<lambda>minted.
           case findCycle (minted_nodes minted) of
             Some cycle \<Rightarrow> Err (DependencyCycle stage_key cycle)
           | None \<Rightarrow>
               Ok (MaterializeStage stage_key sid (policyOf contract) #
                   map (\<lambda>u. materializeUnitCommand env rid stage_key sid u (policyOf contract)) minted)))"

text \<open>One iteration of the materialization loop for a stored stage.\<close>

definition derive_stored_stage ::
    "runtime_env \<Rightarrow> run_snapshot \<Rightarrow> string \<Rightarrow> compiled_stage \<Rightarrow> stage_snapshot \<Rightarrow> contradiction + command list" where
  "derive_stored_stage env snapshot stage_key contract stored =
     (let rid = run_id (snap_run snapshot); d = snap_definition snapshot
      in bind_result (mintUnits env contract (stageInputs stage_key d snapshot) (run_context (snap_run snapshot)))
        (\<lambda>minted.
           let cmds = concat (map (unit_commands env rid contract stage_key stored) minted);
               added = list_ex is_materialize_unit cmds
           in if ss_materialization_closed stored then Ok cmds
              else case findCycle (stored_nodes stored @
                     minted_nodes (filter (\<lambda>u. find_unit stored (mn_unit_id u) = None) minted)) of
                Some cycle \<Rightarrow> Err (DependencyCycle stage_key cycle)
              | None \<Rightarrow>
                  if \<not> added \<and> shouldClose stage_key d snapshot
                  then (case unknown_dependency stored of
                          Some (u, dep) \<Rightarrow> Err (UnknownDependencyAtClose stage_key u dep)
                        | None \<Rightarrow> Ok (cmds @ [CloseMaterialization stage_key (ss_id stored) (policyOf contract)]))
                  else Ok cmds))"

definition derive_stage ::
    "runtime_env \<Rightarrow> run_snapshot \<Rightarrow> string \<Rightarrow> command list \<times> string list
     \<Rightarrow> contradiction + command list \<times> string list" where
  "derive_stage env snapshot stage_key acc =
     (let (commands, revised) = acc
      in case obj_get (cw_stages (snap_definition snapshot)) stage_key of
           None \<Rightarrow> Ok acc
         | Some contract \<Rightarrow>
             if \<not> isReady stage_key (snap_definition snapshot) snapshot then Ok acc
             else case find_stage snapshot stage_key of
               None \<Rightarrow>
                 bind_result (derive_new_stage env snapshot stage_key contract)
                   (\<lambda>cmds. Ok (commands @ cmds, revised))
             | Some stored \<Rightarrow>
                 bind_result (derive_stored_stage env snapshot stage_key contract stored)
                   (\<lambda>cmds. Ok (commands @ cmds, if list_ex is_revision cmds then ss_id stored # revised else revised)))"

definition has_started_order :: "unit_snapshot \<Rightarrow> bool" where
  "has_started_order u \<longleftrightarrow> list_ex (\<lambda>w. wo_state w = WStarted) (us_work_orders u)"

definition slots_released :: "unit_snapshot \<Rightarrow> bool" where
  "slots_released u \<longleftrightarrow>
     us_required_slots u \<noteq> [] \<and>
     list_all (\<lambda>slot. case slot_state slot of SlotReleased _ _ \<Rightarrow> True | _ \<Rightarrow> False) (us_required_slots u)"

definition satisfied_now :: "stage_snapshot \<Rightarrow> unit_snapshot list" where
  "satisfied_now stored =
     filter (\<lambda>u. us_state u \<notin> set TERMINAL_UNIT_STATES \<and> slots_released u) (sorted_units stored)"

definition running_units :: "stage_snapshot \<Rightarrow> unit_snapshot list" where
  "running_units stored = filter (\<lambda>u. has_started_order u \<and> us_open_waits u = []) (sorted_units stored)"

definition eligible :: "stage_snapshot \<Rightarrow> unit_snapshot \<Rightarrow> bool" where
  "eligible stored u \<longleftrightarrow>
     us_state u \<notin> set TERMINAL_UNIT_STATES \<and> us_open_waits u = [] \<and> \<not> has_started_order u \<and> us_admitted u \<and>
     list_all (\<lambda>d. case find_unit stored d of Some v \<Rightarrow> us_state v = USatisfied | None \<Rightarrow> False) (us_depends_on u) \<and>
     us_id u \<notin> set (map us_id (satisfied_now stored))"

definition next_order :: "unit_snapshot \<Rightarrow> work_order option" where
  "next_order u =
     (case sort_key (\<lambda>w. (wo_created_at w, wo_id w)) (filter (\<lambda>w. wo_state w = WAvailable) (us_work_orders u)) of
        [] \<Rightarrow> None
      | w # _ \<Rightarrow> Some w)"

fun start_loop :: "stage_snapshot \<Rightarrow> nat \<Rightarrow> unit_snapshot list \<Rightarrow> command list" where
  "start_loop stored capacity [] = []"
| "start_loop stored capacity (u # us) =
     (if capacity = 0 then []
      else if eligible stored u
      then (case next_order u of
              Some order \<Rightarrow> StartWork (wo_id order) (us_id u) # start_loop stored (capacity - 1) us
            | None \<Rightarrow> start_loop stored capacity us)
      else start_loop stored capacity us)"

definition stage_capacity :: "stage_snapshot \<Rightarrow> nat" where
  "stage_capacity stored = max_parallel (ss_policy stored) - length (running_units stored)"

text \<open>Part C of \<open>derive\<close> for one stored stage.\<close>

definition stage_facts :: "string list \<Rightarrow> stage_snapshot \<Rightarrow> command list" where
  "stage_facts revised stored =
     (if ss_state stored \<noteq> RunActive then []
      else map (\<lambda>u. MarkUnitSatisfied (us_id u)) (satisfied_now stored) @
           start_loop stored (stage_capacity stored) (sorted_units stored) @
           (if ss_materialization_closed stored \<and> ss_id stored \<notin> set revised \<and> all_satisfied stored
            then [MarkStageSucceeded (ss_id stored)] else []))"

definition run_complete :: "run_snapshot \<Rightarrow> bool" where
  "run_complete snapshot \<longleftrightarrow>
     snap_stages snapshot \<noteq> [] \<and>
     list_all (\<lambda>key. list_ex (\<lambda>stage. ss_stage_key stage = key) (snap_stages snapshot)) (obj_keys (cw_stages (snap_definition snapshot))) \<and>
     list_all (\<lambda>stage. ss_state stage = RunSucceeded) (snap_stages snapshot)"

definition derive :: "runtime_env \<Rightarrow> run_snapshot \<Rightarrow> contradiction + command list" where
  "derive env snapshot =
     (case findFirstUnit snapshot (\<lambda>u. us_state u = UCancelled) of
        Some u \<Rightarrow> Ok [CompleteRun (case us_outcome u of Some out \<Rightarrow> out | None \<Rightarrow> Cancelled None)]
      | None \<Rightarrow>
          (case findFirstUnit snapshot (\<lambda>u. us_state u = UFailed) of
             Some u \<Rightarrow> Ok [CompleteRun (case us_outcome u of Some out \<Rightarrow> out | None \<Rightarrow> Failed ''unit_failed'' (us_unit_id u))]
           | None \<Rightarrow>
               bind_result
                 (fold_result (derive_stage env snapshot) (sort (obj_keys (cw_stages (snap_definition snapshot)))) ([], []))
                 (\<lambda>(commands, revised).
                    Ok (commands @ concat (map (stage_facts revised) (sorted_stages snapshot)) @
                        (if run_complete snapshot then [CompleteRun Succeeded] else [])))))"

section \<open>Correctness of the cycle search\<close>

text \<open>The dependency edges between the nodes given.\<close>

definition dep_edges :: "cycle_node list \<Rightarrow> (string \<times> string) set" where
  "dep_edges nodes = {(a, b). b \<in> set (node_deps nodes a) \<and> b \<in> set (map fst nodes)}"

text \<open>A walk along dependency edges.\<close>

fun dep_chain :: "cycle_node list \<Rightarrow> string list \<Rightarrow> bool" where
  "dep_chain nodes (a # b # rest) \<longleftrightarrow> (a, b) \<in> dep_edges nodes \<and> dep_chain nodes (b # rest)"
| "dep_chain nodes _ \<longleftrightarrow> True"

lemma dep_chain_snoc:
  "dep_chain nodes (xs @ [a]) \<longleftrightarrow> dep_chain nodes xs \<and> (xs \<noteq> [] \<longrightarrow> (last xs, a) \<in> dep_edges nodes)"
proof (induction xs rule: induct_list012)
  case (3 x y zs)
  then show ?case by (cases zs) auto
qed auto

lemma dep_chain_suffix: "dep_chain nodes (xs @ ys) \<Longrightarrow> dep_chain nodes ys"
proof (induction xs)
  case (Cons x xs)
  then show ?case by (cases "xs @ ys") auto
qed simp

text \<open>A finished list, newest first: every node comes after all its dependencies.\<close>

fun topo :: "cycle_node list \<Rightarrow> string list \<Rightarrow> bool" where
  "topo nodes [] \<longleftrightarrow> True"
| "topo nodes (v # vs) \<longleftrightarrow> v \<notin> set vs \<and> (\<forall>b. (v, b) \<in> dep_edges nodes \<longrightarrow> b \<in> set vs) \<and> topo nodes vs"

lemma topo_suffix: "topo nodes (xs @ ys) \<Longrightarrow> topo nodes ys"
  by (induction xs) auto

lemma visit_cycle:
  "visit nodes path visited i = Inl cycle \<Longrightarrow> dep_chain nodes path \<Longrightarrow>
     (path \<noteq> [] \<Longrightarrow> (last path, i) \<in> dep_edges nodes) \<Longrightarrow>
     dep_chain nodes cycle \<and> 2 \<le> length cycle \<and> hd cycle = last cycle"
  "visit_deps nodes path visited ds = Inl cycle \<Longrightarrow> dep_chain nodes path \<Longrightarrow>
     (path \<noteq> [] \<Longrightarrow> set ds \<subseteq> set (node_deps nodes (last path))) \<Longrightarrow>
     dep_chain nodes cycle \<and> 2 \<le> length cycle \<and> hd cycle = last cycle"
proof (induction nodes path visited i and nodes path visited ds arbitrary: cycle and cycle rule: visit_visit_deps.induct)
  case (1 nodes path visited i)
  show ?case
  proof (cases "i \<in> set path")
    case True
    then obtain pre post where path: "path = pre @ i # post" "i \<notin> set pre" by (metis split_list_first)
    then have drop: "dropWhile (\<lambda>j. j \<noteq> i) path = i # post" by (induction pre arbitrary: path) auto
    have "dep_chain nodes (path @ [i])" using 1 True by (auto simp: dep_chain_snoc)
    then have "dep_chain nodes ((i # post) @ [i])"
      using dep_chain_suffix [of nodes pre "(i # post) @ [i]"] by (simp add: path)
    then show ?thesis using 1 True drop by auto
  next
    case False
    with 1 show ?thesis
      by (auto simp: dep_chain_snoc split: if_splits sum.splits)
  qed
next
  case (3 nodes path visited d ds)
  then show ?case by (auto simp: dep_edges_def split: if_splits sum.splits)
qed simp

lemma visit_done:
  "visit nodes path visited i = Inr done' \<Longrightarrow> topo nodes visited \<Longrightarrow> set visited \<inter> set path = {} \<Longrightarrow>
     topo nodes done' \<and> set visited \<subseteq> set done' \<and> i \<in> set done' \<and> set done' \<inter> set path = {}"
  "visit_deps nodes path visited ds = Inr done' \<Longrightarrow> topo nodes visited \<Longrightarrow> set visited \<inter> set path = {} \<Longrightarrow>
     topo nodes done' \<and> set visited \<subseteq> set done' \<and> set ds \<inter> set (map fst nodes) \<subseteq> set done' \<and> set done' \<inter> set path = {}"
proof (induction nodes path visited i and nodes path visited ds arbitrary: done' and done' rule: visit_visit_deps.induct)
  case (1 nodes path visited i)
  consider "i \<in> set visited" "i \<notin> set path" "done' = visited"
    | inner where "i \<notin> set path" "i \<notin> set visited"
        "visit_deps nodes (path @ [i]) visited (node_deps nodes i) = Inr inner" "done' = i # inner"
    using "1.prems"(1) by (auto split: if_splits sum.splits)
  then show ?case
  proof cases
    case 1
    with "1.prems"(2,3) show ?thesis by blast
  next
    case (2 inner)
    then have "topo nodes inner \<and> set visited \<subseteq> set inner \<and>
        set (node_deps nodes i) \<inter> set (map fst nodes) \<subseteq> set inner \<and> set inner \<inter> set (path @ [i]) = {}"
      using "1.IH" [OF _ _ 2(3)] "1.prems"(2,3) by simp
    then show ?thesis using 2 by (auto simp: dep_edges_def)
  qed
next
  case (3 nodes path visited d ds)
  show ?case
  proof (cases "d \<in> set (map fst nodes)")
    case True
    then obtain mid where mid: "visit nodes path visited d = Inr mid" "visit_deps nodes path mid ds = Inr done'"
      using "3.prems"(1) by (auto split: sum.splits)
    have "topo nodes mid \<and> set visited \<subseteq> set mid \<and> d \<in> set mid \<and> set mid \<inter> set path = {}"
      using "3.IH"(1) [OF True mid(1)] "3.prems" by blast
    with "3.IH"(2) [OF True mid(1) mid(2)] show ?thesis by auto
  next
    case False
    have "visit_deps nodes path visited ds = Inr done'" using "3.prems"(1) False by simp
    from "3.IH"(3) [OF False this] "3.prems"(2,3) False show ?thesis by auto
  qed
qed auto

text \<open>A finished list contains no walk that returns to its start.\<close>

lemma topo_trancl:
  assumes "(a, b) \<in> (dep_edges nodes)\<^sup>+" and "topo nodes vs" and "a \<in> set vs"
  shows "\<exists>pre post. vs = pre @ a # post \<and> b \<in> set post"
  using assms
proof (induction rule: trancl_induct)
  case (base b)
  then obtain pre post where vs: "vs = pre @ a # post" by (meson split_list)
  have "topo nodes (a # post)" using base.prems(1) topo_suffix unfolding vs by blast
  then show ?case using base.hyps vs by auto
next
  case (step b c)
  then obtain pre post where vs: "vs = pre @ a # post" "b \<in> set post" by auto
  then obtain pre' post' where post: "post = pre' @ b # post'" by (meson split_list)
  have "topo nodes (b # post')"
    by (rule topo_suffix [of nodes "pre @ a # pre'"]) (use step.prems(1) in \<open>simp add: vs post\<close>)
  then have "c \<in> set post" using step.hyps by (simp add: post)
  then show ?case using vs by blast
qed

lemma topo_acyclic:
  assumes "topo nodes vs" and "set (map fst nodes) \<subseteq> set vs"
  shows "acyclic (dep_edges nodes)"
proof (rule acyclicI, rule allI, rule notI)
  fix x
  assume cyc: "(x, x) \<in> (dep_edges nodes)\<^sup>+"
  then obtain y where "(y, x) \<in> dep_edges nodes" by (metis tranclD2)
  then have "x \<in> set vs" using assms(2) by (auto simp: dep_edges_def)
  from topo_trancl [OF cyc assms(1) this] obtain pre post where vs: "vs = pre @ x # post" "x \<in> set post" by auto
  have "topo nodes (x # post)" using assms(1) topo_suffix unfolding vs(1) by blast
  with vs show False by simp
qed

lemma findCycle_None:
  assumes "findCycle nodes = None"
  obtains vs where "topo nodes vs" "set (map fst nodes) \<subseteq> set vs"
proof -
  from assms obtain vs where "visit_deps nodes [] [] (map fst (sort_key fst nodes)) = Inr vs"
    by (auto simp: findCycle_def split: sum.splits)
  from visit_done(2) [OF this] that show ?thesis by auto
qed

lemma dep_chain_trancl:
  "dep_chain nodes (a # xs) \<Longrightarrow> xs \<noteq> [] \<Longrightarrow> (a, last xs) \<in> (dep_edges nodes)\<^sup>+"
proof (induction xs arbitrary: a)
  case (Cons b xs)
  then show ?case by (cases xs) (auto intro: trancl_into_trancl2)
qed simp

lemma findCycle_Some:
  assumes "findCycle nodes = Some cycle"
  shows "dep_chain nodes cycle \<and> 2 \<le> length cycle \<and> hd cycle = last cycle"
  using assms visit_cycle(2) [of nodes "[]" "[]" "map fst (sort_key fst nodes)"]
  by (auto simp: findCycle_def split: sum.splits)

lemma findCycle_acyclic: "findCycle nodes = None \<longleftrightarrow> acyclic (dep_edges nodes)"
proof
  assume "findCycle nodes = None"
  then show "acyclic (dep_edges nodes)" by (metis findCycle_None topo_acyclic)
next
  assume ac: "acyclic (dep_edges nodes)"
  show "findCycle nodes = None"
  proof (rule ccontr)
    assume "findCycle nodes \<noteq> None"
    then obtain cycle where "findCycle nodes = Some cycle" by auto
    note c = findCycle_Some [OF this]
    then obtain a xs where "cycle = a # xs" "xs \<noteq> []" by (cases cycle; cases "tl cycle") auto
    with c dep_chain_trancl [of nodes a xs] have "(a, a) \<in> (dep_edges nodes)\<^sup>+" by auto
    with ac show False by (simp add: acyclic_def)
  qed
qed

text \<open>
  C31. The cycle search is sound and complete: it reports no cycle exactly when the dependency
  relation between the units is acyclic, and a path it reports is a walk along dependencies
  that ends where it starts. Dependencies on units that do not exist yet are ignored, and the
  search terminates on every graph.
\<close>
theorem findCycle_correct:
  "(findCycle nodes = None \<longleftrightarrow> acyclic (dep_edges nodes)) \<and>
   (case findCycle nodes of None \<Rightarrow> True
    | Some cycle \<Rightarrow> dep_chain nodes cycle \<and> 2 \<le> length cycle \<and> hd cycle = last cycle)"
  using findCycle_acyclic findCycle_Some by (auto split: option.splits)

section \<open>The shape of a derivation\<close>

definition all_units :: "run_snapshot \<Rightarrow> unit_snapshot list" where
  "all_units snapshot = concat (map ss_units (snap_stages snapshot))"

text \<open>No unit of the run has failed or was cancelled: the run is still being advanced.\<close>

definition undecided :: "run_snapshot \<Rightarrow> bool" where
  "undecided snapshot \<longleftrightarrow> (\<forall>u \<in> set (all_units snapshot). us_state u \<noteq> UCancelled \<and> us_state u \<noteq> UFailed)"

lemma set_sorted_units [simp]: "set (sorted_units st) = set (ss_units st)"
  by (simp add: sorted_units_def)

lemma set_sorted_stages [simp]: "set (sorted_stages snap) = set (snap_stages snap)"
  by (simp add: sorted_stages_def)

lemma set_all_sorted: "set (concat (map sorted_units (sorted_stages snap))) = set (all_units snap)"
  by (auto simp: all_units_def)

lemma findFirstUnit_Some: "findFirstUnit snap P = Some u \<Longrightarrow> u \<in> set (all_units snap) \<and> P u"
  unfolding findFirstUnit_def by (drule find_Some_set) (simp only: set_all_sorted)

lemma findFirstUnit_None: "findFirstUnit snap P = None \<longleftrightarrow> (\<forall>u \<in> set (all_units snap). \<not> P u)"
  unfolding findFirstUnit_def find_None_set set_all_sorted ..

lemma derive_undecided:
  assumes "undecided snap"
  shows "derive env snap =
    bind_result
      (fold_result (derive_stage env snap) (sort (obj_keys (cw_stages (snap_definition snap)))) ([], []))
      (\<lambda>(commands, revised).
         Ok (commands @ concat (map (stage_facts revised) (sorted_stages snap)) @
             (if run_complete snap then [CompleteRun Succeeded] else [])))"
proof -
  have "findFirstUnit snap (\<lambda>u. us_state u = UCancelled) = None" "findFirstUnit snap (\<lambda>u. us_state u = UFailed) = None"
    using assms by (auto simp: undecided_def findFirstUnit_None)
  then show ?thesis by (simp add: derive_def)
qed

lemma derive_decided:
  assumes "\<not> undecided snap"
  obtains outcome where "derive env snap = Inr [CompleteRun outcome]"
proof (cases "findFirstUnit snap (\<lambda>u. us_state u = UCancelled)")
  case (Some u)
  then show ?thesis using that by (simp add: derive_def)
next
  case None
  have "findFirstUnit snap (\<lambda>u. us_state u = UFailed) \<noteq> None"
    using assms None by (auto simp: undecided_def findFirstUnit_None)
  with None that show ?thesis by (auto simp: derive_def)
qed

text \<open>The materialization command \<open>c\<close> comes from one iteration of the stage loop.\<close>

definition stage_command :: "runtime_env \<Rightarrow> run_snapshot \<Rightarrow> command \<Rightarrow> bool" where
  "stage_command env snap c \<longleftrightarrow>
     (\<exists>key contract. obj_get (cw_stages (snap_definition snap)) key = Some contract \<and>
        isReady key (snap_definition snap) snap \<and>
        ((find_stage snap key = None \<and> (\<exists>cs. derive_new_stage env snap key contract = Inr cs \<and> c \<in> set cs)) \<or>
         (\<exists>stored cs. find_stage snap key = Some stored \<and>
            derive_stored_stage env snap key contract stored = Inr cs \<and> c \<in> set cs)))"

fun is_fact :: "command \<Rightarrow> bool" where
  "is_fact (MarkUnitSatisfied _) = True"
| "is_fact (StartWork _ _) = True"
| "is_fact (MarkStageSucceeded _) = True"
| "is_fact (CompleteRun _) = True"
| "is_fact _ = False"

lemma unit_commands_kind:
  assumes "c \<in> set (unit_commands env rid contract key stored u)"
  shows "(find_unit stored (mn_unit_id u) = None \<and> \<not> ss_materialization_closed stored \<and>
      c = materializeUnitCommand env rid key (ss_id stored) u (policyOf contract)) \<or>
    (\<exists>existing. find_unit stored (mn_unit_id u) = Some existing \<and> us_input_fingerprint existing \<noteq> mn_input_fingerprint u \<and>
      c = reviseUnitCommand key (ss_id stored) existing u)"
  using assms by (auto simp: unit_commands_def split: option.splits if_splits)

text \<open>The commands a stored stage can give, read off the branches of its iteration.\<close>

lemma derive_stored_stage_kinds:
  assumes "derive_stored_stage env snap key contract stored = Inr cs"
  obtains minted where
    "mintUnits env contract (stageInputs key (snap_definition snap) snap) (run_context (snap_run snap)) = Inr minted"
    "\<forall>c \<in> set cs. c = CloseMaterialization key (ss_id stored) (policyOf contract) \<or>
       (\<exists>u \<in> set minted. c \<in> set (unit_commands env (run_id (snap_run snap)) contract key stored u))"
    "\<not> ss_materialization_closed stored \<Longrightarrow>
       findCycle (stored_nodes stored @ minted_nodes (filter (\<lambda>u. find_unit stored (mn_unit_id u) = None) minted)) = None"
    "CloseMaterialization key (ss_id stored) (policyOf contract) \<in> set cs \<Longrightarrow>
       \<not> ss_materialization_closed stored \<and> \<not> list_ex is_materialize_unit cs \<and>
       shouldClose key (snap_definition snap) snap \<and> unknown_dependency stored = None"
proof -
  obtain minted where minted:
      "mintUnits env contract (stageInputs key (snap_definition snap) snap) (run_context (snap_run snap)) = Inr minted"
    using assms by (auto simp: derive_stored_stage_def Let_def)
  let ?cmds = "concat (map (unit_commands env (run_id (snap_run snap)) contract key stored) minted)"
  have noclose: "CloseMaterialization k s p \<notin> set ?cmds" for k s p
    by (auto dest!: unit_commands_kind simp: materializeUnitCommand_def reviseUnitCommand_def)
  have branches: "bind_result (Inr minted) (\<lambda>minted. f minted) = f minted" for f :: "minted_unit list \<Rightarrow> contradiction + command list"
    by simp
  consider "ss_materialization_closed stored" "cs = ?cmds"
    | "\<not> ss_materialization_closed stored" "cs = ?cmds"
      "findCycle (stored_nodes stored @ minted_nodes (filter (\<lambda>u. find_unit stored (mn_unit_id u) = None) minted)) = None"
    | "\<not> ss_materialization_closed stored" "\<not> list_ex is_materialize_unit ?cmds"
      "shouldClose key (snap_definition snap) snap" "unknown_dependency stored = None"
      "cs = ?cmds @ [CloseMaterialization key (ss_id stored) (policyOf contract)]"
      "findCycle (stored_nodes stored @ minted_nodes (filter (\<lambda>u. find_unit stored (mn_unit_id u) = None) minted)) = None"
    using assms unfolding derive_stored_stage_def Let_def minted branches
    by (simp only: split: if_split_asm option.split_asm prod.split_asm) blast+
  then show ?thesis
  proof cases
    case 1
    then show ?thesis using that [OF minted] noclose by auto
  next
    case 2
    then show ?thesis using that [OF minted] noclose by auto
  next
    case 3
    then show ?thesis by (intro that [OF minted]) (auto simp: is_materialize_unit_def)
  qed
qed

lemma derive_new_stage_kinds:
  assumes "derive_new_stage env snap key contract = Inr cs"
  obtains minted where
    "mintUnits env contract (stageInputs key (snap_definition snap) snap) (run_context (snap_run snap)) = Inr minted"
    "findCycle (minted_nodes minted) = None"
    "cs = MaterializeStage key (stageInstanceIdFor env (run_id (snap_run snap)) key) (policyOf contract) #
      map (\<lambda>u. materializeUnitCommand env (run_id (snap_run snap)) key
        (stageInstanceIdFor env (run_id (snap_run snap)) key) u (policyOf contract)) minted"
  using assms that by (auto simp: derive_new_stage_def Let_def split: option.splits)

lemma stage_command_no_fact: "stage_command env snap c \<Longrightarrow> \<not> is_fact c"
  unfolding stage_command_def
  by (auto elim!: derive_new_stage_kinds derive_stored_stage_kinds dest!: unit_commands_kind
      simp: materializeUnitCommand_def reviseUnitCommand_def)

lemma stored_stage_revisions:
  assumes "derive_stored_stage env snap key contract stored = Inr cs" and "ReviseUnit r \<in> set cs"
  shows "rc_stage_instance_id r = ss_id stored"
  using assms by (auto elim!: derive_stored_stage_kinds dest!: unit_commands_kind
      simp: materializeUnitCommand_def reviseUnitCommand_def)

lemma new_stage_no_revision:
  assumes "derive_new_stage env snap key contract = Inr cs"
  shows "ReviseUnit r \<notin> set cs"
  using assms by (auto elim!: derive_new_stage_kinds simp: materializeUnitCommand_def)

text \<open>What the stage loop accumulates.\<close>

definition loop_ok :: "runtime_env \<Rightarrow> run_snapshot \<Rightarrow> command list \<times> string list \<Rightarrow> bool" where
  "loop_ok env snap acc \<longleftrightarrow>
     (\<forall>c \<in> set (fst acc). stage_command env snap c) \<and>
     (\<forall>s. s \<in> set (snd acc) \<longleftrightarrow> (\<exists>r. ReviseUnit r \<in> set (fst acc) \<and> rc_stage_instance_id r = s))"

lemma derive_stage_loop_ok:
  assumes "derive_stage env snap key acc = Inr acc'" and "loop_ok env snap acc"
  shows "loop_ok env snap acc'"
proof -
  obtain commands revised where acc: "acc = (commands, revised)" by (cases acc)
  consider "acc' = acc"
    | contract cs where "obj_get (cw_stages (snap_definition snap)) key = Some contract"
        "isReady key (snap_definition snap) snap" "find_stage snap key = None"
        "derive_new_stage env snap key contract = Inr cs" "acc' = (commands @ cs, revised)"
    | contract stored cs where "obj_get (cw_stages (snap_definition snap)) key = Some contract"
        "isReady key (snap_definition snap) snap" "find_stage snap key = Some stored"
        "derive_stored_stage env snap key contract stored = Inr cs"
        "acc' = (commands @ cs, if list_ex is_revision cs then ss_id stored # revised else revised)"
    using assms(1) by (auto simp: derive_stage_def acc Let_def split: option.splits if_splits)
  then show ?thesis
  proof cases
    case 1
    with assms(2) show ?thesis by simp
  next
    case (2 contract cs)
    then have "\<forall>c \<in> set cs. stage_command env snap c" unfolding stage_command_def by blast
    then show ?thesis using assms(2) new_stage_no_revision [OF 2(4)]
      unfolding loop_ok_def acc 2(5) by auto
  next
    case (3 contract stored cs)
    have "is_revision c \<longleftrightarrow> (\<exists>r. c = ReviseUnit r)" for c by (cases c) (auto simp: is_revision_def)
    then have "list_ex is_revision cs \<longleftrightarrow> (\<exists>r. ReviseUnit r \<in> set cs)" by (auto simp: list_ex_iff)
    moreover have "\<forall>c \<in> set cs. stage_command env snap c" unfolding stage_command_def using 3 by blast
    ultimately show ?thesis
      using assms(2) stored_stage_revisions [OF 3(4)] unfolding loop_ok_def acc 3(5)
      by (auto split: if_splits)
  qed
qed

lemma derive_parts:
  assumes "derive env snap = Inr cmds" and "undecided snap"
  obtains mat revised where
    "cmds = mat @ concat (map (stage_facts revised) (sorted_stages snap)) @ (if run_complete snap then [CompleteRun Succeeded] else [])"
    "loop_ok env snap (mat, revised)"
proof -
  obtain mat revised where
      fold: "fold_result (derive_stage env snap) (sort (obj_keys (cw_stages (snap_definition snap)))) ([], []) = Inr (mat, revised)"
    and cmds: "cmds = mat @ concat (map (stage_facts revised) (sorted_stages snap)) @ (if run_complete snap then [CompleteRun Succeeded] else [])"
    using assms by (auto simp: derive_undecided)
  have "loop_ok env snap (mat, revised)"
    by (rule fold_result_invariant [OF fold]) (auto simp: loop_ok_def [of _ _ "([], [])"] dest: derive_stage_loop_ok)
  with cmds that show ?thesis by blast
qed

lemma loop_no_fact: "loop_ok env snap (mat, revised) \<Longrightarrow> is_fact c \<Longrightarrow> c \<notin> set mat"
  by (auto simp: loop_ok_def dest: stage_command_no_fact)

section \<open>Which commands a batch has\<close>

definition startable :: "stage_snapshot \<Rightarrow> unit_snapshot \<Rightarrow> bool" where
  "startable stored u \<longleftrightarrow> eligible stored u \<and> next_order u \<noteq> None"

definition start_command :: "unit_snapshot \<Rightarrow> command" where
  "start_command u = StartWork (wo_id (the (next_order u))) (us_id u)"

text \<open>The start loop takes the first startable units, as many as there is capacity for.\<close>

lemma start_loop_eq:
  "start_loop stored capacity us = map start_command (take capacity (filter (startable stored) us))"
proof (induction stored capacity us rule: start_loop.induct)
  case (2 stored capacity u us)
  then show ?case
    by (cases capacity) (auto simp: startable_def start_command_def split: option.splits)
qed simp

lemma next_order_oldest:
  assumes "next_order u = Some w"
  shows "w \<in> set (us_work_orders u) \<and> wo_state w = WAvailable \<and>
    (\<forall>v \<in> set (us_work_orders u). wo_state v = WAvailable \<longrightarrow> (wo_created_at w, wo_id w) \<le> (wo_created_at v, wo_id v))"
proof -
  let ?avail = "filter (\<lambda>w. wo_state w = WAvailable) (us_work_orders u)"
  let ?key = "\<lambda>w. (wo_created_at w, wo_id w)"
  obtain ws where ws: "sort_key ?key ?avail = w # ws"
    using assms by (auto simp: next_order_def split: list.splits)
  have sorted: "sorted (map ?key (w # ws))" unfolding ws [symmetric] by simp
  have set: "set (w # ws) = set ?avail" unfolding ws [symmetric] by simp
  have "?key w \<le> ?key v" if "v \<in> set ?avail" for v
    using sorted that set by (auto simp: less_eq_prod_def)
  moreover have "w \<in> set ?avail" using set by auto
  ultimately show ?thesis by auto
qed

lemma stage_facts_start:
  "StartWork w i \<in> set (stage_facts revised st) \<longleftrightarrow>
     ss_state st = RunActive \<and>
     (\<exists>u \<in> set (take (stage_capacity st) (filter (startable st) (sorted_units st))).
        us_id u = i \<and> wo_id (the (next_order u)) = w)"
  by (auto simp: stage_facts_def start_loop_eq start_command_def)

lemma stage_facts_satisfied:
  "MarkUnitSatisfied i \<in> set (stage_facts revised st) \<longleftrightarrow>
     ss_state st = RunActive \<and>
     (\<exists>u \<in> set (ss_units st). us_id u = i \<and> us_state u \<notin> set TERMINAL_UNIT_STATES \<and> slots_released u)"
  by (auto simp: stage_facts_def start_loop_eq start_command_def satisfied_now_def)

lemma stage_facts_succeeded:
  "MarkStageSucceeded i \<in> set (stage_facts revised st) \<longleftrightarrow>
     ss_state st = RunActive \<and> ss_id st = i \<and> ss_materialization_closed st \<and> i \<notin> set revised \<and> all_satisfied st"
  by (auto simp: stage_facts_def start_loop_eq start_command_def)

lemma stage_facts_complete: "CompleteRun out \<notin> set (stage_facts revised st)"
  by (auto simp: stage_facts_def start_loop_eq start_command_def)

lemma find_unit_Some: "find_unit st d = Some v \<Longrightarrow> v \<in> set (ss_units st) \<and> us_unit_id v = d"
  unfolding find_unit_def by (drule find_Some_set) simp

lemma fact_in_batch:
  assumes "derive env snap = Inr cmds" and "undecided snap" and "is_fact c" and "\<And>out. c \<noteq> CompleteRun out"
  shows "\<exists>revised. (\<forall>s. s \<in> set revised \<longleftrightarrow> (\<exists>r. ReviseUnit r \<in> set cmds \<and> rc_stage_instance_id r = s)) \<and>
    (c \<in> set cmds \<longleftrightarrow> (\<exists>st \<in> set (snap_stages snap). c \<in> set (stage_facts revised st)))"
proof -
  from assms(1,2) obtain mat revised where
      cmds: "cmds = mat @ concat (map (stage_facts revised) (sorted_stages snap)) @ (if run_complete snap then [CompleteRun Succeeded] else [])"
    and ok: "loop_ok env snap (mat, revised)" by (rule derive_parts)
  have norev: "ReviseUnit r \<notin> set (stage_facts revised st)" for r st
    by (auto simp: stage_facts_def start_loop_eq start_command_def)
  have "c \<in> set cmds \<longleftrightarrow> (\<exists>st \<in> set (snap_stages snap). c \<in> set (stage_facts revised st))"
    using loop_no_fact [OF ok assms(3)] assms(4) by (simp add: cmds)
  moreover have "\<forall>s. s \<in> set revised \<longleftrightarrow> (\<exists>r. ReviseUnit r \<in> set cmds \<and> rc_stage_instance_id r = s)"
    using ok norev by (simp add: loop_ok_def cmds)
  ultimately show ?thesis by blast
qed

text \<open>Every command of a batch that is not a fact comes from the stage loop.\<close>

lemma batch_command:
  assumes "derive env snap = Inr cmds" and "c \<in> set cmds" and "\<not> is_fact c"
  shows "stage_command env snap c"
proof -
  have "undecided snap"
    using assms by (cases "undecided snap") (auto elim!: derive_decided [of snap env])
  with assms(1) show ?thesis
  proof (rule derive_parts)
    fix mat revised
    assume cmds: "cmds = mat @ concat (map (stage_facts revised) (sorted_stages snap)) @ (if run_complete snap then [CompleteRun Succeeded] else [])"
      and ok: "loop_ok env snap (mat, revised)"
    have "is_fact x" if "x \<in> set (stage_facts revised st)" for x st
      using that by (auto simp: stage_facts_def start_loop_eq start_command_def split: if_splits)
    with assms(2,3) cmds have "c \<in> set mat" by (auto split: if_splits)
    with ok show ?thesis by (simp add: loop_ok_def)
  qed
qed

lemma dep_edges_append:
  assumes "fst ` set nodes \<inter> fst ` set extra = {}"
  shows "dep_edges nodes \<subseteq> dep_edges (nodes @ extra)"
proof -
  have "b \<in> set (node_deps (nodes @ extra) a)" if "b \<in> set (node_deps nodes a)" for a b
  proof -
    from that obtain ds where ds: "map_of (rev nodes) a = Some ds" "b \<in> set ds"
      by (cases "map_of (rev nodes) a") (auto simp: node_deps_def)
    from map_of_SomeD [OF ds(1)] have "a \<in> fst ` set nodes" by force
    then have "map_of (rev extra) a = None" using assms by (auto simp: map_of_eq_None_iff)
    with ds show ?thesis by (simp add: node_deps_def map_add_def)
  qed
  then show ?thesis by (auto simp: dep_edges_def)
qed

lemma node_deps_stored:
  assumes "distinct (map us_unit_id (ss_units st))" and "u \<in> set (ss_units st)"
  shows "node_deps (stored_nodes st) (us_unit_id u) = us_depends_on u"
proof -
  have "distinct (map fst (rev (stored_nodes st)))" using assms(1) by (simp add: stored_nodes_def rev_map [symmetric] comp_def)
  then have "map_of (rev (stored_nodes st)) (us_unit_id u) = Some (us_depends_on u)"
    by (rule map_of_is_SomeI) (use assms(2) in \<open>auto simp: stored_nodes_def\<close>)
  then show ?thesis by (simp add: node_deps_def)
qed

section \<open>Sample snapshots\<close>

definition sample_run :: workflow_run where
  "sample_run = \<lparr>run_id = ''r'', run_definition_id = ''d'', run_definition_version = 1, run_context = JObj [],
     run_state = RunActive, run_outcome = None, run_record_version = 3, run_created_at = ''t0'', run_ended_at = None\<rparr>"

definition sample_order :: work_order where
  "sample_order = \<lparr>wo_id = ''w'', wo_run_unit_id = ''u'', wo_reason = ReasonInitial, wo_input_snapshot = [],
     wo_input_fingerprint = replicate 64 (CHR ''0''), wo_state = WAvailable, wo_workflow_id = ''v2-work:w'',
     wo_request_idempotency_key = ''initial'', wo_created_at = ''t1'', wo_completed_at = None\<rparr>"

definition sample_unit :: unit_snapshot where
  "sample_unit = \<lparr>us_id = ''u'', us_unit_id = ''0'', us_parameters = JObj [],
     us_input_fingerprint = replicate 64 (CHR ''0''), us_state = UReady, us_admitted = True, us_outcome = None,
     us_depends_on = [], us_required_slots = [], us_open_waits = [], us_work_orders = [sample_order]\<rparr>"

definition sample_stage_row :: stage_snapshot where
  "sample_stage_row = \<lparr>ss_id = ''si'', ss_stage_key = ''spec'', ss_state = RunActive, ss_materialization_closed = False,
     ss_policy = \<lparr>max_parallel = 1, manual_admission = False\<rparr>, ss_units = [sample_unit]\<rparr>"

definition sample_snapshot :: run_snapshot where
  "sample_snapshot = \<lparr>snap_run = sample_run, snap_definition = sample_compiled, snap_stages = [sample_stage_row],
     snap_available_artifacts = []\<rparr>"

definition fresh_snapshot :: run_snapshot where
  "fresh_snapshot = sample_snapshot\<lparr>snap_stages := []\<rparr>"

lemma sample_derives:
  "derive sample_env sample_snapshot =
     Inr [CloseMaterialization ''spec'' ''si'' \<lparr>max_parallel = 1, manual_admission = False\<rparr>, StartWork ''w'' ''u'']"
  by code_simp

definition fresh_unit_command :: materialize_unit_command where
  "fresh_unit_command =
     \<lparr>mc_stage_key = ''spec'', mc_stage_instance_id = stageInstanceIdFor sample_env ''r'' ''spec'',
      mc_run_unit_id = runUnitIdFor sample_env ''r'' ''spec'' ''0'', mc_unit_id = ''0'', mc_parameters = JObj [],
      mc_depends_on = [], mc_inputs = [], mc_input_snapshot = [],
      mc_input_fingerprint = replicate 64 (CHR ''0''),
      mc_outputs = [\<lparr>mo_identity = ScalarSlot ''spec'', mo_artifact_type = ''t'', mo_required = True,
        mo_release = Gate sample_steps False SelfStage\<rparr>],
      mc_policy = \<lparr>max_parallel = 1, manual_admission = False\<rparr>\<rparr>"

lemma fresh_derives:
  "derive sample_env fresh_snapshot =
     Inr [MaterializeStage ''spec'' (stageInstanceIdFor sample_env ''r'' ''spec'') \<lparr>max_parallel = 1, manual_admission = False\<rparr>,
          MaterializeUnit fresh_unit_command]"
  by code_simp

definition cancelled_snapshot :: run_snapshot where
  "cancelled_snapshot =
     sample_snapshot\<lparr>snap_stages := [sample_stage_row\<lparr>ss_units := [sample_unit\<lparr>us_state := UCancelled\<rparr>]\<rparr>]\<rparr>"

lemma sample_undecided: "undecided sample_snapshot"
  by (simp add: undecided_def all_units_def sample_snapshot_def sample_stage_row_def sample_unit_def)

section \<open>Properties of derive\<close>

text \<open>
  C33. Failure propagation: a cancelled unit anywhere ends the run with that unit's outcome, and
  only when no unit is cancelled does a failed unit end it; in both cases the batch is that
  single command, so nothing new is started, minted or satisfied.
\<close>
theorem derive_precedence:
  "(case (findFirstUnit snap (\<lambda>u. us_state u = UCancelled), findFirstUnit snap (\<lambda>u. us_state u = UFailed)) of
      (Some u, _) \<Rightarrow> u \<in> set (all_units snap) \<and> us_state u = UCancelled \<and>
        derive env snap = Inr [CompleteRun (case us_outcome u of Some out \<Rightarrow> out | None \<Rightarrow> Cancelled None)]
    | (None, Some u) \<Rightarrow> u \<in> set (all_units snap) \<and> us_state u = UFailed \<and>
        (\<forall>v \<in> set (all_units snap). us_state v \<noteq> UCancelled) \<and>
        derive env snap = Inr [CompleteRun (case us_outcome u of Some out \<Rightarrow> out | None \<Rightarrow> Failed ''unit_failed'' (us_unit_id u))]
    | (None, None) \<Rightarrow> undecided snap \<and>
        (\<forall>cmds outcome. derive env snap = Inr cmds \<and> CompleteRun outcome \<in> set cmds \<longrightarrow>
           outcome = Succeeded \<and> run_complete snap))"
proof (cases "findFirstUnit snap (\<lambda>u. us_state u = UCancelled)")
  case (Some u)
  then show ?thesis by (auto simp: derive_def dest: findFirstUnit_Some)
next
  case nocancel: None
  show ?thesis
  proof (cases "findFirstUnit snap (\<lambda>u. us_state u = UFailed)")
    case (Some u)
    moreover have "derive env snap = Inr [CompleteRun (case us_outcome u of Some out \<Rightarrow> out | None \<Rightarrow> Failed ''unit_failed'' (us_unit_id u))]"
      using nocancel Some by (simp add: derive_def)
    moreover have "\<forall>v \<in> set (all_units snap). us_state v \<noteq> UCancelled" using nocancel by (simp add: findFirstUnit_None)
    ultimately show ?thesis using nocancel findFirstUnit_Some [OF Some] by simp
  next
    case None
    with nocancel have "undecided snap" by (auto simp: undecided_def findFirstUnit_None)
    moreover have "outcome = Succeeded \<and> run_complete snap"
      if "derive env snap = Inr cmds" "CompleteRun outcome \<in> set cmds" for cmds outcome
      by (rule derive_parts [OF that(1) calculation])
        (use that(2) in \<open>auto dest: loop_no_fact [where c = "CompleteRun outcome"] simp: stage_facts_complete split: if_splits\<close>)
    ultimately show ?thesis using nocancel None by auto
  qed
qed

theorem derive_precedence_witness:
  "derive sample_env cancelled_snapshot = Inr [CompleteRun (Cancelled None)]"
proof -
  have found: "findFirstUnit cancelled_snapshot (\<lambda>u. us_state u = UCancelled) = Some (sample_unit\<lparr>us_state := UCancelled\<rparr>)"
    by code_simp
  have "us_outcome (sample_unit\<lparr>us_state := UCancelled\<rparr>) = None" by (simp add: sample_unit_def)
  then show ?thesis
    using derive_precedence [of cancelled_snapshot sample_env] by (simp add: found)
qed

text \<open>
  C30. Starting work is safe: the order a batch starts is the oldest available order of a unit of
  an active stage that is not terminal, waits for nothing, has no order running, is admitted,
  still owes an output, and all of whose dependencies are units of the stage that are
  satisfied.
\<close>
theorem derive_start_work:
  assumes "derive env snap = Inr cmds" and "StartWork w i \<in> set cmds"
  shows "\<exists>st \<in> set (snap_stages snap). \<exists>u \<in> set (ss_units st). \<exists>order \<in> set (us_work_orders u).
    ss_state st = RunActive \<and> us_id u = i \<and> wo_id order = w \<and> wo_state order = WAvailable \<and>
    (\<forall>v \<in> set (us_work_orders u). wo_state v = WAvailable \<longrightarrow> (wo_created_at order, w) \<le> (wo_created_at v, wo_id v)) \<and>
    us_state u \<notin> {USatisfied, UFailed, UCancelled} \<and> us_open_waits u = [] \<and> us_admitted u \<and> \<not> slots_released u \<and>
    (\<forall>v \<in> set (us_work_orders u). wo_state v \<noteq> WStarted) \<and>
    (\<forall>d \<in> set (us_depends_on u). \<exists>v \<in> set (ss_units st). us_unit_id v = d \<and> us_state v = USatisfied)"
proof -
  have "undecided snap"
    using assms by (cases "undecided snap") (auto elim!: derive_decided [of snap env])
  from fact_in_batch [OF assms(1) this, of "StartWork w i"] assms(2)
  obtain revised st where st: "st \<in> set (snap_stages snap)" "StartWork w i \<in> set (stage_facts revised st)"
    by auto
  then obtain u where u: "u \<in> set (ss_units st)" "us_id u = i" "wo_id (the (next_order u)) = w" "startable st u"
    and active: "ss_state st = RunActive"
    by (auto simp: stage_facts_start dest!: in_set_takeD)
  then obtain order where order: "next_order u = Some order" "wo_id order = w" by (auto simp: startable_def)
  have el: "eligible st u" using u by (simp add: startable_def)
  then have "us_state u \<notin> {USatisfied, UFailed, UCancelled}" "\<not> slots_released u"
    using u(1) by (auto simp: eligible_def TERMINAL_UNIT_STATES_def satisfied_now_def)
  moreover have "\<exists>v \<in> set (ss_units st). us_unit_id v = d \<and> us_state v = USatisfied" if "d \<in> set (us_depends_on u)" for d
    using el that find_unit_Some [of st d] by (fastforce simp: eligible_def list_all_iff split: option.splits)
  ultimately show ?thesis
    using st u order active el next_order_oldest [OF order(1)]
    by (intro bexI [of _ st] bexI [of _ u] bexI [of _ order])
      (auto simp: eligible_def has_started_order_def list_ex_iff)
qed

theorem derive_start_work_witness:
  "\<exists>st \<in> set (snap_stages sample_snapshot). \<exists>u \<in> set (ss_units st). us_id u = ''u'' \<and> us_admitted u"
  using derive_start_work [OF sample_derives, of "''w''" "''u''"] by fastforce

text \<open>
  C29. Scheduling of a stage, exactly: the work a batch starts on the units of an active stage is
  that of the first startable units in unit order, as many as the stage's parallelism leaves
  free. So the limit is never exceeded, no capacity is left idle while a unit could start,
  and no unit is started twice.
\<close>
theorem derive_stage_starts:
  assumes "derive env snap = Inr cmds" and "undecided snap" and "st \<in> set (snap_stages snap)" and "ss_state st = RunActive"
    and "distinct (map us_id (all_units snap))" and "distinct (snap_stages snap)"
  shows "filter (\<lambda>c. case c of StartWork _ i \<Rightarrow> i \<in> us_id ` set (ss_units st) | _ \<Rightarrow> False) cmds =
    map start_command (take (max_parallel (ss_policy st) - length (running_units st)) (filter (startable st) (sorted_units st)))"
proof -
  let ?mine = "\<lambda>c. case c of StartWork _ i \<Rightarrow> i \<in> us_id ` set (ss_units st) | _ \<Rightarrow> False"
  from assms(1,2) obtain mat revised where
      cmds: "cmds = mat @ concat (map (stage_facts revised) (sorted_stages snap)) @ (if run_complete snap then [CompleteRun Succeeded] else [])"
    and ok: "loop_ok env snap (mat, revised)" by (rule derive_parts)
  have mat: "filter ?mine mat = []"
    using loop_no_fact [OF ok] by (auto simp: filter_empty_conv split: command.splits)
  have own: "filter ?mine (stage_facts revised st) =
      map start_command (take (stage_capacity st) (filter (startable st) (sorted_units st)))"
  proof -
    have "?mine c" if "c \<in> set (start_loop st (stage_capacity st) (sorted_units st))" for c
      using that by (auto simp: start_loop_eq start_command_def dest!: in_set_takeD)
    then have "filter ?mine (start_loop st (stage_capacity st) (sorted_units st)) = start_loop st (stage_capacity st) (sorted_units st)"
      by (simp add: filter_id_conv)
    moreover have "filter ?mine (map (\<lambda>u. MarkUnitSatisfied (us_id u)) us) = []" for us by (induction us) auto
    ultimately show ?thesis using assms(4) by (simp add: stage_facts_def start_loop_eq)
  qed
  have other: "filter ?mine (stage_facts revised st') = []" if "st' \<in> set (snap_stages snap)" "st' \<noteq> st" for st'
  proof -
    have "us_id ` set (ss_units st) \<inter> us_id ` set (ss_units st') = {}"
      using distinct_concat_disjoint [of "\<lambda>s. map us_id (ss_units s)" "snap_stages snap" st st'] assms(3,5) that
      by (auto simp: all_units_def map_concat comp_def)
    then have "us_id u \<notin> us_id ` set (ss_units st)" if "u \<in> set (ss_units st')" for u using that by blast
    then show ?thesis
      by (auto simp: filter_empty_conv stage_facts_start image_iff split: command.splits dest!: in_set_takeD)
  qed
  have "concat (map (filter ?mine) (map (stage_facts revised) ss)) = filter ?mine (stage_facts revised st)"
    if "distinct ss" "st \<in> set ss" "set ss \<subseteq> set (snap_stages snap)" for ss
    using that
  proof (induction ss)
    case (Cons s ss)
    show ?case
    proof (cases "s = st")
      case True
      have "concat (map (filter ?mine) (map (stage_facts revised) ss)) = []"
        using Cons.prems True other by auto
      with True show ?thesis by simp
    next
      case False
      with Cons other show ?thesis by auto
    qed
  qed simp
  from this [of "sorted_stages snap"] assms(3,6)
  have "filter ?mine (concat (map (stage_facts revised) (sorted_stages snap))) = filter ?mine (stage_facts revised st)"
    by (simp add: filter_concat sorted_stages_def)
  then show ?thesis
    using mat own by (simp add: cmds stage_capacity_def)
qed

theorem derive_stage_starts_witness:
  "filter (\<lambda>c. case c of StartWork _ i \<Rightarrow> i \<in> us_id ` set (ss_units sample_stage_row) | _ \<Rightarrow> False)
     [CloseMaterialization ''spec'' ''si'' \<lparr>max_parallel = 1, manual_admission = False\<rparr>, StartWork ''w'' ''u''] =
   map start_command (take (max_parallel (ss_policy sample_stage_row) - length (running_units sample_stage_row))
     (filter (startable sample_stage_row) (sorted_units sample_stage_row)))"
  by (rule derive_stage_starts [OF sample_derives sample_undecided])
    (simp_all add: sample_snapshot_def sample_stage_row_def all_units_def)

text \<open>
  C32. The facts a batch records are exactly the provable ones. A unit is marked satisfied if and only
  if it is an unfinished unit of an active stage with at least one required output, all of
  them released. A stage is marked succeeded if and only if it is active, closed, all its
  units are satisfied and this batch revises none of them. The run completes as succeeded if
  and only if every stage of the definition is stored and every stored stage succeeded.
\<close>
theorem derive_facts:
  assumes "derive env snap = Inr cmds" and "undecided snap"
  shows "(MarkUnitSatisfied i \<in> set cmds \<longleftrightarrow>
      (\<exists>st \<in> set (snap_stages snap). ss_state st = RunActive \<and>
        (\<exists>u \<in> set (ss_units st). us_id u = i \<and> us_state u \<notin> {USatisfied, UFailed, UCancelled} \<and> slots_released u))) \<and>
    (MarkStageSucceeded s \<in> set cmds \<longleftrightarrow>
      (\<exists>st \<in> set (snap_stages snap). ss_state st = RunActive \<and> ss_id st = s \<and> ss_materialization_closed st \<and>
        (\<forall>u \<in> set (ss_units st). us_state u = USatisfied) \<and>
        (\<forall>r. ReviseUnit r \<in> set cmds \<longrightarrow> rc_stage_instance_id r \<noteq> s))) \<and>
    (CompleteRun Succeeded \<in> set cmds \<longleftrightarrow> run_complete snap)"
proof (intro conjI)
  show "MarkUnitSatisfied i \<in> set cmds \<longleftrightarrow>
      (\<exists>st \<in> set (snap_stages snap). ss_state st = RunActive \<and>
        (\<exists>u \<in> set (ss_units st). us_id u = i \<and> us_state u \<notin> {USatisfied, UFailed, UCancelled} \<and> slots_released u))"
    using fact_in_batch [OF assms, of "MarkUnitSatisfied i"]
    by (auto simp: stage_facts_satisfied TERMINAL_UNIT_STATES_def)
  obtain revised where rev: "\<forall>s. s \<in> set revised \<longleftrightarrow> (\<exists>r. ReviseUnit r \<in> set cmds \<and> rc_stage_instance_id r = s)"
    and succ: "MarkStageSucceeded s \<in> set cmds \<longleftrightarrow> (\<exists>st \<in> set (snap_stages snap). MarkStageSucceeded s \<in> set (stage_facts revised st))"
    using fact_in_batch [OF assms, of "MarkStageSucceeded s"] by auto
  from rev have "(\<forall>r. ReviseUnit r \<in> set cmds \<longrightarrow> rc_stage_instance_id r \<noteq> s) \<longleftrightarrow> s \<notin> set revised" by auto
  then show "MarkStageSucceeded s \<in> set cmds \<longleftrightarrow>
      (\<exists>st \<in> set (snap_stages snap). ss_state st = RunActive \<and> ss_id st = s \<and> ss_materialization_closed st \<and>
        (\<forall>u \<in> set (ss_units st). us_state u = USatisfied) \<and>
        (\<forall>r. ReviseUnit r \<in> set cmds \<longrightarrow> rc_stage_instance_id r \<noteq> s))"
    unfolding succ stage_facts_succeeded all_satisfied_def list_all_iff by auto
  show "CompleteRun Succeeded \<in> set cmds \<longleftrightarrow> run_complete snap"
    using assms by (elim derive_parts)
      (auto simp: stage_facts_complete dest: loop_no_fact [where c = "CompleteRun Succeeded"])
qed

theorem derive_facts_witness:
  "MarkUnitSatisfied ''u'' \<in> set [CloseMaterialization ''spec'' ''si'' \<lparr>max_parallel = 1, manual_admission = False\<rparr>, StartWork ''w'' ''u''] \<longleftrightarrow>
   (\<exists>st \<in> set (snap_stages sample_snapshot). ss_state st = RunActive \<and>
     (\<exists>u \<in> set (ss_units st). us_id u = ''u'' \<and> us_state u \<notin> {USatisfied, UFailed, UCancelled} \<and> slots_released u))"
  using derive_facts [OF sample_derives sample_undecided] by blast

text \<open>
  C34. Materialization: every unit a batch materializes belongs to a stage of the definition that
  is ready and not closed, is new to it, has the deterministic id of its coordinate, and the
  dependency graph of the stage, with the units the batch adds, is acyclic.
\<close>
theorem derive_materialize_unit:
  assumes "derive env snap = Inr cmds" and "MaterializeUnit m \<in> set cmds"
  shows "\<exists>contract minted. obj_get (cw_stages (snap_definition snap)) (mc_stage_key m) = Some contract \<and>
    isReady (mc_stage_key m) (snap_definition snap) snap \<and>
    mintUnits env contract (stageInputs (mc_stage_key m) (snap_definition snap) snap) (run_context (snap_run snap)) = Inr minted \<and>
    mc_run_unit_id m = runUnitIdFor env (run_id (snap_run snap)) (mc_stage_key m) (mc_unit_id m) \<and>
    mc_unit_id m \<in> set (map mn_unit_id minted) \<and>
    (case find_stage snap (mc_stage_key m) of
       None \<Rightarrow> mc_stage_instance_id m = stageInstanceIdFor env (run_id (snap_run snap)) (mc_stage_key m) \<and>
         acyclic (dep_edges (minted_nodes minted))
     | Some stored \<Rightarrow> mc_stage_instance_id m = ss_id stored \<and> \<not> ss_materialization_closed stored \<and>
         mc_unit_id m \<notin> set (map us_unit_id (ss_units stored)) \<and>
         acyclic (dep_edges (stored_nodes stored @ minted_nodes (filter (\<lambda>u. find_unit stored (mn_unit_id u) = None) minted))))"
proof -
  from batch_command [OF assms] obtain key contract where
      contract: "obj_get (cw_stages (snap_definition snap)) key = Some contract" "isReady key (snap_definition snap) snap"
    and origin: "(find_stage snap key = None \<and> (\<exists>cs. derive_new_stage env snap key contract = Inr cs \<and> MaterializeUnit m \<in> set cs)) \<or>
      (\<exists>stored cs. find_stage snap key = Some stored \<and> derive_stored_stage env snap key contract stored = Inr cs \<and> MaterializeUnit m \<in> set cs)"
    unfolding stage_command_def by auto
  from origin show ?thesis
  proof (elim disjE conjE exE)
    fix cs
    assume none: "find_stage snap key = None" and new: "derive_new_stage env snap key contract = Inr cs" and m: "MaterializeUnit m \<in> set cs"
    from new show ?thesis
    proof (rule derive_new_stage_kinds)
      fix minted
      assume minted: "mintUnits env contract (stageInputs key (snap_definition snap) snap) (run_context (snap_run snap)) = Inr minted"
        "findCycle (minted_nodes minted) = None"
        "cs = MaterializeStage key (stageInstanceIdFor env (run_id (snap_run snap)) key) (policyOf contract) #
          map (\<lambda>u. materializeUnitCommand env (run_id (snap_run snap)) key
            (stageInstanceIdFor env (run_id (snap_run snap)) key) u (policyOf contract)) minted"
      then show ?thesis
        using contract none m by (intro exI [of _ contract] exI [of _ minted])
          (auto simp: materializeUnitCommand_def findCycle_acyclic)
    qed
  next
    fix stored cs
    assume some: "find_stage snap key = Some stored"
      and old: "derive_stored_stage env snap key contract stored = Inr cs" and m: "MaterializeUnit m \<in> set cs"
    from old show ?thesis
    proof (rule derive_stored_stage_kinds)
      fix minted
      assume minted: "mintUnits env contract (stageInputs key (snap_definition snap) snap) (run_context (snap_run snap)) = Inr minted"
        and kinds: "\<forall>c \<in> set cs. c = CloseMaterialization key (ss_id stored) (policyOf contract) \<or>
          (\<exists>u \<in> set minted. c \<in> set (unit_commands env (run_id (snap_run snap)) contract key stored u))"
        and cyc: "\<not> ss_materialization_closed stored \<Longrightarrow>
          findCycle (stored_nodes stored @ minted_nodes (filter (\<lambda>u. find_unit stored (mn_unit_id u) = None) minted)) = None"
      from kinds m obtain u where u: "u \<in> set minted" "find_unit stored (mn_unit_id u) = None" "\<not> ss_materialization_closed stored"
          "MaterializeUnit m = materializeUnitCommand env (run_id (snap_run snap)) key (ss_id stored) u (policyOf contract)"
        by (auto dest!: unit_commands_kind simp: reviseUnitCommand_def)
      then show ?thesis
        using contract some minted cyc by (intro exI [of _ contract] exI [of _ minted])
          (auto simp: materializeUnitCommand_def findCycle_acyclic find_unit_def find_None_set)
    qed
  qed
qed

theorem derive_materialize_unit_witness:
  "mc_run_unit_id fresh_unit_command =
     runUnitIdFor sample_env (run_id (snap_run fresh_snapshot)) (mc_stage_key fresh_unit_command) (mc_unit_id fresh_unit_command)"
  using derive_materialize_unit [OF fresh_derives, of fresh_unit_command] by auto

text \<open>
  C35. Closing is safe: a batch closes a stage only while it is open, when every stage feeding it
  unit by unit has finished, when the batch adds no unit to it, and when its dependency graph
  is complete: every dependency names a unit of the stage, and the graph is acyclic.
\<close>
theorem derive_close:
  assumes "derive env snap = Inr cmds" and "CloseMaterialization key sid policy \<in> set cmds"
  shows "\<exists>stored. find_stage snap key = Some stored \<and> ss_id stored = sid \<and> \<not> ss_materialization_closed stored \<and>
    (\<forall>e \<in> set (cw_edges (snap_definition snap)). ce_consumer_stage e = key \<and> ce_delivery e = UnitComplete \<longrightarrow>
       stageFinished snap (ce_producer_stage e)) \<and>
    (\<forall>u \<in> set (ss_units stored). \<forall>d \<in> set (us_depends_on u). \<exists>v \<in> set (ss_units stored). us_unit_id v = d) \<and>
    acyclic (dep_edges (stored_nodes stored))"
proof -
  have "stage_command env snap (CloseMaterialization key sid policy)" by (rule batch_command [OF assms]) simp
  then obtain key' contract where
      origin: "(find_stage snap key' = None \<and> (\<exists>cs. derive_new_stage env snap key' contract = Inr cs \<and> CloseMaterialization key sid policy \<in> set cs)) \<or>
      (\<exists>stored cs. find_stage snap key' = Some stored \<and> derive_stored_stage env snap key' contract stored = Inr cs \<and>
         CloseMaterialization key sid policy \<in> set cs)"
    unfolding stage_command_def by blast
  have "CloseMaterialization key sid policy \<notin> set cs" if "derive_new_stage env snap key' contract = Inr cs" for cs
    using that by (rule derive_new_stage_kinds) (auto simp: materializeUnitCommand_def)
  with origin obtain stored cs where some: "find_stage snap key' = Some stored"
    and old: "derive_stored_stage env snap key' contract stored = Inr cs" and c: "CloseMaterialization key sid policy \<in> set cs"
    by auto
  from old show ?thesis
  proof (rule derive_stored_stage_kinds)
    fix minted
    assume kinds: "\<forall>c \<in> set cs. c = CloseMaterialization key' (ss_id stored) (policyOf contract) \<or>
        (\<exists>u \<in> set minted. c \<in> set (unit_commands env (run_id (snap_run snap)) contract key' stored u))"
      and cyc: "\<not> ss_materialization_closed stored \<Longrightarrow>
        findCycle (stored_nodes stored @ minted_nodes (filter (\<lambda>u. find_unit stored (mn_unit_id u) = None) minted)) = None"
      and closing: "CloseMaterialization key' (ss_id stored) (policyOf contract) \<in> set cs \<Longrightarrow>
        \<not> ss_materialization_closed stored \<and> \<not> list_ex is_materialize_unit cs \<and>
        shouldClose key' (snap_definition snap) snap \<and> unknown_dependency stored = None"
    have same: "key = key'" "sid = ss_id stored" "CloseMaterialization key' (ss_id stored) (policyOf contract) \<in> set cs"
      using kinds c by (auto dest!: unit_commands_kind simp: materializeUnitCommand_def reviseUnitCommand_def)
    note closed = closing [OF same(3)]
    have known: "\<exists>v \<in> set (ss_units stored). us_unit_id v = d" if "u \<in> set (ss_units stored)" "d \<in> set (us_depends_on u)" for u d
      using closed that by (auto simp: unknown_dependency_def find_None_set list_ex_iff)
    have "acyclic (dep_edges (stored_nodes stored))"
    proof (cases "filter (\<lambda>u. find_unit stored (mn_unit_id u) = None) minted = []")
      case True
      with cyc closed show ?thesis by (simp add: findCycle_acyclic minted_nodes_def)
    next
      case False
      have "dep_edges (stored_nodes stored) \<subseteq>
          dep_edges (stored_nodes stored @ minted_nodes (filter (\<lambda>u. find_unit stored (mn_unit_id u) = None) minted))"
        by (rule dep_edges_append) (auto simp: stored_nodes_def minted_nodes_def find_unit_def find_None_set)
      with cyc closed show ?thesis by (metis findCycle_acyclic acyclic_subset)
    qed
    then show ?thesis
      using some same closed known by (auto simp: shouldClose_def list_all_iff)
  qed
qed

theorem derive_close_witness:
  "\<exists>stored. find_stage sample_snapshot ''spec'' = Some stored \<and> ss_id stored = ''si'' \<and> acyclic (dep_edges (stored_nodes stored))"
  using derive_close [OF sample_derives, of "''spec''" "''si''" "\<lparr>max_parallel = 1, manual_admission = False\<rparr>"] by auto

lemma unsatisfied_minimal:
  assumes known: "\<forall>u \<in> set (ss_units st). \<forall>d \<in> set (us_depends_on u). \<exists>v \<in> set (ss_units st). us_unit_id v = d"
    and acyc: "acyclic (dep_edges (stored_nodes st))" and ids: "distinct (map us_unit_id (ss_units st))"
    and open_unit: "\<not> all_satisfied st"
  shows "\<exists>u \<in> set (ss_units st). us_state u \<noteq> USatisfied \<and>
    (\<forall>d \<in> set (us_depends_on u). case find_unit st d of Some v \<Rightarrow> us_state v = USatisfied | None \<Rightarrow> False)"
proof (rule ccontr)
  assume stuck: "\<not> ?thesis"
  let ?todo = "{us_unit_id u | u. u \<in> set (ss_units st) \<and> us_state u \<noteq> USatisfied}"
  have deps: "node_deps (stored_nodes st) (us_unit_id u) = us_depends_on u" if "u \<in> set (ss_units st)" for u
    using ids that by (simp add: node_deps_stored)
  have next': "\<exists>j \<in> ?todo. (i, j) \<in> dep_edges (stored_nodes st)" if "i \<in> ?todo" for i
  proof -
    from that obtain u where u: "u \<in> set (ss_units st)" "us_state u \<noteq> USatisfied" "i = us_unit_id u" by auto
    with stuck obtain d where d: "d \<in> set (us_depends_on u)"
        "\<not> (case find_unit st d of Some v \<Rightarrow> us_state v = USatisfied | None \<Rightarrow> False)" by blast
    from known u(1) d(1) have "find_unit st d \<noteq> None" by (auto simp: find_unit_def find_None_set)
    then obtain v where v: "find_unit st d = Some v" by auto
    then have "v \<in> set (ss_units st)" "us_unit_id v = d" "us_state v \<noteq> USatisfied"
      using find_unit_Some [OF v] d(2) by auto
    then show ?thesis using u d(1) deps [OF u(1)]
      by (auto simp: dep_edges_def stored_nodes_def intro!: bexI [of _ d])
  qed
  have "?todo \<noteq> {}" using open_unit by (auto simp: all_satisfied_def list_all_iff)
  moreover have "wf ((dep_edges (stored_nodes st) \<inter> ?todo \<times> ?todo)\<inverse>)"
    by (rule finite_acyclic_wf_converse) (auto intro: acyclic_subset [OF acyc])
  ultimately obtain i where i: "i \<in> ?todo" and "\<forall>j. (j, i) \<in> (dep_edges (stored_nodes st) \<inter> ?todo \<times> ?todo)\<inverse> \<longrightarrow> j \<notin> ?todo"
    by (metis (no_types, lifting) wf_eq_minimal equals0I)
  with next' [OF i] i show False by blast
qed

lemma known_dependencies:
  "unknown_dependency st = None \<Longrightarrow> \<forall>u \<in> set (ss_units st). \<forall>d \<in> set (us_depends_on u). \<exists>v \<in> set (ss_units st). us_unit_id v = d"
  by (auto simp: unknown_dependency_def find_None_set list_ex_iff)

text \<open>
  What only the world outside \<open>derive\<close> can change: work that runs, a wait that is open, an admission that is missing, a unit without an order.
\<close>

definition held_up :: "unit_snapshot \<Rightarrow> bool" where
  "held_up u \<longleftrightarrow> has_started_order u \<or>
     us_state u \<noteq> USatisfied \<and> (us_open_waits u \<noteq> [] \<or> \<not> us_admitted u \<or> next_order u = None)"

lemma free_stage_starts:
  assumes "undecided snap" and "st \<in> set (snap_stages snap)" and "ss_state st = RunActive" and "0 < max_parallel (ss_policy st)"
    and "findCycle (stored_nodes st) = None" and "unknown_dependency st = None" and "distinct (map us_unit_id (ss_units st))"
    and free: "\<forall>u\<in>set (ss_units st). \<not> held_up u" and "\<not> all_satisfied st"
  shows "\<exists>u\<in>set (ss_units st). (\<exists>w. StartWork w (us_id u) \<in> set (stage_facts revised st)) \<or>
    MarkUnitSatisfied (us_id u) \<in> set (stage_facts revised st)"
proof -
  obtain u where u: "u \<in> set (ss_units st)" "us_state u \<noteq> USatisfied"
    and deps: "\<forall>d \<in> set (us_depends_on u). case find_unit st d of Some v \<Rightarrow> us_state v = USatisfied | None \<Rightarrow> False"
    using unsatisfied_minimal [OF known_dependencies [OF assms(6)] _ assms(7,9)] assms(5) by (auto simp: findCycle_acyclic)
  have "u \<in> set (all_units snap)" using u(1) assms(2) by (auto simp: all_units_def)
  then have going: "us_state u \<notin> set TERMINAL_UNIT_STATES" using assms(1) u(2) by (auto simp: undecided_def TERMINAL_UNIT_STATES_def)
  show ?thesis
  proof (cases "us_id u \<in> set (map us_id (satisfied_now st))")
    case True
    then obtain v where "v \<in> set (ss_units st)" "us_id v = us_id u" "us_state v \<notin> set TERMINAL_UNIT_STATES" "slots_released v"
      by (auto simp: satisfied_now_def)
    then show ?thesis using u(1) assms(3) by (auto simp: stage_facts_satisfied)
  next
    case False
    then have "startable st u"
      using free u going deps by (auto simp: startable_def eligible_def held_up_def list_all_iff)
    then obtain v vs where first: "filter (startable st) (sorted_units st) = v # vs"
      using u(1) by (cases "filter (startable st) (sorted_units st)") (auto simp: filter_empty_conv)
    then have "v \<in> set (filter (startable st) (sorted_units st))" by simp
    then have v: "v \<in> set (ss_units st)" by simp
    have "running_units st = []" using free by (auto simp: running_units_def filter_empty_conv held_up_def)
    then obtain n where "stage_capacity st = Suc n" using assms(4) by (cases "stage_capacity st") (auto simp: stage_capacity_def)
    then have "StartWork (wo_id (the (next_order v))) (us_id v) \<in> set (stage_facts revised st)"
      using first assms(3) by (auto simp: stage_facts_start)
    then show ?thesis using v by blast
  qed
qed

text \<open>
  C36. No deadlock inside a closed stage. Given what closing checks, that the stage's dependencies name its units and that
  \<open>findCycle\<close> finds no cycle, every batch moves an active closed stage on, or something outside has to: unless
  some unit has started work, or is unsatisfied and waits, is not admitted or has no order available, the batch starts
  work on the stage, marks a unit of it satisfied, revises one, or marks the stage succeeded.
\<close>
theorem closed_stage_progress:
  assumes "derive env snap = Inr cmds" and "undecided snap" and "st \<in> set (snap_stages snap)" and "ss_state st = RunActive"
    and "ss_materialization_closed st" and "0 < max_parallel (ss_policy st)"
    and "findCycle (stored_nodes st) = None" and "unknown_dependency st = None" and "distinct (map us_unit_id (ss_units st))"
    and "\<forall>u\<in>set (ss_units st). \<not> held_up u"
  shows "MarkStageSucceeded (ss_id st) \<in> set cmds \<or>
    (\<exists>r. ReviseUnit r \<in> set cmds \<and> rc_stage_instance_id r = ss_id st) \<or>
    (\<exists>u\<in>set (ss_units st). (\<exists>w. StartWork w (us_id u) \<in> set cmds) \<or> MarkUnitSatisfied (us_id u) \<in> set cmds)"
proof (cases "all_satisfied st")
  case True
  obtain revised where rev: "\<forall>s. s \<in> set revised \<longleftrightarrow> (\<exists>r. ReviseUnit r \<in> set cmds \<and> rc_stage_instance_id r = s)"
    and succ: "MarkStageSucceeded (ss_id st) \<in> set cmds \<longleftrightarrow> (\<exists>st'\<in>set (snap_stages snap). MarkStageSucceeded (ss_id st) \<in> set (stage_facts revised st'))"
    using fact_in_batch [OF assms(1,2), of "MarkStageSucceeded (ss_id st)"] by auto
  show ?thesis
  proof (cases "ss_id st \<in> set revised")
    case False
    then have "MarkStageSucceeded (ss_id st) \<in> set (stage_facts revised st)" using True assms(4,5) by (simp add: stage_facts_succeeded)
    then show ?thesis using succ assms(3) by blast
  qed (use rev in blast)
next
  case False
  obtain mat revised where
      "cmds = mat @ concat (map (stage_facts revised) (sorted_stages snap)) @ (if run_complete snap then [CompleteRun Succeeded] else [])"
    using assms(1,2) by (rule derive_parts)
  then have "set (stage_facts revised st) \<subseteq> set cmds" using assms(3) by auto
  then show ?thesis using free_stage_starts [OF assms(2-4,6-10) False, of revised] by blast
qed

definition chained_stage :: stage_snapshot where
  "chained_stage = sample_stage_row\<lparr>ss_materialization_closed := True,
     ss_units := [sample_unit\<lparr>us_depends_on := [''1'']\<rparr>, sample_unit\<lparr>us_id := ''v'', us_unit_id := ''1'', us_work_orders := [sample_order\<lparr>wo_id := ''x''\<rparr>]\<rparr>]\<rparr>"

theorem closed_stage_progress_witness:
  "derive sample_env (sample_snapshot\<lparr>snap_stages := [chained_stage]\<rparr>) = Inr [StartWork ''x'' ''v''] \<and>
   (\<exists>u\<in>set (ss_units chained_stage). (\<exists>w. StartWork w (us_id u) \<in> set [StartWork ''x'' ''v'']) \<or> MarkUnitSatisfied (us_id u) \<in> set [StartWork ''x'' ''v''])"
proof -
  have derived: "derive sample_env (sample_snapshot\<lparr>snap_stages := [chained_stage]\<rparr>) = Inr [StartWork ''x'' ''v'']"
    and "findCycle (stored_nodes chained_stage) = None" "unknown_dependency chained_stage = None" "list_all (\<lambda>u. \<not> held_up u) (ss_units chained_stage)"
    by code_simp+
  with closed_stage_progress [OF derived, of chained_stage] show ?thesis
    by (auto simp: undecided_def all_units_def chained_stage_def sample_stage_row_def sample_unit_def)
qed

section \<open>Minted identifiers are UUIDs\<close>

lemma js_split_groups:
  assumes "CHR ''-'' \<notin> set a" "CHR ''-'' \<notin> set b" "CHR ''-'' \<notin> set c" "CHR ''-'' \<notin> set d" "CHR ''-'' \<notin> set e"
  shows "js_split (CHR ''-'') (a @ ''-'' @ b @ ''-'' @ c @ ''-'' @ d @ ''-'' @ e) = [a, b, c, d, e]"
  using assms by (simp add: js_split_app js_split_no_sep)

lemma hex_no_dash: "list_all is_hex s \<Longrightarrow> CHR ''-'' \<notin> set s"
  by (auto simp: list_all_iff is_hex_def is_digit_def Let_def dest!: bspec)

lemma stableUuid_parses:
  assumes "list_all is_hex (sha256_hex env s)" and "32 \<le> length (sha256_hex env s)"
  shows "parseUuidId (Some (stableUuid env s)) = Some (stableUuid env s)"
proof -
  define hex where "hex = take 32 (sha256_hex env s)"
  have hex: "list_all is_hex hex" "length hex = 32"
    using assms by (auto simp: hex_def list_all_iff dest: in_set_takeD)
  have part: "list_all is_hex (slice i j hex)" "list_all is_hex (drop i hex)" for i j
    using hex(1) by (auto simp: slice_def list_all_iff dest: in_set_takeD in_set_dropD)
  have groups: "list_all is_hex (CHR ''4'' # slice 13 16 hex)" "list_all is_hex (CHR ''8'' # slice 17 20 hex)"
    using part by (auto simp: is_hex_def is_digit_def)
  have uuid: "stableUuid env s = slice 0 8 hex @ ''-'' @ slice 8 12 hex @ ''-'' @ (CHR ''4'' # slice 13 16 hex) @ ''-'' @
      (CHR ''8'' # slice 17 20 hex) @ ''-'' @ drop 20 hex"
    by (simp add: stableUuid_def hex_def [symmetric] Let_def)
  have "js_split (CHR ''-'') (stableUuid env s) =
      [slice 0 8 hex, slice 8 12 hex, CHR ''4'' # slice 13 16 hex, CHR ''8'' # slice 17 20 hex, drop 20 hex]"
    unfolding uuid by (intro js_split_groups hex_no_dash part groups)
  then show ?thesis
    using part(1) [of 0 8] part(1) [of 8 12] part(2) [of 20] groups hex(2)
    by (simp add: parseUuidId_def hex_group_def slice_def)
qed

text \<open>
  Every id \<open>derive\<close> mints is a well-formed UUID, the same for the same coordinate: given a
  SHA-256 whose hexadecimal digest has at least 32 digits, \<open>parseUuidId\<close> accepts it, so an id
  the decision layer writes is one every reader of the record accepts.
\<close>
theorem minted_ids_parse:
  assumes "\<And>s. list_all is_hex (sha256_hex env s) \<and> 32 \<le> length (sha256_hex env s)"
  shows "parseUuidId (Some (stageInstanceIdFor env rid key)) = Some (stageInstanceIdFor env rid key) \<and>
    parseUuidId (Some (runUnitIdFor env rid key u)) = Some (runUnitIdFor env rid key u) \<and>
    parseUuidId (Some (workOrderIdFor env rid key u i)) = Some (workOrderIdFor env rid key u i)"
  using assms by (auto simp: stageInstanceIdFor_def runUnitIdFor_def workOrderIdFor_def intro!: stableUuid_parses)

theorem minted_ids_parse_witness:
  "parseUuidId (Some (runUnitIdFor sample_env ''r'' ''spec'' ''0'')) = Some (runUnitIdFor sample_env ''r'' ''spec'' ''0'')"
  by (rule minted_ids_parse [THEN conjunct2, THEN conjunct1]) (simp add: sample_env_def is_hex_def is_digit_def list_all_iff)

end
