(* ===== verification/Provisioning.thy ===== *)
theory Provisioning
  imports Compiler
begin

text \<open>
  Repository refs and their provisioning: \<open>domain/repository-refs.ts\<close>,
  \<open>domain/repository-provisioning.ts\<close>, \<open>adapters/repository-provisioning.ts\<close>.

  Git is outside the repository. A git runner is a function of the commands run so far, so
  that its answers may change over time and a run of the code leaves the list of the
  commands it issued. The command may also throw.
\<close>

section \<open>Repository refs\<close>

record run_context_repository =
  repo_key :: string
  repo_path :: string
  repo_integration_branch :: string

record repository_refs =
  refs_repository_key :: string
  refs_repository_path :: string
  refs_integration_branch :: string
  refs_base_branch :: string
  refs_base_head_sha :: string

definition nonEmptyString :: "js_value \<Rightarrow> string \<Rightarrow> string + string" where
  "nonEmptyString v field =
     (case as_nonempty_string v of
        Some s \<Rightarrow> Ok s
      | None \<Rightarrow> Err (''repository '' @ sq field @ '' must be a non-empty string''))"

definition parseRunContextRepository :: "json \<Rightarrow> string + run_context_repository" where
  "parseRunContextRepository v =
     (case v of
        JObj _ \<Rightarrow>
          bind_result (nonEmptyString (readJsonPointer v ''/key'') ''key'') (\<lambda>key.
          bind_result (nonEmptyString (readJsonPointer v ''/path'') ''path'') (\<lambda>path.
          bind_result (nonEmptyString (readJsonPointer v ''/integration_branch'') ''integration_branch'') (\<lambda>branch.
            Ok \<lparr>repo_key = key, repo_path = path, repo_integration_branch = branch\<rparr>)))
      | _ \<Rightarrow> Err ''repository must be a JSON object'')"

definition selectBaseBranch :: "string option \<Rightarrow> string \<Rightarrow> string" where
  "selectBaseBranch configured slug = (case configured of Some b \<Rightarrow> b | None \<Rightarrow> ''epic/'' @ slug)"

text \<open>\<open>JSON.stringify(value)\<close> in a template literal.\<close>

definition js_stringify :: "js_value \<Rightarrow> string" where
  "js_stringify v = (case v of JsonV j \<Rightarrow> json_stringify j | ObjectPrototype \<Rightarrow> ''{}'' | _ \<Rightarrow> ''undefined'')"

definition parseBaseBranch :: "js_value \<Rightarrow> string + string" where
  "parseBaseBranch v =
     (case as_nonempty_string v of
        None \<Rightarrow> Err (''base branch must resolve to a non-empty string, got '' @ js_stringify v)
      | Some s \<Rightarrow>
          if s \<noteq> js_trim s
          then Err (''base branch must not have leading or trailing whitespace, got '' @ js_stringify v)
          else Ok s)"

record resolved_provisioning_config =
  rpc_output_name :: string
  rpc_repository :: run_context_repository
  rpc_base_branch :: string
  rpc_publication :: "(string \<times> string) option"

definition parse_publication :: "js_value \<Rightarrow> string + (string \<times> string) option" where
  "parse_publication raw =
     (if raw = Undefined then Ok None
      else case (as_nonempty_string (readFrom raw ''/work_order_id''), as_nonempty_string (readFrom raw ''/capability'')) of
        (Some w, Some c) \<Rightarrow> Ok (Some (w, c))
      | _ \<Rightarrow> Err ''resolved publication authority is invalid'')"

definition parseResolvedRepositoryProvisioningConfig :: "json \<Rightarrow> string + resolved_provisioning_config" where
  "parseResolvedRepositoryProvisioningConfig v =
     (case v of
        JObj _ \<Rightarrow>
          if readJsonPointer v ''/executor_type'' \<noteq> JsonV (JStr PROVISION_REPOSITORY_REFS_STAGE_TYPE)
          then Err (''resolved config is not a '' @ sq PROVISION_REPOSITORY_REFS_STAGE_TYPE @ '' config'')
          else case as_nonempty_string (readJsonPointer v ''/output_name'') of
            None \<Rightarrow> Err (''resolved config '' @ sq ''output_name'' @ '' must be a non-empty string'')
          | Some output_name \<Rightarrow>
              (case as_nonempty_string (readJsonPointer v ''/base_branch'') of
                 None \<Rightarrow> Err (''resolved config '' @ sq ''base_branch'' @ '' must be a non-empty string'')
               | Some base_branch \<Rightarrow>
                   (case readJsonPointer v ''/repository'' of
                      JsonV r \<Rightarrow>
                        bind_result (parseRunContextRepository r) (\<lambda>repository.
                        bind_result (parse_publication (readJsonPointer v ''/publication'')) (\<lambda>publication.
                          Ok \<lparr>rpc_output_name = output_name, rpc_repository = repository,
                              rpc_base_branch = base_branch, rpc_publication = publication\<rparr>))
                    | _ \<Rightarrow> Err (''resolved config has no '' @ sq ''repository'')))
      | _ \<Rightarrow> Err ''resolved config must be a JSON object'')"

text \<open>The configuration as it is written into an execution request.\<close>

definition repository_json :: "run_context_repository \<Rightarrow> json" where
  "repository_json r =
     JObj [(''key'', JStr (repo_key r)), (''path'', JStr (repo_path r)),
           (''integration_branch'', JStr (repo_integration_branch r))]"

definition provisioning_config_json :: "string \<Rightarrow> run_context_repository \<Rightarrow> string \<Rightarrow> string \<Rightarrow> string \<Rightarrow> json" where
  "provisioning_config_json output_name r base_branch work_order_id capability =
     JObj [(''executor_type'', JStr PROVISION_REPOSITORY_REFS_STAGE_TYPE), (''output_name'', JStr output_name),
           (''repository'', repository_json r), (''base_branch'', JStr base_branch),
           (''publication'', JObj [(''work_order_id'', JStr work_order_id), (''capability'', JStr capability)])]"

section \<open>Git\<close>

record git_outcome =
  git_exit_code :: nat
  git_stdout :: string
  git_stderr :: string

type_synonym git_history = "(string \<times> string list) list"
type_synonym git_runner = "git_history \<Rightarrow> string \<Rightarrow> string list \<Rightarrow> string + git_outcome"

datatype provisioning_failure =
    NotAGitRepository string string
  | MissingIntegrationBranch string string string string
  | BaseBranchUnavailable string string string string
  | GitCommandFailed string string string string

fun failure_kind :: "provisioning_failure \<Rightarrow> string" where
  "failure_kind (NotAGitRepository _ _) = ''not_a_git_repository''"
| "failure_kind (MissingIntegrationBranch _ _ _ _) = ''missing_integration_branch''"
| "failure_kind (BaseBranchUnavailable _ _ _ _) = ''base_branch_unavailable''"
| "failure_kind (GitCommandFailed _ _ _ _) = ''git_command_failed''"

fun describeRepositoryProvisioningFailure :: "provisioning_failure \<Rightarrow> string" where
  "describeRepositoryProvisioningFailure (NotAGitRepository key path) =
     ''repository '' @ sq key @ '' is not a git repository at '' @ path"
| "describeRepositoryProvisioningFailure (MissingIntegrationBranch key path branch detail) =
     ''repository '' @ sq key @ '' has no integration branch '' @ sq branch @ '' on origin at '' @ path @ '': '' @ detail"
| "describeRepositoryProvisioningFailure (BaseBranchUnavailable key path branch detail) =
     ''repository '' @ sq key @ '' could not publish base branch '' @ sq branch @ '' to origin at '' @ path @ '': '' @ detail"
| "describeRepositoryProvisioningFailure (GitCommandFailed key path command detail) =
     ''repository '' @ sq key @ '' failed '' @ sq command @ '' at '' @ path @ '': '' @ detail"

definition describeCommand :: "string list \<Rightarrow> string" where
  "describeCommand args = ''git '' @ js_join '' '' args"

definition outcomeDetail :: "git_outcome \<Rightarrow> string" where
  "outcomeDetail outcome =
     (if js_trim (git_stderr outcome) \<noteq> [] then js_trim (git_stderr outcome)
      else if js_trim (git_stdout outcome) \<noteq> [] then js_trim (git_stdout outcome)
      else ''exited with code '' @ nat_to_string (git_exit_code outcome))"

text \<open>
  The result of a sequence of commands: \<open>Thrown\<close> when a command threw, \<open>Refused\<close> the typed
  failure, together with the commands issued.
\<close>

type_synonym 'a git_result = "(provisioning_failure failure + 'a) \<times> git_history"

definition git_run ::
    "git_runner \<Rightarrow> git_history \<Rightarrow> string \<Rightarrow> string list \<Rightarrow> (git_outcome \<Rightarrow> git_history \<Rightarrow> 'a git_result) \<Rightarrow> 'a git_result" where
  "git_run git h path args k =
     (case git h path args of
        Inl message \<Rightarrow> (Throw message, h @ [(path, args)])
      | Inr outcome \<Rightarrow> k outcome (h @ [(path, args)]))"

definition base_ref :: "string \<Rightarrow> string" where
  "base_ref base_branch = ''refs/heads/'' @ base_branch"

definition ls_remote_args :: "string \<Rightarrow> string list" where
  "ls_remote_args base_branch = [''ls-remote'', ''origin'', base_ref base_branch]"

definition fetch_args :: "string \<Rightarrow> string list" where
  "fetch_args branch = [''fetch'', ''origin'', ''+refs/heads/'' @ branch @ '':refs/remotes/origin/'' @ branch]"

definition push_args :: "string \<Rightarrow> string \<Rightarrow> string list" where
  "push_args integration_branch base_branch =
     [''push'', ''origin'', ''origin/'' @ integration_branch @ '':'' @ base_ref base_branch]"

definition rev_parse_args :: "string \<Rightarrow> string list" where
  "rev_parse_args base_branch =
     [''rev-parse'', ''--verify'', ''origin/'' @ base_branch @ ''^'' @ [CHR 0x7B] @ ''commit'' @ [CHR 0x7D]]"

definition blank :: "git_outcome \<Rightarrow> bool" where
  "blank outcome \<longleftrightarrow> js_trim (git_stdout outcome) = []"

text \<open>The tail after the base branch is known to be published.\<close>

definition resolve_base_head ::
    "git_runner \<Rightarrow> run_context_repository \<Rightarrow> string \<Rightarrow> git_history \<Rightarrow> repository_refs git_result" where
  "resolve_base_head git r base_branch h =
     git_run git h (repo_path r) (fetch_args base_branch) (\<lambda>fetchedBase h.
       if git_exit_code fetchedBase \<noteq> 0
       then (Refuse (GitCommandFailed (repo_key r) (repo_path r) (describeCommand (fetch_args base_branch)) (outcomeDetail fetchedBase)), h)
       else git_run git h (repo_path r) (rev_parse_args base_branch) (\<lambda>head h.
         if git_exit_code head \<noteq> 0 \<or> blank head
         then (Refuse (GitCommandFailed (repo_key r) (repo_path r) (describeCommand (rev_parse_args base_branch)) (outcomeDetail head)), h)
         else (Ok \<lparr>refs_repository_key = repo_key r, refs_repository_path = repo_path r,
                   refs_integration_branch = repo_integration_branch r, refs_base_branch = base_branch,
                   refs_base_head_sha = js_trim (git_stdout head)\<rparr>, h)))"

text \<open>Seeding the base branch from the remote integration branch.\<close>

definition seed_base_branch ::
    "git_runner \<Rightarrow> run_context_repository \<Rightarrow> string \<Rightarrow> git_history \<Rightarrow> repository_refs git_result" where
  "seed_base_branch git r base_branch h =
     git_run git h (repo_path r) (fetch_args (repo_integration_branch r)) (\<lambda>fetchedIntegration h.
       if git_exit_code fetchedIntegration \<noteq> 0
       then (Refuse (MissingIntegrationBranch (repo_key r) (repo_path r) (repo_integration_branch r) (outcomeDetail fetchedIntegration)), h)
       else git_run git h (repo_path r) (push_args (repo_integration_branch r) base_branch) (\<lambda>pushed h.
         if git_exit_code pushed = 0 then resolve_base_head git r base_branch h
         else git_run git h (repo_path r) (ls_remote_args base_branch) (\<lambda>recheck h.
           if git_exit_code recheck \<noteq> 0 \<or> blank recheck
           then (Refuse (BaseBranchUnavailable (repo_key r) (repo_path r) base_branch (outcomeDetail pushed)), h)
           else resolve_base_head git r base_branch h)))"

definition provisionRepositoryRefs ::
    "git_runner \<Rightarrow> git_history \<Rightarrow> run_context_repository \<Rightarrow> string \<Rightarrow> repository_refs git_result" where
  "provisionRepositoryRefs git h r base_branch =
     git_run git h (repo_path r) [''rev-parse'', ''--git-dir''] (\<lambda>isRepository h.
       if git_exit_code isRepository \<noteq> 0 then (Refuse (NotAGitRepository (repo_key r) (repo_path r)), h)
       else git_run git h (repo_path r) (ls_remote_args base_branch) (\<lambda>published h.
         if git_exit_code published \<noteq> 0
         then (Refuse (GitCommandFailed (repo_key r) (repo_path r) (describeCommand (ls_remote_args base_branch)) (outcomeDetail published)), h)
         else if blank published then seed_base_branch git r base_branch h
         else resolve_base_head git r base_branch h))"

section \<open>The executor\<close>

datatype publish_result =
    Published string string nat
  | PublishPending string string string nat
  | PublishAlreadyApplied string string nat
  | WorkNotFound string
  | InvalidCapability string
  | WorkAbandonedResult string
  | WorkNotActive string
  | SlotNotFound string
  | SlotInvalidatedResult string
  | SlotAlreadyReleased string string
  | SlotPendingResult string string
  | IdempotencyConflict string string

fun publish_kind :: "publish_result \<Rightarrow> string" where
  "publish_kind (Published _ _ _) = ''published''"
| "publish_kind (PublishPending _ _ _ _) = ''pending''"
| "publish_kind (PublishAlreadyApplied _ _ _) = ''already_applied''"
| "publish_kind (WorkNotFound _) = ''work_not_found''"
| "publish_kind (InvalidCapability _) = ''invalid_capability''"
| "publish_kind (WorkAbandonedResult _) = ''work_abandoned''"
| "publish_kind (WorkNotActive _) = ''work_not_active''"
| "publish_kind (SlotNotFound _) = ''slot_not_found''"
| "publish_kind (SlotInvalidatedResult _) = ''slot_invalidated''"
| "publish_kind (SlotAlreadyReleased _ _) = ''slot_already_released''"
| "publish_kind (SlotPendingResult _ _) = ''slot_pending''"
| "publish_kind (IdempotencyConflict _ _) = ''idempotency_conflict''"

text \<open>The detail of a refusal; an accepted publication has none.\<close>

fun publish_refusal :: "publish_result \<Rightarrow> string option" where
  "publish_refusal (Published _ _ _) = None"
| "publish_refusal (PublishPending _ _ _ _) = None"
| "publish_refusal (PublishAlreadyApplied _ _ _) = None"
| "publish_refusal (WorkNotFound d) = Some d"
| "publish_refusal (InvalidCapability d) = Some d"
| "publish_refusal (WorkAbandonedResult d) = Some d"
| "publish_refusal (WorkNotActive d) = Some d"
| "publish_refusal (SlotNotFound d) = Some d"
| "publish_refusal (SlotInvalidatedResult d) = Some d"
| "publish_refusal (SlotAlreadyReleased _ d) = Some d"
| "publish_refusal (SlotPendingResult _ d) = Some d"
| "publish_refusal (IdempotencyConflict _ d) = Some d"

record publish_work_order_request =
  pwr_work_order_id :: string
  pwr_capability :: string
  pwr_output_name :: string
  pwr_body :: json
  pwr_idempotency_key :: string

definition refs_json :: "repository_refs \<Rightarrow> json" where
  "refs_json refs =
     JObj [(''repository_key'', JStr (refs_repository_key refs)), (''repository_path'', JStr (refs_repository_path refs)),
           (''integration_branch'', JStr (refs_integration_branch refs)), (''base_branch'', JStr (refs_base_branch refs)),
           (''base_head_sha'', JStr (refs_base_head_sha refs))]"

text \<open>
  \<open>provision\<close>: \<open>publish\<close> is the publication pipeline the adapter is given (it may throw), and
  every exception becomes a terminal observation.
\<close>

definition provision ::
    "git_runner \<Rightarrow> (publish_work_order_request \<Rightarrow> string + publish_result) \<Rightarrow> git_history \<Rightarrow> execution_request
     \<Rightarrow> terminal_observation" where
  "provision git publish h request =
     (case parseResolvedRepositoryProvisioningConfig (er_resolved_config request) of
        Inl detail \<Rightarrow> ObservedFailed ''invalid_resolved_config'' detail
      | Inr config \<Rightarrow>
          (case fst (provisionRepositoryRefs git h (rpc_repository config) (rpc_base_branch config)) of
             Inl (Thrown message) \<Rightarrow> ObservedFailed ''provisioning_error'' message
           | Inl (Refused f) \<Rightarrow> ObservedFailed (failure_kind f) (describeRepositoryProvisioningFailure f)
           | Inr refs \<Rightarrow>
               (case rpc_publication config of
                  None \<Rightarrow> ObservedFailed ''v2_publication_unavailable'' ''work-order publication is not configured''
                | Some (work_order_id, capability) \<Rightarrow>
                    (case publish \<lparr>pwr_work_order_id = work_order_id, pwr_capability = capability,
                        pwr_output_name = rpc_output_name config, pwr_body = refs_json refs,
                        pwr_idempotency_key = er_execution_id request @ '':'' @ rpc_output_name config\<rparr> of
                       Inl message \<Rightarrow> ObservedFailed ''provisioning_error'' message
                     | Inr published \<Rightarrow>
                         (case publish_refusal published of
                            Some detail \<Rightarrow> ObservedFailed (''emit_'' @ publish_kind published) detail
                          | None \<Rightarrow>
                              ObservedSucceeded (JObj [(''base_branch'', JStr (refs_base_branch refs)),
                                (''base_head_sha'', JStr (refs_base_head_sha refs))]))))))"

definition provisioning_start_or_attach ::
    "git_runner \<Rightarrow> (publish_work_order_request \<Rightarrow> string + publish_result) \<Rightarrow> git_history \<Rightarrow> execution_request
     \<Rightarrow> external_reference" where
  "provisioning_start_or_attach git publish h request = CompletedWork (provision git publish h request)"

definition provisioning_observe_terminal :: "string \<Rightarrow> external_reference \<Rightarrow> observation_attempt" where
  "provisioning_observe_terminal execution_id reference =
     (case reference of
        CompletedWork observation \<Rightarrow> ObservationTerminal observation
      | _ \<Rightarrow> ObservationTerminal (ObservedFailed ''provisioning_not_started''
          (''execution '' @ execution_id @ '' has no completed provisioning reference'')))"

section \<open>The interface of an executor without an external process\<close>

text \<open>
  What the execution workflow relies on: the reference \<open>start\<close> returns carries the outcome, so
  that any later observation, by any caller, reads that same terminal outcome from it.
\<close>

locale stateless_executor =
  fixes start :: "'req \<Rightarrow> external_reference"
    and observe :: "string \<Rightarrow> external_reference \<Rightarrow> observation_attempt"
    and outcome :: "'req \<Rightarrow> terminal_observation"
  assumes observe_start: "observe execution_id (start req) = ObservationTerminal (outcome req)"
begin

lemma replay_same: "observe e (start req) = observe e' (start req)"
  by (simp add: observe_start)

lemma never_pending: "observe e (start req) \<noteq> ObservationPending"
  by (simp add: observe_start)

lemma observed_outcome: "observe e (start req) = ObservationTerminal o' \<longleftrightarrow> o' = outcome req"
  by (auto simp: observe_start)

end

interpretation provisioning: stateless_executor "provisioning_start_or_attach git publish h" provisioning_observe_terminal
  "provision git publish h" for git publish h
  by unfold_locales (simp add: provisioning_start_or_attach_def provisioning_observe_terminal_def)

section \<open>Lemmas on the commands issued\<close>

text \<open>The commands one call issued, given that \<open>git\<close> was asked them in order after \<open>h\<close>.\<close>

definition issued_ok :: "git_runner \<Rightarrow> git_history \<Rightarrow> run_context_repository \<Rightarrow> string \<Rightarrow> git_history \<Rightarrow> bool" where
  "issued_ok git h r b issued \<longleftrightarrow>
     (\<forall>c \<in> set issued. fst c = repo_path r) \<and>
     ((repo_path r, push_args (repo_integration_branch r) b) \<in> set issued \<longrightarrow>
        (\<exists>before listed fetched.
           prefix (before @ [(repo_path r, ls_remote_args b), (repo_path r, fetch_args (repo_integration_branch r)),
             (repo_path r, push_args (repo_integration_branch r) b)]) issued \<and>
           git (h @ before) (repo_path r) (ls_remote_args b) = Inr listed \<and> git_exit_code listed = 0 \<and> blank listed \<and>
           git (h @ before @ [(repo_path r, ls_remote_args b)]) (repo_path r) (fetch_args (repo_integration_branch r)) = Inr fetched \<and>
           git_exit_code fetched = 0))"

lemma args_differ [simp]:
  "fetch_args x \<noteq> push_args y z" "rev_parse_args x \<noteq> push_args y z" "ls_remote_args x \<noteq> push_args y z"
  "[''rev-parse'', ''--git-dir''] \<noteq> push_args y z"
  "push_args y z \<noteq> fetch_args x" "push_args y z \<noteq> rev_parse_args x" "push_args y z \<noteq> ls_remote_args x"
  "push_args y z \<noteq> [''rev-parse'', ''--git-dir'']"
  by (simp_all add: fetch_args_def push_args_def rev_parse_args_def ls_remote_args_def)

text \<open>The tail: one fetch and, when it succeeds, one \<open>rev-parse\<close>.\<close>

lemma resolve_base_head_cases:
  obtains (failed) e tail where "resolve_base_head git r b h = (Inl e, h @ tail)"
      "set tail \<subseteq> {(repo_path r, fetch_args b), (repo_path r, rev_parse_args b)}"
  | (resolved) head where
      "resolve_base_head git r b h =
        (Inr \<lparr>refs_repository_key = repo_key r, refs_repository_path = repo_path r, refs_integration_branch = repo_integration_branch r,
              refs_base_branch = b, refs_base_head_sha = js_trim (git_stdout head)\<rparr>,
         h @ [(repo_path r, fetch_args b), (repo_path r, rev_parse_args b)])"
      "git (h @ [(repo_path r, fetch_args b)]) (repo_path r) (rev_parse_args b) = Inr head"
      "git_exit_code head = 0" "\<not> blank head"
proof (cases "git h (repo_path r) (fetch_args b)")
  case (Inl m)
  then show ?thesis by (intro failed [of _ "[(repo_path r, fetch_args b)]"]) (auto simp: resolve_base_head_def git_run_def)
next
  case fetched: (Inr f)
  show ?thesis
  proof (cases "git_exit_code f = 0")
    case False
    with fetched show ?thesis
      by (intro failed [of _ "[(repo_path r, fetch_args b)]"]) (auto simp: resolve_base_head_def git_run_def)
  next
    case ok: True
    show ?thesis
    proof (cases "git (h @ [(repo_path r, fetch_args b)]) (repo_path r) (rev_parse_args b)")
      case (Inl m)
      with fetched ok show ?thesis
        by (intro failed [of _ "[(repo_path r, fetch_args b), (repo_path r, rev_parse_args b)]"])
          (auto simp: resolve_base_head_def git_run_def)
    next
      case (Inr head)
      show ?thesis
      proof (cases "git_exit_code head = 0 \<and> \<not> blank head")
        case True
        with fetched ok Inr show ?thesis
          by (intro resolved [of head]) (auto simp: resolve_base_head_def git_run_def)
      next
        case False
        with fetched ok Inr show ?thesis
          by (intro failed [of _ "[(repo_path r, fetch_args b), (repo_path r, rev_parse_args b)]"])
            (auto simp: resolve_base_head_def git_run_def)
      qed
    qed
  qed
qed

text \<open>What a call that returns refs did last.\<close>

definition head_ok :: "git_runner \<Rightarrow> run_context_repository \<Rightarrow> string \<Rightarrow> repository_refs git_result \<Rightarrow> bool" where
  "head_ok git r b res =
     (case res of
        (Inl _, _) \<Rightarrow> True
      | (Inr refs, h') \<Rightarrow>
          refs_repository_key refs = repo_key r \<and> refs_repository_path refs = repo_path r \<and> refs_base_branch refs = b \<and>
          refs_integration_branch refs = repo_integration_branch r \<and> refs_base_head_sha refs \<noteq> [] \<and>
          h' \<noteq> [] \<and> last h' = (repo_path r, rev_parse_args b) \<and>
          (\<exists>head. git (butlast h') (repo_path r) (rev_parse_args b) = Inr head \<and> git_exit_code head = 0 \<and>
             refs_base_head_sha refs = js_trim (git_stdout head)))"

lemma resolve_base_head_ok:
  "head_ok git r b (resolve_base_head git r b h) \<and>
   (\<exists>tail. snd (resolve_base_head git r b h) = h @ tail \<and>
      set tail \<subseteq> {(repo_path r, fetch_args b), (repo_path r, rev_parse_args b)})"
proof (rule resolve_base_head_cases [of git r b h])
  fix e tail
  assume "resolve_base_head git r b h = (Inl e, h @ tail)" "set tail \<subseteq> {(repo_path r, fetch_args b), (repo_path r, rev_parse_args b)}"
  then show ?thesis by (auto simp: head_ok_def)
next
  fix head
  assume "resolve_base_head git r b h =
        (Inr \<lparr>refs_repository_key = repo_key r, refs_repository_path = repo_path r, refs_integration_branch = repo_integration_branch r,
              refs_base_branch = b, refs_base_head_sha = js_trim (git_stdout head)\<rparr>,
         h @ [(repo_path r, fetch_args b), (repo_path r, rev_parse_args b)])"
      "git (h @ [(repo_path r, fetch_args b)]) (repo_path r) (rev_parse_args b) = Inr head"
      "git_exit_code head = 0" "\<not> blank head"
  then show ?thesis by (auto simp: head_ok_def blank_def butlast_append)
qed

lemma issued_ok_nopush:
  assumes "\<forall>c \<in> set issued. fst c = repo_path r" and "(repo_path r, push_args (repo_integration_branch r) b) \<notin> set issued"
  shows "issued_ok git h r b issued"
  using assms by (simp add: issued_ok_def)

lemma tail_nopush:
  "set tail \<subseteq> {(repo_path r, fetch_args b), (repo_path r, rev_parse_args b)} \<Longrightarrow>
   (\<forall>c \<in> set tail. fst c = repo_path r) \<and> (repo_path r, push_args i b) \<notin> set tail"
  by fastforce

lemma seed_base_branch_ok:
  fixes h pre :: git_history and r :: run_context_repository and b :: string
  defines "here \<equiv> pre @ [(repo_path r, ls_remote_args b)]"
  assumes listed: "git (h @ pre) (repo_path r) (ls_remote_args b) = Inr l" "git_exit_code l = 0" "blank l"
    and pre: "\<forall>c \<in> set pre. fst c = repo_path r" "(repo_path r, push_args (repo_integration_branch r) b) \<notin> set pre"
  shows "head_ok git r b (seed_base_branch git r b (h @ here)) \<and>
    (\<exists>tail. snd (seed_base_branch git r b (h @ here)) = (h @ here) @ tail \<and> issued_ok git h r b (here @ tail))"
proof -
  let ?p = "repo_path r" and ?f = "fetch_args (repo_integration_branch r)" and ?push = "push_args (repo_integration_branch r) b"
  let ?fetch = "git (h @ here) ?p ?f"
  have here: "\<forall>c \<in> set here. fst c = ?p" "(?p, ?push) \<notin> set here"
    using pre by (auto simp: here_def)
  have stop: "issued_ok git h r b (here @ [(?p, ?f)])"
    by (rule issued_ok_nopush) (use here in auto)
  have pushed_ok: "issued_ok git h r b (here @ [(?p, ?f), (?p, ?push)] @ tail)"
    if "?fetch = Inr f" "git_exit_code f = 0" "\<forall>c \<in> set tail. fst c = ?p" for f tail
  proof -
    have "prefix (pre @ [(?p, ls_remote_args b), (?p, ?f), (?p, ?push)]) (here @ [(?p, ?f), (?p, ?push)] @ tail)"
      by (simp add: here_def)
    moreover have "git (h @ pre @ [(?p, ls_remote_args b)]) ?p ?f = Inr f" using that(1) by (simp add: here_def)
    ultimately show ?thesis
      unfolding issued_ok_def using that(2,3) here(1) listed by auto
  qed
  show ?thesis
  proof (cases ?fetch)
    case (Inl m)
    then show ?thesis using stop by (auto simp: seed_base_branch_def git_run_def head_ok_def)
  next
    case fetched: (Inr f)
    show ?thesis
    proof (cases "git_exit_code f = 0")
      case False
      with fetched stop show ?thesis by (auto simp: seed_base_branch_def git_run_def head_ok_def)
    next
      case fok: True
      note push = pushed_ok [OF fetched fok]
      let ?h2 = "(h @ here) @ [(?p, ?f), (?p, ?push)]"
      show ?thesis
      proof (cases "git ((h @ here) @ [(?p, ?f)]) ?p ?push")
        case (Inl m)
        with fetched fok push [of "[]"] show ?thesis by (auto simp: seed_base_branch_def git_run_def head_ok_def)
      next
        case pushed: (Inr pu)
        show ?thesis
        proof (cases "git_exit_code pu = 0")
          case True
          with fetched fok pushed have eq: "seed_base_branch git r b (h @ here) = resolve_base_head git r b ?h2"
            by (simp add: seed_base_branch_def git_run_def)
          from resolve_base_head_ok [of git r b ?h2] obtain tail where
            "snd (resolve_base_head git r b ?h2) = ?h2 @ tail" "\<forall>c \<in> set tail. fst c = ?p"
            "head_ok git r b (resolve_base_head git r b ?h2)" using tail_nopush by blast
          then show ?thesis unfolding eq using push [of tail] by auto
        next
          case pfail: False
          let ?h3 = "?h2 @ [(?p, ls_remote_args b)]"
          show ?thesis
          proof (cases "\<exists>rc. git ?h2 ?p (ls_remote_args b) = Inr rc \<and> git_exit_code rc = 0 \<and> \<not> blank rc")
            case True
            with fetched fok pushed pfail have eq: "seed_base_branch git r b (h @ here) = resolve_base_head git r b ?h3"
              by (auto simp: seed_base_branch_def git_run_def)
            from resolve_base_head_ok [of git r b ?h3] obtain tail where
              "snd (resolve_base_head git r b ?h3) = ?h3 @ tail" "\<forall>c \<in> set tail. fst c = ?p"
              "head_ok git r b (resolve_base_head git r b ?h3)" using tail_nopush by blast
            then show ?thesis unfolding eq using push [of "(?p, ls_remote_args b) # tail"] by auto
          next
            case False
            with fetched fok pushed pfail show ?thesis
              using push [of "[(?p, ls_remote_args b)]"]
              by (auto simp: seed_base_branch_def git_run_def head_ok_def split: sum.splits)
          qed
        qed
      qed
    qed
  qed
qed

section \<open>Properties\<close>

text \<open>
  C40. Provisioning never rewinds a published base branch: it pushes only directly after
  \<open>ls-remote\<close> answered that the branch does not exist and the integration branch was fetched
  from origin, and it pushes nothing else. Every command runs in the repository's own
  directory, and the refs it returns name the commit that git, asked last, resolved the
  published branch to.
\<close>
theorem provisionRepositoryRefs_safe:
  "\<exists>issued. snd (provisionRepositoryRefs git h r b) = h @ issued \<and> issued_ok git h r b issued \<and>
     head_ok git r b (provisionRepositoryRefs git h r b)"
proof -
  let ?p = "repo_path r" and ?dir = "[''rev-parse'', ''--git-dir'']"
  let ?h1 = "h @ [(?p, ?dir)]" and ?h2 = "h @ [(?p, ?dir)] @ [(?p, ls_remote_args b)]"
  have stop: "issued_ok git h r b [(?p, ?dir)]" "issued_ok git h r b [(?p, ?dir), (?p, ls_remote_args b)]"
    by (auto intro!: issued_ok_nopush)
  show ?thesis
  proof (cases "\<exists>d. git h ?p ?dir = Inr d \<and> git_exit_code d = 0")
    case False
    then show ?thesis using stop(1) by (auto simp: provisionRepositoryRefs_def git_run_def head_ok_def split: sum.splits)
  next
    case dir: True
    show ?thesis
    proof (cases "\<exists>l. git ?h1 ?p (ls_remote_args b) = Inr l \<and> git_exit_code l = 0")
      case False
      with dir show ?thesis
        using stop(2) by (auto simp: provisionRepositoryRefs_def git_run_def head_ok_def split: sum.splits)
    next
      case True
      then obtain l where l: "git ?h1 ?p (ls_remote_args b) = Inr l" "git_exit_code l = 0" by auto
      show ?thesis
      proof (cases "blank l")
        case True
        with dir l have eq: "provisionRepositoryRefs git h r b = seed_base_branch git r b ?h2"
          by (auto simp: provisionRepositoryRefs_def git_run_def)
        have "head_ok git r b (seed_base_branch git r b ?h2) \<and>
            (\<exists>tail. snd (seed_base_branch git r b ?h2) = ?h2 @ tail \<and> issued_ok git h r b (([(?p, ?dir)] @ [(?p, ls_remote_args b)]) @ tail))"
          using seed_base_branch_ok [of git h "[(?p, ?dir)]" r b l] l True by simp
        then show ?thesis unfolding eq by auto
      next
        case False
        with dir l have eq: "provisionRepositoryRefs git h r b = resolve_base_head git r b ?h2"
          by (auto simp: provisionRepositoryRefs_def git_run_def)
        from resolve_base_head_ok [of git r b ?h2] obtain tail where
          tail: "snd (resolve_base_head git r b ?h2) = ?h2 @ tail" "head_ok git r b (resolve_base_head git r b ?h2)"
          and set: "set tail \<subseteq> {(repo_path r, fetch_args b), (repo_path r, rev_parse_args b)}" by blast
        have "issued_ok git h r b ([(?p, ?dir), (?p, ls_remote_args b)] @ tail)"
          by (rule issued_ok_nopush) (use tail_nopush [OF set] in auto)
        with tail show ?thesis unfolding eq by auto
      qed
    qed
  qed
qed

lemma pointer_key:
  assumes "CHR ''~'' \<notin> set k" "CHR ''/'' \<notin> set k"
  shows "readJsonPointer (JObj kvs) (CHR ''/'' # k) = index_object kvs k"
proof -
  have "escape_segment k = k" using assms by (induction k) (auto simp: escape_segment_def)
  then have "CHR ''/'' # k = pointer_to [k]" by (simp add: pointer_to_def)
  then show ?thesis by (simp add: readJsonPointer_pointer_to)
qed

text \<open>
  The configuration written for a provisioning execution is read back by the executor as
  the same values: no field of a valid configuration is lost or refused on the way through
  the stored request.
\<close>
theorem provisioning_config_roundtrip:
  assumes "out \<noteq> []" "b \<noteq> []" "w \<noteq> []" "c \<noteq> []" "repo_key r \<noteq> []" "repo_path r \<noteq> []" "repo_integration_branch r \<noteq> []"
  shows "parseResolvedRepositoryProvisioningConfig (provisioning_config_json out r b w c) =
    Inr \<lparr>rpc_output_name = out, rpc_repository = r, rpc_base_branch = b, rpc_publication = Some (w, c)\<rparr>"
proof -
  have some: "as_nonempty_string (JsonV (JStr s)) = Some s" if "s \<noteq> []" for s using that by simp
  have repo: "parseRunContextRepository (repository_json r) = Inr r"
    using assms by (simp add: parseRunContextRepository_def repository_json_def pointer_key index_object_def obj_get_def
        nonEmptyString_def some)
  have publication: "parse_publication (JsonV (JObj [(''work_order_id'', JStr w), (''capability'', JStr c)])) = Inr (Some (w, c))"
    using assms by (simp add: parse_publication_def readFrom_JsonV pointer_key index_object_def obj_get_def some)
  show ?thesis
    using assms by (simp add: parseResolvedRepositoryProvisioningConfig_def provisioning_config_json_def pointer_key
        index_object_def obj_get_def repo publication some)
qed

theorem provisioning_config_roundtrip_witness:
  "parseResolvedRepositoryProvisioningConfig
     (provisioning_config_json ''refs'' \<lparr>repo_key = ''k'', repo_path = ''/p'', repo_integration_branch = ''main''\<rparr> ''epic/x'' ''w'' ''cap'') =
   Inr \<lparr>rpc_output_name = ''refs'', rpc_repository = \<lparr>repo_key = ''k'', repo_path = ''/p'', repo_integration_branch = ''main''\<rparr>,
        rpc_base_branch = ''epic/x'', rpc_publication = Some (''w'', ''cap'')\<rparr>"
  by (rule provisioning_config_roundtrip) simp_all

text \<open>
  Executions of the provisioning stage always end: whatever git and the publication pipeline
  do, including throwing, the execution is observed terminal, with the same observation for
  every observer and replay; and it is observed as succeeded only when git resolved the base
  branch and the publication of its refs was accepted.
\<close>
theorem provisioning_observed:
  "provisioning_observe_terminal e (provisioning_start_or_attach git publish h request) =
     ObservationTerminal (provision git publish h request) \<and>
   (case provision git publish h request of
      ObservedSucceeded _ \<Rightarrow>
        (\<exists>config refs w c published.
           parseResolvedRepositoryProvisioningConfig (er_resolved_config request) = Inr config \<and>
           fst (provisionRepositoryRefs git h (rpc_repository config) (rpc_base_branch config)) = Inr refs \<and>
           rpc_publication config = Some (w, c) \<and>
           publish \<lparr>pwr_work_order_id = w, pwr_capability = c, pwr_output_name = rpc_output_name config, pwr_body = refs_json refs,
             pwr_idempotency_key = er_execution_id request @ '':'' @ rpc_output_name config\<rparr> = Inr published \<and>
           publish_refusal published = None)
    | _ \<Rightarrow> True)"
proof
  show "provisioning_observe_terminal e (provisioning_start_or_attach git publish h request) =
      ObservationTerminal (provision git publish h request)"
    by (rule provisioning.observe_start)
  show "case provision git publish h request of
      ObservedSucceeded _ \<Rightarrow>
        (\<exists>config refs w c published.
           parseResolvedRepositoryProvisioningConfig (er_resolved_config request) = Inr config \<and>
           fst (provisionRepositoryRefs git h (rpc_repository config) (rpc_base_branch config)) = Inr refs \<and>
           rpc_publication config = Some (w, c) \<and>
           publish \<lparr>pwr_work_order_id = w, pwr_capability = c, pwr_output_name = rpc_output_name config, pwr_body = refs_json refs,
             pwr_idempotency_key = er_execution_id request @ '':'' @ rpc_output_name config\<rparr> = Inr published \<and>
           publish_refusal published = None)
    | _ \<Rightarrow> True"
    by (auto simp: provision_def split: sum.splits failure.splits option.splits)
qed

end
