(* ===== verification/WorkOrder.thy ===== *)
theory WorkOrder
  imports Decision Provisioning
begin

text \<open>
  Work orders: \<open>runtime/resolve-work-order.ts\<close>, the execution request a work order carries, and
  \<open>runtime/publish-work-order-artifact.ts\<close>, the publication command built from a submission.

  The two dependencies of the resolver, the prompt loader (which may throw) and the lookup
  of an executor attachment, are arguments.
\<close>

record resolver_dependencies =
  load_prompt_template :: "string \<Rightarrow> string + string"
  find_work_order_attachment :: "string \<Rightarrow> executor_attachment option"

definition capabilityFor :: "runtime_env \<Rightarrow> string \<Rightarrow> string \<Rightarrow> string" where
  "capabilityFor env seed work_order_id = sha256_base64url env (seed @ '':'' @ work_order_id)"

definition capabilityHash :: "runtime_env \<Rightarrow> string \<Rightarrow> string" where
  "capabilityHash env capability = sha256_hex env capability"

record resolve_work_order_input =
  rw_run_id :: string
  rw_stage :: compiled_stage
  rw_stage_instance_id :: string
  rw_unit :: execution_unit
  rw_inputs :: stage_input_set
  rw_context :: json
  rw_outputs :: "materialized_output list"
  rw_identity :: string
  rw_capability_seed :: string

section \<open>The execution request\<close>

definition opt_string_json :: "string option \<Rightarrow> json" where
  "opt_string_json v = (case v of None \<Rightarrow> JNull | Some s \<Rightarrow> JStr s)"

definition worktree_json :: "worktree_identity \<Rightarrow> json" where
  "worktree_json w =
     JObj ([(''branchName'', JStr (wi_branch_name w)), (''worktreeSubdir'', JStr (wi_worktree_subdir w))] @
           (case wi_base_ref w of None \<Rightarrow> [] | Some r \<Rightarrow> [(''baseRef'', JStr r)]))"

definition delegated_config_json :: "resolved_executor_config \<Rightarrow> string \<Rightarrow> string \<Rightarrow> string \<Rightarrow> json" where
  "delegated_config_json planned base_url work_order_id capability =
     JObj ([(''executor_type'', JStr ''delegated_session''), (''runtime'', JStr (rx_runtime planned)),
            (''rendered_prompt'', JStr (rx_rendered_prompt planned)), (''workdir'', JStr (rx_workdir planned)),
            (''session_name'', JStr (rx_session_name planned)), (''model'', opt_string_json (rx_model planned)),
            (''effort'', opt_string_json (rx_effort planned))] @
           (case rx_worktree planned of None \<Rightarrow> [] | Some w \<Rightarrow> [(''worktree'', worktree_json w)]) @
           [(''executor_options'', JObj [(''pre_authorized_tools'', JArr (map JStr (rx_pre_authorized_tools planned))),
              (''yolo'', JBool (rx_yolo planned))]),
            (''publication'', JObj [(''base_url'', JStr base_url), (''work_order_id'', JStr work_order_id), (''capability'', JStr capability)])])"

text \<open>
  The configuration of a compiled stage is of the kind its executor type names; the resolver
  reads it by a cast. Another kind is a configuration no compiler writes.
\<close>

definition resolve_provisioning ::
    "resolve_work_order_input \<Rightarrow> string \<Rightarrow> string \<Rightarrow> string + json" where
  "resolve_provisioning inp work_order_id capability =
     (case cs_outputs (rw_stage inp) of
        [out] \<Rightarrow>
          (case cs_definition_config (rw_stage inp) of
             ProvisioningConfig d \<Rightarrow>
               (case resolveBindingValue (rp_base_branch d) \<lparr>be_inputs = rw_inputs inp, be_context = rw_context inp, be_item = JNull\<rparr> of
                  Inl detail \<Rightarrow> Err (''resolve_execution:'' @ detail)
                | Inr branch \<Rightarrow>
                    (case parseBaseBranch branch of
                       Inl detail \<Rightarrow> Err (''parse_base_branch:'' @ detail)
                     | Inr base_branch \<Rightarrow>
                         (case parseRunContextRepository (eu_parameters (rw_unit inp)) of
                            Inl detail \<Rightarrow> Err (''parse_run_context_repository:'' @ detail)
                          | Inr repository \<Rightarrow>
                              Ok (provisioning_config_json (co_name out) repository base_branch work_order_id capability))))
           | _ \<Rightarrow> Err ''definition config is not a repository provisioning config'')
      | _ \<Rightarrow> Err (''stage '' @ sq (cs_stage_key (rw_stage inp)) @ '' must declare one repository refs output''))"

definition resolve_delegated ::
    "runtime_env \<Rightarrow> resolver_dependencies \<Rightarrow> resolve_work_order_input \<Rightarrow> delegated_session_config \<Rightarrow> string \<Rightarrow> string \<Rightarrow> string + json" where
  "resolve_delegated env deps inp d work_order_id capability =
     (let be = \<lparr>be_inputs = rw_inputs inp, be_context = rw_context inp, be_item = eu_parameters (rw_unit inp)\<rparr>
      in bind_result (load_prompt_template deps (dc_prompt_template_path d)) (\<lambda>template.
         case resolveDelegatedExecution env
             \<lparr>ri_definition = d, ri_environment = be, ri_unit = rw_unit inp,
              ri_stage_instance_id = rw_stage_instance_id inp, ri_prompt_template = template\<rparr> of
           Inl detail \<Rightarrow> Err (''resolve_execution:'' @ detail)
         | Inr planned \<Rightarrow>
             (case (case obj_get (dc_slot_bindings d) ''OAKRIDGE_URL'' of
                      None \<Rightarrow> None
                    | Some b \<Rightarrow> (case resolveBinding env b be of Inl _ \<Rightarrow> None | Inr url \<Rightarrow> Some url)) of
                None \<Rightarrow> Err (''stage '' @ sq (cs_stage_key (rw_stage inp)) @ '' must resolve OAKRIDGE_URL for work-order publication'')
              | Some url \<Rightarrow> Ok (delegated_config_json planned url work_order_id capability))))"

definition workspace_source ::
    "resolver_dependencies \<Rightarrow> resolve_work_order_input \<Rightarrow> delegated_session_config
     \<Rightarrow> string + (string \<times> external_reference) option" where
  "workspace_source deps inp d =
     (case (case dc_fan_out d of None \<Rightarrow> None | Some f \<Rightarrow> fo_inherit_worktree_from f) of
        None \<Rightarrow> Ok None
      | Some [] \<Rightarrow> Ok None
      | Some inherited \<Rightarrow>
          (case (case obj_get (rw_inputs inp) inherited of None \<Rightarrow> [] | Some v \<Rightarrow> input_envelopes v) of
             [source] \<Rightarrow>
               (case ae_producer_execution_id source of
                  Some (e # es) \<Rightarrow>
                    (case find_work_order_attachment deps (e # es) of
                       Some attachment \<Rightarrow>
                         (case at_external_reference attachment of
                            Some ref \<Rightarrow> Ok (Some (e # es, ref))
                          | None \<Rightarrow> Err (''workspace source '' @ sq (e # es) @ '' has no executor attachment''))
                     | None \<Rightarrow> Err (''workspace source '' @ sq (e # es) @ '' has no executor attachment''))
                | _ \<Rightarrow> Err (''workspace input '' @ sq inherited @ '' for unit '' @ sq (eu_unit_id (rw_unit inp)) @ '' has no unique producer''))
           | _ \<Rightarrow> Err (''workspace input '' @ sq inherited @ '' for unit '' @ sq (eu_unit_id (rw_unit inp)) @ '' has no unique producer'')))"

definition resolve_config ::
    "runtime_env \<Rightarrow> resolver_dependencies \<Rightarrow> resolve_work_order_input \<Rightarrow> string \<Rightarrow> string
     \<Rightarrow> string + json \<times> (string \<times> external_reference) option" where
  "resolve_config env deps inp work_order_id capability =
     (if cs_executor_type (rw_stage inp) = PROVISION_REPOSITORY_REFS_STAGE_TYPE
      then bind_result (resolve_provisioning inp work_order_id capability) (\<lambda>resolved. Ok (resolved, None))
      else if cs_executor_type (rw_stage inp) = ''delegated_session''
      then (case cs_definition_config (rw_stage inp) of
              DelegatedConfig d \<Rightarrow>
                bind_result (resolve_delegated env deps inp d work_order_id capability) (\<lambda>resolved.
                bind_result (workspace_source deps inp d) (\<lambda>source. Ok (resolved, source)))
            | _ \<Rightarrow> Err ''definition config is not a delegated session config'')
      else Err (''executor '' @ sq (cs_executor_type (rw_stage inp)) @ '' has no v2 resolver''))"

definition expected_artifact_of :: "execution_unit \<Rightarrow> materialized_output \<Rightarrow> expected_artifact" where
  "expected_artifact_of u out =
     \<lparr>ea_unit_id = (case identity_collection_key (mo_identity out) of Some key \<Rightarrow> key | None \<Rightarrow> eu_unit_id u),
      ea_output_name = identity_output_name (mo_identity out), ea_artifact_type = mo_artifact_type out\<rparr>"

definition executionRequest ::
    "runtime_env \<Rightarrow> resolver_dependencies \<Rightarrow> resolve_work_order_input \<Rightarrow> string \<Rightarrow> string \<Rightarrow> string + execution_request" where
  "executionRequest env deps inp work_order_id capability =
     bind_result (resolve_config env deps inp work_order_id capability) (\<lambda>(resolved, source).
       Ok \<lparr>er_execution_id = work_order_id, er_stage_instance_id = rw_stage_instance_id inp,
           er_unit_id = eu_unit_id (rw_unit inp), er_executor_type = cs_executor_type (rw_stage inp),
           er_resolved_config = resolved, er_inputs = envelopes (rw_inputs inp),
           er_declared_outputs = map (\<lambda>out. \<lparr>oc_name = co_name out, oc_artifact_type = co_artifact_type out, oc_required = True\<rparr>)
             (cs_outputs (rw_stage inp)),
           er_expected_artifacts = map (expected_artifact_of (rw_unit inp)) (rw_outputs inp),
           er_workspace_source = source\<rparr>)"

definition resolveWorkOrder ::
    "runtime_env \<Rightarrow> resolver_dependencies \<Rightarrow> resolve_work_order_input \<Rightarrow> string + materialized_work_order" where
  "resolveWorkOrder env deps inp =
     (let i = workOrderIdFor env (rw_run_id inp) (cs_stage_key (rw_stage inp)) (eu_unit_id (rw_unit inp)) (rw_identity inp);
          capability = capabilityFor env (rw_capability_seed inp) i
      in bind_result (executionRequest env deps inp i capability) (\<lambda>request.
           Ok \<lparr>mw_id = i, mw_workflow_id = workOrderWorkflowId i, mw_capability_hash = capabilityHash env capability, mw_request = request\<rparr>))"

section \<open>Rebinding a request for a retry\<close>

record missing_output_slot =
  ms_output_name :: string
  ms_collection_key :: "string option"

definition rebind_expected :: "execution_request \<Rightarrow> missing_output_slot \<Rightarrow> expected_artifact option" where
  "rebind_expected basis slot =
     (case List.find (\<lambda>out. oc_name out = ms_output_name slot) (er_declared_outputs basis) of
        None \<Rightarrow> None
      | Some declared \<Rightarrow>
          Some \<lparr>ea_unit_id = (case ms_collection_key slot of None \<Rightarrow> er_unit_id basis | Some key \<Rightarrow> key),
                ea_output_name = ms_output_name slot, ea_artifact_type = oc_artifact_type declared\<rparr>)"

fun rebind_all :: "execution_request \<Rightarrow> missing_output_slot list \<Rightarrow> expected_artifact list option" where
  "rebind_all basis [] = Some []"
| "rebind_all basis (slot # slots) =
     (case rebind_expected basis slot of
        None \<Rightarrow> None
      | Some e \<Rightarrow> (case rebind_all basis slots of None \<Rightarrow> None | Some es \<Rightarrow> Some (e # es)))"

definition rebindWorkOrderPublication ::
    "runtime_env \<Rightarrow> execution_request \<Rightarrow> string \<Rightarrow> string \<Rightarrow> missing_output_slot list \<Rightarrow> (execution_request \<times> string) option" where
  "rebindWorkOrderPublication env basis work_order_id seed missing =
     (case er_resolved_config basis of
        JObj config \<Rightarrow>
          (case obj_get config ''publication'' of
             Some (JObj publication) \<Rightarrow>
               (case rebind_all basis missing of
                  None \<Rightarrow> None
                | Some expected \<Rightarrow>
                    (let capability = capabilityFor env seed work_order_id
                     in Some (basis\<lparr>er_execution_id := work_order_id,
                          er_resolved_config := JObj (obj_set ''publication''
                            (JObj (obj_set ''capability'' (JStr capability) (obj_set ''work_order_id'' (JStr work_order_id) publication))) config),
                          er_expected_artifacts := expected\<rparr>,
                          capabilityHash env capability)))
           | _ \<Rightarrow> None)
      | _ \<Rightarrow> None)"

section \<open>Publication commands\<close>

record publish_command =
  pc_work_order_id :: string
  pc_capability :: string
  pc_output_name :: string
  pc_collection_key :: "string option"
  pc_body :: json
  pc_idempotency_key :: "string option"

record publish_request =
  pr_artifact_id :: string
  pr_work_order_id :: string
  pr_capability_hash :: string
  pr_output_name :: string
  pr_collection_key :: "string option"
  pr_body :: json
  pr_idempotency_key :: string
  pr_payload_hash :: string
  pr_published_at :: string

text \<open>The request \<open>publishWorkOrderArtifact\<close> passes on, given the fresh artifact id and the time.\<close>

definition publishWorkOrderArtifact :: "runtime_env \<Rightarrow> publish_command \<Rightarrow> string \<Rightarrow> string \<Rightarrow> publish_request" where
  "publishWorkOrderArtifact env command artifact_id now =
     (let payloadHash = sha256_hex env (json_stringify (pc_body command))
      in \<lparr>pr_artifact_id = artifact_id, pr_work_order_id = pc_work_order_id command,
          pr_capability_hash = sha256_hex env (pc_capability command), pr_output_name = pc_output_name command,
          pr_collection_key = pc_collection_key command, pr_body = pc_body command,
          pr_idempotency_key = (case pc_idempotency_key command of Some k \<Rightarrow> k | None \<Rightarrow> payloadHash),
          pr_payload_hash = payloadHash, pr_published_at = now\<rparr>)"

section \<open>Properties\<close>

lemma rebind_all_Some:
  "rebind_all basis slots = Some es \<Longrightarrow> list_all2 (\<lambda>slot e. rebind_expected basis slot = Some e) slots es"
  by (induction slots arbitrary: es) (auto split: option.splits)

text \<open>The publication authority a resolved configuration carries.\<close>

definition publication_of :: "json \<Rightarrow> (string \<times> string) option" where
  "publication_of config =
     (case (as_string (readJsonPointer config ''/publication/work_order_id''), as_string (readJsonPointer config ''/publication/capability'')) of
        (Some w, Some c) \<Rightarrow> Some (w, c)
      | _ \<Rightarrow> None)"

lemma pointer_publication:
  assumes "CHR ''~'' \<notin> set k" "CHR ''/'' \<notin> set k"
  shows "readJsonPointer (JObj config) (''/publication/'' @ k) = pointer_step (index_object config ''publication'') k"
proof -
  have "escape_segment k = k" using assms by (induction k) (auto simp: escape_segment_def)
  moreover have "escape_segment ''publication'' = ''publication''" by code_simp
  ultimately have "''/publication/'' @ k = pointer_to [''publication'', k]" by (simp add: pointer_to_def)
  then show ?thesis by (simp add: readJsonPointer_pointer_to)
qed

lemma publication_of_JObj:
  assumes "obj_get config ''publication'' = Some (JObj p)" "obj_get p ''work_order_id'' = Some (JStr w)"
    "obj_get p ''capability'' = Some (JStr c)"
  shows "publication_of (JObj config) = Some (w, c)"
  using assms pointer_publication [of "''work_order_id''" config] pointer_publication [of "''capability''" config]
  by (simp add: publication_of_def index_object_def)

lemma provisioning_publication: "publication_of (provisioning_config_json out r b w c) = Some (w, c)"
  unfolding provisioning_config_json_def
  by (rule publication_of_JObj [where p = "[(''work_order_id'', JStr w), (''capability'', JStr c)]"]) (simp_all add: obj_get_def)

lemma delegated_publication: "publication_of (delegated_config_json planned u w c) = Some (w, c)"
  unfolding delegated_config_json_def
  by (rule publication_of_JObj [where p = "[(''base_url'', JStr u), (''work_order_id'', JStr w), (''capability'', JStr c)]"])
    (simp_all add: obj_get_def map_add_def split: option.splits)

lemma resolve_delegated_form:
  assumes "resolve_delegated env deps inp d w c = Inr resolved"
  shows "\<exists>planned u. resolved = delegated_config_json planned u w c"
proof -
  obtain template where "load_prompt_template deps (dc_prompt_template_path d) = Inr template"
    using assms by (auto simp: resolve_delegated_def Let_def)
  with assms show ?thesis unfolding resolve_delegated_def Let_def
    by (simp split: sum.split_asm option.split_asm) blast+
qed

lemma resolve_provisioning_form:
  assumes "resolve_provisioning inp w c = Inr resolved"
  shows "\<exists>out r b. resolved = provisioning_config_json out r b w c"
  using assms unfolding resolve_provisioning_def
  by (simp split: sum.split_asm list.split_asm definition_config.split_asm) blast

lemma resolve_config_publication:
  assumes "resolve_config env deps inp w c = Inr (resolved, source)"
  shows "publication_of resolved = Some (w, c)"
  using assms unfolding resolve_config_def
  by (auto split: if_splits definition_config.splits dest!: resolve_delegated_form resolve_provisioning_form
      simp: provisioning_publication delegated_publication)

text \<open>
  Publication authority is minted per work order. The request a new work order resolves to,
  and the request a retry rebinds, name that order as the execution id and as the
  publication target, and carry exactly the capability whose hash the order is stored with;
  a rebound request keeps everything else of its basis and expects exactly the outputs still
  missing.
\<close>
theorem work_order_authority:
  assumes "resolveWorkOrder env deps inp = Inr order"
    and "rebindWorkOrderPublication env (mw_request order) new_id seed missing = Some (request, hash)"
  shows "er_execution_id (mw_request order) = mw_id order \<and>
    publication_of (er_resolved_config (mw_request order)) = Some (mw_id order, capabilityFor env (rw_capability_seed inp) (mw_id order)) \<and>
    mw_capability_hash order = capabilityHash env (capabilityFor env (rw_capability_seed inp) (mw_id order)) \<and>
    er_execution_id request = new_id \<and>
    publication_of (er_resolved_config request) = Some (new_id, capabilityFor env seed new_id) \<and>
    hash = capabilityHash env (capabilityFor env seed new_id) \<and>
    list_all2 (\<lambda>slot e. rebind_expected (mw_request order) slot = Some e) missing (er_expected_artifacts request) \<and>
    er_inputs request = er_inputs (mw_request order) \<and> er_unit_id request = er_unit_id (mw_request order) \<and>
    er_stage_instance_id request = er_stage_instance_id (mw_request order) \<and>
    er_executor_type request = er_executor_type (mw_request order)"
proof -
  let ?id = "mw_id order" and ?cap = "capabilityFor env (rw_capability_seed inp) (mw_id order)"
  from assms(1) obtain resolved source where
      order: "er_execution_id (mw_request order) = ?id" "mw_capability_hash order = capabilityHash env ?cap"
        "er_resolved_config (mw_request order) = resolved"
    and res: "resolve_config env deps inp ?id ?cap = Inr (resolved, source)"
    by (auto simp: resolveWorkOrder_def executionRequest_def Let_def)
  note first = resolve_config_publication [OF res]
  obtain config publication where config: "er_resolved_config (mw_request order) = JObj config"
      "obj_get config ''publication'' = Some (JObj publication)"
    and request: "request = (mw_request order)\<lparr>er_execution_id := new_id,
        er_resolved_config := JObj (obj_set ''publication''
          (JObj (obj_set ''capability'' (JStr (capabilityFor env seed new_id)) (obj_set ''work_order_id'' (JStr new_id) publication))) config),
        er_expected_artifacts := er_expected_artifacts request\<rparr>"
    and hash: "hash = capabilityHash env (capabilityFor env seed new_id)"
    and all: "rebind_all (mw_request order) missing = Some (er_expected_artifacts request)"
    using assms(2) by (auto simp: rebindWorkOrderPublication_def Let_def split: json.splits option.splits)
  have second: "publication_of (er_resolved_config request) = Some (new_id, capabilityFor env seed new_id)"
    by (subst request, simp, rule publication_of_JObj) (auto simp: obj_get_set)
  have "er_execution_id request = new_id" "er_inputs request = er_inputs (mw_request order)"
    "er_unit_id request = er_unit_id (mw_request order)" "er_stage_instance_id request = er_stage_instance_id (mw_request order)"
    "er_executor_type request = er_executor_type (mw_request order)"
    by (subst request, simp)+
  then show ?thesis
    using order first hash second rebind_all_Some [OF all] by simp
qed

definition sample_dependencies :: resolver_dependencies where
  "sample_dependencies = \<lparr>load_prompt_template = (\<lambda>_. Inr ''do it''), find_work_order_attachment = (\<lambda>_. None)\<rparr>"

definition sample_order_input :: resolve_work_order_input where
  "sample_order_input =
     \<lparr>rw_run_id = ''r'', rw_stage = sample_stage, rw_stage_instance_id = ''si'',
      rw_unit = \<lparr>eu_unit_id = ''0'', eu_parameters = JObj [], eu_depends_on = []\<rparr>, rw_inputs = [],
      rw_context = JObj [(''oakridge_url'', JStr ''u''), (''workdir'', JStr ''w'')],
      rw_outputs = [\<lparr>mo_identity = ScalarSlot ''spec'', mo_artifact_type = ''t'', mo_required = True, mo_release = Immediate\<rparr>],
      rw_identity = ''initial'', rw_capability_seed = ''seed''\<rparr>"

definition sample_work_order :: materialized_work_order where
  "sample_work_order = projr (resolveWorkOrder sample_env sample_dependencies sample_order_input)"

definition sample_missing :: "missing_output_slot list" where
  "sample_missing = [\<lparr>ms_output_name = ''spec'', ms_collection_key = None\<rparr>]"

lemma sample_order_resolves: "resolveWorkOrder sample_env sample_dependencies sample_order_input = Inr sample_work_order"
  by code_simp

definition sample_rebound :: "execution_request \<times> string" where
  "sample_rebound = the (rebindWorkOrderPublication sample_env (mw_request sample_work_order) ''new'' ''seed'' sample_missing)"

lemma sample_rebinds:
  "rebindWorkOrderPublication sample_env (mw_request sample_work_order) ''new'' ''seed'' sample_missing =
     Some (fst sample_rebound, snd sample_rebound)"
  by code_simp

theorem work_order_authority_witness:
  "publication_of (er_resolved_config (fst sample_rebound)) = Some (''new'', capabilityFor sample_env ''seed'' ''new'') \<and>
   er_execution_id (mw_request sample_work_order) = mw_id sample_work_order"
  using work_order_authority [OF sample_order_resolves sample_rebinds] by simp

end
