(* ===== verification/Tracker.thy ===== *)
theory Tracker
  imports Prelude
begin

text \<open>
  The task tracker of kbbl (\<open>src/kbbl/core\<close>): its tables (\<open>db/migrations\<close>, row types of
  \<open>types/task-tracker.ts\<close>), the status machines of \<open>orchestrator/state-machine.ts\<close> and
  \<open>orchestrator/epic-state-machine.ts\<close>, and the queries and updates of \<open>db\<close> and \<open>review\<close>.

  \<^item> A table is the list of its rows in \<open>rowid\<close> order: \<open>INSERT\<close> appends, \<open>UPDATE ... WHERE\<close> maps,
    \<open>SELECT\<close> filters, \<open>ORDER BY\<close> is a stable sort; a query without \<open>ORDER BY\<close> reads in \<open>rowid\<close> order.
  \<^item> An \<open>INSERT\<close> that violates a constraint is \<open>Inl\<close> of the message the handlers test for. CHECK
    constraints that the argument types already guarantee are not repeated.
  \<^item> Columns that hold JSON text are kept as the value \<open>JSON.parse\<close> gives back for them.
  \<^item> Random identifiers and \<open>strftime('now')\<close> are arguments; statement times are ISO text.
\<close>

section \<open>The status machines\<close>

datatype cohort_status =
    CohortWaiting | CohortPlanned | CohortBriefing | CohortBriefReview | CohortBuilding
  | CohortReadyToBuild | CohortAwaitingMerge | CohortDone | CohortBlocked

datatype cohort_event =
    DependenciesMet | BriefingStarted | BriefSubmitted | BriefReopened | BriefApproved | BriefRejected
  | BuildCompleted | PrMergedEvent | BlockEvent | UnblockEvent | PlanApproved | BriefApprovedDepsMet
  | BriefApprovedDepsPending | PrOpenedEvent

datatype plan_status = PlanDraft | PlanPendingApproval | PlanApprovedSt | PlanRejectedSt | PlanSuperseded
datatype plan_event = PlanSubmit | PlanApprove | PlanReject | PlanSupersede
datatype brief_status = BriefPendingApproval | BriefApprovedSt | BriefRejectedSt | BriefSuperseded
datatype brief_event = BriefApprove | BriefReject | BriefSupersede

fun cohort_status_name :: "cohort_status \<Rightarrow> string" where
  "cohort_status_name CohortWaiting = ''waiting''"
| "cohort_status_name CohortPlanned = ''planned''"
| "cohort_status_name CohortBriefing = ''briefing''"
| "cohort_status_name CohortBriefReview = ''brief_review''"
| "cohort_status_name CohortBuilding = ''building''"
| "cohort_status_name CohortReadyToBuild = ''ready_to_build''"
| "cohort_status_name CohortAwaitingMerge = ''awaiting_merge''"
| "cohort_status_name CohortDone = ''done''"
| "cohort_status_name CohortBlocked = ''blocked''"

fun cohort_event_name :: "cohort_event \<Rightarrow> string" where
  "cohort_event_name DependenciesMet = ''dependencies_met''"
| "cohort_event_name BriefingStarted = ''briefing_started''"
| "cohort_event_name BriefSubmitted = ''brief_submitted''"
| "cohort_event_name BriefReopened = ''brief_reopened''"
| "cohort_event_name BriefApproved = ''brief_approved''"
| "cohort_event_name BriefRejected = ''brief_rejected''"
| "cohort_event_name BuildCompleted = ''build_completed''"
| "cohort_event_name PrMergedEvent = ''pr_merged''"
| "cohort_event_name BlockEvent = ''block''"
| "cohort_event_name UnblockEvent = ''unblock''"
| "cohort_event_name PlanApproved = ''plan_approved''"
| "cohort_event_name BriefApprovedDepsMet = ''brief_approved_deps_met''"
| "cohort_event_name BriefApprovedDepsPending = ''brief_approved_deps_pending''"
| "cohort_event_name PrOpenedEvent = ''pr_opened''"

fun COHORT_TRANSITIONS :: "cohort_status \<Rightarrow> (cohort_event \<times> cohort_status) list" where
  "COHORT_TRANSITIONS CohortWaiting = [(DependenciesMet, CohortPlanned), (PlanApproved, CohortBriefing), (BlockEvent, CohortBlocked)]"
| "COHORT_TRANSITIONS CohortPlanned = [(BriefingStarted, CohortBriefing), (BlockEvent, CohortBlocked)]"
| "COHORT_TRANSITIONS CohortBriefing = [(BriefSubmitted, CohortBriefReview), (BlockEvent, CohortBlocked)]"
| "COHORT_TRANSITIONS CohortBriefReview = [(BriefApproved, CohortBuilding), (BriefReopened, CohortBriefing), (BriefRejected, CohortBriefing), (BriefApprovedDepsMet, CohortBuilding), (BriefApprovedDepsPending, CohortReadyToBuild), (BlockEvent, CohortBlocked)]"
| "COHORT_TRANSITIONS CohortBuilding = [(BuildCompleted, CohortDone), (PrMergedEvent, CohortDone), (PrOpenedEvent, CohortAwaitingMerge), (BlockEvent, CohortBlocked)]"
| "COHORT_TRANSITIONS CohortReadyToBuild = [(DependenciesMet, CohortBuilding), (BlockEvent, CohortBlocked)]"
| "COHORT_TRANSITIONS CohortAwaitingMerge = [(PrMergedEvent, CohortDone), (BlockEvent, CohortBlocked)]"
| "COHORT_TRANSITIONS CohortDone = [(BlockEvent, CohortBlocked)]"
| "COHORT_TRANSITIONS CohortBlocked = []"

fun PLAN_TRANSITIONS :: "plan_status \<Rightarrow> (plan_event \<times> plan_status) list" where
  "PLAN_TRANSITIONS PlanDraft = [(PlanSubmit, PlanPendingApproval)]"
| "PLAN_TRANSITIONS PlanPendingApproval = [(PlanApprove, PlanApprovedSt), (PlanReject, PlanRejectedSt)]"
| "PLAN_TRANSITIONS PlanApprovedSt = [(PlanSupersede, PlanSuperseded)]"
| "PLAN_TRANSITIONS PlanRejectedSt = [(PlanSupersede, PlanSuperseded)]"
| "PLAN_TRANSITIONS PlanSuperseded = []"

fun BRIEF_TRANSITIONS :: "brief_status \<Rightarrow> (brief_event \<times> brief_status) list" where
  "BRIEF_TRANSITIONS BriefPendingApproval = [(BriefApprove, BriefApprovedSt), (BriefReject, BriefRejectedSt)]"
| "BRIEF_TRANSITIONS BriefApprovedSt = [(BriefSupersede, BriefSuperseded)]"
| "BRIEF_TRANSITIONS BriefRejectedSt = [(BriefSupersede, BriefSuperseded)]"
| "BRIEF_TRANSITIONS BriefSuperseded = []"

definition applyCohortTransition ::
    "cohort_status \<Rightarrow> cohort_event \<Rightarrow> cohort_status option \<Rightarrow> string + cohort_status" where
  "applyCohortTransition current event preBlockStatus =
     (if event = UnblockEvent then
        (if current \<noteq> CohortBlocked
         then Inl (''cannot unblock from '' @ cohort_status_name current @ '': cohort is not blocked'')
         else case preBlockStatus of
                None \<Rightarrow> Inl ''no pre_block_status recorded; cannot restore prior state''
              | Some prior \<Rightarrow> Inr prior)
      else case map_of (COHORT_TRANSITIONS current) event of
             None \<Rightarrow> Inl (''no transition from '' @ sq (cohort_status_name current) @ '' via '' @ sq (cohort_event_name event))
           | Some next \<Rightarrow> Inr next)"

datatype epic_status = EpicStPending | EpicStActive | EpicStComplete | EpicStArchived
datatype epic_stage = StageSpec | StagePlan | StageBuild | StageAssess
datatype epic_stage_event = EpicSpecApproved | EpicPlanApproved | EpicBuildDone | EpicAssessDone
datatype epic_lifecycle_event = EpicStart | EpicArchive | EpicUnarchive | EpicComplete
datatype epic_event = StageEvent epic_stage_event | LifecycleEvent epic_lifecycle_event

record epic_state =
  es_status :: epic_status
  es_stage :: epic_stage

fun EPIC_STAGE_TRANSITIONS :: "epic_stage \<Rightarrow> (epic_stage_event \<times> epic_stage) list" where
  "EPIC_STAGE_TRANSITIONS StageSpec = [(EpicSpecApproved, StagePlan)]"
| "EPIC_STAGE_TRANSITIONS StagePlan = [(EpicPlanApproved, StageBuild)]"
| "EPIC_STAGE_TRANSITIONS StageBuild = [(EpicBuildDone, StageAssess)]"
| "EPIC_STAGE_TRANSITIONS StageAssess = [(EpicAssessDone, StageAssess)]"

fun EPIC_LIFECYCLE_TRANSITIONS :: "epic_status \<Rightarrow> (epic_lifecycle_event \<times> epic_status) list" where
  "EPIC_LIFECYCLE_TRANSITIONS EpicStPending = [(EpicStart, EpicStActive), (EpicArchive, EpicStArchived)]"
| "EPIC_LIFECYCLE_TRANSITIONS EpicStActive = [(EpicArchive, EpicStArchived), (EpicComplete, EpicStComplete)]"
| "EPIC_LIFECYCLE_TRANSITIONS EpicStComplete = [(EpicArchive, EpicStArchived)]"
| "EPIC_LIFECYCLE_TRANSITIONS EpicStArchived = [(EpicUnarchive, EpicStPending)]"

text \<open>\<open>None\<close> is the thrown \<open>InvalidTransitionError\<close>.\<close>

definition applyEpicTransition :: "epic_state \<Rightarrow> epic_event \<Rightarrow> epic_state option" where
  "applyEpicTransition current event =
     (case event of
        StageEvent e \<Rightarrow> map_option (\<lambda>stage. current\<lparr>es_stage := stage\<rparr>) (map_of (EPIC_STAGE_TRANSITIONS (es_stage current)) e)
      | LifecycleEvent e \<Rightarrow> map_option (\<lambda>status. current\<lparr>es_status := status\<rparr>) (map_of (EPIC_LIFECYCLE_TRANSITIONS (es_status current)) e))"

section \<open>Rows\<close>

datatype spec_internal_status = SpecAnalyzing | SpecDiscrepancies | SpecReview | SpecApprovedSt
datatype discrepancy_status = DiscOpen | DiscResolved | DiscWaived

record kproject =
  kj_id :: string
  kj_name :: string
  kj_repo_path :: string
  kj_created_at :: string

record kspec =
  ks_id :: string
  ks_project_id :: string
  ks_title :: string
  ks_notes :: "string option"
  ks_session_ref :: "string option"
  ks_session_stage :: "string option"
  ks_submitted_notes :: "string option"
  ks_final_notes :: "string option"
  ks_internal_status :: spec_internal_status
  ks_created_at :: string

record kplan =
  kp_id :: string
  kp_spec_id :: string
  kp_status :: plan_status
  kp_predecessor :: "string option"
  kp_model :: "string option"
  kp_rejection_reason :: "string option"
  kp_session_ref :: "string option"
  kp_session_stage :: "string option"
  kp_created_at :: string

record kcohort =
  kc_id :: string
  kc_plan_id :: string
  kc_title :: string
  kc_notes :: "string option"
  kc_position :: int
  kc_status :: cohort_status
  kc_pre_block_status :: "cohort_status option"
  kc_session_ref :: "string option"
  kc_session_stage :: "string option"
  kc_created_at :: string

record kdependency =
  kd_id :: string
  kd_from :: string
  kd_to :: string

record kdeviation =
  dv_from :: string
  dv_actual :: string
  dv_downstream_impact :: string

record kbrief =
  kb_id :: string
  kb_cohort_id :: string
  kb_status :: brief_status
  kb_predecessor :: "string option"
  kb_model :: "string option"
  kb_goal :: string
  kb_files_in_scope :: "string list"
  kb_decisions_made :: "(string \<times> string) list"
  kb_approaches_rejected :: "(string \<times> string) list"
  kb_next_action :: string
  kb_debrief :: "string option"
  kb_pr_url :: "string option"
  kb_rejection_reason :: "string option"
  kb_deviations :: "kdeviation list option"
  kb_created_at :: string

record kassessment =
  ka_id :: string
  ka_plan_id :: string
  ka_summary :: string
  ka_catalog :: "(string \<times> string \<times> kdeviation list) list"
  ka_gap_analysis :: string
  ka_fix_plan :: string
  ka_model :: "string option"
  ka_created_at :: string

record model_selection =
  ms_runtime :: string
  ms_model :: string
  ms_effort :: "string option"

record kepic =
  ke_id :: string
  ke_spec_id :: string
  ke_project_id :: string
  ke_title :: string
  ke_status :: epic_status
  ke_stage :: epic_stage
  ke_planner :: model_selection
  ke_worker :: model_selection
  ke_created_at :: string

record kdiscrepancy =
  kx_id :: string
  kx_spec_id :: string
  kx_spec_assumption :: string
  kx_code_reality :: string
  kx_resolution :: "string option"
  kx_status :: discrepancy_status
  kx_created_at :: string

datatype dispatch_status = Dispatching | Running | DispatchFailed | DispatchSucceeded | DispatchCancelled
datatype entity_kind = EntitySpec | EntityCohort | EntityBrief | EntityPlan

record kattempt =
  da_id :: string
  da_entity_kind :: entity_kind
  da_entity_id :: string
  da_stage :: string
  da_epic_id :: "string option"
  da_cohort_id :: "string option"
  da_attempt_number :: nat
  da_status :: dispatch_status
  da_intended_ref :: "string option"
  da_actual_ref :: "string option"
  da_branch_name :: "string option"
  da_worktree_path :: "string option"
  da_predecessor :: "string option"
  da_last_error :: "string option"
  da_recovery_hint :: "string option"
  da_created_at :: string
  da_updated_at :: string

record kthread =
  kt_id :: string
  kt_target_type :: string
  kt_target_id :: string
  kt_anchor :: "string option"
  kt_resolved :: bool
  kt_author :: "string option"
  kt_created_at :: string

record kmessage =
  km_id :: string
  km_thread_id :: string
  km_author :: string
  km_body :: string
  km_created_at :: string

record kedit =
  kd_edit_id :: string
  kd_target_type :: string
  kd_target_id :: string
  kd_anchor :: "string option"
  kd_prior_value :: "string option"
  kd_new_value :: string
  kd_author :: string
  kd_edited_at :: string

record tracker =
  tk_projects :: "kproject list"
  tk_specs :: "kspec list"
  tk_epics :: "kepic list"
  tk_discrepancies :: "kdiscrepancy list"
  tk_plans :: "kplan list"
  tk_cohorts :: "kcohort list"
  tk_dependencies :: "kdependency list"
  tk_briefs :: "kbrief list"
  tk_assessments :: "kassessment list"
  tk_frozen :: "(string \<times> string) list"
  tk_attempts :: "kattempt list"
  tk_threads :: "kthread list"
  tk_messages :: "kmessage list"
  tk_edits :: "kedit list"

section \<open>Constraint failures\<close>

definition unique_failed :: string where "unique_failed = ''UNIQUE constraint failed''"
definition check_failed :: string where "check_failed = ''CHECK constraint failed''"
definition foreign_key_failed :: string where "foreign_key_failed = ''FOREIGN KEY constraint failed''"

text \<open>\<open>ORDER BY key DESC LIMIT 1\<close>.\<close>

definition latest_by :: "('a \<Rightarrow> 'b::linorder) \<Rightarrow> 'a list \<Rightarrow> 'a option" where
  "latest_by key rows = (case sort_key key rows of [] \<Rightarrow> None | r # rs \<Rightarrow> Some (last (r # rs)))"

lemma latest_by_SomeD:
  assumes "latest_by key rows = Some r"
  shows "r \<in> set rows" and "\<And>x. x \<in> set rows \<Longrightarrow> key x \<le> key r"
proof -
  from assms have r: "r = last (sort_key key rows)" and ne: "sort_key key rows \<noteq> []"
    by (auto simp: latest_by_def split: list.splits)
  show "r \<in> set rows" using last_in_set [OF ne] r by simp
  fix x assume "x \<in> set rows"
  then have "x \<in> set (sort_key key rows)" by simp
  moreover have "sort_key key rows = butlast (sort_key key rows) @ [r]" using ne r by simp
  moreover have "sorted (map key (sort_key key rows))" by simp
  ultimately have "sorted (map key (butlast (sort_key key rows) @ [r]))"
    and "x \<in> set (butlast (sort_key key rows)) \<or> x = r"
    by (metis, metis in_set_conv_decomp rotate1.simps(2) set_ConsD set_rotate1)
  then show "key x \<le> key r" by (auto simp: sorted_append)
qed

lemma latest_by_None [simp]: "latest_by key rows = None \<longleftrightarrow> rows = []"
proof -
  have "sort_key key rows = [] \<longleftrightarrow> rows = []"
    by (metis length_0_conv length_sort)
  then show ?thesis by (auto simp: latest_by_def split: list.splits)
qed

end
