(* ===== verification/TrackerDb.thy ===== *)
theory TrackerDb
  imports Tracker
begin

text \<open>
  The queries and updates of kbbl's \<open>db\<close> and \<open>review\<close> directories over the tables of \<^typ>\<open>tracker\<close>:
  projects, specs and discrepancies, epics, plans, cohorts and their dependencies, briefs,
  assessments, frozen artifacts, comment threads and atom edits.
\<close>

section \<open>Projects, specs and discrepancies\<close>

definition getProject :: "tracker \<Rightarrow> string \<Rightarrow> kproject option" where
  "getProject db i = List.find (\<lambda>r. kj_id r = i) (tk_projects db)"

definition insertProject :: "string \<Rightarrow> string \<Rightarrow> string \<Rightarrow> string \<Rightarrow> tracker \<Rightarrow> string + kproject \<times> tracker" where
  "insertProject now i name path db =
     (if list_ex (\<lambda>r. kj_id r = i \<or> kj_repo_path r = path) (tk_projects db) then Inl unique_failed
      else let row = \<lparr>kj_id = i, kj_name = name, kj_repo_path = path, kj_created_at = now\<rparr>
           in Inr (row, db\<lparr>tk_projects := tk_projects db @ [row]\<rparr>))"

definition listProjects :: "tracker \<Rightarrow> kproject list" where
  "listProjects db = sort_key (\<lambda>r. (kj_created_at r, kj_id r)) (tk_projects db)"

definition getSpec :: "tracker \<Rightarrow> string \<Rightarrow> kspec option" where
  "getSpec db i = List.find (\<lambda>r. ks_id r = i) (tk_specs db)"

definition insertSpec :: "string \<Rightarrow> string \<Rightarrow> string \<Rightarrow> string \<Rightarrow> string option \<Rightarrow> tracker \<Rightarrow> string + kspec \<times> tracker" where
  "insertSpec now i project_id title notes db =
     (if list_ex (\<lambda>r. ks_id r = i) (tk_specs db) then Inl unique_failed
      else if getProject db project_id = None then Inl foreign_key_failed
      else let row = \<lparr>ks_id = i, ks_project_id = project_id, ks_title = title, ks_notes = notes,
                 ks_session_ref = None, ks_session_stage = None, ks_submitted_notes = notes,
                 ks_final_notes = None, ks_internal_status = SpecAnalyzing, ks_created_at = now\<rparr>
           in Inr (row, db\<lparr>tk_specs := tk_specs db @ [row]\<rparr>))"

definition update_spec :: "string \<Rightarrow> (kspec \<Rightarrow> kspec) \<Rightarrow> tracker \<Rightarrow> tracker" where
  "update_spec i f db = db\<lparr>tk_specs := map (\<lambda>r. if ks_id r = i then f r else r) (tk_specs db)\<rparr>"

text \<open>A \<open>fields\<close> argument is one option per member: absent (\<open>undefined\<close>) is \<open>None\<close>.\<close>

definition updateSpecFields :: "string \<Rightarrow> string option \<Rightarrow> string option option \<Rightarrow> tracker \<Rightarrow> kspec option \<times> tracker" where
  "updateSpecFields i title notes db =
     (if title = None \<and> notes = None then (getSpec db i, db)
      else let db' = update_spec i (\<lambda>r. r\<lparr>ks_title := case_option (ks_title r) id title, ks_notes := case_option (ks_notes r) id notes\<rparr>) db
           in (getSpec db' i, db'))"

definition insertSpecDiscrepancy ::
    "string \<Rightarrow> string \<Rightarrow> string \<Rightarrow> string \<Rightarrow> string \<Rightarrow> string option \<Rightarrow> discrepancy_status \<Rightarrow> tracker \<Rightarrow> string + kdiscrepancy \<times> tracker" where
  "insertSpecDiscrepancy now i spec_id assumption reality resolution status db =
     (if list_ex (\<lambda>r. kx_id r = i) (tk_discrepancies db) then Inl unique_failed
      else if getSpec db spec_id = None then Inl foreign_key_failed
      else let row = \<lparr>kx_id = i, kx_spec_id = spec_id, kx_spec_assumption = assumption, kx_code_reality = reality,
                 kx_resolution = resolution, kx_status = status, kx_created_at = now\<rparr>
           in Inr (row, db\<lparr>tk_discrepancies := tk_discrepancies db @ [row]\<rparr>))"

definition getSpecDiscrepancy :: "tracker \<Rightarrow> string \<Rightarrow> kdiscrepancy option" where
  "getSpecDiscrepancy db i = List.find (\<lambda>r. kx_id r = i) (tk_discrepancies db)"

definition listSpecDiscrepancies :: "tracker \<Rightarrow> string \<Rightarrow> kdiscrepancy list" where
  "listSpecDiscrepancies db spec_id =
     sort_key (\<lambda>r. (kx_created_at r, kx_id r)) (filter (\<lambda>r. kx_spec_id r = spec_id) (tk_discrepancies db))"

definition countOpenDiscrepancies :: "tracker \<Rightarrow> string \<Rightarrow> nat" where
  "countOpenDiscrepancies db spec_id =
     length (filter (\<lambda>r. kx_spec_id r = spec_id \<and> kx_status r = DiscOpen) (tk_discrepancies db))"

definition listResolvedDiscrepanciesBySpec :: "tracker \<Rightarrow> string \<Rightarrow> kdiscrepancy list" where
  "listResolvedDiscrepanciesBySpec db spec_id =
     sort_key (\<lambda>r. (kx_created_at r, kx_id r))
       (filter (\<lambda>r. kx_spec_id r = spec_id \<and> kx_status r = DiscResolved) (tk_discrepancies db))"

abbreviation nl :: string where "nl \<equiv> [CHR 0x0A]"

definition amendment :: "nat \<times> kdiscrepancy \<Rightarrow> string" where
  "amendment ir =
     (case ir of (i, r) \<Rightarrow>
        js_join nl [''### '' @ nat_to_string (i + 1) @ ''. '' @ kx_spec_assumption r, '''',
          ''**Code reality:** '' @ kx_code_reality r, '''',
          ''**Resolution:** '' @ case_option ''(no resolution recorded)'' id (kx_resolution r)])"

definition renderSpecAmendments :: "kdiscrepancy list \<Rightarrow> string" where
  "renderSpecAmendments discrepancies =
     (let resolved = filter (\<lambda>d. kx_status d = DiscResolved) discrepancies
      in if resolved = [] then ''''
         else js_join nl ['''', '''', ''## Amendments (resolved discrepancies)'', '''',
           ''The assumptions below conflicted with the codebase and were resolved by the operator. Each resolution is a binding amendment to the spec above and overrides any conflicting text.'', '''',
           js_join (nl @ nl) (map amendment (enumerate 0 resolved))])"

definition updateSpecDiscrepancy :: "string \<Rightarrow> string option option \<Rightarrow> discrepancy_status option \<Rightarrow> tracker \<Rightarrow> kdiscrepancy option \<times> tracker" where
  "updateSpecDiscrepancy i resolution status db =
     (if resolution = None \<and> status = None then (getSpecDiscrepancy db i, db)
      else let db' = db\<lparr>tk_discrepancies := map (\<lambda>r. if kx_id r = i then r\<lparr>kx_resolution := case_option (kx_resolution r) id resolution,
                       kx_status := case_option (kx_status r) id status\<rparr> else r) (tk_discrepancies db)\<rparr>
           in (getSpecDiscrepancy db' i, db'))"

section \<open>Epics\<close>

definition getEpic :: "tracker \<Rightarrow> string \<Rightarrow> kepic option" where
  "getEpic db i = List.find (\<lambda>r. ke_id r = i) (tk_epics db)"

definition getEpicBySpec :: "tracker \<Rightarrow> string \<Rightarrow> kepic option" where
  "getEpicBySpec db spec_id = List.find (\<lambda>r. ke_spec_id r = spec_id) (tk_epics db)"

definition insertEpic ::
    "string \<Rightarrow> string \<Rightarrow> string \<Rightarrow> string \<Rightarrow> string \<Rightarrow> epic_status \<Rightarrow> epic_stage \<Rightarrow> model_selection \<Rightarrow> model_selection \<Rightarrow>
     tracker \<Rightarrow> string + kepic \<times> tracker" where
  "insertEpic now i spec_id project_id title status stage planner worker db =
     (if list_ex (\<lambda>r. ke_id r = i \<or> ke_spec_id r = spec_id) (tk_epics db) then Inl unique_failed
      else if getSpec db spec_id = None \<or> getProject db project_id = None then Inl foreign_key_failed
      else let row = \<lparr>ke_id = i, ke_spec_id = spec_id, ke_project_id = project_id, ke_title = title, ke_status = status,
                 ke_stage = stage, ke_planner = planner, ke_worker = worker, ke_created_at = now\<rparr>
           in Inr (row, db\<lparr>tk_epics := tk_epics db @ [row]\<rparr>))"

definition listEpicsByProject :: "tracker \<Rightarrow> string \<Rightarrow> epic_status option \<Rightarrow> kepic list" where
  "listEpicsByProject db project_id status =
     sort_key (\<lambda>r. (ke_created_at r, ke_id r))
       (filter (\<lambda>r. ke_project_id r = project_id \<and> (case status of None \<Rightarrow> True | Some s \<Rightarrow> ke_status r = s)) (tk_epics db))"

definition updateEpicFields :: "string \<Rightarrow> epic_status option \<Rightarrow> epic_stage option \<Rightarrow> tracker \<Rightarrow> kepic option \<times> tracker" where
  "updateEpicFields i status stage db =
     (if status = None \<and> stage = None then (getEpic db i, db)
      else let db' = db\<lparr>tk_epics := map (\<lambda>r. if ke_id r = i then r\<lparr>ke_status := case_option (ke_status r) id status,
                       ke_stage := case_option (ke_stage r) id stage\<rparr> else r) (tk_epics db)\<rparr>
           in (getEpic db' i, db'))"

definition is_stage_event :: "epic_event \<Rightarrow> bool" where
  "is_stage_event event = (case event of StageEvent e \<Rightarrow> True | LifecycleEvent e \<Rightarrow> False)"

text \<open>The state an epic moves to; \<open>None\<close> when \<open>applyEpicTransition\<close> throws.\<close>

definition advanced_epic :: "kepic \<Rightarrow> epic_event \<Rightarrow> epic_state option" where
  "advanced_epic epic event =
     map_option (\<lambda>next.
       let started = (if ke_status epic = EpicStPending \<and> is_stage_event event then EpicStActive else es_status next);
           final = (if event = StageEvent EpicAssessDone \<and> started = EpicStActive then EpicStComplete else started)
       in next\<lparr>es_status := final\<rparr>)
     (applyEpicTransition \<lparr>es_status = ke_status epic, es_stage = ke_stage epic\<rparr> event)"

text \<open>\<open>Inl\<close> when it throws; \<open>Inr None\<close> when there is no such epic.\<close>

definition advanceEpicByEvent :: "string \<Rightarrow> epic_event \<Rightarrow> tracker \<Rightarrow> unit + kepic option \<times> tracker" where
  "advanceEpicByEvent epic_id event db =
     (case getEpic db epic_id of
        None \<Rightarrow> Inr (None, db)
      | Some epic \<Rightarrow>
          (case advanced_epic epic event of
             None \<Rightarrow> Inl ()
           | Some next \<Rightarrow>
               Inr (updateEpicFields epic_id
                 (if es_status next \<noteq> ke_status epic then Some (es_status next) else None)
                 (if es_stage next \<noteq> ke_stage epic then Some (es_stage next) else None) db)))"

definition epic_isFrozen :: "tracker \<Rightarrow> string \<Rightarrow> bool" where
  "epic_isFrozen db epic_id \<longleftrightarrow> map_option ke_status (getEpic db epic_id) = Some EpicStArchived"

section \<open>Plans, cohorts and dependencies\<close>

definition getPlan :: "tracker \<Rightarrow> string \<Rightarrow> kplan option" where
  "getPlan db i = List.find (\<lambda>r. kp_id r = i) (tk_plans db)"

definition insertPlan :: "string \<Rightarrow> string \<Rightarrow> string \<Rightarrow> string option \<Rightarrow> string option \<Rightarrow> tracker \<Rightarrow> string + kplan \<times> tracker" where
  "insertPlan now i spec_id model predecessor db =
     (if list_ex (\<lambda>r. kp_id r = i) (tk_plans db) then Inl unique_failed
      else if getSpec db spec_id = None \<or> (case predecessor of None \<Rightarrow> False | Some p \<Rightarrow> getPlan db p = None) then Inl foreign_key_failed
      else let row = \<lparr>kp_id = i, kp_spec_id = spec_id, kp_status = PlanDraft, kp_predecessor = predecessor, kp_model = model,
                 kp_rejection_reason = None, kp_session_ref = None, kp_session_stage = None, kp_created_at = now\<rparr>
           in Inr (row, db\<lparr>tk_plans := tk_plans db @ [row]\<rparr>))"

definition update_plan :: "string \<Rightarrow> (kplan \<Rightarrow> kplan) \<Rightarrow> tracker \<Rightarrow> tracker" where
  "update_plan i f db = db\<lparr>tk_plans := map (\<lambda>r. if kp_id r = i then f r else r) (tk_plans db)\<rparr>"

definition listPlansBySpec :: "tracker \<Rightarrow> string \<Rightarrow> kplan list" where
  "listPlansBySpec db spec_id = sort_key (\<lambda>r. (kp_created_at r, kp_id r)) (filter (\<lambda>r. kp_spec_id r = spec_id) (tk_plans db))"

definition updatePlanFields :: "string \<Rightarrow> string option option \<Rightarrow> tracker \<Rightarrow> kplan option \<times> tracker" where
  "updatePlanFields i model db =
     (case model of
        None \<Rightarrow> (getPlan db i, db)
      | Some m \<Rightarrow> let db' = update_plan i (\<lambda>r. r\<lparr>kp_model := m\<rparr>) db in (getPlan db' i, db'))"

definition getCohort :: "tracker \<Rightarrow> string \<Rightarrow> kcohort option" where
  "getCohort db i = List.find (\<lambda>r. kc_id r = i) (tk_cohorts db)"

definition insertCohort :: "string \<Rightarrow> string \<Rightarrow> string \<Rightarrow> string \<Rightarrow> string option \<Rightarrow> int \<Rightarrow> tracker \<Rightarrow> string + kcohort \<times> tracker" where
  "insertCohort now i plan_id title notes position db =
     (if list_ex (\<lambda>r. kc_id r = i) (tk_cohorts db) then Inl unique_failed
      else if getPlan db plan_id = None then Inl foreign_key_failed
      else let row = \<lparr>kc_id = i, kc_plan_id = plan_id, kc_title = title, kc_notes = notes, kc_position = position,
                 kc_status = CohortWaiting, kc_pre_block_status = None, kc_session_ref = None, kc_session_stage = None,
                 kc_created_at = now\<rparr>
           in Inr (row, db\<lparr>tk_cohorts := tk_cohorts db @ [row]\<rparr>))"

definition listCohortsByPlan :: "tracker \<Rightarrow> string \<Rightarrow> kcohort list" where
  "listCohortsByPlan db plan_id =
     sort_key (\<lambda>r. (kc_position r, kc_id r)) (filter (\<lambda>r. kc_plan_id r = plan_id) (tk_cohorts db))"

definition update_cohort :: "string \<Rightarrow> (kcohort \<Rightarrow> kcohort) \<Rightarrow> tracker \<Rightarrow> tracker" where
  "update_cohort i f db = db\<lparr>tk_cohorts := map (\<lambda>r. if kc_id r = i then f r else r) (tk_cohorts db)\<rparr>"

definition updateCohortFields ::
    "string \<Rightarrow> string option \<Rightarrow> string option option \<Rightarrow> int option \<Rightarrow> tracker \<Rightarrow> kcohort option \<times> tracker" where
  "updateCohortFields i title notes position db =
     (if title = None \<and> notes = None \<and> position = None then (getCohort db i, db)
      else let db' = update_cohort i (\<lambda>r. r\<lparr>kc_title := case_option (kc_title r) id title, kc_notes := case_option (kc_notes r) id notes,
                       kc_position := case_option (kc_position r) id position\<rparr>) db
           in (getCohort db' i, db'))"

definition insertCohortDependency :: "string \<Rightarrow> string \<Rightarrow> string \<Rightarrow> tracker \<Rightarrow> string + kdependency \<times> tracker" where
  "insertCohortDependency i src dst db =
     (if src = dst then Inl check_failed
      else if list_ex (\<lambda>r. kd_id r = i \<or> kd_from r = src \<and> kd_to r = dst) (tk_dependencies db) then Inl unique_failed
      else if getCohort db src = None \<or> getCohort db dst = None then Inl foreign_key_failed
      else let row = \<lparr>kd_id = i, kd_from = src, kd_to = dst\<rparr>
           in Inr (row, db\<lparr>tk_dependencies := tk_dependencies db @ [row]\<rparr>))"

text \<open>The join of a dependency with the cohort it starts from, restricted to a plan.\<close>

definition from_in_plan :: "tracker \<Rightarrow> string \<Rightarrow> kdependency \<Rightarrow> bool" where
  "from_in_plan db plan_id d \<longleftrightarrow> map_option kc_plan_id (getCohort db (kd_from d)) = Some plan_id"

definition listDependenciesByPlan :: "tracker \<Rightarrow> string \<Rightarrow> kdependency list" where
  "listDependenciesByPlan db plan_id = filter (from_in_plan db plan_id) (tk_dependencies db)"

definition deleteCohortDependency :: "string \<Rightarrow> tracker \<Rightarrow> kdependency option \<times> tracker" where
  "deleteCohortDependency i db =
     (List.find (\<lambda>r. kd_id r = i) (tk_dependencies db),
      db\<lparr>tk_dependencies := filter (\<lambda>r. kd_id r \<noteq> i) (tk_dependencies db)\<rparr>)"

definition unmet :: "tracker \<Rightarrow> string \<Rightarrow> kdependency \<Rightarrow> bool" where
  "unmet db cohort_id d \<longleftrightarrow>
     kd_to d = cohort_id \<and> (case getCohort db (kd_from d) of None \<Rightarrow> False | Some c \<Rightarrow> kc_status c \<noteq> CohortDone)"

definition countUnmetDependencies :: "tracker \<Rightarrow> string \<Rightarrow> nat" where
  "countUnmetDependencies db cohort_id = length (filter (unmet db cohort_id) (tk_dependencies db))"

definition listDependenciesByCohort :: "tracker \<Rightarrow> string \<Rightarrow> kdependency list" where
  "listDependenciesByCohort db cohort_id =
     filter (\<lambda>d. kd_from d = cohort_id \<or> kd_to d = cohort_id) (tk_dependencies db)"

section \<open>Cohort transitions\<close>

datatype cohort_transition_result =
    TransitionOk kcohort cohort_status cohort_status
  | TransitionNotFound string cohort_event
  | TransitionInvalid string cohort_event cohort_status string

text \<open>The row a guarded update writes for an event.\<close>

definition transition_row :: "cohort_event \<Rightarrow> cohort_status \<Rightarrow> kcohort \<Rightarrow> kcohort" where
  "transition_row event next r =
     (if event = BlockEvent then r\<lparr>kc_status := CohortBlocked, kc_pre_block_status := Some (kc_status r)\<rparr>
      else if event = UnblockEvent then r\<lparr>kc_status := next, kc_pre_block_status := None\<rparr>
      else r\<lparr>kc_status := next\<rparr>)"

definition transitionCohortFromRow :: "kcohort \<Rightarrow> cohort_event \<Rightarrow> tracker \<Rightarrow> cohort_transition_result \<times> tracker" where
  "transitionCohortFromRow cohort event db =
     (let cohort_id = kc_id cohort
      in case applyCohortTransition (kc_status cohort) event (kc_pre_block_status cohort) of
           Inl detail \<Rightarrow> (TransitionInvalid cohort_id event (kc_status cohort) detail, db)
         | Inr next \<Rightarrow>
             (let guard = (\<lambda>r. kc_id r = cohort_id \<and> kc_status r = kc_status cohort \<and> kc_pre_block_status r = kc_pre_block_status cohort);
                  db' = db\<lparr>tk_cohorts := map (\<lambda>r. if guard r then transition_row event next r else r) (tk_cohorts db)\<rparr>
              in if \<not> list_ex guard (tk_cohorts db) then
                   (case getCohort db cohort_id of
                      None \<Rightarrow> (TransitionNotFound cohort_id event, db)
                    | Some latest \<Rightarrow>
                        (TransitionInvalid cohort_id event (kc_status latest)
                           (''cohort changed during transition; expected status='' @ cohort_status_name (kc_status cohort)
                            @ '', pre_block_status='' @ case_option ''null'' cohort_status_name (kc_pre_block_status cohort)), db))
                 else case getCohort db' cohort_id of
                        None \<Rightarrow> (TransitionNotFound cohort_id event, db')
                      | Some updated \<Rightarrow> (TransitionOk updated (kc_status cohort) next, db')))"

definition transitionCohort :: "string \<Rightarrow> cohort_event \<Rightarrow> tracker \<Rightarrow> cohort_transition_result \<times> tracker" where
  "transitionCohort cohort_id event db =
     (case getCohort db cohort_id of
        None \<Rightarrow> (TransitionNotFound cohort_id event, db)
      | Some cohort \<Rightarrow> transitionCohortFromRow cohort event db)"

section \<open>Briefs and assessments\<close>

record brief_payload =
  bp_goal :: string
  bp_files_in_scope :: "string list"
  bp_decisions_made :: "(string \<times> string) list"
  bp_approaches_rejected :: "(string \<times> string) list"
  bp_next_action :: string

definition getBrief :: "tracker \<Rightarrow> string \<Rightarrow> kbrief option" where
  "getBrief db i = List.find (\<lambda>r. kb_id r = i) (tk_briefs db)"

definition insertBrief :: "string \<Rightarrow> string \<Rightarrow> string \<Rightarrow> string option \<Rightarrow> string option \<Rightarrow> brief_payload \<Rightarrow> tracker \<Rightarrow> string + kbrief \<times> tracker" where
  "insertBrief now i cohort_id model predecessor payload db =
     (if list_ex (\<lambda>r. kb_id r = i) (tk_briefs db) then Inl unique_failed
      else if getCohort db cohort_id = None \<or> (case predecessor of None \<Rightarrow> False | Some p \<Rightarrow> getBrief db p = None) then Inl foreign_key_failed
      else let row = \<lparr>kb_id = i, kb_cohort_id = cohort_id, kb_status = BriefPendingApproval, kb_predecessor = predecessor,
                 kb_model = model, kb_goal = bp_goal payload, kb_files_in_scope = bp_files_in_scope payload,
                 kb_decisions_made = bp_decisions_made payload, kb_approaches_rejected = bp_approaches_rejected payload,
                 kb_next_action = bp_next_action payload, kb_debrief = None, kb_pr_url = None, kb_rejection_reason = None,
                 kb_deviations = None, kb_created_at = now\<rparr>
           in Inr (row, db\<lparr>tk_briefs := tk_briefs db @ [row]\<rparr>))"

definition update_brief :: "string \<Rightarrow> (kbrief \<Rightarrow> kbrief) \<Rightarrow> tracker \<Rightarrow> tracker" where
  "update_brief i f db = db\<lparr>tk_briefs := map (\<lambda>r. if kb_id r = i then f r else r) (tk_briefs db)\<rparr>"

definition brief_recency :: "kbrief \<Rightarrow> string \<times> string" where
  "brief_recency b = (kb_created_at b, kb_id b)"

definition getLatestBriefByCohort :: "tracker \<Rightarrow> string \<Rightarrow> kbrief option" where
  "getLatestBriefByCohort db cohort_id = latest_by brief_recency (filter (\<lambda>b. kb_cohort_id b = cohort_id) (tk_briefs db))"

definition getLatestApprovedBriefByCohort :: "tracker \<Rightarrow> string \<Rightarrow> kbrief option" where
  "getLatestApprovedBriefByCohort db cohort_id =
     latest_by brief_recency (filter (\<lambda>b. kb_cohort_id b = cohort_id \<and> kb_status b = BriefApprovedSt) (tk_briefs db))"

definition listBriefsByCohort :: "tracker \<Rightarrow> string \<Rightarrow> kbrief list" where
  "listBriefsByCohort db cohort_id = sort_key brief_recency (filter (\<lambda>b. kb_cohort_id b = cohort_id) (tk_briefs db))"

record brief_fields =
  bf_goal :: "string option"
  bf_files_in_scope :: "string list option"
  bf_decisions_made :: "(string \<times> string) list option"
  bf_approaches_rejected :: "(string \<times> string) list option"
  bf_next_action :: "string option"
  bf_model :: "string option option"

definition updateBriefFields :: "string \<Rightarrow> brief_fields \<Rightarrow> tracker \<Rightarrow> kbrief option \<times> tracker" where
  "updateBriefFields i fs db =
     (let db' = update_brief i (\<lambda>r. r\<lparr>
            kb_goal := case_option (kb_goal r) id (bf_goal fs),
            kb_files_in_scope := case_option (kb_files_in_scope r) id (bf_files_in_scope fs),
            kb_decisions_made := case_option (kb_decisions_made r) id (bf_decisions_made fs),
            kb_approaches_rejected := case_option (kb_approaches_rejected r) id (bf_approaches_rejected fs),
            kb_next_action := case_option (kb_next_action r) id (bf_next_action fs),
            kb_model := case_option (kb_model r) id (bf_model fs)\<rparr>) db
      in (getBrief db' i, db'))"

text \<open>\<open>COALESCE(?, column)\<close>.\<close>

definition coalesce :: "'a option \<Rightarrow> 'a option \<Rightarrow> 'a option" where
  "coalesce a b = (case a of None \<Rightarrow> b | Some x \<Rightarrow> Some x)"

definition updateBriefDebrief :: "string \<Rightarrow> string \<Rightarrow> string option \<Rightarrow> kdeviation list option \<Rightarrow> tracker \<Rightarrow> kbrief option \<times> tracker" where
  "updateBriefDebrief i debrief pr_url deviations db =
     (let db' = update_brief i (\<lambda>r. r\<lparr>kb_debrief := Some debrief, kb_pr_url := coalesce pr_url (kb_pr_url r),
                  kb_deviations := coalesce deviations (kb_deviations r)\<rparr>) db
      in (getBrief db' i, db'))"

definition insertAssessment ::
    "string \<Rightarrow> string \<Rightarrow> string \<Rightarrow> string \<Rightarrow> (string \<times> string \<times> kdeviation list) list \<Rightarrow> string \<Rightarrow> string \<Rightarrow> string option \<Rightarrow> tracker \<Rightarrow>
     string + kassessment \<times> tracker" where
  "insertAssessment now i plan_id summary catalog gap fix_plan model db =
     (if list_ex (\<lambda>r. ka_id r = i) (tk_assessments db) then Inl unique_failed
      else if getPlan db plan_id = None then Inl foreign_key_failed
      else let row = \<lparr>ka_id = i, ka_plan_id = plan_id, ka_summary = summary, ka_catalog = catalog, ka_gap_analysis = gap,
                 ka_fix_plan = fix_plan, ka_model = model, ka_created_at = now\<rparr>
           in Inr (row, db\<lparr>tk_assessments := tk_assessments db @ [row]\<rparr>))"

definition getAssessmentByPlan :: "tracker \<Rightarrow> string \<Rightarrow> kassessment option" where
  "getAssessmentByPlan db plan_id =
     latest_by (\<lambda>r. (ka_created_at r, ka_id r)) (filter (\<lambda>r. ka_plan_id r = plan_id) (tk_assessments db))"

section \<open>Archived epics\<close>

definition isSpecEpicArchived :: "tracker \<Rightarrow> string \<Rightarrow> bool" where
  "isSpecEpicArchived db spec_id = (case getEpicBySpec db spec_id of None \<Rightarrow> False | Some e \<Rightarrow> epic_isFrozen db (ke_id e))"

definition isPlanEpicArchived :: "tracker \<Rightarrow> string \<Rightarrow> bool" where
  "isPlanEpicArchived db plan_id = (case getPlan db plan_id of None \<Rightarrow> False | Some p \<Rightarrow> isSpecEpicArchived db (kp_spec_id p))"

text \<open>\<open>cohorts c JOIN plans p ON p.id = c.plan_id\<close>, then the epic of the plan's spec.\<close>

definition isCohortEpicArchived :: "tracker \<Rightarrow> string \<Rightarrow> bool" where
  "isCohortEpicArchived db cohort_id = (case getCohort db cohort_id of None \<Rightarrow> False | Some c \<Rightarrow> isPlanEpicArchived db (kc_plan_id c))"

definition isBriefEpicArchived :: "tracker \<Rightarrow> string \<Rightarrow> bool" where
  "isBriefEpicArchived db brief_id = (case getBrief db brief_id of None \<Rightarrow> False | Some b \<Rightarrow> isCohortEpicArchived db (kb_cohort_id b))"

section \<open>Reviews: frozen artifacts, threads, atom edits\<close>

datatype review_event = ArtifactFrozen string string | ArtifactReopened string string

definition artifact_isFrozen :: "tracker \<Rightarrow> string \<Rightarrow> string \<Rightarrow> bool" where
  "artifact_isFrozen db target_type target_id \<longleftrightarrow> (target_type, target_id) \<in> set (tk_frozen db)"

definition freeze :: "string \<Rightarrow> string \<Rightarrow> tracker \<Rightarrow> review_event list \<times> tracker" where
  "freeze target_type target_id db =
     (if (target_type, target_id) \<in> set (tk_frozen db) then ([], db)
      else ([ArtifactFrozen target_type target_id], db\<lparr>tk_frozen := tk_frozen db @ [(target_type, target_id)]\<rparr>))"

definition unfreeze :: "string \<Rightarrow> string \<Rightarrow> tracker \<Rightarrow> review_event list \<times> tracker" where
  "unfreeze target_type target_id db =
     (if (target_type, target_id) \<in> set (tk_frozen db)
      then ([ArtifactReopened target_type target_id], db\<lparr>tk_frozen := filter (\<lambda>t. t \<noteq> (target_type, target_id)) (tk_frozen db)\<rparr>)
      else ([], db))"

definition insertThread :: "string \<Rightarrow> string \<Rightarrow> string \<Rightarrow> string \<Rightarrow> string option \<Rightarrow> string option \<Rightarrow> tracker \<Rightarrow> string + kthread \<times> tracker" where
  "insertThread now i target_type target_id anchor author db =
     (if list_ex (\<lambda>r. kt_id r = i) (tk_threads db) then Inl unique_failed
      else let row = \<lparr>kt_id = i, kt_target_type = target_type, kt_target_id = target_id, kt_anchor = anchor,
                 kt_resolved = False, kt_author = author, kt_created_at = now\<rparr>
           in Inr (row, db\<lparr>tk_threads := tk_threads db @ [row]\<rparr>))"

definition getThread :: "tracker \<Rightarrow> string \<Rightarrow> kthread option" where
  "getThread db i = List.find (\<lambda>r. kt_id r = i) (tk_threads db)"

definition insertMessage :: "string \<Rightarrow> string \<Rightarrow> string \<Rightarrow> string \<Rightarrow> string \<Rightarrow> tracker \<Rightarrow> string + kmessage \<times> tracker" where
  "insertMessage now i thread_id author body db =
     (if list_ex (\<lambda>r. km_id r = i) (tk_messages db) then Inl unique_failed
      else if getThread db thread_id = None then Inl foreign_key_failed
      else let row = \<lparr>km_id = i, km_thread_id = thread_id, km_author = author, km_body = body, km_created_at = now\<rparr>
           in Inr (row, db\<lparr>tk_messages := tk_messages db @ [row]\<rparr>))"

definition updateThreadStatus :: "string \<Rightarrow> tracker \<Rightarrow> kthread option \<times> tracker" where
  "updateThreadStatus i db =
     (case List.find (\<lambda>r. kt_id r = i \<and> \<not> kt_resolved r) (tk_threads db) of
        None \<Rightarrow> (None, db)
      | Some r \<Rightarrow> (Some (r\<lparr>kt_resolved := True\<rparr>),
          db\<lparr>tk_threads := map (\<lambda>r. if kt_id r = i \<and> \<not> kt_resolved r then r\<lparr>kt_resolved := True\<rparr> else r) (tk_threads db)\<rparr>))"

text \<open>\<open>ORDER BY created_at DESC, rowid DESC LIMIT 1\<close>: the last row of the stable sort by time.\<close>

definition getLiveValue :: "tracker \<Rightarrow> string \<Rightarrow> string \<Rightarrow> string option \<Rightarrow> string option" where
  "getLiveValue db target_type target_id anchor =
     map_option kd_new_value (latest_by kd_edited_at
       (filter (\<lambda>e. kd_target_type e = target_type \<and> kd_target_id e = target_id \<and> kd_anchor e = anchor) (tk_edits db)))"

definition appendEdit ::
    "string \<Rightarrow> string \<Rightarrow> string \<Rightarrow> string \<Rightarrow> string option \<Rightarrow> string option \<Rightarrow> string \<Rightarrow> string \<Rightarrow> tracker \<Rightarrow> string + kedit \<times> tracker" where
  "appendEdit now i target_type target_id anchor prior new author db =
     (if list_ex (\<lambda>r. kd_edit_id r = i) (tk_edits db) then Inl unique_failed
      else let row = \<lparr>kd_edit_id = i, kd_target_type = target_type, kd_target_id = target_id, kd_anchor = anchor,
                 kd_prior_value = prior, kd_new_value = new, kd_author = author, kd_edited_at = now\<rparr>
           in Inr (row, db\<lparr>tk_edits := tk_edits db @ [row]\<rparr>))"

end
