(* ===== verification/CohortGraph.thy ===== *)
theory CohortGraph
  imports TrackerDb "HOL-Library.Multiset"
begin

text \<open>
  The dependency graph of a plan: the cycle check of \<open>db/cohort-graph.ts\<close> and the topological sort
  of \<open>orchestrator/backends/dispatcher.ts\<close>. Both are Kahn's algorithm; \<open>kahn_run\<close> is what they have in
  common, a queue from which any node may be taken next, and what it delivers is proved once.
\<close>

section \<open>JavaScript maps\<close>

type_synonym 'v js_map = "(string \<times> 'v) list"

text \<open>\<open>m.set(k, v)\<close>: an existing key keeps its place, a new one goes to the end.\<close>

definition js_map_set :: "string \<Rightarrow> 'v \<Rightarrow> 'v js_map \<Rightarrow> 'v js_map" where
  "js_map_set k v m =
     (if k \<in> fst ` set m then map (\<lambda>(k', v'). (k', if k' = k then v else v')) m else m @ [(k, v)])"

lemma map_of_js_map_set [simp]: "map_of (js_map_set k v m) = (map_of m)(k \<mapsto> v)"
proof -
  have "map_of (m @ [(k, v)]) = (map_of m)(k \<mapsto> v)" if "k \<notin> fst ` set m"
    using that map_of_eq_None_iff [of m k] by (auto simp: fun_eq_iff map_add_def split: option.splits)
  then show ?thesis by (auto simp: js_map_set_def map_of_replace)
qed

lemma keys_js_map_set [simp]: "fst ` set (js_map_set k v m) = insert k (fst ` set m)"
  by (force simp: js_map_set_def image_iff case_prod_beta split: if_splits)

lemma distinct_js_map_set: "distinct (map fst m) \<Longrightarrow> distinct (map fst (js_map_set k v m))"
  by (auto simp: js_map_set_def comp_def case_prod_beta)

definition degree_of :: "int js_map \<Rightarrow> string \<Rightarrow> int" where
  "degree_of deg n = case_option 0 id (map_of deg n)"

lemma degree_of_set [simp]: "degree_of (js_map_set k v deg) n = (if n = k then v else degree_of deg n)"
  by (simp add: degree_of_def)

section \<open>Kahn's algorithm as the code runs it\<close>

text \<open>The maps before the edges are counted: every node with in-degree 0 and no successor.\<close>

definition initial_degrees :: "string list \<Rightarrow> int js_map" where
  "initial_degrees ids = fold (\<lambda>i. js_map_set i 0) ids []"

definition initial_adjacency :: "string list \<Rightarrow> string list js_map" where
  "initial_adjacency ids = fold (\<lambda>i. js_map_set i []) ids []"

definition count_edge :: "string \<times> string \<Rightarrow> int js_map \<Rightarrow> int js_map" where
  "count_edge e deg = js_map_set (snd e) (degree_of deg (snd e) + 1) deg"

definition push_edge :: "string \<times> string \<Rightarrow> string list js_map \<Rightarrow> string list js_map" where
  "push_edge e adj = (case map_of adj (fst e) of None \<Rightarrow> adj | Some ns \<Rightarrow> js_map_set (fst e) (ns @ [snd e]) adj)"

definition successors :: "string list js_map \<Rightarrow> string \<Rightarrow> string list" where
  "successors adj n = case_option [] id (map_of adj n)"

text \<open>The inner loop: every successor loses one incoming edge, and joins the queue at zero.\<close>

fun relax :: "string list \<Rightarrow> int js_map \<Rightarrow> string list \<Rightarrow> int js_map \<times> string list" where
  "relax [] deg queue = (deg, queue)"
| "relax (neighbor # ns) deg queue =
     (let newDeg = degree_of deg neighbor - 1
      in relax ns (js_map_set neighbor newDeg deg) (if newDeg = 0 then queue @ [neighbor] else queue))"

definition positive :: "int js_map \<Rightarrow> nat" where
  "positive deg = card {k. 0 < degree_of deg k}"

lemma finite_positive: "finite {k. 0 < degree_of deg k}"
  by (rule finite_subset [OF _ finite_dom_map_of [of deg]])
    (auto simp: degree_of_def split: option.splits)

lemma positive_set:
  assumes "newDeg = degree_of deg k - 1"
  shows "positive (js_map_set k newDeg deg) + (if newDeg = 0 then 1 else 0) \<le> positive deg"
proof (cases "newDeg = 0")
  case True
  then have "{i. 0 < degree_of deg i} = insert k {i. 0 < degree_of (js_map_set k newDeg deg) i}"
    using assms by auto
  then show ?thesis using True finite_positive [of "js_map_set k newDeg deg"] by (simp add: positive_def)
next
  case False
  then have "{i. 0 < degree_of (js_map_set k newDeg deg) i} \<subseteq> {i. 0 < degree_of deg i}"
    using assms by (auto split: if_splits)
  then show ?thesis using False card_mono [OF finite_positive] by (simp add: positive_def)
qed

lemma relax_measure:
  assumes "relax ns deg queue = (deg', queue')"
  shows "length queue' + positive deg' \<le> length queue + positive deg"
  using assms
proof (induction ns arbitrary: deg queue)
  case (Cons n ns)
  show ?case
    using Cons.IH Cons.prems positive_set [OF refl, of n deg]
    by (fastforce simp: Let_def split: if_splits)
qed simp

text \<open>\<open>while (queue.length > 0)\<close> of \<open>hasCycleAfterInsert\<close>, counting the nodes it takes.\<close>

function count_processed :: "string list js_map \<Rightarrow> int js_map \<Rightarrow> string list \<Rightarrow> nat \<Rightarrow> nat" where
  "count_processed adj deg [] processed = processed"
| "count_processed adj deg (node # queue) processed =
     (case relax (successors adj node) deg queue of
        (deg', queue') \<Rightarrow> count_processed adj deg' queue' (processed + 1))"
  by pat_completeness auto
termination
proof (relation "measure (\<lambda>(adj, deg, queue, processed). length queue + positive deg)", goal_cases)
  case (2 adj deg node queue processed x y)
  then show ?case using relax_measure [of "successors adj node" deg queue x y] by force
qed simp


definition edge_of :: "kdependency \<Rightarrow> string \<times> string" where
  "edge_of d = (kd_from d, kd_to d)"

definition hasCycleAfterInsert :: "tracker \<Rightarrow> string \<Rightarrow> string \<Rightarrow> bool" where
  "hasCycleAfterInsert db src dst =
     (case getCohort db src of
        None \<Rightarrow> False
      | Some fromRow \<Rightarrow>
          (let planId = kc_plan_id fromRow;
               cohorts = map kc_id (filter (\<lambda>c. kc_plan_id c = planId) (tk_cohorts db));
               edges = map edge_of (filter (from_in_plan db planId) (tk_dependencies db)) @ [(src, dst)];
               adj = fold push_edge edges (initial_adjacency cohorts);
               inDegree = fold count_edge edges (initial_degrees cohorts);
               queue = map fst (filter (\<lambda>(_, deg). deg = 0) inDegree)
           in count_processed adj inDegree queue 0 < length cohorts))"

text \<open>
  \<open>toposortCohorts\<close>: the queue holds cohorts and is sorted by position and then identifier
  (\<open>localeCompare\<close>, of which \<open>collation\<close> is the sort key) before each is taken.
\<close>

definition topo_key :: "(string \<Rightarrow> string) \<Rightarrow> kcohort \<Rightarrow> int \<times> string" where
  "topo_key collation c = (kc_position c, collation (kc_id c))"

fun relax_cohorts ::
    "string \<Rightarrow> kcohort list \<Rightarrow> string list \<Rightarrow> int js_map \<Rightarrow> kcohort list \<Rightarrow> string + int js_map \<times> kcohort list" where
  "relax_cohorts plan_id cohorts [] deg queue = Inr (deg, queue)"
| "relax_cohorts plan_id cohorts (toId # ns) deg queue =
     (let newDeg = degree_of deg toId - 1;
          deg' = js_map_set toId newDeg deg
      in if newDeg = 0 then
           (case List.find (\<lambda>c. kc_id c = toId) (rev cohorts) of
              None \<Rightarrow> Inl (''dependency references unknown cohort '' @ toId @ '' in plan '' @ plan_id)
            | Some next \<Rightarrow> relax_cohorts plan_id cohorts ns deg' (queue @ [next]))
         else relax_cohorts plan_id cohorts ns deg' queue)"

lemma relax_cohorts_relax:
  "relax_cohorts plan_id cohorts ns deg queue = Inr (deg', queue') \<Longrightarrow>
   relax ns deg (map kc_id queue) = (deg', map kc_id queue')"
proof (induction ns arbitrary: deg queue)
  case (Cons n ns)
  show ?case
  proof (cases "degree_of deg n - 1 = 0")
    case True
    with Cons.prems obtain c where "List.find (\<lambda>c. kc_id c = n) (rev cohorts) = Some c"
      and "relax_cohorts plan_id cohorts ns (js_map_set n 0 deg) (queue @ [c]) = Inr (deg', queue')"
      by (auto simp: Let_def split: option.splits)
    then show ?thesis using True Cons.IH [of "js_map_set n 0 deg" "queue @ [c]"] by (auto simp: Let_def dest: find_Some_set)
  next
    case False
    with Cons.prems show ?thesis using Cons.IH by (simp add: Let_def)
  qed
qed simp

function topo_loop ::
    "(string \<Rightarrow> string) \<Rightarrow> string \<Rightarrow> kcohort list \<Rightarrow> string list js_map \<Rightarrow> int js_map \<Rightarrow> kcohort list \<Rightarrow> kcohort list \<Rightarrow> string + kcohort list" where
  "topo_loop collation plan_id cohorts adjFrom deg queue acc =
     (case sort_key (topo_key collation) queue of
        [] \<Rightarrow> Inr acc
      | cur # rest \<Rightarrow>
          (case relax_cohorts plan_id cohorts (successors adjFrom (kc_id cur)) deg rest of
             Inl e \<Rightarrow> Inl e
           | Inr dq \<Rightarrow> topo_loop collation plan_id cohorts adjFrom (fst dq) (snd dq) (acc @ [cur])))"
  by pat_completeness auto
termination
proof (relation "measure (\<lambda>(_, _, _, adj, deg, queue, acc). length queue + positive deg)", goal_cases)
  case (2 collation plan_id cohorts adj deg queue acc cur rest dq)
  have "length queue = Suc (length rest)" using 2(1) by (metis length_Cons length_sort)
  moreover have "length (snd dq) + positive (fst dq) \<le> length rest + positive deg"
    using relax_measure [OF relax_cohorts_relax, of plan_id cohorts "successors adj (kc_id cur)" deg rest "fst dq" "snd dq"] 2(2)
    by simp
  ultimately show ?case by simp
qed simp

declare topo_loop.simps [simp del]

definition toposortCohorts :: "(string \<Rightarrow> string) \<Rightarrow> kcohort list \<Rightarrow> kdependency list \<Rightarrow> string \<Rightarrow> string + kcohort list" where
  "toposortCohorts collation cohorts deps plan_id =
     (let inDegree = fold (count_edge \<circ> edge_of) deps (initial_degrees (map kc_id cohorts));
          adjFrom = fold (push_edge \<circ> edge_of) deps (initial_adjacency (map kc_id cohorts));
          queue = sort_key (topo_key collation) (filter (\<lambda>c. map_of inDegree (kc_id c) = Some 0) cohorts)
      in bind_result (topo_loop collation plan_id cohorts adjFrom inDegree queue [])
           (\<lambda>result. if length result \<noteq> length cohorts then Inl (''dependency cycle detected in plan '' @ plan_id)
                     else Inr result))"

section \<open>What the runs have in common\<close>

inductive kahn_run :: "string list js_map \<Rightarrow> int js_map \<Rightarrow> string list \<Rightarrow> string list \<Rightarrow> bool" for adj where
  kahn_empty: "kahn_run adj deg [] []"
| kahn_take: "mset queue = add_mset node (mset rest) \<Longrightarrow> relax (successors adj node) deg rest = (deg', queue') \<Longrightarrow>
    kahn_run adj deg' queue' order \<Longrightarrow> kahn_run adj deg queue (node # order)"

lemma count_processed_run:
  "\<exists>order. kahn_run adj deg queue order \<and> count_processed adj deg queue n = n + length order"
proof (induction adj deg queue n rule: count_processed.induct)
  case (1 adj deg n)
  then show ?case by (auto intro: kahn_empty)
next
  case (2 adj deg node queue n)
  obtain deg' queue' where r: "relax (successors adj node) deg queue = (deg', queue')"
    by (cases "relax (successors adj node) deg queue")
  from 2 [OF r [symmetric]] obtain order
    where "kahn_run adj deg' queue' order"
      and "count_processed adj deg' queue' (n + 1) = n + 1 + length order" by auto
  then show ?case using r by (intro exI [of _ "node # order"]) (auto intro: kahn_take)
qed

lemma topo_loop_run:
  assumes "topo_loop collation plan_id cohorts adj deg queue acc = Inr result"
  shows "\<exists>order. result = acc @ order \<and> kahn_run adj deg (map kc_id queue) (map kc_id order)"
  using assms
proof (induction collation plan_id cohorts adj deg queue acc rule: topo_loop.induct)
  case (1 collation plan_id cohorts adj deg queue acc)
  show ?case
  proof (cases "sort_key (topo_key collation) queue")
    case Nil
    then have "queue = []" by (metis length_0_conv length_sort)
    then show ?thesis using 1(2) by (auto simp: topo_loop.simps [of collation] intro: kahn_empty)
  next
    case (Cons cur rest)
    with 1(2) obtain dq where r: "relax_cohorts plan_id cohorts (successors adj (kc_id cur)) deg rest = Inr dq"
      and t: "topo_loop collation plan_id cohorts adj (fst dq) (snd dq) (acc @ [cur]) = Inr result"
      by (auto simp: topo_loop.simps [of collation _ _ _ _ queue] split: sum.splits)
    have "mset queue = mset (cur # rest)" by (metis Cons mset_sort)
    then have m: "mset (map kc_id queue) = add_mset (kc_id cur) (mset (map kc_id rest))" by simp
    from relax_cohorts_relax [of plan_id cohorts _ deg rest "fst dq" "snd dq"] r
    have "relax (successors adj (kc_id cur)) deg (map kc_id rest) = (fst dq, map kc_id (snd dq))" by simp
    note take = kahn_take [OF m this]
    from 1(1) [OF Cons r t] obtain order where "result = (acc @ [cur]) @ order"
      and "kahn_run adj (fst dq) (map kc_id (snd dq)) (map kc_id order)" by blast
    then show ?thesis using take by (intro exI [of _ "cur # order"]) auto
  qed
qed


lemma relax_effect:
  assumes "relax ns deg queue = (deg', queue')"
    and "\<And>v. v \<in> set ns \<Longrightarrow> int (count_list ns v) \<le> degree_of deg v"
  shows "(\<forall>v. degree_of deg' v = degree_of deg v - int (count_list ns v)) \<and>
    (\<exists>extra. queue' = queue @ extra \<and> distinct extra \<and>
       set extra = {v \<in> set ns. degree_of deg v = int (count_list ns v)})"
  using assms
proof (induction ns arbitrary: deg queue)
  case Nil
  then show ?case by simp
next
  case (Cons n ns)
  define d where "d = degree_of deg n - 1"
  define q where "q = (if d = 0 then queue @ [n] else queue)"
  have r: "relax ns (js_map_set n d deg) q = (deg', queue')"
    using Cons.prems(1) by (simp add: d_def q_def Let_def)
  have bound: "int (count_list ns v) \<le> degree_of (js_map_set n d deg) v" if "v \<in> set ns" for v
    using Cons.prems(2) [of v] that by (auto simp: d_def split: if_splits)
  from Cons.IH [OF r bound] obtain extra where
      deg: "\<forall>v. degree_of deg' v = degree_of (js_map_set n d deg) v - int (count_list ns v)"
      and q': "queue' = q @ extra" and dist: "distinct extra"
      and set: "set extra = {v \<in> set ns. degree_of (js_map_set n d deg) v = int (count_list ns v)}" by blast
  have n: "n \<in> set ns" if "d \<noteq> 0" "degree_of deg n = int (count_list (n # ns) n)"
    using that by (auto simp: d_def count_list_0_iff intro!: ccontr [of "n \<in> set ns"])
  have "n \<notin> set extra" if "d = 0"
    using that set by (auto simp: count_list_0_iff)
  then show ?case
  proof (intro conjI)
    show "\<forall>v. degree_of deg' v = degree_of deg v - int (count_list (n # ns) v)"
      using deg by (simp add: d_def)
    show "\<exists>extra. queue' = queue @ extra \<and> distinct extra \<and>
        set extra = {v \<in> set (n # ns). degree_of deg v = int (count_list (n # ns) v)}"
    proof (cases "d = 0")
      case True
      have "count_list ns n = 0" using Cons.prems(2) [of n] True by (simp add: d_def)
      then have "set (n # extra) = {v \<in> set (n # ns). degree_of deg v = int (count_list (n # ns) v)}"
        using set True by (auto simp: d_def count_list_0_iff)
      then show ?thesis using True q' dist \<open>d = 0 \<Longrightarrow> n \<notin> set extra\<close>
        by (intro exI [of _ "n # extra"]) (simp add: q_def)
    next
      case False
      have "set extra = {v \<in> set (n # ns). degree_of deg v = int (count_list (n # ns) v)}"
      proof -
        have "v \<in> set extra \<longleftrightarrow> v \<in> set (n # ns) \<and> degree_of deg v = int (count_list (n # ns) v)" for v
          using set n False by (cases "v = n") (simp_all add: d_def, linarith)
        then show ?thesis by blast
      qed
      then show ?thesis using False q' dist by (intro exI [of _ extra]) (simp add: q_def)
    qed
  qed
qed

lemma takeWhile_before: "u \<in> set xs \<Longrightarrow> length (takeWhile (\<lambda>x. x \<noteq> u) (xs @ zs)) < length xs"
  by (induction xs) auto

lemma takeWhile_here: "v \<notin> set xs \<Longrightarrow> takeWhile (\<lambda>x. x \<noteq> v) (xs @ v # zs) = xs"
  by (induction xs) auto

section \<open>Kahn's algorithm is right\<close>

locale dependency_graph =
  fixes V :: "string list" and E :: "(string \<times> string) list"
  assumes distinct_V: "distinct V"
    and E_in_V: "set E \<subseteq> set V \<times> set V"
begin

definition indegree :: "string set \<Rightarrow> string \<Rightarrow> nat" where
  "indegree D v = length (filter (\<lambda>e. snd e = v \<and> fst e \<notin> D) E)"

lemma indegree_0: "indegree D v = 0 \<longleftrightarrow> (\<forall>u. (u, v) \<in> set E \<longrightarrow> u \<in> D)"
  by (auto simp: indegree_def filter_empty_conv)

lemma indegree_insert:
  assumes "node \<notin> D"
  shows "indegree D v = indegree (insert node D) v + count_list (map snd (filter (\<lambda>e. fst e = node) E)) v"
proof -
  have "length (filter (\<lambda>e. snd e = v \<and> fst e \<notin> D) es) =
      length (filter (\<lambda>e. snd e = v \<and> fst e \<notin> insert node D) es) +
      count_list (map snd (filter (\<lambda>e. fst e = node) es)) v" for es :: "(string \<times> string) list"
    using assms by (induction es) auto
  then show ?thesis by (simp add: indegree_def)
qed

definition kahn_state :: "string set \<Rightarrow> int js_map \<Rightarrow> string list \<Rightarrow> bool" where
  "kahn_state D deg queue \<longleftrightarrow>
     (\<forall>v\<in>set V. degree_of deg v = int (indegree D v)) \<and> D \<subseteq> set V \<and> (\<forall>v\<in>D. indegree D v = 0) \<and>
     distinct queue \<and> set queue = {v \<in> set V. v \<notin> D \<and> indegree D v = 0}"

lemma kahn_state_take:
  assumes st: "kahn_state D deg queue" and q: "mset queue = add_mset node (mset rest)"
    and r: "relax (map snd (filter (\<lambda>e. fst e = node) E)) deg rest = (deg', queue')"
  shows "kahn_state (insert node D) deg' queue'"
proof -
  let ?ns = "map snd (filter (\<lambda>e. fst e = node) E)"
  have set_q: "set queue = insert node (set rest)" by (metis q set_mset_add_mset_insert set_mset_mset)
  have "distinct queue" using st by (simp add: kahn_state_def)
  then have dist: "distinct rest" "node \<notin> set rest"
    using mset_eq_imp_distinct_iff [of queue "node # rest"] q by auto
  have node: "node \<in> set V" "node \<notin> D" "indegree D node = 0" using st set_q by (auto simp: kahn_state_def)
  have ns: "v \<in> set V \<and> v \<notin> D \<and> v \<noteq> node \<and> 0 < indegree D v" if v: "v \<in> set ?ns" for v
  proof -
    have e: "(node, v) \<in> set E" using v by auto
    then have "indegree D v \<noteq> 0" using node(2) indegree_0 by blast
    then show ?thesis using e E_in_V node st by (auto simp: kahn_state_def)
  qed
  note split = indegree_insert [OF node(2)]
  have bound: "int (count_list ?ns v) \<le> degree_of deg v" if "v \<in> set ?ns" for v
    using ns [OF that] st split [of v] by (simp add: kahn_state_def)
  from relax_effect [OF r bound] obtain extra where
      deg: "\<forall>v. degree_of deg' v = degree_of deg v - int (count_list ?ns v)"
      and q': "queue' = rest @ extra" "distinct extra"
      and extra: "set extra = {v \<in> set ?ns. degree_of deg v = int (count_list ?ns v)}" by blast
  have extra': "set extra = {v \<in> set ?ns. indegree (insert node D) v = 0}"
  proof -
    have "degree_of deg v = int (count_list ?ns v) \<longleftrightarrow> indegree (insert node D) v = 0" if "v \<in> set ?ns" for v
      using ns [OF that] st split [of v] by (simp add: kahn_state_def)
    then show ?thesis using extra by blast
  qed
  have rest: "set rest = {v \<in> set V. v \<notin> D \<and> indegree D v = 0 \<and> v \<noteq> node}"
    using st set_q dist by (auto simp: kahn_state_def)
  have zero: "indegree D v = 0 \<or> v \<in> set ?ns" if "indegree (insert node D) v = 0" for v
    using split [of v] that by (metis add.left_neutral count_list_0_iff)
  have less: "indegree D v = 0 \<Longrightarrow> indegree (insert node D) v = 0" for v
    using split [of v] by simp
  have "v \<in> set queue' \<longleftrightarrow> v \<in> set V \<and> v \<notin> insert node D \<and> indegree (insert node D) v = 0" for v
    using ns [of v] zero [of v] less [of v] unfolding q'(1) set_append Un_iff rest extra' by blast
  then have "set queue' = {v \<in> set V. v \<notin> insert node D \<and> indegree (insert node D) v = 0}" by blast
  moreover have "v \<notin> set extra" if "v \<in> set rest" for v
    using that ns [of v] unfolding rest extra' by auto
  then have "distinct queue'" using q' dist(1) by auto
  moreover have "degree_of deg' v = int (indegree (insert node D) v)" if "v \<in> set V" for v
    using st that deg split [of v] by (simp add: kahn_state_def)
  ultimately show ?thesis using st node less by (auto simp: kahn_state_def)
qed

lemma kahn_run_result:
  assumes "kahn_run adj deg queue order" and "kahn_state D deg queue"
    and adj: "\<And>u. u \<in> set V \<Longrightarrow> successors adj u = map snd (filter (\<lambda>e. fst e = u) E)"
  shows "distinct order \<and> set order \<inter> D = {} \<and> set order \<subseteq> set V \<and>
    (\<forall>xs v ys u. order = xs @ v # ys \<longrightarrow> (u, v) \<in> set E \<longrightarrow> u \<in> D \<union> set xs) \<and>
    (\<forall>v\<in>set V. v \<notin> D \<union> set order \<longrightarrow> (\<exists>u\<in>set V. u \<notin> D \<union> set order \<and> (u, v) \<in> set E))"
  using assms(1,2)
proof (induction arbitrary: D)
  case (kahn_empty deg)
  then have "\<exists>u\<in>set V. u \<notin> D \<and> (u, v) \<in> set E" if "v \<in> set V" "v \<notin> D" for v
    using that indegree_0 [of D v] E_in_V by (auto simp: kahn_state_def)
  then show ?case by auto
next
  case (kahn_take queue node rest deg deg' queue' order)
  have "node \<in> set queue" using kahn_take.hyps(1) by (metis set_mset_mset union_single_eq_member)
  then have node: "node \<in> set V" "node \<notin> D" "indegree D node = 0"
    using kahn_take.prems by (auto simp: kahn_state_def)
  have "kahn_state (insert node D) deg' queue'"
    using kahn_state_take [OF kahn_take.prems kahn_take.hyps(1)] kahn_take.hyps(2) adj [OF node(1)] by simp
  note ih = kahn_take.IH [OF this]
  have "u \<in> D \<union> set xs" if "node # order = xs @ v # ys" "(u, v) \<in> set E" for xs v ys u
  proof (cases xs)
    case Nil
    then show ?thesis using that node(3) indegree_0 by auto
  next
    case (Cons x xs')
    then show ?thesis using that ih by auto
  qed
  then show ?case using ih node by auto
qed

lemma kahn_acyclic:
  assumes "kahn_run adj deg queue order" and "kahn_state {} deg queue"
    and "\<And>u. u \<in> set V \<Longrightarrow> successors adj u = map snd (filter (\<lambda>e. fst e = u) E)"
  shows "length order = length V \<longleftrightarrow> acyclic (set E)"
proof
  note res = kahn_run_result [OF assms]
  assume len: "length order = length V"
  have all: "set order = set V"
    using res len distinct_V by (metis card_subset_eq distinct_card finite_set)
  define pos where "pos v = length (takeWhile (\<lambda>x. x \<noteq> v) order)" for v
  have "pos u < pos v" if e: "(u, v) \<in> set E" for u v
  proof -
    obtain xs ys where o: "order = xs @ v # ys" and v: "v \<notin> set xs"
      using e E_in_V all by (metis SigmaD2 split_list_first subsetD)
    have "u \<in> set xs" using res o e by auto
    then have "pos u < length xs"
      unfolding pos_def o by (rule takeWhile_before)
    moreover have "pos v = length xs" using takeWhile_here [OF v] by (simp add: pos_def o)
    ultimately show ?thesis by simp
  qed
  then have "acyclic ((set E)\<inverse>)" by (intro acyclicI_order [where f = pos]) auto
  then show "acyclic (set E)" by (simp add: acyclic_converse)
next
  note res = kahn_run_result [OF assms]
  assume "acyclic (set E)"
  then have wf: "wf (set E)" by (simp add: finite_acyclic_wf)
  have "set V - set order = {}"
  proof (rule ccontr)
    assume "set V - set order \<noteq> {}"
    then obtain z where z: "z \<in> set V - set order" "\<And>y. (y, z) \<in> set E \<Longrightarrow> y \<notin> set V - set order"
      using wfE_min [OF wf] by (metis ex_in_conv)
    then show False using res by auto
  qed
  then show "length order = length V"
    using res distinct_V by (metis Diff_eq_empty_iff distinct_card subset_antisym)
qed

end


text \<open>The maps the code builds from the nodes and the edges.\<close>

lemma map_of_initial:
  "map_of (fold (\<lambda>i. js_map_set i x) ids m) = (\<lambda>k. if k \<in> set ids then Some x else map_of m k)"
  by (induction ids arbitrary: m) (auto simp: fun_eq_iff)

lemma degree_of_initial: "degree_of (initial_degrees ids) v = 0"
  by (simp add: degree_of_def initial_degrees_def map_of_initial)

lemma degree_of_count: "degree_of (fold count_edge E deg) v = degree_of deg v + int (length (filter (\<lambda>e. snd e = v) E))"
  by (induction E arbitrary: deg) (auto simp: count_edge_def)

lemma keys_count: "fst ` set (fold count_edge E deg) = fst ` set deg \<union> snd ` set E"
  by (induction E arbitrary: deg) (auto simp: count_edge_def)

lemma distinct_count: "distinct (map fst deg) \<Longrightarrow> distinct (map fst (fold count_edge E deg))"
  by (induction E arbitrary: deg) (auto simp: count_edge_def distinct_js_map_set)

lemma distinct_initial: "distinct (map fst m) \<Longrightarrow> distinct (map fst (fold (\<lambda>i. js_map_set i x) ids m))"
  by (induction ids arbitrary: m) (auto simp: distinct_js_map_set)

lemma keys_initial: "fst ` set (fold (\<lambda>i. js_map_set i x) ids m) = fst ` set m \<union> set ids"
  by (induction ids arbitrary: m) auto

lemma successors_push:
  assumes "u \<in> fst ` set adj"
  shows "successors (fold push_edge E adj) u = successors adj u @ map snd (filter (\<lambda>e. fst e = u) E)"
  using assms
proof (induction E arbitrary: adj)
  case (Cons e E)
  have keys: "u \<in> fst ` set (push_edge e adj)"
    using Cons.prems by (auto simp: push_edge_def split: option.splits)
  have "successors (push_edge e adj) u = successors adj u @ (if fst e = u then [snd e] else [])"
    using Cons.prems map_of_eq_None_iff [of adj u]
    by (auto simp: push_edge_def successors_def split: option.splits)
  then show ?case using Cons.IH [OF keys] by auto
qed simp

lemma zero_degree_keys:
  assumes "distinct (map fst deg)"
  shows "distinct (map fst (filter (\<lambda>(_, d). d = 0) deg))"
    and "set (map fst (filter (\<lambda>(_, d). d = (0::int)) deg)) = {v \<in> fst ` set deg. degree_of deg v = 0}"
proof -
  show "distinct (map fst (filter (\<lambda>(_, d). d = 0) deg))"
    using assms by (simp add: distinct_map_filter)
  have "(v, 0) \<in> set deg \<longleftrightarrow> v \<in> fst ` set deg \<and> degree_of deg v = 0" for v
    using map_of_eq_Some_iff [OF assms, of v 0] map_of_eq_None_iff [of deg v]
    by (cases "map_of deg v") (auto simp: degree_of_def)
  moreover have "set (map fst (filter (\<lambda>(_, d). d = (0::int)) deg)) = {v. (v, 0) \<in> set deg}"
    by (auto simp: image_iff case_prod_beta)
  ultimately show "set (map fst (filter (\<lambda>(_, d). d = (0::int)) deg)) = {v \<in> fst ` set deg. degree_of deg v = 0}"
    by (simp only:)
qed

context dependency_graph
begin

lemma initial_adjacency_right:
  "u \<in> set V \<Longrightarrow> successors (fold push_edge E (initial_adjacency V)) u = map snd (filter (\<lambda>e. fst e = u) E)"
  using successors_push [of u "initial_adjacency V" E]
  by (simp add: initial_adjacency_def keys_initial successors_def map_of_initial)

lemma initial_degrees_right: "degree_of (fold count_edge E (initial_degrees V)) v = int (indegree {} v)"
  by (simp add: degree_of_count degree_of_initial indegree_def)

lemma initial_keys: "fst ` set (fold count_edge E (initial_degrees V)) = set V"
  using E_in_V by (force simp: keys_count initial_degrees_def keys_initial)

lemma kahn_state_initial:
  assumes "distinct queue" and "set queue = {v \<in> set V. indegree {} v = 0}"
  shows "kahn_state {} (fold count_edge E (initial_degrees V)) queue"
  using assms by (simp add: kahn_state_def initial_degrees_right)

lemma count_processed_all:
  "count_processed (fold push_edge E (initial_adjacency V)) (fold count_edge E (initial_degrees V))
     (map fst (filter (\<lambda>(_, deg). deg = 0) (fold count_edge E (initial_degrees V)))) 0 < length V \<longleftrightarrow> \<not> acyclic (set E)"
proof -
  let ?deg = "fold count_edge E (initial_degrees V)"
  let ?queue = "map fst (filter (\<lambda>(_, deg). deg = 0) ?deg)"
  have "distinct (map fst ?deg)" by (simp add: distinct_count initial_degrees_def distinct_initial)
  from zero_degree_keys [OF this] have st: "kahn_state {} ?deg ?queue"
    by (intro kahn_state_initial) (simp_all add: initial_keys initial_degrees_right)
  obtain order where run: "kahn_run (fold push_edge E (initial_adjacency V)) ?deg ?queue order"
    and c: "count_processed (fold push_edge E (initial_adjacency V)) ?deg ?queue 0 = length order"
    using count_processed_run [of _ ?deg ?queue 0] by auto
  have "length order \<le> length V"
    using kahn_run_result [OF run st initial_adjacency_right] distinct_V
    by (metis card_mono distinct_card finite_set)
  then show ?thesis using kahn_acyclic [OF run st initial_adjacency_right] c by auto
qed

end

text \<open>
  The graph of any node list and any edge list, with the edges that leave the node list set aside:
  the graph both routines work on when the dependencies of a plan stay within the plan.
\<close>

definition inner_edges :: "string list \<Rightarrow> (string \<times> string) list \<Rightarrow> (string \<times> string) list" where
  "inner_edges V E = filter (\<lambda>(u, v). u \<in> set V \<and> v \<in> set V) E"

interpretation graph: dependency_graph "dedup V" "inner_edges V E" for V E
  by unfold_locales (auto simp: inner_edges_def)

lemma dedup_distinct: "distinct xs \<Longrightarrow> dedup xs = xs"
  by (induction xs rule: dedup.induct) (auto simp: filter_id_conv)

lemma inner_edges_all: "set E \<subseteq> set V \<times> set V \<Longrightarrow> inner_edges V E = E"
  by (auto simp: inner_edges_def filter_id_conv)


section \<open>The topological sort\<close>

lemma relax_cohorts_total:
  assumes "set ns \<subseteq> kc_id ` set cohorts" and "set queue \<subseteq> set cohorts"
  shows "\<exists>dq. relax_cohorts plan_id cohorts ns deg queue = Inr dq \<and> set (snd dq) \<subseteq> set cohorts"
  using assms
proof (induction ns arbitrary: deg queue)
  case (Cons n ns)
  obtain c where c: "List.find (\<lambda>c. kc_id c = n) (rev cohorts) = Some c"
    using Cons.prems(1) by (cases "List.find (\<lambda>c. kc_id c = n) (rev cohorts)") (auto simp: find_None_set)
  then have "c \<in> set cohorts" using find_Some_set by fastforce
  then show ?case
    using Cons.IH [of "queue @ [c]" "js_map_set n 0 deg"] Cons.IH [of queue "js_map_set n (degree_of deg n - 1) deg"] Cons.prems c
    by (auto simp: Let_def)
qed simp

lemma topo_loop_total:
  assumes "\<And>u. set (successors adj u) \<subseteq> kc_id ` set cohorts" and "set queue \<subseteq> set cohorts" and "set acc \<subseteq> set cohorts"
  shows "\<exists>result. topo_loop collation plan_id cohorts adj deg queue acc = Inr result \<and> set result \<subseteq> set cohorts"
  using assms
proof (induction collation plan_id cohorts adj deg queue acc rule: topo_loop.induct)
  case (1 collation plan_id cohorts adj deg queue acc)
  show ?case
  proof (cases "sort_key (topo_key collation) queue")
    case Nil
    then show ?thesis using 1(4) by (simp add: topo_loop.simps [of collation _ _ _ _ queue])
  next
    case (Cons cur rest)
    have sub: "insert cur (set rest) \<subseteq> set cohorts" using 1(3) Cons by (metis list.simps(15) set_sort)
    then obtain dq where r: "relax_cohorts plan_id cohorts (successors adj (kc_id cur)) deg rest = Inr dq"
      and q: "set (snd dq) \<subseteq> set cohorts"
      using relax_cohorts_total [OF 1(2), of rest plan_id "kc_id cur" deg] by auto
    show ?thesis using 1(1) [OF Cons r 1(2) q] 1(4) sub Cons r by (simp add: topo_loop.simps [of collation _ _ _ _ queue])
  qed
qed


lemma map_of_Some_0: "map_of deg k = Some (0::int) \<longleftrightarrow> k \<in> fst ` set deg \<and> degree_of deg k = 0"
  using map_of_eq_None_iff [of deg k] by (cases "map_of deg k") (auto simp: degree_of_def)

lemma successors_push_subset:
  "set (successors (fold push_edge E adj) u) \<subseteq> set (successors adj u) \<union> snd ` set E"
proof (induction E arbitrary: adj)
  case (Cons e E)
  have "set (successors (push_edge e adj) u) \<subseteq> set (successors adj u) \<union> {snd e}"
    by (auto simp: push_edge_def successors_def split: option.splits)
  then show ?case using Cons.IH [of "push_edge e adj"] by auto
qed simp

context dependency_graph
begin

lemma successors_initial: "successors (initial_adjacency ids) u = []"
  by (simp add: initial_adjacency_def successors_def map_of_initial)

lemma toposort_right:
  assumes V: "V = map kc_id cohorts" and E: "E = map edge_of deps"
  shows "if acyclic (edge_of ` set deps)
    then \<exists>result. toposortCohorts collation cohorts deps plan_id = Inr result \<and> mset result = mset cohorts \<and>
      (\<forall>xs c ys d. result = xs @ c # ys \<longrightarrow> d \<in> set deps \<longrightarrow> kd_to d = kc_id c \<longrightarrow> kd_from d \<in> kc_id ` set xs)
    else toposortCohorts collation cohorts deps plan_id = Inl (''dependency cycle detected in plan '' @ plan_id)"
proof -
  let ?deg = "fold count_edge E (initial_degrees V)" and ?adj = "fold push_edge E (initial_adjacency V)"
  let ?queue = "sort_key (topo_key collation) (filter (\<lambda>c. map_of ?deg (kc_id c) = Some 0) cohorts)"
  have ids: "distinct (map kc_id cohorts)" using distinct_V V by simp
  have fold: "fold (count_edge \<circ> edge_of) deps = fold count_edge E" "fold (push_edge \<circ> edge_of) deps = fold push_edge E"
    by (simp_all add: fold_map E)
  have "distinct (map kc_id ?queue)" using ids by (auto simp: distinct_map intro: inj_on_subset)
  moreover have "set (map kc_id ?queue) = {v \<in> set V. indegree {} v = 0}"
    unfolding map_of_Some_0 initial_degrees_right initial_keys by (auto simp: V)
  ultimately have st: "kahn_state {} ?deg (map kc_id ?queue)" by (rule kahn_state_initial)
  have succ: "set (successors ?adj u) \<subseteq> kc_id ` set cohorts" for u
    using successors_push_subset [of E "initial_adjacency V" u] E_in_V V
    by (force simp: successors_initial)
  obtain result where t: "topo_loop collation plan_id cohorts ?adj ?deg ?queue [] = Inr result"
      and sub: "set result \<subseteq> set cohorts"
    using topo_loop_total [of ?adj cohorts ?queue "[]" collation plan_id ?deg] succ by auto
  from topo_loop_run [OF t] have run: "kahn_run ?adj ?deg (map kc_id ?queue) (map kc_id result)" by auto
  note res = kahn_run_result [OF run st initial_adjacency_right]
  have len: "length result = length cohorts \<longleftrightarrow> acyclic (edge_of ` set deps)"
    using kahn_acyclic [OF run st initial_adjacency_right] by (simp add: V E)
  have topo: "toposortCohorts collation cohorts deps plan_id =
      (if length result \<noteq> length cohorts then Inl (''dependency cycle detected in plan '' @ plan_id) else Inr result)"
    using t by (simp add: toposortCohorts_def fold V)
  show ?thesis
  proof (cases "acyclic (edge_of ` set deps)")
    case True
    have "distinct result" using res by (simp add: distinct_map)
    then have "mset result = mset cohorts"
      using sub len True ids by (metis card_subset_eq distinct_card distinct_map finite_set set_eq_iff_mset_eq_distinct)
    moreover have "kd_from d \<in> kc_id ` set xs" if "result = xs @ c # ys" "d \<in> set deps" "kd_to d = kc_id c" for xs c ys d
    proof -
      have "map kc_id result = map kc_id xs @ kc_id c # map kc_id ys" using that(1) by simp
      moreover have "(kd_from d, kc_id c) \<in> set E" using that(2,3) by (force simp: edge_of_def E)
      ultimately show ?thesis using res by fastforce
    qed
    ultimately show ?thesis using True len topo by auto
  next
    case False
    then show ?thesis using len topo by simp
  qed
qed

end

lemma toposortCohorts_correct:
  assumes ids: "distinct (map kc_id cohorts)"
    and inside: "\<And>d. d \<in> set deps \<Longrightarrow> kd_from d \<in> kc_id ` set cohorts \<and> kd_to d \<in> kc_id ` set cohorts"
  shows "if acyclic (edge_of ` set deps)
    then \<exists>result. toposortCohorts collation cohorts deps plan_id = Inr result \<and> mset result = mset cohorts \<and>
      (\<forall>xs c ys d. result = xs @ c # ys \<longrightarrow> d \<in> set deps \<longrightarrow> kd_to d = kc_id c \<longrightarrow> kd_from d \<in> kc_id ` set xs)
    else toposortCohorts collation cohorts deps plan_id = Inl (''dependency cycle detected in plan '' @ plan_id)"
  by (rule graph.toposort_right [where V = "map kc_id cohorts" and E = "map edge_of deps"])
    (use inside in \<open>auto simp: dedup_distinct ids edge_of_def intro!: inner_edges_all\<close>)

section \<open>The dependencies of all plans\<close>

definition cohort_edges :: "tracker \<Rightarrow> (string \<times> string) set" where
  "cohort_edges db = edge_of ` set (tk_dependencies db)"

text \<open>Cohort identifiers are unique, and a dependency joins two cohorts of one plan.\<close>

definition plan_of :: "tracker \<Rightarrow> string \<Rightarrow> string option" where
  "plan_of db i = map_option kc_plan_id (getCohort db i)"

definition dependencies_wf :: "tracker \<Rightarrow> bool" where
  "dependencies_wf db \<longleftrightarrow> distinct (map kc_id (tk_cohorts db)) \<and>
     list_all (\<lambda>d. plan_of db (kd_from d) \<noteq> None \<and> plan_of db (kd_to d) = plan_of db (kd_from d)) (tk_dependencies db)"

lemma edges_same_plan:
  "dependencies_wf db \<Longrightarrow> (u, v) \<in> cohort_edges db \<Longrightarrow> plan_of db u \<noteq> None \<and> plan_of db v = plan_of db u"
  by (auto simp: dependencies_wf_def cohort_edges_def edge_of_def list_all_iff)

lemma path_in_plan:
  assumes "dependencies_wf db" and "(u, v) \<in> (cohort_edges db)\<^sup>*" and "plan_of db u = Some p"
  shows "(u, v) \<in> (edge_of ` set (filter (from_in_plan db p) (tk_dependencies db)))\<^sup>* \<and> plan_of db v = Some p"
  using assms(2)
proof (induction rule: rtrancl_induct)
  case base
  then show ?case using assms(3) by simp
next
  case (step v w)
  then obtain d where d: "d \<in> set (tk_dependencies db)" "edge_of d = (v, w)" by (auto simp: cohort_edges_def)
  have "(v, w) \<in> edge_of ` set (filter (from_in_plan db p) (tk_dependencies db))"
    using d step.IH by (force simp: from_in_plan_def edge_of_def plan_of_def)
  then show ?case using step edges_same_plan [OF assms(1) step.hyps(2)] by (metis rtrancl.rtrancl_into_rtrancl)
qed

lemma getCohort_distinct:
  "distinct (map kc_id (tk_cohorts db)) \<Longrightarrow> getCohort db i = Some c \<longleftrightarrow> c \<in> set (tk_cohorts db) \<and> kc_id c = i"
  using find_distinct_key [of kc_id "tk_cohorts db" c]
  by (auto simp: getCohort_def dest: find_Some_set)

lemma plan_of_Some:
  "distinct (map kc_id (tk_cohorts db)) \<Longrightarrow>
   plan_of db i = Some p \<longleftrightarrow> i \<in> kc_id ` set (filter (\<lambda>c. kc_plan_id c = p) (tk_cohorts db))"
  by (auto simp: plan_of_def getCohort_distinct)

text \<open>The check finds exactly the edges that would close a cycle.\<close>

lemma hasCycleAfterInsert_right:
  assumes wf: "dependencies_wf db" and "plan_of db src = Some p" and "plan_of db dst = Some p"
    and ac: "acyclic (cohort_edges db)"
  shows "hasCycleAfterInsert db src dst \<longleftrightarrow> \<not> acyclic (insert (src, dst) (cohort_edges db))"
proof -
  let ?V = "map kc_id (filter (\<lambda>c. kc_plan_id c = p) (tk_cohorts db))"
  let ?D = "filter (from_in_plan db p) (tk_dependencies db)"
  let ?E = "map edge_of ?D @ [(src, dst)]"
  have ids: "distinct (map kc_id (tk_cohorts db))" using wf by (simp add: dependencies_wf_def)
  then have V: "dedup ?V = ?V" by (intro dedup_distinct) (simp add: distinct_map_filter)
  have node: "plan_of db i = Some p \<longleftrightarrow> i \<in> set ?V" for i using plan_of_Some [OF ids] by simp
  have "fst e \<in> set ?V \<and> snd e \<in> set ?V" if e: "e \<in> set ?E" for e
  proof (cases "e = (src, dst)")
    case False
    then obtain d where d: "d \<in> set (tk_dependencies db)" "from_in_plan db p d" "e = edge_of d" using e by fastforce
    then have "plan_of db (kd_from d) = Some p" by (simp add: from_in_plan_def plan_of_def)
    moreover have "plan_of db (kd_to d) = plan_of db (kd_from d)" using wf d by (simp add: dependencies_wf_def list_all_iff)
    ultimately show ?thesis using d(3) node [of "kd_from d"] node [of "kd_to d"] by (simp add: edge_of_def)
  qed (use assms node in auto)
  then have E: "inner_edges ?V ?E = ?E" by (intro inner_edges_all subsetI) (metis mem_Sigma_iff prod.collapse)
  obtain c where c: "getCohort db src = Some c" "kc_plan_id c = p" using assms(2) by (auto simp: plan_of_def)
  have sub: "edge_of ` set ?D \<subseteq> cohort_edges db" by (auto simp: cohort_edges_def)
  have "hasCycleAfterInsert db src dst \<longleftrightarrow> \<not> acyclic (set ?E)"
    using graph.count_processed_all [of ?V ?E] c unfolding V E by (simp add: hasCycleAfterInsert_def Let_def)
  also have "\<dots> \<longleftrightarrow> (dst, src) \<in> (edge_of ` set ?D)\<^sup>*"
    using acyclic_subset [OF ac sub] by (simp add: acyclic_insert)
  also have "\<dots> \<longleftrightarrow> (dst, src) \<in> (cohort_edges db)\<^sup>*"
    using path_in_plan [OF wf _ assms(3)] rtrancl_mono [OF sub] by blast
  also have "\<dots> \<longleftrightarrow> \<not> acyclic (insert (src, dst) (cohort_edges db))" using ac by (simp add: acyclic_insert)
  finally show ?thesis .
qed

end
