(* ===== verification/TrackerOps.thy ===== *)
theory TrackerOps
  imports CohortGraph
begin

text \<open>
  The task tracker's routes (\<open>server/handlers\<close>) after their request bodies have been parsed, and the
  subscribers their events reach (\<open>orchestrator/bootstrap.ts\<close>, \<open>orchestrator/dispatch-hooks.ts\<close>).

  \<^item> A handler takes the database and returns the database, the dispatches the hooks start, and the
    reply. A transaction that ends in an error leaves the database as it was.
  \<^item> Events are delivered synchronously, in the order of the code's \<open>emit\<close> calls. A hooked
    \<open>dispatcher.dispatch\<close> runs concurrently: it is returned as a request, and \<open>DispatchLedger\<close>
    models what it does.
\<close>

section \<open>Replies, events and subscribers\<close>

datatype 'a reply = Reply nat 'a | Failure nat string | Rejected string cohort_status string

datatype tracker_event =
    SpecCreated string
  | SpecAnalysisComplete string
  | SpecApproved string string
  | PlanApprovedEv string string
  | PlanRejectedEv string string
  | PlanCompleted string
  | CohortBriefingStarted string
  | CohortBuildReady string string
  | CohortPrOpened string string
  | CohortPrMerged string
  | CohortDoneEv string
  | BriefSubmittedEv string string
  | BriefApprovedEv string string
  | BriefRejectedEv string string
  | EpicArchived string
  | EpicUnarchived string
  | ReviewEv review_event

type_synonym dispatch_request = "string \<times> string"
type_synonym 'a handled = "tracker \<times> dispatch_request list \<times> 'a reply"

definition advance_logged :: "string \<Rightarrow> epic_event \<Rightarrow> tracker \<Rightarrow> tracker" where
  "advance_logged epic_id event db = (case advanceEpicByEvent epic_id event db of Inl e \<Rightarrow> db | Inr r \<Rightarrow> snd r)"

definition on_reopened :: "string \<Rightarrow> string \<Rightarrow> tracker \<Rightarrow> tracker" where
  "on_reopened target_type target_id db =
     (if target_type = ''build_brief'' then
        (case getBrief db target_id of
           None \<Rightarrow> db
         | Some brief \<Rightarrow> snd (transitionCohort (kb_cohort_id brief) BriefReopened db))
      else db)"

fun emit :: "tracker_event \<Rightarrow> tracker \<Rightarrow> tracker \<times> dispatch_request list" where
  "emit (SpecCreated spec_id) db = (db, [(''spec_analyzer'', spec_id)])"
| "emit (SpecApproved spec_id epic_id) db =
     (advance_logged epic_id (StageEvent EpicSpecApproved) db, [(''plan_writer'', spec_id)])"
| "emit (PlanApprovedEv plan_id spec_id) db = (db, [(''brief_writer'', plan_id)])"
| "emit (CohortBuildReady cohort_id brief_id) db = (db, [(''build'', brief_id)])"
| "emit (PlanCompleted plan_id) db = (db, [(''assessor'', plan_id)])"
| "emit (BriefSubmittedEv brief_id cohort_id) db = (snd (transitionCohort cohort_id BriefSubmitted db), [])"
| "emit (CohortBriefingStarted cohort_id) db = (snd (transitionCohort cohort_id BriefingStarted db), [])"
| "emit (ReviewEv (ArtifactReopened target_type target_id)) db = (on_reopened target_type target_id db, [])"
| "emit _ db = (db, [])"

fun emit_all :: "tracker_event list \<Rightarrow> tracker \<Rightarrow> tracker \<times> dispatch_request list" where
  "emit_all [] db = (db, [])"
| "emit_all (e # es) db =
     (case emit e db of (db', reqs) \<Rightarrow> case emit_all es db' of (db'', reqs') \<Rightarrow> (db'', reqs @ reqs'))"

definition refuse :: "nat \<Rightarrow> string \<Rightarrow> tracker \<Rightarrow> 'a handled" where
  "refuse status msg db = (db, [], Failure status msg)"

definition archived_reply :: "tracker \<Rightarrow> 'a handled" where
  "archived_reply db = refuse 409 ''epic is archived'' db"

text \<open>The \<open>catch\<close> of an insert: a foreign key failure is the missing parent, anything else is a 500.\<close>

definition insert_reply :: "string \<Rightarrow> (string + 'a \<times> tracker) \<Rightarrow> tracker \<Rightarrow> 'a handled" where
  "insert_reply missing r db =
     (case r of
        Inl msg \<Rightarrow> if msg = foreign_key_failed then refuse 404 missing db else refuse 500 ''internal server error'' db
      | Inr rd \<Rightarrow> (snd rd, [], Reply 201 (fst rd)))"

text \<open>The answer to an update by key: the row, or 404.\<close>

definition update_reply :: "'a option \<times> tracker \<Rightarrow> 'a handled" where
  "update_reply r = (case fst r of None \<Rightarrow> refuse 404 ''not found'' (snd r) | Some row \<Rightarrow> (snd r, [], Reply 200 row))"

section \<open>Cohorts and dependencies\<close>

definition post_cohort :: "string \<Rightarrow> string \<Rightarrow> string \<Rightarrow> string \<Rightarrow> string option \<Rightarrow> int \<Rightarrow> tracker \<Rightarrow> kcohort handled" where
  "post_cohort now i plan_id title notes position db =
     (if isPlanEpicArchived db plan_id then archived_reply db
      else insert_reply ''plan not found'' (insertCohort now i plan_id title notes position db) db)"

definition patch_cohort :: "string \<Rightarrow> string option \<Rightarrow> string option option \<Rightarrow> int option \<Rightarrow> tracker \<Rightarrow> kcohort handled" where
  "patch_cohort i title notes position db =
     (if title = None \<and> notes = None \<and> position = None then refuse 400 ''at least one mutable field is required'' db
      else if isCohortEpicArchived db i then archived_reply db
      else update_reply (updateCohortFields i title notes position db))"

definition post_dependency :: "string \<Rightarrow> string \<Rightarrow> string \<Rightarrow> tracker \<Rightarrow> kdependency handled" where
  "post_dependency i src dst db =
     (case (getCohort db src, getCohort db dst) of
        (Some fromCohort, Some toCohort) \<Rightarrow>
          if kc_plan_id fromCohort \<noteq> kc_plan_id toCohort then refuse 409 ''cohorts must belong to the same plan'' db
          else if src = dst then refuse 409 ''from_cohort_id and to_cohort_id must differ'' db
          else if isCohortEpicArchived db src then archived_reply db
          else if hasCycleAfterInsert db src dst then refuse 409 ''cycle'' db
          else (case insertCohortDependency i src dst db of
                  Inl msg \<Rightarrow> if msg = unique_failed then refuse 409 ''dependency already exists'' db
                              else refuse 500 ''internal server error'' db
                | Inr rd \<Rightarrow> (snd rd, [], Reply 201 (fst rd)))
      | _ \<Rightarrow> refuse 404 ''cohort not found'' db)"

definition delete_dependency :: "string \<Rightarrow> tracker \<Rightarrow> unit handled" where
  "delete_dependency i db =
     (case List.find (\<lambda>r. kd_id r = i) (tk_dependencies db) of
        None \<Rightarrow> refuse 404 ''not found'' (snd (deleteCohortDependency i db))
      | Some row \<Rightarrow>
          if isCohortEpicArchived db (kd_from row) then archived_reply db
          else (snd (deleteCohortDependency i db), [], Reply 204 ()))"

section \<open>The status of a cohort\<close>

text \<open>\<open>runDoneFanout\<close>: dependents whose last dependency is done start building.\<close>

definition fanout_one :: "string \<Rightarrow> tracker \<times> (string \<times> string) list \<Rightarrow> tracker \<times> (string \<times> string) list" where
  "fanout_one to_id s =
     (case s of (db, ready) \<Rightarrow>
        case getCohort db to_id of
          None \<Rightarrow> (db, ready)
        | Some dep \<Rightarrow>
            if kc_status dep = CohortReadyToBuild \<and> countUnmetDependencies db to_id = 0 then
              (case getLatestApprovedBriefByCohort db to_id of
                 None \<Rightarrow> (db, ready)
               | Some brief \<Rightarrow>
                   (case transitionCohort to_id DependenciesMet db of
                      (TransitionOk c f t, db') \<Rightarrow> (db', ready @ [(to_id, kb_id brief)])
                    | (_, db') \<Rightarrow> (db', ready)))
            else (db, ready))"

definition downstream :: "tracker \<Rightarrow> string \<Rightarrow> string list" where
  "downstream db cohort_id = map kd_to (filter (\<lambda>d. kd_from d = cohort_id) (tk_dependencies db))"

definition runDoneFanout :: "string \<Rightarrow> tracker \<Rightarrow> tracker \<times> (string \<times> string) list" where
  "runDoneFanout cohort_id db = fold fanout_one (downstream db cohort_id) (db, [])"

definition remaining_cohorts :: "tracker \<Rightarrow> string \<Rightarrow> nat" where
  "remaining_cohorts db plan_id =
     length (filter (\<lambda>c. kc_plan_id c = plan_id \<and> kc_status c \<noteq> CohortDone) (tk_cohorts db))"

definition plan_completed :: "tracker \<Rightarrow> string \<Rightarrow> string option" where
  "plan_completed db plan_id = (if remaining_cohorts db plan_id = 0 then Some plan_id else None)"

record merge_emits =
  mg_build_ready :: "(string \<times> string) list"
  mg_plan_completed :: "string option"

text \<open>\<open>applyAwaitingMergeToMerged\<close>; \<open>None\<close> when the cohort is missing and it throws.\<close>

definition applyAwaitingMergeToMerged :: "string \<Rightarrow> tracker \<Rightarrow> (kcohort \<times> merge_emits option \<times> tracker) option" where
  "applyAwaitingMergeToMerged cohort_id db =
     (case transitionCohort cohort_id PrMergedEvent db of
        (TransitionOk updated f t, db1) \<Rightarrow>
          (case runDoneFanout cohort_id db1 of (db2, ready) \<Rightarrow>
             Some (updated, Some \<lparr>mg_build_ready = ready, mg_plan_completed = plan_completed db2 (kc_plan_id updated)\<rparr>, db2))
      | (_, db1) \<Rightarrow> map_option (\<lambda>c. (c, None, db1)) (getCohort db1 cohort_id))"

datatype cohort_status_request =
    AskBlocked | AskUnblocked | AskDone | AskAwaitingMerge string | AskMerged

fun requested_name :: "cohort_status_request \<Rightarrow> string" where
  "requested_name AskBlocked = ''blocked''"
| "requested_name AskUnblocked = ''unblocked''"
| "requested_name AskDone = ''done''"
| "requested_name (AskAwaitingMerge url) = ''awaiting_merge''"
| "requested_name AskMerged = ''merged''"

record status_change =
  sc_updated :: kcohort
  sc_events :: "tracker_event list"
  sc_plan_completed :: "string option"

definition done_events :: "string \<Rightarrow> (string \<times> string) list \<Rightarrow> tracker_event list" where
  "done_events cohort_id ready = CohortDoneEv cohort_id # map (\<lambda>(c, b). CohortBuildReady c b) ready"

text \<open>A rejected transition as the route reports it.\<close>

fun transition_reply :: "string \<Rightarrow> cohort_transition_result \<Rightarrow> 'a reply" where
  "transition_reply requested (TransitionInvalid i e current detail) = Rejected detail current requested"
| "transition_reply requested _ = Failure 404 ''not found''"

text \<open>The first brief's PR link, set once: \<open>UPDATE briefs SET pr_url = COALESCE(pr_url, ?)\<close>.\<close>

definition record_pr_url :: "string \<Rightarrow> string \<Rightarrow> tracker \<Rightarrow> tracker" where
  "record_pr_url cohort_id url db =
     (case getLatestBriefByCohort db cohort_id of
        None \<Rightarrow> db
      | Some b \<Rightarrow> update_brief (kb_id b) (\<lambda>r. r\<lparr>kb_pr_url := coalesce (kb_pr_url r) (Some url)\<rparr>) db)"

text \<open>The transaction of \<open>PATCH /cohorts/:id/status\<close>.\<close>

definition status_transaction :: "string \<Rightarrow> cohort_status_request \<Rightarrow> tracker \<Rightarrow> kcohort reply + status_change \<times> tracker" where
  "status_transaction cohort_id req db =
     (case getCohort db cohort_id of
        None \<Rightarrow> Inl (Failure 404 ''not found'')
      | Some cohort \<Rightarrow>
          (let plain = (\<lambda>event events.
                 case transitionCohort cohort_id event db of
                   (TransitionOk c f t, db1) \<Rightarrow> Inr (\<lparr>sc_updated = c, sc_events = events, sc_plan_completed = None\<rparr>, db1)
                 | (failed, db1) \<Rightarrow> Inl (transition_reply (requested_name req) failed))
           in case req of
                AskBlocked \<Rightarrow> plain BlockEvent []
              | AskUnblocked \<Rightarrow> plain UnblockEvent []
              | AskDone \<Rightarrow>
                  (case transitionCohort cohort_id BuildCompleted db of
                     (TransitionOk c f t, db1) \<Rightarrow>
                       (case runDoneFanout cohort_id db1 of (db2, ready) \<Rightarrow>
                          Inr (\<lparr>sc_updated = c, sc_events = done_events cohort_id ready,
                                sc_plan_completed = plan_completed db2 (kc_plan_id cohort)\<rparr>, db2))
                   | (failed, db1) \<Rightarrow> Inl (transition_reply (requested_name req) failed))
              | AskAwaitingMerge url \<Rightarrow>
                  map_sum id (\<lambda>(ch, db1). (ch, record_pr_url cohort_id url db1)) (plain PrOpenedEvent [CohortPrOpened cohort_id url])
              | AskMerged \<Rightarrow>
                  (case applyCohortTransition (kc_status cohort) PrMergedEvent None of
                     Inl detail \<Rightarrow> Inl (Rejected detail (kc_status cohort) ''merged'')
                   | Inr next \<Rightarrow>
                       (case applyAwaitingMergeToMerged cohort_id db of
                          None \<Rightarrow> Inl (Failure 500 ''internal server error'')
                        | Some (c, None, db1) \<Rightarrow> Inr (\<lparr>sc_updated = c, sc_events = [], sc_plan_completed = None\<rparr>, db1)
                        | Some (c, Some em, db1) \<Rightarrow>
                            Inr (\<lparr>sc_updated = c, sc_events = CohortPrMerged cohort_id # done_events cohort_id (mg_build_ready em),
                                  sc_plan_completed = mg_plan_completed em\<rparr>, db1)))))"

text \<open>The plan's epic moves from build to assess when the plan completes.\<close>

definition advance_epic_of_plan :: "string \<Rightarrow> epic_stage_event \<Rightarrow> tracker \<Rightarrow> tracker" where
  "advance_epic_of_plan plan_id event db =
     (case getPlan db plan_id of
        None \<Rightarrow> db
      | Some plan \<Rightarrow>
          (case getEpicBySpec db (kp_spec_id plan) of
             None \<Rightarrow> db
           | Some epic \<Rightarrow> advance_logged (ke_id epic) (StageEvent event) db))"

definition patch_cohort_status :: "string \<Rightarrow> cohort_status_request \<Rightarrow> tracker \<Rightarrow> kcohort handled" where
  "patch_cohort_status cohort_id req db =
     (if isCohortEpicArchived db cohort_id then archived_reply db
      else case status_transaction cohort_id req db of
             Inl reply \<Rightarrow> (db, [], reply)
           | Inr (change, db1) \<Rightarrow>
               (case emit_all (sc_events change) db1 of (db2, reqs) \<Rightarrow>
                  case sc_plan_completed change of
                    None \<Rightarrow> (db2, reqs, Reply 200 (sc_updated change))
                  | Some plan_id \<Rightarrow>
                      (case emit (PlanCompleted plan_id) db2 of (db3, reqs') \<Rightarrow>
                         (advance_epic_of_plan plan_id EpicBuildDone db3, reqs @ reqs', Reply 200 (sc_updated change)))))"

end
