(* ===== verification/TrackerRoutes.thy ===== *)
theory TrackerRoutes
  imports TrackerOps
begin

text \<open>
  The remaining routes of the task tracker: merging a cohort's pull request, briefs, plans, epics,
  specs and their discrepancies, assessments, projects, and the review surface (threads, atom edits,
  frozen artifacts). The GitHub command line, the file system and the path functions are parameters.
\<close>

section \<open>Pull request links\<close>

record parsed_pr_url =
  pp_owner :: string
  pp_repo :: string
  pp_number :: nat

text \<open>
  \<open>PR_URL_RE\<close>: \<open>https://github.com/<owner>/<repo>/pull/<digits>\<close>, the digits followed by one of
  \<open>/ ? #\<close> or the end. The path is split at its slashes; the digits are the longest run.
\<close>

definition digit_run :: "string \<Rightarrow> string" where
  "digit_run s = takeWhile is_digit s"

definition parsePrUrl :: "string \<Rightarrow> string + parsed_pr_url" where
  "parsePrUrl url =
     (case js_split (CHR ''/'') url of
        scheme # blank # host # owner # repo # pull # final # rest \<Rightarrow>
          (let n = digit_run final; tail = drop (length n) final
           in if scheme = ''https:'' \<and> blank = '''' \<and> host = ''github.com'' \<and> owner \<noteq> '''' \<and> repo \<noteq> '''' \<and> pull = ''pull''
                \<and> n \<noteq> '''' \<and> (tail = '''' \<or> hd tail = CHR ''?'' \<or> hd tail = CHR ''#'')
              then Inr \<lparr>pp_owner = owner, pp_repo = repo, pp_number = digits_value n\<rparr>
              else Inl ''invalid_pr_url'')
      | _ \<Rightarrow> Inl ''invalid_pr_url'')"

section \<open>What GitHub reports of a pull request\<close>

datatype gh_state = GhOpen | GhClosed | GhMerged
datatype gh_mergeable = GhMergeable | GhConflicting | GhUnknown

record gh_comment =
  gc_author :: string
  gc_body :: string
  gc_database_id :: int

record gh_thread =
  gt_id :: string
  gt_resolved :: bool
  gt_comments :: "gh_comment list"

record gh_pr_view =
  gv_state :: gh_state
  gv_merged_at :: "string option"
  gv_mergeable :: gh_mergeable
  gv_merge_state_status :: string
  gv_review_threads :: "gh_thread list option"
  gv_url :: string

record review_thread =
  rt_id :: string
  rt_author :: string
  rt_snippet :: string
  rt_comment_id :: int

datatype merge_obstacle = ObstacleConflicts | ObstacleChecksFailing | ObstacleUnknown

datatype pr_state =
    AlreadyMerged "string option"
  | OpenMergeableClean
  | OpenMergeableUnresolved "review_thread list"
  | OpenMergeableThreadsUnknown
  | OpenNotMergeable merge_obstacle
  | ClosedUnmerged

definition toReviewThread :: "gh_thread \<Rightarrow> review_thread option" where
  "toReviewThread t =
     (case gt_comments t of
        [] \<Rightarrow> None
      | c # cs \<Rightarrow> Some \<lparr>rt_id = gt_id t, rt_author = gc_author c, rt_snippet = js_trim (hd (js_split (CHR 0x0A) (gc_body c))),
                    rt_comment_id = gc_database_id c\<rparr>)"

definition merge_obstacle_of :: "gh_pr_view \<Rightarrow> merge_obstacle" where
  "merge_obstacle_of pr =
     (if gv_mergeable pr = GhConflicting \<or> gv_merge_state_status pr = ''DIRTY'' then ObstacleConflicts
      else if gv_merge_state_status pr = ''BLOCKED'' \<or> gv_merge_state_status pr = ''UNSTABLE'' then ObstacleChecksFailing
      else ObstacleUnknown)"

definition classifyPrView :: "gh_pr_view \<Rightarrow> pr_state" where
  "classifyPrView pr =
     (case gv_state pr of
        GhMerged \<Rightarrow> AlreadyMerged (gv_merged_at pr)
      | GhClosed \<Rightarrow> ClosedUnmerged
      | GhOpen \<Rightarrow>
          if gv_mergeable pr \<noteq> GhMergeable \<or> gv_merge_state_status pr \<noteq> ''CLEAN'' then OpenNotMergeable (merge_obstacle_of pr)
          else (case gv_review_threads pr of
                  None \<Rightarrow> OpenMergeableThreadsUnknown
                | Some threads \<Rightarrow>
                    (let unresolved = List.map_filter toReviewThread (filter (\<lambda>t. \<not> gt_resolved t) threads)
                     in if unresolved \<noteq> [] then OpenMergeableUnresolved unresolved else OpenMergeableClean)))"

section \<open>Merging a cohort\<close>

record merge_body =
  mb_confirm_unresolved :: bool
  mb_confirm_closed :: bool
  mb_confirm_threads_unknown :: bool

datatype merge_outcome =
    OutcomeAlreadyDone
  | OutcomeMergedAlready "string option"
  | OutcomeMergedNow
  | OutcomeConfirmUnresolved "review_thread list"
  | OutcomeConfirmThreadsUnknown
  | OutcomeNotMergeable merge_obstacle
  | OutcomeConfirmClosed

text \<open>The route up to \<open>gh.fetchPrState\<close>: it only reads. \<open>Inr\<close> is the link it goes on with.\<close>

definition merge_begin :: "string \<Rightarrow> tracker \<Rightarrow> merge_outcome reply + string" where
  "merge_begin cohort_id db =
     (case getCohort db cohort_id of
        None \<Rightarrow> Inl (Failure 404 ''not found'')
      | Some cohort \<Rightarrow>
          if isCohortEpicArchived db cohort_id then Inl (Failure 409 ''epic is archived'')
          else if kc_status cohort = CohortDone then Inl (Reply 200 OutcomeAlreadyDone)
          else if kc_status cohort \<noteq> CohortAwaitingMerge then Inl (Failure 409 ''merge only allowed from awaiting_merge status'')
          else (case getLatestBriefByCohort db cohort_id of
                  None \<Rightarrow> Inl (Failure 409 ''cohort has no brief with pr_url'')
                | Some brief \<Rightarrow>
                    (case kb_pr_url brief of
                       None \<Rightarrow> Inl (Failure 409 ''cohort has no brief with pr_url'')
                     | Some url \<Rightarrow>
                         if url = '''' then Inl (Failure 409 ''cohort has no brief with pr_url'')
                         else (case parsePrUrl url of
                                 Inl e \<Rightarrow> Inl (Failure 422 ''malformed pr_url in brief'')
                               | Inr parsed \<Rightarrow> Inr url))))"

text \<open>What the route does with the pull request's state: ask, refuse, or merge and finish.\<close>

datatype merge_step = AnswerWith merge_outcome | FinishOnly merge_outcome | MergeThenFinish

definition merge_decision :: "merge_body \<Rightarrow> pr_state \<Rightarrow> merge_step" where
  "merge_decision body st =
     (case st of
        AlreadyMerged at \<Rightarrow> FinishOnly (OutcomeMergedAlready at)
      | OpenMergeableClean \<Rightarrow> MergeThenFinish
      | OpenMergeableUnresolved threads \<Rightarrow>
          if mb_confirm_unresolved body then MergeThenFinish else AnswerWith (OutcomeConfirmUnresolved threads)
      | OpenMergeableThreadsUnknown \<Rightarrow>
          if mb_confirm_threads_unknown body then MergeThenFinish else AnswerWith OutcomeConfirmThreadsUnknown
      | OpenNotMergeable reason \<Rightarrow> AnswerWith (OutcomeNotMergeable reason)
      | ClosedUnmerged \<Rightarrow>
          if mb_confirm_closed body then FinishOnly (OutcomeMergedAlready None) else AnswerWith OutcomeConfirmClosed)"

text \<open>\<open>applyAndEmit\<close>, and the answer when the cohort moved on meanwhile.\<close>

definition merge_finish :: "string \<Rightarrow> merge_outcome \<Rightarrow> tracker \<Rightarrow> merge_outcome handled" where
  "merge_finish cohort_id outcome db =
     (case applyAwaitingMergeToMerged cohort_id db of
        None \<Rightarrow> refuse 500 ''Internal Server Error'' db
      | Some (c, None, db1) \<Rightarrow>
          if kc_status c = CohortDone then (db1, [], Reply 200 OutcomeAlreadyDone)
          else refuse 409 ''cohort status changed during merge'' db1
      | Some (c, Some em, db1) \<Rightarrow>
          (case emit_all (CohortPrMerged cohort_id # done_events cohort_id (mg_build_ready em)
                 @ (case mg_plan_completed em of None \<Rightarrow> [] | Some plan_id \<Rightarrow> [PlanCompleted plan_id])) db1 of
             (db2, reqs) \<Rightarrow> (db2, reqs, Reply 200 outcome)))"

text \<open>
  The route when nothing else runs while it waits for GitHub; \<open>fetch\<close> and \<open>merge\<close> are the two calls
  of the gateway. The steps of \<open>TrackerProps\<close> let other routes run before \<open>merge_finish\<close>.
\<close>

definition post_merge ::
    "(string \<Rightarrow> string + pr_state) \<Rightarrow> (string \<Rightarrow> string + unit) \<Rightarrow> string \<Rightarrow> merge_body \<Rightarrow> tracker \<Rightarrow> merge_outcome handled" where
  "post_merge fetch merge cohort_id body db =
     (case merge_begin cohort_id db of
        Inl reply \<Rightarrow> (db, [], reply)
      | Inr url \<Rightarrow>
          (case fetch url of
             Inl e \<Rightarrow> refuse 502 ''gh failed'' db
           | Inr st \<Rightarrow>
               (case merge_decision body st of
                  AnswerWith outcome \<Rightarrow> (db, [], Reply 200 outcome)
                | FinishOnly outcome \<Rightarrow> merge_finish cohort_id outcome db
                | MergeThenFinish \<Rightarrow>
                    (case merge url of
                       Inl e \<Rightarrow> refuse 502 ''gh failed'' db
                     | Inr u \<Rightarrow> merge_finish cohort_id OutcomeMergedNow db))))"

section \<open>Briefs\<close>

definition post_brief :: "string \<Rightarrow> string \<Rightarrow> string \<Rightarrow> brief_payload \<Rightarrow> string option \<Rightarrow> tracker \<Rightarrow> kbrief handled" where
  "post_brief now i cohort_id payload model db =
     (if isCohortEpicArchived db cohort_id then archived_reply db
      else case insertBrief now i cohort_id model None payload db of
             Inl msg \<Rightarrow> if msg = foreign_key_failed then refuse 404 ''cohort not found'' db else refuse 500 ''internal server error'' db
           | Inr (brief, db1) \<Rightarrow>
               (case emit (BriefSubmittedEv i cohort_id) db1 of (db2, reqs) \<Rightarrow> (db2, reqs, Reply 201 brief)))"

definition no_brief_fields :: "brief_fields \<Rightarrow> bool" where
  "no_brief_fields fs \<longleftrightarrow> bf_goal fs = None \<and> bf_files_in_scope fs = None \<and> bf_decisions_made fs = None \<and>
     bf_approaches_rejected fs = None \<and> bf_next_action fs = None \<and> bf_model fs = None"

definition patch_brief :: "string \<Rightarrow> brief_fields \<Rightarrow> tracker \<Rightarrow> kbrief handled" where
  "patch_brief i fs db =
     (if no_brief_fields fs then refuse 400 ''at least one mutable field is required'' db
      else if isBriefEpicArchived db i then archived_reply db
      else update_reply (updateBriefFields i fs db))"

definition patch_debrief :: "string \<Rightarrow> string \<Rightarrow> string option \<Rightarrow> kdeviation list option \<Rightarrow> tracker \<Rightarrow> kbrief handled" where
  "patch_debrief i debrief pr_url deviations db =
     (if isBriefEpicArchived db i then archived_reply db
      else update_reply (updateBriefDebrief i debrief pr_url deviations db))"

datatype approval_request = AskApproved | AskRejected "string option"

definition blank_reason :: "string option \<Rightarrow> bool" where
  "blank_reason reason \<longleftrightarrow> (case reason of None \<Rightarrow> True | Some r \<Rightarrow> js_trim r = '''')"

fun cohort_transition_reply :: "cohort_transition_result \<Rightarrow> 'a reply" where
  "cohort_transition_reply (TransitionNotFound i e) = Failure 404 ''cohort not found''"
| "cohort_transition_reply (TransitionInvalid i e current detail) = Rejected detail current (cohort_event_name e)"
| "cohort_transition_reply (TransitionOk c f t) = Failure 409 ''cohort transition failed''"

text \<open>\<open>updated\<close> of a route: the row as read back, \<open>null\<close> when it is gone.\<close>

definition brief_reply :: "tracker \<Rightarrow> string \<Rightarrow> kbrief option reply" where
  "brief_reply db i = Reply 200 (getBrief db i)"

definition patch_brief_status :: "string \<Rightarrow> approval_request \<Rightarrow> tracker \<Rightarrow> kbrief option handled" where
  "patch_brief_status brief_id req db =
     (if (case req of AskApproved \<Rightarrow> False | AskRejected reason \<Rightarrow> blank_reason reason)
      then refuse 400 ''reason is required when rejecting a brief'' db
      else if isBriefEpicArchived db brief_id then archived_reply db
      else case getBrief db brief_id of
             None \<Rightarrow> refuse 404 ''not found'' db
           | Some brief \<Rightarrow>
               if kb_status brief \<noteq> BriefPendingApproval then refuse 409 ''brief is not in pending_approval'' db
               else (case req of
                  AskApproved \<Rightarrow>
                    (case map_of (BRIEF_TRANSITIONS (kb_status brief)) BriefApprove of
                       None \<Rightarrow> refuse 409 ''transition not defined'' db
                     | Some nextStatus \<Rightarrow>
                         (let depsMet = (countUnmetDependencies db (kb_cohort_id brief) = 0);
                              event = (if depsMet then BriefApprovedDepsMet else BriefApprovedDepsPending)
                          in case transitionCohort (kb_cohort_id brief) event db of
                               (TransitionOk c f t, db1) \<Rightarrow>
                                 (case freeze ''build_brief'' brief_id (update_brief brief_id (\<lambda>r. r\<lparr>kb_status := nextStatus\<rparr>) db1) of
                                    (frozen, db2) \<Rightarrow>
                                      (case emit_all (map ReviewEv frozen @ [BriefApprovedEv brief_id (kb_cohort_id brief)]
                                             @ (if depsMet then [CohortBuildReady (kb_cohort_id brief) brief_id] else [])) db2 of
                                         (db3, reqs) \<Rightarrow> (db3, reqs, brief_reply db2 brief_id)))
                             | (failed, db1) \<Rightarrow> (db, [], cohort_transition_reply failed)))
                | AskRejected reason \<Rightarrow>
                    (case map_of (BRIEF_TRANSITIONS (kb_status brief)) BriefReject of
                       None \<Rightarrow> refuse 409 ''transition not defined'' db
                     | Some nextStatus \<Rightarrow>
                         (case transitionCohort (kb_cohort_id brief) BriefRejected db of
                            (TransitionOk c f t, db1) \<Rightarrow>
                              (let db2 = update_brief brief_id (\<lambda>r. r\<lparr>kb_status := nextStatus, kb_rejection_reason := reason\<rparr>) db1
                               in case emit (BriefRejectedEv brief_id (kb_cohort_id brief)) db2 of
                                    (db3, reqs) \<Rightarrow> (db3, reqs, brief_reply db2 brief_id))
                          | (failed, db1) \<Rightarrow> (db, [], cohort_transition_reply failed)))))"

definition payload_of :: "kbrief \<Rightarrow> brief_payload" where
  "payload_of b = \<lparr>bp_goal = kb_goal b, bp_files_in_scope = kb_files_in_scope b, bp_decisions_made = kb_decisions_made b,
     bp_approaches_rejected = kb_approaches_rejected b, bp_next_action = kb_next_action b\<rparr>"

definition post_brief_reopen :: "string \<Rightarrow> string \<Rightarrow> string \<Rightarrow> string option \<Rightarrow> tracker \<Rightarrow> kbrief handled" where
  "post_brief_reopen now new_id old_id model db =
     (if isBriefEpicArchived db old_id then archived_reply db
      else case getBrief db old_id of
             None \<Rightarrow> refuse 404 ''not found'' db
           | Some old \<Rightarrow>
               if kb_status old \<noteq> BriefApprovedSt \<and> kb_status old \<noteq> BriefRejectedSt
               then refuse 409 ''brief must be in approved or rejected to reopen'' db
               else (case insertBrief now new_id (kb_cohort_id old) (coalesce model (kb_model old)) (Some old_id) (payload_of old) db of
                       Inl msg \<Rightarrow> refuse 500 ''internal server error'' db
                     | Inr (brief, db1) \<Rightarrow>
                         (case unfreeze ''build_brief'' old_id db1 of
                            (reopened, db2) \<Rightarrow>
                              (let db3 = update_brief old_id (\<lambda>r. r\<lparr>kb_status := BriefSuperseded\<rparr>) db2
                               in case emit_all (map ReviewEv reopened @ [BriefSubmittedEv new_id (kb_cohort_id old)]) db3 of
                                    (db4, reqs) \<Rightarrow> (db4, reqs, Reply 201 brief)))))"

end
