(* ===== verification/PlanRoutes.thy ===== *)
theory PlanRoutes
  imports TrackerRoutes
begin

text \<open>
  The routes of plans, epics, specs, discrepancies, assessments and projects, and of the review
  surface: comment threads, atom edits and frozen artifacts.
\<close>

section \<open>Plans\<close>

definition post_plan :: "string \<Rightarrow> string \<Rightarrow> string \<Rightarrow> string option \<Rightarrow> tracker \<Rightarrow> kplan handled" where
  "post_plan now i spec_id model db =
     (if isSpecEpicArchived db spec_id then archived_reply db
      else insert_reply ''spec not found'' (insertPlan now i spec_id model None db) db)"

definition patch_plan :: "string \<Rightarrow> string option option \<Rightarrow> tracker \<Rightarrow> kplan handled" where
  "patch_plan i model db =
     (if model = None then refuse 400 ''at least one mutable field is required'' db
      else if isPlanEpicArchived db i then archived_reply db
      else update_reply (updatePlanFields i model db))"

definition post_plan_submit :: "string \<Rightarrow> tracker \<Rightarrow> kplan handled" where
  "post_plan_submit plan_id db =
     (if isPlanEpicArchived db plan_id then archived_reply db
      else case getPlan db plan_id of
             None \<Rightarrow> refuse 404 ''not found'' db
           | Some plan \<Rightarrow>
               if kp_status plan \<noteq> PlanDraft then refuse 409 ''plan is not in draft'' db
               else (case map_of (PLAN_TRANSITIONS (kp_status plan)) PlanSubmit of
                       None \<Rightarrow> refuse 409 ''transition not defined'' db
                     | Some nextStatus \<Rightarrow>
                         if filter (\<lambda>c. kc_plan_id c = plan_id) (tk_cohorts db) = []
                         then refuse 409 ''plan must have at least one cohort before it can be submitted'' db
                         else (let db1 = update_plan plan_id (\<lambda>r. r\<lparr>kp_status := nextStatus\<rparr>) db
                               in case getPlan db1 plan_id of
                                    None \<Rightarrow> refuse 500 ''internal server error'' db1
                                  | Some updated \<Rightarrow> (db1, [], Reply 200 updated))))"

text \<open>The waiting cohorts of an approved plan go straight to briefing.\<close>

definition promote_one :: "string \<Rightarrow> tracker \<times> string list \<Rightarrow> tracker \<times> string list" where
  "promote_one cohort_id s =
     (case s of (db, started) \<Rightarrow>
        case transitionCohort cohort_id PlanApproved db of
          (TransitionOk c f t, db1) \<Rightarrow> (db1, started @ [cohort_id])
        | (_, db1) \<Rightarrow> (db1, started))"

definition promote_waiting :: "string \<Rightarrow> tracker \<Rightarrow> tracker \<times> string list" where
  "promote_waiting plan_id db =
     fold promote_one (map kc_id (filter (\<lambda>c. kc_plan_id c = plan_id \<and> kc_status c = CohortWaiting) (tk_cohorts db))) (db, [])"

definition approve_plan :: "kplan \<Rightarrow> plan_status \<Rightarrow> tracker \<Rightarrow> review_event list \<times> string list \<times> tracker" where
  "approve_plan plan nextStatus db =
     (let plan_id = kp_id plan;
          db1 = update_plan plan_id (\<lambda>r. r\<lparr>kp_status := nextStatus\<rparr>) db
      in case freeze ''plan'' plan_id db1 of (frozen, db2) \<Rightarrow>
           (let db3 = (case getEpicBySpec db2 (kp_spec_id plan) of
                         None \<Rightarrow> db2
                       | Some epic \<Rightarrow> advance_logged (ke_id epic) (StageEvent EpicPlanApproved) db2)
            in case promote_waiting plan_id db3 of (db4, started) \<Rightarrow> (frozen, started, db4)))"

definition patch_plan_status :: "string \<Rightarrow> approval_request \<Rightarrow> tracker \<Rightarrow> kplan handled" where
  "patch_plan_status plan_id req db =
     (if (case req of AskApproved \<Rightarrow> False | AskRejected reason \<Rightarrow> blank_reason reason)
      then refuse 400 ''reason is required when rejecting a plan'' db
      else if isPlanEpicArchived db plan_id then archived_reply db
      else case getPlan db plan_id of
             None \<Rightarrow> refuse 404 ''not found'' db
           | Some plan \<Rightarrow>
               if kp_status plan \<noteq> PlanPendingApproval then refuse 409 ''plan is not in pending_approval'' db
               else (case req of
                  AskApproved \<Rightarrow>
                    (case map_of (PLAN_TRANSITIONS (kp_status plan)) PlanApprove of
                       None \<Rightarrow> refuse 409 ''transition not defined'' db
                     | Some nextStatus \<Rightarrow>
                         (case approve_plan plan nextStatus db of
                            (frozen, started, db1) \<Rightarrow>
                              (case getPlan db1 plan_id of
                                 None \<Rightarrow> refuse 500 ''internal server error'' db1
                               | Some updated \<Rightarrow>
                                   (case emit_all (map ReviewEv frozen @ [PlanApprovedEv plan_id (kp_spec_id plan)]
                                          @ map CohortBriefingStarted started) db1 of
                                      (db2, reqs) \<Rightarrow> (db2, reqs, Reply 200 updated)))))
                | AskRejected reason \<Rightarrow>
                    (case map_of (PLAN_TRANSITIONS (kp_status plan)) PlanReject of
                       None \<Rightarrow> refuse 409 ''transition not defined'' db
                     | Some nextStatus \<Rightarrow>
                         (let db1 = update_plan plan_id (\<lambda>r. r\<lparr>kp_status := nextStatus, kp_rejection_reason := reason\<rparr>) db
                          in case getPlan db1 plan_id of
                               None \<Rightarrow> refuse 500 ''internal server error'' db1
                             | Some updated \<Rightarrow>
                                 (case emit (PlanRejectedEv plan_id (kp_spec_id plan)) db1 of
                                    (db2, reqs) \<Rightarrow> (db2, reqs, Reply 200 updated))))))"

definition post_plan_reopen :: "string \<Rightarrow> string \<Rightarrow> string \<Rightarrow> string option \<Rightarrow> tracker \<Rightarrow> kplan option handled" where
  "post_plan_reopen now new_id old_id model db =
     (if isPlanEpicArchived db old_id then archived_reply db
      else case getPlan db old_id of
             None \<Rightarrow> refuse 404 ''not found'' db
           | Some old \<Rightarrow>
               if kp_status old \<noteq> PlanApprovedSt \<and> kp_status old \<noteq> PlanRejectedSt
               then refuse 409 ''plan must be in approved or rejected to reopen'' db
               else (case insertPlan now new_id (kp_spec_id old) (coalesce model (kp_model old)) (Some old_id) db of
                       Inl msg \<Rightarrow> refuse 500 ''internal server error'' db
                     | Inr (plan, db1) \<Rightarrow>
                         (let db2 = update_plan new_id (\<lambda>r. r\<lparr>kp_status := PlanPendingApproval\<rparr>) db1;
                              newPlan = getPlan db2 new_id
                          in case unfreeze ''plan'' old_id db2 of
                               (reopened, db3) \<Rightarrow>
                                 (let db4 = update_plan old_id (\<lambda>r. r\<lparr>kp_status := PlanSuperseded\<rparr>) db3
                                  in case emit_all (map ReviewEv reopened) db4 of
                                       (db5, reqs) \<Rightarrow> (db5, reqs, Reply 201 newPlan)))))"

section \<open>Epics\<close>

text \<open>\<open>PATCH /epics/:id/status\<close>: archive when the flag is set, unarchive otherwise.\<close>

definition patch_epic_status :: "string \<Rightarrow> bool \<Rightarrow> tracker \<Rightarrow> kepic handled" where
  "patch_epic_status i archive db =
     (case getEpic db i of
        None \<Rightarrow> refuse 404 ''not found'' db
      | Some epic \<Rightarrow>
          if archive \<and> ke_status epic = EpicStArchived then refuse 409 ''epic is already archived'' db
          else if \<not> archive \<and> ke_status epic \<noteq> EpicStArchived then refuse 409 ''epic is not archived; cannot unarchive'' db
          else (case advanceEpicByEvent i (LifecycleEvent (if archive then EpicArchive else EpicUnarchive)) db of
                  Inl e \<Rightarrow> refuse 500 ''internal server error'' db
                | Inr (None, db1) \<Rightarrow> refuse 404 ''not found'' db1
                | Inr (Some updated, db1) \<Rightarrow>
                    (case emit (if archive then EpicArchived i else EpicUnarchived i) db1 of
                       (db2, reqs) \<Rightarrow> (db2, reqs, Reply 200 updated))))"

text \<open>
  The cascade of \<open>DELETE /epics/:id\<close>: the rows under the epic's spec, deepest first. Foreign keys from rows
  outside the cascade would make it fail: a brief or a plan outside it whose predecessor is inside it.
\<close>

definition cascade_blocked :: "string list \<Rightarrow> string list \<Rightarrow> tracker \<Rightarrow> bool" where
  "cascade_blocked planIds cohortIds db \<longleftrightarrow>
     list_ex (\<lambda>b. kb_cohort_id b \<notin> set cohortIds \<and>
       (case kb_predecessor b of None \<Rightarrow> False
        | Some p \<Rightarrow> list_ex (\<lambda>b'. kb_id b' = p \<and> kb_cohort_id b' \<in> set cohortIds) (tk_briefs db))) (tk_briefs db) \<or>
     list_ex (\<lambda>pl. kp_id pl \<notin> set planIds \<and>
       (case kp_predecessor pl of None \<Rightarrow> False | Some p \<Rightarrow> p \<in> set planIds)) (tk_plans db)"

definition delete_epic :: "string \<Rightarrow> tracker \<Rightarrow> unit handled" where
  "delete_epic i db =
     (case getEpic db i of
        None \<Rightarrow> refuse 404 ''not found'' db
      | Some epic \<Rightarrow>
          (let spec_id = ke_spec_id epic;
               planIds = map kp_id (filter (\<lambda>p. kp_spec_id p = spec_id) (tk_plans db));
               cohortIds = map kc_id (filter (\<lambda>c. kc_plan_id c \<in> set planIds) (tk_cohorts db))
           in if cascade_blocked planIds cohortIds db then refuse 500 ''internal server error'' db
              else (db\<lparr>tk_briefs := filter (\<lambda>b. kb_cohort_id b \<notin> set cohortIds) (tk_briefs db),
                       tk_dependencies := filter (\<lambda>d. kd_from d \<notin> set cohortIds \<and> kd_to d \<notin> set cohortIds) (tk_dependencies db),
                       tk_cohorts := filter (\<lambda>c. kc_id c \<notin> set cohortIds) (tk_cohorts db),
                       tk_assessments := filter (\<lambda>a. ka_plan_id a \<notin> set planIds) (tk_assessments db),
                       tk_plans := filter (\<lambda>p. kp_id p \<notin> set planIds) (tk_plans db),
                       tk_discrepancies := filter (\<lambda>x. kx_spec_id x \<noteq> spec_id) (tk_discrepancies db),
                       tk_epics := filter (\<lambda>e. ke_id e \<noteq> i) (tk_epics db),
                       tk_specs := filter (\<lambda>s. ks_id s \<noteq> spec_id) (tk_specs db)\<rparr>,
                    [], Reply 204 ())))"

section \<open>Specs and discrepancies\<close>

text \<open>
  \<open>validateModelSelection\<close>; \<open>isAllowedModelForRuntime\<close> without a descriptor accepts a non-empty model. The
  message for an unregistered runtime goes on with a dash and the two registered names.
\<close>

definition validateModelSelection :: "string \<Rightarrow> model_selection \<Rightarrow> string + model_selection" where
  "validateModelSelection role selection =
     (let runtime = js_trim (ms_runtime selection); model = js_trim (ms_model selection); q = [CHR 0x22]
      in if runtime = '''' then Inl (role @ '' runtime must not be empty'')
         else if runtime \<noteq> ''claude-code'' \<and> runtime \<noteq> ''codex''
         then Inl (role @ '' runtime '' @ q @ runtime @ q @ '' is not registered'')
         else if model = '''' then Inl (role @ '' model must not be empty for runtime '' @ q @ runtime @ q)
         else (case ms_effort selection of
                 None \<Rightarrow> Inr \<lparr>ms_runtime = runtime, ms_model = model, ms_effort = None\<rparr>
               | Some e \<Rightarrow>
                   (let effort = js_trim e
                    in if effort = '''' then Inl (role @ '' effort must not be empty for runtime '' @ q @ runtime @ q)
                       else Inr \<lparr>ms_runtime = runtime, ms_model = model, ms_effort = Some effort\<rparr>)))"

text \<open>
  \<open>POST /specs\<close>. \<open>notes\<close> is what the route has resolved: the text of the request, or what reading
  \<open>notesPath\<close> inside the project's repository gave, \<open>Inl\<close> when that was refused.
\<close>

definition post_spec ::
    "string \<Rightarrow> string \<Rightarrow> string \<Rightarrow> string \<Rightarrow> string \<Rightarrow> model_selection \<Rightarrow> model_selection \<Rightarrow> (nat \<times> string) + string option \<Rightarrow> tracker \<Rightarrow>
     (kspec \<times> string) handled" where
  "post_spec now i epic_id project_id title planner worker notes db =
     (case validateModelSelection ''planner'' planner of
        Inl e \<Rightarrow> refuse 400 e db
      | Inr plannerSelection \<Rightarrow>
          (case validateModelSelection ''worker'' worker of
             Inl e \<Rightarrow> refuse 400 e db
           | Inr workerSelection \<Rightarrow>
               (case notes of
                  Inl se \<Rightarrow> refuse (fst se) (snd se) db
                | Inr resolvedNotes \<Rightarrow>
                    (case bind_result (insertSpec now i project_id title resolvedNotes db) (\<lambda>(s, db1).
                            bind_result (insertEpic now epic_id i project_id title EpicStPending StageSpec plannerSelection workerSelection db1)
                              (\<lambda>(e, db2). Inr (s, db2))) of
                       Inl msg \<Rightarrow> if msg = foreign_key_failed then refuse 404 ''project not found'' db
                                   else refuse 500 ''internal server error'' db
                     | Inr (s, db2) \<Rightarrow>
                         (case emit (SpecCreated i) db2 of (db3, reqs) \<Rightarrow> (db3, reqs, Reply 201 (s, epic_id)))))))"

definition patch_spec :: "string \<Rightarrow> string option \<Rightarrow> string option option \<Rightarrow> tracker \<Rightarrow> kspec handled" where
  "patch_spec i title notes db =
     (if title = None \<and> notes = None then refuse 400 ''at least one mutable field is required'' db
      else if isSpecEpicArchived db i then archived_reply db
      else update_reply (updateSpecFields i title notes db))"

definition SPEC_INTERNAL_TRANSITIONS :: "(spec_internal_status \<times> spec_internal_status) list" where
  "SPEC_INTERNAL_TRANSITIONS =
     [(SpecAnalyzing, SpecDiscrepancies), (SpecDiscrepancies, SpecReview), (SpecReview, SpecApprovedSt)]"

definition final_notes_of :: "tracker \<Rightarrow> kspec \<Rightarrow> string option" where
  "final_notes_of db spec =
     (let amendments = renderSpecAmendments (listResolvedDiscrepanciesBySpec db (ks_id spec))
      in if amendments = '''' then ks_notes spec else Some (case_option '''' id (ks_notes spec) @ amendments))"

definition patch_spec_internal_status :: "string \<Rightarrow> spec_internal_status \<Rightarrow> tracker \<Rightarrow> kspec option handled" where
  "patch_spec_internal_status spec_id requested db =
     (if isSpecEpicArchived db spec_id then archived_reply db
      else case getSpec db spec_id of
             None \<Rightarrow> refuse 404 ''not found'' db
           | Some spec \<Rightarrow>
               if (ks_internal_status spec, requested) \<notin> set SPEC_INTERNAL_TRANSITIONS
               then refuse 409 ''invalid internal_status transition'' db
               else if (requested = SpecReview \<or> requested = SpecApprovedSt) \<and> 0 < countOpenDiscrepancies db spec_id
               then refuse 409 ''cannot advance while open discrepancies exist'' db
               else if requested = SpecApprovedSt then
                 (case getEpicBySpec db spec_id of
                    None \<Rightarrow> refuse 409 ''cannot approve spec without an epic'' db
                  | Some epic \<Rightarrow>
                      (let db1 = update_spec spec_id (\<lambda>r. r\<lparr>ks_internal_status := SpecApprovedSt, ks_final_notes := final_notes_of db spec\<rparr>) db
                       in case emit (SpecApproved spec_id (ke_id epic)) db1 of
                            (db2, reqs) \<Rightarrow> (db2, reqs, Reply 200 (getSpec db1 spec_id))))
               else (let db1 = update_spec spec_id (\<lambda>r. r\<lparr>ks_internal_status := requested\<rparr>) db
                     in case emit_all (if requested = SpecDiscrepancies then [SpecAnalysisComplete spec_id] else []) db1 of
                          (db2, reqs) \<Rightarrow> (db2, reqs, Reply 200 (getSpec db1 spec_id))))"

definition post_discrepancy :: "string \<Rightarrow> string \<Rightarrow> string \<Rightarrow> string \<Rightarrow> string \<Rightarrow> tracker \<Rightarrow> kdiscrepancy handled" where
  "post_discrepancy now i spec_id assumption reality db =
     (if isSpecEpicArchived db spec_id then archived_reply db
      else insert_reply ''spec not found'' (insertSpecDiscrepancy now i spec_id assumption reality None DiscOpen db) db)"

definition patch_discrepancy :: "string \<Rightarrow> string \<Rightarrow> discrepancy_status \<Rightarrow> tracker \<Rightarrow> kdiscrepancy handled" where
  "patch_discrepancy i resolution status db =
     (case getSpecDiscrepancy db i of
        None \<Rightarrow> refuse 404 ''not found'' db
      | Some existing \<Rightarrow>
          if isSpecEpicArchived db (kx_spec_id existing) then archived_reply db
          else if kx_status existing \<noteq> DiscOpen then refuse 409 ''discrepancy is not open'' db
          else update_reply (updateSpecDiscrepancy i (Some (Some resolution)) (Some status) db))"

definition delete_discrepancy :: "string \<Rightarrow> tracker \<Rightarrow> unit handled" where
  "delete_discrepancy i db =
     (case getSpecDiscrepancy db i of
        None \<Rightarrow> refuse 404 ''not found'' db
      | Some existing \<Rightarrow> (db\<lparr>tk_discrepancies := filter (\<lambda>x. kx_id x \<noteq> i) (tk_discrepancies db)\<rparr>, [], Reply 204 ()))"

section \<open>Assessments and projects\<close>

definition post_assessment ::
    "string \<Rightarrow> string \<Rightarrow> string \<Rightarrow> string \<Rightarrow> (string \<times> string \<times> kdeviation list) list \<Rightarrow> string \<Rightarrow> string \<Rightarrow> string option \<Rightarrow> tracker \<Rightarrow>
     kassessment handled" where
  "post_assessment now i plan_id summary catalog gap fix_plan model db =
     (if isPlanEpicArchived db plan_id then archived_reply db
      else case insertAssessment now i plan_id summary catalog gap fix_plan model db of
             Inl msg \<Rightarrow> if msg = foreign_key_failed then refuse 404 ''plan not found'' db else refuse 500 ''internal server error'' db
           | Inr (assessment, db1) \<Rightarrow> (advance_epic_of_plan plan_id EpicAssessDone db1, [], Reply 201 assessment))"

text \<open>\<open>path\<close> is the request's \<open>repo_path\<close> resolved to an absolute path.\<close>

definition post_project :: "string \<Rightarrow> string \<Rightarrow> string \<Rightarrow> string \<Rightarrow> tracker \<Rightarrow> kproject handled" where
  "post_project now i name path db =
     (case insertProject now i name path db of
        Inl msg \<Rightarrow> refuse 409 ''repo_path already exists'' db
      | Inr (project, db1) \<Rightarrow> (db1, [], Reply 201 project))"

section \<open>Reviews\<close>

text \<open>\<open>PLAN_ANCHOR_RE\<close> and \<open>BRIEF_ANCHOR_RE\<close>.\<close>

definition indexed :: "string \<Rightarrow> string \<Rightarrow> string \<Rightarrow> bool" where
  "indexed lead after s \<longleftrightarrow>
     is_prefix_of (lead @ ''['') s \<and>
     (let rest = drop (length lead + 1) s; n = digit_run rest
      in n \<noteq> '''' \<and> drop (length n) rest = '']'' @ after)"

definition edge_part :: "string \<Rightarrow> bool" where
  "edge_part s \<longleftrightarrow> s \<noteq> '''' \<and> CHR ''-'' \<notin> set s \<and> CHR ''>'' \<notin> set s"

definition plan_anchor :: "string \<Rightarrow> bool" where
  "plan_anchor s \<longleftrightarrow> indexed ''cohorts'' ''.title'' s \<or> indexed ''cohorts'' ''.notes'' s \<or>
     is_prefix_of ''edge:'' s \<and>
     (let rest = drop 5 s; src = takeWhile (\<lambda>c. c \<noteq> CHR ''-'' \<and> c \<noteq> CHR ''>'') rest; tail = drop (length src) rest
      in edge_part src \<and> is_prefix_of ''->'' tail \<and> edge_part (drop 2 tail))"

definition brief_anchor :: "string \<Rightarrow> bool" where
  "brief_anchor s \<longleftrightarrow> s = ''goal'' \<or> s = ''next_action'' \<or> indexed ''decisions_made'' ''.rationale'' s \<or>
     indexed ''approaches_rejected'' ''.reason'' s \<or> indexed ''files_in_scope'' '''' s"

text \<open>The two entries \<open>bootstrap\<close> registers: whether a target type is known, its anchor check, and existence.\<close>

definition review_target :: "string \<Rightarrow> string \<Rightarrow> string option \<Rightarrow> tracker \<Rightarrow> (nat \<times> string) option" where
  "review_target target_type target_id anchor db =
     (if target_type = ''plan'' then
        (if (case anchor of None \<Rightarrow> False | Some a \<Rightarrow> \<not> plan_anchor a)
         then Some (400, ''invalid plan anchor: '' @ case_option '''' id anchor)
         else if getPlan db target_id = None then Some (404, ''not found'') else None)
      else if target_type = ''build_brief'' then
        (if (case anchor of None \<Rightarrow> False | Some a \<Rightarrow> \<not> brief_anchor a)
         then Some (400, ''invalid build_brief anchor: '' @ case_option '''' id anchor)
         else if getBrief db target_id = None then Some (404, ''not found'') else None)
      else Some (409, ''unregistered target_type''))"

definition post_thread :: "string \<Rightarrow> string \<Rightarrow> string \<Rightarrow> string \<Rightarrow> string option \<Rightarrow> string option \<Rightarrow> tracker \<Rightarrow> kthread handled" where
  "post_thread now i target_type target_id anchor author db =
     (case review_target target_type target_id anchor db of
        Some se \<Rightarrow> refuse (fst se) (snd se) db
      | None \<Rightarrow>
          if artifact_isFrozen db target_type target_id then refuse 409 ''artifact is frozen'' db
          else (case insertThread now i target_type target_id anchor author db of
                  Inl msg \<Rightarrow> refuse 500 ''internal server error'' db
                | Inr (row, db1) \<Rightarrow> (db1, [], Reply 201 row)))"

definition post_message :: "string \<Rightarrow> string \<Rightarrow> string \<Rightarrow> string \<Rightarrow> string \<Rightarrow> tracker \<Rightarrow> kmessage handled" where
  "post_message now i thread_id author body db =
     (case getThread db thread_id of
        None \<Rightarrow> refuse 404 ''not found'' db
      | Some thread \<Rightarrow>
          (case insertMessage now i thread_id author body db of
             Inl msg \<Rightarrow> refuse 500 ''internal server error'' db
           | Inr (row, db1) \<Rightarrow> (db1, [], Reply 201 row)))"

definition patch_thread :: "string \<Rightarrow> tracker \<Rightarrow> kthread handled" where
  "patch_thread i db =
     (case getThread db i of
        None \<Rightarrow> refuse 404 ''not found'' db
      | Some thread \<Rightarrow>
          (case updateThreadStatus i db of
             (None, db1) \<Rightarrow> refuse 409 ''thread is already resolved'' db1
           | (Some updated, db1) \<Rightarrow> (db1, [], Reply 200 updated)))"

definition post_edit ::
    "string \<Rightarrow> string \<Rightarrow> string \<Rightarrow> string \<Rightarrow> string option \<Rightarrow> string option \<Rightarrow> string \<Rightarrow> string \<Rightarrow> tracker \<Rightarrow> kedit handled" where
  "post_edit now i target_type target_id anchor prev_value new_value author db =
     (case review_target target_type target_id anchor db of
        Some se \<Rightarrow> refuse (fst se) (snd se) db
      | None \<Rightarrow>
          if artifact_isFrozen db target_type target_id then refuse 409 ''artifact is frozen'' db
          else if prev_value \<noteq> getLiveValue db target_type target_id anchor then refuse 409 ''stale prev_value'' db
          else (case appendEdit now i target_type target_id anchor prev_value new_value author db of
                  Inl msg \<Rightarrow> refuse 500 ''internal server error'' db
                | Inr (row, db1) \<Rightarrow> (db1, [], Reply 201 row)))"

definition post_freeze :: "string \<Rightarrow> string \<Rightarrow> tracker \<Rightarrow> bool handled" where
  "post_freeze target_type target_id db =
     (case freeze target_type target_id db of (evs, db1) \<Rightarrow>
        case emit_all (map ReviewEv evs) db1 of (db2, reqs) \<Rightarrow> (db2, reqs, Reply 200 True))"

definition post_unfreeze :: "string \<Rightarrow> string \<Rightarrow> tracker \<Rightarrow> bool handled" where
  "post_unfreeze target_type target_id db =
     (case unfreeze target_type target_id db of (evs, db1) \<Rightarrow>
        case emit_all (map ReviewEv evs) db1 of (db2, reqs) \<Rightarrow> (db2, reqs, Reply 200 False))"

end
