(* ===== verification/DispatchLedger.thy ===== *)
theory DispatchLedger
  imports PlanRoutes
begin

text \<open>
  The durable dispatch ledger (\<open>db/dispatch-attempts.ts\<close>) and its settlement when sessions end and when
  the server boots (\<open>orchestrator/dispatch-reconciler.ts\<close>). Sessions are code outside this model: the
  ACP service's \<open>dispatchStatus\<close> and the legacy session manager are arguments.
\<close>

section \<open>Claims\<close>

definition pad_start3 :: "string \<Rightarrow> string" where
  "pad_start3 s = replicate (3 - length s) (CHR ''0'') @ s"

definition formatAttemptSuffix :: "nat \<Rightarrow> string" where
  "formatAttemptSuffix n = ''attempt-'' @ pad_start3 (nat_to_string n)"

definition active_status :: "dispatch_status \<Rightarrow> bool" where
  "active_status s \<longleftrightarrow> s = Dispatching \<or> s = Running"

definition attempt_key :: "kattempt \<Rightarrow> entity_kind \<times> string \<times> string" where
  "attempt_key a = (da_entity_kind a, da_entity_id a, da_stage a)"

definition attempts_of :: "tracker \<Rightarrow> entity_kind \<times> string \<times> string \<Rightarrow> kattempt list" where
  "attempts_of db key = filter (\<lambda>a. attempt_key a = key) (tk_attempts db)"

definition getAttempt :: "tracker \<Rightarrow> string \<Rightarrow> kattempt option" where
  "getAttempt db i = List.find (\<lambda>a. da_id a = i) (tk_attempts db)"

definition getActiveAttempt :: "tracker \<Rightarrow> entity_kind \<Rightarrow> string \<Rightarrow> string \<Rightarrow> kattempt option" where
  "getActiveAttempt db kind entity_id stage =
     List.find (\<lambda>a. active_status (da_status a)) (attempts_of db (kind, entity_id, stage))"

definition listActiveAttempts :: "tracker \<Rightarrow> kattempt list" where
  "listActiveAttempts db = sort_key da_created_at (filter (\<lambda>a. active_status (da_status a)) (tk_attempts db))"

datatype claim_result = Claimed kattempt | ClaimConflict kattempt

text \<open>
  The insert violates the primary key, or the partial unique index over the active attempts of an
  entity and stage; only the second leaves an active attempt to report, otherwise the error is rethrown.
\<close>

definition claimDispatch ::
    "string \<Rightarrow> string \<Rightarrow> entity_kind \<Rightarrow> string \<Rightarrow> string \<Rightarrow> string option \<Rightarrow> string option \<Rightarrow> tracker \<Rightarrow> string + claim_result \<times> tracker" where
  "claimDispatch now i kind entity_id stage epic_id cohort_id db =
     (let prevRow = latest_by da_attempt_number (attempts_of db (kind, entity_id, stage));
          row = \<lparr>da_id = i, da_entity_kind = kind, da_entity_id = entity_id, da_stage = stage, da_epic_id = epic_id,
                 da_cohort_id = cohort_id, da_attempt_number = case_option 0 da_attempt_number prevRow + 1, da_status = Dispatching,
                 da_intended_ref = None, da_actual_ref = None, da_branch_name = None, da_worktree_path = None,
                 da_predecessor = map_option da_id prevRow, da_last_error = None, da_recovery_hint = None,
                 da_created_at = now, da_updated_at = now\<rparr>
      in if list_ex (\<lambda>a. da_id a = i) (tk_attempts db) \<or> getActiveAttempt db kind entity_id stage \<noteq> None then
           (case getActiveAttempt db kind entity_id stage of
              None \<Rightarrow> Inl unique_failed
            | Some active \<Rightarrow> Inr (ClaimConflict active, db))
         else Inr (Claimed row, db\<lparr>tk_attempts := tk_attempts db @ [row]\<rparr>))"

section \<open>Settling an attempt\<close>

definition update_attempt :: "string \<Rightarrow> (kattempt \<Rightarrow> kattempt) \<Rightarrow> tracker \<Rightarrow> tracker" where
  "update_attempt i f db = db\<lparr>tk_attempts := map (\<lambda>a. if da_id a = i then f a else a) (tk_attempts db)\<rparr>"

definition updateAttemptBranchInfo :: "string \<Rightarrow> string \<Rightarrow> string option \<Rightarrow> string option \<Rightarrow> tracker \<Rightarrow> tracker" where
  "updateAttemptBranchInfo now i branch worktree db =
     update_attempt i (\<lambda>a. a\<lparr>da_branch_name := branch, da_worktree_path := worktree, da_updated_at := now\<rparr>) db"

text \<open>The update is refused by the partial unique index when another attempt of the key is active.\<close>

definition markAttemptRunning :: "string \<Rightarrow> string \<Rightarrow> string \<Rightarrow> tracker \<Rightarrow> string + tracker" where
  "markAttemptRunning now i ref db =
     (case getAttempt db i of
        None \<Rightarrow> Inr db
      | Some a \<Rightarrow>
          if list_ex (\<lambda>b. da_id b \<noteq> i \<and> active_status (da_status b)) (attempts_of db (attempt_key a)) then Inl unique_failed
          else Inr (update_attempt i (\<lambda>a. a\<lparr>da_status := Running, da_actual_ref := Some ref, da_updated_at := now\<rparr>) db))"

definition clear_spec_session :: "string \<Rightarrow> string \<Rightarrow> string \<Rightarrow> tracker \<Rightarrow> tracker" where
  "clear_spec_session i stage ref db =
     update_spec i (\<lambda>r. if ks_session_stage r = Some stage \<and> ks_session_ref r = Some ref
                        then r\<lparr>ks_session_ref := None, ks_session_stage := None\<rparr> else r) db"

definition clear_plan_session :: "string \<Rightarrow> string \<Rightarrow> string \<Rightarrow> tracker \<Rightarrow> tracker" where
  "clear_plan_session i stage ref db =
     update_plan i (\<lambda>r. if kp_session_stage r = Some stage \<and> kp_session_ref r = Some ref
                        then r\<lparr>kp_session_ref := None, kp_session_stage := None\<rparr> else r) db"

definition clear_cohort_session :: "string \<Rightarrow> string \<Rightarrow> string \<Rightarrow> tracker \<Rightarrow> tracker" where
  "clear_cohort_session i stage ref db =
     update_cohort i (\<lambda>r. if kc_session_stage r = Some stage \<and> kc_session_ref r = Some ref
                          then r\<lparr>kc_session_ref := None, kc_session_stage := None\<rparr> else r) db"

definition clearOwnerSessionRef :: "kattempt \<Rightarrow> tracker \<Rightarrow> tracker" where
  "clearOwnerSessionRef attempt db =
     (case da_actual_ref attempt of
        None \<Rightarrow> db
      | Some ref \<Rightarrow>
          if ref = '''' then db
          else (case da_entity_kind attempt of
                  EntitySpec \<Rightarrow> clear_spec_session (da_entity_id attempt) (da_stage attempt) ref db
                | EntityCohort \<Rightarrow> clear_cohort_session (da_entity_id attempt) (da_stage attempt) ref db
                | EntityPlan \<Rightarrow> clear_plan_session (da_entity_id attempt) (da_stage attempt) ref db
                | EntityBrief \<Rightarrow>
                    (case coalesce (da_cohort_id attempt) (map_option kb_cohort_id (getBrief db (da_entity_id attempt))) of
                       None \<Rightarrow> db
                     | Some cohort_id \<Rightarrow>
                         if cohort_id = '''' then db else clear_cohort_session cohort_id (da_stage attempt) ref db)))"

text \<open>What an update by identifier does with the owner's session reference afterwards.\<close>

definition settle_owner :: "kattempt option \<Rightarrow> tracker \<Rightarrow> tracker" where
  "settle_owner attempt db = (case attempt of None \<Rightarrow> db | Some a \<Rightarrow> clearOwnerSessionRef a db)"

definition failed_row :: "string \<Rightarrow> string \<Rightarrow> string option \<Rightarrow> kattempt \<Rightarrow> kattempt" where
  "failed_row now err hint a =
     a\<lparr>da_status := DispatchFailed, da_last_error := Some err,
       da_recovery_hint := Some (case_option ''Retry dispatch manually.'' id hint), da_updated_at := now\<rparr>"

definition markAttemptFailed :: "string \<Rightarrow> string \<Rightarrow> string \<Rightarrow> string option \<Rightarrow> tracker \<Rightarrow> tracker" where
  "markAttemptFailed now i err hint db = settle_owner (getAttempt db i) (update_attempt i (failed_row now err hint) db)"

definition markAttemptSucceeded :: "string \<Rightarrow> string \<Rightarrow> tracker \<Rightarrow> tracker" where
  "markAttemptSucceeded now i db =
     settle_owner (getAttempt db i) (update_attempt i (\<lambda>a. a\<lparr>da_status := DispatchSucceeded, da_updated_at := now\<rparr>) db)"

definition runs_session :: "string \<Rightarrow> kattempt \<Rightarrow> bool" where
  "runs_session ref a \<longleftrightarrow> da_actual_ref a = Some ref \<and> da_status a = Running"

text \<open>\<open>UPDATE ... WHERE actual_session_ref = ? AND status = 'running' RETURNING *\<close>: all such rows change, the first is returned.\<close>

definition settle_by_session_ref :: "string \<Rightarrow> (kattempt \<Rightarrow> kattempt) \<Rightarrow> tracker \<Rightarrow> kattempt option \<times> tracker" where
  "settle_by_session_ref ref f db =
     (let attempt = map_option f (List.find (runs_session ref) (tk_attempts db));
          db1 = db\<lparr>tk_attempts := map (\<lambda>a. if runs_session ref a then f a else a) (tk_attempts db)\<rparr>
      in (attempt, settle_owner attempt db1))"

definition markRunningAttemptFailedBySessionRef :: "string \<Rightarrow> string \<Rightarrow> string \<Rightarrow> string option \<Rightarrow> tracker \<Rightarrow> kattempt option \<times> tracker" where
  "markRunningAttemptFailedBySessionRef now ref err hint db = settle_by_session_ref ref (failed_row now err hint) db"

definition markRunningAttemptSucceededBySessionRef :: "string \<Rightarrow> string \<Rightarrow> tracker \<Rightarrow> kattempt option \<times> tracker" where
  "markRunningAttemptSucceededBySessionRef now ref db =
     settle_by_session_ref ref (\<lambda>a. a\<lparr>da_status := DispatchSucceeded, da_updated_at := now\<rparr>) db"

section \<open>The reconciler\<close>

datatype acp_dispatch_status = AcpRunning | AcpCompleted | AcpFailed

definition settleAttemptForEndedSession :: "(string \<Rightarrow> acp_dispatch_status option) \<Rightarrow> string \<Rightarrow> string \<Rightarrow> tracker \<Rightarrow> tracker" where
  "settleAttemptForEndedSession dispatchStatus now sid db =
     (case dispatchStatus sid of
        Some AcpCompleted \<Rightarrow> snd (markRunningAttemptSucceededBySessionRef now sid db)
      | Some AcpFailed \<Rightarrow>
          snd (markRunningAttemptFailedBySessionRef now sid (''session '' @ sid @ '' ended without completing its initial turn'') None db)
      | _ \<Rightarrow> db)"

text \<open>
  One attempt at boot. \<open>alive\<close>: the legacy manager knows the session and it has not ended. The dash of the last message
  is written in UTF-8.
\<close>

definition reconcile_one :: "(string \<Rightarrow> acp_dispatch_status option) \<Rightarrow> (string \<Rightarrow> bool) \<Rightarrow> string \<Rightarrow> kattempt \<Rightarrow> tracker \<Rightarrow> tracker" where
  "reconcile_one dispatchStatus alive now attempt db =
     (if da_status attempt = Dispatching then
        markAttemptFailed now (da_id attempt)
          ''spawn_not_observed_after_restart: process died between DB claim and session spawn''
          (Some ''Retry dispatch manually. The session was never started, so no duplicate work exists.'') db
      else
        (let ref = case_option ''(none)'' id (da_actual_ref attempt)
         in case dispatchStatus ref of
              Some AcpCompleted \<Rightarrow> markAttemptSucceeded now (da_id attempt) db
            | Some AcpFailed \<Rightarrow>
                markAttemptFailed now (da_id attempt)
                  (''session '' @ ref @ '' did not complete its initial turn (settled from the ACP record at restart)'')
                  (Some ''Retry dispatch manually.'') db
            | Some AcpRunning \<Rightarrow> db
            | None \<Rightarrow>
                if alive ref then db
                else markAttemptFailed now (da_id attempt)
                       (''session '' @ ref @ '' not found in session manager after restart '' @ [CHR 0xE2, CHR 0x80, CHR 0x94] @ '' state is unknown'')
                       (Some ''Verify the agent process externally. If it is not running, retry dispatch manually.'') db))"

definition reconcileDispatchAttempts :: "(string \<Rightarrow> acp_dispatch_status option) \<Rightarrow> (string \<Rightarrow> bool) \<Rightarrow> string \<Rightarrow> tracker \<Rightarrow> tracker" where
  "reconcileDispatchAttempts dispatchStatus alive now db =
     fold (reconcile_one dispatchStatus alive now) (listActiveAttempts db) db"

section \<open>Invariants of the ledger\<close>

text \<open>
  Identifiers are unique, an entity and stage has at most one active attempt, its attempts are
  numbered 1, 2, ... in the order they were claimed, and each follows the one before it.
\<close>

definition ledger_ok :: "tracker \<Rightarrow> bool" where
  "ledger_ok db \<longleftrightarrow> distinct (map da_id (tk_attempts db)) \<and>
     (\<forall>key. length (filter (\<lambda>a. active_status (da_status a)) (attempts_of db key)) \<le> 1 \<and>
            map da_attempt_number (attempts_of db key) = [1..<length (attempts_of db key) + 1])"

end
