(* ===== verification/Dispatcher.thy ===== *)
theory Dispatcher
  imports DispatchLedger
begin

text \<open>
  The dispatcher of \<open>orchestrator/backends/dispatcher.ts\<close>, the prompt template filler of
  \<open>prompt-loader.ts\<close>, and the two routes that start a dispatch by hand.

  \<^item> Prompt files, the git command line, the execution backend and the two texts with characters outside
    the strings represented here (arrows) are fields of \<open>dispatcher_env\<close>.
  \<^item> \<open>dispatch\<close> awaits the backend and git. It is cut there: \<open>dispatch_acquire\<close> runs up to and including the
    claim, \<open>dispatch_prepare\<close> up to the first git command, \<open>dispatch_prompt\<close> after it, and
    \<open>dispatch_spawned\<close> or \<open>dispatch_failed\<close> once the session exists or not.
\<close>

record dispatcher_env =
  dn_load_prompt :: "string \<Rightarrow> string option"
  dn_backends :: "string list"
  dn_kbbl_url :: string
  dn_collation :: "string \<Rightarrow> string"
  dn_arrow :: string
  dn_current_marker :: string
  dn_status :: "string \<Rightarrow> acp_dispatch_status"

section \<open>Stages\<close>

record stage_def =
  sg_name :: string
  sg_prompt :: string
  sg_input :: entity_kind
  sg_backend :: string

text \<open>The rows of \<open>stages\<close> the migrations leave.\<close>

definition stages :: "stage_def list" where
  "stages =
     [\<lparr>sg_name = ''plan_writer'', sg_prompt = ''plan_writer.md'', sg_input = EntitySpec, sg_backend = ''kbbl_chat''\<rparr>,
      \<lparr>sg_name = ''build'', sg_prompt = ''build.md'', sg_input = EntityBrief, sg_backend = ''kbbl_chat''\<rparr>,
      \<lparr>sg_name = ''brief_writer'', sg_prompt = ''brief_writer.md'', sg_input = EntityPlan, sg_backend = ''kbbl_chat''\<rparr>,
      \<lparr>sg_name = ''assessor'', sg_prompt = ''assessor.md'', sg_input = EntityPlan, sg_backend = ''kbbl_chat''\<rparr>,
      \<lparr>sg_name = ''spec_analyzer'', sg_prompt = ''spec_analyzer.md'', sg_input = EntitySpec, sg_backend = ''kbbl_chat''\<rparr>]"

definition getStage :: "string \<Rightarrow> stage_def option" where
  "getStage name = List.find (\<lambda>s. sg_name s = name) stages"

datatype stage_role = RolePlanner | RoleWorker

definition resolveStageRole :: "string \<Rightarrow> stage_role option" where
  "resolveStageRole name =
     map_of [(''spec_analyzer'', RolePlanner), (''plan_writer'', RolePlanner), (''brief_writer'', RolePlanner),
             (''assessor'', RolePlanner), (''build'', RoleWorker)] name"

definition modelSelectionForEpicStage :: "kepic \<Rightarrow> string \<Rightarrow> string + model_selection" where
  "modelSelectionForEpicStage epic name =
     (case resolveStageRole name of
        None \<Rightarrow> Inl (''unknown stage '' @ [CHR 0x22] @ name)
      | Some RolePlanner \<Rightarrow> Inr (ke_planner epic)
      | Some RoleWorker \<Rightarrow> Inr (ke_worker epic))"

section \<open>Joins along specs, plans, cohorts and briefs\<close>

definition spec_of_plan :: "tracker \<Rightarrow> string \<Rightarrow> kspec option" where
  "spec_of_plan db plan_id = Option.bind (getPlan db plan_id) (\<lambda>p. getSpec db (kp_spec_id p))"

definition spec_of_cohort :: "tracker \<Rightarrow> string \<Rightarrow> kspec option" where
  "spec_of_cohort db cohort_id = Option.bind (getCohort db cohort_id) (\<lambda>c. spec_of_plan db (kc_plan_id c))"

definition spec_of_brief :: "tracker \<Rightarrow> string \<Rightarrow> kspec option" where
  "spec_of_brief db brief_id = Option.bind (getBrief db brief_id) (\<lambda>b. spec_of_cohort db (kb_cohort_id b))"

text \<open>The spec an entity belongs to, and through it the project's repository and the epic.\<close>

fun spec_of_entity :: "tracker \<Rightarrow> entity_kind \<Rightarrow> string \<Rightarrow> kspec option" where
  "spec_of_entity db EntitySpec i = getSpec db i"
| "spec_of_entity db EntityCohort i = spec_of_cohort db i"
| "spec_of_entity db EntityBrief i = spec_of_brief db i"
| "spec_of_entity db EntityPlan i = spec_of_plan db i"

definition project_for :: "tracker \<Rightarrow> entity_kind \<Rightarrow> string \<Rightarrow> kproject option" where
  "project_for db kind i = Option.bind (spec_of_entity db kind i) (\<lambda>s. getProject db (ks_project_id s))"

text \<open>\<open>resolveEpicFor...\<close> join from the plan, so a spec's epic is looked up by the identifier itself.\<close>

fun epic_for :: "tracker \<Rightarrow> entity_kind \<Rightarrow> string \<Rightarrow> kepic option" where
  "epic_for db EntitySpec i = getEpicBySpec db i"
| "epic_for db EntityPlan i = Option.bind (getPlan db i) (\<lambda>p. getEpicBySpec db (kp_spec_id p))"
| "epic_for db EntityCohort i = Option.bind (getCohort db i) (\<lambda>c. Option.bind (getPlan db (kc_plan_id c)) (\<lambda>p. getEpicBySpec db (kp_spec_id p)))"
| "epic_for db EntityBrief i =
     Option.bind (getBrief db i) (\<lambda>b. Option.bind (getCohort db (kb_cohort_id b)) (\<lambda>c.
       Option.bind (getPlan db (kc_plan_id c)) (\<lambda>p. getEpicBySpec db (kp_spec_id p))))"

fun entity_name :: "entity_kind \<Rightarrow> string" where
  "entity_name EntitySpec = ''spec''"
| "entity_name EntityCohort = ''cohort''"
| "entity_name EntityBrief = ''brief''"
| "entity_name EntityPlan = ''plan''"

section \<open>Names\<close>

definition is_slug_char :: "char \<Rightarrow> bool" where
  "is_slug_char c \<longleftrightarrow> is_digit c \<or> (97 \<le> (of_char c :: nat) \<and> (of_char c :: nat) \<le> 122)"

text \<open>\<open>replace(/[^a-z0-9]+/g, "_")\<close>: a run of other characters becomes one underscore.\<close>

fun squash :: "bool \<Rightarrow> string \<Rightarrow> string" where
  "squash inside [] = []"
| "squash inside (c # cs) =
     (if is_slug_char c then c # squash False cs
      else if inside then squash True cs else CHR ''_'' # squash True cs)"

definition trim_underscores :: "string \<Rightarrow> string" where
  "trim_underscores s = rev (dropWhile (\<lambda>c. c = CHR ''_'') (rev (dropWhile (\<lambda>c. c = CHR ''_'') s)))"

definition sanitizeForName :: "string \<Rightarrow> string \<Rightarrow> string" where
  "sanitizeForName s fallbackId =
     (let out = trim_underscores (squash False (js_lower s))
      in if out = '''' then take 8 fallbackId else take 40 out)"

definition int_to_string :: "int \<Rightarrow> string" where
  "int_to_string n = (if n < 0 then CHR ''-'' # nat_to_string (nat (- n)) else nat_to_string (nat n))"

fun session_name :: "tracker \<Rightarrow> entity_kind \<Rightarrow> string \<Rightarrow> string \<Rightarrow> string" where
  "session_name db EntitySpec i stage = stage @ ''_'' @ sanitizeForName (case_option '''' ks_title (getSpec db i)) i"
| "session_name db EntityCohort i stage =
     stage @ ''_cohort_'' @ int_to_string (case_option 0 kc_position (getCohort db i)) @ ''_''
       @ sanitizeForName (case_option '''' ks_title (spec_of_cohort db i)) i"
| "session_name db EntityBrief i stage =
     (let pre = (if stage = ''build'' then ''builder'' else stage)
      in case (Option.bind (getBrief db i) (\<lambda>b. getCohort db (kb_cohort_id b)), spec_of_brief db i) of
           (Some c, Some s) \<Rightarrow> pre @ ''_cohort_'' @ int_to_string (kc_position c) @ ''_'' @ sanitizeForName (ks_title s) i
         | _ \<Rightarrow> pre @ ''_'' @ take 8 i)"
| "session_name db EntityPlan i stage = stage @ ''_'' @ sanitizeForName (case_option '''' ks_title (spec_of_plan db i)) i"

definition epic_branch :: "kepic \<Rightarrow> string" where
  "epic_branch epic = ''epic/'' @ sanitizeForName (ke_title epic) (ke_id epic)"

section \<open>Slots\<close>

abbreviation para :: string where "para \<equiv> nl @ nl"

definition BRIEF_FORMAT_GUIDE :: string where
  "BRIEF_FORMAT_GUIDE = ''The brief must close every decision. Each `decisions_made` entry needs a `decision` field (what was decided) and a `rationale` field (why). Each `approaches_rejected` entry needs an `approach` field and a `reason` field. The `next_action` field must describe the immediate, concrete first step the build agent should take. Do not leave any field as a question or placeholder.''"

definition or_none :: "string \<Rightarrow> string list \<Rightarrow> string" where
  "or_none none lines = (if lines = [] then none else js_join nl lines)"

definition bold_line :: "string \<times> string \<Rightarrow> string" where
  "bold_line kv = ''- **'' @ fst kv @ ''**: '' @ snd kv"

definition renderBrief :: "tracker \<Rightarrow> string \<Rightarrow> string" where
  "renderBrief db brief_id =
     (case getBrief db brief_id of
        None \<Rightarrow> ''(brief not found)''
      | Some b \<Rightarrow>
          js_join para
            [''## Goal'' @ para @ kb_goal b,
             ''## Files in scope'' @ para @ or_none ''(none listed)'' (map (\<lambda>f. ''- '' @ f) (kb_files_in_scope b)),
             ''## Decisions made'' @ para @ or_none ''(none)'' (map bold_line (kb_decisions_made b)),
             ''## Approaches rejected'' @ para @ or_none ''(none)'' (map bold_line (kb_approaches_rejected b)),
             ''## Next action'' @ para @ kb_next_action b])"

definition title_or_id :: "kcohort list \<Rightarrow> string \<Rightarrow> string" where
  "title_or_id cohorts i = (case List.find (\<lambda>c. kc_id c = i) (rev cohorts) of None \<Rightarrow> i | Some c \<Rightarrow> kc_title c)"

definition cohort_lines :: "string \<Rightarrow> (kcohort \<Rightarrow> string) \<Rightarrow> kcohort \<Rightarrow> string list" where
  "cohort_lines indent marker c =
     (indent @ ''['' @ int_to_string (kc_position c) @ ''] '' @ kc_title c @ '' (id: '' @ kc_id c @ '')'' @ marker c)
     # (case kc_notes c of None \<Rightarrow> [] | Some n \<Rightarrow> if n = '''' then [] else [''       notes: '' @ n])"

definition buildPlanContext :: "dispatcher_env \<Rightarrow> tracker \<Rightarrow> string \<Rightarrow> string" where
  "buildPlanContext env db cohort_id =
     (case getCohort db cohort_id of
        None \<Rightarrow> ''(no plan context available)''
      | Some row \<Rightarrow>
          (let siblings = listCohortsByPlan db (kc_plan_id row);
               deps = filter (from_in_plan db (kc_plan_id row)) (tk_dependencies db);
               head = ''Cohorts in this plan:''
                 # concat (map (cohort_lines ''  '' (\<lambda>c. if kc_id c = cohort_id then dn_current_marker env else '''')) siblings);
               edges = (if deps = [] then []
                        else (nl @ ''Dependency edges (from must complete before to):'')
                             # map (\<lambda>d. ''  '' @ title_or_id siblings (kd_from d) @ dn_arrow env @ title_or_id siblings (kd_to d)) deps)
           in js_join nl (head @ edges)))"

type_synonym slots = "(string \<times> string) list"

definition notes_or :: "string option \<Rightarrow> string" where
  "notes_or notes = case_option ''(no notes)'' id notes"

definition spec_notes :: "kspec \<Rightarrow> string option" where
  "spec_notes s = coalesce (ks_final_notes s) (ks_notes s)"

definition buildSlotsForSpec :: "dispatcher_env \<Rightarrow> tracker \<Rightarrow> string \<Rightarrow> string + slots" where
  "buildSlotsForSpec env db spec_id =
     (case getSpec db spec_id of
        None \<Rightarrow> Inl (''spec not found: '' @ spec_id)
      | Some spec \<Rightarrow>
          (case project_for db EntitySpec spec_id of
             None \<Rightarrow> Inl (''project not found for spec '' @ spec_id)
           | Some project \<Rightarrow>
               Inr [(''SPEC_ID'', ks_id spec), (''SPEC_TITLE'', ks_title spec), (''SPEC_NOTES'', notes_or (spec_notes spec)),
                    (''REPO_PATH'', kj_repo_path project), (''KBBL_URL'', dn_kbbl_url env)]))"

definition buildSlotsForCohort :: "dispatcher_env \<Rightarrow> tracker \<Rightarrow> string \<Rightarrow> string + slots" where
  "buildSlotsForCohort env db cohort_id =
     (case getCohort db cohort_id of
        None \<Rightarrow> Inl (''cohort not found: '' @ cohort_id)
      | Some c \<Rightarrow>
          Inr [(''COHORT_ID'', kc_id c), (''COHORT_TITLE'', kc_title c), (''COHORT_NOTES'', notes_or (kc_notes c)),
               (''PLAN_CONTEXT'', buildPlanContext env db cohort_id), (''KBBL_URL'', dn_kbbl_url env),
               (''BRIEF_FORMAT_GUIDE'', BRIEF_FORMAT_GUIDE)])"

definition resolveEpicBranchForBrief :: "tracker \<Rightarrow> string \<Rightarrow> string + string" where
  "resolveEpicBranchForBrief db brief_id =
     (case spec_of_brief db brief_id of
        None \<Rightarrow> Inl (''brief/cohort/spec context not found for brief '' @ brief_id)
      | Some s \<Rightarrow>
          (case getEpicBySpec db (ks_id s) of
             None \<Rightarrow> Inl (''epic not found for spec '' @ ks_id s)
           | Some epic \<Rightarrow> Inr (epic_branch epic)))"

definition buildSlotsForBrief :: "dispatcher_env \<Rightarrow> tracker \<Rightarrow> string \<Rightarrow> string + slots" where
  "buildSlotsForBrief env db brief_id =
     (case project_for db EntityBrief brief_id of
        None \<Rightarrow> Inl (''project not found for brief '' @ brief_id)
      | Some project \<Rightarrow>
          (case getBrief db brief_id of
             None \<Rightarrow> Inl (''brief not found: '' @ brief_id)
           | Some b \<Rightarrow>
               bind_result (resolveEpicBranchForBrief db brief_id) (\<lambda>branch.
                 Inr [(''BRIEF_ID'', brief_id), (''COHORT_ID'', kb_cohort_id b), (''BRIEF_RENDERED'', renderBrief db brief_id),
                      (''REPO_PATH'', kj_repo_path project), (''KBBL_URL'', dn_kbbl_url env), (''EPIC_BRANCH'', branch)])))"

definition sorted_plan :: "dispatcher_env \<Rightarrow> tracker \<Rightarrow> string \<Rightarrow> string + kcohort list" where
  "sorted_plan env db plan_id =
     toposortCohorts (dn_collation env) (listCohortsByPlan db plan_id) (listDependenciesByPlan db plan_id) plan_id"

definition buildSlotsForPlan :: "dispatcher_env \<Rightarrow> tracker \<Rightarrow> string \<Rightarrow> string + slots" where
  "buildSlotsForPlan env db plan_id =
     (case spec_of_plan db plan_id of
        None \<Rightarrow> Inl (''plan not found: '' @ plan_id)
      | Some spec \<Rightarrow>
          bind_result (sorted_plan env db plan_id) (\<lambda>sorted_cohorts.
            let cohorts = listCohortsByPlan db plan_id; deps = listDependenciesByPlan db plan_id
            in Inr [(''PLAN_ID'', plan_id), (''PLAN_TITLE'', ks_title spec), (''SPEC_NOTES'', notes_or (spec_notes spec)),
                    (''COHORTS'', js_join nl (concat (map (cohort_lines '''' (\<lambda>c. '''')) sorted_cohorts))),
                    (''PLAN_DEPENDENCIES'', or_none ''(none)''
                       (map (\<lambda>d. title_or_id cohorts (kd_from d) @ dn_arrow env @ title_or_id cohorts (kd_to d)) deps)),
                    (''KBBL_URL'', dn_kbbl_url env), (''BRIEF_FORMAT_GUIDE'', BRIEF_FORMAT_GUIDE)]))"

definition section_lines :: "string \<Rightarrow> string list \<Rightarrow> string list" where
  "section_lines title lines = (if lines = [] then [] else title # lines @ [''''])"

definition deviation_line :: "kdeviation \<Rightarrow> string" where
  "deviation_line d = ''- from: '' @ dv_from d @ '' | actual: '' @ dv_actual d @ '' | downstream_impact: '' @ dv_downstream_impact d"

definition cohort_block :: "tracker \<Rightarrow> kcohort \<Rightarrow> string" where
  "cohort_block db c =
     js_join nl ((''### ['' @ int_to_string (kc_position c) @ ''] '' @ kc_title c @ '' (id: '' @ kc_id c @ '')'')
       # (case getLatestApprovedBriefByCohort db (kc_id c) of
            None \<Rightarrow> [''*(no approved brief found)*'']
          | Some b \<Rightarrow>
              [''**Goal:** '' @ kb_goal b @ nl]
              @ section_lines ''**Decisions made:**'' (map bold_line (kb_decisions_made b))
              @ section_lines ''**Approaches rejected:**'' (map bold_line (kb_approaches_rejected b))
              @ (case kb_debrief b of None \<Rightarrow> [] | Some d \<Rightarrow> if d = '''' then [] else [''**Debrief:**'', d, ''''])
              @ section_lines ''**Deviations:**'' (map deviation_line (case_option [] id (kb_deviations b)))
              @ (case kb_pr_url b of None \<Rightarrow> [] | Some u \<Rightarrow> if u = '''' then [] else [''**PR:** '' @ u])))"

definition buildSlotsForPlanResults :: "dispatcher_env \<Rightarrow> tracker \<Rightarrow> string \<Rightarrow> string + slots" where
  "buildSlotsForPlanResults env db plan_id =
     (case spec_of_plan db plan_id of
        None \<Rightarrow> Inl (''plan not found: '' @ plan_id)
      | Some spec \<Rightarrow>
          bind_result (sorted_plan env db plan_id) (\<lambda>sorted_cohorts.
            Inr [(''PLAN_ID'', plan_id), (''PLAN_TITLE'', ks_title spec), (''SPEC_NOTES'', notes_or (spec_notes spec)),
                 (''COHORT_RESULTS'', js_join para (map (cohort_block db) sorted_cohorts)), (''KBBL_URL'', dn_kbbl_url env)]))"

section \<open>Prompt templates\<close>

text \<open>A match of \<open>{{([^}]+)}}\<close> at the head of the text: the key and what follows.\<close>

definition slot_match :: "string \<Rightarrow> (string \<times> string) option" where
  "slot_match s =
     (case s of
        a # b # body \<Rightarrow>
          if a = CHR ''{'' \<and> b = CHR ''{'' then
            (case dropWhile (\<lambda>c. c \<noteq> CHR ''}'') body of
               c # d # rest \<Rightarrow>
                 if d = CHR ''}'' \<and> hd body \<noteq> CHR ''}'' then Some (takeWhile (\<lambda>c. c \<noteq> CHR ''}'') body, rest) else None
             | _ \<Rightarrow> None)
          else None
      | _ \<Rightarrow> None)"

lemma slot_match_shorter:
  assumes "slot_match s = Some (key, rest)"
  shows "length rest < length s"
proof -
  from assms obtain a b body where s: "s = a # b # body" and d: "length (dropWhile (\<lambda>c. c \<noteq> CHR ''}'') body) = Suc (Suc (length rest))"
    by (auto simp: slot_match_def split: list.splits if_splits)
  then show ?thesis using length_dropWhile_le [of "\<lambda>c. c \<noteq> CHR ''}''" body] by simp
qed

function template_keys :: "string \<Rightarrow> string list" where
  "template_keys s =
     (case s of
        [] \<Rightarrow> []
      | c # cs \<Rightarrow> (case slot_match s of None \<Rightarrow> template_keys cs | Some (key, rest) \<Rightarrow> key # template_keys rest))"
  by pat_completeness auto
termination
  by (relation "measure length") (auto dest: slot_match_shorter)

declare template_keys.simps [simp del]

function fill_template :: "slots \<Rightarrow> string \<Rightarrow> string" where
  "fill_template sl s =
     (case s of
        [] \<Rightarrow> []
      | c # cs \<Rightarrow>
          (case slot_match s of
             None \<Rightarrow> c # fill_template sl cs
           | Some (key, rest) \<Rightarrow> case_option '''' id (map_of sl key) @ fill_template sl rest))"
  by pat_completeness auto
termination
  by (relation "measure (length \<circ> snd)") (auto dest: slot_match_shorter)

declare fill_template.simps [simp del]

definition kbbl_renderPrompt :: "string \<Rightarrow> slots \<Rightarrow> string + string" where
  "kbbl_renderPrompt template sl =
     (case List.find (\<lambda>key. map_of sl key = None) (template_keys template) of
        Some key \<Rightarrow> Inl (''unfilled prompt slot: {{'' @ key @ ''}}'')
      | None \<Rightarrow> Inr (fill_template sl template))"

section \<open>The epic branch on origin\<close>

text \<open>
  One git command: its arguments after \<open>git -C workdir\<close>, exit code, and trimmed output. \<open>git\<close> is asked with the
  commands already run, so that an answer may depend on them.
\<close>

record git_answer =
  ga_code :: int
  ga_out :: string

type_synonym kbbl_git = "string list list \<Rightarrow> string list \<Rightarrow> git_answer"

definition ls_remote :: "string \<Rightarrow> string list" where
  "ls_remote branch = [''ls-remote'', ''origin'', ''refs/heads/'' @ branch]"

definition fetch_branch :: "string \<Rightarrow> string list" where
  "fetch_branch branch = [''fetch'', ''origin'', branch]"

definition fetch_main :: "string list" where
  "fetch_main = [''fetch'', ''origin'', ''+refs/heads/main:refs/remotes/origin/main'']"

definition push_branch :: "string \<Rightarrow> string list" where
  "push_branch branch = [''push'', ''origin'', ''origin/main:refs/heads/'' @ branch]"

text \<open>Runs one command; a non-zero exit throws. The message goes on with the exit code and what git printed, which is left out.\<close>

definition git_try :: "kbbl_git \<Rightarrow> string list list \<Rightarrow> string list \<Rightarrow> (string + string) \<times> string list list" where
  "git_try git past cmd =
     (let a = git past cmd
      in (if ga_code a \<noteq> 0 then Inl (''git '' @ js_join '' '' cmd @ '' failed'') else Inr (ga_out a), past @ [cmd]))"

text \<open>The last command, whose output is not used.\<close>

definition git_finish :: "kbbl_git \<Rightarrow> string list list \<Rightarrow> string list \<Rightarrow> (string + unit) \<times> string list list" where
  "git_finish git past cmd = map_prod (map_sum id (\<lambda>_. ())) id (git_try git past cmd)"

definition ensureEpicBranchExists :: "kbbl_git \<Rightarrow> string \<Rightarrow> string list list \<Rightarrow> (string + unit) \<times> string list list" where
  "ensureEpicBranchExists git branch past =
     (case git_try git past (ls_remote branch) of
        (Inl e, p1) \<Rightarrow> (Inl e, p1)
      | (Inr existingOut, p1) \<Rightarrow>
          if existingOut \<noteq> '''' then git_finish git p1 (fetch_branch branch)
          else (case git_try git p1 fetch_main of
                  (Inl e, p2) \<Rightarrow> (Inl e, p2)
                | (Inr fetched, p2) \<Rightarrow>
                    (case git_try git p2 (push_branch branch) of
                       (Inl e, p3) \<Rightarrow>
                         (case git_try git p3 (ls_remote branch) of
                            (Inl e2, p4) \<Rightarrow> (Inl e2, p4)
                          | (Inr recheck, p4) \<Rightarrow> if recheck = '''' then (Inl e, p4) else git_finish git p4 (fetch_branch branch))
                     | (Inr pushed, p3) \<Rightarrow> git_finish git p3 (fetch_branch branch))))"

definition requireEpicBranchExists :: "kbbl_git \<Rightarrow> string \<Rightarrow> string list list \<Rightarrow> (string + unit) \<times> string list list" where
  "requireEpicBranchExists git branch past =
     (case git_try git past (ls_remote branch) of
        (Inl e, p1) \<Rightarrow> (Inl e, p1)
      | (Inr existing, p1) \<Rightarrow>
          if existing = '''' then (Inl (''assessor: epic branch '' @ branch @ '' does not exist on origin''), p1)
          else git_finish git p1 (fetch_branch branch))"

section \<open>A dispatch\<close>

record dispatch_context =
  dc_stage :: stage_def
  dc_template :: string
  dc_epic :: kepic
  dc_input :: string
  dc_cohort :: "string option"

datatype dispatch_error = DispatchThrew string | DispatchConflict kattempt

text \<open>Up to the claim: the stage, its backend and prompt, and the epic of the input.\<close>

definition dispatch_resolve :: "dispatcher_env \<Rightarrow> string \<Rightarrow> string \<Rightarrow> tracker \<Rightarrow> string + dispatch_context" where
  "dispatch_resolve env stageName inputId db =
     (case getStage stageName of
        None \<Rightarrow> Inl (''unknown stage: '' @ stageName)
      | Some stage \<Rightarrow>
          if sg_backend stage \<notin> set (dn_backends env) then Inl (''no backend registered for '' @ sq (sg_backend stage))
          else (case dn_load_prompt env (sg_prompt stage) of
                  None \<Rightarrow> Inl (''ENOENT: '' @ sg_prompt stage)
                | Some template \<Rightarrow>
                    if sg_input stage = EntityBrief \<and> getBrief db inputId = None then Inl (''brief not found: '' @ inputId)
                    else (case epic_for db (sg_input stage) inputId of
                            None \<Rightarrow> Inl (entity_name (sg_input stage) @ '' '' @ inputId @ '': no epic found'')
                          | Some epic \<Rightarrow>
                              Inr \<lparr>dc_stage = stage, dc_template = template, dc_epic = epic, dc_input = inputId,
                                   dc_cohort = (case sg_input stage of
                                       EntityCohort \<Rightarrow> Some inputId
                                     | EntityBrief \<Rightarrow> map_option kb_cohort_id (getBrief db inputId)
                                     | _ \<Rightarrow> None)\<rparr>)))"

text \<open>A running attempt whose session has ended is settled before the claim is tried.\<close>

definition close_stale :: "dispatcher_env \<Rightarrow> string \<Rightarrow> dispatch_context \<Rightarrow> tracker \<Rightarrow> tracker" where
  "close_stale env now ctx db =
     (case getActiveAttempt db (sg_input (dc_stage ctx)) (dc_input ctx) (sg_name (dc_stage ctx)) of
        None \<Rightarrow> db
      | Some stale \<Rightarrow>
          (case da_actual_ref stale of
             None \<Rightarrow> db
           | Some ref \<Rightarrow>
               if da_status stale = Running \<and> ref \<noteq> '''' then
                 (case dn_status env ref of
                    AcpCompleted \<Rightarrow> markAttemptSucceeded now (da_id stale) db
                  | AcpFailed \<Rightarrow>
                      markAttemptFailed now (da_id stale) ''session ended with failure status (detected at next dispatch attempt)'' None db
                  | AcpRunning \<Rightarrow> db)
               else db))"

definition dispatch_acquire ::
    "dispatcher_env \<Rightarrow> string \<Rightarrow> string \<Rightarrow> string \<Rightarrow> string \<Rightarrow> tracker \<Rightarrow> (dispatch_error + dispatch_context \<times> kattempt) \<times> tracker" where
  "dispatch_acquire env now new_id stageName inputId db =
     (case dispatch_resolve env stageName inputId db of
        Inl e \<Rightarrow> (Inl (DispatchThrew e), db)
      | Inr ctx \<Rightarrow>
          (let db1 = close_stale env now ctx db
           in case claimDispatch now new_id (sg_input (dc_stage ctx)) inputId (sg_name (dc_stage ctx)) (Some (ke_id (dc_epic ctx))) (dc_cohort ctx) db1 of
                Inl e \<Rightarrow> (Inl (DispatchThrew e), db1)
              | Inr (ClaimConflict active, db2) \<Rightarrow> (Inl (DispatchConflict active), db2)
              | Inr (Claimed attempt, db2) \<Rightarrow> (Inr (ctx, attempt), db2)))"

datatype branch_need = NoBranch | EnsureBranch string | RequireBranch string

record input_ref =
  ir_workdir :: string
  ir_session_name :: string
  ir_selection :: model_selection
  ir_worktree :: "(string \<times> string \<times> string) option"

definition cohort_slug :: "kcohort \<Rightarrow> string" where
  "cohort_slug c = int_to_string (kc_position c) @ ''-'' @ sanitizeForName (kc_title c) (kc_id c)"

definition worktree_path :: "kepic \<Rightarrow> string \<Rightarrow> kattempt \<Rightarrow> string" where
  "worktree_path epic slug attempt =
     sanitizeForName (ke_title epic) (ke_id epic) @ ''/'' @ slug @ ''/'' @ formatAttemptSuffix (da_attempt_number attempt)"

text \<open>The directory of the project's repository, and what the backend is handed.\<close>

definition workdir_of :: "tracker \<Rightarrow> dispatch_context \<Rightarrow> string + string" where
  "workdir_of db ctx =
     (let kind = sg_input (dc_stage ctx); i = dc_input ctx
      in case project_for db kind i of
           None \<Rightarrow> Inl (''project not found for '' @ entity_name kind @ '' '' @ i)
         | Some p \<Rightarrow> Inr (kj_repo_path p))"

definition make_input_ref :: "tracker \<Rightarrow> dispatch_context \<Rightarrow> (string \<times> string \<times> string) option \<Rightarrow> string + input_ref" where
  "make_input_ref db ctx worktree =
     bind_result (workdir_of db ctx) (\<lambda>w.
       bind_result (modelSelectionForEpicStage (dc_epic ctx) (sg_name (dc_stage ctx))) (\<lambda>m.
         Inr \<lparr>ir_workdir = w, ir_session_name = session_name db (sg_input (dc_stage ctx)) (dc_input ctx) (sg_name (dc_stage ctx)),
              ir_selection = m, ir_worktree = worktree\<rparr>))"

text \<open>The attempt's branch and worktree, recorded before git is called.\<close>

definition name_branch :: "string \<Rightarrow> dispatch_context \<Rightarrow> kattempt \<Rightarrow> string \<Rightarrow> tracker \<Rightarrow> tracker" where
  "name_branch now ctx attempt slug db =
     (let path = worktree_path (dc_epic ctx) slug attempt
      in updateAttemptBranchInfo now (da_id attempt) (Some (''cohort/'' @ path)) (Some path) db)"

definition attempt_worktree :: "dispatch_context \<Rightarrow> kattempt \<Rightarrow> string \<Rightarrow> (string \<times> string \<times> string) option" where
  "attempt_worktree ctx attempt slug = Some (slug, epic_branch (dc_epic ctx), formatAttemptSuffix (da_attempt_number attempt))"

text \<open>The part of a dispatch between the claim and the first git command. A throw here leaves the claim as it is.\<close>

definition dispatch_prepare ::
    "dispatcher_env \<Rightarrow> string \<Rightarrow> dispatch_context \<Rightarrow> kattempt \<Rightarrow> tracker \<Rightarrow> (string + slots option \<times> input_ref \<times> branch_need) \<times> tracker" where
  "dispatch_prepare env now ctx attempt db =
     (let i = dc_input ctx;
          plain = (\<lambda>built. (bind_result built (\<lambda>s. bind_result (make_input_ref db ctx None) (\<lambda>r. Inr (Some s, r, NoBranch))), db))
      in case sg_input (dc_stage ctx) of
           EntitySpec \<Rightarrow> plain (buildSlotsForSpec env db i)
         | EntityCohort \<Rightarrow> plain (buildSlotsForCohort env db i)
         | EntityBrief \<Rightarrow>
             (case bind_result (buildSlotsForBrief env db i) (\<lambda>s. bind_result (workdir_of db ctx) (\<lambda>w. Inr s)) of
                Inl e \<Rightarrow> (Inl e, db)
              | Inr s \<Rightarrow>
                  (case Option.bind (getBrief db i) (\<lambda>b. getCohort db (kb_cohort_id b)) of
                     None \<Rightarrow> (Inl (''brief '' @ i @ '': could not resolve cohort/spec chain''), db)
                   | Some c \<Rightarrow>
                       (bind_result (make_input_ref db ctx (attempt_worktree ctx attempt (cohort_slug c)))
                          (\<lambda>r. Inr (Some s, r, EnsureBranch (epic_branch (dc_epic ctx)))),
                        name_branch now ctx attempt (cohort_slug c) db)))
         | EntityPlan \<Rightarrow>
             (case workdir_of db ctx of
                Inl e \<Rightarrow> (Inl e, db)
              | Inr w \<Rightarrow>
                  if sg_name (dc_stage ctx) = ''assessor'' then
                    (bind_result (make_input_ref db ctx (attempt_worktree ctx attempt ''0-assessor''))
                       (\<lambda>r. Inr (None, r, RequireBranch (epic_branch (dc_epic ctx)))),
                     name_branch now ctx attempt ''0-assessor'' db)
                  else plain (buildSlotsForPlan env db i)))"

text \<open>After git: the assessor's slots, and the prompt. A throw leaves the claim as it is.\<close>

definition dispatch_prompt :: "dispatcher_env \<Rightarrow> dispatch_context \<Rightarrow> slots option \<Rightarrow> tracker \<Rightarrow> string + string" where
  "dispatch_prompt env ctx prepared db =
     bind_result (case prepared of
         Some s \<Rightarrow> Inr s
       | None \<Rightarrow> bind_result (buildSlotsForPlanResults env db (dc_input ctx)) (\<lambda>s. Inr (s @ [(''EPIC_BRANCH'', epic_branch (dc_epic ctx))])))
     (kbbl_renderPrompt (dc_template ctx))"

definition dispatch_failed :: "string \<Rightarrow> kattempt \<Rightarrow> string \<Rightarrow> string \<Rightarrow> tracker \<Rightarrow> tracker" where
  "dispatch_failed now attempt err hint db = markAttemptFailed now (da_id attempt) err (Some hint) db"

text \<open>The session exists: the attempt runs, and the artifact points to the session.\<close>

definition dispatch_spawned :: "string \<Rightarrow> dispatch_context \<Rightarrow> kattempt \<Rightarrow> string \<Rightarrow> tracker \<Rightarrow> (string + string) \<times> tracker" where
  "dispatch_spawned now ctx attempt ref db =
     (case markAttemptRunning now (da_id attempt) ref db of
        Inl e \<Rightarrow> (Inl e, db)
      | Inr db1 \<Rightarrow>
          (let stage = sg_name (dc_stage ctx); i = dc_input ctx;
               at_cohort = (\<lambda>c. update_cohort c (\<lambda>r. r\<lparr>kc_session_ref := Some ref, kc_session_stage := Some stage\<rparr>) db1)
           in case sg_input (dc_stage ctx) of
                EntitySpec \<Rightarrow> (Inr ref, update_spec i (\<lambda>r. r\<lparr>ks_session_ref := Some ref, ks_session_stage := Some stage\<rparr>) db1)
              | EntityCohort \<Rightarrow> (Inr ref, at_cohort i)
              | EntityPlan \<Rightarrow> (Inr ref, update_plan i (\<lambda>r. r\<lparr>kp_session_ref := Some ref, kp_session_stage := Some stage\<rparr>) db1)
              | EntityBrief \<Rightarrow>
                  (case getBrief db1 i of
                     None \<Rightarrow> (Inl (''brief not found when persisting session_ref: '' @ i), db1)
                   | Some b \<Rightarrow> (Inr ref, at_cohort (kb_cohort_id b)))))"

text \<open>
  The branch the dispatch waits for, with the recovery hint a failure records, and the whole of
  \<open>dispatch\<close> when nothing else runs while it waits. \<open>spawn\<close> is the backend's \<open>dispatch\<close>.
\<close>

fun obtain_branch :: "kbbl_git \<Rightarrow> branch_need \<Rightarrow> (string \<times> string) + unit" where
  "obtain_branch git NoBranch = Inr ()"
| "obtain_branch git (EnsureBranch b) =
     map_sum (\<lambda>e. (e, ''Retry dispatch manually via POST /briefs/:id/build.'')) id (fst (ensureEpicBranchExists git b []))"
| "obtain_branch git (RequireBranch b) =
     map_sum (\<lambda>e. (e, ''Retry assessor dispatch manually.'')) id (fst (requireEpicBranchExists git b []))"

definition dispatch ::
    "dispatcher_env \<Rightarrow> kbbl_git \<Rightarrow> (input_ref \<Rightarrow> string \<Rightarrow> string + string) \<Rightarrow> string \<Rightarrow> string \<Rightarrow> string \<Rightarrow> string \<Rightarrow> tracker \<Rightarrow>
     (dispatch_error + string) \<times> tracker" where
  "dispatch env git spawn now new_id stageName inputId db =
     (case dispatch_acquire env now new_id stageName inputId db of
        (Inl e, db1) \<Rightarrow> (Inl e, db1)
      | (Inr (ctx, attempt), db1) \<Rightarrow>
          (case dispatch_prepare env now ctx attempt db1 of
             (Inl e, db2) \<Rightarrow> (Inl (DispatchThrew e), db2)
           | (Inr (sl, ref, need), db2) \<Rightarrow>
               (case obtain_branch git need of
                  Inl (e, hint) \<Rightarrow> (Inl (DispatchThrew e), dispatch_failed now attempt e hint db2)
                | Inr u \<Rightarrow>
                    (case dispatch_prompt env ctx sl db2 of
                       Inl e \<Rightarrow> (Inl (DispatchThrew e), db2)
                     | Inr prompt \<Rightarrow>
                         (case spawn ref prompt of
                            Inl e \<Rightarrow> (Inl (DispatchThrew e), dispatch_failed now attempt e ''Retry dispatch manually.'' db2)
                          | Inr session_ref \<Rightarrow> map_prod (map_sum DispatchThrew id) id (dispatch_spawned now ctx attempt session_ref db2))))))"

section \<open>Builds and retries by hand\<close>

text \<open>\<open>POST /briefs/:id/build\<close>, up to its \<open>dispatcher.dispatch\<close>: \<open>None\<close> goes on to it.\<close>

definition build_refusal :: "string \<Rightarrow> tracker \<Rightarrow> (nat \<times> string) option" where
  "build_refusal brief_id db =
     (case getBrief db brief_id of
        None \<Rightarrow> Some (404, ''not found'')
      | Some brief \<Rightarrow>
          if isBriefEpicArchived db brief_id then Some (409, ''epic is archived'')
          else if kb_status brief \<noteq> BriefApprovedSt then Some (409, ''brief must be in approved status to run a build'')
          else if 0 < countUnmetDependencies db (kb_cohort_id brief) then Some (409, ''cohort has unmet dependencies'')
          else None)"

text \<open>The spec of an attempt's entity: \<open>COALESCE\<close> over the outer joins of the entity's kind.\<close>

fun attempt_spec :: "tracker \<Rightarrow> entity_kind \<Rightarrow> string \<Rightarrow> string option" where
  "attempt_spec db EntitySpec i = map_option ks_id (getSpec db i)"
| "attempt_spec db EntityPlan i = map_option kp_spec_id (getPlan db i)"
| "attempt_spec db EntityCohort i = map_option kp_spec_id (Option.bind (getCohort db i) (\<lambda>c. getPlan db (kc_plan_id c)))"
| "attempt_spec db EntityBrief i =
     map_option kp_spec_id (Option.bind (getBrief db i) (\<lambda>b.
       Option.bind (getCohort db (kb_cohort_id b)) (\<lambda>c. getPlan db (kc_plan_id c))))"

definition archivedEpicConflict :: "tracker \<Rightarrow> kattempt \<Rightarrow> bool" where
  "archivedEpicConflict db attempt =
     (case da_epic_id attempt of
        Some epic_id \<Rightarrow> epic_isFrozen db epic_id
      | None \<Rightarrow>
          (case attempt_spec db (da_entity_kind attempt) (da_entity_id attempt) of
             None \<Rightarrow> False
           | Some spec_id \<Rightarrow> isSpecEpicArchived db spec_id))"

definition retry_refusal :: "string \<Rightarrow> tracker \<Rightarrow> (nat \<times> string) option" where
  "retry_refusal i db =
     (case getAttempt db i of
        None \<Rightarrow> Some (404, ''not found'')
      | Some attempt \<Rightarrow>
          if da_status attempt \<noteq> DispatchFailed then Some (409, ''only dispatch_failed attempts can be retried'')
          else if archivedEpicConflict db attempt then Some (409, ''epic is archived'')
          else None)"

end
