(* ===== verification/TrackerInv.thy ===== *)
theory TrackerInv
  imports Dispatcher
begin

text \<open>
  Everything that changes the task tracker's database, as operations, and the invariants the operations keep.
  The locale \<open>tracker_invariant\<close> lists what a property of the database has to survive at the level of
  rows; a property that does is kept by every operation. It is interpreted for the dependency graph,
  the dispatch ledger and the blocked cohorts.
\<close>

section \<open>Operations\<close>

text \<open>
  Requests, with the time and the identifiers they draw; the part of a merge after GitHub has answered; and
  the parts of a dispatch, which other operations may come between. A dispatch that finds an active attempt
  awaits the status of its session before it settles that attempt and claims: the three can also happen apart,
  as \<open>SettleStale\<close> or \<open>FailDispatch\<close>, and \<open>ClaimAttempt\<close> with what was resolved before.
\<close>

datatype tracker_op =
    PostProject string string string string
  | PostSpec string string string string string model_selection model_selection "(nat \<times> string) + string option"
  | PatchSpec string "string option" "string option option"
  | PatchSpecStatus string spec_internal_status
  | PostDiscrepancy string string string string string
  | PatchDiscrepancy string string discrepancy_status
  | DeleteDiscrepancy string
  | PostPlan string string string "string option"
  | PatchPlan string "string option option"
  | SubmitPlan string
  | PatchPlanStatus string approval_request
  | ReopenPlan string string string "string option"
  | PostCohort string string string string "string option" int
  | PatchCohort string "string option" "string option option" "int option"
  | PostDependency string string string
  | DeleteDependency string
  | PatchCohortStatus string cohort_status_request
  | FinishMerge string merge_outcome
  | PostBrief string string string brief_payload "string option"
  | PatchBrief string brief_fields
  | PatchDebrief string string "string option" "kdeviation list option"
  | PatchBriefStatus string approval_request
  | ReopenBrief string string string "string option"
  | PatchEpicStatus string bool
  | DeleteEpic string
  | PostAssessment string string string string "(string \<times> string \<times> kdeviation list) list" string string "string option"
  | PostThread string string string string "string option" "string option"
  | PostMessage string string string string string
  | PatchThread string
  | PostEdit string string string string "string option" "string option" string string
  | PostFreeze string string
  | PostUnfreeze string string
  | AcquireDispatch dispatcher_env string string string string
  | SettleStale string string
  | ClaimAttempt string string entity_kind string string "string option" "string option"
  | PrepareDispatch dispatcher_env string dispatch_context kattempt
  | FailDispatch string kattempt string string
  | SpawnDispatch string dispatch_context kattempt string
  | SettleSession "string \<Rightarrow> acp_dispatch_status option" string string
  | Reconcile "string \<Rightarrow> acp_dispatch_status option" "string \<Rightarrow> bool" string

fun run_op :: "tracker_op \<Rightarrow> tracker \<Rightarrow> tracker" where
  "run_op (PostProject now i name path) db = fst (post_project now i name path db)"
| "run_op (PostSpec now i e p title planner worker notes) db = fst (post_spec now i e p title planner worker notes db)"
| "run_op (PatchSpec i title notes) db = fst (patch_spec i title notes db)"
| "run_op (PatchSpecStatus i st) db = fst (patch_spec_internal_status i st db)"
| "run_op (PostDiscrepancy now i s a r) db = fst (post_discrepancy now i s a r db)"
| "run_op (PatchDiscrepancy i r st) db = fst (patch_discrepancy i r st db)"
| "run_op (DeleteDiscrepancy i) db = fst (delete_discrepancy i db)"
| "run_op (PostPlan now i s m) db = fst (post_plan now i s m db)"
| "run_op (PatchPlan i m) db = fst (patch_plan i m db)"
| "run_op (SubmitPlan i) db = fst (post_plan_submit i db)"
| "run_op (PatchPlanStatus i r) db = fst (patch_plan_status i r db)"
| "run_op (ReopenPlan now n oi m) db = fst (post_plan_reopen now n oi m db)"
| "run_op (PostCohort now i p title notes pos) db = fst (post_cohort now i p title notes pos db)"
| "run_op (PatchCohort i title notes pos) db = fst (patch_cohort i title notes pos db)"
| "run_op (PostDependency i src dst) db = fst (post_dependency i src dst db)"
| "run_op (DeleteDependency i) db = fst (delete_dependency i db)"
| "run_op (PatchCohortStatus i r) db = fst (patch_cohort_status i r db)"
| "run_op (FinishMerge i out) db = fst (merge_finish i out db)"
| "run_op (PostBrief now i c p m) db = fst (post_brief now i c p m db)"
| "run_op (PatchBrief i fs) db = fst (patch_brief i fs db)"
| "run_op (PatchDebrief i d u dv) db = fst (patch_debrief i d u dv db)"
| "run_op (PatchBriefStatus i r) db = fst (patch_brief_status i r db)"
| "run_op (ReopenBrief now n oi m) db = fst (post_brief_reopen now n oi m db)"
| "run_op (PatchEpicStatus i a) db = fst (patch_epic_status i a db)"
| "run_op (DeleteEpic i) db = fst (delete_epic i db)"
| "run_op (PostAssessment now i p s c g f m) db = fst (post_assessment now i p s c g f m db)"
| "run_op (PostThread now i ty t an au) db = fst (post_thread now i ty t an au db)"
| "run_op (PostMessage now i t au b) db = fst (post_message now i t au b db)"
| "run_op (PatchThread i) db = fst (patch_thread i db)"
| "run_op (PostEdit now i ty t an pv nv au) db = fst (post_edit now i ty t an pv nv au db)"
| "run_op (PostFreeze ty t) db = fst (post_freeze ty t db)"
| "run_op (PostUnfreeze ty t) db = fst (post_unfreeze ty t db)"
| "run_op (AcquireDispatch env now i st inp) db = snd (dispatch_acquire env now i st inp db)"
| "run_op (SettleStale now i) db = markAttemptSucceeded now i db"
| "run_op (ClaimAttempt now i kind entity stage epic cohort) db =
     (case claimDispatch now i kind entity stage epic cohort db of Inl e \<Rightarrow> db | Inr r \<Rightarrow> snd r)"
| "run_op (PrepareDispatch env now ctx a) db = snd (dispatch_prepare env now ctx a db)"
| "run_op (FailDispatch now a e h) db = dispatch_failed now a e h db"
| "run_op (SpawnDispatch now ctx a ref) db = snd (dispatch_spawned now ctx a ref db)"
| "run_op (SettleSession ds now sid) db = settleAttemptForEndedSession ds now sid db"
| "run_op (Reconcile ds alive now) db = reconcileDispatchAttempts ds alive now db"

definition empty_tracker :: tracker where
  "empty_tracker = \<lparr>tk_projects = [], tk_specs = [], tk_epics = [], tk_discrepancies = [], tk_plans = [], tk_cohorts = [],
     tk_dependencies = [], tk_briefs = [], tk_assessments = [], tk_frozen = [], tk_attempts = [], tk_threads = [],
     tk_messages = [], tk_edits = []\<rparr>"

inductive tracker_reachable :: "tracker \<Rightarrow> bool" where
  reachable_empty: "tracker_reachable empty_tracker"
| reachable_op: "tracker_reachable db \<Longrightarrow> tracker_reachable (run_op op db)"

section \<open>What every operation keeps\<close>

text \<open>An update of attempts that settles some of them and touches nothing else that identifies them.\<close>

definition settles :: "(kattempt \<Rightarrow> kattempt) \<Rightarrow> bool" where
  "settles f \<longleftrightarrow> (\<forall>a. da_id (f a) = da_id a \<and> attempt_key (f a) = attempt_key a \<and>
     da_attempt_number (f a) = da_attempt_number a \<and> (active_status (da_status (f a)) \<longrightarrow> f a = a \<or> da_status (f a) = da_status a))"

text \<open>An update of cohorts that leaves identity, plan and status alone.\<close>

definition cohort_cosmetic :: "(kcohort \<Rightarrow> kcohort) \<Rightarrow> bool" where
  "cohort_cosmetic f \<longleftrightarrow> (\<forall>c. kc_id (f c) = kc_id c \<and> kc_plan_id (f c) = kc_plan_id c \<and>
     kc_status (f c) = kc_status c \<and> kc_pre_block_status (f c) = kc_pre_block_status c)"

text \<open>
  Events that neither complete a cohort, nor put it into \<open>ready_to_build\<close>, nor bring back the status
  it was blocked in; and updates of briefs that approve none.
\<close>

definition quiet :: "cohort_event \<Rightarrow> bool" where
  "quiet e \<longleftrightarrow> e \<notin> {BuildCompleted, PrMergedEvent, BriefApprovedDepsMet, BriefApprovedDepsPending, UnblockEvent}"

definition unapproving :: "(kbrief \<Rightarrow> kbrief) \<Rightarrow> bool" where
  "unapproving f \<longleftrightarrow> (\<forall>b. kb_id (f b) = kb_id b \<and> kb_cohort_id (f b) = kb_cohort_id b \<and>
     (kb_status (f b) = BriefApprovedSt \<longrightarrow> kb_status b = BriefApprovedSt))"

definition approval_event :: "tracker \<Rightarrow> string \<Rightarrow> cohort_event" where
  "approval_event db cohort_id =
     (if countUnmetDependencies db cohort_id = 0 then BriefApprovedDepsMet else BriefApprovedDepsPending)"

lemma find_map_id:
  "(\<And>x. k (f x) = k x) \<Longrightarrow> List.find (\<lambda>x. k x = i) (map f xs) = map_option f (List.find (\<lambda>x. k x = i) xs)"
  by (induction xs) auto

text \<open>A transition of a cohort as it was read: the guard of the update holds of that row.\<close>

lemma transitionCohort_Some:
  assumes c: "getCohort db i = Some c"
  shows "transitionCohort i e db =
    (case applyCohortTransition (kc_status c) e (kc_pre_block_status c) of
       Inl d \<Rightarrow> (TransitionInvalid i e (kc_status c) d, db)
     | Inr next \<Rightarrow> (TransitionOk (transition_row e next c) (kc_status c) next,
         db\<lparr>tk_cohorts := map (\<lambda>r. if kc_id r = i \<and> kc_status r = kc_status c \<and> kc_pre_block_status r = kc_pre_block_status c
                             then transition_row e next r else r) (tk_cohorts db)\<rparr>))"
proof -
  let ?g = "\<lambda>r. kc_id r = i \<and> kc_status r = kc_status c \<and> kc_pre_block_status r = kc_pre_block_status c"
  have i: "kc_id c = i" "list_ex ?g (tk_cohorts db)" using c by (auto simp: getCohort_def list_ex_iff dest: find_Some_set)
  have "kc_id (if ?g r then transition_row e s r else r) = kc_id r" for r s by (simp add: transition_row_def)
  then have "getCohort (db\<lparr>tk_cohorts := map (\<lambda>r. if ?g r then transition_row e s r else r) (tk_cohorts db)\<rparr>) i =
      Some (transition_row e s c)" for s
    using c i unfolding getCohort_def by (simp add: find_map_id [of kc_id])
  then show ?thesis using c i by (simp add: transitionCohort_def transitionCohortFromRow_def Let_def split: sum.splits)
qed

lemma transition_failed [simp]:
  "fst (transitionCohort i e db) = TransitionNotFound a1 a2 \<Longrightarrow> snd (transitionCohort i e db) = db"
  "fst (transitionCohort i e db) = TransitionInvalid b1 b2 b3 b4 \<Longrightarrow> snd (transitionCohort i e db) = db"
proof -
  have "snd (transitionCohort i e db) = db \<or> (\<exists>c f t. fst (transitionCohort i e db) = TransitionOk c f t)"
  proof (cases "getCohort db i")
    case (Some c)
    then show ?thesis by (auto simp: transitionCohort_Some split: sum.splits)
  qed (simp add: transitionCohort_def)
  then show "fst (transitionCohort i e db) = TransitionNotFound a1 a2 \<Longrightarrow> snd (transitionCohort i e db) = db"
    and "fst (transitionCohort i e db) = TransitionInvalid b1 b2 b3 b4 \<Longrightarrow> snd (transitionCohort i e db) = db" by auto
qed

text \<open>Operations that leave dependencies in place and blocked cohorts blocked.\<close>

fun benign :: "tracker_op \<Rightarrow> bool" where
  "benign (PatchCohortStatus i AskUnblocked) = False"
| "benign (DeleteDependency i) = False"
| "benign op = True"

locale benign_invariant =
  fixes P :: "tracker \<Rightarrow> bool"
  assumes keep_projects: "P (db\<lparr>tk_projects := projects\<rparr>) = P db"
    and keep_specs: "P (db\<lparr>tk_specs := specs\<rparr>) = P db"
    and keep_epics: "P (db\<lparr>tk_epics := epics\<rparr>) = P db"
    and keep_discrepancies: "P (db\<lparr>tk_discrepancies := discrepancies\<rparr>) = P db"
    and keep_plans: "P (db\<lparr>tk_plans := plans\<rparr>) = P db"
    and keep_assessments: "P (db\<lparr>tk_assessments := assessments\<rparr>) = P db"
    and keep_frozen: "P (db\<lparr>tk_frozen := frozen\<rparr>) = P db"
    and keep_threads: "P (db\<lparr>tk_threads := threads\<rparr>) = P db"
    and keep_messages: "P (db\<lparr>tk_messages := messages\<rparr>) = P db"
    and keep_edits: "P (db\<lparr>tk_edits := edits\<rparr>) = P db"
    and keep_insert_brief: "P db \<Longrightarrow> insertBrief now i c m pr pay db = Inr (b, db') \<Longrightarrow> P db'"
    and keep_brief: "P db \<Longrightarrow> unapproving h \<Longrightarrow> P (update_brief i h db)"
    and keep_cosmetic: "P db \<Longrightarrow> cohort_cosmetic f \<Longrightarrow> P (update_cohort i f db)"
    and keep_quiet: "P db \<Longrightarrow> quiet e \<Longrightarrow> P (snd (transitionCohort i e db))"
    and keep_completed: "P db \<Longrightarrow> e = BuildCompleted \<or> e = PrMergedEvent \<Longrightarrow>
      P (fst (runDoneFanout i (snd (transitionCohort i e db))))"
    and keep_approved: "P db \<Longrightarrow> getBrief db i = Some brief \<Longrightarrow>
      transitionCohort (kb_cohort_id brief) (approval_event db (kb_cohort_id brief)) db = (TransitionOk co from to, db') \<Longrightarrow>
      P (update_brief i (\<lambda>r. r\<lparr>kb_status := BriefApprovedSt\<rparr>) db')"
    and keep_insert_cohort: "P db \<Longrightarrow> insertCohort now i p title notes pos db = Inr (co, db') \<Longrightarrow> P db'"
    and keep_post_dependency: "P db \<Longrightarrow> P (fst (post_dependency i src dst db))"
    and keep_remove_plans: "P db \<Longrightarrow> C = kc_id ` {c \<in> set (tk_cohorts db). kc_plan_id c \<in> S} \<Longrightarrow>
      P (db\<lparr>tk_briefs := filter (\<lambda>b. kb_cohort_id b \<notin> C) (tk_briefs db),
            tk_dependencies := filter (\<lambda>d. kd_from d \<notin> C \<and> kd_to d \<notin> C) (tk_dependencies db),
            tk_cohorts := filter (\<lambda>c. kc_id c \<notin> C) (tk_cohorts db)\<rparr>)"
    and keep_settle: "P db \<Longrightarrow> settles g \<Longrightarrow> P (db\<lparr>tk_attempts := map g (tk_attempts db)\<rparr>)"
    and keep_claim: "P db \<Longrightarrow> claimDispatch now i kind entity stage epic cohort db = Inr (r, db') \<Longrightarrow> P db'"
    and keep_running: "P db \<Longrightarrow> markAttemptRunning now i ref db = Inr db' \<Longrightarrow> P db'"
begin

lemmas keep_tables [simp] = keep_projects keep_specs keep_epics keep_discrepancies keep_plans keep_assessments
  keep_frozen keep_threads keep_messages keep_edits

lemmas keep_rows [simp] = keep_brief keep_cosmetic keep_quiet keep_completed keep_post_dependency keep_settle

lemma quiet_events [simp]:
  "quiet DependenciesMet" "quiet BriefingStarted" "quiet BriefSubmitted" "quiet BriefReopened" "quiet PrOpenedEvent"
  "quiet BlockEvent" "quiet PlanApproved" "quiet BriefRejected"
  by (simp_all add: quiet_def)

lemma unapproving_updates [simp]:
  "s \<noteq> BriefApprovedSt \<Longrightarrow> unapproving (\<lambda>r. r\<lparr>kb_status := s\<rparr>)"
  "s \<noteq> BriefApprovedSt \<Longrightarrow> unapproving (\<lambda>r. r\<lparr>kb_status := s, kb_rejection_reason := reason\<rparr>)"
  "unapproving (\<lambda>r. r\<lparr>kb_pr_url := u r\<rparr>)"
  by (simp_all add: unapproving_def)

lemma keep_updates [simp]:
  "P (update_spec i f1 db) = P db" "P (update_plan i f2 db) = P db"
  "P (snd (updateEpicFields i st stage db)) = P db"
  by (auto simp: update_spec_def update_plan_def updateEpicFields_def Let_def)

lemma keep_review [simp]: "P (snd (freeze ty t db)) = P db" "P (snd (unfreeze ty t db)) = P db"
  by (auto simp: freeze_def unfreeze_def)

lemma keep_inserts:
  "insertProject now i n p db = Inr r1 \<Longrightarrow> P (snd r1) = P db"
  "insertSpec now i p t nt db = Inr r2 \<Longrightarrow> P (snd r2) = P db"
  "insertEpic now i s p t st sg pl w db = Inr r3 \<Longrightarrow> P (snd r3) = P db"
  "insertSpecDiscrepancy now i s a re rs ds db = Inr r4 \<Longrightarrow> P (snd r4) = P db"
  "insertPlan now i s m pr db = Inr r5 \<Longrightarrow> P (snd r5) = P db"
  "insertAssessment now i p su ca ga fi m db = Inr r7 \<Longrightarrow> P (snd r7) = P db"
  "insertThread now i ty t an au db = Inr r8 \<Longrightarrow> P (snd r8) = P db"
  "insertMessage now i th mau b db = Inr r9 \<Longrightarrow> P (snd r9) = P db"
  "appendEdit now i ty t an pv nv eau db = Inr r10 \<Longrightarrow> P (snd r10) = P db"
  by (auto simp: insertProject_def insertSpec_def insertEpic_def insertSpecDiscrepancy_def insertPlan_def
      insertAssessment_def insertThread_def insertMessage_def appendEdit_def Let_def split: if_splits)

lemma keep_advance_event: "advanceEpicByEvent i e db = Inr r \<Longrightarrow> P (snd r) = P db"
  by (auto simp: advanceEpicByEvent_def split: option.splits)

lemma keep_advance [simp]: "P (advance_logged i e db) = P db"
  by (auto simp: advance_logged_def keep_advance_event split: sum.splits)

lemma keep_advance_plan [simp]: "P (advance_epic_of_plan i e db) = P db"
  by (auto simp: advance_epic_of_plan_def split: option.splits)

lemma keep_emit [simp]: "P db \<Longrightarrow> P (fst (emit e db))"
  by (cases "(e, db)" rule: emit.cases) (auto simp: on_reopened_def split: option.splits)

lemma keep_emit_all [simp]: "P db \<Longrightarrow> P (fst (emit_all es db))"
  by (induction es arbitrary: db) (auto simp: split_beta)

lemma keep_refuse [simp]: "fst (refuse st msg db) = db" "fst (archived_reply db) = db"
  by (simp_all add: refuse_def archived_reply_def)

lemma keep_insert_reply: "(\<And>r'. r = Inr r' \<Longrightarrow> P (snd r')) \<Longrightarrow> P db \<Longrightarrow> P (fst (insert_reply missing r db))"
  by (cases r) (auto simp: insert_reply_def)

lemma keep_update_reply [simp]: "fst (update_reply r) = snd r"
  by (auto simp: update_reply_def split: option.splits)

lemma keep_fanout: "P (fst s) \<Longrightarrow> P (fst (fanout_one i s))"
  by (auto simp: fanout_one_def split_beta split: option.splits cohort_transition_result.splits)

lemma keep_done [simp]: "P db \<Longrightarrow> P (fst (runDoneFanout i db))"
proof -
  have "P (fst s) \<Longrightarrow> P (fst (fold fanout_one is s))" for "is" s
    by (induction "is" arbitrary: s) (auto simp: keep_fanout)
  then show "P db \<Longrightarrow> P (fst (runDoneFanout i db))" by (simp add: runDoneFanout_def)
qed

lemma keep_promote [simp]: "P db \<Longrightarrow> P (fst (promote_waiting i db))"
proof -
  have "P (fst s) \<Longrightarrow> P (fst (fold promote_one is s))" for "is" s
    by (induction "is" arbitrary: s) (auto simp: promote_one_def split_beta split: cohort_transition_result.splits)
  then show "P db \<Longrightarrow> P (fst (promote_waiting i db))" by (simp add: promote_waiting_def)
qed

lemma keep_merged: "applyAwaitingMergeToMerged i db = Some (c, em, db') \<Longrightarrow> P db \<Longrightarrow> P db'"
  by (auto simp: applyAwaitingMergeToMerged_def split_beta split: cohort_transition_result.splits)

lemma keep_pr_url [simp]: "P db \<Longrightarrow> P (record_pr_url i url db)"
  by (auto simp: record_pr_url_def split: option.splits)

lemma keep_status_transaction: "status_transaction i req db = Inr r \<Longrightarrow> req \<noteq> AskUnblocked \<Longrightarrow> P db \<Longrightarrow> P (snd r)"
  by (cases req) (auto simp: status_transaction_def split_beta Let_def keep_merged
      split: option.splits cohort_transition_result.splits sum.splits if_splits)

lemma keep_transaction_routes:
  "P db \<Longrightarrow> req \<noteq> AskUnblocked \<Longrightarrow> P (fst (patch_cohort_status i req db))" "P db \<Longrightarrow> P (fst (merge_finish i outcome db))"
  by (auto simp: patch_cohort_status_def split_beta dest: keep_status_transaction split: sum.splits option.splits)
    (auto simp: merge_finish_def split_beta dest: keep_merged split: option.splits prod.splits)

lemma keep_cohort_routes:
  "P db \<Longrightarrow> P (fst (post_cohort now i p title notes pos db))"
  "P db \<Longrightarrow> P (fst (patch_cohort i t n po db))"
proof -
  show "P db \<Longrightarrow> P (fst (post_cohort now i p title notes pos db))"
    by (auto simp: post_cohort_def intro!: keep_insert_reply intro: keep_insert_cohort)
  have "cohort_cosmetic (\<lambda>r. r\<lparr>kc_title := case_option (kc_title r) id t, kc_notes := case_option (kc_notes r) id n,
      kc_position := case_option (kc_position r) id po\<rparr>)" by (simp add: cohort_cosmetic_def)
  then show "P db \<Longrightarrow> P (fst (patch_cohort i t n po db))"
    by (auto simp: patch_cohort_def updateCohortFields_def Let_def)
qed

lemma keep_brief_routes:
  "P db \<Longrightarrow> P (fst (post_brief now i c pay m db))" "P db \<Longrightarrow> P (fst (patch_brief i fs db))"
  "P db \<Longrightarrow> P (fst (patch_debrief i d u dv db))" "P db \<Longrightarrow> P (fst (post_brief_reopen now n i m db))"
  by (auto simp: post_brief_def patch_brief_def patch_debrief_def post_brief_reopen_def updateBriefFields_def
      updateBriefDebrief_def split_beta Let_def unapproving_def dest: keep_insert_brief [rotated] split: sum.splits option.splits)

lemma keep_approval:
  assumes "P db" and "getBrief db i = Some brief"
  shows "countUnmetDependencies db (kb_cohort_id brief) = 0 \<Longrightarrow>
      fst (transitionCohort (kb_cohort_id brief) BriefApprovedDepsMet db) = TransitionOk co f t \<Longrightarrow>
      P (update_brief i (kb_status_update (\<lambda>_. BriefApprovedSt)) (snd (transitionCohort (kb_cohort_id brief) BriefApprovedDepsMet db)))"
    and "0 < countUnmetDependencies db (kb_cohort_id brief) \<Longrightarrow>
      fst (transitionCohort (kb_cohort_id brief) BriefApprovedDepsPending db) = TransitionOk co f t \<Longrightarrow>
      P (update_brief i (kb_status_update (\<lambda>_. BriefApprovedSt)) (snd (transitionCohort (kb_cohort_id brief) BriefApprovedDepsPending db)))"
  using keep_approved [OF assms, of co f t] by (simp_all add: approval_event_def prod_eq_iff)

lemma keep_brief_status: "P db \<Longrightarrow> P (fst (patch_brief_status i req db))"
  by (cases req) (auto simp: patch_brief_status_def split_beta Let_def keep_approval split: option.splits cohort_transition_result.splits)

lemma keep_approve: "P db \<Longrightarrow> P (snd (snd (approve_plan plan st db)))"
  by (auto simp: approve_plan_def split_beta Let_def split: option.splits)

lemma keep_plan_routes:
  "P db \<Longrightarrow> P (fst (post_plan now i s m db))" "P db \<Longrightarrow> P (fst (patch_plan i mo db))"
  "P db \<Longrightarrow> P (fst (post_plan_submit i db))" "P db \<Longrightarrow> P (fst (post_plan_reopen now n i m db))"
  by (auto simp: post_plan_def patch_plan_def post_plan_submit_def post_plan_reopen_def updatePlanFields_def split_beta Let_def
      intro!: keep_insert_reply dest: keep_inserts split: sum.splits option.splits)

lemma keep_plan_status: "P db \<Longrightarrow> P (fst (patch_plan_status i req db))"
  by (cases req) (auto simp: patch_plan_status_def split_beta Let_def keep_approve split: option.splits)

lemma keep_epic_routes:
  "P db \<Longrightarrow> P (fst (patch_epic_status i archive db))" "P db \<Longrightarrow> P (fst (post_assessment now i p su ca ga fi m db))"
  by (auto simp: patch_epic_status_def post_assessment_def split_beta dest: keep_inserts keep_advance_event
      split: sum.splits option.splits)

lemma keep_delete_epic: "P db \<Longrightarrow> P (fst (delete_epic i db))"
  by (auto simp: delete_epic_def Let_def keep_remove_plans split: option.splits)

lemma keep_spec_routes:
  "P db \<Longrightarrow> P (fst (patch_spec i ti no db))" "P db \<Longrightarrow> P (fst (patch_spec_internal_status i st db))"
  "P db \<Longrightarrow> P (fst (post_discrepancy now i s a re db))" "P db \<Longrightarrow> P (fst (patch_discrepancy i rs ds db))"
  "P db \<Longrightarrow> P (fst (delete_discrepancy i db))" "P db \<Longrightarrow> P (fst (post_project now i nm pth db))"
  by (auto simp: patch_spec_def patch_spec_internal_status_def post_discrepancy_def patch_discrepancy_def delete_discrepancy_def
      post_project_def updateSpecFields_def updateSpecDiscrepancy_def split_beta Let_def
      intro!: keep_insert_reply dest: keep_inserts split: sum.splits option.splits)

lemma keep_post_spec: "P db \<Longrightarrow> P (fst (post_spec now i e p t pl w notes db))"
  by (auto simp: post_spec_def split_beta split: sum.splits)
    (drule keep_inserts(2), drule keep_inserts(3), simp)

lemma keep_review_routes:
  "P db \<Longrightarrow> P (fst (post_thread now i ty t an au db))" "P db \<Longrightarrow> P (fst (post_message now i th mau b db))"
  "P db \<Longrightarrow> P (fst (patch_thread i db))" "P db \<Longrightarrow> P (fst (post_edit now i ty t an pv nv eau db))"
  "P db \<Longrightarrow> P (fst (post_freeze ty t db))" "P db \<Longrightarrow> P (fst (post_unfreeze ty t db))"
  by (auto simp: post_thread_def post_message_def patch_thread_def post_edit_def post_freeze_def post_unfreeze_def
      updateThreadStatus_def split_beta dest: keep_inserts split: sum.splits option.splits)

lemma keep_attempt [simp]: "P db \<Longrightarrow> settles g \<Longrightarrow> P (update_attempt i g db)"
proof -
  assume "P db" and "settles g"
  then have "settles (\<lambda>a. if da_id a = i then g a else a)" by (auto simp: settles_def)
  then show "P (update_attempt i g db)" using \<open>P db\<close> by (simp add: update_attempt_def)
qed

lemma settles_rows [simp]:
  "settles (failed_row now err hint)" "settles (\<lambda>a. a\<lparr>da_status := DispatchSucceeded, da_updated_at := now\<rparr>)"
  "settles (\<lambda>a. a\<lparr>da_branch_name := b, da_worktree_path := w, da_updated_at := now\<rparr>)"
  by (simp_all add: settles_def failed_row_def attempt_key_def active_status_def)

lemma cosmetic_session:
  "cohort_cosmetic (\<lambda>r. if kc_session_stage r = Some stage \<and> kc_session_ref r = Some ref
     then r\<lparr>kc_session_ref := None, kc_session_stage := None\<rparr> else r)"
  "cohort_cosmetic (\<lambda>r. r\<lparr>kc_session_ref := sref, kc_session_stage := sstage\<rparr>)"
  by (simp_all add: cohort_cosmetic_def)

lemma keep_settle_owner [simp]: "P db \<Longrightarrow> P (settle_owner a db)"
  by (auto simp: settle_owner_def clearOwnerSessionRef_def clear_spec_session_def clear_plan_session_def clear_cohort_session_def
      cosmetic_session split: option.splits entity_kind.splits)

lemma keep_marks [simp]: "P db \<Longrightarrow> P (markAttemptFailed now i err hint db)" "P db \<Longrightarrow> P (markAttemptSucceeded now i db)"
  by (simp_all add: markAttemptFailed_def markAttemptSucceeded_def)

lemma keep_session_ref:
  assumes "P db" and g: "settles g"
  shows "P (snd (settle_by_session_ref ref g db))"
proof -
  have "settles (\<lambda>a. if runs_session ref a then g a else a)" using g by (auto simp: settles_def)
  then show ?thesis using assms(1) by (simp add: settle_by_session_ref_def Let_def)
qed

lemma keep_settlement: "P db \<Longrightarrow> P (settleAttemptForEndedSession ds now sid db)"
  by (auto simp: settleAttemptForEndedSession_def markRunningAttemptSucceededBySessionRef_def
      markRunningAttemptFailedBySessionRef_def keep_session_ref split: option.splits acp_dispatch_status.splits)

lemma keep_reconcile: "P db \<Longrightarrow> P (reconcileDispatchAttempts ds alive now db)"
proof -
  have "P db \<Longrightarrow> P (reconcile_one ds alive now a db)" for a db
    by (auto simp: reconcile_one_def Let_def split: option.splits acp_dispatch_status.splits)
  then have "P db \<Longrightarrow> P (fold (reconcile_one ds alive now) as db)" for "as" db
    by (induction "as" arbitrary: db) auto
  then show "P db \<Longrightarrow> P (reconcileDispatchAttempts ds alive now db)" by (simp add: reconcileDispatchAttempts_def)
qed

lemma keep_acquire: "P db \<Longrightarrow> P (snd (dispatch_acquire env now i st inp db))"
proof -
  assume "P db"
  then have "P (close_stale env now ctx db)" for ctx
    by (auto simp: close_stale_def Let_def split: option.splits acp_dispatch_status.splits)
  then show ?thesis using \<open>P db\<close>
    by (auto simp: dispatch_acquire_def Let_def split_beta split: sum.splits claim_result.splits intro: keep_claim)
qed

lemma keep_claimed: "P db \<Longrightarrow> P (run_op (ClaimAttempt now i kind entity stage epic cohort) db)"
  by (auto simp: keep_claim split: sum.splits)

lemma keep_prepare: "P db \<Longrightarrow> P (snd (dispatch_prepare env now ctx a db))"
  by (auto simp: dispatch_prepare_def name_branch_def updateAttemptBranchInfo_def Let_def
      split: entity_kind.splits sum.splits option.splits)

lemma keep_spawned: "P db \<Longrightarrow> P (snd (dispatch_spawned now ctx a ref db))"
  by (auto simp: dispatch_spawned_def Let_def cosmetic_session dest: keep_running
      split: entity_kind.splits sum.splits option.splits)

lemma keep_failed: "P db \<Longrightarrow> P (dispatch_failed now a err hint db)"
  by (simp add: dispatch_failed_def)

lemmas keep_ops = keep_claimed [simplified] keep_transaction_routes keep_cohort_routes keep_brief_routes keep_brief_status keep_plan_routes
  keep_plan_status keep_epic_routes keep_delete_epic keep_spec_routes keep_post_spec keep_review_routes keep_settlement
  keep_reconcile keep_acquire keep_prepare keep_spawned keep_failed

text \<open>Every benign operation keeps the invariant.\<close>

lemma keep_benign_op: "P db \<Longrightarrow> benign op \<Longrightarrow> P (run_op op db)"
  by (cases op rule: benign.cases) (simp_all add: keep_ops)

end

text \<open>With laws for the two other operations, it holds wherever the tracker can get.\<close>

locale tracker_invariant = benign_invariant +
  assumes keep_unblock: "P db \<Longrightarrow> P (snd (transitionCohort i UnblockEvent db))"
    and keep_delete_dependency: "P db \<Longrightarrow> P (snd (deleteCohortDependency i db))"
begin

lemma keep_unblocked: "P db \<Longrightarrow> P (fst (patch_cohort_status i AskUnblocked db))"
  by (auto simp: patch_cohort_status_def status_transaction_def split_beta Let_def keep_unblock
      split: option.splits cohort_transition_result.splits sum.splits)

lemma keep_deleted: "P db \<Longrightarrow> P (fst (delete_dependency i db))"
  by (auto simp: delete_dependency_def keep_delete_dependency split: option.splits)

lemma keep_run_op: "P db \<Longrightarrow> P (run_op op db)"
  by (cases "benign op", rule keep_benign_op) (auto elim: benign.elims simp: keep_unblocked keep_deleted)

lemma reachable: "P empty_tracker \<Longrightarrow> tracker_reachable db \<Longrightarrow> P db"
proof -
  assume "P empty_tracker" and "tracker_reachable db"
  show "P db" using \<open>tracker_reachable db\<close> by induction (auto simp: keep_run_op \<open>P empty_tracker\<close>)
qed

end

text \<open>A property of rows that no transition of a cohort and no change of briefs affects.\<close>

locale row_invariant =
  fixes P :: "tracker \<Rightarrow> bool"
  assumes row_projects: "P (db\<lparr>tk_projects := projects\<rparr>) = P db"
    and row_specs: "P (db\<lparr>tk_specs := specs\<rparr>) = P db"
    and row_epics: "P (db\<lparr>tk_epics := epics\<rparr>) = P db"
    and row_discrepancies: "P (db\<lparr>tk_discrepancies := discrepancies\<rparr>) = P db"
    and row_plans: "P (db\<lparr>tk_plans := plans\<rparr>) = P db"
    and row_briefs: "P (db\<lparr>tk_briefs := briefs\<rparr>) = P db"
    and row_assessments: "P (db\<lparr>tk_assessments := assessments\<rparr>) = P db"
    and row_frozen: "P (db\<lparr>tk_frozen := frozen\<rparr>) = P db"
    and row_threads: "P (db\<lparr>tk_threads := threads\<rparr>) = P db"
    and row_messages: "P (db\<lparr>tk_messages := messages\<rparr>) = P db"
    and row_edits: "P (db\<lparr>tk_edits := edits\<rparr>) = P db"
    and row_cosmetic: "P db \<Longrightarrow> cohort_cosmetic f \<Longrightarrow> P (update_cohort i f db)"
    and row_transition: "P db \<Longrightarrow> P (snd (transitionCohort i e db))"
    and row_insert_cohort: "P db \<Longrightarrow> insertCohort now i p title notes pos db = Inr (co, db') \<Longrightarrow> P db'"
    and row_post_dependency: "P db \<Longrightarrow> P (fst (post_dependency i src dst db))"
    and row_delete_dependency: "P db \<Longrightarrow> P (snd (deleteCohortDependency i db))"
    and row_remove_cohorts: "P db \<Longrightarrow>
      P (db\<lparr>tk_dependencies := filter (\<lambda>d. kd_from d \<notin> C \<and> kd_to d \<notin> C) (tk_dependencies db),
            tk_cohorts := filter (\<lambda>c. kc_id c \<notin> C) (tk_cohorts db)\<rparr>)"
    and row_settle: "P db \<Longrightarrow> settles g \<Longrightarrow> P (db\<lparr>tk_attempts := map g (tk_attempts db)\<rparr>)"
    and row_claim: "P db \<Longrightarrow> claimDispatch now i kind entity stage epic cohort db = Inr (r, db') \<Longrightarrow> P db'"
    and row_running: "P db \<Longrightarrow> markAttemptRunning now i ref db = Inr db' \<Longrightarrow> P db'"
begin

lemma row_fanout: "P db \<Longrightarrow> P (fst (runDoneFanout i db))"
proof -
  have "P (fst s) \<Longrightarrow> P (fst (fanout_one i s))" for i s
    by (auto simp: fanout_one_def split_beta row_transition split: option.splits cohort_transition_result.splits)
  then have "P (fst s) \<Longrightarrow> P (fst (fold fanout_one is s))" for "is" s
    by (induction "is" arbitrary: s) auto
  then show "P db \<Longrightarrow> P (fst (runDoneFanout i db))" by (simp add: runDoneFanout_def)
qed

lemma row_update_brief: "P (update_brief i h db) = P db"
  by (simp add: update_brief_def row_briefs)

lemma row_insert_brief: "P db \<Longrightarrow> insertBrief now i c m pr pay db = Inr (b, db') \<Longrightarrow> P db'"
  by (auto simp: insertBrief_def Let_def row_briefs split: if_splits)

lemma row_remove_plans:
  "P db \<Longrightarrow> P (db\<lparr>tk_briefs := bs, tk_dependencies := filter (\<lambda>d. kd_from d \<notin> C \<and> kd_to d \<notin> C) (tk_dependencies db),
     tk_cohorts := filter (\<lambda>c. kc_id c \<notin> C) (tk_cohorts db)\<rparr>)"
  using row_remove_cohorts [of "db\<lparr>tk_briefs := bs\<rparr>" C] by (simp add: row_briefs)

lemma row_transition_eq: "P db \<Longrightarrow> transitionCohort c e db = (r, db') \<Longrightarrow> P db'"
  using row_transition [of db c e] by simp

lemmas row_laws = row_projects row_specs row_epics row_discrepancies row_plans row_assessments row_frozen row_threads
  row_messages row_edits row_cosmetic row_transition row_post_dependency row_delete_dependency row_settle row_fanout
  row_update_brief row_remove_plans

end

sublocale row_invariant \<subseteq> tracker_invariant
  by unfold_locales (auto simp: row_laws intro: row_insert_brief row_transition_eq row_insert_cohort row_claim row_running)

end
