(* ===== verification/TrackerReach.thy ===== *)
theory TrackerReach
  imports TrackerInv
begin

text \<open>
  The invariants of the task tracker: the dependency graph stays inside plans and acyclic, the dispatch
  ledger holds at most one active attempt per entity and stage, and a cohort remembers the status it was
  blocked in exactly while it is blocked.
\<close>

section \<open>Rows and their identifiers\<close>

lemma find_append_found: "List.find p xs = Some x \<Longrightarrow> List.find p (xs @ ys) = Some x"
  by (induction xs) (auto split: if_splits)

lemma transition_map:
  obtains f where "snd (transitionCohort i e db) = db\<lparr>tk_cohorts := map f (tk_cohorts db)\<rparr>"
    and "\<And>c. kc_id (f c) = kc_id c \<and> kc_plan_id (f c) = kc_plan_id c"
    and "\<And>c. f c = c \<or> (\<exists>next. applyCohortTransition (kc_status c) e (kc_pre_block_status c) = Inr next \<and> f c = transition_row e next c)"
proof (cases "snd (transitionCohort i e db) = db")
  case True
  then show ?thesis by (intro that [of id]) auto
next
  case False
  then obtain c where c: "getCohort db i = Some c"
    by (cases "getCohort db i") (auto simp: transitionCohort_def)
  with False obtain s where s: "applyCohortTransition (kc_status c) e (kc_pre_block_status c) = Inr s"
    by (auto simp: transitionCohort_Some split: sum.splits)
  have "snd (transitionCohort i e db) = db\<lparr>tk_cohorts := map (\<lambda>r. if kc_id r = i \<and> kc_status r = kc_status c \<and>
      kc_pre_block_status r = kc_pre_block_status c then transition_row e s r else r) (tk_cohorts db)\<rparr>"
    using s by (simp add: transitionCohort_Some [OF c])
  then show ?thesis by (rule that) (use s in \<open>auto simp: transition_row_def\<close>)
qed

section \<open>The dependency graph\<close>

definition graph_ok :: "tracker \<Rightarrow> bool" where
  "graph_ok db \<longleftrightarrow> dependencies_wf db \<and> acyclic (cohort_edges db)"

lemma graph_ok_cohorts:
  assumes "graph_ok db" and f: "\<And>c. kc_id (f c) = kc_id c \<and> kc_plan_id (f c) = kc_plan_id c"
  shows "graph_ok (db\<lparr>tk_cohorts := map f (tk_cohorts db)\<rparr>)"
proof -
  have "plan_of (db\<lparr>tk_cohorts := map f (tk_cohorts db)\<rparr>) = plan_of db"
    using f by (auto simp: plan_of_def getCohort_def find_map_id option.map_comp fun_eq_iff intro!: option.map_cong)
  moreover have "map kc_id (map f (tk_cohorts db)) = map kc_id (tk_cohorts db)" using f by simp
  ultimately show ?thesis using assms(1) by (simp add: graph_ok_def dependencies_wf_def cohort_edges_def del: map_map)
qed

lemma graph_ok_tables [simp]:
  "graph_ok (db\<lparr>tk_projects := x0\<rparr>) = graph_ok db" "graph_ok (db\<lparr>tk_specs := x1\<rparr>) = graph_ok db"
  "graph_ok (db\<lparr>tk_epics := x2\<rparr>) = graph_ok db" "graph_ok (db\<lparr>tk_discrepancies := x3\<rparr>) = graph_ok db"
  "graph_ok (db\<lparr>tk_plans := x4\<rparr>) = graph_ok db" "graph_ok (db\<lparr>tk_briefs := x7\<rparr>) = graph_ok db"
  "graph_ok (db\<lparr>tk_assessments := x8\<rparr>) = graph_ok db" "graph_ok (db\<lparr>tk_frozen := x9\<rparr>) = graph_ok db"
  "graph_ok (db\<lparr>tk_attempts := x10\<rparr>) = graph_ok db" "graph_ok (db\<lparr>tk_threads := x11\<rparr>) = graph_ok db"
  "graph_ok (db\<lparr>tk_messages := x12\<rparr>) = graph_ok db" "graph_ok (db\<lparr>tk_edits := x13\<rparr>) = graph_ok db"
  by (simp_all add: graph_ok_def dependencies_wf_def cohort_edges_def plan_of_def getCohort_def)

lemma graph_ok_insert_cohort:
  assumes "graph_ok db" and "insertCohort now i p title notes pos db = Inr (c, db')"
  shows "graph_ok db'"
proof -
  have db': "db' = db\<lparr>tk_cohorts := tk_cohorts db @ [c]\<rparr>" and c: "kc_id c = i" "i \<notin> kc_id ` set (tk_cohorts db)"
    using assms(2) by (auto simp: insertCohort_def Let_def list_ex_iff split: if_splits)
  have "plan_of db' j = plan_of db j" if "plan_of db j \<noteq> None" for j
  proof -
    from that obtain x where "getCohort db j = Some x" by (auto simp: plan_of_def)
    then have "getCohort db' j = Some x" unfolding db' getCohort_def by (simp add: find_append_found)
    then show ?thesis using \<open>getCohort db j = Some x\<close> by (simp add: plan_of_def)
  qed
  then have "list_all (\<lambda>d. plan_of db' (kd_from d) \<noteq> None \<and> plan_of db' (kd_to d) = plan_of db' (kd_from d)) (tk_dependencies db)"
    using assms(1) by (simp add: graph_ok_def dependencies_wf_def list_all_iff)
  then show ?thesis using assms(1) c by (simp add: graph_ok_def dependencies_wf_def cohort_edges_def db')
qed

lemma graph_ok_remove:
  assumes "graph_ok db"
  shows "graph_ok (db\<lparr>tk_dependencies := filter (\<lambda>d. kd_from d \<notin> S \<and> kd_to d \<notin> S) (tk_dependencies db),
            tk_cohorts := filter (\<lambda>c. kc_id c \<notin> S) (tk_cohorts db)\<rparr>)" (is "graph_ok ?db")
proof -
  have d: "distinct (map kc_id (tk_cohorts db))" using assms by (simp add: graph_ok_def dependencies_wf_def)
  then have d': "distinct (map kc_id (tk_cohorts ?db))" by (simp add: distinct_map_filter)
  have "plan_of ?db j = plan_of db j" if "j \<notin> S" for j
  proof -
    have "plan_of ?db j = Some p \<longleftrightarrow> plan_of db j = Some p" for p
      unfolding plan_of_Some [OF d] plan_of_Some [OF d'] using that by auto
    then show ?thesis by (cases "plan_of db j"; cases "plan_of ?db j") auto
  qed
  moreover have "acyclic (cohort_edges ?db)"
    using assms by (auto simp: graph_ok_def cohort_edges_def elim!: acyclic_subset)
  ultimately show ?thesis using assms d' by (auto simp: graph_ok_def dependencies_wf_def list_all_iff)
qed

lemma graph_ok_post_dependency:
  assumes "graph_ok db"
  shows "graph_ok (fst (post_dependency i src dst db))"
proof (cases "getCohort db src = None \<or> getCohort db dst = None")
  case True
  then show ?thesis using assms by (auto simp: post_dependency_def refuse_def split: option.splits)
next
  case False
  then obtain a b where ab: "getCohort db src = Some a" "getCohort db dst = Some b" by auto
  show ?thesis
  proof (cases "kc_plan_id a = kc_plan_id b \<and> \<not> hasCycleAfterInsert db src dst")
    case True
    then have p: "plan_of db src = Some (kc_plan_id a)" "plan_of db dst = Some (kc_plan_id a)" using ab by (auto simp: plan_of_def)
    have "acyclic (insert (src, dst) (cohort_edges db))"
      using hasCycleAfterInsert_right [OF _ p] assms True by (simp add: graph_ok_def)
    then have "graph_ok (db\<lparr>tk_dependencies := tk_dependencies db @ [\<lparr>kd_id = i, kd_from = src, kd_to = dst\<rparr>]\<rparr>)"
      using assms p by (auto simp: graph_ok_def dependencies_wf_def cohort_edges_def edge_of_def plan_of_def getCohort_def insert_commute)
    then show ?thesis using assms ab True
      by (auto simp: post_dependency_def insertCohortDependency_def refuse_def archived_reply_def Let_def)
  qed (use assms ab in \<open>auto simp: post_dependency_def refuse_def archived_reply_def\<close>)
qed

lemma graph_ok_delete_dependency: "graph_ok db \<Longrightarrow> graph_ok (snd (deleteCohortDependency i db))"
  by (auto simp: graph_ok_def dependencies_wf_def deleteCohortDependency_def cohort_edges_def list_all_iff plan_of_def getCohort_def
      elim!: acyclic_subset)

lemma post_dependency_appends:
  "\<exists>more. fst (post_dependency i src dst db) = db\<lparr>tk_dependencies := tk_dependencies db @ more\<rparr>"
proof -
  have "fst (post_dependency i src dst db) = db \<or>
      (\<exists>more. fst (post_dependency i src dst db) = db\<lparr>tk_dependencies := tk_dependencies db @ more\<rparr>)"
    by (auto simp: post_dependency_def insertCohortDependency_def refuse_def archived_reply_def Let_def split: option.splits)
  then show ?thesis by (auto intro: exI [of _ "[]"])
qed

lemma claim_tables:
  "claimDispatch now i kind entity stage epic cohort db = Inr (r, db') \<Longrightarrow> \<exists>as. db' = db\<lparr>tk_attempts := as\<rparr>"
  by (auto simp: claimDispatch_def Let_def split: if_splits option.splits intro: exI [of _ "tk_attempts db"])

lemma running_tables: "markAttemptRunning now i ref db = Inr db' \<Longrightarrow> \<exists>as. db' = db\<lparr>tk_attempts := as\<rparr>"
  by (auto simp: markAttemptRunning_def update_attempt_def split: if_splits option.splits intro: exI [of _ "tk_attempts db"])

interpretation dependencies: row_invariant graph_ok
proof
  show "graph_ok db \<Longrightarrow> graph_ok (snd (transitionCohort i e db))" for db i e
    by (rule transition_map [of i e db]) (simp add: graph_ok_cohorts)
  show "graph_ok db \<Longrightarrow> cohort_cosmetic f \<Longrightarrow> graph_ok (update_cohort i f db)" for db i f
    by (simp add: update_cohort_def graph_ok_cohorts cohort_cosmetic_def)
qed (auto simp: graph_ok_insert_cohort graph_ok_remove graph_ok_post_dependency graph_ok_delete_dependency
    dest!: claim_tables running_tables)

section \<open>The dispatch ledger\<close>

abbreviation active_of :: "tracker \<Rightarrow> entity_kind \<times> string \<times> string \<Rightarrow> kattempt list" where
  "active_of db key \<equiv> filter (\<lambda>a. active_status (da_status a)) (attempts_of db key)"

lemma ledger_ok_tables [simp]:
  "ledger_ok (db\<lparr>tk_projects := x0\<rparr>) = ledger_ok db" "ledger_ok (db\<lparr>tk_specs := x1\<rparr>) = ledger_ok db"
  "ledger_ok (db\<lparr>tk_epics := x2\<rparr>) = ledger_ok db" "ledger_ok (db\<lparr>tk_discrepancies := x3\<rparr>) = ledger_ok db"
  "ledger_ok (db\<lparr>tk_plans := x4\<rparr>) = ledger_ok db" "ledger_ok (db\<lparr>tk_cohorts := x5\<rparr>) = ledger_ok db"
  "ledger_ok (db\<lparr>tk_dependencies := x6\<rparr>) = ledger_ok db" "ledger_ok (db\<lparr>tk_briefs := x7\<rparr>) = ledger_ok db"
  "ledger_ok (db\<lparr>tk_assessments := x8\<rparr>) = ledger_ok db" "ledger_ok (db\<lparr>tk_frozen := x9\<rparr>) = ledger_ok db"
  "ledger_ok (db\<lparr>tk_threads := x11\<rparr>) = ledger_ok db" "ledger_ok (db\<lparr>tk_messages := x12\<rparr>) = ledger_ok db"
  "ledger_ok (db\<lparr>tk_edits := x13\<rparr>) = ledger_ok db"
  by (simp_all add: ledger_ok_def attempts_of_def)

lemma attempts_of_map:
  "(\<And>a. attempt_key (g a) = attempt_key a) \<Longrightarrow>
   attempts_of (db\<lparr>tk_attempts := map g (tk_attempts db)\<rparr>) key = map g (attempts_of db key)"
  by (simp add: attempts_of_def filter_map o_def)

lemma ledger_ok_map:
  assumes "ledger_ok db"
    and g: "\<And>a. da_id (g a) = da_id a \<and> attempt_key (g a) = attempt_key a \<and> da_attempt_number (g a) = da_attempt_number a"
    and active: "\<And>key. length (filter (\<lambda>a. active_status (da_status (g a))) (attempts_of db key)) \<le> 1"
  shows "ledger_ok (db\<lparr>tk_attempts := map g (tk_attempts db)\<rparr>)"
  using assms unfolding ledger_ok_def by (simp add: attempts_of_map filter_map o_def)

lemma ledger_ok_settle:
  assumes "ledger_ok db" and g: "settles g"
  shows "ledger_ok (db\<lparr>tk_attempts := map g (tk_attempts db)\<rparr>)"
proof (rule ledger_ok_map [OF assms(1)])
  show "da_id (g a) = da_id a \<and> attempt_key (g a) = attempt_key a \<and> da_attempt_number (g a) = da_attempt_number a" for a
    using g by (simp add: settles_def)
  have "active_status (da_status (g a)) \<longrightarrow> active_status (da_status a)" for a
    using g unfolding settles_def by metis
  then have "length (filter (\<lambda>a. active_status (da_status (g a))) xs) \<le> length (filter (\<lambda>a. active_status (da_status a)) xs)" for xs
    by (induction xs) auto
  then show "length (filter (\<lambda>a. active_status (da_status (g a))) (attempts_of db key)) \<le> 1" for key
    using assms(1) order_trans unfolding ledger_ok_def by metis
qed

lemma latest_by_Nil [simp]: "latest_by key [] = None"
  by (simp add: latest_by_def)

lemma next_attempt_number:
  assumes "map da_attempt_number as = [1..<length as + 1]"
  shows "case_option 0 da_attempt_number (latest_by da_attempt_number as) = length as"
proof (cases "latest_by da_attempt_number as")
  case (Some r)
  have "r \<in> set as" and top: "\<And>x. x \<in> set as \<Longrightarrow> da_attempt_number x \<le> da_attempt_number r"
    using latest_by_SomeD [OF Some] by auto
  moreover have "as \<noteq> []" using Some by (metis latest_by_None option.distinct(1))
  then have "length as \<in> da_attempt_number ` set as" using assms
    by (metis One_nat_def Suc_eq_plus1 Suc_leI atLeastLessThan_iff length_greater_0_conv lessI list.set_map set_upt)
  moreover have "da_attempt_number r \<in> set [1..<length as + 1]" using \<open>r \<in> set as\<close> assms by (metis image_eqI list.set_map)
  ultimately show ?thesis using Some by (auto intro: le_antisym)
qed simp

lemma claimed:
  assumes "claimDispatch now i kind entity stage epic cohort db = Inr (Claimed row, db')"
  shows "db' = db\<lparr>tk_attempts := tk_attempts db @ [row]\<rparr>" and "da_id row = i" and "attempt_key row = (kind, entity, stage)"
    and "i \<notin> da_id ` set (tk_attempts db)" and "active_of db (kind, entity, stage) = []"
    and "da_attempt_number row =
      case_option 0 da_attempt_number (latest_by da_attempt_number (attempts_of db (kind, entity, stage))) + 1"
  using assms by (auto simp: claimDispatch_def Let_def attempt_key_def getActiveAttempt_def find_None_set list_ex_iff
      filter_empty_conv split: if_splits option.splits)

lemma claim_conflict:
  "claimDispatch now i kind entity stage epic cohort db = Inr (ClaimConflict a, db') \<Longrightarrow>
   db' = db \<and> getActiveAttempt db kind entity stage = Some a"
  by (auto simp: claimDispatch_def Let_def split: if_splits option.splits)

lemma filter_key_le_1: "distinct (map k xs) \<Longrightarrow> length (filter (\<lambda>x. k x = i) xs) \<le> 1"
proof (induction xs)
  case (Cons x xs)
  then have "filter (\<lambda>y. k y = k x) xs = []" by (auto simp: filter_empty_conv image_iff)
  then show ?case using Cons by auto
qed simp

lemma ledger_ok_claim:
  assumes ok: "ledger_ok db" and "claimDispatch now i kind entity stage epic cohort db = Inr (r, db')"
  shows "ledger_ok db'"
proof (cases r)
  case (Claimed row)
  let ?key = "(kind, entity, stage)"
  note new = claimed [OF assms(2) [unfolded Claimed]]
  have of: "attempts_of db' key = attempts_of db key @ (if key = ?key then [row] else [])" for key
    using new(3) by (auto simp: attempts_of_def new(1))
  have "map da_attempt_number (attempts_of db ?key) = [1..<length (attempts_of db ?key) + 1]"
    using ok by (simp add: ledger_ok_def)
  then have "da_attempt_number row = length (attempts_of db ?key) + 1" using new(6) next_attempt_number by metis
  moreover have key: "length (active_of db key) \<le> 1 \<and> map da_attempt_number (attempts_of db key) = [1..<length (attempts_of db key) + 1]" for key
    using ok unfolding ledger_ok_def by blast
  ultimately have "length (active_of db' key) \<le> 1 \<and> map da_attempt_number (attempts_of db' key) = [1..<length (attempts_of db' key) + 1]"
    for key using key [of key] new(5) by (cases "key = ?key") (simp_all add: of)
  then show ?thesis using ok new(2,4) unfolding ledger_ok_def by (simp add: new(1))
qed (use ok assms(2) claim_conflict in blast)

lemma ledger_ok_running:
  assumes ok: "ledger_ok db" and "markAttemptRunning now i ref db = Inr db'"
  shows "ledger_ok db'"
proof (cases "getAttempt db i")
  case (Some a)
  let ?g = "\<lambda>a. if da_id a = i then a\<lparr>da_status := Running, da_actual_ref := Some ref, da_updated_at := now\<rparr> else a"
  have a: "a \<in> set (tk_attempts db)" "da_id a = i" using Some by (auto simp: getAttempt_def dest: find_Some_set)
  have d: "distinct (map da_id (tk_attempts db))" using ok by (simp add: ledger_ok_def)
  have db': "db' = db\<lparr>tk_attempts := map ?g (tk_attempts db)\<rparr>"
    and others: "\<And>b. b \<in> set (attempts_of db (attempt_key a)) \<Longrightarrow> active_status (da_status b) \<Longrightarrow> da_id b = i"
    using assms(2) Some by (auto simp: markAttemptRunning_def update_attempt_def list_ex_iff split: if_splits)
  have one: "b = a" if "b \<in> set (tk_attempts db)" "da_id b = i" for b
    using d a that by (metis distinct_map inj_onD)
  have "length (filter (\<lambda>b. active_status (da_status (?g b))) (attempts_of db key)) \<le> 1" for key
  proof (cases "key = attempt_key a")
    case True
    have "filter (\<lambda>b. active_status (da_status (?g b))) (attempts_of db key) = filter (\<lambda>b. da_id b = i) (attempts_of db key)"
      using others True by (intro filter_cong) (auto simp: active_status_def)
    also have "length \<dots> \<le> 1" using d by (intro filter_key_le_1) (simp add: attempts_of_def distinct_map_filter)
    finally show ?thesis .
  next
    case False
    then have "filter (\<lambda>b. active_status (da_status (?g b))) (attempts_of db key) = active_of db key"
      using one by (intro filter_cong) (auto simp: attempts_of_def)
    moreover have "length (active_of db key) \<le> 1" using ok unfolding ledger_ok_def by blast
    ultimately show ?thesis by (simp only:)
  qed
  then show ?thesis unfolding db' by (intro ledger_ok_map [OF ok]) (auto simp: attempt_key_def)
qed (use assms in \<open>simp add: markAttemptRunning_def\<close>)

interpretation ledger: row_invariant ledger_ok
proof
  show "ledger_ok db \<Longrightarrow> ledger_ok (snd (transitionCohort i e db))" for db i e
    by (rule transition_map [of i e db]) simp
  show "ledger_ok db \<Longrightarrow> ledger_ok (fst (post_dependency i src dst db))" for db i src dst
    using post_dependency_appends [of i src dst db] by auto
  show "ledger_ok db \<Longrightarrow> insertCohort now i p title nts pos db = Inr (c, db') \<Longrightarrow> ledger_ok db'"
    for db now i p title nts pos c db'
    by (auto simp: insertCohort_def Let_def split: if_splits)
qed (auto simp: ledger_ok_settle update_cohort_def deleteCohortDependency_def intro: ledger_ok_claim ledger_ok_running)

section \<open>Blocked cohorts\<close>

definition blocked_ok :: "tracker \<Rightarrow> bool" where
  "blocked_ok db \<longleftrightarrow> list_all (\<lambda>c. (kc_status c = CohortBlocked) = (kc_pre_block_status c \<noteq> None) \<and>
     kc_pre_block_status c \<noteq> Some CohortBlocked) (tk_cohorts db)"

lemma blocked_ok_tables [simp]:
  "blocked_ok (db\<lparr>tk_projects := x0\<rparr>) = blocked_ok db" "blocked_ok (db\<lparr>tk_specs := x1\<rparr>) = blocked_ok db"
  "blocked_ok (db\<lparr>tk_epics := x2\<rparr>) = blocked_ok db" "blocked_ok (db\<lparr>tk_discrepancies := x3\<rparr>) = blocked_ok db"
  "blocked_ok (db\<lparr>tk_plans := x4\<rparr>) = blocked_ok db" "blocked_ok (db\<lparr>tk_dependencies := x6\<rparr>) = blocked_ok db"
  "blocked_ok (db\<lparr>tk_briefs := x7\<rparr>) = blocked_ok db" "blocked_ok (db\<lparr>tk_assessments := x8\<rparr>) = blocked_ok db"
  "blocked_ok (db\<lparr>tk_frozen := x9\<rparr>) = blocked_ok db" "blocked_ok (db\<lparr>tk_attempts := x10\<rparr>) = blocked_ok db"
  "blocked_ok (db\<lparr>tk_threads := x11\<rparr>) = blocked_ok db" "blocked_ok (db\<lparr>tk_messages := x12\<rparr>) = blocked_ok db"
  "blocked_ok (db\<lparr>tk_edits := x13\<rparr>) = blocked_ok db"
  by (simp_all add: blocked_ok_def)

lemma transition_blocked:
  assumes "applyCohortTransition st e pre = Inr next" and "(st = CohortBlocked) = (pre \<noteq> None)" and "pre \<noteq> Some CohortBlocked"
  shows "(next = CohortBlocked) = (e = BlockEvent)" and "e = BlockEvent \<Longrightarrow> st \<noteq> CohortBlocked"
    and "st = CohortBlocked \<Longrightarrow> e = UnblockEvent"
  using assms by (cases st; auto simp: applyCohortTransition_def split: if_splits option.splits)+

lemma blocked_ok_transition: "blocked_ok db \<Longrightarrow> blocked_ok (snd (transitionCohort i e db))"
proof (rule transition_map [of i e db])
  fix f assume ok: "blocked_ok db" and db': "snd (transitionCohort i e db) = db\<lparr>tk_cohorts := map f (tk_cohorts db)\<rparr>"
    and f: "\<And>c. f c = c \<or> (\<exists>next. applyCohortTransition (kc_status c) e (kc_pre_block_status c) = Inr next \<and> f c = transition_row e next c)"
  have "(kc_status (f c) = CohortBlocked) = (kc_pre_block_status (f c) \<noteq> None) \<and> kc_pre_block_status (f c) \<noteq> Some CohortBlocked"
    if "c \<in> set (tk_cohorts db)" for c
  proof -
    have c: "(kc_status c = CohortBlocked) = (kc_pre_block_status c \<noteq> None)" "kc_pre_block_status c \<noteq> Some CohortBlocked"
      using ok that by (auto simp: blocked_ok_def list_all_iff)
    show ?thesis using f [of c]
    proof
      assume "\<exists>next. applyCohortTransition (kc_status c) e (kc_pre_block_status c) = Inr next \<and> f c = transition_row e next c"
      then obtain s where s: "applyCohortTransition (kc_status c) e (kc_pre_block_status c) = Inr s" "f c = transition_row e s c" by blast
      show ?thesis using transition_blocked [OF s(1) c] c s(2) by (auto simp: transition_row_def)
    qed (use c in auto)
  qed
  then show ?thesis by (simp add: db' blocked_ok_def list_all_iff)
qed

lemma blocked_ok_cohorts:
  "blocked_ok db \<Longrightarrow> cohort_cosmetic f \<Longrightarrow> blocked_ok (update_cohort i f db)"
  "blocked_ok db \<Longrightarrow> insertCohort now i p title notes pos db = Inr (c, db') \<Longrightarrow> blocked_ok db'"
  "blocked_ok db \<Longrightarrow> blocked_ok (db\<lparr>tk_dependencies := ds, tk_cohorts := filter keep (tk_cohorts db)\<rparr>)"
  by (auto simp: blocked_ok_def list_all_iff update_cohort_def cohort_cosmetic_def insertCohort_def Let_def split: if_splits)

interpretation blocked: row_invariant blocked_ok
proof
  show "blocked_ok db \<Longrightarrow> blocked_ok (fst (post_dependency i src dst db))" for db i src dst
    using post_dependency_appends [of i src dst db] by auto
qed (auto simp: blocked_ok_transition deleteCohortDependency_def blocked_ok_cohorts dest!: claim_tables running_tables)

lemma reachable_graph: "tracker_reachable db \<Longrightarrow> graph_ok db"
  by (rule dependencies.reachable) (simp add: graph_ok_def dependencies_wf_def cohort_edges_def empty_tracker_def acyclic_def)

lemma reachable_ledger: "tracker_reachable db \<Longrightarrow> ledger_ok db"
  by (rule ledger.reachable) (simp add: ledger_ok_def attempts_of_def empty_tracker_def)

lemma reachable_blocked: "tracker_reachable db \<Longrightarrow> blocked_ok db"
  by (rule blocked.reachable) (simp add: blocked_ok_def empty_tracker_def)

end
