(* ===== verification/TrackerWake.thy ===== *)
theory TrackerWake
  imports TrackerReach
begin

text \<open>
  When a cohort starts to build. The fan-out of a completed cohort in closed form, and the invariant that
  no cohort waits in \<open>ready_to_build\<close> without a reason: it holds under every operation except unblocking a
  cohort and deleting a dependency.
\<close>

section \<open>The fan-out in closed form\<close>

definition releasable :: "tracker \<Rightarrow> kcohort \<Rightarrow> bool" where
  "releasable db r \<longleftrightarrow> kc_status r = CohortReadyToBuild \<and> countUnmetDependencies db (kc_id r) = 0 \<and>
     getLatestApprovedBriefByCohort db (kc_id r) \<noteq> None"

definition start_building :: "(kcohort \<Rightarrow> bool) \<Rightarrow> tracker \<Rightarrow> tracker" where
  "start_building p db = db\<lparr>tk_cohorts := map (\<lambda>r. if p r then r\<lparr>kc_status := CohortBuilding\<rparr> else r) (tk_cohorts db)\<rparr>"

definition builds_of :: "(kcohort \<Rightarrow> bool) \<Rightarrow> tracker \<Rightarrow> (string \<times> string) set" where
  "builds_of p db = {(kc_id r, kb_id b) |r b. r \<in> set (tk_cohorts db) \<and> p r \<and>
     getLatestApprovedBriefByCohort db (kc_id r) = Some b}"

text \<open>Counting unmet dependencies looks at which cohorts are done, and at nothing else.\<close>

lemma countUnmet_tables [simp]:
  "countUnmetDependencies (db\<lparr>tk_projects := x0\<rparr>) = countUnmetDependencies db" "countUnmetDependencies (db\<lparr>tk_specs := x1\<rparr>) = countUnmetDependencies db"
  "countUnmetDependencies (db\<lparr>tk_epics := x2\<rparr>) = countUnmetDependencies db" "countUnmetDependencies (db\<lparr>tk_discrepancies := x3\<rparr>) = countUnmetDependencies db"
  "countUnmetDependencies (db\<lparr>tk_plans := x4\<rparr>) = countUnmetDependencies db" "countUnmetDependencies (db\<lparr>tk_briefs := x7\<rparr>) = countUnmetDependencies db"
  "countUnmetDependencies (db\<lparr>tk_assessments := x8\<rparr>) = countUnmetDependencies db" "countUnmetDependencies (db\<lparr>tk_frozen := x9\<rparr>) = countUnmetDependencies db"
  "countUnmetDependencies (db\<lparr>tk_attempts := x10\<rparr>) = countUnmetDependencies db" "countUnmetDependencies (db\<lparr>tk_threads := x11\<rparr>) = countUnmetDependencies db"
  "countUnmetDependencies (db\<lparr>tk_messages := x12\<rparr>) = countUnmetDependencies db" "countUnmetDependencies (db\<lparr>tk_edits := x13\<rparr>) = countUnmetDependencies db"
  by (simp_all add: fun_eq_iff countUnmetDependencies_def unmet_def [abs_def] getCohort_def)

lemma getCohort_map:
  "(\<And>r. kc_id (f r) = kc_id r) \<Longrightarrow> getCohort (db\<lparr>tk_cohorts := map f (tk_cohorts db)\<rparr>) i = map_option f (getCohort db i)"
  by (simp add: getCohort_def find_map_id)

lemma getCohort_in: "getCohort db i = Some c \<Longrightarrow> c \<in> set (tk_cohorts db) \<and> kc_id c = i"
  by (auto simp: getCohort_def dest: find_Some_set)

lemma unmet_map:
  assumes "\<And>r. kc_id (f r) = kc_id r"
  shows "unmet (db\<lparr>tk_cohorts := map f (tk_cohorts db)\<rparr>) i d \<longleftrightarrow>
    kd_to d = i \<and> (case getCohort db (kd_from d) of None \<Rightarrow> False | Some c \<Rightarrow> kc_status (f c) \<noteq> CohortDone)"
  using assms by (auto simp: unmet_def getCohort_map split: option.splits)

lemma countUnmet_same:
  assumes "\<And>r. kc_id (f r) = kc_id r" and "\<And>r. r \<in> set (tk_cohorts db) \<Longrightarrow> (kc_status (f r) = CohortDone) = (kc_status r = CohortDone)"
  shows "countUnmetDependencies (db\<lparr>tk_cohorts := map f (tk_cohorts db)\<rparr>) i = countUnmetDependencies db i"
proof -
  have "unmet (db\<lparr>tk_cohorts := map f (tk_cohorts db)\<rparr>) i = unmet db i"
    using assms(2) by (intro ext, subst unmet_map [OF assms(1)]) (auto simp: unmet_def dest: getCohort_in split: option.splits)
  then show ?thesis by (simp add: countUnmetDependencies_def)
qed

lemma countUnmet_mono:
  assumes "\<And>r. kc_id (f r) = kc_id r" and "\<And>r. r \<in> set (tk_cohorts db) \<Longrightarrow> kc_status (f r) = CohortDone \<Longrightarrow> kc_status r = CohortDone"
  shows "countUnmetDependencies db i \<le> countUnmetDependencies (db\<lparr>tk_cohorts := map f (tk_cohorts db)\<rparr>) i"
proof -
  have "unmet db i d \<Longrightarrow> unmet (db\<lparr>tk_cohorts := map f (tk_cohorts db)\<rparr>) i d" for d
    using assms(2) by (subst unmet_map [OF assms(1)]) (auto simp: unmet_def dest: getCohort_in split: option.splits)
  then have "length (filter (unmet db i) ds) \<le> length (filter (unmet (db\<lparr>tk_cohorts := map f (tk_cohorts db)\<rparr>) i) ds)" for ds
    by (induction ds) auto
  then show ?thesis by (simp add: countUnmetDependencies_def)
qed

lemma releasable_start: "(\<And>r. p r \<Longrightarrow> kc_status r \<noteq> CohortDone) \<Longrightarrow> releasable (start_building p db) = releasable db"
  by (auto simp: releasable_def fun_eq_iff start_building_def countUnmet_same getLatestApprovedBriefByCohort_def)

lemma fanout_one_effect:
  assumes d: "distinct (map kc_id (tk_cohorts db))"
  shows "\<exists>more. fanout_one t (db, ready) = (start_building (\<lambda>r. kc_id r = t \<and> releasable db r) db, ready @ more) \<and>
    set more = builds_of (\<lambda>r. kc_id r = t \<and> releasable db r) db"
proof (cases "\<exists>c b. getCohort db t = Some c \<and> releasable db c \<and> getLatestApprovedBriefByCohort db t = Some b")
  case True
  then obtain c b where c: "getCohort db t = Some c" "releasable db c" and b: "getLatestApprovedBriefByCohort db t = Some b" by blast
  have one: "r = c" if "r \<in> set (tk_cohorts db)" "kc_id r = t" for r
    using getCohort_distinct [OF d, of t] c(1) that by (metis option.inject)
  have t: "kc_id c = t" "c \<in> set (tk_cohorts db)" using c(1) getCohort_distinct [OF d] by auto
  have "transitionCohort t DependenciesMet db =
     (TransitionOk (c\<lparr>kc_status := CohortBuilding\<rparr>) CohortReadyToBuild CohortBuilding, start_building (\<lambda>r. kc_id r = t \<and> releasable db r) db)"
  proof -
    have "map (\<lambda>r. if kc_id r = t \<and> kc_status r = kc_status c \<and> kc_pre_block_status r = kc_pre_block_status c
          then transition_row DependenciesMet CohortBuilding r else r) (tk_cohorts db) =
        map (\<lambda>r. if kc_id r = t \<and> releasable db r then r\<lparr>kc_status := CohortBuilding\<rparr> else r) (tk_cohorts db)"
      using c(2) by (intro map_cong refl) (auto simp: transition_row_def dest: one)
    moreover have "kc_status c = CohortReadyToBuild" using c(2) by (simp add: releasable_def)
    ultimately show ?thesis unfolding transitionCohort_Some [OF c(1)]
      by (simp add: applyCohortTransition_def start_building_def transition_row_def)
  qed
  then have "fanout_one t (db, ready) = (start_building (\<lambda>r. kc_id r = t \<and> releasable db r) db, ready @ [(t, kb_id b)])"
    using c b t(1) by (simp add: fanout_one_def releasable_def)
  moreover have "builds_of (\<lambda>r. kc_id r = t \<and> releasable db r) db = {(t, kb_id b)}"
    using c b t unfolding builds_of_def by (auto dest: one)
  ultimately show ?thesis by auto
next
  case False
  have none: "\<not> (kc_id r = t \<and> releasable db r)" if "r \<in> set (tk_cohorts db)" for r
    using False that getCohort_distinct [OF d, of t] unfolding releasable_def by blast
  then have "map (\<lambda>r. if kc_id r = t \<and> releasable db r then r\<lparr>kc_status := CohortBuilding\<rparr> else r) (tk_cohorts db) = tk_cohorts db"
    by (intro map_idI) auto
  then have "start_building (\<lambda>r. kc_id r = t \<and> releasable db r) db = db" by (simp add: start_building_def)
  moreover have "fanout_one t (db, ready) = (db, ready)"
  proof (cases "getCohort db t")
    case (Some c)
    then have "\<not> releasable db c" "kc_id c = t" using none getCohort_distinct [OF d, of t] by auto
    then show ?thesis using Some by (auto simp: fanout_one_def releasable_def)
  qed (simp add: fanout_one_def)
  ultimately show ?thesis using none by (auto simp: builds_of_def)
qed

lemma builds_of_start:
  "(\<And>r. q r \<Longrightarrow> kc_status r = CohortReadyToBuild) \<Longrightarrow> builds_of q (start_building p db) = builds_of (\<lambda>r. q r \<and> \<not> p r) db"
  by (force simp: builds_of_def start_building_def getLatestApprovedBriefByCohort_def)

lemma builds_of_or: "builds_of p db \<union> builds_of q db = builds_of (\<lambda>r. p r \<or> q r) db"
  by (auto simp: builds_of_def)

lemma fanout_fold:
  "distinct (map kc_id (tk_cohorts db)) \<Longrightarrow>
   \<exists>more. fold fanout_one ts (db, ready) = (start_building (\<lambda>r. kc_id r \<in> set ts \<and> releasable db r) db, ready @ more) \<and>
     set more = builds_of (\<lambda>r. kc_id r \<in> set ts \<and> releasable db r) db"
proof (induction ts arbitrary: db ready)
  case Nil
  then show ?case by (auto simp: start_building_def builds_of_def)
next
  case (Cons t ts)
  let ?p = "\<lambda>r. kc_id r = t \<and> releasable db r"
  let ?db = "start_building ?p db"
  obtain more where one: "fanout_one t (db, ready) = (?db, ready @ more)" "set more = builds_of ?p db"
    using fanout_one_effect [OF Cons.prems] by blast
  have rel: "releasable ?db = releasable db" by (rule releasable_start) (auto simp: releasable_def)
  have ids: "map kc_id (tk_cohorts ?db) = map kc_id (tk_cohorts db)" by (simp add: start_building_def)
  obtain more' where rest: "fold fanout_one ts (?db, ready @ more) =
      (start_building (\<lambda>r. kc_id r \<in> set ts \<and> releasable db r) ?db, (ready @ more) @ more')"
      "set more' = builds_of (\<lambda>r. kc_id r \<in> set ts \<and> releasable db r) ?db"
    using Cons.IH [of ?db "ready @ more"] Cons.prems unfolding ids rel by blast
  have "start_building (\<lambda>r. kc_id r \<in> set ts \<and> releasable db r) ?db = start_building (\<lambda>r. kc_id r \<in> set (t # ts) \<and> releasable db r) db"
    by (auto simp: start_building_def releasable_def)
  moreover have "set (more @ more') = builds_of (\<lambda>r. ?p r \<or> (kc_id r \<in> set ts \<and> releasable db r) \<and> \<not> ?p r) db"
    using one(2) rest(2) by (simp only: set_append builds_of_or [symmetric]) (subst builds_of_start, auto simp: releasable_def)
  moreover have "(\<lambda>r. ?p r \<or> (kc_id r \<in> set ts \<and> releasable db r) \<and> \<not> ?p r) = (\<lambda>r. kc_id r \<in> set (t # ts) \<and> releasable db r)"
    by auto
  ultimately show ?case using one(1) rest(1) by auto
qed

lemma runDoneFanout_effect:
  assumes "distinct (map kc_id (tk_cohorts db))"
  shows "fst (runDoneFanout i db) = start_building (\<lambda>r. kc_id r \<in> set (downstream db i) \<and> releasable db r) db"
    and "set (snd (runDoneFanout i db)) = builds_of (\<lambda>r. kc_id r \<in> set (downstream db i) \<and> releasable db r) db"
proof -
  obtain more where "runDoneFanout i db = (start_building (\<lambda>r. kc_id r \<in> set (downstream db i) \<and> releasable db r) db, more)"
    and "set more = builds_of (\<lambda>r. kc_id r \<in> set (downstream db i) \<and> releasable db r) db"
    using fanout_fold [OF assms, of "downstream db i" "[]"] unfolding runDoneFanout_def by auto
  then show "fst (runDoneFanout i db) = start_building (\<lambda>r. kc_id r \<in> set (downstream db i) \<and> releasable db r) db"
    and "set (snd (runDoneFanout i db)) = builds_of (\<lambda>r. kc_id r \<in> set (downstream db i) \<and> releasable db r) db" by simp_all
qed

section \<open>Nothing waits without a reason\<close>

text \<open>
  A cohort in \<open>ready_to_build\<close> that has an approved brief has an unfinished dependency, the one whose
  completion will start it.
\<close>

definition approved_for :: "tracker \<Rightarrow> string \<Rightarrow> bool" where
  "approved_for db i \<longleftrightarrow> list_ex (\<lambda>b. kb_cohort_id b = i \<and> kb_status b = BriefApprovedSt) (tk_briefs db)"

definition waits_for_cause :: "tracker \<Rightarrow> bool" where
  "waits_for_cause db \<longleftrightarrow> list_all (\<lambda>c. kc_status c = CohortReadyToBuild \<longrightarrow> approved_for db (kc_id c) \<longrightarrow>
     0 < countUnmetDependencies db (kc_id c)) (tk_cohorts db)"

definition wake_ok :: "tracker \<Rightarrow> bool" where
  "wake_ok db \<longleftrightarrow> graph_ok db \<and> distinct (map kb_id (tk_briefs db)) \<and> waits_for_cause db"

lemma approved_for_tables [simp]:
  "approved_for (db\<lparr>tk_projects := x0\<rparr>) = approved_for db" "approved_for (db\<lparr>tk_specs := x1\<rparr>) = approved_for db"
  "approved_for (db\<lparr>tk_epics := x2\<rparr>) = approved_for db" "approved_for (db\<lparr>tk_discrepancies := x3\<rparr>) = approved_for db"
  "approved_for (db\<lparr>tk_plans := x4\<rparr>) = approved_for db" "approved_for (db\<lparr>tk_cohorts := x5\<rparr>) = approved_for db"
  "approved_for (db\<lparr>tk_dependencies := x6\<rparr>) = approved_for db" "approved_for (db\<lparr>tk_assessments := x8\<rparr>) = approved_for db"
  "approved_for (db\<lparr>tk_frozen := x9\<rparr>) = approved_for db" "approved_for (db\<lparr>tk_attempts := x10\<rparr>) = approved_for db"
  "approved_for (db\<lparr>tk_threads := x11\<rparr>) = approved_for db" "approved_for (db\<lparr>tk_messages := x12\<rparr>) = approved_for db"
  "approved_for (db\<lparr>tk_edits := x13\<rparr>) = approved_for db"
  by (simp_all add: fun_eq_iff approved_for_def)

lemma wake_ok_tables [simp]:
  "wake_ok (db\<lparr>tk_projects := x0\<rparr>) = wake_ok db" "wake_ok (db\<lparr>tk_specs := x1\<rparr>) = wake_ok db"
  "wake_ok (db\<lparr>tk_epics := x2\<rparr>) = wake_ok db" "wake_ok (db\<lparr>tk_discrepancies := x3\<rparr>) = wake_ok db"
  "wake_ok (db\<lparr>tk_plans := x4\<rparr>) = wake_ok db" "wake_ok (db\<lparr>tk_assessments := x8\<rparr>) = wake_ok db"
  "wake_ok (db\<lparr>tk_frozen := x9\<rparr>) = wake_ok db" "wake_ok (db\<lparr>tk_attempts := x10\<rparr>) = wake_ok db"
  "wake_ok (db\<lparr>tk_threads := x11\<rparr>) = wake_ok db" "wake_ok (db\<lparr>tk_messages := x12\<rparr>) = wake_ok db"
  "wake_ok (db\<lparr>tk_edits := x13\<rparr>) = wake_ok db"
  by (simp_all add: wake_ok_def waits_for_cause_def)

lemma approved_for_latest: "getLatestApprovedBriefByCohort db i \<noteq> None \<longleftrightarrow> approved_for db i"
  by (auto simp: getLatestApprovedBriefByCohort_def approved_for_def list_ex_iff filter_empty_conv)

lemma waits_iff: "waits_for_cause db \<longleftrightarrow> list_all (\<lambda>c. \<not> releasable db c) (tk_cohorts db)"
  unfolding waits_for_cause_def approved_for_latest [symmetric] releasable_def by (auto simp: list_all_iff)

text \<open>Cohorts may leave \<open>ready_to_build\<close> and cease to be done.\<close>

lemma waits_map:
  assumes "waits_for_cause db" and f: "\<And>r. kc_id (f r) = kc_id r"
    and ready: "\<And>r. r \<in> set (tk_cohorts db) \<Longrightarrow> kc_status (f r) = CohortReadyToBuild \<Longrightarrow> kc_status r = CohortReadyToBuild"
    and finished: "\<And>r. r \<in> set (tk_cohorts db) \<Longrightarrow> kc_status (f r) = CohortDone \<Longrightarrow> kc_status r = CohortDone"
  shows "waits_for_cause (db\<lparr>tk_cohorts := map f (tk_cohorts db)\<rparr>)"
proof -
  have "0 < countUnmetDependencies db i \<Longrightarrow> 0 < countUnmetDependencies (db\<lparr>tk_cohorts := map f (tk_cohorts db)\<rparr>) i" for i
    using countUnmet_mono [where f = f, OF f finished] by (metis less_le_trans)
  then show ?thesis using assms(1) ready unfolding waits_for_cause_def list_all_iff
    by (auto simp: approved_for_def f)
qed

lemma quiet_transition:
  "quiet e \<Longrightarrow> applyCohortTransition st e pre = Inr s \<Longrightarrow> s \<noteq> CohortReadyToBuild \<and> s \<noteq> CohortDone"
  by (cases st; cases e; simp add: quiet_def applyCohortTransition_def)

lemma wake_ok_cohorts:
  assumes "wake_ok db" and f: "\<And>r. kc_id (f r) = kc_id r \<and> kc_plan_id (f r) = kc_plan_id r"
    and "\<And>r. r \<in> set (tk_cohorts db) \<Longrightarrow> kc_status (f r) = CohortReadyToBuild \<Longrightarrow> kc_status r = CohortReadyToBuild"
    and "\<And>r. r \<in> set (tk_cohorts db) \<Longrightarrow> kc_status (f r) = CohortDone \<Longrightarrow> kc_status r = CohortDone"
  shows "wake_ok (db\<lparr>tk_cohorts := map f (tk_cohorts db)\<rparr>)"
  using assms graph_ok_cohorts [OF _ f] waits_map unfolding wake_ok_def by simp

lemma wake_ok_quiet:
  assumes "wake_ok db" and "quiet e"
  shows "wake_ok (snd (transitionCohort i e db))"
proof (rule transition_map [of i e db])
  fix f assume db': "snd (transitionCohort i e db) = db\<lparr>tk_cohorts := map f (tk_cohorts db)\<rparr>"
    and f: "\<And>c. kc_id (f c) = kc_id c \<and> kc_plan_id (f c) = kc_plan_id c"
    and row: "\<And>c. f c = c \<or> (\<exists>next. applyCohortTransition (kc_status c) e (kc_pre_block_status c) = Inr next \<and> f c = transition_row e next c)"
  have "kc_status (f c) = kc_status c \<or> kc_status (f c) \<noteq> CohortReadyToBuild \<and> kc_status (f c) \<noteq> CohortDone" for c
    using row [of c] quiet_transition [OF assms(2)] by (auto simp: transition_row_def split: if_splits)
  then show ?thesis unfolding db' by (intro wake_ok_cohorts [OF assms(1) f]) metis+
qed

text \<open>The completion of a cohort, followed by its fan-out.\<close>

lemma wake_ok_fanout:
  assumes "graph_ok db" and "distinct (map kb_id (tk_briefs db))"
    and hit: "\<And>r. r \<in> set (tk_cohorts db) \<Longrightarrow> releasable db r \<Longrightarrow> kc_id r \<in> set (downstream db i)"
  shows "wake_ok (fst (runDoneFanout i db))"
proof -
  let ?p = "\<lambda>r. kc_id r \<in> set (downstream db i) \<and> releasable db r"
  have d: "distinct (map kc_id (tk_cohorts db))" using assms(1) by (simp add: graph_ok_def dependencies_wf_def)
  have "releasable (start_building ?p db) = releasable db" by (rule releasable_start) (auto simp: releasable_def)
  then have "waits_for_cause (start_building ?p db)"
    using hit unfolding waits_iff by (auto simp: list_all_iff start_building_def) (auto simp: releasable_def)
  moreover have "graph_ok (start_building ?p db)"
    unfolding start_building_def using assms(1) by (intro graph_ok_cohorts) auto
  ultimately show ?thesis using assms(2) unfolding wake_ok_def runDoneFanout_effect [OF d]
    by (simp add: start_building_def)
qed

lemma countUnmet_zero: "countUnmetDependencies db i = 0 \<longleftrightarrow> (\<forall>d\<in>set (tk_dependencies db). \<not> unmet db i d)"
  by (simp add: countUnmetDependencies_def filter_empty_conv)

lemma completing_transition:
  "e = BuildCompleted \<or> e = PrMergedEvent \<Longrightarrow> applyCohortTransition st e pre = Inr s \<Longrightarrow>
   s = CohortDone \<and> st \<noteq> CohortReadyToBuild"
  by (cases st) (auto simp: applyCohortTransition_def)

lemma wake_ok_completed:
  assumes ok: "wake_ok db" and e: "e = BuildCompleted \<or> e = PrMergedEvent"
  shows "wake_ok (fst (runDoneFanout i (snd (transitionCohort i e db))))"
proof (cases "snd (transitionCohort i e db) = db")
  case True
  moreover have "wake_ok (fst (runDoneFanout i db))"
    by (rule wake_ok_fanout) (use ok in \<open>auto simp: wake_ok_def waits_iff list_all_iff\<close>)
  ultimately show ?thesis by simp
next
  case False
  then obtain c where c: "getCohort db i = Some c" by (cases "getCohort db i") (auto simp: transitionCohort_def)
  have d: "distinct (map kc_id (tk_cohorts db))" using ok by (simp add: wake_ok_def graph_ok_def dependencies_wf_def)
  define f :: "kcohort \<Rightarrow> kcohort" where "f = (\<lambda>r. if kc_id r = i \<and> kc_status r = kc_status c \<and> kc_pre_block_status r = kc_pre_block_status c
    then r\<lparr>kc_status := CohortDone\<rparr> else r)"
  have db1: "snd (transitionCohort i e db) = db\<lparr>tk_cohorts := map f (tk_cohorts db)\<rparr>" and c': "kc_status c \<noteq> CohortReadyToBuild"
  proof -
    obtain s where s: "applyCohortTransition (kc_status c) e (kc_pre_block_status c) = Inr s"
      using False by (auto simp: transitionCohort_Some [OF c] split: sum.splits)
    have row: "transition_row e CohortDone r = r\<lparr>kc_status := CohortDone\<rparr>" for r using e by (auto simp: transition_row_def)
    show "snd (transitionCohort i e db) = db\<lparr>tk_cohorts := map f (tk_cohorts db)\<rparr>" and "kc_status c \<noteq> CohortReadyToBuild"
      using completing_transition [OF e s] s by (simp_all add: transitionCohort_Some [OF c] row f_def)
  qed
  have f: "kc_id (f r) = kc_id r" "kc_plan_id (f r) = kc_plan_id r" for r by (auto simp: f_def)
  have graph: "graph_ok (db\<lparr>tk_cohorts := map f (tk_cohorts db)\<rparr>)" using ok f by (intro graph_ok_cohorts) (auto simp: wake_ok_def)
  have "kc_id r \<in> set (downstream (db\<lparr>tk_cohorts := map f (tk_cohorts db)\<rparr>) i)"
    if r: "r \<in> set (map f (tk_cohorts db))" "releasable (db\<lparr>tk_cohorts := map f (tk_cohorts db)\<rparr>) r" for r
  proof -
    have r': "r \<in> set (tk_cohorts db)" "kc_status r = CohortReadyToBuild" "approved_for db (kc_id r)"
      using r c' approved_for_latest [of "db\<lparr>tk_cohorts := map f (tk_cohorts db)\<rparr>" "kc_id r"]
      by (auto simp: releasable_def f_def approved_for_def split: if_splits)
    then have "0 < countUnmetDependencies db (kc_id r)" using ok by (auto simp: wake_ok_def waits_for_cause_def list_all_iff)
    then obtain x where x: "x \<in> set (tk_dependencies db)" "unmet db (kc_id r) x"
      using countUnmet_zero [of db "kc_id r"] by auto
    then have "\<not> unmet (db\<lparr>tk_cohorts := map f (tk_cohorts db)\<rparr>) (kc_id r) x"
      using r(2) countUnmet_zero [of "db\<lparr>tk_cohorts := map f (tk_cohorts db)\<rparr>" "kc_id r"] by (auto simp: releasable_def)
    then have "kd_from x = i" using x(2) unfolding unmet_map [OF f(1)]
      by (auto simp: unmet_def f_def dest: getCohort_in split: option.splits if_splits)
    moreover have "kd_to x = kc_id r" using x(2) by (simp add: unmet_def)
    ultimately show ?thesis using x(1) by (force simp: downstream_def)
  qed
  then show ?thesis unfolding db1 using graph ok by (intro wake_ok_fanout) (auto simp: wake_ok_def)
qed

text \<open>The approval of a brief.\<close>

lemma wake_ok_approved:
  assumes ok: "wake_ok db" and b: "getBrief db i = Some brief"
    and step: "transitionCohort (kb_cohort_id brief) (approval_event db (kb_cohort_id brief)) db = (TransitionOk co from to, db')"
  shows "wake_ok (update_brief i (\<lambda>r. r\<lparr>kb_status := BriefApprovedSt\<rparr>) db')"
proof -
  let ?i = "kb_cohort_id brief"
  obtain c where c: "getCohort db ?i = Some c" using step by (cases "getCohort db ?i") (auto simp: transitionCohort_def)
  have d: "distinct (map kc_id (tk_cohorts db))" and bd: "distinct (map kb_id (tk_briefs db))"
    using ok by (auto simp: wake_ok_def graph_ok_def dependencies_wf_def)
  define s where "s = (if countUnmetDependencies db ?i = 0 then CohortBuilding else CohortReadyToBuild)"
  define f :: "kcohort \<Rightarrow> kcohort" where "f = (\<lambda>r. if kc_id r = ?i \<and> kc_status r = kc_status c \<and> kc_pre_block_status r = kc_pre_block_status c
    then r\<lparr>kc_status := s\<rparr> else r)"
  have "applyCohortTransition (kc_status c) (approval_event db ?i) (kc_pre_block_status c) = Inr s \<and> kc_status c = CohortBriefReview"
    using step unfolding transitionCohort_Some [OF c]
    by (cases "kc_status c") (auto simp: approval_event_def applyCohortTransition_def s_def split: if_splits)
  moreover have "transition_row (approval_event db ?i) s r = r\<lparr>kc_status := s\<rparr>" for r
    by (simp add: approval_event_def transition_row_def)
  ultimately have db': "db' = db\<lparr>tk_cohorts := map f (tk_cohorts db)\<rparr>" and c': "kc_status c = CohortBriefReview"
    using step unfolding transitionCohort_Some [OF c] f_def by auto
  have f: "kc_id (f r) = kc_id r" "kc_plan_id (f r) = kc_plan_id r" for r by (auto simp: f_def)
  have unmet: "countUnmetDependencies (db\<lparr>tk_cohorts := map f (tk_cohorts db)\<rparr>) j = countUnmetDependencies db j" for j
    by (rule countUnmet_same) (auto simp: f_def s_def c')
  let ?db = "update_brief i (\<lambda>r. r\<lparr>kb_status := BriefApprovedSt\<rparr>) db'"
  have only: "kb_cohort_id x = ?i" if "x \<in> set (tk_briefs db)" "kb_id x = i" for x
    using bd b that find_distinct_key [OF bd that(1)] by (simp add: getBrief_def)
  have "0 < countUnmetDependencies ?db (kc_id r)"
    if r: "r \<in> set (tk_cohorts ?db)" "kc_status r = CohortReadyToBuild" "approved_for ?db (kc_id r)" for r
  proof -
    obtain r0 where r0: "r0 \<in> set (tk_cohorts db)" "r = f r0" using r(1) by (auto simp: db' update_brief_def)
    have "0 < countUnmetDependencies db (kc_id r)"
    proof (cases "kc_id r0 = ?i")
      case True
      then have "r0 = c" using r0(1) getCohort_distinct [OF d, of ?i r0] c by simp
      then show ?thesis using r(2) r0(2) True by (auto simp: f_def s_def split: if_splits)
    next
      case False
      then have "r = r0" using r0(2) by (simp add: f_def)
      moreover have "approved_for db (kc_id r)" using r(3) False only r0(2)
        by (auto simp: approved_for_def update_brief_def db' list_ex_iff f split: if_splits)
      ultimately show ?thesis using ok r0(1) r(2) by (auto simp: wake_ok_def waits_for_cause_def list_all_iff)
    qed
    then show ?thesis using unmet [of "kc_id r"] by (simp add: db' update_brief_def)
  qed
  then have "waits_for_cause ?db" by (auto simp: waits_for_cause_def list_all_iff)
  moreover have "graph_ok ?db" using ok f unfolding db' update_brief_def by (simp add: graph_ok_cohorts wake_ok_def)
  moreover have "map kb_id (tk_briefs ?db) = map kb_id (tk_briefs db)" by (simp add: db' update_brief_def)
  ultimately show ?thesis using bd by (simp add: wake_ok_def)
qed

text \<open>Everything else.\<close>

lemma wake_ok_insert_brief: "wake_ok db \<Longrightarrow> insertBrief now i c m pr pay db = Inr (b, db') \<Longrightarrow> wake_ok db'"
proof -
  assume ok: "wake_ok db" and "insertBrief now i c m pr pay db = Inr (b, db')"
  then have db': "db' = db\<lparr>tk_briefs := tk_briefs db @ [b]\<rparr>" and b: "kb_status b = BriefPendingApproval" "kb_id b \<notin> kb_id ` set (tk_briefs db)"
    by (auto simp: insertBrief_def Let_def list_ex_iff split: if_splits)
  have "approved_for db' j = approved_for db j" for j by (simp add: db' approved_for_def b)
  then show ?thesis using ok b(2) unfolding wake_ok_def waits_for_cause_def by (simp add: db')
qed

lemma wake_ok_brief: "wake_ok db \<Longrightarrow> unapproving h \<Longrightarrow> wake_ok (update_brief i h db)"
proof -
  assume ok: "wake_ok db" and h: "unapproving h"
  have "approved_for (update_brief i h db) j \<Longrightarrow> approved_for db j" for j
    using h by (auto simp: approved_for_def update_brief_def list_ex_iff unapproving_def split: if_splits)
  moreover have "map kb_id (tk_briefs (update_brief i h db)) = map kb_id (tk_briefs db)"
    using h by (simp add: update_brief_def unapproving_def)
  moreover have "countUnmetDependencies (update_brief i h db) = countUnmetDependencies db"
    by (simp add: update_brief_def)
  moreover have "tk_cohorts (update_brief i h db) = tk_cohorts db" "graph_ok (update_brief i h db) = graph_ok db"
    by (simp_all add: update_brief_def)
  ultimately show ?thesis using ok unfolding wake_ok_def waits_for_cause_def by (auto simp: list_all_iff)
qed

lemma wake_ok_insert_cohort:
  assumes ok: "wake_ok db" and step: "insertCohort now i p title notes pos db = Inr (co, db')"
  shows "wake_ok db'"
proof -
  have db': "db' = db\<lparr>tk_cohorts := tk_cohorts db @ [co]\<rparr>" and co: "kc_status co = CohortWaiting"
    using step by (auto simp: insertCohort_def Let_def split: if_splits)
  have "getCohort db' j = getCohort db j" if "getCohort db j \<noteq> None" for j
    using that unfolding db' getCohort_def by (auto simp: find_append_found)
  then have "d \<in> set (tk_dependencies db) \<Longrightarrow> unmet db' j d = unmet db j d" for j d
    using ok by (auto simp: unmet_def wake_ok_def graph_ok_def dependencies_wf_def plan_of_def list_all_iff)
  then have "countUnmetDependencies db' j = countUnmetDependencies db j" for j
    by (auto simp: countUnmetDependencies_def db' intro!: arg_cong [where f = length] filter_cong)
  then show ?thesis using ok graph_ok_insert_cohort [OF _ step] co
    by (auto simp: wake_ok_def waits_for_cause_def db' list_all_iff)
qed

lemma wake_ok_post_dependency:
  assumes ok: "wake_ok db"
  shows "wake_ok (fst (post_dependency i src dst db))"
proof -
  have g: "graph_ok (fst (post_dependency i src dst db))" using ok by (intro graph_ok_post_dependency) (simp add: wake_ok_def)
  obtain more where db': "fst (post_dependency i src dst db) = db\<lparr>tk_dependencies := tk_dependencies db @ more\<rparr>"
    using post_dependency_appends [of i src dst db] by blast
  have "unmet (db\<lparr>tk_dependencies := x\<rparr>) = unmet db" for x by (simp add: fun_eq_iff unmet_def getCohort_def)
  then have "countUnmetDependencies db j \<le> countUnmetDependencies (db\<lparr>tk_dependencies := tk_dependencies db @ more\<rparr>) j" for j
    by (simp add: countUnmetDependencies_def)
  then show ?thesis using ok g unfolding db' wake_ok_def waits_for_cause_def list_all_iff
    by (auto intro: less_le_trans)
qed

lemma wake_ok_remove_plans:
  assumes ok: "wake_ok db" and C: "C = kc_id ` {c \<in> set (tk_cohorts db). kc_plan_id c \<in> S}"
  shows "wake_ok (db\<lparr>tk_briefs := filter (\<lambda>b. kb_cohort_id b \<notin> C) (tk_briefs db),
            tk_dependencies := filter (\<lambda>d. kd_from d \<notin> C \<and> kd_to d \<notin> C) (tk_dependencies db),
            tk_cohorts := filter (\<lambda>c. kc_id c \<notin> C) (tk_cohorts db)\<rparr>)" (is "wake_ok ?db")
proof -
  have graph: "graph_ok db" and d: "distinct (map kc_id (tk_cohorts db))" using ok by (auto simp: wake_ok_def graph_ok_def dependencies_wf_def)
  have g: "graph_ok ?db" using graph_ok_remove [of "db\<lparr>tk_briefs := filter (\<lambda>b. kb_cohort_id b \<notin> C) (tk_briefs db)\<rparr>" C] graph by simp
  then have d': "distinct (map kc_id (tk_cohorts ?db))" by (simp add: graph_ok_def dependencies_wf_def)
  have get: "getCohort ?db j = getCohort db j" if "j \<notin> C" for j
  proof -
    have "getCohort ?db j = Some c \<longleftrightarrow> getCohort db j = Some c" for c
      unfolding getCohort_distinct [OF d] getCohort_distinct [OF d'] using that by auto
    then show ?thesis by (cases "getCohort db j"; cases "getCohort ?db j") auto
  qed
  have inC: "j \<in> C \<longleftrightarrow> (\<exists>p\<in>S. plan_of db j = Some p)" for j
    by (auto simp: C plan_of_Some [OF d])
  have "unmet db j x \<longleftrightarrow> unmet ?db j x \<and> kd_from x \<notin> C \<and> kd_to x \<notin> C"
    if "x \<in> set (tk_dependencies db)" "j \<notin> C" for x j
  proof -
    have "plan_of db (kd_to x) = plan_of db (kd_from x)"
      using graph that(1) by (auto simp: graph_ok_def dependencies_wf_def list_all_iff)
    then have "kd_to x = j \<Longrightarrow> kd_from x \<notin> C" using that(2) unfolding inC by auto
    then show ?thesis using get [of "kd_from x"] that(2) by (auto simp: unmet_def)
  qed
  then have "countUnmetDependencies ?db j = countUnmetDependencies db j" if "j \<notin> C" for j
    using that unfolding countUnmetDependencies_def
    by (auto intro!: arg_cong [where f = length] filter_cong simp: conj_commute)
  then show ?thesis using ok g unfolding wake_ok_def waits_for_cause_def
    by (auto simp: list_all_iff approved_for_def list_ex_iff distinct_map_filter)
qed

interpretation wake: benign_invariant wake_ok
proof
  show "wake_ok db \<Longrightarrow> cohort_cosmetic f \<Longrightarrow> wake_ok (update_cohort i f db)" for db f i
    unfolding update_cohort_def by (rule wake_ok_cohorts) (auto simp: cohort_cosmetic_def split: if_splits)
qed (auto simp: wake_ok_quiet wake_ok_completed wake_ok_brief wake_ok_post_dependency wake_ok_remove_plans
    intro: wake_ok_approved wake_ok_insert_brief wake_ok_insert_cohort dest!: claim_tables running_tables)

end
