(* ===== verification/TrackerProps.thy ===== *)
theory TrackerProps
  imports TrackerWake
begin

text \<open>
  What the task tracker guarantees: plans stay schedulable, work is dispatched once and never forgotten over
  a restart, builds start exactly when their dependencies are done, and two places where they do not.
\<close>

section \<open>A worked history\<close>

text \<open>A plan of two cohorts, the second depending on the first, with approved briefs.\<close>

definition demo_selection :: model_selection where
  "demo_selection = \<lparr>ms_runtime = ''codex'', ms_model = ''m'', ms_effort = None\<rparr>"

definition demo_payload :: brief_payload where
  "demo_payload = \<lparr>bp_goal = ''g'', bp_files_in_scope = [], bp_decisions_made = [], bp_approaches_rejected = [], bp_next_action = ''n''\<rparr>"

definition demo_plan :: "tracker_op list" where
  "demo_plan =
     [PostProject ''0'' ''p'' ''P'' ''r'', PostSpec ''0'' ''s'' ''e'' ''p'' ''T'' demo_selection demo_selection (Inr None),
      PostPlan ''0'' ''l'' ''s'' None, PostCohort ''0'' ''a'' ''l'' ''A'' None 0, PostCohort ''0'' ''b'' ''l'' ''B'' None 1,
      PostDependency ''d'' ''a'' ''b'']"

definition demo_briefs :: "tracker_op list" where
  "demo_briefs =
     [PatchSpecStatus ''s'' SpecDiscrepancies, PatchSpecStatus ''s'' SpecReview, PatchSpecStatus ''s'' SpecApprovedSt,
      SubmitPlan ''l'', PatchPlanStatus ''l'' AskApproved, PostBrief ''1'' ''x'' ''a'' demo_payload None,
      PostBrief ''1'' ''y'' ''b'' demo_payload None]"

definition demo_approvals :: "tracker_op list" where
  "demo_approvals = [PatchBriefStatus ''x'' AskApproved, PatchBriefStatus ''y'' AskApproved]"

definition tracker_history :: "tracker_op list \<Rightarrow> tracker" where
  "tracker_history ops = fold run_op ops empty_tracker"

definition demo_env :: dispatcher_env where
  "demo_env = \<lparr>dn_load_prompt = (\<lambda>f. Some ''do {{GOAL}}''), dn_backends = [''kbbl_chat''], dn_kbbl_url = ''u'',
     dn_collation = id, dn_arrow = ''->'', dn_current_marker = [], dn_status = (\<lambda>r. AcpRunning)\<rparr>"

lemma reachable_tracker_history: "tracker_reachable (tracker_history ops)"
proof -
  have "tracker_reachable db \<Longrightarrow> tracker_reachable (fold run_op ops db)" for db
    by (induction ops arbitrary: db) (auto intro: reachable_op)
  then show ?thesis by (simp add: tracker_history_def reachable_empty)
qed

text \<open>The rows a history ends with, as far as the witnesses below look at them.\<close>

lemma find_filter_hd: "filter p xs = x # ys \<Longrightarrow> List.find p xs = Some x"
  by (induction xs) (auto split: if_splits)

lemma demo_plan_rows:
  "map (\<lambda>c. (kc_id c, kc_plan_id c, kc_status c)) (tk_cohorts (tracker_history demo_plan)) =
     [(''a'', ''l'', CohortWaiting), (''b'', ''l'', CohortWaiting)]"
  "tk_dependencies (tracker_history demo_plan) = [\<lparr>kd_id = ''d'', kd_from = ''a'', kd_to = ''b''\<rparr>]"
  by code_simp+

section \<open>The dependency graph\<close>

text \<open>
  C9. In every state the tracker can get into, cohort identifiers are unique, every dependency joins two
  cohorts of one plan, and the dependencies have no cycle.
\<close>

theorem dependencies_acyclic:
  assumes "tracker_reachable db"
  shows "dependencies_wf db \<and> acyclic (cohort_edges db)"
  using reachable_graph [OF assms] by (simp add: graph_ok_def)

theorem dependencies_acyclic_witness:
  "tracker_reachable (tracker_history demo_plan) \<and> cohort_edges (tracker_history demo_plan) = {(''a'', ''b'')} \<and>
   dependencies_wf (tracker_history demo_plan) \<and> acyclic (cohort_edges (tracker_history demo_plan))"
  using dependencies_acyclic [OF reachable_tracker_history [of demo_plan]] reachable_tracker_history
  by (simp add: cohort_edges_def demo_plan_rows(2) edge_of_def)

text \<open>
  C10. The check before a dependency is stored answers that there is a cycle exactly when the edge
  would close one over the stored dependencies.
\<close>

theorem cycle_check_exact:
  assumes "tracker_reachable db" and "getCohort db src = Some a" and "getCohort db dst = Some b" and "kc_plan_id a = kc_plan_id b"
  shows "hasCycleAfterInsert db src dst \<longleftrightarrow> \<not> acyclic (insert (src, dst) (cohort_edges db))"
  using reachable_graph [OF assms(1)] assms by (intro hasCycleAfterInsert_right) (auto simp: graph_ok_def plan_of_def)

theorem cycle_check_exact_witness:
  "hasCycleAfterInsert (tracker_history demo_plan) ''b'' ''a'' \<and> \<not> acyclic (insert (''b'', ''a'') (cohort_edges (tracker_history demo_plan)))"
proof -
  have "getCohort (tracker_history demo_plan) ''b'' \<noteq> None \<and> getCohort (tracker_history demo_plan) ''a'' \<noteq> None \<and>
      map_option kc_plan_id (getCohort (tracker_history demo_plan) ''b'') = map_option kc_plan_id (getCohort (tracker_history demo_plan) ''a'') \<and>
      hasCycleAfterInsert (tracker_history demo_plan) ''b'' ''a''"
    by code_simp
  then show ?thesis using cycle_check_exact [OF reachable_tracker_history, of demo_plan "''b''" _ "''a''"] by auto
qed

text \<open>
  C17. The cohorts of a plan can always be listed for a prompt: the order contains each of them once and puts
  every cohort after those it depends on.
\<close>

theorem plan_order_topological:
  assumes "tracker_reachable db"
  shows "\<exists>order. sorted_plan env db plan_id = Inr order \<and>
    mset order = mset (filter (\<lambda>c. kc_plan_id c = plan_id) (tk_cohorts db)) \<and>
    (\<forall>xs c ys d. order = xs @ c # ys \<longrightarrow> d \<in> set (tk_dependencies db) \<longrightarrow> kd_to d = kc_id c \<longrightarrow> kd_from d \<in> kc_id ` set xs)"
proof -
  let ?cs = "listCohortsByPlan db plan_id" and ?ds = "listDependenciesByPlan db plan_id"
  have wf: "dependencies_wf db" and ac: "acyclic (cohort_edges db)" using reachable_graph [OF assms] by (auto simp: graph_ok_def)
  then have d: "distinct (map kc_id (tk_cohorts db))" by (simp add: dependencies_wf_def)
  have cs: "mset ?cs = mset (filter (\<lambda>c. kc_plan_id c = plan_id) (tk_cohorts db))"
    by (simp add: listCohortsByPlan_def)
  then have set_cs: "set ?cs = {c \<in> set (tk_cohorts db). kc_plan_id c = plan_id}" by (metis mset_eq_setD set_filter)
  have "mset (map kc_id ?cs) = mset (map kc_id (filter (\<lambda>c. kc_plan_id c = plan_id) (tk_cohorts db)))" using cs by simp
  then have dcs: "distinct (map kc_id ?cs)" using d by (metis distinct_map_filter mset_eq_imp_distinct_iff)
  have in_plan: "x \<in> kc_id ` set ?cs \<longleftrightarrow> plan_of db x = Some plan_id" for x
    unfolding set_cs plan_of_Some [OF d] by auto
  have ds: "x \<in> set ?ds \<longleftrightarrow> x \<in> set (tk_dependencies db) \<and> plan_of db (kd_from x) = Some plan_id" for x
    by (simp add: listDependenciesByPlan_def from_in_plan_def plan_of_def)
  have same: "plan_of db (kd_to x) = plan_of db (kd_from x)" if "x \<in> set (tk_dependencies db)" for x
    using wf that by (simp add: dependencies_wf_def list_all_iff)
  have sub: "acyclic (edge_of ` set ?ds)" by (rule acyclic_subset [OF ac]) (auto simp: cohort_edges_def ds)
  have "kd_from x \<in> kc_id ` set ?cs \<and> kd_to x \<in> kc_id ` set ?cs" if "x \<in> set ?ds" for x
    using that same [of x] by (simp add: in_plan ds)
  from toposortCohorts_correct [where deps = ?ds, OF dcs this, where collation = "dn_collation env" and plan_id = plan_id] sub
  obtain order where order: "sorted_plan env db plan_id = Inr order" "mset order = mset ?cs"
    and topo: "\<And>xs c ys x. order = xs @ c # ys \<Longrightarrow> x \<in> set ?ds \<Longrightarrow> kd_to x = kc_id c \<Longrightarrow> kd_from x \<in> kc_id ` set xs"
    by (auto simp: sorted_plan_def)
  have "kd_from x \<in> kc_id ` set xs" if "order = xs @ c # ys" "x \<in> set (tk_dependencies db)" "kd_to x = kc_id c" for xs c ys x
  proof -
    have "c \<in> set order" using that(1) by simp
    then have "c \<in> set ?cs" using order(2) by (metis mset_eq_setD)
    then have "plan_of db (kd_to x) = Some plan_id" using in_plan [of "kc_id c"] that(3) by auto
    then show ?thesis using topo [OF that(1)] that same [of x] by (simp add: ds)
  qed
  then show ?thesis using order cs by auto
qed

theorem plan_order_topological_witness:
  "\<exists>order. sorted_plan demo_env (tracker_history demo_plan) ''l'' = Inr order \<and> size (mset order) = 2"
proof -
  have "length (filter (\<lambda>c. kc_plan_id c = ''l'') (tk_cohorts (tracker_history demo_plan))) = 2" by code_simp
  then show ?thesis using plan_order_topological [OF reachable_tracker_history [of demo_plan], of demo_env "''l''"]
    by (metis size_mset)
qed

section \<open>Dispatches\<close>

text \<open>
  C11. Whatever dispatches, session ends and restarts interleave, an entity and stage has at most one active
  attempt, its attempts are numbered 1, 2, 3, ... in the order they were claimed, and no two attempts share an identifier.
\<close>

theorem one_active_attempt:
  assumes "tracker_reachable db"
  shows "length (filter (\<lambda>a. active_status (da_status a)) (attempts_of db (kind, entity, stage))) \<le> 1 \<and>
    map da_attempt_number (attempts_of db (kind, entity, stage)) = [1..<length (attempts_of db (kind, entity, stage)) + 1] \<and>
    distinct (map da_id (tk_attempts db))"
  using reachable_ledger [OF assms] unfolding ledger_ok_def by blast

definition demo_dispatches :: "tracker_op list" where
  "demo_dispatches =
     [AcquireDispatch demo_env ''2'' ''i'' ''build'' ''x'', AcquireDispatch demo_env ''2'' ''j'' ''build'' ''x'',
      Reconcile (\<lambda>r. None) (\<lambda>r. False) ''3'', AcquireDispatch demo_env ''4'' ''k'' ''build'' ''x'']"

lemma demo_attempts:
  "map (\<lambda>a. (da_id a, attempt_key a, da_attempt_number a, da_status a))
     (tk_attempts (tracker_history (demo_plan @ demo_briefs @ demo_approvals @ demo_dispatches))) =
   [(''i'', (EntityBrief, ''x'', ''build''), 1, DispatchFailed), (''k'', (EntityBrief, ''x'', ''build''), 2, Dispatching)]"
  by code_simp

theorem one_active_attempt_witness:
  "map da_attempt_number (attempts_of (tracker_history (demo_plan @ demo_briefs @ demo_approvals @ demo_dispatches)) (EntityBrief, ''x'', ''build''))
     = [1..<length (attempts_of (tracker_history (demo_plan @ demo_briefs @ demo_approvals @ demo_dispatches)) (EntityBrief, ''x'', ''build'')) + 1] \<and>
   map da_id (tk_attempts (tracker_history (demo_plan @ demo_briefs @ demo_approvals @ demo_dispatches))) = [''i'', ''k'']"
proof -
  have "map da_id (tk_attempts (tracker_history (demo_plan @ demo_briefs @ demo_approvals @ demo_dispatches))) =
      map fst [(''i'', (EntityBrief, ''x'', ''build''), 1 :: nat, DispatchFailed), (''k'', (EntityBrief, ''x'', ''build''), 2, Dispatching)]"
    unfolding demo_attempts [symmetric] by simp
  then show ?thesis using one_active_attempt [OF reachable_tracker_history, of _ EntityBrief "''x''" "''build''"] by simp
qed

text \<open>
  C12. While an attempt is active and its session has not ended, a further dispatch of the same entity and
  stage starts nothing: it is told of that attempt, or fails before, and the database is as it was.
\<close>

theorem dispatch_not_doubled:
  assumes "tracker_reachable db" and "getStage name = Some stage" and "a \<in> set (tk_attempts db)"
    and "attempt_key a = (sg_input stage, inputId, sg_name stage)"
    and "da_status a = Dispatching \<or> da_status a = Running \<and> (\<forall>ref. da_actual_ref a = Some ref \<longrightarrow> dn_status env ref = AcpRunning)"
  shows "\<exists>e. dispatch_acquire env now new_id name inputId db = (Inl e, db) \<and> (e = DispatchConflict a \<or> (\<exists>msg. e = DispatchThrew msg))"
proof (cases "dispatch_resolve env name inputId db")
  case (Inr ctx)
  then have ctx: "dc_stage ctx = stage" "dc_input ctx = inputId" using assms(2)
    by (auto simp: dispatch_resolve_def split: if_splits option.splits)
  let ?key = "(sg_input stage, inputId, sg_name stage)"
  have act: "active_status (da_status a)" using assms(5) by (auto simp: active_status_def)
  have mem: "a \<in> set (active_of db ?key)" using assms(3,4) act by (simp add: attempts_of_def)
  have "length (active_of db ?key) \<le> 1" using reachable_ledger [OF assms(1)] unfolding ledger_ok_def by blast
  then have "active_of db ?key = [a]" using mem by (cases "active_of db ?key") auto
  then have get: "getActiveAttempt db (sg_input stage) inputId (sg_name stage) = Some a"
    unfolding getActiveAttempt_def by (simp add: find_filter_hd)
  have "close_stale env now ctx db = db"
    using assms(5) get by (auto simp: close_stale_def ctx split: option.splits)
  moreover have "claimDispatch now new_id (sg_input stage) inputId (sg_name stage) e c db = Inr (ClaimConflict a, db)" for e c
    by (simp add: claimDispatch_def get Let_def)
  ultimately show ?thesis using Inr by (simp add: dispatch_acquire_def ctx Let_def)
qed (simp add: dispatch_acquire_def)

theorem dispatch_not_doubled_witness:
  "\<exists>e. dispatch_acquire demo_env ''9'' ''n'' ''build'' ''x'' (tracker_history (demo_plan @ demo_briefs @ demo_approvals @ demo_dispatches)) =
     (Inl e, tracker_history (demo_plan @ demo_briefs @ demo_approvals @ demo_dispatches))"
proof -
  let ?db = "tracker_history (demo_plan @ demo_briefs @ demo_approvals @ demo_dispatches)"
  have "(''k'', (EntityBrief, ''x'', ''build''), 2, Dispatching) \<in>
      set (map (\<lambda>a. (da_id a, attempt_key a, da_attempt_number a, da_status a)) (tk_attempts ?db))"
    unfolding demo_attempts by simp
  then obtain a where a: "a \<in> set (tk_attempts ?db)" "attempt_key a = (EntityBrief, ''x'', ''build'')" "da_status a = Dispatching"
    by auto
  let ?stage = "\<lparr>sg_name = ''build'', sg_prompt = ''build.md'', sg_input = EntityBrief, sg_backend = ''kbbl_chat''\<rparr>"
  have stage: "getStage ''build'' = Some ?stage" by (simp add: getStage_def stages_def)
  have key: "attempt_key a = (sg_input ?stage, ''x'', sg_name ?stage)" using a(2) by simp
  show ?thesis
    using dispatch_not_doubled [OF reachable_tracker_history stage a(1) key disjI1 [OF a(3)], of demo_env "''9''" "''n''"] by blast
qed

text \<open>What one attempt of the list does to the ledger, and the whole pass row by row.\<close>

definition session_of :: "kattempt \<Rightarrow> string" where
  "session_of a = case_option ''(none)'' id (da_actual_ref a)"

definition survives :: "(string \<Rightarrow> acp_dispatch_status option) \<Rightarrow> (string \<Rightarrow> bool) \<Rightarrow> kattempt \<Rightarrow> bool" where
  "survives ds alive a \<longleftrightarrow> da_status a = Running \<and>
     (ds (session_of a) = Some AcpRunning \<or> ds (session_of a) = None \<and> alive (session_of a))"

definition settled_as :: "(string \<Rightarrow> acp_dispatch_status option) \<Rightarrow> kattempt \<Rightarrow> dispatch_status" where
  "settled_as ds a = (if da_status a = Running \<and> ds (session_of a) = Some AcpCompleted then DispatchSucceeded else DispatchFailed)"

lemma settle_owner_attempts [simp]: "tk_attempts (settle_owner x db) = tk_attempts db"
  by (auto simp: settle_owner_def clearOwnerSessionRef_def clear_spec_session_def clear_plan_session_def clear_cohort_session_def
      update_spec_def update_plan_def update_cohort_def split: option.splits entity_kind.splits)

lemma acp_outcome_cases:
  obtains "x = None" | "x = Some AcpRunning" | "x = Some AcpCompleted" | "x = Some AcpFailed"
  by (metis acp_dispatch_status.exhaust option.exhaust)

lemma reconcile_one_attempts:
  assumes "active_status (da_status a)"
  shows "\<exists>g. tk_attempts (reconcile_one ds alive now a db) = map (\<lambda>x. if da_id x = da_id a then g x else x) (tk_attempts db) \<and>
    (\<forall>x. da_id (g x) = da_id x \<and> (if survives ds alive a then g x = x else da_status (g x) = settled_as ds a))"
proof -
  have cut: "\<exists>g. tk_attempts (reconcile_one ds alive now a db) = map (\<lambda>x. if da_id x = da_id a then g x else x) (tk_attempts db) \<and>
      (\<forall>x. da_id (g x) = da_id x \<and> (if survives ds alive a then g x = x else da_status (g x) = settled_as ds a))"
    if "tk_attempts (reconcile_one ds alive now a db) = map (\<lambda>x. if da_id x = da_id a then g x else x) (tk_attempts db)"
      "\<And>x. da_id (g x) = da_id x" "\<not> survives ds alive a" "\<And>x. da_status (g x) = settled_as ds a" for g
    using that by (intro exI [of _ g]) auto
  consider "survives ds alive a" | "\<not> survives ds alive a" "settled_as ds a = DispatchFailed"
    | "\<not> survives ds alive a" "settled_as ds a = DispatchSucceeded"
    by (cases "da_status a = Running \<and> ds (session_of a) = Some AcpCompleted") (auto simp: settled_as_def)
  then show ?thesis
  proof cases
    case 1
    then have "reconcile_one ds alive now a db = db" by (auto simp: survives_def reconcile_one_def session_of_def Let_def)
    then show ?thesis using 1 by (intro exI [of _ "\<lambda>x. x"]) simp
  next
    case 2
    obtain err hint where "reconcile_one ds alive now a db = markAttemptFailed now (da_id a) err (Some hint) db"
      using 2 assms unfolding survives_def settled_as_def session_of_def reconcile_one_def active_status_def Let_def
      by (cases "ds (case_option ''(none)'' id (da_actual_ref a))" rule: acp_outcome_cases; cases "da_status a = Dispatching")
        (auto split: if_splits)
    then show ?thesis using 2
      by (intro cut [of "failed_row now err (Some hint)"]) (auto simp: markAttemptFailed_def update_attempt_def failed_row_def)
  next
    case 3
    then have "reconcile_one ds alive now a db = markAttemptSucceeded now (da_id a) db"
      by (auto simp: settled_as_def reconcile_one_def session_of_def Let_def split: if_splits)
    then show ?thesis using 3
      by (intro cut [of "\<lambda>a. a\<lparr>da_status := DispatchSucceeded, da_updated_at := now\<rparr>"])
        (auto simp: markAttemptSucceeded_def update_attempt_def)
  qed
qed

definition settled_by :: "(string \<Rightarrow> acp_dispatch_status option) \<Rightarrow> (string \<Rightarrow> bool) \<Rightarrow> kattempt option \<Rightarrow> kattempt \<Rightarrow> kattempt \<Rightarrow> bool" where
  "settled_by ds alive found x x' \<longleftrightarrow> da_id x' = da_id x \<and>
     (case found of None \<Rightarrow> x' = x | Some a \<Rightarrow> if survives ds alive a then x' = x else da_status x' = settled_as ds a)"

lemma reconcile_fold:
  "distinct (map da_id as) \<Longrightarrow> list_all (\<lambda>a. active_status (da_status a)) as \<Longrightarrow>
   list_all2 (\<lambda>x. settled_by ds alive (List.find (\<lambda>a. da_id a = da_id x) as) x)
     (tk_attempts db) (tk_attempts (fold (reconcile_one ds alive now) as db))"
proof (induction "as" arbitrary: db)
  case Nil
  then show ?case by (simp add: settled_by_def list.rel_refl)
next
  case (Cons a "as")
  obtain g where g: "tk_attempts (reconcile_one ds alive now a db) = map (\<lambda>x. if da_id x = da_id a then g x else x) (tk_attempts db)"
    and row: "\<And>x. da_id (g x) = da_id x \<and> (if survives ds alive a then g x = x else da_status (g x) = settled_as ds a)"
    using reconcile_one_attempts [of a ds alive now db] Cons.prems by auto
  let ?h = "\<lambda>x. if da_id x = da_id a then g x else x"
  have none: "List.find (\<lambda>b. da_id b = da_id a) as = None" unfolding find_None_set using Cons.prems(1) by (auto simp: image_iff)
  have ih: "list_all2 (\<lambda>x. settled_by ds alive (List.find (\<lambda>b. da_id b = da_id (?h x)) as) (?h x))
     (tk_attempts db) (tk_attempts (fold (reconcile_one ds alive now) (a # as) db))"
    using Cons.IH [of "reconcile_one ds alive now a db"] Cons.prems unfolding g by (simp add: list_all2_map1)
  show ?case
  proof (rule list_all2_mono [OF ih])
    fix x x' assume "settled_by ds alive (List.find (\<lambda>b. da_id b = da_id (?h x)) as) (?h x) x'"
    then show "settled_by ds alive (List.find (\<lambda>b. da_id b = da_id x) (a # as)) x x'"
      using row [of x] none by (cases "da_id x = da_id a") (auto simp: settled_by_def)
  qed
qed

text \<open>
  C16. At a restart every active attempt is settled or really running: one whose session is running stays as
  it is, one whose session completed has succeeded, every other one has failed. Settled attempts do not change.
\<close>

theorem restart_settles:
  assumes "tracker_reachable db"
  shows "list_all2 (\<lambda>a a'. da_id a' = da_id a \<and>
      (if \<not> active_status (da_status a) \<or> survives ds alive a then a' = a else da_status a' = settled_as ds a))
    (tk_attempts db) (tk_attempts (reconcileDispatchAttempts ds alive now db))"
proof -
  let ?as = "listActiveAttempts db"
  have d: "distinct (map da_id (tk_attempts db))" using reachable_ledger [OF assms] by (simp add: ledger_ok_def)
  have "mset (map da_id ?as) = mset (map da_id (filter (\<lambda>a. active_status (da_status a)) (tk_attempts db)))"
    by (simp add: listActiveAttempts_def)
  then have das: "distinct (map da_id ?as)" using d by (metis distinct_map_filter mset_eq_imp_distinct_iff)
  have in_as: "a \<in> set ?as \<longleftrightarrow> a \<in> set (tk_attempts db) \<and> active_status (da_status a)" for a by (simp add: listActiveAttempts_def)
  have found: "List.find (\<lambda>b. da_id b = da_id a) ?as = (if active_status (da_status a) then Some a else None)"
    if "a \<in> set (tk_attempts db)" for a
  proof (cases "active_status (da_status a)")
    case False
    then have "da_id b \<noteq> da_id a" if "b \<in> set ?as" for b
      using d \<open>a \<in> set (tk_attempts db)\<close> that in_as by (metis distinct_map inj_onD)
    then show ?thesis using False by (auto simp: find_None_set)
  qed (use that das in_as find_distinct_key [OF das] in auto)
  have "list_all2 (\<lambda>x. settled_by ds alive (List.find (\<lambda>a. da_id a = da_id x) ?as) x)
     (tk_attempts db) (tk_attempts (reconcileDispatchAttempts ds alive now db))"
    unfolding reconcileDispatchAttempts_def by (rule reconcile_fold) (auto simp: das list_all_iff in_as)
  then show ?thesis by (rule list.rel_mono_strong) (auto simp: found settled_by_def split: if_splits)
qed

theorem restart_settles_witness:
  "map (\<lambda>a. (da_id a, da_status a)) (tk_attempts (reconcileDispatchAttempts (\<lambda>r. None) (\<lambda>r. False) ''9''
     (tracker_history (demo_plan @ demo_briefs @ demo_approvals @ demo_dispatches)))) = [(''i'', DispatchFailed), (''k'', DispatchFailed)]"
proof -
  let ?db = "tracker_history (demo_plan @ demo_briefs @ demo_approvals @ demo_dispatches)"
  let ?db' = "reconcileDispatchAttempts (\<lambda>r. None) (\<lambda>r. False) ''9'' ?db"
  have "map da_id (tk_attempts ?db) = map fst [(''i'', (EntityBrief, ''x'', ''build''), 1 :: nat, DispatchFailed), (''k'', (EntityBrief, ''x'', ''build''), 2, Dispatching)]"
    and "map da_status (tk_attempts ?db) = map (snd \<circ> snd \<circ> snd) [(''i'', (EntityBrief, ''x'', ''build''), 1 :: nat, DispatchFailed), (''k'', (EntityBrief, ''x'', ''build''), 2, Dispatching)]"
    unfolding demo_attempts [symmetric] by simp_all
  then obtain a b where ab: "tk_attempts ?db = [a, b]" "da_id a = ''i''" "da_id b = ''k''" "da_status a = DispatchFailed" "da_status b = Dispatching"
    by (auto simp: map_eq_Cons_conv)
  then show ?thesis
    using restart_settles [OF reachable_tracker_history [of "demo_plan @ demo_briefs @ demo_approvals @ demo_dispatches"], of "\<lambda>r. None" "\<lambda>r. False" "''9''"]
    by (auto simp: list_all2_Cons1 active_status_def survives_def settled_as_def)
qed

section \<open>When a build starts\<close>

lemma freeze_rows [simp]:
  "getCohort (snd (freeze ty t db)) = getCohort db" "getBrief (snd (freeze ty t db)) = getBrief db"
  "getCohort (update_brief i h db) = getCohort db"
  by (auto simp: freeze_def update_brief_def getCohort_def getBrief_def)

lemma getBrief_update: "(\<And>b. kb_id (h b) = kb_id b) \<Longrightarrow> getBrief (update_brief i h db) i = map_option h (getBrief db i)"
proof -
  assume h: "\<And>b. kb_id (h b) = kb_id b"
  have "getBrief (update_brief i h db) i = map_option (\<lambda>r. if kb_id r = i then h r else r) (getBrief db i)"
    unfolding getBrief_def update_brief_def using h by (simp add: find_map_id)
  then show ?thesis by (cases "getBrief db i") (auto simp: getBrief_def dest: find_Some_set)
qed

lemma getBrief_transition [simp]: "getBrief (snd (transitionCohort i e db)) = getBrief db"
  by (rule transition_map [of i e db]) (simp add: fun_eq_iff getBrief_def)

lemma emit_frozen: "emit_all (map ReviewEv (fst (freeze ty t db)) @ es) db' = emit_all es db'"
  by (auto simp: freeze_def split: prod.splits)

text \<open>
  C15. Approving a brief freezes it and moves its cohort on: to \<open>building\<close>, with a request to dispatch its build,
  when every cohort it depends on is done, and to \<open>ready_to_build\<close>, with no request, otherwise.
\<close>

theorem approval_starts_or_waits:
  assumes "getBrief db i = Some b" and "patch_brief_status i AskApproved db = (db', reqs, Reply 200 r)"
  shows "reqs = (if countUnmetDependencies db (kb_cohort_id b) = 0 then [(''build'', i)] else []) \<and>
    map_option kc_status (getCohort db' (kb_cohort_id b)) =
      Some (if countUnmetDependencies db (kb_cohort_id b) = 0 then CohortBuilding else CohortReadyToBuild) \<and>
    map_option kb_status (getBrief db' i) = Some BriefApprovedSt \<and> artifact_isFrozen db' ''build_brief'' i"
proof -
  let ?i = "kb_cohort_id b"
  let ?t = "transitionCohort ?i (approval_event db ?i) db"
  let ?db1 = "update_brief i (\<lambda>r. r\<lparr>kb_status := BriefApprovedSt\<rparr>) (snd ?t)"
  have pending: "kb_status b = BriefPendingApproval"
    using assms by (auto simp: patch_brief_status_def refuse_def archived_reply_def split: if_splits)
  obtain co f t where ok: "fst ?t = TransitionOk co f t"
    using assms by (cases "fst ?t") (auto simp: patch_brief_status_def approval_event_def Let_def split_beta refuse_def archived_reply_def
        split: if_splits)
  then have out: "db' = snd (freeze ''build_brief'' i ?db1)" "reqs = (if countUnmetDependencies db ?i = 0 then [(''build'', i)] else [])"
    using assms pending by (auto simp: patch_brief_status_def approval_event_def Let_def split_beta refuse_def archived_reply_def
        emit_frozen split: if_splits)
  obtain c where c: "getCohort db ?i = Some c" using ok by (cases "getCohort db ?i") (auto simp: transitionCohort_def)
  obtain s where s: "applyCohortTransition (kc_status c) (approval_event db ?i) (kc_pre_block_status c) = Inr s"
    using ok by (auto simp: transitionCohort_Some [OF c] split: sum.splits)
  have "s = (if countUnmetDependencies db ?i = 0 then CohortBuilding else CohortReadyToBuild)"
    using s by (cases "kc_status c") (auto simp: approval_event_def applyCohortTransition_def split: if_splits)
  moreover have "map_option kc_status (getCohort db' ?i) = Some s"
  proof -
    have "kc_id (transition_row (approval_event db ?i) s r) = kc_id r" for r by (simp add: transition_row_def)
    moreover have "kc_status (transition_row (approval_event db ?i) s c) = s" by (simp add: transition_row_def approval_event_def)
    ultimately show ?thesis using c s getCohort_in [OF c] by (simp add: out(1) transitionCohort_Some [OF c] getCohort_map)
  qed
  moreover have "map_option kb_status (getBrief db' i) = Some BriefApprovedSt"
    using assms(1) by (simp add: out(1) getBrief_update)
  moreover have "artifact_isFrozen db' ''build_brief'' i" by (simp add: out(1) artifact_isFrozen_def freeze_def)
  ultimately show ?thesis using out(2) by simp
qed

definition answers_200 :: "'a handled \<Rightarrow> bool" where
  "answers_200 h = (case snd (snd h) of Reply n r \<Rightarrow> n = 200 | _ \<Rightarrow> False)"

lemma answers_200_reply: "answers_200 h \<Longrightarrow> \<exists>r. h = (fst h, fst (snd h), Reply 200 r)"
  by (cases h) (auto simp: answers_200_def split: reply.splits)

theorem approval_starts_or_waits_witness:
  "fst (snd (patch_brief_status ''x'' AskApproved (tracker_history (demo_plan @ demo_briefs)))) = [(''build'', ''x'')] \<and>
   fst (snd (patch_brief_status ''y'' AskApproved (tracker_history (demo_plan @ demo_briefs)))) = []"
proof -
  let ?db = "tracker_history (demo_plan @ demo_briefs)"
  have "answers_200 (patch_brief_status ''x'' AskApproved ?db) \<and> answers_200 (patch_brief_status ''y'' AskApproved ?db) \<and>
      map_option kb_cohort_id (getBrief ?db ''x'') = Some ''a'' \<and> map_option kb_cohort_id (getBrief ?db ''y'') = Some ''b'' \<and>
      countUnmetDependencies ?db ''a'' = 0 \<and> countUnmetDependencies ?db ''b'' = 1"
    by code_simp
  then obtain bx by' rx ry where b: "getBrief ?db ''x'' = Some bx" "kb_cohort_id bx = ''a''" "getBrief ?db ''y'' = Some by'" "kb_cohort_id by' = ''b''"
    and x: "patch_brief_status ''x'' AskApproved ?db = (fst (patch_brief_status ''x'' AskApproved ?db), fst (snd (patch_brief_status ''x'' AskApproved ?db)), Reply 200 rx)"
    and y: "patch_brief_status ''y'' AskApproved ?db = (fst (patch_brief_status ''y'' AskApproved ?db), fst (snd (patch_brief_status ''y'' AskApproved ?db)), Reply 200 ry)"
    and n: "countUnmetDependencies ?db ''a'' = 0" "countUnmetDependencies ?db ''b'' = 1"
    using answers_200_reply by blast
  show ?thesis using approval_starts_or_waits [OF b(1) x] approval_starts_or_waits [OF b(3) y] b(2,4) n by simp
qed

text \<open>
  The cohorts a completed cohort releases: ready to build with an approved brief, dependent on it, and every
  other cohort they depend on done.
\<close>

definition released_by :: "tracker \<Rightarrow> string \<Rightarrow> kcohort \<Rightarrow> bool" where
  "released_by db i c \<longleftrightarrow> kc_status c = CohortReadyToBuild \<and> approved_for db (kc_id c) \<and> (i, kc_id c) \<in> cohort_edges db \<and>
     (\<forall>x. (x, kc_id c) \<in> cohort_edges db \<longrightarrow> x = i \<or> map_option kc_status (getCohort db x) = Some CohortDone)"

lemma emit_done: "emit_all (done_events i ready) db = (db, map (\<lambda>p. (''build'', snd p)) ready)"
proof -
  have "emit_all (map (\<lambda>(c, b). CohortBuildReady c b) ready) db = (db, map (\<lambda>p. (''build'', snd p)) ready)"
    by (induction ready) auto
  then show ?thesis by (simp add: done_events_def)
qed

lemma advance_epic_cohorts: "tk_cohorts (advance_epic_of_plan i e db) = tk_cohorts db"
  by (auto simp: advance_epic_of_plan_def advance_logged_def advanceEpicByEvent_def updateEpicFields_def Let_def split: option.splits sum.splits)

lemma cohort_edges_iff: "(x, y) \<in> cohort_edges db \<longleftrightarrow> (\<exists>d\<in>set (tk_dependencies db). kd_from d = x \<and> kd_to d = y)"
  by (auto simp: cohort_edges_def edge_of_def image_iff)

lemma released_iff:
  assumes wf: "dependencies_wf db" and c: "kc_id c \<noteq> i"
    and db1: "db1 = db\<lparr>tk_cohorts := map (\<lambda>c. if kc_id c = i then c\<lparr>kc_status := CohortDone\<rparr> else c) (tk_cohorts db)\<rparr>"
  shows "kc_id c \<in> set (downstream db1 i) \<and> releasable db1 c \<longleftrightarrow> released_by db i c"
proof -
  let ?f = "\<lambda>c :: kcohort. if kc_id c = i then c\<lparr>kc_status := CohortDone\<rparr> else c"
  have "unmet db1 (kc_id c) d \<longleftrightarrow> kd_to d = kc_id c \<and> kd_from d \<noteq> i \<and> map_option kc_status (getCohort db (kd_from d)) \<noteq> Some CohortDone"
    if "d \<in> set (tk_dependencies db)" for d
  proof -
    obtain u where u: "getCohort db (kd_from d) = Some u"
      using wf \<open>d \<in> set (tk_dependencies db)\<close> by (auto simp: dependencies_wf_def plan_of_def list_all_iff)
    show ?thesis unfolding db1 using getCohort_in [OF u] by (subst unmet_map) (auto simp: u)
  qed
  then have "countUnmetDependencies db1 (kc_id c) = 0 \<longleftrightarrow>
      (\<forall>d\<in>set (tk_dependencies db). kd_to d = kc_id c \<longrightarrow> kd_from d = i \<or> map_option kc_status (getCohort db (kd_from d)) = Some CohortDone)"
    unfolding countUnmet_zero by (auto simp: db1)
  then have "countUnmetDependencies db1 (kc_id c) = 0 \<longleftrightarrow>
      (\<forall>x. (x, kc_id c) \<in> cohort_edges db \<longrightarrow> x = i \<or> map_option kc_status (getCohort db x) = Some CohortDone)"
    unfolding cohort_edges_iff by blast
  moreover have "kc_id c \<in> set (downstream db1 i) \<longleftrightarrow> (i, kc_id c) \<in> cohort_edges db"
    by (auto simp: downstream_def db1 cohort_edges_iff image_iff)
  moreover have "getLatestApprovedBriefByCohort db1 (kc_id c) \<noteq> None \<longleftrightarrow> approved_for db (kc_id c)"
    unfolding approved_for_latest by (simp add: db1)
  ultimately show ?thesis unfolding releasable_def released_by_def by blast
qed

text \<open>Where identifiers are unique, the guard of the update is met by the very row that was read.\<close>

lemma transition_distinct:
  assumes "distinct (map kc_id (tk_cohorts db))" and c: "getCohort db i = Some c"
    and step: "applyCohortTransition (kc_status c) e (kc_pre_block_status c) = Inr s"
  shows "transitionCohort i e db = (TransitionOk (transition_row e s c) (kc_status c) s,
    db\<lparr>tk_cohorts := map (\<lambda>r. if kc_id r = i then transition_row e s r else r) (tk_cohorts db)\<rparr>)"
proof -
  have "r = c" if "r \<in> set (tk_cohorts db)" "kc_id r = i" for r
    using getCohort_distinct [OF assms(1), of i r] c that by simp
  then have "map (\<lambda>r. if kc_id r = i \<and> kc_status r = kc_status c \<and> kc_pre_block_status r = kc_pre_block_status c
      then transition_row e s r else r) (tk_cohorts db) = map (\<lambda>r. if kc_id r = i then transition_row e s r else r) (tk_cohorts db)"
    by (intro map_cong refl) auto
  then show ?thesis using step by (simp add: transitionCohort_Some [OF c])
qed

lemma build_completed:
  assumes "distinct (map kc_id (tk_cohorts db))" and c: "getCohort db i = Some c"
    and ok: "fst (transitionCohort i BuildCompleted db) = TransitionOk co f t"
  shows "kc_status c = CohortBuilding \<and> snd (transitionCohort i BuildCompleted db) =
    db\<lparr>tk_cohorts := map (\<lambda>c. if kc_id c = i then c\<lparr>kc_status := CohortDone\<rparr> else c) (tk_cohorts db)\<rparr>"
proof -
  have "kc_status c = CohortBuilding"
    using ok unfolding transitionCohort_Some [OF c] by (cases "kc_status c") (auto simp: applyCohortTransition_def)
  moreover have "transition_row BuildCompleted CohortDone = (\<lambda>c. c\<lparr>kc_status := CohortDone\<rparr>)"
    by (simp add: fun_eq_iff transition_row_def)
  ultimately show ?thesis
    using transition_distinct [OF assms(1) c, of BuildCompleted CohortDone] by (simp add: applyCohortTransition_def)
qed

text \<open>
  C13. Reporting a cohort done marks it done, starts exactly the cohorts it releases and asks for the dispatch of
  exactly their builds, each with its latest approved brief; no other cohort changes.
\<close>

theorem completion_releases:
  assumes "tracker_reachable db" and "patch_cohort_status i AskDone db = (db', reqs, Reply 200 r)"
  shows "tk_cohorts db' = map (\<lambda>c. if kc_id c = i then c\<lparr>kc_status := CohortDone\<rparr>
        else if released_by db i c then c\<lparr>kc_status := CohortBuilding\<rparr> else c) (tk_cohorts db) \<and>
    {b. (''build'', b) \<in> set reqs} = {kb_id b |c b. c \<in> set (tk_cohorts db) \<and> released_by db i c \<and>
        getLatestApprovedBriefByCohort db (kc_id c) = Some b}"
proof -
  have graph: "dependencies_wf db" using reachable_graph [OF assms(1)] by (simp add: graph_ok_def)
  then have d: "distinct (map kc_id (tk_cohorts db))" by (simp add: dependencies_wf_def)
  let ?t = "transitionCohort i BuildCompleted db"
  obtain c0 where c0: "getCohort db i = Some c0" using assms(2)
    by (cases "getCohort db i") (auto simp: patch_cohort_status_def status_transaction_def archived_reply_def refuse_def split: if_splits)
  obtain co f t where ok: "fst ?t = TransitionOk co f t" using assms(2) c0
    by (cases "fst ?t") (auto simp: patch_cohort_status_def status_transaction_def archived_reply_def refuse_def Let_def split_beta split: if_splits)
  define db1 where "db1 = snd ?t"
  have c0': "kc_status c0 = CohortBuilding"
    and db1: "db1 = db\<lparr>tk_cohorts := map (\<lambda>c. if kc_id c = i then c\<lparr>kc_status := CohortDone\<rparr> else c) (tk_cohorts db)\<rparr>"
    using build_completed [OF d c0 ok] by (simp_all add: db1_def)
  have d1: "distinct (map kc_id (tk_cohorts db1))" using d by (simp add: db1 o_def if_distrib [of kc_id] cong: if_cong)
  let ?ready = "snd (runDoneFanout i db1)" and ?db2 = "fst (runDoneFanout i db1)"
  have db': "tk_cohorts db' = tk_cohorts ?db2"
    and asked: "reqs = map (\<lambda>p. (''build'', snd p)) ?ready \<or> (\<exists>p. reqs = map (\<lambda>p. (''build'', snd p)) ?ready @ [(''assessor'', p)])"
    using assms(2) c0 ok
    by (auto simp: patch_cohort_status_def status_transaction_def Let_def split_beta db1_def [symmetric] emit_done archived_reply_def
        refuse_def advance_epic_cohorts split: if_splits option.splits)
  from asked have reqs: "{b. (''build'', b) \<in> set reqs} = snd ` set ?ready" by force
  have i: "\<not> released_by db i c" "\<not> releasable db1 (c\<lparr>kc_status := CohortDone\<rparr>)" if "c \<in> set (tk_cohorts db)" "kc_id c = i" for c
    using getCohort_distinct [OF d, of i c] c0 c0' that by (auto simp: released_by_def releasable_def)
  have rel: "kc_id c \<in> set (downstream db1 i) \<and> releasable db1 c \<longleftrightarrow> released_by db i c" if "kc_id c \<noteq> i" for c
    using released_iff [OF graph that db1] .
  have "tk_cohorts db' = map (\<lambda>c. if kc_id c = i then c\<lparr>kc_status := CohortDone\<rparr>
      else if released_by db i c then c\<lparr>kc_status := CohortBuilding\<rparr> else c) (tk_cohorts db)"
  proof -
    have "tk_cohorts db1 = map (\<lambda>c. if kc_id c = i then c\<lparr>kc_status := CohortDone\<rparr> else c) (tk_cohorts db)" by (simp add: db1)
    then show ?thesis unfolding db' runDoneFanout_effect [OF d1] start_building_def using i rel by auto
  qed
  moreover have "snd ` set ?ready = {kb_id b |c b. c \<in> set (tk_cohorts db) \<and> released_by db i c \<and>
      getLatestApprovedBriefByCohort db (kc_id c) = Some b}"
  proof -
    have "c \<in> set (tk_cohorts db1) \<and> kc_id c \<in> set (downstream db1 i) \<and> releasable db1 c \<longleftrightarrow>
        c \<in> set (tk_cohorts db) \<and> released_by db i c" for c
      using i rel [of c] by (cases "kc_id c = i") (auto simp: db1 image_iff)
    moreover have "getLatestApprovedBriefByCohort db1 = getLatestApprovedBriefByCohort db"
      by (simp add: fun_eq_iff db1 getLatestApprovedBriefByCohort_def)
    ultimately show ?thesis unfolding runDoneFanout_effect [OF d1] builds_of_def by (auto simp: image_iff) blast+
  qed
  ultimately show ?thesis using reqs by simp
qed

theorem completion_releases_witness:
  "map (\<lambda>c. (kc_id c, kc_status c)) (tk_cohorts (fst (patch_cohort_status ''a'' AskDone (tracker_history (demo_plan @ demo_briefs @ demo_approvals))))) =
     [(''a'', CohortDone), (''b'', CohortBuilding)]"
proof -
  let ?db = "tracker_history (demo_plan @ demo_briefs @ demo_approvals)"
  let ?h = "patch_cohort_status ''a'' AskDone ?db"
  have ok: "answers_200 ?h" and rows: "map (\<lambda>c. (kc_id c, kc_status c)) (tk_cohorts ?db) = [(''a'', CohortBuilding), (''b'', CohortReadyToBuild)]"
    and deps: "tk_dependencies ?db = [\<lparr>kd_id = ''d'', kd_from = ''a'', kd_to = ''b''\<rparr>]" and approved: "approved_for ?db ''b''"
    by code_simp+
  obtain a b where ab: "tk_cohorts ?db = [a, b]" "kc_id a = ''a''" "kc_id b = ''b''" "kc_status b = CohortReadyToBuild"
    using rows by (auto simp: map_eq_Cons_conv)
  have "released_by ?db ''a'' b" using ab approved by (simp add: released_by_def cohort_edges_def edge_of_def deps)
  moreover obtain r where "?h = (fst ?h, fst (snd ?h), Reply 200 r)" using answers_200_reply [OF ok] by blast
  ultimately show ?thesis using completion_releases [of ?db "''a''" "fst ?h" "fst (snd ?h)" r, OF reachable_tracker_history] ab by auto
qed

text \<open>
  C14. As long as no cohort is unblocked and no dependency deleted, no wake-up is lost: a cohort that waits in
  \<open>ready_to_build\<close> with an approved brief depends on a cohort that is not done.
\<close>

theorem waiting_has_cause:
  assumes "list_all benign ops" and "c \<in> set (tk_cohorts (tracker_history ops))" and "kc_status c = CohortReadyToBuild"
    and "approved_for (tracker_history ops) (kc_id c)"
  shows "\<exists>x u. (x, kc_id c) \<in> cohort_edges (tracker_history ops) \<and> getCohort (tracker_history ops) x = Some u \<and> kc_status u \<noteq> CohortDone"
proof -
  have "wake_ok db \<Longrightarrow> list_all benign ops \<Longrightarrow> wake_ok (fold run_op ops db)" for db
    by (induction ops arbitrary: db) (auto simp: wake.keep_benign_op)
  moreover have "wake_ok empty_tracker"
    by (simp add: wake_ok_def waits_for_cause_def graph_ok_def dependencies_wf_def cohort_edges_def empty_tracker_def acyclic_def)
  ultimately have "wake_ok (tracker_history ops)" using assms(1) by (simp add: tracker_history_def)
  then have "0 < countUnmetDependencies (tracker_history ops) (kc_id c)"
    using assms by (auto simp: wake_ok_def waits_for_cause_def list_all_iff)
  then obtain d where "d \<in> set (tk_dependencies (tracker_history ops))" "unmet (tracker_history ops) (kc_id c) d"
    using countUnmet_zero [of "tracker_history ops" "kc_id c"] by auto
  then show ?thesis by (auto simp: unmet_def cohort_edges_iff split: option.splits)
qed

theorem waiting_has_cause_witness:
  "\<exists>x u. (x, ''b'') \<in> cohort_edges (tracker_history (demo_plan @ demo_briefs @ demo_approvals)) \<and>
     getCohort (tracker_history (demo_plan @ demo_briefs @ demo_approvals)) x = Some u \<and> kc_status u \<noteq> CohortDone"
proof -
  let ?ops = "demo_plan @ demo_briefs @ demo_approvals"
  have "list_all benign ?ops" by (simp add: demo_plan_def demo_briefs_def demo_approvals_def)
  moreover have "map_option kc_status (getCohort (tracker_history ?ops) ''b'') = Some CohortReadyToBuild" and approved: "approved_for (tracker_history ?ops) ''b''"
    by code_simp+
  then obtain c where "getCohort (tracker_history ?ops) ''b'' = Some c" "kc_status c = CohortReadyToBuild" by auto
  ultimately show ?thesis using waiting_has_cause [of ?ops c] getCohort_in [of "tracker_history ?ops" "''b''" c] approved by auto
qed

text \<open>
  C19. Unblocking a cohort gives it back the status it was blocked in and asks for no dispatch, whatever
  became of its dependencies meanwhile.
\<close>

theorem unblock_asks_nothing:
  assumes "getCohort db i = Some c" and "kc_status c = CohortBlocked" and "kc_pre_block_status c = Some s" and "\<not> isCohortEpicArchived db i"
  shows "\<exists>db' c'. patch_cohort_status i AskUnblocked db = (db', [], Reply 200 c') \<and> getCohort db' i = Some c' \<and> kc_status c' = s \<and>
    tk_dependencies db' = tk_dependencies db \<and> tk_briefs db' = tk_briefs db"
proof -
  have "applyCohortTransition (kc_status c) UnblockEvent (kc_pre_block_status c) = Inr s" using assms by (simp add: applyCohortTransition_def)
  then have t: "transitionCohort i UnblockEvent db = (TransitionOk (transition_row UnblockEvent s c) CohortBlocked s,
      db\<lparr>tk_cohorts := map (\<lambda>r. if kc_id r = i \<and> kc_status r = CohortBlocked \<and> kc_pre_block_status r = Some s
        then transition_row UnblockEvent s r else r) (tk_cohorts db)\<rparr>)"
    using assms(2,3) by (simp add: transitionCohort_Some [OF assms(1)])
  show ?thesis using assms getCohort_in [OF assms(1)]
    by (auto simp: patch_cohort_status_def status_transaction_def Let_def t getCohort_map transition_row_def)
qed

text \<open>The last dependency of \<open>b\<close> is done while \<open>b\<close> is blocked: unblocked, it waits for nothing and cannot be reported built.\<close>

definition demo_late :: "tracker_op list" where
  "demo_late = [PatchCohortStatus ''b'' AskBlocked, PatchCohortStatus ''a'' AskDone]"

theorem unblock_asks_nothing_witness:
  "\<exists>db c. patch_cohort_status ''b'' AskUnblocked (tracker_history (demo_plan @ demo_briefs @ demo_approvals @ demo_late)) = (db, [], Reply 200 c) \<and>
     kc_status c = CohortReadyToBuild \<and> countUnmetDependencies db ''b'' = 0 \<and> approved_for db ''b'' \<and>
     \<not> answers_200 (patch_cohort_status ''b'' AskDone db) \<and> \<not> answers_200 (patch_cohort_status ''b'' (AskAwaitingMerge ''u'') db)"
proof -
  let ?db = "tracker_history (demo_plan @ demo_briefs @ demo_approvals @ demo_late)"
  let ?db' = "fst (patch_cohort_status ''b'' AskUnblocked ?db)"
  have "map_option (\<lambda>c. (kc_status c, kc_pre_block_status c)) (getCohort ?db ''b'') = Some (CohortBlocked, Some CohortReadyToBuild)"
    and a: "\<not> isCohortEpicArchived ?db ''b''"
    and rest: "countUnmetDependencies ?db' ''b'' = 0" "approved_for ?db' ''b''" "\<not> answers_200 (patch_cohort_status ''b'' AskDone ?db')"
      "\<not> answers_200 (patch_cohort_status ''b'' (AskAwaitingMerge ''u'') ?db')"
    by code_simp+
  then obtain c where "getCohort ?db ''b'' = Some c" "kc_status c = CohortBlocked" "kc_pre_block_status c = Some CohortReadyToBuild" by auto
  from unblock_asks_nothing [OF this a] show ?thesis using rest by auto
qed

lemma archived_map:
  "(\<And>r. kc_id (f r) = kc_id r \<and> kc_plan_id (f r) = kc_plan_id r) \<Longrightarrow>
   isCohortEpicArchived (db\<lparr>tk_cohorts := map f (tk_cohorts db)\<rparr>) i = isCohortEpicArchived db i"
  by (auto simp: isCohortEpicArchived_def getCohort_map isPlanEpicArchived_def isSpecEpicArchived_def epic_isFrozen_def
      getPlan_def getEpicBySpec_def getEpic_def split: option.splits)

text \<open>
  C20. Blocking a cohort and unblocking it again leaves the whole database as it was.
\<close>

theorem block_unblock_roundtrip:
  assumes "tracker_reachable db" and c: "getCohort db i = Some c" and "kc_status c \<noteq> CohortBlocked" and "\<not> isCohortEpicArchived db i"
  shows "answers_200 (patch_cohort_status i AskBlocked db) \<and>
    patch_cohort_status i AskUnblocked (fst (patch_cohort_status i AskBlocked db)) = (db, [], Reply 200 c)"
proof -
  have d: "distinct (map kc_id (tk_cohorts db))" using reachable_graph [OF assms(1)] by (simp add: graph_ok_def dependencies_wf_def)
  have pre: "kc_pre_block_status c = None"
    using reachable_blocked [OF assms(1)] getCohort_in [OF c] assms(3) by (auto simp: blocked_ok_def list_all_iff)
  define f :: "kcohort \<Rightarrow> kcohort" where
    "f = (\<lambda>r. if kc_id r = i then r\<lparr>kc_status := CohortBlocked, kc_pre_block_status := Some (kc_status r)\<rparr> else r)"
  have one: "r = c" if "r \<in> set (tk_cohorts db)" "kc_id r = i" for r using getCohort_distinct [OF d, of i r] c that by simp
  have f: "kc_id (f r) = kc_id r \<and> kc_plan_id (f r) = kc_plan_id r" for r by (simp add: f_def)
  have row: "(\<lambda>r. if kc_id r = i then transition_row BlockEvent CohortBlocked r else r) = f"
    by (simp add: fun_eq_iff f_def transition_row_def)
  let ?db1 = "db\<lparr>tk_cohorts := map f (tk_cohorts db)\<rparr>"
  have "applyCohortTransition (kc_status c) BlockEvent (kc_pre_block_status c) = Inr CohortBlocked"
    using assms(3) by (cases "kc_status c") (auto simp: applyCohortTransition_def)
  then have t1: "transitionCohort i BlockEvent db = (TransitionOk (f c) (kc_status c) CohortBlocked, ?db1)"
    using getCohort_in [OF c] by (simp add: transition_distinct [OF d c] row) (simp add: transition_row_def f_def)
  have blocked: "patch_cohort_status i AskBlocked db = (?db1, [], Reply 200 (f c))"
    using assms(4) c by (simp add: patch_cohort_status_def status_transaction_def t1 Let_def)
  have c1: "getCohort ?db1 i = Some (f c)" using c f by (simp add: getCohort_map)
  have restored: "transition_row UnblockEvent (kc_status c) (f c) = c" using pre getCohort_in [OF c] by (simp add: transition_row_def f_def)
  have d1: "distinct (map kc_id (tk_cohorts ?db1))" using d f by (simp add: o_def)
  have "map (\<lambda>r. if kc_id r = i then transition_row UnblockEvent (kc_status c) r else r) (map f (tk_cohorts db)) = tk_cohorts db"
    unfolding map_map o_def using one restored by (intro map_idI) (auto simp: f, simp add: f_def)
  moreover have "applyCohortTransition (kc_status (f c)) UnblockEvent (kc_pre_block_status (f c)) = Inr (kc_status c)"
    using getCohort_in [OF c] by (simp add: f_def applyCohortTransition_def)
  ultimately have "transitionCohort i UnblockEvent ?db1 = (TransitionOk c (kc_status (f c)) (kc_status c), db)"
    by (simp add: transition_distinct [OF d1 c1] restored)
  then have "patch_cohort_status i AskUnblocked ?db1 = (db, [], Reply 200 c)"
    using assms(4) c1 f by (simp add: patch_cohort_status_def status_transaction_def Let_def archived_map)
  then show ?thesis by (simp add: blocked answers_200_def)
qed

theorem block_unblock_roundtrip_witness:
  "fst (patch_cohort_status ''b'' AskUnblocked (fst (patch_cohort_status ''b'' AskBlocked (tracker_history demo_plan)))) = tracker_history demo_plan"
proof -
  have "map_option kc_status (getCohort (tracker_history demo_plan) ''b'') = Some CohortWaiting" and a: "\<not> isCohortEpicArchived (tracker_history demo_plan) ''b''"
    by code_simp+
  then obtain c where c: "getCohort (tracker_history demo_plan) ''b'' = Some c" and s: "kc_status c \<noteq> CohortBlocked" by auto
  show ?thesis using block_unblock_roundtrip [OF reachable_tracker_history c s a] by simp
qed

section \<open>The end of an epic\<close>

lemma transition_cohorts_only: "\<exists>cs. snd (transitionCohort i e db) = db\<lparr>tk_cohorts := cs\<rparr>"
  by (rule transition_map [of i e db]) blast

lemma fanout_same:
  "tk_epics (fst (runDoneFanout i db)) = tk_epics db \<and> tk_plans (fst (runDoneFanout i db)) = tk_plans db"
proof -
  have one: "tk_epics (fst (fanout_one j s)) = tk_epics (fst s) \<and> tk_plans (fst (fanout_one j s)) = tk_plans (fst s)" for j s
    using transition_cohorts_only [of j DependenciesMet "fst s"]
    by (auto simp: fanout_one_def split_beta split: option.splits cohort_transition_result.splits)
  have "tk_epics (fst (fold fanout_one js s)) = tk_epics (fst s) \<and> tk_plans (fst (fold fanout_one js s)) = tk_plans (fst s)" for js s
    by (induction js arbitrary: s) (auto simp: one)
  then show ?thesis by (simp add: runDoneFanout_def)
qed

lemma merged_same:
  assumes "applyAwaitingMergeToMerged i db = Some (c, em, db')"
  shows "tk_epics db' = tk_epics db \<and> tk_plans db' = tk_plans db"
proof -
  obtain cs where "snd (transitionCohort i PrMergedEvent db) = db\<lparr>tk_cohorts := cs\<rparr>" using transition_cohorts_only by blast
  then show ?thesis using assms fanout_same [of i "db\<lparr>tk_cohorts := cs\<rparr>"]
    by (auto simp: applyAwaitingMergeToMerged_def split_beta split: cohort_transition_result.splits)
qed

lemma emit_all_append:
  "emit_all (es @ fs) db = (fst (emit_all fs (fst (emit_all es db))), snd (emit_all es db) @ snd (emit_all fs (fst (emit_all es db))))"
  by (induction es arbitrary: db) (auto simp: split_beta)

lemma merge_same:
  "tk_epics (fst (merge_finish i outcome db)) = tk_epics db \<and> tk_plans (fst (merge_finish i outcome db)) = tk_plans db"
proof (cases "applyAwaitingMergeToMerged i db")
  case (Some r)
  obtain c em db1 where r: "r = (c, em, db1)" by (cases r)
  have same: "tk_epics db1 = tk_epics db \<and> tk_plans db1 = tk_plans db" using merged_same Some r by blast
  show ?thesis
  proof (cases em)
    case (Some em')
    let ?last = "case mg_plan_completed em' of None \<Rightarrow> [] | Some plan_id \<Rightarrow> [PlanCompleted plan_id]"
    have "fst (emit_all (CohortPrMerged i # done_events i (mg_build_ready em') @ ?last) db1) = db1"
      by (simp add: split_beta emit_all_append emit_done split: option.splits)
    then show ?thesis using \<open>applyAwaitingMergeToMerged i db = Some r\<close> same Some r
      by (simp add: merge_finish_def split_beta)
  qed (use Some r same in \<open>simp add: merge_finish_def refuse_def\<close>)
qed (simp add: merge_finish_def refuse_def)

text \<open>
  C18. A plan completed through the merge route leaves its epic in the build stage, and the assessment
  posted for the plan afterwards does not complete the epic: no epic changes over the two requests.
\<close>

theorem merge_leaves_epic_in_build:
  assumes "getPlan db p = Some plan" and "getEpicBySpec db (kp_spec_id plan) = Some epic" and "getEpic db (ke_id epic) = Some epic"
    and "ke_stage epic = StageBuild"
  shows "tk_epics (fst (post_assessment now a p summary catalog gap fixes model (fst (merge_finish i outcome db)))) = tk_epics db"
proof -
  let ?db1 = "fst (merge_finish i outcome db)"
  have epics: "tk_epics ?db1 = tk_epics db" and plans: "tk_plans ?db1 = tk_plans db" using merge_same [of i outcome db] by auto
  have "advance_epic_of_plan p EpicAssessDone (?db1\<lparr>tk_assessments := as\<rparr>) = ?db1\<lparr>tk_assessments := as\<rparr>" for "as"
    using assms epics plans
    by (simp add: advance_epic_of_plan_def getPlan_def getEpicBySpec_def getEpic_def advance_logged_def advanceEpicByEvent_def
        advanced_epic_def applyEpicTransition_def)
  then show ?thesis using epics
    by (auto simp: post_assessment_def insertAssessment_def archived_reply_def refuse_def Let_def split: sum.splits if_splits)
qed

text \<open>The same completion reported by \<open>PATCH /cohorts/:id/status\<close> lets the assessment complete the epic.\<close>

definition demo_merging :: tracker where
  "demo_merging = tracker_history (demo_plan @ demo_briefs @ demo_approvals @ [PatchCohortStatus ''a'' AskDone, PatchCohortStatus ''b'' (AskAwaitingMerge ''u'')])"

definition demo_assess :: "tracker \<Rightarrow> tracker" where
  "demo_assess db = fst (post_assessment ''7'' ''z'' ''l'' ''s'' [] ''g'' ''f'' None db)"

definition epic_states :: "tracker \<Rightarrow> (epic_status \<times> epic_stage) list" where
  "epic_states db = map (\<lambda>e. (ke_status e, ke_stage e)) (tk_epics db)"

theorem merge_leaves_epic_in_build_witness:
  "epic_states (demo_assess (fst (merge_finish ''b'' OutcomeMergedNow demo_merging))) = [(EpicStActive, StageBuild)] \<and>
   epic_states (demo_assess (fst (patch_cohort_status ''b'' AskMerged demo_merging))) = [(EpicStComplete, StageAssess)] \<and>
   (''assessor'', ''l'') \<in> set (fst (snd (merge_finish ''b'' OutcomeMergedNow demo_merging)))"
proof -
  have "map_option kp_spec_id (getPlan demo_merging ''l'') = Some ''s''"
    and "map_option (\<lambda>e. (ke_id e, ke_stage e)) (getEpicBySpec demo_merging ''s'') = Some (''e'', StageBuild)"
    and e: "getEpic demo_merging ''e'' = getEpicBySpec demo_merging ''s''"
    and before: "epic_states demo_merging = [(EpicStActive, StageBuild)]"
    and other: "epic_states (demo_assess (fst (patch_cohort_status ''b'' AskMerged demo_merging))) = [(EpicStComplete, StageAssess)]"
    and asked: "(''assessor'', ''l'') \<in> set (fst (snd (merge_finish ''b'' OutcomeMergedNow demo_merging)))"
    by code_simp+
  then obtain plan epic where "getPlan demo_merging ''l'' = Some plan" "getEpicBySpec demo_merging (kp_spec_id plan) = Some epic"
    "getEpic demo_merging (ke_id epic) = Some epic" "ke_stage epic = StageBuild" by auto
  from merge_leaves_epic_in_build [OF this] show ?thesis
    using before other asked by (simp add: demo_assess_def epic_states_def)
qed

end
