(* ===== verification/Encode.thy ===== *)
theory Encode
  imports RunTypes
begin

text \<open>
  The JSON form of the values the storage layer serializes: compiled stages, execution
  requests, materialized units and contradictions. Members are in the order the code builds
  the objects; an absent optional member is left out, as \<open>JSON.stringify\<close> does.
\<close>

definition opt_member :: "string \<Rightarrow> ('a \<Rightarrow> json) \<Rightarrow> 'a option \<Rightarrow> (string \<times> json) list" where
  "opt_member k f v = (case v of None \<Rightarrow> [] | Some x \<Rightarrow> [(k, f x)])"

definition nullable_json :: "string option \<Rightarrow> json" where
  "nullable_json v = (case v of None \<Rightarrow> JNull | Some s \<Rightarrow> JStr s)"

definition num_json :: "nat \<Rightarrow> json" where
  "num_json n = JNum (nat_to_string n)"

fun role_text :: "operator_role \<Rightarrow> string" where
  "role_text RoleSpec = ''spec''"
| "role_text RolePlan = ''plan''"
| "role_text RoleBrief = ''brief''"
| "role_text RoleBuild = ''build''"
| "role_text RoleAssessment = ''assessment''"
| "role_text RoleFinalIntegration = ''final_integration''"

fun delivery_text :: "input_delivery \<Rightarrow> string" where
  "delivery_text ProducerComplete = ''producer_complete''"
| "delivery_text UnitComplete = ''unit_complete''"

fun disposition_text :: "gate_disposition \<Rightarrow> string" where
  "disposition_text Release = ''release''"
| "disposition_text Revise = ''revise''"
| "disposition_text Terminal = ''terminal''"

definition input_slot_json :: "input_slot \<Rightarrow> json" where
  "input_slot_json i =
     JObj [(''name'', JStr (is_name i)), (''artifact_type'', JStr (is_artifact_type i)), (''optional'', JBool (is_optional i)),
           (''collect'', JBool (is_collect i)), (''delivery'', JStr (delivery_text (is_delivery i)))]"

fun binding_json :: "slot_binding \<Rightarrow> json" where
  "binding_json (FromInput n p) = JObj [(''from'', JStr ''input''), (''input_name'', JStr n), (''path'', nullable_json p)]"
| "binding_json (FromContext p) = JObj [(''from'', JStr ''context''), (''path'', JStr p)]"
| "binding_json (FromLiteral v) = JObj [(''from'', JStr ''literal''), (''value'', JStr v)]"
| "binding_json (FromItem p) = JObj [(''from'', JStr ''item''), (''path'', JStr p)]"
| "binding_json (FromContextLookup c ck ik v) =
     JObj [(''from'', JStr ''context_lookup''), (''collection_path'', JStr c), (''collection_key_path'', JStr ck),
           (''item_key_path'', JStr ik), (''value_path'', JStr v)]"
| "binding_json (FromInputLookup n ck ik v) =
     JObj [(''from'', JStr ''input_lookup''), (''input_name'', JStr n), (''collection_key_path'', JStr ck),
           (''item_key_path'', JStr ik), (''value_path'', JStr v)]"

fun bindable_json :: "bindable \<Rightarrow> json" where
  "bindable_json (BindString s) = JStr s"
| "bindable_json (BindSlot b) = binding_json b"

definition bindings_json :: "slot_binding js_obj \<Rightarrow> json" where
  "bindings_json bs = JObj (map (\<lambda>(k, b). (k, binding_json b)) bs)"

fun revision_target_text :: "gate_revision_target \<Rightarrow> string" where
  "revision_target_text SelfStage = ''self_stage''"
| "revision_target_text UpstreamHandoff = ''upstream_handoff''"

definition gate_definition_json :: "output_gate_definition \<Rightarrow> json" where
  "gate_definition_json g =
     JObj ([(''output'', JStr (og_output g)),
            (''steps'', JArr (map (\<lambda>s. JObj [(''type'', JStr (gs_type s)), (''actions'', JArr (map JStr (gs_actions s)))]) (og_steps g)))] @
           opt_member ''requires_zero_open_review_items'' JBool (og_requires_zero_open_review_items g) @
           opt_member ''revision_target'' (\<lambda>t. JStr (revision_target_text t)) (og_revision_target g))"

definition fan_out_json :: "fan_out_definition \<Rightarrow> json" where
  "fan_out_json f =
     JObj ([(''over'', binding_json (fo_over f)), (''unit_id_path'', JStr (fo_unit_id_path f))] @
           opt_member ''session_mode'' JStr (fo_session_mode f) @
           opt_member ''depends_on_path'' JStr (fo_depends_on_path f) @
           opt_member ''max_parallel'' num_json (fo_max_parallel f) @
           opt_member ''manual_admission'' JBool (fo_manual_admission f) @
           opt_member ''item_bindings'' bindings_json (fo_item_bindings f) @
           opt_member ''workdir'' binding_json (fo_workdir f) @
           opt_member ''worktree'' (\<lambda>w. JObj ([(''branch_name'', bindable_json (wt_branch_name w)),
             (''worktree_subdir'', bindable_json (wt_worktree_subdir w))] @ opt_member ''base_ref'' bindable_json (wt_base_ref w))) (fo_worktree f) @
           opt_member ''inherit_worktree_from'' JStr (fo_inherit_worktree_from f))"

definition delegated_definition_json :: "delegated_session_config \<Rightarrow> json" where
  "delegated_definition_json c =
     JObj ([(''runtime'', bindable_json (dc_runtime c)), (''prompt_template_path'', JStr (dc_prompt_template_path c)),
            (''slot_bindings'', bindings_json (dc_slot_bindings c)), (''workdir'', binding_json (dc_workdir c)),
            (''session_name'', JStr (dc_session_name c))] @
           opt_member ''model'' bindable_json (dc_model c) @
           opt_member ''effort'' bindable_json (dc_effort c) @
           opt_member ''worktree'' (\<lambda>w. JObj ([(''branchName'', JStr (wi_branch_name w)), (''worktreeSubdir'', JStr (wi_worktree_subdir w))] @
             opt_member ''baseRef'' JStr (wi_base_ref w))) (dc_worktree c) @
           opt_member ''pre_authorized_tools'' (\<lambda>ts. JArr (map JStr ts)) (dc_pre_authorized_tools c) @
           opt_member ''yolo'' JBool (dc_yolo c) @
           opt_member ''fan_out'' fan_out_json (dc_fan_out c) @
           opt_member ''artifacts'' (\<lambda>a. JObj [(''over'', binding_json (ac_over a)), (''id_path'', JStr (ac_id_path a))]) (dc_artifacts c) @
           opt_member ''gate_output'' JStr (dc_gate_output c) @
           opt_member ''output_gate'' gate_definition_json (dc_output_gate c) @
           opt_member ''output_handoff'' (\<lambda>h. JObj [(''output'', JStr (oh_output h)), (''downstream_role'', JStr (role_text (oh_downstream_role h))),
             (''approved_wait'', JObj [(''kind'', JStr (oh_approved_wait_kind h))])]) (dc_output_handoff c))"

fun definition_config_json :: "definition_config \<Rightarrow> json" where
  "definition_config_json (DelegatedConfig c) = delegated_definition_json c"
| "definition_config_json (ProvisioningConfig c) =
     JObj [(''repositories'', binding_json (rp_repositories c)), (''base_branch'', binding_json (rp_base_branch c)),
           (''max_parallel'', num_json (rp_max_parallel c))]"
| "definition_config_json (OpaqueConfig j) = j"

fun release_json :: "output_release \<Rightarrow> json" where
  "release_json Immediate = JObj [(''kind'', JStr ''immediate'')]"
| "release_json (Gate steps zero target) =
     JObj [(''kind'', JStr ''gate''),
           (''steps'', JArr (map (\<lambda>s. JObj [(''type'', JStr (cg_type s)),
              (''actions'', JArr (map (\<lambda>a. JObj [(''name'', JStr (ga_name a)), (''disposition'', JStr (disposition_text (ga_disposition a)))]) (cg_actions s)))]) steps)),
           (''requires_zero_open_review_items'', JBool zero), (''revision_target'', JStr (revision_target_text target))]"
| "release_json (Handoff role kind) =
     JObj [(''kind'', JStr ''handoff''), (''downstream_role'', JStr (role_text role)), (''external_wait_kind'', JStr kind)]"

fun release_kind :: "output_release \<Rightarrow> string" where
  "release_kind Immediate = ''immediate''"
| "release_kind (Gate _ _ _) = ''gate''"
| "release_kind (Handoff _ _) = ''handoff''"

fun materialization_json :: "materialization \<Rightarrow> json" where
  "materialization_json Scalar = JObj [(''kind'', JStr ''scalar'')]"
| "materialization_json (ArtifactCollection over idp) =
     JObj [(''kind'', JStr ''artifact_collection''), (''over'', binding_json over), (''id_path'', JStr idp)]"
| "materialization_json (FanOut over idp depp mp manual) =
     JObj [(''kind'', JStr ''fan_out''), (''over'', binding_json over), (''unit_id_path'', JStr idp),
           (''depends_on_path'', nullable_json depp), (''max_parallel'', num_json mp), (''manual_admission'', JBool manual)]"

definition stage_contract_json :: "compiled_stage \<Rightarrow> json" where
  "stage_contract_json s =
     JObj [(''stage_key'', JStr (cs_stage_key s)), (''stage_type'', JStr (cs_stage_type s)),
           (''operator_role'', case cs_operator_role s of None \<Rightarrow> JNull | Some r \<Rightarrow> JStr (role_text r)),
           (''inputs'', JArr (map input_slot_json (cs_inputs s))),
           (''outputs'', JArr (map (\<lambda>out. JObj [(''name'', JStr (co_name out)), (''artifact_type'', JStr (co_artifact_type out)),
              (''release'', release_json (co_release out))]) (cs_outputs s))),
           (''materialization'', materialization_json (cs_materialization s)),
           (''executor'', JObj [(''executor_type'', JStr (cs_executor_type s)),
              (''definition_config'', definition_config_json (cs_definition_config s))])]"

definition policy_json :: "stage_policy \<Rightarrow> json" where
  "policy_json p = JObj [(''max_parallel'', num_json (max_parallel p)), (''manual_admission'', JBool (manual_admission p))]"

fun observation_json :: "terminal_observation \<Rightarrow> json" where
  "observation_json (ObservedSucceeded m) = JObj [(''kind'', JStr ''succeeded''), (''metadata'', m)]"
| "observation_json (ObservedFailed c d) = JObj [(''kind'', JStr ''failed''), (''code'', JStr c), (''detail'', JStr d)]"
| "observation_json (ObservedCancelled d) = JObj [(''kind'', JStr ''cancelled''), (''detail'', nullable_json d)]"

fun reference_json :: "external_reference \<Rightarrow> json" where
  "reference_json (KbblSession s sha) =
     JObj ([(''kind'', JStr ''kbbl_session''), (''session_id'', JStr s)] @ opt_member ''worktree_base_sha'' JStr sha)"
| "reference_json (HeadlessRun r) = JObj [(''kind'', JStr ''headless_run''), (''run_ref'', JStr r)]"
| "reference_json (CompletedWork ob) = JObj [(''kind'', JStr ''completed''), (''observation'', observation_json ob)]"
| "reference_json NoReference = JObj [(''kind'', JStr ''none'')]"

definition envelopes_json :: "artifact_envelope list \<Rightarrow> json" where
  "envelopes_json es = JArr (map envelope_json es)"

definition request_json :: "execution_request \<Rightarrow> json" where
  "request_json r =
     JObj ([(''execution_id'', JStr (er_execution_id r)), (''stage_instance_id'', JStr (er_stage_instance_id r)),
            (''unit_id'', JStr (er_unit_id r)), (''executor_type'', JStr (er_executor_type r)),
            (''resolved_config'', er_resolved_config r), (''inputs'', envelopes_json (er_inputs r)),
            (''declared_outputs'', JArr (map (\<lambda>d. JObj [(''name'', JStr (oc_name d)), (''artifact_type'', JStr (oc_artifact_type d)),
               (''required'', JBool (oc_required d))]) (er_declared_outputs r))),
            (''expected_artifacts'', JArr (map (\<lambda>e. JObj [(''unit_id'', JStr (ea_unit_id e)), (''output_name'', JStr (ea_output_name e)),
               (''artifact_type'', JStr (ea_artifact_type e))]) (er_expected_artifacts r)))] @
           opt_member ''workspace_source'' (\<lambda>(e, ref). JObj [(''execution_id'', JStr e), (''external_reference'', reference_json ref)])
             (er_workspace_source r))"

fun identity_json :: "slot_identity \<Rightarrow> json" where
  "identity_json (ScalarSlot n) = JObj [(''kind'', JStr ''scalar''), (''output_name'', JStr n)]"
| "identity_json (CollectionMember n k) =
     JObj [(''kind'', JStr ''collection_member''), (''output_name'', JStr n), (''collection_key'', JStr k)]"

definition materialized_output_json :: "materialized_output \<Rightarrow> json" where
  "materialized_output_json out =
     JObj [(''identity'', identity_json (mo_identity out)), (''artifact_type'', JStr (mo_artifact_type out)),
           (''required'', JBool (mo_required out)), (''release'', release_json (mo_release out))]"

definition materialized_unit_json :: "materialized_unit \<Rightarrow> json" where
  "materialized_unit_json u =
     JObj [(''id'', JStr (mu_id u)), (''unit_id'', JStr (mu_unit_id u)), (''parameters'', mu_parameters u),
           (''input_snapshot'', envelopes_json (mu_input_snapshot u)), (''input_fingerprint'', JStr (mu_input_fingerprint u)),
           (''depends_on'', JArr (map JStr (mu_depends_on u))),
           (''outputs'', JArr (map materialized_output_json (mu_outputs u))),
           (''initial_work_order'', JObj [(''id'', JStr (mw_id (mu_initial_work_order u))),
              (''workflow_id'', JStr (mw_workflow_id (mu_initial_work_order u))),
              (''capability_hash'', JStr (mw_capability_hash (mu_initial_work_order u))),
              (''request'', request_json (mw_request (mu_initial_work_order u)))])]"

fun contradiction_json :: "contradiction \<Rightarrow> json" where
  "contradiction_json (UnknownDependencyAtClose k u d) =
     JObj [(''kind'', JStr ''unknown_dependency_at_close''), (''stage_key'', JStr k), (''unit_id'', JStr u), (''dependency'', JStr d)]"
| "contradiction_json (DependencyCycle k c) =
     JObj [(''kind'', JStr ''dependency_cycle''), (''stage_key'', JStr k), (''cycle'', JArr (map JStr c))]"
| "contradiction_json (MalformedDriverArtifact k a p d) =
     JObj [(''kind'', JStr ''malformed_driver_artifact''), (''stage_key'', JStr k), (''artifact_id'', nullable_json a),
           (''path'', JStr p), (''detail'', JStr d)]"

fun contradiction_stage_key :: "contradiction \<Rightarrow> string" where
  "contradiction_stage_key (UnknownDependencyAtClose k _ _) = k"
| "contradiction_stage_key (DependencyCycle k _) = k"
| "contradiction_stage_key (MalformedDriverArtifact k _ _ _) = k"

end
