(* ===== verification/Store.thy ===== *)
theory Store
  imports WorkOrder Encode
begin

text \<open>
  The tables of the run record (\<open>storage/migrations\<close>) and the way
  \<open>storage/postgres-run-record.ts\<close> writes them.

  \<^item> A table is the list of its rows. \<open>UPDATE ... WHERE\<close> maps over the rows, \<open>SELECT\<close> filters them
    and \<open>ORDER BY\<close> is a stable sort. Text columns sort by the collation of \<^typ>\<open>runtime_env\<close>
    with ties by code unit; identifiers and timestamps sort as text.
  \<^item> A statement that violates a constraint, and every \<open>throw\<close>, is \<^const>\<open>Inl\<close>; a transaction that
    ends so leaves the database as it was (\<open>ROLLBACK\<close>). Row locks serialize the transactions of a
    run, so a transaction is a function of the database.
  \<^item> A constraint that the rows just read already guarantee is not repeated. The surrogate key of
    an audit row is not represented; other random identifiers and times are arguments.
  \<^item> A slot row's state, artifact, wait, reason and time columns are one \<^typ>\<open>slot_state\<close>
    (\<open>decodeSlot\<close>; the table's CHECK admits no other combination).
\<close>

section \<open>Rows\<close>

record definition_row =
  df_id :: string
  df_version :: nat
  df_definition :: workflow_definition

datatype stored_contract =
    CompiledContract compiled_stage
  | StraightContract string json "materialized_output list"

record stage_row =
  sr_id :: string
  sr_run_id :: string
  sr_stage_key :: string
  sr_stage_type :: string
  sr_contract :: stored_contract
  sr_attempt_root :: "string option"
  sr_coordinator :: string
  sr_state :: run_state
  sr_outcome :: "stage_outcome option"
  sr_closed :: bool
  sr_started_at :: string
  sr_ended_at :: "string option"

record policy_row =
  pl_stage_id :: string
  pl_policy :: stage_policy
  pl_fingerprint :: string

record unit_row =
  u_id :: string
  u_run_id :: string
  u_stage_id :: string
  u_unit_id :: string
  u_parameters :: json
  u_input_snapshot :: "artifact_envelope list"
  u_input_fingerprint :: string
  u_state :: unit_state
  u_admitted :: bool
  u_admitted_at :: "string option"
  u_outcome :: "stage_outcome option"
  u_fingerprint :: "string option"
  u_created_at :: string
  u_ended_at :: "string option"

record order_row =
  or_order :: work_order
  or_capability_hash :: string
  or_request :: "execution_request option"

datatype lifecycle =
    LifeCurrent
  | LifeSuperseded string string
  | LifeWithdrawn string string string
  | LifeReleased string

record artifact_row =
  a_id :: string
  a_chain_id :: string
  a_run_id :: string
  a_stage_id :: string
  a_execution_id :: string
  a_unit_id :: string
  a_output_name :: string
  a_collection_key :: "string option"
  a_artifact_type :: string
  a_body :: json
  a_label :: string
  a_version :: nat
  a_idempotency_key :: string
  a_payload_hash :: string
  a_created_at :: string
  a_lifecycle :: lifecycle
  a_lifecycle_updated_at :: string
  a_attempt_workflow_id :: string
  a_work_order_id :: "string option"

record emission_row =
  em_stage_id :: string
  em_execution_id :: string
  em_unit_id :: string
  em_output_name :: string
  em_collection_key :: "string option"
  em_idempotency_key :: string
  em_payload_hash :: string
  em_artifact_id :: string
  em_created_at :: string

record admission_row =
  ad_stage_id :: string
  ad_unit_id :: string
  ad_idempotency_key :: string
  ad_request_hash :: string
  ad_applied_at :: string

record dependency_row =
  dp_stage_id :: string
  dp_unit_id :: string
  dp_depends_on :: string

datatype transition_operation =
    StageMaterialized | MaterializationClosed | MaterializationFailed | RunCancelledOp | UnitAdmitted
  | OperatorRetryCreated | InputRevisedOp | SlotReleasedOp | SlotPendingOp | SlotInvalidatedOp
  | UnitSatisfiedOp | WorkStarted

record pending_transition =
  tr_run_id :: string
  tr_unit_id :: "string option"
  tr_order_id :: "string option"
  tr_wait_id :: "string option"
  tr_output_name :: "string option"
  tr_collection_key :: "string option"
  tr_operation :: transition_operation
  tr_actor :: string
  tr_detail :: json
  tr_created_at :: string

record transition = pending_transition +
  tr_prior :: nat
  tr_resulting :: nat

record db =
  db_definitions :: "definition_row list"
  db_runs :: "workflow_run list"
  db_stages :: "stage_row list"
  db_policies :: "policy_row list"
  db_units :: "unit_row list"
  db_dependencies :: "dependency_row list"
  db_slots :: "run_output_slot list"
  db_orders :: "order_row list"
  db_waits :: "wait list"
  db_artifacts :: "artifact_row list"
  db_emissions :: "emission_row list"
  db_attachments :: "executor_attachment list"
  db_admissions :: "admission_row list"
  db_transitions :: "transition list"
  db_seed :: "string option"

section \<open>Transactions\<close>

type_synonym 'a tx = "db \<Rightarrow> string + 'a \<times> db"

text \<open>\<open>sql.transaction\<close>: commit on return, roll back on an exception.\<close>

definition transaction :: "'a tx \<Rightarrow> db \<Rightarrow> (string + 'a) \<times> db" where
  "transaction m d = (case m d of Inl e \<Rightarrow> (Inl e, d) | Inr (a, d') \<Rightarrow> (Inr a, d'))"

section \<open>Statements\<close>

definition update_where :: "('a \<Rightarrow> bool) \<Rightarrow> ('a \<Rightarrow> 'a) \<Rightarrow> 'a list \<Rightarrow> 'a list" where
  "update_where p f xs = map (\<lambda>x. if p x then f x else x) xs"

definition update_runs where "update_runs p f d = d\<lparr>db_runs := update_where p f (db_runs d)\<rparr>"
definition update_stages where "update_stages p f d = d\<lparr>db_stages := update_where p f (db_stages d)\<rparr>"
definition update_units where "update_units p f d = d\<lparr>db_units := update_where p f (db_units d)\<rparr>"
definition update_slots where "update_slots p f d = d\<lparr>db_slots := update_where p f (db_slots d)\<rparr>"
definition update_orders where "update_orders p f d = d\<lparr>db_orders := update_where p f (db_orders d)\<rparr>"
definition update_waits where "update_waits p f d = d\<lparr>db_waits := update_where p f (db_waits d)\<rparr>"
definition update_artifacts where "update_artifacts p f d = d\<lparr>db_artifacts := update_where p f (db_artifacts d)\<rparr>"
definition update_attachments where "update_attachments p f d = d\<lparr>db_attachments := update_where p f (db_attachments d)\<rparr>"

definition find_run :: "db \<Rightarrow> string \<Rightarrow> workflow_run option" where
  "find_run d i = List.find (\<lambda>r. run_id r = i) (db_runs d)"

definition find_unit_row :: "db \<Rightarrow> string \<Rightarrow> unit_row option" where
  "find_unit_row d i = List.find (\<lambda>u. u_id u = i) (db_units d)"

definition find_stage_row :: "db \<Rightarrow> string \<Rightarrow> stage_row option" where
  "find_stage_row d i = List.find (\<lambda>s. sr_id s = i) (db_stages d)"

definition find_order :: "db \<Rightarrow> string \<Rightarrow> order_row option" where
  "find_order d i = List.find (\<lambda>w. wo_id (or_order w) = i) (db_orders d)"

definition find_wait :: "db \<Rightarrow> string \<Rightarrow> wait option" where
  "find_wait d i = List.find (\<lambda>w. wait_id w = i) (db_waits d)"

text \<open>\<open>run_output_slot\<close> by \<open>(run_unit_id, output_name, collection_key)\<close>.\<close>

definition slot_key :: "run_output_slot \<Rightarrow> string \<times> string \<times> string option" where
  "slot_key s = (slot_run_unit_id s, identity_output_name (slot_identity s), identity_collection_key (slot_identity s))"

definition find_slot :: "db \<Rightarrow> string \<times> string \<times> string option \<Rightarrow> run_output_slot option" where
  "find_slot d k = List.find (\<lambda>s. slot_key s = k) (db_slots d)"

text \<open>A stage row is v2-owned when it carries no attempt.\<close>

definition v2_stage :: "string \<Rightarrow> string \<Rightarrow> stage_row \<Rightarrow> bool" where
  "v2_stage rid key s \<longleftrightarrow> sr_run_id s = rid \<and> sr_stage_key s = key \<and> sr_attempt_root s = None"

definition unit_in_run :: "db \<Rightarrow> string \<Rightarrow> string \<Rightarrow> bool" where
  "unit_in_run d rid uid \<longleftrightarrow> (\<exists>u\<in>set (db_units d). u_id u = uid \<and> u_run_id u = rid)"

definition active_order :: "work_order_state \<Rightarrow> bool" where
  "active_order s \<longleftrightarrow> s = WAvailable \<or> s = WStarted"

definition terminal_unit :: "unit_state \<Rightarrow> bool" where
  "terminal_unit s \<longleftrightarrow> s = USatisfied \<or> s = UFailed \<or> s = UCancelled"

subsection \<open>Inserts\<close>

definition violates :: "string \<Rightarrow> string" where
  "violates c = ''duplicate key value violates unique constraint '' @ c"

text \<open>\<open>ON CONFLICT (run_id, stage_key) WHERE attempt_root_workflow_id IS NULL DO NOTHING\<close>.\<close>

definition insert_stage :: "stage_row \<Rightarrow> db \<Rightarrow> string + db" where
  "insert_stage s d =
     (if \<exists>t\<in>set (db_stages d). v2_stage (sr_run_id s) (sr_stage_key s) t then Ok d
      else if \<exists>t\<in>set (db_stages d). sr_id t = sr_id s then Err (violates ''stage_instance_pkey'')
      else if \<exists>t\<in>set (db_stages d). sr_coordinator t = sr_coordinator s
        then Err (violates ''stage_instance_coordinator_workflow_id_key'')
      else Ok (d\<lparr>db_stages := db_stages d @ [s]\<rparr>))"

definition insert_policy :: "policy_row \<Rightarrow> db \<Rightarrow> string + db" where
  "insert_policy p d =
     (if \<exists>q\<in>set (db_policies d). pl_stage_id q = pl_stage_id p then Err (violates ''run_stage_scheduling_policy_pkey'')
      else if max_parallel (pl_policy p) = 0 then Err ''run_stage_scheduling_policy_max_parallel_check''
      else Ok (d\<lparr>db_policies := db_policies d @ [p]\<rparr>))"

definition insert_unit :: "unit_row \<Rightarrow> db \<Rightarrow> string + db" where
  "insert_unit u d =
     (if \<exists>v\<in>set (db_units d). u_id v = u_id u then Err (violates ''run_unit_pkey'')
      else if \<exists>v\<in>set (db_units d). u_stage_id v = u_stage_id u \<and> u_unit_id v = u_unit_id u
        then Err (violates ''run_unit_stage_instance_id_unit_id_key'')
      else Ok (d\<lparr>db_units := db_units d @ [u]\<rparr>))"

definition insert_slot :: "run_output_slot \<Rightarrow> db \<Rightarrow> string + db" where
  "insert_slot s d =
     (if identity_collection_key (slot_identity s) = Some [] then Err ''run_output_slot_collection_key_nonempty''
      else if find_slot d (slot_key s) \<noteq> None then Err (violates ''run_output_slot_identity'')
      else Ok (d\<lparr>db_slots := db_slots d @ [s]\<rparr>))"

definition insert_order :: "order_row \<Rightarrow> db \<Rightarrow> string + db" where
  "insert_order w d =
     (if find_order d (wo_id (or_order w)) \<noteq> None then Err (violates ''work_order_pkey'')
      else if \<exists>v\<in>set (db_orders d). wo_workflow_id (or_order v) = wo_workflow_id (or_order w)
        then Err (violates ''work_order_workflow_id_key'')
      else if \<exists>v\<in>set (db_orders d). wo_run_unit_id (or_order v) = wo_run_unit_id (or_order w) \<and>
                wo_request_idempotency_key (or_order v) = wo_request_idempotency_key (or_order w)
        then Err (violates ''work_order_run_unit_id_request_idempotency_key_key'')
      else Ok (d\<lparr>db_orders := db_orders d @ [w]\<rparr>))"

text \<open>\<open>ON CONFLICT DO NOTHING\<close>; the unit's row is a foreign key, a self edge is refused.\<close>

definition insert_dependency :: "dependency_row \<Rightarrow> db \<Rightarrow> string + db" where
  "insert_dependency e d =
     (if dp_unit_id e = dp_depends_on e then Err ''run_unit_dependency_check''
      else if e \<in> set (db_dependencies d) then Ok d
      else if \<not> (\<exists>u\<in>set (db_units d). u_stage_id u = dp_stage_id e \<and> u_unit_id u = dp_unit_id e)
        then Err ''run_unit_dependency_stage_instance_id_unit_id_fkey''
      else Ok (d\<lparr>db_dependencies := db_dependencies d @ [e]\<rparr>))"

definition gate_step_of :: "wait_closes_on \<Rightarrow> string" where
  "gate_step_of c = (case c of ClosesGate step _ \<Rightarrow> step | _ \<Rightarrow> [])"

definition wait_is_open :: "wait \<Rightarrow> bool" where
  "wait_is_open w \<longleftrightarrow> wait_status w = WaitOpen"

definition wait_slot_key :: "wait \<Rightarrow> (string \<times> string \<times> string option) option" where
  "wait_slot_key w =
     (case (wait_run_unit_id w, wait_output_name w) of
        (Some u, Some n) \<Rightarrow> Some (u, n, wait_collection_key w)
      | _ \<Rightarrow> None)"

definition insert_wait :: "wait \<Rightarrow> db \<Rightarrow> string + db" where
  "insert_wait w d =
     (if find_wait d (wait_id w) \<noteq> None then Err (violates ''wait_pkey'')
      else if closes_on_kind (wait_closes_on w) = WaitGate \<and> gate_step_of (wait_closes_on w) = [] then Err ''wait_check''
      else if \<exists>v\<in>set (db_waits d). wait_command_workflow_id v = wait_command_workflow_id w \<and>
                closes_on_kind (wait_closes_on v) = closes_on_kind (wait_closes_on w)
        then Err (violates ''wait_command_identity'')
      else if \<exists>v\<in>set (db_waits d). wait_is_open v \<and> wait_artifact_revision_id v = wait_artifact_revision_id w \<and>
                closes_on_kind (wait_closes_on v) = closes_on_kind (wait_closes_on w) \<and>
                gate_step_of (wait_closes_on v) = gate_step_of (wait_closes_on w)
        then Err (violates ''wait_open_identity'')
      else if \<exists>v\<in>set (db_waits d). wait_is_open v \<and> wait_slot_key v \<noteq> None \<and> wait_slot_key v = wait_slot_key w
        then Err (violates ''wait_v2_open_slot'')
      else Ok (d\<lparr>db_waits := db_waits d @ [w]\<rparr>))"

definition artifact_coordinate :: "artifact_row \<Rightarrow> string \<times> string \<times> string \<times> string \<times> string option" where
  "artifact_coordinate a = (a_stage_id a, a_execution_id a, a_unit_id a, a_output_name a, a_collection_key a)"

definition insert_artifact :: "artifact_row \<Rightarrow> db \<Rightarrow> string + db" where
  "insert_artifact a d =
     (if \<exists>b\<in>set (db_artifacts d). a_id b = a_id a then Err (violates ''artifact_pkey'')
      else if a_collection_key a = Some [] then Err ''artifact_collection_key_nonempty''
      else if \<exists>b\<in>set (db_artifacts d). artifact_coordinate b = artifact_coordinate a \<and> a_version b = a_version a
        then Err (violates ''artifact_resource_version'')
      else if \<exists>b\<in>set (db_artifacts d). a_work_order_id b \<noteq> None \<and> a_work_order_id b = a_work_order_id a \<and>
                a_output_name b = a_output_name a \<and> a_collection_key b = a_collection_key a \<and>
                a_idempotency_key b = a_idempotency_key a
        then Err (violates ''artifact_work_order_effect'')
      else Ok (d\<lparr>db_artifacts := db_artifacts d @ [a]\<rparr>))"

definition insert_emission :: "emission_row \<Rightarrow> db \<Rightarrow> string + db" where
  "insert_emission e d =
     (if \<exists>f\<in>set (db_emissions d). em_stage_id f = em_stage_id e \<and> em_execution_id f = em_execution_id e \<and>
            em_unit_id f = em_unit_id e \<and> em_output_name f = em_output_name e \<and>
            em_collection_key f = em_collection_key e \<and> em_idempotency_key f = em_idempotency_key e
      then Err (violates ''artifact_emission_identity'')
      else Ok (d\<lparr>db_emissions := db_emissions d @ [e]\<rparr>))"

definition insert_admission :: "admission_row \<Rightarrow> db \<Rightarrow> string + db" where
  "insert_admission c d =
     (if \<exists>e\<in>set (db_admissions d). ad_stage_id e = ad_stage_id c \<and> ad_idempotency_key e = ad_idempotency_key c
      then Err (violates ''run_admission_command_pkey'')
      else Ok (d\<lparr>db_admissions := db_admissions d @ [c]\<rparr>))"

section \<open>Audit rows and the record version\<close>

definition insertTransition :: "pending_transition \<Rightarrow> nat \<Rightarrow> nat \<Rightarrow> db \<Rightarrow> string + db" where
  "insertTransition p prior resulting d =
     (if find_run d (tr_run_id p) = None then Err ''run_transition_run_id_fkey''
      else Ok (d\<lparr>db_transitions := db_transitions d @ [pending_transition.extend p \<lparr>tr_prior = prior, tr_resulting = resulting\<rparr>]\<rparr>))"

record tx_effect =
  fx_applied :: bool
  fx_pending :: "pending_transition list"

definition NO_EFFECT :: tx_effect where
  "NO_EFFECT = \<lparr>fx_applied = False, fx_pending = []\<rparr>"

definition mergeEffects :: "tx_effect list \<Rightarrow> tx_effect" where
  "mergeEffects es = \<lparr>fx_applied = (\<exists>e\<in>set es. fx_applied e), fx_pending = concat (map fx_pending es)\<rparr>"

definition currentVersion :: "db \<Rightarrow> string \<Rightarrow> nat" where
  "currentVersion d i = (case find_run d i of None \<Rightarrow> 0 | Some r \<Rightarrow> run_record_version r)"

text \<open>\<open>UPDATE workflow_run SET record_version = record_version + 1\<close>.\<close>

definition bump_version :: "string \<Rightarrow> db \<Rightarrow> db" where
  "bump_version i = update_runs (\<lambda>r. run_id r = i) (\<lambda>r. r\<lparr>run_record_version := run_record_version r + 1\<rparr>)"

definition set_version :: "string \<Rightarrow> nat \<Rightarrow> db \<Rightarrow> db" where
  "set_version i v = update_runs (\<lambda>r. run_id r = i) (\<lambda>r. r\<lparr>run_record_version := v\<rparr>)"

definition commit_batch :: "string \<Rightarrow> tx_effect \<Rightarrow> nat tx" where
  "commit_batch i effect d =
     (if \<not> fx_applied effect then Ok (currentVersion d i, d)
      else let d' = bump_version i d; resulting = currentVersion d' i
           in bind_result (fold_result (\<lambda>p. insertTransition p (resulting - 1) resulting) (fx_pending effect) d')
                (\<lambda>d''. Ok (resulting, d'')))"

text \<open>The one-row tail the publication and wait transactions share: bump, then one audit row.\<close>

definition record_transition :: "pending_transition \<Rightarrow> nat tx" where
  "record_transition p d =
     (let d' = bump_version (tr_run_id p) d; resulting = currentVersion d' (tr_run_id p)
      in bind_result (insertTransition p (resulting - 1) resulting d') (\<lambda>d''. Ok (resulting, d'')))"

definition run_transition :: "string \<Rightarrow> transition_operation \<Rightarrow> string \<Rightarrow> json \<Rightarrow> string \<Rightarrow> pending_transition" where
  "run_transition i operation actor detail at =
     \<lparr>tr_run_id = i, tr_unit_id = None, tr_order_id = None, tr_wait_id = None, tr_output_name = None,
      tr_collection_key = None, tr_operation = operation, tr_actor = actor, tr_detail = detail, tr_created_at = at\<rparr>"

definition load_work_order_capability_seed :: "db \<Rightarrow> string + string" where
  "load_work_order_capability_seed d =
     (case db_seed d of
        Some (c # cs) \<Rightarrow> Ok (c # cs)
      | _ \<Rightarrow> Err ''work-order capability seed is unavailable'')"

end
