(* ===== verification/Materialize.thy ===== *)
theory Materialize
  imports Store
begin

text \<open>
  Materialization, input revision, operator retry and admission:
  \<open>persist_materialized_stage\<close>, \<open>revise_unit_input\<close>, \<open>retry_unit\<close>, \<open>admit_unit\<close> and
  \<open>initialize_straight_through\<close> of \<open>storage/postgres-run-record.ts\<close>.

  A stored stage contract is compared as the value that was stored; JSONB equality ignores
  only the order of object members.
\<close>

section \<open>Checks on an incoming stage\<close>

record persist_stage =
  ps_run_id :: string
  ps_stage_instance_id :: string
  ps_stage_key :: string
  ps_stage_type :: string
  ps_stage_contract :: compiled_stage
  ps_units :: "materialized_unit list"
  ps_policy :: stage_policy
  ps_close :: bool
  ps_materialized_at :: string

definition stageMaterializationFingerprint :: "runtime_env \<Rightarrow> persist_stage \<Rightarrow> string" where
  "stageMaterializationFingerprint env inp =
     sha256_hex env (json_stringify (JObj
       [(''stage_instance_id'', JStr (ps_stage_instance_id inp)), (''stage_key'', JStr (ps_stage_key inp)),
        (''stage_type'', JStr (ps_stage_type inp)), (''stage_contract'', stage_contract_json (ps_stage_contract inp)),
        (''policy'', policy_json (ps_policy inp))]))"

definition unitMaterializationFingerprint :: "runtime_env \<Rightarrow> materialized_unit \<Rightarrow> string" where
  "unitMaterializationFingerprint env u = sha256_hex env (json_stringify (materialized_unit_json u))"

text \<open>
  \<open>assertClosedGraph\<close>: every dependency is known once the first loop has passed, so the inner
  depth-first search is the one of \<open>findCycle\<close>, from the roots in their stored order.
\<close>

definition unknown_edge :: "cycle_node list \<Rightarrow> (string \<times> string) option" where
  "unknown_edge units =
     List.find (\<lambda>(i, dep). dep \<notin> set (map fst units)) (concat (map (\<lambda>(i, deps). map (Pair i) deps) units))"

definition assertClosedGraph :: "string \<Rightarrow> cycle_node list \<Rightarrow> string + unit" where
  "assertClosedGraph stageKey units =
     (case unknown_edge units of
        Some (i, dep) \<Rightarrow> Err (''materialized unit '' @ sq i @ '' has unknown dependency '' @ sq dep)
      | None \<Rightarrow>
          (case visit_deps units [] [] (dedup (map fst units)) of
             Inl _ \<Rightarrow> Err (''materialized stage '' @ sq stageKey @ '' contains a dependency cycle'')
           | Inr _ \<Rightarrow> Ok ()))"

definition assertIncomingUnit :: "persist_stage \<Rightarrow> materialized_unit \<Rightarrow> string + unit" where
  "assertIncomingUnit inp u =
     (let request = mw_request (mu_initial_work_order u)
      in if mu_unit_id u \<in> set (mu_depends_on u) then Err (''materialized unit '' @ sq (mu_unit_id u) @ '' depends on itself'')
         else if \<not> distinct (mu_depends_on u) then Err (''materialized unit '' @ sq (mu_unit_id u) @ '' repeats a dependency'')
         else if er_execution_id request \<noteq> mw_id (mu_initial_work_order u) \<or>
                 er_stage_instance_id request \<noteq> ps_stage_instance_id inp \<or> er_unit_id request \<noteq> mu_unit_id u
           then Err (''materialized unit '' @ sq (mu_unit_id u) @ '' has a mismatched execution request identity'')
         else if json_stringify (envelopes_json (er_inputs request)) \<noteq> json_stringify (envelopes_json (mu_input_snapshot u))
           then Err (''materialized unit '' @ sq (mu_unit_id u) @ '' has a mismatched execution input snapshot'')
         else Ok ())"

definition assertIncomingUnits :: "persist_stage \<Rightarrow> string + unit" where
  "assertIncomingUnits inp =
     (if \<not> distinct (map mu_unit_id (ps_units inp)) then Err (''materialized stage '' @ sq (ps_stage_key inp) @ '' repeats a unit id'')
      else bind_result (map_result (assertIncomingUnit inp) (ps_units inp)) (\<lambda>_. Ok ()))"

section \<open>Persisting a stage\<close>

text \<open>The stage's row joined with its policy.\<close>

definition stored_stage :: "db \<Rightarrow> string \<Rightarrow> string \<Rightarrow> (stage_row \<times> policy_row) option" where
  "stored_stage d rid key =
     (case List.find (v2_stage rid key) (db_stages d) of
        None \<Rightarrow> None
      | Some s \<Rightarrow> (case List.find (\<lambda>p. pl_stage_id p = sr_id s) (db_policies d) of None \<Rightarrow> None | Some p \<Rightarrow> Some (s, p)))"

definition new_stage_row :: "persist_stage \<Rightarrow> stage_row" where
  "new_stage_row inp =
     \<lparr>sr_id = ps_stage_instance_id inp, sr_run_id = ps_run_id inp, sr_stage_key = ps_stage_key inp,
      sr_stage_type = ps_stage_type inp, sr_contract = CompiledContract (ps_stage_contract inp), sr_attempt_root = None,
      sr_coordinator = ''v2-stage:'' @ ps_stage_instance_id inp, sr_state = RunActive, sr_outcome = None,
      sr_closed = False, sr_started_at = ps_materialized_at inp, sr_ended_at = None\<rparr>"

definition stage_matches :: "persist_stage \<Rightarrow> stage_row \<Rightarrow> bool" where
  "stage_matches inp s \<longleftrightarrow>
     sr_id s = ps_stage_instance_id inp \<and> sr_stage_type s = ps_stage_type inp \<and>
     sr_contract s = CompiledContract (ps_stage_contract inp)"

text \<open>The stage and its policy, stored or inserted now.\<close>

definition ensure_stage :: "runtime_env \<Rightarrow> persist_stage \<Rightarrow> db \<Rightarrow> string + db" where
  "ensure_stage env inp d =
     (let fingerprint = stageMaterializationFingerprint env inp; stored = stored_stage d (ps_run_id inp) (ps_stage_key inp)
      in bind_result
           (case stored of
              Some (s, p) \<Rightarrow>
                if pl_fingerprint p \<noteq> fingerprint
                then Err (''materialized stage '' @ sq (ps_stage_key inp) @ '' conflicts with its stored graph'') else Ok d
            | None \<Rightarrow> insert_stage (new_stage_row inp) d) (\<lambda>d1.
         case List.find (v2_stage (ps_run_id inp) (ps_stage_key inp)) (db_stages d1) of
           None \<Rightarrow> Err (''materialized stage '' @ sq (ps_stage_key inp) @ '' conflicts with its stored identity'')
         | Some s \<Rightarrow>
             if \<not> stage_matches inp s
             then Err (''materialized stage '' @ sq (ps_stage_key inp) @ '' conflicts with its stored identity'')
             else if stored = None
             then insert_policy \<lparr>pl_stage_id = ps_stage_instance_id inp, pl_policy = ps_policy inp, pl_fingerprint = fingerprint\<rparr> d1
             else Ok d1))"

definition new_unit_row :: "runtime_env \<Rightarrow> persist_stage \<Rightarrow> materialized_unit \<Rightarrow> unit_row" where
  "new_unit_row env inp u =
     (let admitted = \<not> manual_admission (ps_policy inp)
      in \<lparr>u_id = mu_id u, u_run_id = ps_run_id inp, u_stage_id = ps_stage_instance_id inp, u_unit_id = mu_unit_id u,
          u_parameters = mu_parameters u, u_input_snapshot = mu_input_snapshot u, u_input_fingerprint = mu_input_fingerprint u,
          u_state = UReady, u_admitted = admitted, u_admitted_at = (if admitted then Some (ps_materialized_at inp) else None),
          u_outcome = None, u_fingerprint = Some (unitMaterializationFingerprint env u),
          u_created_at = ps_materialized_at inp, u_ended_at = None\<rparr>)"

definition new_slot :: "string \<Rightarrow> materialized_output \<Rightarrow> run_output_slot" where
  "new_slot uid out =
     \<lparr>slot_run_unit_id = uid, slot_identity = mo_identity out, slot_artifact_type = mo_artifact_type out,
      slot_required = mo_required out, slot_release = mo_release out, slot_state = SlotEmpty, slot_updated_by = None,
      slot_version = 0\<rparr>"

definition new_order ::
    "string \<Rightarrow> work_order_reason \<Rightarrow> artifact_envelope list \<Rightarrow> string \<Rightarrow> string \<Rightarrow> string \<Rightarrow> materialized_work_order \<Rightarrow> order_row" where
  "new_order uid reason snapshot fingerprint key at w =
     \<lparr>or_order = \<lparr>wo_id = mw_id w, wo_run_unit_id = uid, wo_reason = reason, wo_input_snapshot = snapshot,
        wo_input_fingerprint = fingerprint, wo_state = WAvailable, wo_workflow_id = mw_workflow_id w,
        wo_request_idempotency_key = key, wo_created_at = at, wo_completed_at = None\<rparr>,
      or_capability_hash = mw_capability_hash w, or_request = Some (mw_request w)\<rparr>"

text \<open>One turn of the unit loop; the flag is \<open>changed\<close>.\<close>

definition persist_unit :: "runtime_env \<Rightarrow> persist_stage \<Rightarrow> materialized_unit \<Rightarrow> bool \<times> db \<Rightarrow> string + bool \<times> db" where
  "persist_unit env inp u st =
     (case st of (changed, d) \<Rightarrow>
        (case List.find (\<lambda>v. u_stage_id v = ps_stage_instance_id inp \<and> u_unit_id v = mu_unit_id u) (db_units d) of
           Some v \<Rightarrow>
             if u_fingerprint v \<noteq> Some (unitMaterializationFingerprint env u)
             then Err (''materialized unit '' @ sq (mu_unit_id u) @ '' conflicts with its stored graph'')
             else Ok (changed, d)
         | None \<Rightarrow>
             bind_result (insert_unit (new_unit_row env inp u) d) (\<lambda>d1.
             bind_result (fold_result (\<lambda>out. insert_slot (new_slot (mu_id u) out)) (mu_outputs u) d1) (\<lambda>d2.
             bind_result (insert_order (new_order (mu_id u) ReasonInitial (mu_input_snapshot u) (mu_input_fingerprint u)
               ''initial'' (ps_materialized_at inp) (mu_initial_work_order u)) d2) (\<lambda>d3.
             Ok (True, d3))))))"

definition unit_dependencies :: "persist_stage \<Rightarrow> dependency_row list" where
  "unit_dependencies inp =
     concat (map (\<lambda>u. map (\<lambda>dep. \<lparr>dp_stage_id = ps_stage_instance_id inp, dp_unit_id = mu_unit_id u, dp_depends_on = dep\<rparr>)
       (mu_depends_on u)) (ps_units inp))"

text \<open>The stored graph of a stage, units and edges in collation order.\<close>

definition text_key :: "runtime_env \<Rightarrow> string \<Rightarrow> string \<times> string" where
  "text_key env s = (collate env s, s)"

definition depends_on_rows :: "runtime_env \<Rightarrow> db \<Rightarrow> string \<Rightarrow> string \<Rightarrow> string list" where
  "depends_on_rows env d sid uid =
     sort_key (text_key env) (map dp_depends_on (filter (\<lambda>e. dp_stage_id e = sid \<and> dp_unit_id e = uid) (db_dependencies d)))"

definition stored_graph :: "runtime_env \<Rightarrow> db \<Rightarrow> string \<Rightarrow> cycle_node list" where
  "stored_graph env d sid =
     map (\<lambda>u. (u_unit_id u, depends_on_rows env d sid (u_unit_id u)))
       (sort_key (\<lambda>u. text_key env (u_unit_id u)) (filter (\<lambda>u. u_stage_id u = sid) (db_units d)))"

definition close_stage :: "runtime_env \<Rightarrow> persist_stage \<Rightarrow> db \<Rightarrow> string + db" where
  "close_stage env inp d =
     bind_result (assertClosedGraph (ps_stage_key inp) (stored_graph env d (ps_stage_instance_id inp))) (\<lambda>_.
       Ok (update_stages (\<lambda>s. sr_id s = ps_stage_instance_id inp) (\<lambda>s. s\<lparr>sr_closed := True\<rparr>) d))"

definition materialized_transitions :: "persist_stage \<Rightarrow> bool \<Rightarrow> pending_transition list" where
  "materialized_transitions inp didClose =
     run_transition (ps_run_id inp) StageMaterialized ''compiler''
       (JObj [(''stage_instance_id'', JStr (ps_stage_instance_id inp)), (''unit_count'', num_json (length (ps_units inp))),
              (''materialization_closed'', JBool (ps_close inp))]) (ps_materialized_at inp) #
     (if didClose
      then [run_transition (ps_run_id inp) MaterializationClosed ''compiler''
              (JObj [(''stage_instance_id'', JStr (ps_stage_instance_id inp))]) (ps_materialized_at inp)]
      else [])"

definition persist_materialized_stage_tx :: "runtime_env \<Rightarrow> persist_stage \<Rightarrow> tx_effect tx" where
  "persist_materialized_stage_tx env inp d =
     (if find_run d (ps_run_id inp) = None then Err (''workflow run '' @ sq (ps_run_id inp) @ '' was not found'')
      else let stored = stored_stage d (ps_run_id inp) (ps_stage_key inp);
               closed = (case stored of None \<Rightarrow> False | Some (s, _) \<Rightarrow> sr_closed s)
      in bind_result (ensure_stage env inp d) (\<lambda>d1.
         if closed \<and> ps_units inp \<noteq> [] \<and>
            length (filter (\<lambda>v. u_stage_id v = ps_stage_instance_id inp \<and> u_unit_id v \<in> set (map mu_unit_id (ps_units inp)))
              (db_units d1)) \<noteq> length (ps_units inp)
         then Err (''materialized stage '' @ sq (ps_stage_key inp) @ '' is already closed'')
         else
         bind_result (fold_result (persist_unit env inp) (ps_units inp) (stored = None, d1)) (\<lambda>(changed, d2).
         bind_result (fold_result insert_dependency (unit_dependencies inp) d2) (\<lambda>d3.
         let closing = (ps_close inp \<and> \<not> closed)
         in bind_result (if closing then close_stage env inp d3 else Ok d3) (\<lambda>d4.
         if \<not> (changed \<or> closing) then Ok (NO_EFFECT, d4)
         else Ok (\<lparr>fx_applied = True, fx_pending = materialized_transitions inp closing\<rparr>, d4))))))"

definition persist_commit_tx :: "runtime_env \<Rightarrow> persist_stage \<Rightarrow> unit tx" where
  "persist_commit_tx env inp d =
     bind_result (persist_materialized_stage_tx env inp d) (\<lambda>(effect, d').
     bind_result (commit_batch (ps_run_id inp) effect d') (\<lambda>(_, d''). Ok ((), d'')))"

definition persist_materialized_stage :: "runtime_env \<Rightarrow> persist_stage \<Rightarrow> db \<Rightarrow> (string + unit) \<times> db" where
  "persist_materialized_stage env inp d =
     (case assertIncomingUnits inp of
        Inl e \<Rightarrow> (Inl e, d)
      | Inr _ \<Rightarrow> transaction (persist_commit_tx env inp) d)"

section \<open>Input revision\<close>

record revise_input =
  rv_run_unit_id :: string
  rv_input_snapshot :: "artifact_envelope list"
  rv_input_fingerprint :: string
  rv_revised_at :: string
  rv_actor :: string
  rv_replacement :: materialized_work_order

datatype revise_tx_result =
    ReviseTxNotFound string
  | ReviseTxUnchanged string tx_effect
  | ReviseTxRevised string tx_effect

datatype revise_result =
    Revised string nat
  | ReviseUnchanged string nat
  | ReviseUnitNotFound string

definition abandon_active :: "string \<Rightarrow> string \<Rightarrow> db \<Rightarrow> db" where
  "abandon_active uid at =
     update_orders (\<lambda>w. wo_run_unit_id (or_order w) = uid \<and> active_order (wo_state (or_order w)))
       (\<lambda>w. w\<lparr>or_order := (or_order w)\<lparr>wo_state := WAbandoned, wo_completed_at := Some at\<rparr>\<rparr>)"

text \<open>\<open>UPDATE run_output_slot SET state='invalidated'\<close> keeps the artifact column.\<close>

fun slot_artifact :: "slot_state \<Rightarrow> string option" where
  "slot_artifact SlotEmpty = None"
| "slot_artifact (SlotPending a _ _) = Some a"
| "slot_artifact (SlotReleased a _) = Some a"
| "slot_artifact (SlotInvalidated a _ _) = a"

definition invalidate_slot :: "invalidation_reason \<Rightarrow> string \<Rightarrow> run_output_slot \<Rightarrow> run_output_slot" where
  "invalidate_slot reason at s =
     s\<lparr>slot_state := SlotInvalidated (slot_artifact (slot_state s)) reason at, slot_version := slot_version s + 1\<rparr>"

definition close_wait :: "wait_outcome \<Rightarrow> string \<Rightarrow> wait \<Rightarrow> wait" where
  "close_wait outcome at w = w\<lparr>wait_status := WaitClosed outcome at\<rparr>"

text \<open>The updates of a revision: unit, orders, waits and slots.\<close>

definition revise_rows :: "revise_input \<Rightarrow> db \<Rightarrow> db" where
  "revise_rows inp d =
     (let i = rv_run_unit_id inp;
          d1 = update_units (\<lambda>u. u_id u = i) (\<lambda>u. u\<lparr>u_input_snapshot := rv_input_snapshot inp,
                 u_input_fingerprint := rv_input_fingerprint inp, u_state := UReady, u_outcome := None, u_ended_at := None\<rparr>) d;
          d2 = abandon_active i (rv_revised_at inp) d1;
          d3 = update_waits (\<lambda>w. wait_run_unit_id w = Some i \<and> wait_is_open w) (close_wait WaitWithdrawn (rv_revised_at inp)) d2
      in update_slots (\<lambda>s. slot_run_unit_id s = i)
           (\<lambda>s. (invalidate_slot (InputRevised (rv_input_fingerprint inp)) (rv_revised_at inp) s)\<lparr>slot_updated_by := None\<rparr>) d3)"

definition reopen_stage :: "string \<Rightarrow> db \<Rightarrow> db" where
  "reopen_stage sid =
     update_stages (\<lambda>s. sr_id s = sid \<and> sr_state s = RunSucceeded)
       (\<lambda>s. s\<lparr>sr_state := RunActive, sr_outcome := None, sr_ended_at := None\<rparr>)"

definition revise_unit_input_tx :: "revise_input \<Rightarrow> revise_tx_result tx" where
  "revise_unit_input_tx inp d =
     (case find_unit_row d (rv_run_unit_id inp) of
        None \<Rightarrow> Ok (ReviseTxNotFound (''run unit '' @ sq (rv_run_unit_id inp) @ '' was not found''), d)
      | Some row \<Rightarrow>
          if u_input_fingerprint row = rv_input_fingerprint inp then Ok (ReviseTxUnchanged (u_run_id row) NO_EFFECT, d)
          else let replacement = rv_replacement inp; request = mw_request replacement
          in if er_execution_id request \<noteq> mw_id replacement \<or> er_stage_instance_id request \<noteq> u_stage_id row \<or>
                er_unit_id request \<noteq> u_unit_id row \<or>
                json_stringify (envelopes_json (er_inputs request)) \<noteq> json_stringify (envelopes_json (rv_input_snapshot inp))
             then Err (''replacement work order for '' @ sq (rv_run_unit_id inp) @ '' has a mismatched execution request'')
             else bind_result (insert_order (new_order (rv_run_unit_id inp) ReasonInputRevision (rv_input_snapshot inp)
                    (rv_input_fingerprint inp) (''input_revision:'' @ rv_input_fingerprint inp) (rv_revised_at inp) replacement)
                    (revise_rows inp d)) (\<lambda>d1.
                  Ok (ReviseTxRevised (u_run_id row)
                        \<lparr>fx_applied = True,
                         fx_pending = [(run_transition (u_run_id row) InputRevisedOp (rv_actor inp)
                           (JObj [(''input_fingerprint'', JStr (rv_input_fingerprint inp))]) (rv_revised_at inp))
                             \<lparr>tr_unit_id := Some (rv_run_unit_id inp)\<rparr>]\<rparr>,
                      reopen_stage (u_stage_id row) d1)))"

definition revise_commit_tx :: "revise_input \<Rightarrow> revise_result tx" where
  "revise_commit_tx inp d = (bind_result (revise_unit_input_tx inp d) (\<lambda>(r, d1).
       case r of
         ReviseTxNotFound detail \<Rightarrow> Ok (ReviseUnitNotFound detail, d1)
       | ReviseTxUnchanged rid effect \<Rightarrow> bind_result (commit_batch rid effect d1) (\<lambda>(v, d2). Ok (ReviseUnchanged rid v, d2))
       | ReviseTxRevised rid effect \<Rightarrow> bind_result (commit_batch rid effect d1) (\<lambda>(v, d2). Ok (Revised rid v, d2))))"

definition revise_unit_input :: "revise_input \<Rightarrow> db \<Rightarrow> (string + revise_result) \<times> db" where
  "revise_unit_input inp = transaction (revise_commit_tx inp)"

section \<open>Operator retry\<close>

datatype retry_target = TargetRunUnit string | TargetStageUnit string string

record retry_request =
  rt_target :: retry_target
  rt_idempotency_key :: string
  rt_actor :: string

datatype retry_result =
    RetryCreated work_order string nat
  | RetryAlreadyCreated work_order string nat
  | RetryUnitNotFound string
  | RetryNotActive string
  | RetryWorkInProgress string
  | RetryNoMissingWork string
  | RetryActionableWait string
  | RetryNoExecutionBasis string

fun describeRetryTarget :: "retry_target \<Rightarrow> string" where
  "describeRetryTarget (TargetRunUnit i) = sq i"
| "describeRetryTarget (TargetStageUnit s u) = sq u @ '' of stage instance '' @ sq s"

fun resolveRetryTarget :: "retry_target \<Rightarrow> db \<Rightarrow> unit_row option" where
  "resolveRetryTarget (TargetRunUnit i) d = find_unit_row d i"
| "resolveRetryTarget (TargetStageUnit s u) d = List.find (\<lambda>v. u_stage_id v = s \<and> u_unit_id v = u) (db_units d)"

definition find_attachment :: "db \<Rightarrow> string \<Rightarrow> executor_attachment option" where
  "find_attachment d i = List.find (\<lambda>a. at_work_order_id a = i) (db_attachments d)"

fun health_running :: "executor_health \<Rightarrow> bool" where
  "health_running (HealthRunning _) = True"
| "health_running _ = False"

definition order_health :: "db \<Rightarrow> string \<Rightarrow> executor_health option" where
  "order_health d i = (case find_attachment d i of None \<Rightarrow> None | Some a \<Rightarrow> at_health a)"

definition active_orders :: "db \<Rightarrow> string \<Rightarrow> order_row list" where
  "active_orders d uid = filter (\<lambda>w. wo_run_unit_id (or_order w) = uid \<and> active_order (wo_state (or_order w))) (db_orders d)"

definition isRecordedMissingWork :: "db \<Rightarrow> string \<Rightarrow> bool" where
  "isRecordedMissingWork d uid \<longleftrightarrow>
     list_all (\<lambda>w. wo_state (or_order w) = WStarted \<and>
       (case order_health d (wo_id (or_order w)) of None \<Rightarrow> False | Some h \<Rightarrow> \<not> health_running h)) (active_orders d uid)"

fun is_released :: "slot_state \<Rightarrow> bool" where
  "is_released (SlotReleased _ _) = True"
| "is_released _ = False"

text \<open>\<open>ORDER BY output_name, collection_key NULLS FIRST\<close>.\<close>

definition slot_order :: "runtime_env \<Rightarrow> run_output_slot \<Rightarrow> (string \<times> string) \<times> (string \<times> string) option" where
  "slot_order env s =
     (text_key env (identity_output_name (slot_identity s)),
      map_option (text_key env) (identity_collection_key (slot_identity s)))"

definition missing_slots :: "runtime_env \<Rightarrow> db \<Rightarrow> string \<Rightarrow> missing_output_slot list" where
  "missing_slots env d uid =
     map (\<lambda>s. \<lparr>ms_output_name = identity_output_name (slot_identity s), ms_collection_key = identity_collection_key (slot_identity s)\<rparr>)
       (sort_key (slot_order env)
         (filter (\<lambda>s. slot_run_unit_id s = uid \<and> slot_required s \<and> \<not> is_released (slot_state s)) (db_slots d)))"

text \<open>\<open>ORDER BY created_at DESC, id DESC LIMIT 1\<close>.\<close>

definition execution_basis :: "db \<Rightarrow> string \<Rightarrow> execution_request option" where
  "execution_basis d uid =
     (case rev (sort_key (\<lambda>w. (wo_created_at (or_order w), wo_id (or_order w)))
        (filter (\<lambda>w. wo_run_unit_id (or_order w) = uid \<and> or_request w \<noteq> None) (db_orders d))) of
        [] \<Rightarrow> None
      | w # _ \<Rightarrow> or_request w)"

definition missing_label :: "missing_output_slot \<Rightarrow> string" where
  "missing_label m =
     (case ms_collection_key m of None \<Rightarrow> ms_output_name m | Some k \<Rightarrow> ms_output_name m @ ''['' @ k @ '']'')"

text \<open>The writes of an accepted retry: \<open>work_order_id\<close> is the fresh identifier.\<close>

definition create_retry ::
    "retry_request \<Rightarrow> string \<Rightarrow> string \<Rightarrow> unit_row \<Rightarrow> nat \<Rightarrow> missing_output_slot list \<Rightarrow> execution_request \<times> string \<Rightarrow> retry_result tx" where
  "create_retry inp retried_at workOrderId unit prior missing rebound d =
     (let i = u_id unit;
          order = new_order i ReasonOperatorRetry (u_input_snapshot unit) (u_input_fingerprint unit)
            (''operator_retry:'' @ rt_idempotency_key inp) retried_at
            \<lparr>mw_id = workOrderId, mw_workflow_id = ''v2-work:'' @ workOrderId, mw_capability_hash = snd rebound, mw_request = fst rebound\<rparr>;
          pending = (run_transition (u_run_id unit) OperatorRetryCreated (rt_actor inp)
            (JObj [(''idempotency_key'', JStr (rt_idempotency_key inp)),
                   (''missing_outputs'', JArr (map (\<lambda>m. JStr (missing_label m)) missing))]) retried_at)
              \<lparr>tr_unit_id := Some i, tr_order_id := Some workOrderId\<rparr>
      in bind_result (insert_order order (abandon_active i retried_at d)) (\<lambda>d1.
         let d2 = update_units (\<lambda>u. u_id u = i) (\<lambda>u. u\<lparr>u_state := UReady, u_outcome := None, u_ended_at := None\<rparr>) d1;
             d3 = set_version (u_run_id unit) (prior + 1) d2
         in bind_result (insertTransition pending prior (prior + 1) d3) (\<lambda>d4.
            Ok (RetryCreated (or_order order) (u_run_id unit) (prior + 1), d4))))"

definition retry_unit_tx :: "runtime_env \<Rightarrow> retry_request \<Rightarrow> string \<Rightarrow> string \<Rightarrow> retry_result tx" where
  "retry_unit_tx env inp retried_at workOrderId d =
      (case resolveRetryTarget (rt_target inp) d of
         None \<Rightarrow> Ok (RetryUnitNotFound (''run unit '' @ describeRetryTarget (rt_target inp) @ '' was not found''), d)
       | Some unit \<Rightarrow>
           (let i = u_id unit in
            case (find_stage_row d (u_stage_id unit), find_run d (u_run_id unit)) of
              (Some stage, Some run) \<Rightarrow>
                (case List.find (\<lambda>w. wo_run_unit_id (or_order w) = i \<and>
                        wo_request_idempotency_key (or_order w) = ''operator_retry:'' @ rt_idempotency_key inp) (db_orders d) of
                   Some w \<Rightarrow> Ok (RetryAlreadyCreated (or_order w) (u_run_id unit) (run_record_version run), d)
                 | None \<Rightarrow>
                     if run_state run \<noteq> RunActive \<or> sr_state stage \<noteq> RunActive \<or> u_state unit = USatisfied \<or> u_state unit = UCancelled
                     then Ok (RetryNotActive (''run unit '' @ sq i @ '' is not active retryable work''), d)
                     else if \<exists>w\<in>set (db_waits d). wait_run_unit_id w = Some i \<and> wait_is_open w
                     then Ok (RetryActionableWait (''run unit '' @ sq i @ '' has an actionable wait''), d)
                     else if \<not> isRecordedMissingWork d i
                     then Ok (RetryWorkInProgress (''run unit '' @ sq i @ '' already has runnable or running work''), d)
                     else if missing_slots env d i = []
                     then Ok (RetryNoMissingWork (''run unit '' @ sq i @ '' has no missing required output''), d)
                     else case execution_basis d i of
                       None \<Rightarrow> Ok (RetryNoExecutionBasis (''run unit '' @ sq i @ '' has no resolved execution request''), d)
                     | Some basis \<Rightarrow>
                         bind_result (load_work_order_capability_seed d) (\<lambda>seed.
                         case rebindWorkOrderPublication env basis workOrderId seed (missing_slots env d i) of
                           None \<Rightarrow> Ok (RetryNoExecutionBasis (''run unit '' @ sq i @ '' has no publication authority to rebind for a retry''), d)
                         | Some rebound \<Rightarrow>
                             create_retry inp retried_at workOrderId unit (run_record_version run) (missing_slots env d i) rebound d))
            | _ \<Rightarrow> Ok (RetryUnitNotFound (''run unit '' @ sq i @ '' was not found''), d)))"

definition retry_unit :: "runtime_env \<Rightarrow> retry_request \<Rightarrow> string \<Rightarrow> string \<Rightarrow> db \<Rightarrow> (string + retry_result) \<times> db" where
  "retry_unit env inp retried_at workOrderId = transaction (retry_unit_tx env inp retried_at workOrderId)"

section \<open>Admission\<close>

record admit_request =
  aq_stage_instance_id :: string
  aq_unit_id :: string
  aq_idempotency_key :: string

datatype admit_result =
    Admitted | AlreadyAdmitted | AdmitStageNotFound | AdmitUnitNotFound | AdmitNotManual | AdmitNotPending
  | AdmitIdempotencyConflict

definition admission_hash :: "runtime_env \<Rightarrow> string \<Rightarrow> string" where
  "admission_hash env unit_id = sha256_hex env (json_stringify (JObj [(''unit_id'', JStr unit_id)]))"

definition record_admission :: "runtime_env \<Rightarrow> admit_request \<Rightarrow> string \<Rightarrow> unit_row \<Rightarrow> workflow_run \<Rightarrow> admit_result tx" where
  "record_admission env request admitted_at unit run d =
     bind_result (insert_admission \<lparr>ad_stage_id = aq_stage_instance_id request, ad_unit_id = aq_unit_id request,
       ad_idempotency_key = aq_idempotency_key request, ad_request_hash = admission_hash env (aq_unit_id request),
       ad_applied_at = admitted_at\<rparr> d) (\<lambda>d1.
     let d2 = update_units (\<lambda>u. u_stage_id u = aq_stage_instance_id request \<and> u_unit_id u = aq_unit_id request)
                (\<lambda>u. u\<lparr>u_admitted := True, u_admitted_at := Some admitted_at\<rparr>) d1;
         prior = run_record_version run;
         d3 = set_version (run_id run) (prior + 1) d2
     in bind_result (insertTransition ((run_transition (run_id run) UnitAdmitted ''operator''
            (JObj [(''idempotency_key'', JStr (aq_idempotency_key request))]) admitted_at)\<lparr>tr_unit_id := Some (u_id unit)\<rparr>)
            prior (prior + 1) d3) (\<lambda>d4. Ok (Admitted, d4)))"

definition admit_unit_tx :: "runtime_env \<Rightarrow> admit_request \<Rightarrow> string \<Rightarrow> admit_result tx" where
  "admit_unit_tx env request admitted_at d =
      (case find_stage_row d (aq_stage_instance_id request) of
         None \<Rightarrow> Ok (AdmitStageNotFound, d)
       | Some stage \<Rightarrow>
           (case (List.find (\<lambda>p. pl_stage_id p = sr_id stage) (db_policies d), find_run d (sr_run_id stage)) of
              (Some policy, Some run) \<Rightarrow>
                if sr_state stage \<noteq> RunActive \<or> run_state run \<noteq> RunActive then Ok (AdmitNotPending, d)
                else if \<not> manual_admission (pl_policy policy) then Ok (AdmitNotManual, d)
                else (case List.find (\<lambda>u. u_stage_id u = aq_stage_instance_id request \<and> u_unit_id u = aq_unit_id request) (db_units d) of
                  None \<Rightarrow> Ok (AdmitUnitNotFound, d)
                | Some unit \<Rightarrow>
                    (case List.find (\<lambda>c. ad_stage_id c = aq_stage_instance_id request \<and> ad_idempotency_key c = aq_idempotency_key request)
                            (db_admissions d) of
                       Some c \<Rightarrow>
                         if ad_unit_id c \<noteq> aq_unit_id request \<or> ad_request_hash c \<noteq> admission_hash env (aq_unit_id request)
                         then Ok (AdmitIdempotencyConflict, d) else Ok (AlreadyAdmitted, d)
                     | None \<Rightarrow>
                         if u_admitted unit then Ok (AlreadyAdmitted, d)
                         else record_admission env request admitted_at unit run d))
            | _ \<Rightarrow> Ok (AdmitStageNotFound, d)))"

definition admit_unit :: "runtime_env \<Rightarrow> admit_request \<Rightarrow> string \<Rightarrow> db \<Rightarrow> (string + admit_result) \<times> db" where
  "admit_unit env request admitted_at = transaction (admit_unit_tx env request admitted_at)"

end
