(* ===== verification/Publish.thy ===== *)
theory Publish
  imports Materialize
begin

text \<open>
  Publication into output slots and the decisions that close their waits:
  \<open>publish_artifact\<close>, \<open>close_output_wait\<close>, \<open>decide_gate_wait\<close> and \<open>complete_handoff_artifact\<close> of
  \<open>storage/postgres-run-record.ts\<close>.
\<close>

section \<open>Publication\<close>

definition v2WaitCommandAddress :: "string \<Rightarrow> string" where
  "v2WaitCommandAddress waitId = ''v2-wait:'' @ waitId"

definition request_slot :: "publish_request \<Rightarrow> unit_row \<Rightarrow> string \<times> string \<times> string option" where
  "request_slot request unit = (u_id unit, pr_output_name request, pr_collection_key request)"

definition published_artifact :: "publish_request \<Rightarrow> order_row \<Rightarrow> unit_row \<Rightarrow> run_output_slot \<Rightarrow> artifact_row" where
  "published_artifact request work unit slot =
     (let artifactUnitId = (case pr_collection_key request of Some k \<Rightarrow> k | None \<Rightarrow> u_unit_id unit)
      in \<lparr>a_id = pr_artifact_id request, a_chain_id = pr_artifact_id request, a_run_id = u_run_id unit,
          a_stage_id = u_stage_id unit, a_execution_id = pr_work_order_id request, a_unit_id = artifactUnitId,
          a_output_name = pr_output_name request, a_collection_key = pr_collection_key request,
          a_artifact_type = slot_artifact_type slot, a_body = pr_body request, a_label = artifactUnitId, a_version = 1,
          a_idempotency_key = pr_idempotency_key request, a_payload_hash = pr_payload_hash request,
          a_created_at = pr_published_at request,
          a_lifecycle = (if slot_release slot = Immediate then LifeReleased (pr_published_at request) else LifeCurrent),
          a_lifecycle_updated_at = pr_published_at request,
          a_attempt_workflow_id = wo_workflow_id (or_order work), a_work_order_id = Some (pr_work_order_id request)\<rparr>)"

definition published_emission :: "publish_request \<Rightarrow> artifact_row \<Rightarrow> emission_row" where
  "published_emission request a =
     \<lparr>em_stage_id = a_stage_id a, em_execution_id = a_execution_id a, em_unit_id = a_unit_id a,
      em_output_name = a_output_name a, em_collection_key = a_collection_key a,
      em_idempotency_key = pr_idempotency_key request, em_payload_hash = pr_payload_hash request,
      em_artifact_id = a_id a, em_created_at = pr_published_at request\<rparr>"

fun replaced_artifact :: "slot_state \<Rightarrow> string option" where
  "replaced_artifact (SlotInvalidated a _ _) = a"
| "replaced_artifact _ = None"

definition withdraw_replaced :: "publish_request \<Rightarrow> string option \<Rightarrow> db \<Rightarrow> db" where
  "withdraw_replaced request replaced d =
     (case replaced of
        None \<Rightarrow> d
      | Some old \<Rightarrow>
          update_artifacts (\<lambda>a. a_id a = old \<and> a_lifecycle a = LifeCurrent)
            (\<lambda>a. a\<lparr>a_lifecycle := LifeWithdrawn (''work_order:'' @ pr_work_order_id request) ''replaced'' (pr_published_at request),
                   a_lifecycle_updated_at := pr_published_at request\<rparr>) d)"

definition publication_detail :: "publish_request \<Rightarrow> string option \<Rightarrow> (string \<times> json) list" where
  "publication_detail request replaced =
     (''artifact_id'', JStr (pr_artifact_id request)) # opt_member ''replaced_artifact_id'' JStr replaced"

definition set_slot :: "string \<times> string \<times> string option \<Rightarrow> slot_state \<Rightarrow> string \<Rightarrow> db \<Rightarrow> db" where
  "set_slot k st work_order_id =
     update_slots (\<lambda>s. slot_key s = k)
       (\<lambda>s. s\<lparr>slot_state := st, slot_updated_by := Some work_order_id, slot_version := slot_version s + 1\<rparr>)"

text \<open>What the opened wait closes on: the first gate step, or the external completion.\<close>

definition closes_on_of :: "publish_request \<Rightarrow> output_release \<Rightarrow> wait_closes_on" where
  "closes_on_of request release =
     (case release of
        Gate steps _ _ \<Rightarrow>
          (case steps of
             [] \<Rightarrow> ClosesGate ''review'' []
           | step # _ \<Rightarrow> ClosesGate (cg_type step) (map ga_name (cg_actions step)))
      | Handoff _ kind \<Rightarrow> ClosesHandoffExternal kind (pr_artifact_id request)
      | Immediate \<Rightarrow> ClosesHandoffExternal [] (pr_artifact_id request))"

definition opened_wait :: "publish_request \<Rightarrow> order_row \<Rightarrow> unit_row \<Rightarrow> run_output_slot \<Rightarrow> string \<Rightarrow> wait" where
  "opened_wait request work unit slot waitId =
     \<lparr>wait_id = waitId, wait_stage_instance_id = u_stage_id unit, wait_unit_id = u_unit_id unit,
      wait_artifact_revision_id = pr_artifact_id request, wait_closes_on = closes_on_of request (slot_release slot),
      wait_status = WaitOpen, wait_run_unit_id = Some (u_id unit), wait_output_name = Some (pr_output_name request),
      wait_collection_key = pr_collection_key request, wait_execution_workflow_id = wo_workflow_id (or_order work),
      wait_command_workflow_id = v2WaitCommandAddress waitId, wait_opened_at = pr_published_at request\<rparr>"

definition publication_transition ::
    "publish_request \<Rightarrow> unit_row \<Rightarrow> transition_operation \<Rightarrow> string option \<Rightarrow> (string \<times> json) list \<Rightarrow> pending_transition" where
  "publication_transition request unit operation waitId detail =
     \<lparr>tr_run_id = u_run_id unit, tr_unit_id = Some (u_id unit), tr_order_id = Some (pr_work_order_id request),
      tr_wait_id = waitId, tr_output_name = Some (pr_output_name request), tr_collection_key = pr_collection_key request,
      tr_operation = operation, tr_actor = ''work_order:'' @ pr_work_order_id request, tr_detail = JObj detail,
      tr_created_at = pr_published_at request\<rparr>"

text \<open>The writes of an accepted publication; \<open>waitId\<close> is the fresh identifier of the wait.\<close>

definition release_now ::
    "publish_request \<Rightarrow> unit_row \<Rightarrow> string option \<Rightarrow> publish_result tx" where
  "release_now request unit replaced d =
     (let d1 = set_slot (request_slot request unit) (SlotReleased (pr_artifact_id request) (pr_published_at request)) (pr_work_order_id request) d
      in bind_result (record_transition (publication_transition request unit SlotReleasedOp None (publication_detail request replaced)) d1) (\<lambda>(v, d2).
           Ok (Published (pr_artifact_id request) (u_run_id unit) v, d2)))"

definition park ::
    "publish_request \<Rightarrow> order_row \<Rightarrow> unit_row \<Rightarrow> run_output_slot \<Rightarrow> string option \<Rightarrow> string \<Rightarrow> publish_result tx" where
  "park request work unit slot replaced waitId d =
     bind_result (insert_wait (opened_wait request work unit slot waitId) d) (\<lambda>d1.
     let d2 = set_slot (request_slot request unit) (SlotPending (pr_artifact_id request) waitId (pr_published_at request)) (pr_work_order_id request) d1
     in bind_result (record_transition (publication_transition request unit SlotPendingOp (Some waitId)
            (publication_detail request replaced @ [(''release_kind'', JStr (release_kind (slot_release slot)))])) d2) (\<lambda>(v, d3).
          Ok (PublishPending (pr_artifact_id request) waitId (u_run_id unit) v, d3)))"

definition accept_publication ::
    "publish_request \<Rightarrow> order_row \<Rightarrow> unit_row \<Rightarrow> run_output_slot \<Rightarrow> string \<Rightarrow> publish_result tx" where
  "accept_publication request work unit slot waitId d =
     (let a = published_artifact request work unit slot; replaced = replaced_artifact (slot_state slot)
      in bind_result (insert_artifact a d) (\<lambda>d1.
         bind_result (insert_emission (published_emission request a) d1) (\<lambda>d2.
         let d3 = withdraw_replaced request replaced d2
         in if slot_release slot = Immediate then release_now request unit replaced d3
            else park request work unit slot replaced waitId d3)))"

definition order_state_text :: "work_order_state \<Rightarrow> string" where
  "order_state_text s =
     (case s of WAvailable \<Rightarrow> ''available'' | WStarted \<Rightarrow> ''started'' | WCompleted \<Rightarrow> ''completed'' | WAbandoned \<Rightarrow> ''abandoned'')"

text \<open>The typed refusals, after replay detection, in the order the code tests them.\<close>

definition publication_refusal :: "publish_request \<Rightarrow> order_row \<Rightarrow> run_output_slot \<Rightarrow> publish_result option" where
  "publication_refusal request work slot =
     (let state = wo_state (or_order work); work_id = sq (pr_work_order_id request)
      in if state = WAbandoned then Some (WorkAbandonedResult (''work order '' @ work_id @ '' is abandoned''))
         else case slot_state slot of
           SlotInvalidated _ _ _ \<Rightarrow>
             if \<not> active_order state
             then Some (WorkNotActive (''work order '' @ work_id @ '' is '' @ order_state_text state @ '' and cannot replace an invalidated output''))
             else if slot_updated_by slot = Some (pr_work_order_id request)
             then Some (SlotInvalidatedResult (''work order '' @ work_id @ '' produced the rejected output in slot '' @
               sq (pr_output_name request) @ ''; its replacement is published by the operator'' @ [CHR 0x27] @ ''s retry work order''))
             else None
         | SlotReleased a _ \<Rightarrow> Some (SlotAlreadyReleased a (''output slot '' @ sq (pr_output_name request) @ '' is already released''))
         | SlotPending _ w _ \<Rightarrow> Some (SlotPendingResult w (''output slot '' @ sq (pr_output_name request) @ '' is already pending a decision''))
         | SlotEmpty \<Rightarrow> None)"

definition find_replay :: "publish_request \<Rightarrow> db \<Rightarrow> artifact_row option" where
  "find_replay request d =
     List.find (\<lambda>a. a_work_order_id a = Some (pr_work_order_id request) \<and> a_output_name a = pr_output_name request \<and>
       a_collection_key a = pr_collection_key request \<and> a_idempotency_key a = pr_idempotency_key request) (db_artifacts d)"

text \<open>A work order joined with its unit.\<close>

definition owned_order :: "db \<Rightarrow> string \<Rightarrow> (order_row \<times> unit_row) option" where
  "owned_order d i =
     (case find_order d i of
        None \<Rightarrow> None
      | Some w \<Rightarrow> (case find_unit_row d (wo_run_unit_id (or_order w)) of None \<Rightarrow> None | Some u \<Rightarrow> Some (w, u)))"

definition publish_artifact_tx :: "publish_request \<Rightarrow> string \<Rightarrow> publish_result tx" where
  "publish_artifact_tx request waitId d =
     (case owned_order d (pr_work_order_id request) of
        None \<Rightarrow> Ok (WorkNotFound (''work order '' @ sq (pr_work_order_id request) @ '' was not found''), d)
      | Some (work, unit) \<Rightarrow>
          if or_capability_hash work \<noteq> pr_capability_hash request
          then Ok (InvalidCapability ''work-order capability was not accepted'', d)
          else case find_slot d (request_slot request unit) of
            None \<Rightarrow> Ok (SlotNotFound (''output slot '' @ sq (pr_output_name request) @ '' was not declared''), d)
          | Some slot \<Rightarrow>
              (case find_replay request d of
                 Some a \<Rightarrow>
                   if a_payload_hash a \<noteq> pr_payload_hash request
                   then Ok (IdempotencyConflict (a_id a) ''idempotency key was already used with a different payload'', d)
                   else Ok (PublishAlreadyApplied (a_id a) (u_run_id unit) (currentVersion d (u_run_id unit)), d)
               | None \<Rightarrow>
                   (case publication_refusal request work slot of
                      Some refusal \<Rightarrow> Ok (refusal, d)
                    | None \<Rightarrow> accept_publication request work unit slot waitId d)))"

definition publish_artifact :: "publish_request \<Rightarrow> string \<Rightarrow> db \<Rightarrow> (string + publish_result) \<times> db" where
  "publish_artifact request waitId = transaction (publish_artifact_tx request waitId)"

section \<open>Closing a wait\<close>

datatype wait_disposition = DispRelease | DispInvalidate | DispFail

record close_wait_request =
  cl_wait_id :: string
  cl_disposition :: wait_disposition
  cl_action :: "string option"
  cl_actor :: string
  cl_detail :: "string option"
  cl_decided_at :: string

datatype close_result =
    CloseReleased string string nat
  | CloseInvalidated string nat
  | CloseAlreadyApplied string nat
  | WaitNotFound string
  | WaitConflict string

definition or_else :: "'a option \<Rightarrow> 'a \<Rightarrow> 'a" where
  "or_else v a = (case v of None \<Rightarrow> a | Some b \<Rightarrow> b)"

definition requestedOutcome :: "close_wait_request \<Rightarrow> wait_kind \<Rightarrow> wait_outcome" where
  "requestedOutcome request kind =
     (if cl_disposition request = DispRelease
      then if kind = WaitHandoffExternal then WaitExternalCompleted (or_else (cl_detail request) (cl_actor request))
           else WaitDecided (or_else (cl_action request) ''release'') None (cl_detail request)
      else if kind = WaitHandoffExternal then WaitWithdrawn
           else WaitDecided (or_else (cl_action request) (if cl_disposition request = DispFail then ''fail'' else ''invalidate''))
                  None (cl_detail request))"

fun sameOutcome :: "wait_outcome \<Rightarrow> wait_outcome \<Rightarrow> bool" where
  "sameOutcome (WaitDecided a _ _) (WaitDecided b _ _) \<longleftrightarrow> a = b"
| "sameOutcome (WaitExternalCompleted _) (WaitExternalCompleted _) \<longleftrightarrow> True"
| "sameOutcome (WaitSuperseded _) (WaitSuperseded _) \<longleftrightarrow> True"
| "sameOutcome WaitWithdrawn WaitWithdrawn \<longleftrightarrow> True"
| "sameOutcome (WaitCancelled _) (WaitCancelled _) \<longleftrightarrow> True"
| "sameOutcome _ _ \<longleftrightarrow> False"

definition owes_output :: "db \<Rightarrow> string \<Rightarrow> bool" where
  "owes_output d uid \<longleftrightarrow> (\<exists>s\<in>set (db_slots d). slot_run_unit_id s = uid \<and> slot_required s \<and> slot_state s = SlotEmpty)"

text \<open>The writes of a release.\<close>

definition release_slot :: "close_wait_request \<Rightarrow> string \<times> string \<times> string option \<Rightarrow> string \<Rightarrow> db \<Rightarrow> db" where
  "release_slot request k artifact d =
     update_artifacts (\<lambda>a. a_id a = artifact \<and> a_lifecycle a = LifeCurrent)
       (\<lambda>a. a\<lparr>a_lifecycle := LifeReleased (cl_decided_at request), a_lifecycle_updated_at := cl_decided_at request\<rparr>)
       (update_slots (\<lambda>s. slot_key s = k)
         (\<lambda>s. s\<lparr>slot_state := SlotReleased artifact (cl_decided_at request), slot_version := slot_version s + 1\<rparr>) d)"

text \<open>The writes of a rejection: the slot, the producing work order, and for \<open>fail\<close> the unit.\<close>

definition abandon_producer :: "close_wait_request \<Rightarrow> string \<Rightarrow> string \<Rightarrow> db \<Rightarrow> db" where
  "abandon_producer request uid producer d =
     update_orders (\<lambda>w. wo_id (or_order w) = producer \<and> active_order (wo_state (or_order w)) \<and>
         (cl_disposition request = DispFail \<or> \<not> owes_output d uid))
       (\<lambda>w. w\<lparr>or_order := (or_order w)\<lparr>wo_state := WAbandoned, wo_completed_at := Some (cl_decided_at request)\<rparr>\<rparr>) d"

definition gate_failure :: "close_wait_request \<Rightarrow> stage_outcome" where
  "gate_failure request =
     Failed ''gate_rejected'' (or_else (cl_detail request)
       (''gate action '' @ sq (or_else (cl_action request) ''fail'') @ '' rejected the unit''))"

definition invalidate_rows ::
    "close_wait_request \<Rightarrow> string \<times> string \<times> string option \<Rightarrow> run_output_slot \<Rightarrow> db \<Rightarrow> db" where
  "invalidate_rows request k slot d =
     (let d1 = update_slots (\<lambda>s. slot_key s = k)
                 (invalidate_slot (OperatorInvalidated (or_else (cl_detail request) ''invalidated'')) (cl_decided_at request)) d;
          d2 = (case slot_updated_by slot of None \<Rightarrow> d1 | Some producer \<Rightarrow> abandon_producer request (fst k) producer d1)
      in if cl_disposition request = DispFail
         then update_units (\<lambda>u. u_id u = fst k \<and> \<not> terminal_unit (u_state u))
                (\<lambda>u. u\<lparr>u_state := UFailed, u_outcome := Some (gate_failure request), u_ended_at := Some (cl_decided_at request)\<rparr>) d2
         else d2)"

definition close_transition :: "close_wait_request \<Rightarrow> string \<Rightarrow> string \<times> string \<times> string option \<Rightarrow> pending_transition" where
  "close_transition request rid k =
     \<lparr>tr_run_id = rid, tr_unit_id = Some (fst k), tr_order_id = None, tr_wait_id = Some (cl_wait_id request),
      tr_output_name = Some (fst (snd k)), tr_collection_key = snd (snd k),
      tr_operation = (if cl_disposition request = DispRelease then SlotReleasedOp else SlotInvalidatedOp),
      tr_actor = cl_actor request, tr_detail = JObj [(''via'', JStr ''wait_close'')], tr_created_at = cl_decided_at request\<rparr>"

definition apply_close ::
    "close_wait_request \<Rightarrow> string \<Rightarrow> string \<times> string \<times> string option \<Rightarrow> run_output_slot \<Rightarrow> string \<Rightarrow> wait_outcome \<Rightarrow> close_result tx" where
  "apply_close request rid k slot artifact outcome d =
     (let d1 = update_waits (\<lambda>w. wait_id w = cl_wait_id request) (close_wait outcome (cl_decided_at request)) d;
          d2 = (if cl_disposition request = DispRelease then release_slot request k artifact d1 else invalidate_rows request k slot d1)
      in bind_result (record_transition (close_transition request rid k) d2) (\<lambda>(v, d3).
           Ok (if cl_disposition request = DispRelease then CloseReleased artifact rid v else CloseInvalidated rid v, d3)))"

text \<open>A run-owned wait joined with its unit: its slot key and run.\<close>

definition owned_wait :: "db \<Rightarrow> string \<Rightarrow> (wait \<times> unit_row) option" where
  "owned_wait d i =
     (case find_wait d i of
        None \<Rightarrow> None
      | Some w \<Rightarrow>
          (case wait_run_unit_id w of
             None \<Rightarrow> None
           | Some uid \<Rightarrow> (case find_unit_row d uid of None \<Rightarrow> None | Some u \<Rightarrow> Some (w, u))))"

definition closeOutputWaitTransaction :: "close_wait_request \<Rightarrow> close_result tx" where
  "closeOutputWaitTransaction request d =
     (let missing = Ok (WaitNotFound (''v2 wait '' @ sq (cl_wait_id request) @ '' was not found''), d)
      in case owned_wait d (cl_wait_id request) of
           None \<Rightarrow> missing
         | Some (w, u) \<Rightarrow>
             (case wait_output_name w of
                None \<Rightarrow> missing
              | Some [] \<Rightarrow> missing
              | Some name \<Rightarrow>
                  (let outcome = requestedOutcome request (closes_on_kind (wait_closes_on w)); k = (u_id u, name, wait_collection_key w)
                   in case wait_status w of
                        WaitClosed existing _ \<Rightarrow>
                          if sameOutcome existing outcome then Ok (CloseAlreadyApplied (u_run_id u) (currentVersion d (u_run_id u)), d)
                          else Ok (WaitConflict (''wait '' @ sq (cl_wait_id request) @ '' is already closed under a different disposition''), d)
                      | WaitOpen \<Rightarrow>
                          (case find_slot d k of
                             Some slot \<Rightarrow>
                               (case slot_state slot of
                                  SlotPending artifact _ _ \<Rightarrow> apply_close request (u_run_id u) k slot artifact outcome d
                                | _ \<Rightarrow> Ok (WaitConflict (''output slot for wait '' @ sq (cl_wait_id request) @ '' is not pending''), d))
                           | None \<Rightarrow> Ok (WaitConflict (''output slot for wait '' @ sq (cl_wait_id request) @ '' is not pending''), d)))))"

definition close_output_wait :: "close_wait_request \<Rightarrow> db \<Rightarrow> (string + close_result) \<times> db" where
  "close_output_wait request = transaction (closeOutputWaitTransaction request)"

section \<open>Gate decisions\<close>

record gate_request =
  gq_wait_id :: string
  gq_action :: string
  gq_actor :: string
  gq_detail :: "string option"
  gq_decided_at :: string

text \<open>The wait's slot: its output name and collection key joined with the slot table.\<close>

definition wait_slot :: "db \<Rightarrow> wait \<Rightarrow> run_output_slot option" where
  "wait_slot d w = (case wait_slot_key w of None \<Rightarrow> None | Some k \<Rightarrow> find_slot d k)"

definition gate_action_of :: "compiled_gate_step list \<Rightarrow> wait_closes_on \<Rightarrow> string \<Rightarrow> gate_action option" where
  "gate_action_of steps closes_on action =
     (case closes_on of
        ClosesGate gate_step allowed \<Rightarrow>
          (case List.find (\<lambda>s. cg_type s = gate_step) steps of
             None \<Rightarrow> None
           | Some s \<Rightarrow> List.find (\<lambda>a. ga_name a \<in> set allowed \<and> ga_name a = action) (cg_actions s))
      | _ \<Rightarrow> None)"

fun disposition_of :: "gate_disposition \<Rightarrow> wait_disposition" where
  "disposition_of Release = DispRelease"
| "disposition_of Revise = DispInvalidate"
| "disposition_of Terminal = DispFail"

definition upstream_handoffs :: "db \<Rightarrow> string \<Rightarrow> wait list" where
  "upstream_handoffs d uid =
     (case find_unit_row d uid of
        None \<Rightarrow> []
      | Some u \<Rightarrow>
          sort_key wait_id (concat (map (\<lambda>e. filter (\<lambda>w. wait_artifact_revision_id w = ae_artifact_id e \<and>
            closes_on_kind (wait_closes_on w) = WaitHandoffExternal \<and> wait_run_unit_id w \<noteq> None \<and> wait_is_open w) (db_waits d))
            (u_input_snapshot u))))"

fun is_conflict :: "close_result \<Rightarrow> bool" where
  "is_conflict (WaitNotFound _) = True"
| "is_conflict (WaitConflict _) = True"
| "is_conflict _ = False"

text \<open>
  Closing a wait inside a gate decision: a conflict is thrown as \<open>GateCoordinationConflict\<close>, which
  rolls the transaction back and becomes its result (\<^const>\<open>Refused\<close>).
\<close>

definition coordinated_close :: "close_wait_request \<Rightarrow> db \<Rightarrow> close_result failure + close_result \<times> db" where
  "coordinated_close request d =
     (case closeOutputWaitTransaction request d of
        Inl e \<Rightarrow> Throw e
      | Inr (r, d') \<Rightarrow> if is_conflict r then Refuse r else Ok (r, d'))"

definition upstream_request :: "gate_request \<Rightarrow> wait \<Rightarrow> close_wait_request" where
  "upstream_request request w =
     \<lparr>cl_wait_id = wait_id w, cl_disposition = DispInvalidate, cl_action = Some (gq_action request), cl_actor = gq_actor request,
      cl_detail = gq_detail request, cl_decided_at = gq_decided_at request\<rparr>"

definition close_upstream :: "gate_request \<Rightarrow> string \<Rightarrow> db \<Rightarrow> close_result failure + db" where
  "close_upstream request uid d =
     (case upstream_handoffs d uid of
        [] \<Rightarrow> Refuse (WaitConflict ''gate revision target has no run-owned upstream handoff'')
      | ws \<Rightarrow> fold_result (\<lambda>w d. bind_result (coordinated_close (upstream_request request w) d) (\<lambda>(_, d'). Ok d')) ws d)"

definition decide_gate_tx :: "gate_request \<Rightarrow> db \<Rightarrow> close_result failure + close_result \<times> db" where
  "decide_gate_tx request d =
     (let missing = Ok (WaitNotFound (''v2 gate wait '' @ sq (gq_wait_id request) @ '' was not found''), d)
      in case find_wait d (gq_wait_id request) of
           None \<Rightarrow> missing
         | Some w \<Rightarrow>
             if closes_on_kind (wait_closes_on w) \<noteq> WaitGate then missing
             else (case (wait_run_unit_id w, wait_slot d w) of
               (Some uid, Some slot) \<Rightarrow>
                 (case slot_release slot of
                    Gate steps _ revision_target \<Rightarrow>
                      (case gate_action_of steps (wait_closes_on w) (gq_action request) of
                         None \<Rightarrow> Ok (WaitConflict (''action '' @ sq (gq_action request) @ '' is not allowed for wait '' @ sq (gq_wait_id request)), d)
                       | Some action \<Rightarrow>
                           (let disposition = disposition_of (ga_disposition action)
                            in bind_result (coordinated_close
                                 \<lparr>cl_wait_id = gq_wait_id request, cl_disposition = disposition, cl_action = Some (gq_action request),
                                  cl_actor = gq_actor request, cl_detail = gq_detail request, cl_decided_at = gq_decided_at request\<rparr> d)
                               (\<lambda>(own, d1).
                                 if disposition \<noteq> DispRelease \<and> revision_target = UpstreamHandoff
                                 then bind_result (close_upstream request uid d1) (\<lambda>d2. Ok (own, d2))
                                 else Ok (own, d1))))
                  | _ \<Rightarrow> missing)
             | _ \<Rightarrow> missing))"

definition decide_gate_wait :: "gate_request \<Rightarrow> db \<Rightarrow> (string + close_result) \<times> db" where
  "decide_gate_wait request d =
     (case decide_gate_tx request d of
        Inl (Thrown e) \<Rightarrow> (Inl e, d)
      | Inl (Refused r) \<Rightarrow> (Inr r, d)
      | Inr (r, d') \<Rightarrow> (Inr r, d'))"

section \<open>Handoff completion\<close>

record handoff_request =
  hq_artifact_id :: string
  hq_external_kind :: string
  hq_actor :: string
  hq_correlation_id :: string
  hq_decided_at :: string

text \<open>\<open>ORDER BY wait.opened_at DESC LIMIT 1\<close>; the wait is then closed in a transaction of its own.\<close>

definition handoff_wait :: "db \<Rightarrow> string \<Rightarrow> (wait \<times> run_output_slot) option" where
  "handoff_wait d artifact =
     (case rev (sort_key (\<lambda>(w, s). wait_opened_at w)
        (concat (map (\<lambda>w. case wait_slot d w of None \<Rightarrow> [] | Some s \<Rightarrow> [(w, s)])
          (filter (\<lambda>w. wait_artifact_revision_id w = artifact \<and> closes_on_kind (wait_closes_on w) = WaitHandoffExternal \<and>
             wait_run_unit_id w \<noteq> None) (db_waits d))))) of
        [] \<Rightarrow> None
      | r # _ \<Rightarrow> Some r)"

definition complete_handoff_artifact :: "handoff_request \<Rightarrow> db \<Rightarrow> (string + close_result) \<times> db" where
  "complete_handoff_artifact request d =
     (let missing = (Inr (WaitNotFound (''v2 handoff for artifact '' @ sq (hq_artifact_id request) @ '' was not found'')), d)
      in case handoff_wait d (hq_artifact_id request) of
           None \<Rightarrow> missing
         | Some (w, slot) \<Rightarrow>
             (case slot_release slot of
                Handoff _ external_wait_kind \<Rightarrow>
                  if external_wait_kind \<noteq> hq_external_kind request
                  then (Inr (WaitConflict ''external completion kind does not match the handoff policy''), d)
                  else close_output_wait \<lparr>cl_wait_id = wait_id w, cl_disposition = DispRelease, cl_action = None,
                    cl_actor = hq_actor request, cl_detail = Some (hq_correlation_id request), cl_decided_at = hq_decided_at request\<rparr> d
              | _ \<Rightarrow> missing))"

end
