(* ===== verification/Ask.thy ===== *)
theory Ask
  imports Publish
begin

text \<open>
  The ask: \<open>decide_run\<close> of \<open>storage/postgres-run-record.ts\<close> reads a snapshot of a run, calls
  \<open>derive\<close> and applies the commands in one transaction. Also \<open>cancel_run\<close>, \<open>delete_run\<close> and the
  executor attachments of that file.

  Definitions are immutable per identifier, so the process's cache of compiled definitions is
  the compilation itself.
\<close>

section \<open>The snapshot\<close>

definition load_compiled_definition_tx :: "stage_type_compiler js_obj \<Rightarrow> db \<Rightarrow> string \<Rightarrow> string + compiled_workflow" where
  "load_compiled_definition_tx registry d i =
     (case List.find (\<lambda>r. df_id r = i) (db_definitions d) of
        None \<Rightarrow> Err (''workflow definition '' @ sq i @ '' was not found'')
      | Some row \<Rightarrow>
          (case compileWorkflowDefinition registry (df_definition row) of
             Inr compiled \<Rightarrow> Ok compiled
           | Inl (Thrown m) \<Rightarrow> Err m
           | Inl (Refused e) \<Rightarrow>
               Err (''compile_workflow:'' @ or_else (cerr_stage_key e) ''workflow'' @ '':'' @ cerr_detail e)))"

definition MAX_SAFE_INTEGER :: nat where
  "MAX_SAFE_INTEGER = 9007199254740991"

definition stage_policy_of :: "db \<Rightarrow> string \<Rightarrow> stage_policy" where
  "stage_policy_of d sid =
     (case List.find (\<lambda>p. pl_stage_id p = sid) (db_policies d) of
        None \<Rightarrow> \<lparr>max_parallel = MAX_SAFE_INTEGER, manual_admission = False\<rparr>
      | Some p \<Rightarrow> pl_policy p)"

definition unit_snapshot_of :: "runtime_env \<Rightarrow> db \<Rightarrow> unit_row \<Rightarrow> unit_snapshot" where
  "unit_snapshot_of env d u =
     \<lparr>us_id = u_id u, us_unit_id = u_unit_id u, us_parameters = u_parameters u, us_input_fingerprint = u_input_fingerprint u,
      us_state = u_state u, us_admitted = u_admitted u, us_outcome = u_outcome u,
      us_depends_on = depends_on_rows env d (u_stage_id u) (u_unit_id u),
      us_required_slots = sort_key (slot_order env) (filter (\<lambda>s. slot_run_unit_id s = u_id u \<and> slot_required s) (db_slots d)),
      us_open_waits = sort_key wait_opened_at (filter (\<lambda>w. wait_run_unit_id w = Some (u_id u) \<and> wait_is_open w) (db_waits d)),
      us_work_orders = sort_key (\<lambda>w. (wo_created_at w, wo_id w))
        (filter (\<lambda>w. wo_run_unit_id w = u_id u) (map or_order (db_orders d)))\<rparr>"

definition stage_snapshot_of :: "runtime_env \<Rightarrow> db \<Rightarrow> string \<Rightarrow> stage_row \<Rightarrow> stage_snapshot" where
  "stage_snapshot_of env d rid s =
     \<lparr>ss_id = sr_id s, ss_stage_key = sr_stage_key s, ss_state = sr_state s, ss_materialization_closed = sr_closed s,
      ss_policy = stage_policy_of d (sr_id s),
      ss_units = map (unit_snapshot_of env d) (sort_key (\<lambda>u. text_key env (u_unit_id u))
        (filter (\<lambda>u. u_run_id u = rid \<and> u_stage_id u = sr_id s) (db_units d)))\<rparr>"

text \<open>An artifact is available when its slot is released, or pending under a handoff policy.\<close>

fun available_artifact :: "slot_state \<Rightarrow> output_release \<Rightarrow> string option" where
  "available_artifact (SlotReleased a _) _ = Some a"
| "available_artifact (SlotPending a _ _) (Handoff _ _) = Some a"
| "available_artifact _ _ = None"

definition available_row :: "db \<Rightarrow> string \<Rightarrow> run_output_slot \<Rightarrow> (stage_row \<times> run_output_slot \<times> artifact_row) list" where
  "available_row d rid slot =
     (case available_artifact (slot_state slot) (slot_release slot) of
        None \<Rightarrow> []
      | Some aid \<Rightarrow>
          (case find_unit_row d (slot_run_unit_id slot) of
             None \<Rightarrow> []
           | Some u \<Rightarrow>
               if u_run_id u \<noteq> rid then []
               else case (find_stage_row d (u_stage_id u), List.find (\<lambda>a. a_id a = aid) (db_artifacts d)) of
                 (Some s, Some a) \<Rightarrow> [(s, slot, a)]
               | _ \<Rightarrow> []))"

definition artifact_order ::
    "runtime_env \<Rightarrow> stage_row \<times> run_output_slot \<times> artifact_row
     \<Rightarrow> (string \<times> string) \<times> (string \<times> string) \<times> (string \<times> string) \<times> (string \<times> string) option \<times> string \<times> string" where
  "artifact_order env r =
     (case r of (s, slot, a) \<Rightarrow>
        (text_key env (sr_stage_key s), text_key env (a_output_name a), text_key env (a_unit_id a),
         map_option (text_key env) (identity_collection_key (slot_identity slot)), a_created_at a, a_id a))"

definition available_envelope :: "stage_row \<times> run_output_slot \<times> artifact_row \<Rightarrow> artifact_envelope" where
  "available_envelope r =
     (case r of (s, slot, a) \<Rightarrow>
        \<lparr>ae_artifact_id = a_id a, ae_chain_id = Some (a_chain_id a), ae_producer_stage_key = Some (sr_stage_key s),
         ae_producer_execution_id = Some (a_execution_id a), ae_unit_id = a_unit_id a, ae_output_name = a_output_name a,
         ae_artifact_type = a_artifact_type a, ae_body = a_body a\<rparr>)"

definition load_run_snapshot :: "runtime_env \<Rightarrow> workflow_run \<Rightarrow> compiled_workflow \<Rightarrow> db \<Rightarrow> run_snapshot" where
  "load_run_snapshot env run workflow d =
     \<lparr>snap_run = run, snap_definition = workflow,
      snap_stages = map (stage_snapshot_of env d (run_id run)) (sort_key (\<lambda>s. text_key env (sr_stage_key s))
        (filter (\<lambda>s. sr_run_id s = run_id run \<and> sr_attempt_root s = None) (db_stages d))),
      snap_available_artifacts =
        map available_envelope (sort_key (artifact_order env) (concat (map (available_row d (run_id run)) (db_slots d))))\<rparr>"

section \<open>Facts\<close>

fun contradictionDetail :: "contradiction \<Rightarrow> string" where
  "contradictionDetail (UnknownDependencyAtClose key unit dep) =
     ''stage '' @ sq key @ '' unit '' @ sq unit @ '' depends on unknown unit '' @ sq dep"
| "contradictionDetail (DependencyCycle key cycle) =
     ''stage '' @ sq key @ '' has a dependency cycle: '' @ js_join '' -> '' cycle"
| "contradictionDetail (MalformedDriverArtifact key artifact path detail) =
     ''stage '' @ sq key @ '' artifact '' @ sq (or_else artifact ''unknown'') @ '' is malformed at '' @ sq path @ '': '' @ detail"

definition end_run :: "string \<Rightarrow> run_state \<Rightarrow> stage_outcome \<Rightarrow> string \<Rightarrow> workflow_run \<Rightarrow> workflow_run" where
  "end_run rid state outcome at r = r\<lparr>run_state := state, run_outcome := Some outcome, run_ended_at := Some at\<rparr>"

definition end_stage :: "run_state \<Rightarrow> stage_outcome \<Rightarrow> string \<Rightarrow> stage_row \<Rightarrow> stage_row" where
  "end_stage state outcome at s = s\<lparr>sr_state := state, sr_outcome := Some outcome, sr_ended_at := Some at\<rparr>"

definition record_contradiction_tx :: "string \<Rightarrow> contradiction \<Rightarrow> string \<Rightarrow> db \<Rightarrow> (stage_outcome \<times> tx_effect) \<times> db" where
  "record_contradiction_tx rid c at d =
     (let outcome = Failed ''contradiction'' (contradictionDetail c);
          d1 = update_stages (\<lambda>s. v2_stage rid (contradiction_stage_key c) s \<and> sr_state s = RunActive) (end_stage RunFailed outcome at) d;
          d2 = update_runs (\<lambda>r. run_id r = rid) (end_run rid RunFailed outcome at) d1
      in ((outcome, \<lparr>fx_applied = True,
             fx_pending = [run_transition rid MaterializationFailed ''derive''
               (JObj [(''stage_key'', JStr (contradiction_stage_key c)), (''contradiction'', contradiction_json c)]) at]\<rparr>), d2))"

definition unit_transition :: "string \<Rightarrow> string \<Rightarrow> string option \<Rightarrow> transition_operation \<Rightarrow> string \<Rightarrow> pending_transition" where
  "unit_transition rid uid order operation at =
     (run_transition rid operation ''system'' (JObj []) at)\<lparr>tr_unit_id := Some uid, tr_order_id := order\<rparr>"

definition mark_unit_satisfied_tx :: "string \<Rightarrow> string \<Rightarrow> db \<Rightarrow> tx_effect \<times> db" where
  "mark_unit_satisfied_tx uid at d =
     (case List.find (\<lambda>u. u_id u = uid \<and> \<not> terminal_unit (u_state u)) (db_units d) of
        None \<Rightarrow> (NO_EFFECT, d)
      | Some row \<Rightarrow>
          (\<lparr>fx_applied = True, fx_pending = [unit_transition (u_run_id row) uid None UnitSatisfiedOp at]\<rparr>,
           update_orders (\<lambda>w. wo_run_unit_id (or_order w) = uid \<and> active_order (wo_state (or_order w)))
             (\<lambda>w. w\<lparr>or_order := (or_order w)\<lparr>wo_state := WCompleted, wo_completed_at := Some at\<rparr>\<rparr>)
             (update_units (\<lambda>u. u_id u = uid \<and> \<not> terminal_unit (u_state u))
               (\<lambda>u. u\<lparr>u_state := USatisfied, u_outcome := Some Succeeded, u_ended_at := Some at\<rparr>) d)))"

definition start_work_tx :: "string \<Rightarrow> string \<Rightarrow> string \<Rightarrow> db \<Rightarrow> tx_effect \<times> db" where
  "start_work_tx order uid at d =
     (case find_unit_row d uid of
        None \<Rightarrow> (NO_EFFECT, d)
      | Some u \<Rightarrow>
          if \<not> (\<exists>w\<in>set (db_orders d). wo_id (or_order w) = order \<and> wo_state (or_order w) = WAvailable) then (NO_EFFECT, d)
          else
            (\<lparr>fx_applied = True, fx_pending = [unit_transition (u_run_id u) uid (Some order) WorkStarted at]\<rparr>,
             update_units (\<lambda>u. u_id u = uid \<and> u_state u = UReady) (\<lambda>u. u\<lparr>u_state := UWorking\<rparr>)
               (update_orders (\<lambda>w. wo_id (or_order w) = order \<and> wo_state (or_order w) = WAvailable)
                 (\<lambda>w. w\<lparr>or_order := (or_order w)\<lparr>wo_state := WStarted\<rparr>\<rparr>) d)))"

definition mark_stage_succeeded_tx :: "string \<Rightarrow> string \<Rightarrow> db \<Rightarrow> tx_effect \<times> db" where
  "mark_stage_succeeded_tx sid at d =
     (\<lparr>fx_applied = (\<exists>s\<in>set (db_stages d). sr_id s = sid \<and> sr_state s = RunActive), fx_pending = []\<rparr>,
      update_stages (\<lambda>s. sr_id s = sid \<and> sr_state s = RunActive) (end_stage RunSucceeded Succeeded at) d)"

fun outcome_state :: "stage_outcome \<Rightarrow> run_state" where
  "outcome_state Succeeded = RunSucceeded"
| "outcome_state (Failed _ _) = RunFailed"
| "outcome_state (Cancelled _) = RunCancelled"

definition complete_run_tx :: "string \<Rightarrow> stage_outcome \<Rightarrow> string \<Rightarrow> db \<Rightarrow> tx_effect \<times> db" where
  "complete_run_tx rid outcome at d =
     (\<lparr>fx_applied = (\<exists>r\<in>set (db_runs d). run_id r = rid \<and> run_state r = RunActive), fx_pending = []\<rparr>,
      update_runs (\<lambda>r. run_id r = rid \<and> run_state r = RunActive) (end_run rid (outcome_state outcome) outcome at)
        (update_stages (\<lambda>s. sr_run_id s = rid \<and> sr_state s = RunActive \<and> sr_attempt_root s = None)
          (end_stage (outcome_state outcome) outcome at) d))"

section \<open>Applying commands\<close>

text \<open>\<open>snapshot.definition.stages[key]\<close>, with the refusal of a key the definition does not have.\<close>

definition stage_contract_of :: "run_snapshot \<Rightarrow> string \<Rightarrow> string \<Rightarrow> string + compiled_stage" where
  "stage_contract_of snapshot operation key =
     (case obj_get (cw_stages (snap_definition snapshot)) key of
        None \<Rightarrow> Err (operation @ '': stage '' @ sq key @ '' is not in the compiled definition'')
      | Some contract \<Rightarrow> Ok contract)"

definition resolver_of :: "(string \<Rightarrow> string + string) option \<Rightarrow> db \<Rightarrow> resolver_dependencies" where
  "resolver_of loader d =
     \<lparr>load_prompt_template = (case loader of
          None \<Rightarrow> (\<lambda>_. Err ''run record repository has no prompt template loader'')
        | Some load \<Rightarrow> load),
      find_work_order_attachment = find_attachment d\<rparr>"

definition stage_write ::
    "run_snapshot \<Rightarrow> compiled_stage \<Rightarrow> string \<Rightarrow> string \<Rightarrow> stage_policy \<Rightarrow> materialized_unit list \<Rightarrow> bool \<Rightarrow> string \<Rightarrow> persist_stage" where
  "stage_write snapshot contract key sid policy units close at =
     \<lparr>ps_run_id = run_id (snap_run snapshot), ps_stage_instance_id = sid, ps_stage_key = key,
      ps_stage_type = cs_stage_type contract, ps_stage_contract = contract, ps_units = units, ps_policy = policy,
      ps_close = close, ps_materialized_at = at\<rparr>"

definition order_input ::
    "run_snapshot \<Rightarrow> compiled_stage \<Rightarrow> string \<Rightarrow> execution_unit \<Rightarrow> stage_input_set \<Rightarrow> materialized_output list \<Rightarrow> string \<Rightarrow> string \<Rightarrow> resolve_work_order_input" where
  "order_input snapshot contract sid unit inputs outputs identity seed =
     \<lparr>rw_run_id = run_id (snap_run snapshot), rw_stage = contract, rw_stage_instance_id = sid, rw_unit = unit,
      rw_inputs = inputs, rw_context = run_context (snap_run snapshot), rw_outputs = outputs, rw_identity = identity,
      rw_capability_seed = seed\<rparr>"

definition apply_materialize_unit ::
    "runtime_env \<Rightarrow> (string \<Rightarrow> string + string) option \<Rightarrow> run_snapshot \<Rightarrow> materialize_unit_command \<Rightarrow> string \<Rightarrow> tx_effect tx" where
  "apply_materialize_unit env loader snapshot c at d =
     bind_result (stage_contract_of snapshot ''materialize_unit'' (mc_stage_key c)) (\<lambda>contract.
     bind_result (load_work_order_capability_seed d) (\<lambda>seed.
     bind_result (resolveWorkOrder env (resolver_of loader d)
       (order_input snapshot contract (mc_stage_instance_id c)
         \<lparr>eu_unit_id = mc_unit_id c, eu_parameters = mc_parameters c, eu_depends_on = mc_depends_on c\<rparr>
         (mc_inputs c) (mc_outputs c) ''initial'' seed)) (\<lambda>order.
     persist_materialized_stage_tx env
       (stage_write snapshot contract (mc_stage_key c) (mc_stage_instance_id c) (mc_policy c)
         [\<lparr>mu_id = mc_run_unit_id c, mu_unit_id = mc_unit_id c, mu_parameters = mc_parameters c,
           mu_input_snapshot = mc_input_snapshot c, mu_input_fingerprint = mc_input_fingerprint c,
           mu_depends_on = mc_depends_on c, mu_outputs = mc_outputs c, mu_initial_work_order = order\<rparr>] False at) d)))"

definition snapshot_unit :: "run_snapshot \<Rightarrow> string \<Rightarrow> string \<Rightarrow> unit_snapshot option" where
  "snapshot_unit snapshot key uid =
     (case List.find (\<lambda>s. ss_stage_key s = key) (snap_stages snapshot) of
        None \<Rightarrow> None
      | Some stage \<Rightarrow> List.find (\<lambda>u. us_id u = uid) (ss_units stage))"

definition slot_output :: "run_output_slot \<Rightarrow> materialized_output" where
  "slot_output s =
     \<lparr>mo_identity = slot_identity s, mo_artifact_type = slot_artifact_type s, mo_required = slot_required s, mo_release = slot_release s\<rparr>"

definition apply_revise_unit ::
    "runtime_env \<Rightarrow> (string \<Rightarrow> string + string) option \<Rightarrow> run_snapshot \<Rightarrow> revise_unit_command \<Rightarrow> string \<Rightarrow> tx_effect tx" where
  "apply_revise_unit env loader snapshot c at d =
     bind_result (stage_contract_of snapshot ''revise_unit'' (rc_stage_key c)) (\<lambda>contract.
     case snapshot_unit snapshot (rc_stage_key c) (rc_run_unit_id c) of
       None \<Rightarrow> Err (''revise_unit: run unit '' @ sq (rc_run_unit_id c) @ '' is not in the snapshot'')
     | Some existing \<Rightarrow>
         bind_result (load_work_order_capability_seed d) (\<lambda>seed.
         bind_result (resolveWorkOrder env (resolver_of loader d)
           (order_input snapshot contract (rc_stage_instance_id c)
             \<lparr>eu_unit_id = rc_unit_id c, eu_parameters = rc_parameters c, eu_depends_on = us_depends_on existing\<rparr>
             (rc_inputs c) (map slot_output (us_required_slots existing)) (''revision:'' @ rc_input_fingerprint c) seed)) (\<lambda>order.
         bind_result (revise_unit_input_tx \<lparr>rv_run_unit_id = rc_run_unit_id c, rv_input_snapshot = rc_input_snapshot c,
           rv_input_fingerprint = rc_input_fingerprint c, rv_revised_at = at, rv_actor = ''derive'', rv_replacement = order\<rparr> d) (\<lambda>(r, d1).
         case r of
           ReviseTxNotFound detail \<Rightarrow> Err detail
         | ReviseTxUnchanged _ effect \<Rightarrow> Ok (effect, d1)
         | ReviseTxRevised _ effect \<Rightarrow> Ok (effect, d1)))))"

definition apply_command ::
    "runtime_env \<Rightarrow> (string \<Rightarrow> string + string) option \<Rightarrow> run_snapshot \<Rightarrow> command \<Rightarrow> string \<Rightarrow> tx_effect tx" where
  "apply_command env loader snapshot command at d =
     (case command of
        MaterializeStage key sid policy \<Rightarrow>
          bind_result (stage_contract_of snapshot ''materialize_stage'' key) (\<lambda>contract.
            persist_materialized_stage_tx env (stage_write snapshot contract key sid policy [] False at) d)
      | MaterializeUnit c \<Rightarrow> apply_materialize_unit env loader snapshot c at d
      | CloseMaterialization key sid policy \<Rightarrow>
          bind_result (stage_contract_of snapshot ''close_materialization'' key) (\<lambda>contract.
            persist_materialized_stage_tx env (stage_write snapshot contract key sid policy [] True at) d)
      | ReviseUnit c \<Rightarrow> apply_revise_unit env loader snapshot c at d
      | MarkUnitSatisfied uid \<Rightarrow> Ok (mark_unit_satisfied_tx uid at d)
      | StartWork order uid \<Rightarrow> Ok (start_work_tx order uid at d)
      | MarkStageSucceeded sid \<Rightarrow> Ok (mark_stage_succeeded_tx sid at d)
      | CompleteRun outcome \<Rightarrow> Ok (complete_run_tx (run_id (snap_run snapshot)) outcome at d))"

section \<open>The ask\<close>

record batch_state =
  bs_effect :: tx_effect
  bs_started :: "(string \<times> string) list"
  bs_completed :: "stage_outcome option"
  bs_db :: db

definition apply_step ::
    "runtime_env \<Rightarrow> (string \<Rightarrow> string + string) option \<Rightarrow> run_snapshot \<Rightarrow> string \<Rightarrow> command \<Rightarrow> batch_state \<Rightarrow> string + batch_state" where
  "apply_step env loader snapshot at command st =
     bind_result (apply_command env loader snapshot command at (bs_db st)) (\<lambda>(applied, d).
       Ok \<lparr>bs_effect = mergeEffects [bs_effect st, applied],
           bs_started = bs_started st @ (case command of StartWork w u \<Rightarrow> if fx_applied applied then [(w, u)] else [] | _ \<Rightarrow> []),
           bs_completed = (case command of CompleteRun outcome \<Rightarrow> if fx_applied applied then Some outcome else bs_completed st
             | _ \<Rightarrow> bs_completed st),
           bs_db = d\<rparr>)"

definition decide_active ::
    "runtime_env \<Rightarrow> stage_type_compiler js_obj \<Rightarrow> (string \<Rightarrow> string + string) option \<Rightarrow> workflow_run \<Rightarrow> string \<Rightarrow> ask_result tx" where
  "decide_active env registry loader run at d =
     bind_result (load_compiled_definition_tx registry d (run_definition_id run)) (\<lambda>workflow.
     let snapshot = load_run_snapshot env run workflow d
     in case derive env snapshot of
          Inl c \<Rightarrow>
            (let ((outcome, effect), d1) = record_contradiction_tx (run_id run) c at d
             in bind_result (commit_batch (run_id run) effect d1) (\<lambda>(_, d2). Ok (AskComplete outcome, d2)))
        | Inr commands \<Rightarrow>
            bind_result (fold_result (apply_step env loader snapshot at) commands
              \<lparr>bs_effect = NO_EFFECT, bs_started = [], bs_completed = None, bs_db = d\<rparr>) (\<lambda>st.
            bind_result (commit_batch (run_id run) (bs_effect st) (bs_db st)) (\<lambda>(v, d1).
            Ok (case bs_completed st of
                  Some outcome \<Rightarrow> AskComplete outcome
                | None \<Rightarrow> if fx_applied (bs_effect st) then AskRecheck v (bs_started st) else AskWait v, d1))))"

datatype decide_result = Asked ask_result | AskRunNotFound string

fun run_state_text :: "run_state \<Rightarrow> string" where
  "run_state_text RunActive = ''active''"
| "run_state_text RunSucceeded = ''succeeded''"
| "run_state_text RunFailed = ''failed''"
| "run_state_text RunCancelled = ''cancelled''"

definition decide_run ::
    "runtime_env \<Rightarrow> stage_type_compiler js_obj \<Rightarrow> (string \<Rightarrow> string + string) option \<Rightarrow> string \<Rightarrow> string \<Rightarrow> db \<Rightarrow> (string + decide_result) \<times> db" where
  "decide_run env registry loader rid at =
     transaction (\<lambda>d.
       case find_run d rid of
         None \<Rightarrow> Ok (AskRunNotFound (''workflow run '' @ sq rid @ '' was not found''), d)
       | Some row \<Rightarrow>
           (case List.find (\<lambda>r. df_id r = run_definition_id row) (db_definitions d) of
              None \<Rightarrow> Ok (AskRunNotFound (''workflow run '' @ sq rid @ '' was not found''), d)
            | Some stored \<Rightarrow>
                (let run = row\<lparr>run_definition_version := df_version stored\<rparr>
                 in if run_state run \<noteq> RunActive
                    then Ok (Asked (AskComplete (or_else (run_outcome run) (Failed ''run_terminal_without_outcome''
                      (''run '' @ sq rid @ '' is terminal ('' @ sq (run_state_text (run_state run)) @ '') with no recorded outcome'')))), d)
                    else bind_result (decide_active env registry loader run at d) (\<lambda>(r, d1). Ok (Asked r, d1)))))"

end
