(* ===== verification/Control.thy ===== *)
theory Control
  imports Ask
begin

text \<open>
  Cancellation and deletion of a run, straight-through initialization, executor attachments and
  the reads of a work order, from \<open>storage/postgres-run-record.ts\<close>.
\<close>

section \<open>Cancellation\<close>

record cancel_request =
  cn_run_id :: string
  cn_actor :: string
  cn_reason :: "string option"
  cn_cancelled_at :: string

record fenced_order =
  fo_work_order_id :: string
  fo_executor_type :: string
  fo_external_reference :: external_reference

datatype cancel_result =
    RunCancelledResult string nat "fenced_order list"
  | RunAlreadyTerminal string run_state
  | CancelRunNotFound string

definition fence_row :: "db \<Rightarrow> order_row \<Rightarrow> fenced_order list" where
  "fence_row d w =
     (case find_attachment d (wo_id (or_order w)) of
        None \<Rightarrow> []
      | Some a \<Rightarrow>
          (case at_external_reference a of
             None \<Rightarrow> []
           | Some ref \<Rightarrow> [\<lparr>fo_work_order_id = wo_id (or_order w), fo_executor_type = at_executor_type a, fo_external_reference = ref\<rparr>]))"

definition work_orders_to_fence :: "db \<Rightarrow> string \<Rightarrow> fenced_order list" where
  "work_orders_to_fence d rid =
     concat (map (fence_row d) (sort_key (\<lambda>w. wo_id (or_order w))
       (filter (\<lambda>w. unit_in_run d rid (wo_run_unit_id (or_order w)) \<and> active_order (wo_state (or_order w))) (db_orders d))))"

fun is_pending :: "slot_state \<Rightarrow> bool" where
  "is_pending (SlotPending _ _ _) = True"
| "is_pending _ = False"

definition cancel_waits :: "string \<Rightarrow> string \<Rightarrow> db \<Rightarrow> db" where
  "cancel_waits rid at d =
     update_waits (\<lambda>w. (case wait_run_unit_id w of None \<Rightarrow> False | Some uid \<Rightarrow> unit_in_run d rid uid) \<and> wait_is_open w)
       (close_wait WaitWithdrawn at) d"

definition cancel_slots :: "string \<Rightarrow> string \<Rightarrow> db \<Rightarrow> db" where
  "cancel_slots rid at d =
     update_slots (\<lambda>s. unit_in_run d rid (slot_run_unit_id s) \<and> is_pending (slot_state s))
       (invalidate_slot (OperatorInvalidated ''run cancelled'') at) d"

definition cancel_orders :: "string \<Rightarrow> string \<Rightarrow> db \<Rightarrow> db" where
  "cancel_orders rid at d =
     update_orders (\<lambda>w. unit_in_run d rid (wo_run_unit_id (or_order w)) \<and> active_order (wo_state (or_order w)))
       (\<lambda>w. w\<lparr>or_order := (or_order w)\<lparr>wo_state := WAbandoned, wo_completed_at := Some at\<rparr>\<rparr>) d"

definition cancel_units :: "string \<Rightarrow> stage_outcome \<Rightarrow> string \<Rightarrow> db \<Rightarrow> db" where
  "cancel_units rid outcome at =
     update_units (\<lambda>u. u_run_id u = rid \<and> \<not> terminal_unit (u_state u))
       (\<lambda>u. u\<lparr>u_state := UCancelled, u_outcome := Some outcome, u_ended_at := Some at\<rparr>)"

definition cancel_stages :: "string \<Rightarrow> stage_outcome \<Rightarrow> string \<Rightarrow> db \<Rightarrow> db" where
  "cancel_stages rid outcome at =
     update_stages (\<lambda>s. sr_run_id s = rid \<and> sr_attempt_root s = None \<and> sr_state s = RunActive) (end_stage RunCancelled outcome at)"

definition cancel_rows :: "string \<Rightarrow> stage_outcome \<Rightarrow> string \<Rightarrow> db \<Rightarrow> db" where
  "cancel_rows rid outcome at d =
     bump_version rid (update_runs (\<lambda>r. run_id r = rid) (end_run rid RunCancelled outcome at)
       (cancel_stages rid outcome at (cancel_units rid outcome at (cancel_orders rid at (cancel_slots rid at (cancel_waits rid at d))))))"

definition cancel_run :: "cancel_request \<Rightarrow> db \<Rightarrow> (string + cancel_result) \<times> db" where
  "cancel_run inp =
     transaction (\<lambda>d.
       case find_run d (cn_run_id inp) of
         None \<Rightarrow> Ok (CancelRunNotFound (''workflow run '' @ sq (cn_run_id inp) @ '' was not found''), d)
       | Some run \<Rightarrow>
           if run_state run \<noteq> RunActive then Ok (RunAlreadyTerminal (cn_run_id inp) (run_state run), d)
           else let d1 = cancel_rows (cn_run_id inp) (Cancelled (cn_reason inp)) (cn_cancelled_at inp) d;
                    resulting = currentVersion d1 (cn_run_id inp)
           in bind_result (insertTransition (run_transition (cn_run_id inp) RunCancelledOp (cn_actor inp)
                (JObj [(''reason'', nullable_json (cn_reason inp))]) (cn_cancelled_at inp)) (run_record_version run) resulting d1) (\<lambda>d2.
                Ok (RunCancelledResult (cn_run_id inp) resulting (work_orders_to_fence d (cn_run_id inp)), d2)))"

section \<open>Deletion\<close>

datatype delete_result = Deleted string | AlreadyDeleted string | DeleteActiveConflict string string

text \<open>\<open>DELETE FROM workflow_run\<close> with the schema's cascades: everything a run owns goes with it.\<close>

definition stage_in_run :: "db \<Rightarrow> string \<Rightarrow> string \<Rightarrow> bool" where
  "stage_in_run d rid sid \<longleftrightarrow> (\<exists>s\<in>set (db_stages d). sr_id s = sid \<and> sr_run_id s = rid)"

definition order_in_run :: "db \<Rightarrow> string \<Rightarrow> string \<Rightarrow> bool" where
  "order_in_run d rid i \<longleftrightarrow> (\<exists>w\<in>set (db_orders d). wo_id (or_order w) = i \<and> unit_in_run d rid (wo_run_unit_id (or_order w)))"

definition delete_cascade :: "string \<Rightarrow> db \<Rightarrow> db" where
  "delete_cascade rid d =
     d\<lparr>db_runs := filter (\<lambda>r. run_id r \<noteq> rid) (db_runs d),
       db_stages := filter (\<lambda>s. sr_run_id s \<noteq> rid) (db_stages d),
       db_policies := filter (\<lambda>p. \<not> stage_in_run d rid (pl_stage_id p)) (db_policies d),
       db_units := filter (\<lambda>u. u_run_id u \<noteq> rid) (db_units d),
       db_dependencies := filter (\<lambda>e. \<not> stage_in_run d rid (dp_stage_id e)) (db_dependencies d),
       db_slots := filter (\<lambda>s. \<not> unit_in_run d rid (slot_run_unit_id s)) (db_slots d),
       db_orders := filter (\<lambda>w. \<not> unit_in_run d rid (wo_run_unit_id (or_order w))) (db_orders d),
       db_waits := filter (\<lambda>w. \<not> stage_in_run d rid (wait_stage_instance_id w)) (db_waits d),
       db_artifacts := filter (\<lambda>a. a_run_id a \<noteq> rid) (db_artifacts d),
       db_emissions := filter (\<lambda>e. \<not> stage_in_run d rid (em_stage_id e)) (db_emissions d),
       db_attachments := filter (\<lambda>a. \<not> order_in_run d rid (at_work_order_id a)) (db_attachments d),
       db_admissions := filter (\<lambda>c. \<not> stage_in_run d rid (ad_stage_id c)) (db_admissions d),
       db_transitions := filter (\<lambda>t. tr_run_id t \<noteq> rid) (db_transitions d)\<rparr>"

definition delete_run :: "string \<Rightarrow> db \<Rightarrow> (string + delete_result) \<times> db" where
  "delete_run rid =
     transaction (\<lambda>d.
       case find_run d rid of
         None \<Rightarrow> Ok (AlreadyDeleted rid, d)
       | Some run \<Rightarrow>
           if run_state run = RunActive
           then Ok (DeleteActiveConflict rid ''run is active; cancel it before deletion'', d)
           else Ok (Deleted rid, delete_cascade rid d))"

section \<open>Straight-through initialization\<close>

record straight_through =
  st_run_id :: string
  st_stage_instance_id :: string
  st_run_unit_id :: string
  st_unit_id :: string
  st_work_order_id :: string
  st_work_order_workflow_id :: string
  st_capability_hash :: string
  st_stage_key :: string
  st_executor_type :: string
  st_resolved_config :: json
  st_parameters :: json
  st_input_snapshot :: "artifact_envelope list"
  st_input_fingerprint :: string
  st_outputs :: "materialized_output list"
  st_created_at :: string

definition straight_contract :: "straight_through \<Rightarrow> stored_contract" where
  "straight_contract inp = StraightContract (st_executor_type inp) (st_resolved_config inp) (st_outputs inp)"

definition straight_request :: "straight_through \<Rightarrow> execution_request" where
  "straight_request inp =
     \<lparr>er_execution_id = st_work_order_id inp, er_stage_instance_id = st_stage_instance_id inp, er_unit_id = st_unit_id inp,
      er_executor_type = st_executor_type inp, er_resolved_config = st_resolved_config inp, er_inputs = st_input_snapshot inp,
      er_declared_outputs = map (\<lambda>out. \<lparr>oc_name = identity_output_name (mo_identity out), oc_artifact_type = mo_artifact_type out,
        oc_required = mo_required out\<rparr>) (st_outputs inp),
      er_expected_artifacts = map (\<lambda>out. \<lparr>ea_unit_id = st_unit_id inp, ea_output_name = identity_output_name (mo_identity out),
        ea_artifact_type = mo_artifact_type out\<rparr>) (filter mo_required (st_outputs inp)),
      er_workspace_source = None\<rparr>"

text \<open>\<open>jsonb_object_agg\<close> over the stored slots against the object of the declared outputs: equal as maps by name.\<close>

definition straight_slots_match :: "straight_through \<Rightarrow> db \<Rightarrow> string \<Rightarrow> bool" where
  "straight_slots_match inp d uid \<longleftrightarrow>
     (let declared = map (\<lambda>out. (identity_output_name (mo_identity out), (mo_artifact_type out, mo_required out, mo_release out))) (rev (st_outputs inp));
          stored = map (\<lambda>s. (identity_output_name (slot_identity s), (slot_artifact_type s, slot_required s, slot_release s)))
            (rev (filter (\<lambda>s. slot_run_unit_id s = uid) (db_slots d)))
      in list_all (\<lambda>k. map_of declared k = map_of stored k) (map fst declared @ map fst stored))"

definition straight_matches :: "straight_through \<Rightarrow> db \<Rightarrow> stage_row \<Rightarrow> unit_row \<Rightarrow> order_row \<Rightarrow> bool" where
  "straight_matches inp d s u w \<longleftrightarrow>
     sr_id s = st_stage_instance_id inp \<and> sr_contract s = straight_contract inp \<and> u_id u = st_run_unit_id inp \<and>
     u_unit_id u = st_unit_id inp \<and> u_parameters u = st_parameters inp \<and> u_input_snapshot u = st_input_snapshot inp \<and>
     u_input_fingerprint u = st_input_fingerprint inp \<and> wo_id (or_order w) = st_work_order_id inp \<and>
     wo_workflow_id (or_order w) = st_work_order_workflow_id inp \<and> or_capability_hash w = st_capability_hash inp \<and>
     straight_slots_match inp d (u_id u)"

text \<open>The first row of the join of stage, unit and initial work order.\<close>

definition straight_existing :: "straight_through \<Rightarrow> db \<Rightarrow> (stage_row \<times> unit_row \<times> order_row) option" where
  "straight_existing inp d =
     (case concat (map (\<lambda>s. concat (map (\<lambda>u. map (\<lambda>w. (s, u, w))
          (filter (\<lambda>w. wo_run_unit_id (or_order w) = u_id u \<and> wo_request_idempotency_key (or_order w) = ''initial'') (db_orders d)))
          (filter (\<lambda>u. u_stage_id u = sr_id s) (db_units d))))
        (filter (v2_stage (st_run_id inp) (st_stage_key inp)) (db_stages d))) of
        [] \<Rightarrow> None
      | r # _ \<Rightarrow> Some r)"

definition straight_stage_row :: "straight_through \<Rightarrow> stage_row" where
  "straight_stage_row inp =
     \<lparr>sr_id = st_stage_instance_id inp, sr_run_id = st_run_id inp, sr_stage_key = st_stage_key inp,
      sr_stage_type = st_executor_type inp, sr_contract = straight_contract inp, sr_attempt_root = None,
      sr_coordinator = ''v2-stage:'' @ st_stage_instance_id inp, sr_state = RunActive, sr_outcome = None,
      sr_closed = True, sr_started_at = st_created_at inp, sr_ended_at = None\<rparr>"

definition straight_unit_row :: "straight_through \<Rightarrow> unit_row" where
  "straight_unit_row inp =
     \<lparr>u_id = st_run_unit_id inp, u_run_id = st_run_id inp, u_stage_id = st_stage_instance_id inp, u_unit_id = st_unit_id inp,
      u_parameters = st_parameters inp, u_input_snapshot = st_input_snapshot inp, u_input_fingerprint = st_input_fingerprint inp,
      u_state = UReady, u_admitted = True, u_admitted_at = None, u_outcome = None, u_fingerprint = None,
      u_created_at = st_created_at inp, u_ended_at = None\<rparr>"

definition straight_order_row :: "straight_through \<Rightarrow> order_row" where
  "straight_order_row inp =
     new_order (st_run_unit_id inp) ReasonInitial (st_input_snapshot inp) (st_input_fingerprint inp) ''initial'' (st_created_at inp)
       \<lparr>mw_id = st_work_order_id inp, mw_workflow_id = st_work_order_workflow_id inp, mw_capability_hash = st_capability_hash inp,
        mw_request = straight_request inp\<rparr>"

text \<open>The inserts, each \<open>ON CONFLICT\<close> on its own key \<open>DO NOTHING\<close>.\<close>

definition straight_unit_insert :: "straight_through \<Rightarrow> db \<Rightarrow> string + db" where
  "straight_unit_insert inp d =
     (if \<exists>u\<in>set (db_units d). u_stage_id u = st_stage_instance_id inp \<and> u_unit_id u = st_unit_id inp then Ok d
      else insert_unit (straight_unit_row inp) d)"

definition straight_slot_insert :: "straight_through \<Rightarrow> materialized_output \<Rightarrow> db \<Rightarrow> string + db" where
  "straight_slot_insert inp out d =
     (let s = new_slot (st_run_unit_id inp) (out\<lparr>mo_identity := ScalarSlot (identity_output_name (mo_identity out))\<rparr>)
      in if find_slot d (slot_key s) \<noteq> None then Ok d
         else if \<not> (\<exists>u\<in>set (db_units d). u_id u = st_run_unit_id inp) then Err ''run_output_slot_run_unit_id_fkey''
         else insert_slot s d)"

definition straight_order_insert :: "straight_through \<Rightarrow> db \<Rightarrow> string + db" where
  "straight_order_insert inp d =
     (if \<exists>w\<in>set (db_orders d). wo_run_unit_id (or_order w) = st_run_unit_id inp \<and> wo_request_idempotency_key (or_order w) = ''initial''
      then Ok d
      else if \<not> (\<exists>u\<in>set (db_units d). u_id u = st_run_unit_id inp) then Err ''work_order_run_unit_id_fkey''
      else insert_order (straight_order_row inp) d)"

definition initialize_straight_through :: "straight_through \<Rightarrow> db \<Rightarrow> (string + unit) \<times> db" where
  "initialize_straight_through inp =
     transaction (\<lambda>d.
       let conflict = Err (''straight-through run '' @ sq (st_run_id inp) @ '' conflicts with its stored initialization'')
       in if find_run d (st_run_id inp) = None then Err (''workflow run '' @ sq (st_run_id inp) @ '' was not found'')
          else if (case List.find (v2_stage (st_run_id inp) (st_stage_key inp)) (db_stages d) of
                     None \<Rightarrow> False
                   | Some s \<Rightarrow> \<not> (sr_id s = st_stage_instance_id inp \<and> sr_contract s = straight_contract inp))
          then conflict
          else case straight_existing inp d of
            Some (s, u, w) \<Rightarrow> if straight_matches inp d s u w then Ok ((), d) else conflict
          | None \<Rightarrow>
              bind_result (insert_stage (straight_stage_row inp) d) (\<lambda>d1.
              bind_result (straight_unit_insert inp d1) (\<lambda>d2.
              bind_result (fold_result (straight_slot_insert inp) (st_outputs inp) d2) (\<lambda>d3.
              bind_result (straight_order_insert inp d3) (\<lambda>d4.
              Ok ((), bump_version (st_run_id inp) d4))))))"

section \<open>Executor attachments and reads\<close>

record work_order_execution =
  we_work_order :: work_order
  we_request :: execution_request

text \<open>A work order without a stored request falls back to its compiled stage contract.\<close>

definition fallback_request :: "order_row \<Rightarrow> unit_row \<Rightarrow> compiled_stage \<Rightarrow> execution_request" where
  "fallback_request w u contract =
     \<lparr>er_execution_id = wo_id (or_order w), er_stage_instance_id = u_stage_id u, er_unit_id = u_unit_id u,
      er_executor_type = cs_executor_type contract, er_resolved_config = definition_config_json (cs_definition_config contract),
      er_inputs = wo_input_snapshot (or_order w),
      er_declared_outputs = map (\<lambda>out. \<lparr>oc_name = co_name out, oc_artifact_type = co_artifact_type out, oc_required = True\<rparr>) (cs_outputs contract),
      er_expected_artifacts = map (\<lambda>out. \<lparr>ea_unit_id = u_unit_id u, ea_output_name = co_name out, ea_artifact_type = co_artifact_type out\<rparr>)
        (cs_outputs contract),
      er_workspace_source = None\<rparr>"

definition find_work_order_execution :: "db \<Rightarrow> string \<Rightarrow> string + work_order_execution option" where
  "find_work_order_execution d i =
     (case owned_order d i of
        None \<Rightarrow> Ok None
      | Some (w, u) \<Rightarrow>
          (case find_stage_row d (u_stage_id u) of
             None \<Rightarrow> Ok None
           | Some s \<Rightarrow>
               (case or_request w of
                  Some request \<Rightarrow> Ok (Some \<lparr>we_work_order = or_order w, we_request = request\<rparr>)
                | None \<Rightarrow>
                    (case sr_contract s of
                       CompiledContract contract \<Rightarrow> Ok (Some \<lparr>we_work_order = or_order w, we_request = fallback_request w u contract\<rparr>)
                     | StraightContract _ _ _ \<Rightarrow> Err ''TypeError: undefined is not an object (evaluating row.stage_contract.executor.executor_type)''))))"

definition ensure_executor_attachment :: "string \<Rightarrow> string \<Rightarrow> string \<Rightarrow> db \<Rightarrow> (string + executor_attachment) \<times> db" where
  "ensure_executor_attachment order executor_type updated_at d =
     (let fresh = \<lparr>at_work_order_id = order, at_executor_type = executor_type, at_external_reference = None, at_health = None,
            at_cleanup_state = CleanupNotNeeded, at_updated_at = updated_at\<rparr>
      in case find_attachment d order of
           None \<Rightarrow>
             if find_order d order = None then (Inl ''executor_attachment_work_order_id_fkey'', d)
             else (Inr fresh, d\<lparr>db_attachments := db_attachments d @ [fresh]\<rparr>)
         | Some row \<Rightarrow>
             if at_executor_type row \<noteq> executor_type
             then (Inl (''work order '' @ sq order @ '' is attached to a different executor''), d)
             else (Inr row, d))"

definition attach_external :: "string \<Rightarrow> external_reference \<Rightarrow> string \<Rightarrow> db \<Rightarrow> db" where
  "attach_external order reference at =
     update_attachments (\<lambda>a. at_work_order_id a = order)
       (\<lambda>a. a\<lparr>at_external_reference := Some reference, at_health := Some (HealthRunning at), at_updated_at := at\<rparr>)"

definition observe_executor :: "string \<Rightarrow> executor_health \<Rightarrow> string \<Rightarrow> db \<Rightarrow> db" where
  "observe_executor order health at =
     update_attachments (\<lambda>a. at_work_order_id a = order) (\<lambda>a. a\<lparr>at_health := Some health, at_updated_at := at\<rparr>)"

definition request_cleanup :: "string \<Rightarrow> string \<Rightarrow> db \<Rightarrow> db" where
  "request_cleanup order at =
     update_attachments (\<lambda>a. at_work_order_id a = order \<and> (at_cleanup_state a = CleanupNotNeeded \<or> at_cleanup_state a = CleanupFailed))
       (\<lambda>a. a\<lparr>at_cleanup_state := CleanupRequested, at_updated_at := at\<rparr>)"

definition finish_cleanup :: "string \<Rightarrow> bool \<Rightarrow> string \<Rightarrow> db \<Rightarrow> db" where
  "finish_cleanup order succeeded at =
     update_attachments (\<lambda>a. at_work_order_id a = order)
       (\<lambda>a. a\<lparr>at_cleanup_state := (if succeeded then CleanupComplete else CleanupFailed), at_updated_at := at\<rparr>)"

end
