(* ===== verification/RunInvariant.thy ===== *)
theory RunInvariant
  imports Control
begin

text \<open>
  The invariant of the run record: what holds of the tables after any sequence of the
  transactions of \<open>storage/postgres-run-record.ts\<close>.
\<close>

section \<open>Identity\<close>

text \<open>
  The columns that identify a row and name its owner. No \<open>UPDATE\<close> of the file writes one of them,
  so only inserts and deletes can change what refers to what.
\<close>

definition stage_ref :: "stage_row \<Rightarrow> string \<times> string" where
  "stage_ref s = (sr_id s, sr_run_id s)"

definition unit_ref :: "unit_row \<Rightarrow> string \<times> string \<times> string \<times> string" where
  "unit_ref u = (u_id u, u_run_id u, u_stage_id u, u_unit_id u)"

definition order_ref :: "order_row \<Rightarrow> string \<times> string" where
  "order_ref w = (wo_id (or_order w), wo_run_unit_id (or_order w))"

definition wait_ref :: "wait \<Rightarrow> string \<times> string \<times> string option \<times> string option \<times> string option \<times> string" where
  "wait_ref w = (wait_id w, wait_stage_instance_id w, wait_run_unit_id w, wait_output_name w, wait_collection_key w, wait_artifact_revision_id w)"

definition artifact_ref :: "artifact_row \<Rightarrow> string \<times> string" where
  "artifact_ref a = (a_id a, a_run_id a)"

record identity =
  id_runs :: "string list"
  id_stages :: "(string \<times> string) list"
  id_units :: "(string \<times> string \<times> string \<times> string) list"
  id_slots :: "(string \<times> string \<times> string option) list"
  id_orders :: "(string \<times> string) list"
  id_waits :: "(string \<times> string \<times> string option \<times> string option \<times> string option \<times> string) list"
  id_artifacts :: "(string \<times> string) list"

definition identity_of :: "db \<Rightarrow> identity" where
  "identity_of d =
     \<lparr>id_runs = map run_id (db_runs d), id_stages = map stage_ref (db_stages d), id_units = map unit_ref (db_units d),
      id_slots = map slot_key (db_slots d), id_orders = map order_ref (db_orders d), id_waits = map wait_ref (db_waits d),
      id_artifacts = map artifact_ref (db_artifacts d)\<rparr>"

text \<open>A run-owned wait names an output and belongs to its unit's stage; another wait names no output.\<close>

fun wait_owned :: "(string \<times> string \<times> string \<times> string) list \<Rightarrow> string \<times> string \<times> string option \<times> string option \<times> 'a \<Rightarrow> bool" where
  "wait_owned units (_, s, None, n, _) \<longleftrightarrow> n = None"
| "wait_owned units (_, s, Some uid, n, _) \<longleftrightarrow> n \<noteq> None \<and> (uid, s) \<in> (\<lambda>(v, r, t, _). (v, t)) ` set units"

text \<open>Keys are unique and every row's owner exists.\<close>

definition identity_ok :: "identity \<Rightarrow> bool" where
  "identity_ok i \<longleftrightarrow>
     distinct (id_runs i) \<and> distinct (map fst (id_stages i)) \<and> distinct (map fst (id_units i)) \<and>
     distinct (map (\<lambda>(_, _, s, u). (s, u)) (id_units i)) \<and> distinct (id_slots i) \<and>
     distinct (map fst (id_orders i)) \<and> distinct (map fst (id_waits i)) \<and> distinct (map fst (id_artifacts i)) \<and>
     (\<forall>(s, r)\<in>set (id_stages i). r \<in> set (id_runs i)) \<and>
     (\<forall>(u, r, s, _)\<in>set (id_units i). (s, r) \<in> set (id_stages i)) \<and>
     (\<forall>(u, _)\<in>set (id_slots i). u \<in> fst ` set (id_units i)) \<and>
     (\<forall>(_, u)\<in>set (id_orders i). u \<in> fst ` set (id_units i)) \<and>
     (\<forall>w\<in>set (id_waits i). wait_owned (id_units i) w)"

lemma wait_owned_mono: "wait_owned units w \<Longrightarrow> set units \<subseteq> set units' \<Longrightarrow> wait_owned units' w"
  by (cases "(units, w)" rule: wait_owned.cases) force+

section \<open>The other parts of the invariant\<close>

text \<open>A pending slot names an open wait on its artifact, and an open wait is named by its pending slot.\<close>

definition parked_ok :: "run_output_slot list \<Rightarrow> wait list \<Rightarrow> bool" where
  "parked_ok slots waits \<longleftrightarrow>
     (\<forall>s\<in>set slots. \<forall>a w t. slot_state s = SlotPending a w t \<longrightarrow>
        (\<exists>x\<in>set waits. wait_id x = w \<and> wait_is_open x \<and> wait_slot_key x = Some (slot_key s) \<and> wait_artifact_revision_id x = a)) \<and>
     (\<forall>x\<in>set waits. \<forall>k. wait_is_open x \<and> wait_slot_key x = Some k \<longrightarrow>
        (\<exists>s\<in>set slots. slot_key s = k \<and> (\<exists>t. slot_state s = SlotPending (wait_artifact_revision_id x) (wait_id x) t)))"

text \<open>The artifact a slot names is stored, and belongs to the slot's run.\<close>

definition held_ok :: "run_output_slot list \<Rightarrow> unit_row list \<Rightarrow> artifact_row list \<Rightarrow> bool" where
  "held_ok slots units artifacts \<longleftrightarrow>
     (\<forall>s\<in>set slots. \<forall>a. slot_artifact (slot_state s) = Some a \<longrightarrow>
        (\<exists>u\<in>set units. u_id u = slot_run_unit_id s \<and> (a, u_run_id u) \<in> artifact_ref ` set artifacts))"

text \<open>An audit row names one increment of its run's version, and one already made.\<close>

definition audit_ok :: "workflow_run list \<Rightarrow> transition list \<Rightarrow> bool" where
  "audit_ok runs ts \<longleftrightarrow>
     (\<forall>t\<in>set ts. tr_resulting t = tr_prior t + 1 \<and>
        (\<exists>r\<in>set runs. run_id r = tr_run_id t \<and> tr_resulting t \<le> run_record_version r))"

text \<open>A unit has at most one available or started work order.\<close>

definition order_active :: "order_row \<Rightarrow> bool" where
  "order_active w \<longleftrightarrow> active_order (wo_state (or_order w))"

definition one_active :: "order_row list \<Rightarrow> bool" where
  "one_active orders \<longleftrightarrow>
     (\<forall>v\<in>set orders. \<forall>w\<in>set orders. order_active v \<and> order_active w \<and>
        wo_run_unit_id (or_order v) = wo_run_unit_id (or_order w) \<longrightarrow> wo_id (or_order v) = wo_id (or_order w))"

text \<open>Ended rows, and only they, carry an outcome and the time they ended.\<close>

definition run_shape :: "workflow_run \<Rightarrow> bool" where
  "run_shape r \<longleftrightarrow> (run_state r = RunActive \<longleftrightarrow> run_outcome r = None) \<and> (run_state r = RunActive \<longleftrightarrow> run_ended_at r = None)"

definition stage_shape :: "stage_row \<Rightarrow> bool" where
  "stage_shape s \<longleftrightarrow> (sr_state s = RunActive \<longleftrightarrow> sr_outcome s = None) \<and> (sr_state s = RunActive \<longleftrightarrow> sr_ended_at s = None)"

definition unit_shape :: "unit_row \<Rightarrow> bool" where
  "unit_shape u \<longleftrightarrow> (terminal_unit (u_state u) \<longleftrightarrow> u_outcome u \<noteq> None) \<and> (terminal_unit (u_state u) \<longleftrightarrow> u_ended_at u \<noteq> None)"

definition order_shape :: "order_row \<Rightarrow> bool" where
  "order_shape w \<longleftrightarrow> (active_order (wo_state (or_order w)) \<longleftrightarrow> wo_completed_at (or_order w) = None)"

definition shape_ok :: "db \<Rightarrow> bool" where
  "shape_ok d \<longleftrightarrow>
     list_all run_shape (db_runs d) \<and> list_all stage_shape (db_stages d) \<and> list_all unit_shape (db_units d) \<and>
     list_all order_shape (db_orders d)"

definition store_ok :: "db \<Rightarrow> bool" where
  "store_ok d \<longleftrightarrow>
     identity_ok (identity_of d) \<and> parked_ok (db_slots d) (db_waits d) \<and>
     held_ok (db_slots d) (db_units d) (db_artifacts d) \<and> audit_ok (db_runs d) (db_transitions d) \<and>
     one_active (db_orders d) \<and> shape_ok d"

lemmas row_update_defs = update_runs_def update_stages_def update_units_def update_slots_def update_orders_def
  update_waits_def update_artifacts_def update_attachments_def

lemmas ref_defs = stage_ref_def unit_ref_def order_ref_def wait_ref_def artifact_ref_def slot_key_def

section \<open>Row updates\<close>

lemma map_update_where: "(\<And>x. p x \<Longrightarrow> key (f x) = key x) \<Longrightarrow> map key (update_where p f xs) = map key xs"
  by (simp add: update_where_def)

lemma set_update_where: "set (update_where p f xs) = (\<lambda>x. if p x then f x else x) ` set xs"
  by (simp add: update_where_def)

lemma in_update_where: "y \<in> set (update_where p f xs) \<longleftrightarrow> (\<exists>x\<in>set xs. y = (if p x then f x else x))"
  by (simp only: update_where_def set_map image_iff)

lemma image_update_where: "(\<And>x. p x \<Longrightarrow> key (f x) = key x) \<Longrightarrow> key ` set (update_where p f xs) = key ` set xs"
  using map_update_where [of p key f xs] by (metis set_map)

lemma list_all_update_where:
  "list_all P xs \<Longrightarrow> (\<And>x. p x \<Longrightarrow> P x \<Longrightarrow> P (f x)) \<Longrightarrow> list_all P (update_where p f xs)"
  by (auto simp: update_where_def list_all_iff)

lemma update_where_cong_id: "(\<And>x. x \<in> set xs \<Longrightarrow> \<not> p x) \<Longrightarrow> update_where p f xs = xs"
  by (simp add: update_where_def map_idI)

text \<open>The tables the invariant does not read.\<close>

lemma store_ok_frame [simp]:
  "store_ok (d\<lparr>db_policies := x1\<rparr>) = store_ok d" "store_ok (d\<lparr>db_dependencies := x2\<rparr>) = store_ok d"
  "store_ok (d\<lparr>db_emissions := x3\<rparr>) = store_ok d" "store_ok (d\<lparr>db_attachments := x4\<rparr>) = store_ok d"
  "store_ok (d\<lparr>db_admissions := x5\<rparr>) = store_ok d"
  by (simp_all add: store_ok_def identity_of_def shape_ok_def)

lemma store_ok_update_stages:
  assumes "store_ok d" and "\<And>s. p s \<Longrightarrow> stage_ref (f s) = stage_ref s" and "\<And>s. p s \<Longrightarrow> stage_shape s \<Longrightarrow> stage_shape (f s)"
  shows "store_ok (update_stages p f d)"
proof -
  have "map stage_ref (update_where p f (db_stages d)) = map stage_ref (db_stages d)" using assms(2) by (rule map_update_where)
  moreover have "list_all stage_shape (update_where p f (db_stages d))"
    using assms(1,3) by (auto simp: store_ok_def shape_ok_def intro: list_all_update_where)
  ultimately show ?thesis using assms(1) by (simp add: store_ok_def identity_of_def shape_ok_def update_stages_def)
qed

lemma held_ok_units:
  assumes "held_ok slots units artifacts" and "map unit_ref units' = map unit_ref units"
  shows "held_ok slots units' artifacts"
proof -
  have "unit_ref ` set units' = unit_ref ` set units" using assms(2) by (metis set_map)
  then have "\<exists>v\<in>set units'. unit_ref v = unit_ref u" if "u \<in> set units" for u using that by (metis imageE image_eqI)
  then show ?thesis using assms(1) unfolding held_ok_def unit_ref_def by (metis Pair_inject)
qed

lemma store_ok_update_units:
  assumes "store_ok d" and "\<And>u. p u \<Longrightarrow> unit_ref (f u) = unit_ref u" and "\<And>u. p u \<Longrightarrow> unit_shape u \<Longrightarrow> unit_shape (f u)"
  shows "store_ok (update_units p f d)"
proof -
  have keys: "map unit_ref (update_where p f (db_units d)) = map unit_ref (db_units d)" using assms(2) by (rule map_update_where)
  moreover have "list_all unit_shape (update_where p f (db_units d))"
    using assms(1,3) by (auto simp: store_ok_def shape_ok_def intro: list_all_update_where)
  ultimately show ?thesis using assms(1) held_ok_units [OF _ keys] by (simp add: store_ok_def identity_of_def shape_ok_def update_units_def)
qed

lemma one_active_update:
  assumes "one_active ws" and "\<And>w. p w \<Longrightarrow> order_ref (f w) = order_ref w" and "\<And>w. p w \<Longrightarrow> order_active (f w) \<Longrightarrow> order_active w"
  shows "one_active (update_where p f ws)"
  unfolding one_active_def
proof (intro ballI impI)
  fix v' w' assume "v' \<in> set (update_where p f ws)" "w' \<in> set (update_where p f ws)"
    and act: "order_active v' \<and> order_active w' \<and> wo_run_unit_id (or_order v') = wo_run_unit_id (or_order w')"
  then obtain v w where vw: "v \<in> set ws" "w \<in> set ws" "v' = (if p v then f v else v)" "w' = (if p w then f w else w)"
    by (auto simp: set_update_where)
  have "order_ref v' = order_ref v" "order_ref w' = order_ref w" "order_active v" "order_active w"
    using vw assms(2,3) act by (auto split: if_splits)
  then show "wo_id (or_order v') = wo_id (or_order w')"
    using assms(1) vw(1,2) act unfolding one_active_def order_ref_def by (metis Pair_inject)
qed

lemma store_ok_update_orders:
  assumes "store_ok d" and "\<And>w. p w \<Longrightarrow> order_ref (f w) = order_ref w" and "\<And>w. p w \<Longrightarrow> order_shape w \<Longrightarrow> order_shape (f w)"
    and "\<And>w. p w \<Longrightarrow> order_active (f w) \<Longrightarrow> order_active w"
  shows "store_ok (update_orders p f d)"
proof -
  have "map order_ref (update_where p f (db_orders d)) = map order_ref (db_orders d)" using assms(2) by (rule map_update_where)
  moreover have "list_all order_shape (update_where p f (db_orders d))"
    using assms(1,3) by (auto simp: store_ok_def shape_ok_def intro: list_all_update_where)
  moreover have "one_active (update_where p f (db_orders d))"
    using assms(1,2,4) by (intro one_active_update) (auto simp: store_ok_def)
  ultimately show ?thesis using assms(1) by (simp add: store_ok_def identity_of_def shape_ok_def update_orders_def)
qed

lemma store_ok_update_artifacts:
  assumes "store_ok d" and "\<And>a. p a \<Longrightarrow> artifact_ref (f a) = artifact_ref a"
  shows "store_ok (update_artifacts p f d)"
proof -
  have keys: "map artifact_ref (update_where p f (db_artifacts d)) = map artifact_ref (db_artifacts d)" using assms(2) by (rule map_update_where)
  then have "artifact_ref ` set (update_where p f (db_artifacts d)) = artifact_ref ` set (db_artifacts d)" by (metis set_map)
  then show ?thesis using assms(1) keys by (simp add: store_ok_def identity_of_def shape_ok_def update_artifacts_def held_ok_def)
qed

lemma store_ok_update_attachments [simp]: "store_ok (update_attachments p f d) = store_ok d"
  by (simp add: update_attachments_def)

section \<open>Runs and audit rows\<close>

lemma store_ok_update_runs:
  assumes "store_ok d" and "\<And>r. p r \<Longrightarrow> run_id (f r) = run_id r" and "\<And>r. p r \<Longrightarrow> run_shape r \<Longrightarrow> run_shape (f r)"
    and "\<And>r. r \<in> set (db_runs d) \<Longrightarrow> p r \<Longrightarrow> run_record_version r \<le> run_record_version (f r)"
  shows "store_ok (update_runs p f d)"
proof -
  let ?runs = "update_where p f (db_runs d)"
  have "map run_id ?runs = map run_id (db_runs d)" using assms(2) by (rule map_update_where)
  moreover have "list_all run_shape ?runs"
    using assms(1,3) by (auto simp: store_ok_def shape_ok_def intro: list_all_update_where)
  moreover have "audit_ok ?runs (db_transitions d)"
    unfolding audit_ok_def
  proof
    fix t assume "t \<in> set (db_transitions d)"
    then obtain r where r: "tr_resulting t = tr_prior t + 1" "r \<in> set (db_runs d)" "run_id r = tr_run_id t" "tr_resulting t \<le> run_record_version r"
      using assms(1) by (auto simp: store_ok_def audit_ok_def)
    let ?r = "if p r then f r else r"
    have "?r \<in> set ?runs" using r(2) by (auto simp: set_update_where)
    moreover have "run_id ?r = tr_run_id t" "tr_resulting t \<le> run_record_version ?r"
      using r assms(2) assms(4) [OF r(2)] by (auto intro: le_trans)
    ultimately show "tr_resulting t = tr_prior t + 1 \<and> (\<exists>r\<in>set ?runs. run_id r = tr_run_id t \<and> tr_resulting t \<le> run_record_version r)"
      using r(1) by blast
  qed
  ultimately show ?thesis using assms(1) by (simp add: store_ok_def identity_of_def shape_ok_def update_runs_def)
qed

lemma find_update_runs:
  "(\<And>r. p r \<Longrightarrow> run_id (f r) = run_id r) \<Longrightarrow>
   find_run (update_runs p f d) i = map_option (\<lambda>r. if p r then f r else r) (find_run d i)"
proof -
  assume "\<And>r. p r \<Longrightarrow> run_id (f r) = run_id r"
  then have "List.find (\<lambda>r. run_id r = i) (map (\<lambda>r. if p r then f r else r) rs) =
      map_option (\<lambda>r. if p r then f r else r) (List.find (\<lambda>r. run_id r = i) rs)" for rs
    by (induction rs) auto
  then show ?thesis by (simp add: find_run_def update_runs_def update_where_def)
qed

lemma find_run_bump [simp]:
  "find_run (bump_version i d) j =
     map_option (\<lambda>r. if run_id r = i then r\<lparr>run_record_version := run_record_version r + 1\<rparr> else r) (find_run d j)"
  unfolding bump_version_def by (subst find_update_runs) simp_all

lemma find_run_id: "find_run d i = Some r \<Longrightarrow> run_id r = i \<and> r \<in> set (db_runs d)"
  by (auto simp: find_run_def dest: find_Some_set)

lemma find_run_None: "find_run d i = None \<longleftrightarrow> i \<notin> run_id ` set (db_runs d)"
  by (auto simp: find_run_def find_None_set)

lemma currentVersion_bump:
  "find_run d i = Some r \<Longrightarrow> currentVersion (bump_version i d) i = run_record_version r + 1"
  using find_run_id [of d i r] by (simp add: currentVersion_def)

lemma store_ok_bump: "store_ok d \<Longrightarrow> store_ok (bump_version i d)"
  unfolding bump_version_def by (rule store_ok_update_runs) (auto simp: run_shape_def)

lemma insertTransition_Inr:
  "insertTransition p prior resulting d = Inr d' \<longleftrightarrow>
     find_run d (tr_run_id p) \<noteq> None \<and>
     d' = d\<lparr>db_transitions := db_transitions d @ [pending_transition.extend p \<lparr>tr_prior = prior, tr_resulting = resulting\<rparr>]\<rparr>"
  by (auto simp: insertTransition_def)

lemma store_ok_insertTransition:
  assumes "store_ok d" and "insertTransition p prior resulting d = Inr d'" and "resulting = prior + 1"
    and "resulting \<le> currentVersion d (tr_run_id p)"
  shows "store_ok d'"
proof -
  obtain r where r: "find_run d (tr_run_id p) = Some r"
    and d': "d' = d\<lparr>db_transitions := db_transitions d @ [pending_transition.extend p \<lparr>tr_prior = prior, tr_resulting = resulting\<rparr>]\<rparr>"
    using assms(2) by (auto simp: insertTransition_Inr)
  have "r \<in> set (db_runs d)" "run_id r = tr_run_id p" "resulting \<le> run_record_version r"
    using find_run_id [OF r] assms(4) r by (auto simp: currentVersion_def)
  then have "audit_ok (db_runs d) (db_transitions d')"
    using assms(1,3) unfolding d' store_ok_def by (fastforce simp: audit_ok_def pending_transition.extend_def)
  then show ?thesis using assms(1) unfolding d' by (simp add: store_ok_def identity_of_def shape_ok_def)
qed

lemma store_ok_record_transition:
  assumes "store_ok d" and "record_transition p d = Inr (v, d')"
  shows "store_ok d'"
proof -
  let ?d = "bump_version (tr_run_id p) d"
  have ins: "insertTransition p (currentVersion ?d (tr_run_id p) - 1) (currentVersion ?d (tr_run_id p)) ?d = Inr d'"
    using assms(2) by (auto simp: record_transition_def Let_def)
  then obtain r where "find_run d (tr_run_id p) = Some r" by (auto simp: insertTransition_Inr)
  then have "currentVersion ?d (tr_run_id p) = run_record_version r + 1" by (rule currentVersion_bump)
  then show ?thesis using store_ok_insertTransition [OF store_ok_bump [OF assms(1)] ins] by simp
qed

lemma insertTransition_version:
  "insertTransition p prior resulting d = Inr d' \<Longrightarrow> currentVersion d' i = currentVersion d i"
  by (auto simp: insertTransition_Inr currentVersion_def find_run_def)

lemma store_ok_commit_batch:
  assumes "store_ok d" and "commit_batch i effect d = Inr (v, d')" and "\<forall>p\<in>set (fx_pending effect). tr_run_id p = i"
  shows "store_ok d'"
proof (cases "fx_applied effect")
  case False
  then show ?thesis using assms by (simp add: commit_batch_def)
next
  case True
  let ?d = "bump_version i d" and ?v = "currentVersion (bump_version i d) i"
  have fold: "fold_result (\<lambda>p. insertTransition p (?v - 1) ?v) (fx_pending effect) ?d = Inr d'"
    using assms(2) True by (auto simp: commit_batch_def Let_def)
  have "store_ok d' \<and> currentVersion d' i = ?v"
  proof (rule fold_result_invariant [OF fold])
    show "store_ok ?d \<and> currentVersion ?d i = ?v" using assms(1) by (simp add: store_ok_bump)
  next
    fix p e e' assume p: "p \<in> set (fx_pending effect)" and e: "store_ok e \<and> currentVersion e i = ?v"
      and ins: "insertTransition p (?v - 1) ?v e = Inr e'"
    from p assms(3) have i: "tr_run_id p = i" by simp
    have "find_run e i \<noteq> None" using ins i by (simp add: insertTransition_Inr)
    moreover have "find_run ?d i = None \<Longrightarrow> ?v = 0" by (simp add: currentVersion_def)
    ultimately have "?v > 0 \<or> find_run d i = None"
      using currentVersion_bump [of d i] by (cases "find_run d i") auto
    moreover have "find_run d i \<noteq> None"
    proof
      assume none: "find_run d i = None"
      have "fold_result (\<lambda>p. insertTransition p (?v - 1) ?v) (fx_pending effect) ?d = Inl ''run_transition_run_id_fkey''"
        using p assms(3) none by (cases "fx_pending effect") (auto simp: insertTransition_def)
      then show False using fold by simp
    qed
    ultimately have "?v = ?v - 1 + 1" by simp
    then show "store_ok e' \<and> currentVersion e' i = ?v"
      using store_ok_insertTransition [OF conjunct1 [OF e] ins] insertTransition_version [OF ins] e i by simp
  qed
  then show ?thesis ..
qed

section \<open>Inserts\<close>

lemma identity_ok_stage:
  "identity_ok i \<Longrightarrow> s \<notin> fst ` set (id_stages i) \<Longrightarrow> r \<in> set (id_runs i) \<Longrightarrow>
   identity_ok (i\<lparr>id_stages := id_stages i @ [(s, r)]\<rparr>)"
  by (auto simp: identity_ok_def)

lemma identity_ok_unit:
  assumes "identity_ok i" and "u \<notin> fst ` set (id_units i)" and "(s, n) \<notin> (\<lambda>(_, _, s, n). (s, n)) ` set (id_units i)"
    and "(s, r) \<in> set (id_stages i)"
  shows "identity_ok (i\<lparr>id_units := id_units i @ [(u, r, s, n)]\<rparr>)"
proof -
  have "wait_owned (id_units i @ [(u, r, s, n)]) w" if "wait_owned (id_units i) w" for w using that by (rule wait_owned_mono) auto
  moreover have "(case x of (v, _) \<Rightarrow> v \<in> fst ` set (id_units i @ [(u, r, s, n)]))" if "case x of (v, _) \<Rightarrow> v \<in> fst ` set (id_units i)"
    for x :: "string \<times> 'a" using that by auto
  moreover have "(case x of (_, v) \<Rightarrow> v \<in> fst ` set (id_units i @ [(u, r, s, n)]))" if "case x of (_, v) \<Rightarrow> v \<in> fst ` set (id_units i)"
    for x :: "string \<times> string" using that by auto
  ultimately show ?thesis using assms unfolding identity_ok_def by (simp split del: if_split) blast
qed

lemma identity_ok_slot:
  "identity_ok i \<Longrightarrow> (u, k) \<notin> set (id_slots i) \<Longrightarrow> u \<in> fst ` set (id_units i) \<Longrightarrow>
   identity_ok (i\<lparr>id_slots := id_slots i @ [(u, k)]\<rparr>)"
  by (simp add: identity_ok_def)

lemma identity_ok_order:
  "identity_ok i \<Longrightarrow> w \<notin> fst ` set (id_orders i) \<Longrightarrow> u \<in> fst ` set (id_units i) \<Longrightarrow>
   identity_ok (i\<lparr>id_orders := id_orders i @ [(w, u)]\<rparr>)"
  by (simp add: identity_ok_def)

lemma identity_ok_artifact:
  "identity_ok i \<Longrightarrow> a \<notin> fst ` set (id_artifacts i) \<Longrightarrow> identity_ok (i\<lparr>id_artifacts := id_artifacts i @ [(a, r)]\<rparr>)"
  by (simp add: identity_ok_def)

lemma identity_ok_wait:
  assumes "identity_ok i" and "w \<notin> fst ` set (id_waits i)" and "(u, r, s, v) \<in> set (id_units i)"
  shows "identity_ok (i\<lparr>id_waits := id_waits i @ [(w, s, Some u, Some n, k, a)]\<rparr>)"
proof -
  have "wait_owned (id_units i) (w, s, Some u, Some n, k, a)" using assms(3) by force
  then show ?thesis using assms(1,2) by (simp add: identity_ok_def)
qed

lemma one_active_append:
  assumes "one_active ws" and "\<And>v. v \<in> set ws \<Longrightarrow> wo_run_unit_id (or_order v) = wo_run_unit_id (or_order w) \<Longrightarrow> \<not> order_active v"
  shows "one_active (ws @ [w])"
  unfolding one_active_def
proof (intro ballI impI)
  fix u v assume "u \<in> set (ws @ [w])" "v \<in> set (ws @ [w])"
    and act: "order_active u \<and> order_active v \<and> wo_run_unit_id (or_order u) = wo_run_unit_id (or_order v)"
  then consider "u \<in> set ws" "v \<in> set ws" | "u = w" "v = w" | "u \<in> set ws" "v = w" | "u = w" "v \<in> set ws" by auto
  then show "wo_id (or_order u) = wo_id (or_order v)"
  proof cases
    case 1
    then show ?thesis using act assms(1) unfolding one_active_def by blast
  qed (use act assms(2) [of u] assms(2) [of v] in auto)
qed

lemma held_ok_artifacts:
  "held_ok slots units artifacts \<Longrightarrow> set artifacts \<subseteq> set artifacts' \<Longrightarrow> held_ok slots units artifacts'"
  unfolding held_ok_def by (meson image_mono subsetD)

lemma identity_of_units: "fst ` set (id_units (identity_of d)) = u_id ` set (db_units d)"
  by (force simp: identity_of_def unit_ref_def)

lemma store_ok_insert_stage:
  assumes "store_ok d" and "insert_stage s d = Inr d'" and "find_run d (sr_run_id s) \<noteq> None" and "stage_shape s"
  shows "store_ok d'"
proof (cases "d' = d")
  case False
  then have d': "d' = d\<lparr>db_stages := db_stages d @ [s]\<rparr>" and new: "sr_id s \<notin> sr_id ` set (db_stages d)"
    using assms(2) by (auto simp: insert_stage_def split: if_splits)
  have "identity_of d' = (identity_of d)\<lparr>id_stages := id_stages (identity_of d) @ [stage_ref s]\<rparr>"
    by (simp add: d' identity_of_def)
  moreover have "sr_id s \<notin> fst ` set (id_stages (identity_of d))" "sr_run_id s \<in> set (id_runs (identity_of d))"
    using new assms(3) by (auto simp: identity_of_def stage_ref_def find_run_None)
  ultimately have "identity_ok (identity_of d')"
    using assms(1) by (simp add: store_ok_def stage_ref_def identity_ok_stage)
  then show ?thesis using assms(1,4) unfolding d' by (simp add: store_ok_def shape_ok_def)
qed (use assms in simp)

lemma store_ok_insert_policy: "store_ok d \<Longrightarrow> insert_policy x d = Inr d' \<Longrightarrow> store_ok d'"
  by (auto simp: insert_policy_def split: if_splits)

lemma store_ok_insert_dependency: "store_ok d \<Longrightarrow> insert_dependency x d = Inr d' \<Longrightarrow> store_ok d'"
  by (auto simp: insert_dependency_def split: if_splits)

lemma store_ok_insert_emission: "store_ok d \<Longrightarrow> insert_emission x d = Inr d' \<Longrightarrow> store_ok d'"
  by (auto simp: insert_emission_def split: if_splits)

lemma store_ok_insert_admission: "store_ok d \<Longrightarrow> insert_admission x d = Inr d' \<Longrightarrow> store_ok d'"
  by (auto simp: insert_admission_def split: if_splits)

lemma store_ok_insert_unit:
  assumes "store_ok d" and "insert_unit u d = Inr d'" and "(u_stage_id u, u_run_id u) \<in> stage_ref ` set (db_stages d)" and "unit_shape u"
  shows "store_ok d'"
proof -
  have d': "d' = d\<lparr>db_units := db_units d @ [u]\<rparr>" and new: "u_id u \<notin> u_id ` set (db_units d)"
    and new2: "(u_stage_id u, u_unit_id u) \<notin> (\<lambda>v. (u_stage_id v, u_unit_id v)) ` set (db_units d)"
    using assms(2) by (auto simp: insert_unit_def split: if_splits)
  have "identity_of d' = (identity_of d)\<lparr>id_units := id_units (identity_of d) @ [unit_ref u]\<rparr>"
    by (simp add: d' identity_of_def)
  moreover have "u_id u \<notin> fst ` set (id_units (identity_of d))" "(u_stage_id u, u_run_id u) \<in> set (id_stages (identity_of d))"
    "(u_stage_id u, u_unit_id u) \<notin> (\<lambda>(_, _, s, n). (s, n)) ` set (id_units (identity_of d))"
    using new new2 assms(3) by (auto simp: identity_of_def unit_ref_def image_iff)
  ultimately have "identity_ok (identity_of d')"
    using assms(1) by (simp add: store_ok_def unit_ref_def identity_ok_unit)
  moreover have "held_ok (db_slots d') (db_units d') (db_artifacts d')"
    using assms(1) unfolding d' store_ok_def held_ok_def by force
  ultimately show ?thesis using assms(1,4) unfolding d' by (simp add: store_ok_def shape_ok_def)
qed

lemma store_ok_insert_slot:
  assumes "store_ok d" and "insert_slot s d = Inr d'" and "slot_run_unit_id s \<in> u_id ` set (db_units d)" and "slot_state s = SlotEmpty"
  shows "store_ok d'"
proof -
  have d': "d' = d\<lparr>db_slots := db_slots d @ [s]\<rparr>" and new: "slot_key s \<notin> slot_key ` set (db_slots d)"
    using assms(2) by (auto simp: insert_slot_def find_slot_def find_None_set split: if_splits)
  have "identity_of d' = (identity_of d)\<lparr>id_slots := id_slots (identity_of d) @ [slot_key s]\<rparr>"
    by (simp add: d' identity_of_def)
  moreover have "slot_key s \<notin> set (id_slots (identity_of d))" using new by (simp add: identity_of_def)
  ultimately have "identity_ok (identity_of d')"
    using assms(1,3) by (simp add: store_ok_def identity_of_units slot_key_def identity_ok_slot)
  moreover have "held_ok (db_slots d') (db_units d') (db_artifacts d')" "parked_ok (db_slots d') (db_waits d')"
    using assms(1,4) unfolding d' store_ok_def held_ok_def parked_ok_def by auto
  ultimately show ?thesis using assms(1) unfolding d' by (simp add: store_ok_def shape_ok_def)
qed

lemma store_ok_insert_order:
  assumes "store_ok d" and "insert_order w d = Inr d'" and "wo_run_unit_id (or_order w) \<in> u_id ` set (db_units d)"
    and "order_shape w" and "active_orders d (wo_run_unit_id (or_order w)) = []"
  shows "store_ok d'"
proof -
  have d': "d' = d\<lparr>db_orders := db_orders d @ [w]\<rparr>" and new: "wo_id (or_order w) \<notin> (\<lambda>v. wo_id (or_order v)) ` set (db_orders d)"
    using assms(2) by (auto simp: insert_order_def find_order_def find_None_set split: if_splits)
  have "identity_of d' = (identity_of d)\<lparr>id_orders := id_orders (identity_of d) @ [order_ref w]\<rparr>"
    by (simp add: d' identity_of_def)
  moreover have "wo_id (or_order w) \<notin> fst ` set (id_orders (identity_of d))"
    using new by (force simp: identity_of_def order_ref_def)
  ultimately have "identity_ok (identity_of d')"
    using assms(1,3) by (simp add: store_ok_def identity_of_units order_ref_def identity_ok_order)
  moreover have "one_active (db_orders d')"
  proof -
    have "\<not> order_active v" if "v \<in> set (db_orders d)" "wo_run_unit_id (or_order v) = wo_run_unit_id (or_order w)" for v
      using assms(5) that by (simp add: active_orders_def filter_empty_conv order_active_def)
    moreover have "one_active (db_orders d)" using assms(1) by (simp add: store_ok_def)
    ultimately show ?thesis unfolding d' by (simp add: one_active_append)
  qed
  ultimately show ?thesis using assms(1,4) unfolding d' by (simp add: store_ok_def shape_ok_def)
qed

lemma store_ok_insert_artifact:
  assumes "store_ok d" and "insert_artifact a d = Inr d'"
  shows "store_ok d'"
proof -
  have d': "d' = d\<lparr>db_artifacts := db_artifacts d @ [a]\<rparr>" and new: "a_id a \<notin> a_id ` set (db_artifacts d)"
    using assms(2) by (auto simp: insert_artifact_def split: if_splits)
  have "identity_of d' = (identity_of d)\<lparr>id_artifacts := id_artifacts (identity_of d) @ [artifact_ref a]\<rparr>"
    by (simp add: d' identity_of_def)
  moreover have "a_id a \<notin> fst ` set (id_artifacts (identity_of d))" using new by (force simp: identity_of_def artifact_ref_def)
  ultimately have "identity_ok (identity_of d')" using assms(1) by (simp add: store_ok_def artifact_ref_def identity_ok_artifact)
  moreover have "held_ok (db_slots d') (db_units d') (db_artifacts d')"
    using assms(1) held_ok_artifacts [of "db_slots d" "db_units d" "db_artifacts d" "db_artifacts d @ [a]"] unfolding d' store_ok_def by auto
  ultimately show ?thesis using assms(1) unfolding d' by (simp add: store_ok_def shape_ok_def)
qed

section \<open>Slots and their waits\<close>

text \<open>
  An update of slots and waits keeps the pairing when each pending slot and its open wait are
  either both left alone or both ended.
\<close>

lemma parked_ok_map:
  assumes parked: "parked_ok slots waits"
    and keys: "\<And>s. slot_key (fs s) = slot_key s" "\<And>x. wait_ref (fw x) = wait_ref x"
    and slots: "\<And>s. s \<in> set slots \<Longrightarrow> fs s = s \<or> \<not> is_pending (slot_state (fs s))"
    and waits: "\<And>x. x \<in> set waits \<Longrightarrow> fw x = x \<or> \<not> wait_is_open (fw x)"
    and pairs: "\<And>s x a t. s \<in> set slots \<Longrightarrow> x \<in> set waits \<Longrightarrow> slot_state s = SlotPending a (wait_id x) t \<Longrightarrow> wait_is_open x \<Longrightarrow>
      wait_slot_key x = Some (slot_key s) \<Longrightarrow> (is_pending (slot_state (fs s)) \<longleftrightarrow> wait_is_open (fw x))"
  shows "parked_ok (map fs slots) (map fw waits)"
proof -
  have key: "wait_slot_key (fw x) = wait_slot_key x" "wait_id (fw x) = wait_id x" "wait_artifact_revision_id (fw x) = wait_artifact_revision_id x" for x
    using keys(2) [of x] by (auto simp: wait_ref_def wait_slot_key_def split: option.splits)
  have "\<exists>x\<in>set waits. wait_id x = w \<and> wait_is_open (fw x) \<and> wait_slot_key x = Some (slot_key s) \<and> wait_artifact_revision_id x = a"
    if inS: "s \<in> set slots" and pend: "slot_state (fs s) = SlotPending a w t" for s a w t
  proof -
    have s: "fs s = s" using slots [OF inS] pend by auto
    then have "slot_state s = SlotPending a w t" using pend by simp
    then obtain x where x: "x \<in> set waits" "wait_id x = w" "wait_is_open x" "wait_slot_key x = Some (slot_key s)" "wait_artifact_revision_id x = a"
      using parked inS unfolding parked_ok_def by blast
    then have "wait_is_open (fw x)" using pairs [OF inS x(1)] pend s x by auto
    then show ?thesis using x by blast
  qed
  moreover have "\<exists>s\<in>set slots. slot_key s = k \<and> (\<exists>t. slot_state (fs s) = SlotPending (wait_artifact_revision_id x) (wait_id x) t)"
    if inW: "x \<in> set waits" and opn: "wait_is_open (fw x)" and key: "wait_slot_key x = Some k" for x k
  proof -
    have x: "fw x = x" using waits [OF inW] opn by auto
    then have "wait_is_open x" using opn by simp
    then obtain s t where s: "s \<in> set slots" "slot_key s = k" "slot_state s = SlotPending (wait_artifact_revision_id x) (wait_id x) t"
      using parked inW key unfolding parked_ok_def by blast
    then have "is_pending (slot_state (fs s))" using pairs [OF s(1) inW s(3)] opn key x by auto
    then have "fs s = s" using slots [OF s(1)] by auto
    then show ?thesis using s by auto
  qed
  ultimately show ?thesis by (auto simp: parked_ok_def keys(1) key)
qed

lemma held_ok_map:
  assumes "held_ok slots units artifacts" and "\<And>s. slot_run_unit_id (fs s) = slot_run_unit_id s"
    and "\<And>s a. s \<in> set slots \<Longrightarrow> slot_artifact (slot_state (fs s)) = Some a \<Longrightarrow> slot_artifact (slot_state s) = Some a"
  shows "held_ok (map fs slots) units artifacts"
  using assms unfolding held_ok_def by (auto simp: assms(2))

lemma store_ok_slots_waits:
  assumes "store_ok d" and "d' = d\<lparr>db_slots := map fs (db_slots d), db_waits := map fw (db_waits d)\<rparr>"
    and "\<And>s. slot_key (fs s) = slot_key s" "\<And>x. wait_ref (fw x) = wait_ref x"
    and "parked_ok (db_slots d') (db_waits d')" and "held_ok (db_slots d') (db_units d) (db_artifacts d)"
  shows "store_ok d'"
proof -
  have "map slot_key (db_slots d') = map slot_key (db_slots d)" "map wait_ref (db_waits d') = map wait_ref (db_waits d)"
    using assms(2-4) by simp_all
  then have "identity_of d' = identity_of d" by (simp add: identity_of_def assms(2))
  then show ?thesis using assms(1,5,6) by (simp add: store_ok_def assms(2) shape_ok_def)
qed

end
