(* ===== verification/Preserve.thy ===== *)
theory Preserve
  imports RunInvariant
begin

text \<open>Every transaction of the run record keeps the invariant \<^const>\<open>store_ok\<close>.\<close>

section \<open>Materialization\<close>

lemma insert_slot_Inr: "insert_slot s d = Inr d' \<Longrightarrow> d' = d\<lparr>db_slots := db_slots d @ [s]\<rparr>"
  by (auto simp: insert_slot_def split: if_splits)

lemma insert_unit_Inr:
  "insert_unit u d = Inr d' \<Longrightarrow> d' = d\<lparr>db_units := db_units d @ [u]\<rparr> \<and> u_id u \<notin> u_id ` set (db_units d)"
  by (auto simp: insert_unit_def split: if_splits)

lemma insert_order_Inr: "insert_order w d = Inr d' \<Longrightarrow> d' = d\<lparr>db_orders := db_orders d @ [w]\<rparr>"
  by (auto simp: insert_order_def split: if_splits)

lemma insert_stage_Inr: "insert_stage s d = Inr d' \<Longrightarrow> d' = d \<or> d' = d\<lparr>db_stages := db_stages d @ [s]\<rparr>"
  by (auto simp: insert_stage_def split: if_splits)

lemma insert_dependency_stages: "insert_dependency e d = Inr d' \<Longrightarrow> db_stages d' = db_stages d"
  by (auto simp: insert_dependency_def split: if_splits)

lemma store_ok_order_unit: "store_ok d \<Longrightarrow> w \<in> set (db_orders d) \<Longrightarrow> wo_run_unit_id (or_order w) \<in> u_id ` set (db_units d)"
  unfolding store_ok_def identity_ok_def identity_of_units [symmetric]
  by (auto simp: identity_of_def order_ref_def)

lemma new_order_unit [simp]: "wo_run_unit_id (or_order (new_order uid reason snapshot fingerprint key at w)) = uid"
  by (simp add: new_order_def)

lemma new_order_shape: "order_shape (new_order uid reason snapshot fingerprint key at w)"
  by (simp add: order_shape_def new_order_def active_order_def)

lemma ensure_stage_ok:
  assumes "store_ok d" and "ensure_stage env inp d = Inr d'" and "find_run d (ps_run_id inp) \<noteq> None"
  shows "store_ok d' \<and> (ps_stage_instance_id inp, ps_run_id inp) \<in> stage_ref ` set (db_stages d') \<and> db_runs d' = db_runs d"
proof -
  let ?stored = "stored_stage d (ps_run_id inp) (ps_stage_key inp)"
  obtain d1 s where d1: "(case ?stored of Some (s, p) \<Rightarrow>
        if pl_fingerprint p \<noteq> stageMaterializationFingerprint env inp
        then Err (''materialized stage '' @ sq (ps_stage_key inp) @ '' conflicts with its stored graph'') else Ok d
      | None \<Rightarrow> insert_stage (new_stage_row inp) d) = Inr d1"
    and s: "List.find (v2_stage (ps_run_id inp) (ps_stage_key inp)) (db_stages d1) = Some s" "stage_matches inp s"
    and d': "if ?stored = None then insert_policy \<lparr>pl_stage_id = ps_stage_instance_id inp, pl_policy = ps_policy inp,
        pl_fingerprint = stageMaterializationFingerprint env inp\<rparr> d1 = Inr d' else d' = d1"
    using assms(2) by (auto simp: ensure_stage_def Let_def split: option.splits if_splits)
  have "store_ok d1 \<and> db_runs d1 = db_runs d"
  proof (cases ?stored)
    case None
    then have ins: "insert_stage (new_stage_row inp) d = Inr d1" using d1 by simp
    then show ?thesis using store_ok_insert_stage [OF assms(1) ins] assms(3) insert_stage_Inr [OF ins]
      by (auto simp: new_stage_row_def stage_shape_def)
  next
    case (Some sp)
    then show ?thesis using d1 assms(1) by (cases sp) (auto split: if_splits)
  qed
  moreover have "s \<in> set (db_stages d1) \<and> stage_ref s = (ps_stage_instance_id inp, ps_run_id inp)"
    using find_Some_set [OF s(1)] s(2) by (simp add: v2_stage_def stage_matches_def stage_ref_def)
  moreover have "store_ok d' \<and> db_stages d' = db_stages d1 \<and> db_runs d' = db_runs d1"
    using d' calculation(1) by (auto simp: insert_policy_def split: if_splits)
  ultimately show ?thesis by (metis image_eqI)
qed

definition stage_present :: "persist_stage \<Rightarrow> db \<Rightarrow> bool" where
  "stage_present inp d \<longleftrightarrow> store_ok d \<and> (ps_stage_instance_id inp, ps_run_id inp) \<in> stage_ref ` set (db_stages d)"

lemma insert_slots_ok:
  assumes "fold_result (\<lambda>out. insert_slot (new_slot uid out)) outs d = Inr d'" and "store_ok d" and "uid \<in> u_id ` set (db_units d)"
  shows "store_ok d' \<and> db_units d' = db_units d \<and> db_orders d' = db_orders d \<and> db_stages d' = db_stages d"
proof -
  let ?P = "\<lambda>e. store_ok e \<and> db_units e = db_units d \<and> db_orders e = db_orders d \<and> db_stages e = db_stages d"
  show ?thesis
  proof (rule fold_result_invariant [OF assms(1)])
    show "?P d" using assms(2) by simp
  next
    fix out e e' assume e: "?P e" and ins: "insert_slot (new_slot uid out) e = Inr e'"
    then show "?P e'"
      using store_ok_insert_slot [OF _ ins] insert_slot_Inr [OF ins] assms(3) by (simp add: new_slot_def)
  qed
qed

lemma persist_unit_ok:
  assumes "persist_unit env inp u (c, d) = Inr (c', d')" and "stage_present inp d"
  shows "stage_present inp d'"
proof (cases "List.find (\<lambda>v. u_stage_id v = ps_stage_instance_id inp \<and> u_unit_id v = mu_unit_id u) (db_units d)")
  case Some
  then show ?thesis using assms by (auto simp: persist_unit_def split: if_splits)
next
  case None
  let ?unit = "new_unit_row env inp u"
  let ?order = "new_order (mu_id u) ReasonInitial (mu_input_snapshot u) (mu_input_fingerprint u) ''initial'' (ps_materialized_at inp) (mu_initial_work_order u)"
  obtain d1 d2 where d1: "insert_unit ?unit d = Inr d1"
    and d2: "fold_result (\<lambda>out. insert_slot (new_slot (mu_id u) out)) (mu_outputs u) d1 = Inr d2"
    and d3: "insert_order ?order d2 = Inr d'"
    using assms(1) None by (auto simp: persist_unit_def)
  note u = insert_unit_Inr [OF d1]
  have ok1: "store_ok d1"
    using store_ok_insert_unit [OF _ d1] assms(2)
    by (simp add: stage_present_def new_unit_row_def Let_def unit_shape_def terminal_unit_def)
  have ok2: "store_ok d2 \<and> db_units d2 = db_units d1 \<and> db_orders d2 = db_orders d1 \<and> db_stages d2 = db_stages d1"
    using u by (intro insert_slots_ok [OF d2 ok1]) (simp add: new_unit_row_def Let_def)
  have "mu_id u \<notin> u_id ` set (db_units d)" using u by (simp add: new_unit_row_def Let_def)
  then have "wo_run_unit_id (or_order w) \<noteq> mu_id u" if "w \<in> set (db_orders d)" for w
    using store_ok_order_unit [OF _ that] assms(2) by (auto simp: stage_present_def)
  then have none: "active_orders d2 (mu_id u) = []" using ok2 u by (simp add: active_orders_def filter_empty_conv)
  have "store_ok d'"
    using none ok2 u by (intro store_ok_insert_order [OF _ d3])
      (simp_all add: new_order_shape, simp_all add: new_order_def new_unit_row_def Let_def)
  then show ?thesis using assms(2) ok2 u insert_order_Inr [OF d3] by (simp add: stage_present_def)
qed

lemma fold_dependencies_ok:
  "fold_result insert_dependency es d = Inr d' \<Longrightarrow> stage_present inp d \<Longrightarrow> stage_present inp d'"
  by (rule fold_result_invariant [where P = "stage_present inp"])
    (auto simp: stage_present_def insert_dependency_stages dest: store_ok_insert_dependency)

lemma close_stage_ok: "close_stage env inp d = Inr d' \<Longrightarrow> store_ok d \<Longrightarrow> store_ok d'"
  by (auto simp: close_stage_def stage_ref_def stage_shape_def intro!: store_ok_update_stages)

lemma persist_materialized_stage_tx_ok:
  assumes "persist_materialized_stage_tx env inp d = Inr (effect, d')" and "store_ok d"
  shows "store_ok d' \<and> (\<forall>p\<in>set (fx_pending effect). tr_run_id p = ps_run_id inp)"
proof -
  let ?closed = "case stored_stage d (ps_run_id inp) (ps_stage_key inp) of None \<Rightarrow> False | Some (s, _) \<Rightarrow> sr_closed s"
  let ?closing = "ps_close inp \<and> \<not> ?closed"
  obtain d1 c d2 d3 where run: "find_run d (ps_run_id inp) \<noteq> None" and d1: "ensure_stage env inp d = Inr d1"
    and d2: "fold_result (persist_unit env inp) (ps_units inp) (stored_stage d (ps_run_id inp) (ps_stage_key inp) = None, d1) = Inr (c, d2)"
    and d3: "fold_result insert_dependency (unit_dependencies inp) d2 = Inr d3"
    and d4: "(if ?closing then close_stage env inp d3 else Ok d3) = Inr d'"
    and effect: "effect = (if c \<or> ?closing then \<lparr>fx_applied = True, fx_pending = materialized_transitions inp ?closing\<rparr> else NO_EFFECT)"
    using assms(1) by (auto simp: persist_materialized_stage_tx_def Let_def split: if_splits)
  have "stage_present inp d1" using ensure_stage_ok [OF assms(2) d1 run] by (simp add: stage_present_def)
  then have "stage_present inp (snd (c, d2))"
    by (intro fold_result_invariant [OF d2, where P = "\<lambda>st. stage_present inp (snd st)"])
      (auto dest: persist_unit_ok)
  then have "stage_present inp d3" using fold_dependencies_ok [OF d3] by simp
  then have "store_ok d'" using d4 by (auto simp: stage_present_def dest: close_stage_ok split: if_splits)
  then show ?thesis by (auto simp: effect NO_EFFECT_def materialized_transitions_def run_transition_def)
qed

lemma transaction_ok: "(\<And>a d'. m d = Inr (a, d') \<Longrightarrow> store_ok d') \<Longrightarrow> store_ok d \<Longrightarrow> store_ok (snd (transaction m d))"
  by (auto simp: transaction_def split: sum.splits)

lemma persist_materialized_stage_ok: "store_ok d \<Longrightarrow> store_ok (snd (persist_materialized_stage env inp d))"
proof -
  assume ok: "store_ok d"
  have "store_ok (snd (transaction (persist_commit_tx env inp) d))"
  proof (rule transaction_ok [OF _ ok])
    fix a d' assume "persist_commit_tx env inp d = Inr (a, d')"
    then obtain effect d1 v where tx: "persist_materialized_stage_tx env inp d = Inr (effect, d1)"
      and commit: "commit_batch (ps_run_id inp) effect d1 = Inr (v, d')" by (auto simp: persist_commit_tx_def)
    show "store_ok d'" using store_ok_commit_batch [OF _ commit] persist_materialized_stage_tx_ok [OF tx ok] by blast
  qed
  then show ?thesis using ok by (auto simp: persist_materialized_stage_def split: sum.splits)
qed

section \<open>Revision, retry and admission\<close>

lemma abandon_active_ok: "store_ok d \<Longrightarrow> store_ok (abandon_active uid at d)"
  unfolding abandon_active_def
  by (rule store_ok_update_orders) (auto simp: order_ref_def order_shape_def order_active_def active_order_def)

lemma abandon_active_units [simp]: "db_units (abandon_active uid at d) = db_units d"
  by (simp add: abandon_active_def update_orders_def)

lemma active_orders_abandoned: "active_orders (abandon_active uid at d) uid = []"
  by (simp add: active_orders_def abandon_active_def update_orders_def filter_empty_conv set_update_where active_order_def ball_Un)

lemma revise_unit_rows_ok:
  "store_ok d \<Longrightarrow> store_ok (update_units (\<lambda>u. u_id u = i) (\<lambda>u. u\<lparr>u_input_snapshot := a, u_input_fingerprint := b,
     u_state := UReady, u_outcome := None, u_ended_at := None\<rparr>) d)"
  by (rule store_ok_update_units) (auto simp: unit_ref_def unit_shape_def terminal_unit_def)

lemma slot_key_invalidate [simp]:
  "slot_key (invalidate_slot reason at s) = slot_key s" "slot_run_unit_id (invalidate_slot reason at s) = slot_run_unit_id s"
  "slot_artifact (slot_state (invalidate_slot reason at s)) = slot_artifact (slot_state s)"
  "is_pending (slot_state (invalidate_slot reason at s)) = False"
  by (simp_all add: invalidate_slot_def slot_key_def)

lemma slot_key_updated [simp]: "slot_key (s\<lparr>slot_updated_by := x\<rparr>) = slot_key s"
  by (simp add: slot_key_def)

lemma close_wait_simps [simp]: "wait_ref (close_wait outcome at w) = wait_ref w" "\<not> wait_is_open (close_wait outcome at w)"
  by (simp_all add: close_wait_def wait_ref_def wait_is_open_def)

text \<open>Invalidating every slot of a unit and withdrawing its open waits.\<close>

lemma withdraw_unit_ok:
  assumes "store_ok d"
  shows "store_ok (update_slots (\<lambda>s. slot_run_unit_id s = i) (\<lambda>s. (invalidate_slot reason at s)\<lparr>slot_updated_by := None\<rparr>)
    (update_waits (\<lambda>w. wait_run_unit_id w = Some i \<and> wait_is_open w) (close_wait WaitWithdrawn at) d))" (is "store_ok ?d")
proof -
  define fs where "fs s = (if slot_run_unit_id s = i then (invalidate_slot reason at s)\<lparr>slot_updated_by := None\<rparr> else s)" for s
  define fw where "fw w = (if wait_run_unit_id w = Some i \<and> wait_is_open w then close_wait WaitWithdrawn at w else w)" for w
  have keys: "slot_key (fs s) = slot_key s" "wait_ref (fw w) = wait_ref w" for s w by (simp_all add: fs_def fw_def)
  have d: "?d = d\<lparr>db_slots := map fs (db_slots d), db_waits := map fw (db_waits d)\<rparr>"
    by (simp add: update_slots_def update_waits_def update_where_def fs_def [abs_def] fw_def [abs_def])
  have "parked_ok (map fs (db_slots d)) (map fw (db_waits d))"
  proof (rule parked_ok_map)
    show "parked_ok (db_slots d) (db_waits d)" using assms by (simp add: store_ok_def)
    show "is_pending (slot_state (fs s)) \<longleftrightarrow> wait_is_open (fw x)"
      if "slot_state s = SlotPending a (wait_id x) t" "wait_is_open x" "wait_slot_key x = Some (slot_key s)" for s x a t
      using that by (auto simp: fs_def fw_def wait_slot_key_def slot_key_def split: option.splits)
  qed (auto simp: keys, auto simp: fs_def fw_def split: if_splits)
  moreover have "held_ok (map fs (db_slots d)) (db_units d) (db_artifacts d)"
    by (rule held_ok_map) (use assms in \<open>auto simp: store_ok_def fs_def split: if_splits\<close>)
  ultimately show ?thesis by (intro store_ok_slots_waits [OF assms d keys]) (simp_all add: d)
qed

lemma revise_rows_ok: "store_ok d \<Longrightarrow> store_ok (revise_rows inp d)"
  by (simp add: revise_rows_def Let_def withdraw_unit_ok abandon_active_ok revise_unit_rows_ok)

lemma unit_ids_revise_rows: "u_id ` set (db_units (revise_rows inp d)) = u_id ` set (db_units d)"
  by (simp add: revise_rows_def Let_def row_update_defs abandon_active_def image_update_where)

lemma active_orders_revise_rows: "active_orders (revise_rows inp d) (rv_run_unit_id inp) = []"
  using active_orders_abandoned [of "rv_run_unit_id inp" "rv_revised_at inp"]
  by (simp add: revise_rows_def Let_def active_orders_def update_slots_def update_waits_def)

lemma reopen_stage_ok: "store_ok d \<Longrightarrow> store_ok (reopen_stage sid d)"
  unfolding reopen_stage_def by (rule store_ok_update_stages) (auto simp: stage_ref_def stage_shape_def)

lemma find_unit_row_id: "find_unit_row d i = Some u \<Longrightarrow> u \<in> set (db_units d) \<and> u_id u = i"
  by (auto simp: find_unit_row_def dest: find_Some_set)

text \<open>What a revision transaction returns, and that it keeps the invariant.\<close>

fun revise_effect :: "revise_tx_result \<Rightarrow> tx_effect" where
  "revise_effect (ReviseTxNotFound _) = NO_EFFECT"
| "revise_effect (ReviseTxUnchanged _ effect) = effect"
| "revise_effect (ReviseTxRevised _ effect) = effect"

fun revise_run :: "revise_tx_result \<Rightarrow> string option" where
  "revise_run (ReviseTxNotFound _) = None"
| "revise_run (ReviseTxUnchanged rid _) = Some rid"
| "revise_run (ReviseTxRevised rid _) = Some rid"

lemma revise_unit_input_tx_ok:
  assumes "revise_unit_input_tx inp d = Inr (r, d')" and "store_ok d"
  shows "store_ok d' \<and> (\<forall>p\<in>set (fx_pending (revise_effect r)). revise_run r = Some (tr_run_id p))"
proof (cases "find_unit_row d (rv_run_unit_id inp)")
  case None
  then show ?thesis using assms by (auto simp: revise_unit_input_tx_def NO_EFFECT_def)
next
  case (Some row)
  show ?thesis
  proof (cases "u_input_fingerprint row = rv_input_fingerprint inp")
    case True
    then show ?thesis using assms Some by (auto simp: revise_unit_input_tx_def NO_EFFECT_def)
  next
    case False
    let ?order = "new_order (rv_run_unit_id inp) ReasonInputRevision (rv_input_snapshot inp) (rv_input_fingerprint inp)
      (''input_revision:'' @ rv_input_fingerprint inp) (rv_revised_at inp) (rv_replacement inp)"
    obtain d1 where d1: "insert_order ?order (revise_rows inp d) = Inr d1" and d': "d' = reopen_stage (u_stage_id row) d1"
      and r: "\<exists>effect. r = ReviseTxRevised (u_run_id row) effect \<and> (\<forall>p\<in>set (fx_pending effect). tr_run_id p = u_run_id row)"
      using assms(1) Some False by (auto simp: revise_unit_input_tx_def Let_def run_transition_def split: if_splits)
    have "store_ok d1"
      by (rule store_ok_insert_order [OF revise_rows_ok [OF assms(2)] d1])
        (use find_unit_row_id [OF Some] in \<open>auto intro: rev_image_eqI simp: unit_ids_revise_rows active_orders_revise_rows new_order_shape\<close>)
    then show ?thesis using r by (auto simp: d' reopen_stage_ok)
  qed
qed

lemma revise_unit_input_ok:
  assumes "store_ok d"
  shows "store_ok (snd (revise_unit_input inp d))"
  unfolding revise_unit_input_def
proof (rule transaction_ok [OF _ assms])
  fix a d' assume m: "revise_commit_tx inp d = Inr (a, d')"
  then obtain r d1 where r: "revise_unit_input_tx inp d = Inr (r, d1)" by (auto simp: revise_commit_tx_def)
  then have rest: "revise_run r = None \<and> d' = d1 \<or> (\<exists>rid v. revise_run r = Some rid \<and> commit_batch rid (revise_effect r) d1 = Inr (v, d'))"
    using m unfolding revise_commit_tx_def r by (cases r) force+
  note ok = revise_unit_input_tx_ok [OF r assms]
  show "store_ok d'" using rest
  proof (elim disjE exE conjE)
    fix rid v assume rid: "revise_run r = Some rid" and commit: "commit_batch rid (revise_effect r) d1 = Inr (v, d')"
    have "\<forall>p\<in>set (fx_pending (revise_effect r)). tr_run_id p = rid" using ok rid by simp
    then show ?thesis using store_ok_commit_batch [OF conjunct1 [OF ok] commit] by simp
  qed (use ok in simp)
qed

lemma store_ok_versioned:
  assumes "store_ok d" and "find_run d i = Some r" and "insertTransition p (run_record_version r) (run_record_version r + 1)
      (set_version i (run_record_version r + 1) d) = Inr d'" and "tr_run_id p = i"
  shows "store_ok d'"
proof -
  have "store_ok (set_version i (run_record_version r + 1) d)"
    unfolding set_version_def
  proof (rule store_ok_update_runs)
    fix q assume "q \<in> set (db_runs d)" "run_id q = i"
    then have "q = r" using assms(1) find_run_id [OF assms(2)]
      by (auto simp: store_ok_def identity_ok_def identity_of_def dest: distinct_map_inj)
    then show "run_record_version q \<le> run_record_version (q\<lparr>run_record_version := run_record_version r + 1\<rparr>)" by simp
  qed (use assms(1) in \<open>auto simp: run_shape_def\<close>)
  moreover have "currentVersion (set_version i (run_record_version r + 1) d) i = run_record_version r + 1"
    using assms(2) find_run_id [OF assms(2)] by (simp add: currentVersion_def set_version_def find_update_runs)
  ultimately show ?thesis using store_ok_insertTransition [OF _ assms(3)] assms(4) by simp
qed

lemma ready_unit_ok:
  "store_ok d \<Longrightarrow> store_ok (update_units p (\<lambda>u. u\<lparr>u_state := UReady, u_outcome := None, u_ended_at := None\<rparr>) d)"
  by (rule store_ok_update_units) (auto simp: unit_ref_def unit_shape_def terminal_unit_def)

lemma find_run_update_units [simp]: "find_run (update_units p f d) i = find_run d i"
  by (simp add: find_run_def update_units_def)

lemma find_run_frame [simp]:
  "find_run (d\<lparr>db_orders := x1\<rparr>) i = find_run d i" "find_run (d\<lparr>db_admissions := x2\<rparr>) i = find_run d i"
  "find_run (abandon_active uid at d) i = find_run d i"
  by (simp_all add: find_run_def abandon_active_def update_orders_def)

lemma create_retry_ok:
  assumes "create_retry inp at wid unit (run_record_version run) missing rebound d = Inr (r, d')" and "store_ok d"
    and "find_run d (u_run_id unit) = Some run" and "u_id unit \<in> u_id ` set (db_units d)"
  shows "store_ok d'"
proof -
  let ?order = "new_order (u_id unit) ReasonOperatorRetry (u_input_snapshot unit) (u_input_fingerprint unit)
    (''operator_retry:'' @ rt_idempotency_key inp) at \<lparr>mw_id = wid, mw_workflow_id = ''v2-work:'' @ wid, mw_capability_hash = snd rebound,
      mw_request = fst rebound\<rparr>"
  let ?ready = "update_units (\<lambda>u. u_id u = u_id unit) (\<lambda>u. u\<lparr>u_state := UReady, u_outcome := None, u_ended_at := None\<rparr>)"
  obtain d1 p where d1: "insert_order ?order (abandon_active (u_id unit) at d) = Inr d1"
    and ins: "insertTransition p (run_record_version run) (run_record_version run + 1)
      (set_version (u_run_id unit) (run_record_version run + 1) (?ready d1)) = Inr d'" and p: "tr_run_id p = u_run_id unit"
    using assms(1) by (auto simp: create_retry_def Let_def run_transition_def)
  have "store_ok d1"
    by (rule store_ok_insert_order [OF abandon_active_ok [OF assms(2)] d1])
      (use assms(4) in \<open>auto simp: active_orders_abandoned new_order_shape\<close>)
  then have "store_ok (?ready d1)" by (rule ready_unit_ok)
  moreover have "find_run (?ready d1) (u_run_id unit) = Some run"
    using insert_order_Inr [OF d1] assms(3) by simp
  ultimately show ?thesis using store_ok_versioned [OF _ _ ins p] by blast
qed

lemma resolveRetryTarget_in: "resolveRetryTarget target d = Some u \<Longrightarrow> u \<in> set (db_units d)"
  by (cases target) (auto dest: find_unit_row_id find_Some_set)

lemma retry_unit_ok: "store_ok d \<Longrightarrow> store_ok (snd (retry_unit env inp at wid d))"
  unfolding retry_unit_def
proof (rule transaction_ok)
  fix r d' assume ok: "store_ok d" and m: "retry_unit_tx env inp at wid d = Inr (r, d')"
  show "store_ok d'"
  proof (cases "resolveRetryTarget (rt_target inp) d")
    case None
    then show ?thesis using m ok by (auto simp: retry_unit_tx_def)
  next
    case (Some unit)
    then have "u_id unit \<in> u_id ` set (db_units d)" using resolveRetryTarget_in by blast
    then show ?thesis using m ok Some
      by (auto simp: retry_unit_tx_def Let_def split: option.splits if_splits elim!: create_retry_ok)
  qed
qed

lemma record_admission_ok:
  assumes "record_admission env request at unit run d = Inr (r, d')" and "store_ok d" and "find_run d rid = Some run"
  shows "store_ok d'"
proof -
  let ?admit = "update_units (\<lambda>u. u_stage_id u = aq_stage_instance_id request \<and> u_unit_id u = aq_unit_id request)
    (\<lambda>u. u\<lparr>u_admitted := True, u_admitted_at := Some at\<rparr>)"
  let ?p = "(run_transition (run_id run) UnitAdmitted ''operator'' (JObj [(''idempotency_key'', JStr (aq_idempotency_key request))]) at)
    \<lparr>tr_unit_id := Some (u_id unit)\<rparr>"
  obtain x d1 where d1: "insert_admission x d = Inr d1"
    and ins: "insertTransition ?p (run_record_version run) (run_record_version run + 1)
      (set_version (run_id run) (run_record_version run + 1) (?admit d1)) = Inr d'"
    using assms(1) by (auto simp: record_admission_def Let_def)
  obtain y where y: "d1 = d\<lparr>db_admissions := y\<rparr>" using d1 by (auto simp: insert_admission_def split: if_splits)
  have "store_ok (?admit d1)"
    using assms(2) y by (intro store_ok_update_units) (auto simp: unit_ref_def unit_shape_def)
  moreover have "find_run (?admit d1) (run_id run) = Some run" using y assms(3) find_run_id [OF assms(3)] by simp
  ultimately show ?thesis by (rule store_ok_versioned [OF _ _ ins]) (simp add: run_transition_def)
qed

lemma admit_unit_ok: "store_ok d \<Longrightarrow> store_ok (snd (admit_unit env request at d))"
  unfolding admit_unit_def
  by (rule transaction_ok)
    (auto simp: admit_unit_tx_def split: option.splits if_splits elim!: record_admission_ok)

section \<open>Publication\<close>

lemma find_slot_key: "find_slot d k = Some s \<Longrightarrow> s \<in> set (db_slots d) \<and> slot_key s = k"
  by (auto simp: find_slot_def dest: find_Some_set)

lemma slot_unique:
  assumes "store_ok d" and "find_slot d k = Some s" and "s' \<in> set (db_slots d)" and "slot_key s' = k"
  shows "s' = s"
proof -
  have "distinct (map slot_key (db_slots d))" using assms(1) by (simp add: store_ok_def identity_ok_def identity_of_def)
  then show ?thesis using find_slot_key [OF assms(2)] assms(3,4) by (auto dest: distinct_map_inj)
qed

lemma held_ok_set_slot:
  assumes "held_ok slots units artifacts"
    and "\<And>s. s \<in> set slots \<Longrightarrow> p s \<Longrightarrow> slot_run_unit_id (f s) = slot_run_unit_id s \<and>
      (\<forall>a. slot_artifact (slot_state (f s)) = Some a \<longrightarrow>
        (\<exists>u\<in>set units. u_id u = slot_run_unit_id s \<and> (a, u_run_id u) \<in> artifact_ref ` set artifacts))"
  shows "held_ok (update_where p f slots) units artifacts"
  unfolding held_ok_def
proof (intro ballI allI impI)
  fix s' a assume "s' \<in> set (update_where p f slots)" and a: "slot_artifact (slot_state s') = Some a"
  then obtain s where s: "s \<in> set slots" "s' = (if p s then f s else s)" by (auto simp: set_update_where)
  show "\<exists>u\<in>set units. u_id u = slot_run_unit_id s' \<and> (a, u_run_id u) \<in> artifact_ref ` set artifacts"
  proof (cases "p s")
    case True
    then show ?thesis using assms(2) [OF s(1) True] a s(2) by auto
  next
    case False
    then have "slot_artifact (slot_state s) = Some a" using a s(2) by simp
    then show ?thesis using assms(1) s False unfolding held_ok_def by auto
  qed
qed

text \<open>A slot that is not pending takes the state of a publication.\<close>

definition publishable :: "db \<Rightarrow> string \<times> string \<times> string option \<Rightarrow> string \<Rightarrow> bool" where
  "publishable d k a \<longleftrightarrow>
     (\<exists>s. find_slot d k = Some s \<and> \<not> is_pending (slot_state s)) \<and>
     (\<exists>u\<in>set (db_units d). u_id u = fst k \<and> (a, u_run_id u) \<in> artifact_ref ` set (db_artifacts d))"

lemma set_slot_held:
  assumes "store_ok d" and "publishable d k a" and "slot_artifact st = Some a"
  shows "held_ok (db_slots (set_slot k st w d)) (db_units d) (db_artifacts d)"
proof -
  obtain u where u: "u \<in> set (db_units d)" "u_id u = fst k" "(a, u_run_id u) \<in> artifact_ref ` set (db_artifacts d)"
    using assms(2) by (auto simp: publishable_def)
  show ?thesis unfolding set_slot_def update_slots_def
    using assms(1) u assms(3) by (auto simp: store_ok_def slot_key_def intro!: held_ok_set_slot)
qed

lemma identity_set_slot [simp]: "identity_of (set_slot k st w d) = identity_of d"
proof -
  have "map slot_key (db_slots (set_slot k st w d)) = map slot_key (db_slots d)"
    unfolding set_slot_def update_slots_def by (simp, rule map_update_where) (simp add: slot_key_def)
  then show ?thesis by (simp add: identity_of_def set_slot_def update_slots_def)
qed

lemma set_slot_frame [simp]:
  "db_waits (set_slot k st w d) = db_waits d" "db_units (set_slot k st w d) = db_units d"
  "db_artifacts (set_slot k st w d) = db_artifacts d" "db_runs (set_slot k st w d) = db_runs d"
  "db_transitions (set_slot k st w d) = db_transitions d" "db_orders (set_slot k st w d) = db_orders d"
  "db_stages (set_slot k st w d) = db_stages d"
  by (simp_all add: set_slot_def update_slots_def)

lemma set_slot_member:
  "s' \<in> set (db_slots (set_slot k st w d)) \<longleftrightarrow>
     (\<exists>s\<in>set (db_slots d). s' = (if slot_key s = k then s\<lparr>slot_state := st, slot_updated_by := Some w, slot_version := slot_version s + 1\<rparr> else s))"
  by (simp add: set_slot_def update_slots_def in_update_where)

lemma not_pending_iff: "\<not> is_pending st \<longleftrightarrow> (\<forall>a w t. st \<noteq> SlotPending a w t)"
  by (cases st) auto

lemma slot_key_set [simp]: "slot_key (s\<lparr>slot_state := st, slot_updated_by := x, slot_version := v\<rparr>) = slot_key s"
  by (simp add: slot_key_def)

lemma release_slot_ok:
  assumes "store_ok d" and "publishable d k a"
  shows "store_ok (set_slot k (SlotReleased a t) w d)"
proof -
  let ?d = "set_slot k (SlotReleased a t) w d"
  have old: "\<not> is_pending (slot_state s)" if "s \<in> set (db_slots d)" "slot_key s = k" for s
    using slot_unique [OF assms(1) _ that] assms(2) by (auto simp: publishable_def)
  have parked: "parked_ok (db_slots d) (db_waits d)" using assms(1) by (simp add: store_ok_def)
  have "parked_ok (db_slots ?d) (db_waits d)"
    unfolding parked_ok_def set_slot_member
  proof (intro conjI ballI allI impI)
    fix s' b x t' assume "s' \<in> set (db_slots ?d)" "slot_state s' = SlotPending b x t'"
    then have "s' \<in> set (db_slots d)" by (auto simp: set_slot_member split: if_splits)
    then show "\<exists>y\<in>set (db_waits d). wait_id y = x \<and> wait_is_open y \<and> wait_slot_key y = Some (slot_key s') \<and> wait_artifact_revision_id y = b"
      using parked \<open>slot_state s' = SlotPending b x t'\<close> unfolding parked_ok_def by blast
  next
    fix x k' assume x: "x \<in> set (db_waits d)" "wait_is_open x \<and> wait_slot_key x = Some k'"
    then obtain s t' where s: "s \<in> set (db_slots d)" "slot_key s = k'" "slot_state s = SlotPending (wait_artifact_revision_id x) (wait_id x) t'"
      using parked unfolding parked_ok_def by blast
    then have "s \<in> set (db_slots ?d)" using old [OF s(1)] by (auto simp: set_slot_member)
    then show "\<exists>s\<in>set (db_slots ?d). slot_key s = k' \<and> (\<exists>t. slot_state s = SlotPending (wait_artifact_revision_id x) (wait_id x) t)"
      using s by blast
  qed
  moreover have "held_ok (db_slots ?d) (db_units d) (db_artifacts d)" by (rule set_slot_held [OF assms]) simp
  ultimately show ?thesis using assms(1) by (simp add: store_ok_def shape_ok_def)
qed

lemma park_slot_ok:
  assumes "store_ok d" and "publishable d k a" and "insert_wait x d = Inr d1"
    and x: "wait_is_open x" "wait_slot_key x = Some k" "wait_artifact_revision_id x = a"
      "(fst k, wait_stage_instance_id x) \<in> (\<lambda>u. (u_id u, u_stage_id u)) ` set (db_units d)"
  shows "store_ok (set_slot k (SlotPending a (wait_id x) t) w d1)"
proof -
  let ?d = "set_slot k (SlotPending a (wait_id x) t) w d1"
  have d1: "d1 = d\<lparr>db_waits := db_waits d @ [x]\<rparr>" and new: "wait_id x \<notin> wait_id ` set (db_waits d)"
    using assms(3) by (auto simp: insert_wait_def find_wait_def find_None_set split: if_splits)
  have old: "\<not> is_pending (slot_state s)" if "s \<in> set (db_slots d)" "slot_key s = k" for s
    using slot_unique [OF assms(1) _ that] assms(2) by (auto simp: publishable_def)
  obtain s0 where s0: "s0 \<in> set (db_slots d)" "slot_key s0 = k" using assms(2) by (auto simp: publishable_def dest: find_slot_key)
  have parked: "parked_ok (db_slots d) (db_waits d)" using assms(1) by (simp add: store_ok_def)
  have "parked_ok (db_slots ?d) (db_waits d @ [x])"
    unfolding parked_ok_def
  proof (intro conjI ballI allI impI)
    fix s' b y t' assume s': "s' \<in> set (db_slots ?d)" and st: "slot_state s' = SlotPending b y t'"
    then obtain s where s: "s \<in> set (db_slots d)" "s' = (if slot_key s = k
        then s\<lparr>slot_state := SlotPending a (wait_id x) t, slot_updated_by := Some w, slot_version := slot_version s + 1\<rparr> else s)"
      by (auto simp: set_slot_member d1)
    have "s' \<in> set (db_slots d) \<or> slot_key s' = k \<and> b = a \<and> y = wait_id x"
      using s st by (cases "slot_key s = k") simp_all
    then consider "s' \<in> set (db_slots d)" | "slot_key s' = k" "b = a" "y = wait_id x" by blast
    then show "\<exists>z\<in>set (db_waits d @ [x]). wait_id z = y \<and> wait_is_open z \<and> wait_slot_key z = Some (slot_key s') \<and> wait_artifact_revision_id z = b"
    proof cases
      case 1
      then obtain z where "z \<in> set (db_waits d)" "wait_id z = y" "wait_is_open z" "wait_slot_key z = Some (slot_key s')" "wait_artifact_revision_id z = b"
        using parked st unfolding parked_ok_def by blast
      then show ?thesis by auto
    qed (use x in auto)
  next
    fix z k' assume z: "z \<in> set (db_waits d @ [x])" "wait_is_open z \<and> wait_slot_key z = Some k'"
    show "\<exists>s\<in>set (db_slots ?d). slot_key s = k' \<and> (\<exists>t. slot_state s = SlotPending (wait_artifact_revision_id z) (wait_id z) t)"
    proof (cases "z \<in> set (db_waits d)")
      case True
      then obtain s t' where s: "s \<in> set (db_slots d)" "slot_key s = k'" "slot_state s = SlotPending (wait_artifact_revision_id z) (wait_id z) t'"
        using parked z(2) unfolding parked_ok_def by blast
      then have "s \<in> set (db_slots ?d)" using old [OF s(1)] by (auto simp: set_slot_member d1)
      then show ?thesis using s by blast
    next
      case False
      then have "z = x" using z(1) by simp
      then show ?thesis using s0 x z(2)
        by (intro bexI [of _ "s0\<lparr>slot_state := SlotPending a (wait_id x) t, slot_updated_by := Some w, slot_version := slot_version s0 + 1\<rparr>"])
          (auto simp: set_slot_member d1)
    qed
  qed
  moreover have "held_ok (db_slots ?d) (db_units d) (db_artifacts d)"
    using set_slot_held [OF assms(1,2), of "SlotPending a (wait_id x) t" w]
    by (simp add: d1 set_slot_def update_slots_def)
  moreover have "identity_ok (identity_of ?d)"
  proof -
    obtain u n where u: "u \<in> set (db_units d)" "u_id u = fst k" "u_stage_id u = wait_stage_instance_id x"
      and ref: "wait_run_unit_id x = Some (fst k)" "wait_output_name x = Some n"
      using x by (auto simp: wait_slot_key_def split: option.splits)
    have "wait_ref x = (wait_id x, u_stage_id u, Some (u_id u), Some n, wait_collection_key x, a)"
      using x(3) u ref by (simp add: wait_ref_def)
    moreover have "unit_ref u \<in> set (id_units (identity_of d))" using u(1) by (simp add: identity_of_def)
    moreover have "wait_id x \<notin> fst ` set (id_waits (identity_of d))" using new by (force simp: identity_of_def wait_ref_def)
    moreover have "identity_of ?d = (identity_of d)\<lparr>id_waits := id_waits (identity_of d) @ [wait_ref x]\<rparr>"
      by (simp add: d1, simp add: identity_of_def)
    ultimately show ?thesis using assms(1) identity_ok_wait [of "identity_of d" "wait_id x" "u_id u"]
      by (simp add: store_ok_def unit_ref_def)
  qed
  ultimately show ?thesis using assms(1) by (simp add: d1 store_ok_def shape_ok_def)
qed

lemma withdraw_replaced_ok: "store_ok d \<Longrightarrow> store_ok (withdraw_replaced request replaced d)"
  by (auto simp: withdraw_replaced_def artifact_ref_def split: option.splits intro!: store_ok_update_artifacts)

lemma withdraw_replaced_frame [simp]:
  "db_slots (withdraw_replaced request replaced d) = db_slots d" "db_units (withdraw_replaced request replaced d) = db_units d"
  "artifact_ref ` set (db_artifacts (withdraw_replaced request replaced d)) = artifact_ref ` set (db_artifacts d)"
  by (simp_all add: withdraw_replaced_def update_artifacts_def artifact_ref_def image_update_where split: option.splits)

lemma accept_publication_ok:
  assumes "accept_publication request work unit slot waitId d = Inr (r, d')" and "store_ok d"
    and "unit \<in> set (db_units d)" and "find_slot d (request_slot request unit) = Some slot" and "\<not> is_pending (slot_state slot)"
  shows "store_ok d'"
proof -
  let ?a = "published_artifact request work unit slot" and ?k = "request_slot request unit" and ?id = "pr_artifact_id request"
  let ?replaced = "replaced_artifact (slot_state slot)"
  obtain d1 d2 where d1: "insert_artifact ?a d = Inr d1" and d2: "insert_emission (published_emission request ?a) d1 = Inr d2"
    and rest: "(if slot_release slot = Immediate then release_now request unit ?replaced (withdraw_replaced request ?replaced d2)
      else park request work unit slot ?replaced waitId (withdraw_replaced request ?replaced d2)) = Inr (r, d')"
    using assms(1) by (auto simp: accept_publication_def Let_def)
  let ?d3 = "withdraw_replaced request ?replaced d2"
  have ok: "store_ok ?d3"
    using store_ok_insert_emission [OF store_ok_insert_artifact [OF assms(2) d1] d2] by (rule withdraw_replaced_ok)
  have d1': "d1 = d\<lparr>db_artifacts := db_artifacts d @ [?a]\<rparr>" using d1 by (auto simp: insert_artifact_def split: if_splits)
  obtain e where d2': "d2 = d1\<lparr>db_emissions := e\<rparr>" using d2 by (auto simp: insert_emission_def split: if_splits)
  have ref: "artifact_ref ?a = (?id, u_run_id unit)" by (simp add: published_artifact_def artifact_ref_def Let_def)
  have pub: "publishable ?d3 ?k ?id"
    unfolding publishable_def
  proof
    show "\<exists>s. find_slot ?d3 ?k = Some s \<and> \<not> is_pending (slot_state s)"
      using assms(4,5) by (simp add: find_slot_def d1' d2')
    show "\<exists>u\<in>set (db_units ?d3). u_id u = fst ?k \<and> (?id, u_run_id u) \<in> artifact_ref ` set (db_artifacts ?d3)"
      using assms(3) ref by (intro bexI [of _ unit]) (auto simp: d1' d2' request_slot_def intro!: image_eqI [of _ _ ?a])
  qed
  show ?thesis
  proof (cases "slot_release slot = Immediate")
    case True
    then show ?thesis using rest release_slot_ok [OF ok pub]
      by (auto simp: release_now_def Let_def elim!: store_ok_record_transition [rotated])
  next
    case False
    let ?x = "opened_wait request work unit slot waitId"
    obtain d4 p v where d4: "insert_wait ?x ?d3 = Inr d4"
      and rec: "record_transition p (set_slot ?k (SlotPending ?id waitId (pr_published_at request)) (pr_work_order_id request) d4) = Inr (v, d')"
      using rest False by (auto simp: park_def Let_def)
    have "store_ok (set_slot ?k (SlotPending ?id (wait_id ?x) (pr_published_at request)) (pr_work_order_id request) d4)"
      by (rule park_slot_ok [OF ok pub d4])
        (use assms(3) in \<open>auto simp: opened_wait_def wait_is_open_def wait_slot_key_def request_slot_def d1' d2'\<close>)
    then show ?thesis using store_ok_record_transition [OF _ rec] by (simp add: opened_wait_def)
  qed
qed

lemma owned_order_in: "owned_order d i = Some (w, u) \<Longrightarrow> u \<in> set (db_units d) \<and> w \<in> set (db_orders d) \<and> wo_id (or_order w) = i \<and> wo_run_unit_id (or_order w) = u_id u"
  by (auto simp: owned_order_def find_order_def split: option.splits dest: find_Some_set find_unit_row_id)

lemma publication_refusal_None: "publication_refusal request work slot = None \<Longrightarrow> \<not> is_pending (slot_state slot)"
  by (auto simp: publication_refusal_def Let_def split: if_splits slot_state.splits)

lemma publish_artifact_tx_ok:
  "publish_artifact_tx request waitId d = Inr (r, d') \<Longrightarrow> store_ok d \<Longrightarrow> store_ok d'"
  by (auto simp: publish_artifact_tx_def split: option.splits if_splits
      elim!: accept_publication_ok dest: owned_order_in publication_refusal_None)

lemma publish_artifact_ok: "store_ok d \<Longrightarrow> store_ok (snd (publish_artifact request waitId d))"
  unfolding publish_artifact_def by (rule transaction_ok) (auto dest: publish_artifact_tx_ok)

section \<open>Closing waits\<close>

lemma find_wait_in: "find_wait d i = Some w \<Longrightarrow> w \<in> set (db_waits d) \<and> wait_id w = i"
  by (auto simp: find_wait_def dest: find_Some_set)

lemma wait_unique:
  assumes "store_ok d" and "find_wait d i = Some w" and "x \<in> set (db_waits d)" and "wait_id x = i"
  shows "x = w"
proof -
  have "distinct (map wait_id (db_waits d))"
    using assms(1) by (simp add: store_ok_def identity_ok_def identity_of_def wait_ref_def comp_def)
  then show ?thesis using find_wait_in [OF assms(2)] assms(3,4) by (auto dest: distinct_map_inj)
qed

text \<open>The pending slot of an open wait names that wait.\<close>

lemma pending_names_wait:
  assumes "store_ok d" and "w \<in> set (db_waits d)" and "wait_is_open w" and "wait_slot_key w = Some k" and "find_slot d k = Some slot"
  shows "\<exists>t. slot_state slot = SlotPending (wait_artifact_revision_id w) (wait_id w) t"
proof -
  obtain s t where s: "s \<in> set (db_slots d)" "slot_key s = k" "slot_state s = SlotPending (wait_artifact_revision_id w) (wait_id w) t"
    using assms(1-4) unfolding store_ok_def parked_ok_def by blast
  then show ?thesis using slot_unique [OF assms(1,5) s(1,2)] by blast
qed

lemma close_pair_ok:
  assumes "store_ok d" and w: "find_wait d i = Some w" "wait_is_open w" "wait_slot_key w = Some k" and slot: "find_slot d k = Some slot"
    and f: "\<And>s. slot_key (f s) = slot_key s" "\<And>s. \<not> is_pending (slot_state (f s))"
      "\<And>a. slot_artifact (slot_state (f slot)) = Some a \<Longrightarrow> slot_artifact (slot_state slot) = Some a"
  shows "store_ok (update_slots (\<lambda>s. slot_key s = k) f (update_waits (\<lambda>x. wait_id x = i) (close_wait outcome at) d))" (is "store_ok ?d")
proof -
  define fs where "fs s = (if slot_key s = k then f s else s)" for s
  define fw where "fw x = (if wait_id x = i then close_wait outcome at x else x)" for x
  have keys: "slot_key (fs s) = slot_key s" "wait_ref (fw x) = wait_ref x" for s x by (simp_all add: fs_def fw_def f)
  have d: "?d = d\<lparr>db_slots := map fs (db_slots d), db_waits := map fw (db_waits d)\<rparr>"
    by (simp add: update_slots_def update_waits_def update_where_def fs_def [abs_def] fw_def [abs_def])
  have "parked_ok (map fs (db_slots d)) (map fw (db_waits d))"
  proof (rule parked_ok_map)
    show "parked_ok (db_slots d) (db_waits d)" using assms(1) by (simp add: store_ok_def)
    show "is_pending (slot_state (fs s)) \<longleftrightarrow> wait_is_open (fw x)"
      if s: "s \<in> set (db_slots d)" "x \<in> set (db_waits d)" "slot_state s = SlotPending a (wait_id x) t" "wait_is_open x"
        "wait_slot_key x = Some (slot_key s)" for s x a t
    proof (cases "wait_id x = i")
      case True
      then have "x = w" using wait_unique [OF assms(1) w(1) s(2)] by simp
      then have "slot_key s = k" using s(5) w(3) by simp
      then show ?thesis using True f(2) by (simp add: fs_def fw_def)
    next
      case False
      have "slot_key s \<noteq> k"
      proof
        assume "slot_key s = k"
        then have "s = slot" using slot_unique [OF assms(1) slot s(1)] by simp
        moreover obtain t' where "slot_state slot = SlotPending (wait_artifact_revision_id w) (wait_id w) t'"
          using pending_names_wait [OF assms(1) _ w(2,3) slot] find_wait_in [OF w(1)] by blast
        ultimately show False using s(3) False find_wait_in [OF w(1)] by simp
      qed
      then show ?thesis using False s(3,4) by (simp add: fs_def fw_def)
    qed
  qed (use keys f(2) in \<open>auto simp: fs_def fw_def split: if_splits\<close>)
  moreover have "held_ok (map fs (db_slots d)) (db_units d) (db_artifacts d)"
  proof (rule held_ok_map)
    show "held_ok (db_slots d) (db_units d) (db_artifacts d)" using assms(1) by (simp add: store_ok_def)
    show "slot_run_unit_id (fs s) = slot_run_unit_id s" for s using keys(1) [of s] by (simp add: slot_key_def)
    show "slot_artifact (slot_state s) = Some a" if "s \<in> set (db_slots d)" "slot_artifact (slot_state (fs s)) = Some a" for s a
      using that f(3) slot_unique [OF assms(1) slot that(1)] by (auto simp: fs_def split: if_splits)
  qed
  ultimately show ?thesis by (intro store_ok_slots_waits [OF assms(1) d keys]) (simp_all add: d)
qed

lemma abandon_producer_ok: "store_ok d \<Longrightarrow> store_ok (abandon_producer request uid producer d)"
  unfolding abandon_producer_def
  by (rule store_ok_update_orders) (auto simp: order_ref_def order_shape_def order_active_def active_order_def)

lemma fail_unit_ok:
  "store_ok d \<Longrightarrow> store_ok (update_units p (\<lambda>u. u\<lparr>u_state := UFailed, u_outcome := Some outcome, u_ended_at := Some at\<rparr>) d)"
  by (rule store_ok_update_units) (auto simp: unit_ref_def unit_shape_def terminal_unit_def)

lemma apply_close_ok:
  assumes "apply_close request rid k slot artifact outcome d = Inr (r, d')" and "store_ok d"
    and w: "find_wait d (cl_wait_id request) = Some w" "wait_is_open w" "wait_slot_key w = Some k"
    and slot: "find_slot d k = Some slot" "slot_artifact (slot_state slot) = Some artifact"
  shows "store_ok d'"
proof -
  let ?d1 = "update_waits (\<lambda>w. wait_id w = cl_wait_id request) (close_wait outcome (cl_decided_at request)) d"
  let ?d2 = "if cl_disposition request = DispRelease then release_slot request k artifact ?d1 else invalidate_rows request k slot ?d1"
  obtain v where rec: "record_transition (close_transition request rid k) ?d2 = Inr (v, d')"
    using assms(1) by (auto simp: apply_close_def Let_def)
  have "store_ok ?d2"
  proof (cases "cl_disposition request = DispRelease")
    case True
    have "store_ok (update_slots (\<lambda>s. slot_key s = k)
        (\<lambda>s. s\<lparr>slot_state := SlotReleased artifact (cl_decided_at request), slot_version := slot_version s + 1\<rparr>) ?d1)"
      by (rule close_pair_ok [OF assms(2) w slot(1)]) (use slot(2) in \<open>auto simp: slot_key_def\<close>)
    then show ?thesis using True
      by (auto simp: release_slot_def artifact_ref_def intro!: store_ok_update_artifacts)
  next
    case False
    have "store_ok (update_slots (\<lambda>s. slot_key s = k)
        (invalidate_slot (OperatorInvalidated (or_else (cl_detail request) ''invalidated'')) (cl_decided_at request)) ?d1)"
      by (rule close_pair_ok [OF assms(2) w slot(1)]) auto
    then show ?thesis using False
      by (auto simp: invalidate_rows_def Let_def split: option.splits intro!: fail_unit_ok abandon_producer_ok)
  qed
  then show ?thesis using rec by (rule store_ok_record_transition)
qed

lemma owned_wait_in:
  "owned_wait d i = Some (w, u) \<Longrightarrow> find_wait d i = Some w \<and> wait_run_unit_id w = Some (u_id u) \<and> u \<in> set (db_units d)"
  by (auto simp: owned_wait_def split: option.splits dest: find_unit_row_id)

lemma closeOutputWait_ok:
  assumes "closeOutputWaitTransaction request d = Inr (r, d')" and "store_ok d"
  shows "store_ok d'"
proof -
  have "d' = d \<or> (\<exists>w u name slot artifact x t outcome. owned_wait d (cl_wait_id request) = Some (w, u) \<and> wait_output_name w = Some name \<and>
      wait_status w = WaitOpen \<and> find_slot d (u_id u, name, wait_collection_key w) = Some slot \<and> slot_state slot = SlotPending artifact x t \<and>
      apply_close request (u_run_id u) (u_id u, name, wait_collection_key w) slot artifact outcome d = Inr (r, d'))"
    using assms(1)
    by (auto simp: closeOutputWaitTransaction_def Let_def split: option.splits list.splits wait_status.splits slot_state.splits if_splits)
  then show ?thesis
  proof (elim disjE exE conjE)
    fix w u name slot artifact x t outcome
    assume w: "owned_wait d (cl_wait_id request) = Some (w, u)" "wait_output_name w = Some name" "wait_status w = WaitOpen"
      and slot: "find_slot d (u_id u, name, wait_collection_key w) = Some slot" "slot_state slot = SlotPending artifact x t"
      and app: "apply_close request (u_run_id u) (u_id u, name, wait_collection_key w) slot artifact outcome d = Inr (r, d')"
    show ?thesis
      by (rule apply_close_ok [OF app assms(2)])
        (use owned_wait_in [OF w(1)] w slot in \<open>auto simp: wait_is_open_def wait_slot_key_def\<close>)
  qed (use assms(2) in simp)
qed

lemma close_output_wait_ok: "store_ok d \<Longrightarrow> store_ok (snd (close_output_wait request d))"
  unfolding close_output_wait_def by (rule transaction_ok) (auto dest: closeOutputWait_ok)

lemma coordinated_close_ok: "coordinated_close request d = Inr (r, d') \<Longrightarrow> store_ok d \<Longrightarrow> store_ok d'"
  by (auto simp: coordinated_close_def split: sum.splits if_splits dest: closeOutputWait_ok)

lemma close_upstream_ok:
  assumes "close_upstream request uid d = Inr d'" and "store_ok d"
  shows "store_ok d'"
proof -
  let ?step = "\<lambda>w d. bind_result (coordinated_close (upstream_request request w) d) (\<lambda>(_, d'). Ok d')"
  have "fold_result ?step (upstream_handoffs d uid) d = Inr d'"
    using assms(1) by (auto simp: close_upstream_def split: list.splits)
  then show ?thesis
    by (rule fold_result_invariant) (use assms(2) coordinated_close_ok in auto)
qed

lemma decide_gate_tx_ok:
  assumes "decide_gate_tx request d = Inr (r, d')" and "store_ok d"
  shows "store_ok d'"
  using assms
  by (auto simp: decide_gate_tx_def Let_def split: option.splits output_release.splits if_splits
      dest: coordinated_close_ok close_upstream_ok)

lemma decide_gate_wait_ok: "store_ok d \<Longrightarrow> store_ok (snd (decide_gate_wait request d))"
  by (auto simp: decide_gate_wait_def split: sum.splits failure.splits dest: decide_gate_tx_ok)

lemma complete_handoff_artifact_ok: "store_ok d \<Longrightarrow> store_ok (snd (complete_handoff_artifact request d))"
  by (auto simp: complete_handoff_artifact_def Let_def close_output_wait_ok split: option.splits output_release.splits)

end
