(* ===== verification/AskInvariant.thy ===== *)
theory AskInvariant
  imports Preserve
begin

text \<open>
  The ask, cancellation, deletion and the remaining writes keep the invariant; the step relation
  of the run record and its reachable states.
\<close>

section \<open>Units stay\<close>

definition unit_refs :: "db \<Rightarrow> (string \<times> string \<times> string \<times> string) set" where
  "unit_refs d = unit_ref ` set (db_units d)"

lemma unit_refs_update [simp]: "(\<And>u. p u \<Longrightarrow> unit_ref (f u) = unit_ref u) \<Longrightarrow> unit_refs (update_units p f d) = unit_refs d"
  by (simp add: unit_refs_def update_units_def image_update_where)

lemma unit_refs_frame [simp]:
  "unit_refs (update_orders p1 f1 d) = unit_refs d" "unit_refs (update_stages p2 f2 d) = unit_refs d"
  "unit_refs (update_runs p3 f3 d) = unit_refs d" "unit_refs (update_slots p4 f4 d) = unit_refs d"
  "unit_refs (update_waits p5 f5 d) = unit_refs d" "unit_refs (abandon_active uid at d) = unit_refs d"
  "unit_refs (reopen_stage sid d) = unit_refs d"
  by (simp_all add: unit_refs_def row_update_defs abandon_active_def reopen_stage_def)

lemma unit_refs_inserts:
  "insert_stage s d = Inr d' \<Longrightarrow> unit_refs d' = unit_refs d"
  "insert_policy po d = Inr d' \<Longrightarrow> unit_refs d' = unit_refs d"
  "insert_slot sl d = Inr d' \<Longrightarrow> unit_refs d' = unit_refs d"
  "insert_order w d = Inr d' \<Longrightarrow> unit_refs d' = unit_refs d"
  "insert_dependency e d = Inr d' \<Longrightarrow> unit_refs d' = unit_refs d"
  "insert_unit u d = Inr d' \<Longrightarrow> unit_refs d \<subseteq> unit_refs d'"
  by (auto simp: unit_refs_def insert_stage_def insert_policy_def insert_slot_def insert_order_def insert_dependency_def insert_unit_def
      split: if_splits)

lemma persist_unit_refs:
  assumes "persist_unit env inp u (c, d) = Inr (c', d')"
  shows "unit_refs d \<subseteq> unit_refs d'"
proof (cases "List.find (\<lambda>v. u_stage_id v = ps_stage_instance_id inp \<and> u_unit_id v = mu_unit_id u) (db_units d)")
  case Some
  then show ?thesis using assms by (auto simp: persist_unit_def split: if_splits)
next
  case None
  obtain d1 d2 w where d1: "insert_unit (new_unit_row env inp u) d = Inr d1"
    and d2: "fold_result (\<lambda>out. insert_slot (new_slot (mu_id u) out)) (mu_outputs u) d1 = Inr d2"
    and d3: "insert_order w d2 = Inr d'"
    using assms None by (auto simp: persist_unit_def)
  have "unit_refs d2 = unit_refs d1"
    by (rule fold_result_invariant [OF d2]) (auto dest: unit_refs_inserts)
  then show ?thesis using unit_refs_inserts(6) [OF d1] unit_refs_inserts(4) [OF d3] by simp
qed

lemma ensure_stage_refs: "ensure_stage env inp d = Inr d' \<Longrightarrow> unit_refs d' = unit_refs d"
  by (auto simp: ensure_stage_def Let_def unit_refs_inserts split: option.splits if_splits)

lemma persist_tx_refs:
  assumes "persist_materialized_stage_tx env inp d = Inr (effect, d')"
  shows "unit_refs d \<subseteq> unit_refs d'"
proof -
  let ?closed = "case stored_stage d (ps_run_id inp) (ps_stage_key inp) of None \<Rightarrow> False | Some (s, _) \<Rightarrow> sr_closed s"
  obtain c0 d1 c d2 d3 where d1: "ensure_stage env inp d = Inr d1"
    and d2: "fold_result (persist_unit env inp) (ps_units inp) (c0, d1) = Inr (c, d2)"
    and d3: "fold_result insert_dependency (unit_dependencies inp) d2 = Inr d3"
    and d4: "(if ps_close inp \<and> \<not> ?closed then close_stage env inp d3 else Ok d3) = Inr d'"
    using assms by (auto simp: persist_materialized_stage_tx_def Let_def split: if_splits)
  have "unit_refs d1 \<subseteq> unit_refs (snd (c, d2))"
  proof (rule fold_result_invariant [OF d2])
    show "unit_refs d1 \<subseteq> unit_refs (snd (c0, d1))" by simp
  next
    fix u s t assume "unit_refs d1 \<subseteq> unit_refs (snd s)" "persist_unit env inp u s = Inr t"
    then show "unit_refs d1 \<subseteq> unit_refs (snd t)"
      using persist_unit_refs [of env inp u "fst s" "snd s" "fst t" "snd t"] by auto
  qed
  moreover have "unit_refs d3 = unit_refs d2"
    by (rule fold_result_invariant [OF d3]) (auto dest: unit_refs_inserts)
  moreover have "unit_refs d' = unit_refs d3" using d4 by (auto simp: close_stage_def split: if_splits)
  ultimately show ?thesis using ensure_stage_refs [OF d1] by simp
qed

lemma revise_tx_refs:
  assumes "revise_unit_input_tx inp d = Inr (r, d')"
  shows "unit_refs d' = unit_refs d"
proof -
  have "unit_refs (revise_rows inp d) = unit_refs d" by (simp add: revise_rows_def Let_def unit_ref_def)
  then show ?thesis using assms
    by (auto simp: revise_unit_input_tx_def Let_def dest!: unit_refs_inserts(4) split: option.splits if_splits)
qed

section \<open>Facts\<close>

lemma end_stage_ok:
  "store_ok d \<Longrightarrow> state \<noteq> RunActive \<Longrightarrow> store_ok (update_stages p (end_stage state outcome at) d)"
  by (rule store_ok_update_stages) (auto simp: end_stage_def stage_ref_def stage_shape_def)

lemma end_run_ok:
  "store_ok d \<Longrightarrow> state \<noteq> RunActive \<Longrightarrow> store_ok (update_runs p (end_run rid state outcome at) d)"
  by (rule store_ok_update_runs) (auto simp: end_run_def run_shape_def)

lemma outcome_state_ended [simp]: "outcome_state outcome \<noteq> RunActive"
  by (cases outcome) auto

lemma mark_unit_satisfied_ok: "store_ok d \<Longrightarrow> store_ok (snd (mark_unit_satisfied_tx uid at d))"
proof (cases "List.find (\<lambda>u. u_id u = uid \<and> \<not> terminal_unit (u_state u)) (db_units d)")
  case (Some row)
  assume "store_ok d"
  then have "store_ok (update_units (\<lambda>u. u_id u = uid \<and> \<not> terminal_unit (u_state u))
      (\<lambda>u. u\<lparr>u_state := USatisfied, u_outcome := Some Succeeded, u_ended_at := Some at\<rparr>) d)"
    by (rule store_ok_update_units) (auto simp: unit_ref_def unit_shape_def terminal_unit_def)
  then show ?thesis unfolding mark_unit_satisfied_tx_def Some
    by (simp, rule store_ok_update_orders) (auto simp: order_ref_def order_shape_def order_active_def active_order_def)
qed (simp add: mark_unit_satisfied_tx_def)

lemma start_work_ok: "store_ok d \<Longrightarrow> store_ok (snd (start_work_tx order uid at d))"
proof -
  assume ok: "store_ok d"
  have "store_ok (update_orders (\<lambda>w. wo_id (or_order w) = order \<and> wo_state (or_order w) = WAvailable)
      (\<lambda>w. w\<lparr>or_order := (or_order w)\<lparr>wo_state := WStarted\<rparr>\<rparr>) d)"
    by (rule store_ok_update_orders [OF ok]) (auto simp: order_ref_def order_shape_def order_active_def active_order_def)
  then have "store_ok (update_units (\<lambda>u. u_id u = uid \<and> u_state u = UReady) (\<lambda>u. u\<lparr>u_state := UWorking\<rparr>)
      (update_orders (\<lambda>w. wo_id (or_order w) = order \<and> wo_state (or_order w) = WAvailable)
        (\<lambda>w. w\<lparr>or_order := (or_order w)\<lparr>wo_state := WStarted\<rparr>\<rparr>) d))"
    by (rule store_ok_update_units) (auto simp: unit_ref_def unit_shape_def terminal_unit_def)
  then show ?thesis using ok by (simp add: start_work_tx_def split: option.splits)
qed

lemma mark_stage_succeeded_ok: "store_ok d \<Longrightarrow> store_ok (snd (mark_stage_succeeded_tx sid at d))"
  by (simp add: mark_stage_succeeded_tx_def end_stage_ok)

lemma complete_run_ok: "store_ok d \<Longrightarrow> store_ok (snd (complete_run_tx rid outcome at d))"
  by (simp add: complete_run_tx_def end_run_ok end_stage_ok)

lemma record_contradiction_ok: "store_ok d \<Longrightarrow> store_ok (snd (record_contradiction_tx rid c at d))"
  by (simp add: record_contradiction_tx_def Let_def end_run_ok end_stage_ok)

section \<open>Commands\<close>

text \<open>The unit a command names.\<close>

fun command_unit :: "command \<Rightarrow> string option" where
  "command_unit (MarkUnitSatisfied uid) = Some uid"
| "command_unit (StartWork _ uid) = Some uid"
| "command_unit (ReviseUnit c) = Some (rc_run_unit_id c)"
| "command_unit _ = None"

lemma find_Some_revision:
  assumes "stage_command env snap (ReviseUnit c)"
  shows "rc_run_unit_id c \<in> us_id ` set (all_units snap)"
proof -
  obtain key contract stored cs where st: "find_stage snap key = Some stored" "derive_stored_stage env snap key contract stored = Inr cs"
      "ReviseUnit c \<in> set cs"
    using assms new_stage_no_revision unfolding stage_command_def by blast
  from st(2) obtain minted where
    "\<forall>c \<in> set cs. c = CloseMaterialization key (ss_id stored) (policyOf contract) \<or>
       (\<exists>u \<in> set minted. c \<in> set (unit_commands env (run_id (snap_run snap)) contract key stored u))"
    by (rule derive_stored_stage_kinds)
  then obtain u where "ReviseUnit c \<in> set (unit_commands env (run_id (snap_run snap)) contract key stored u)" using st(3) by auto
  then obtain existing where "find_unit stored (mn_unit_id u) = Some existing" "ReviseUnit c = reviseUnitCommand key (ss_id stored) existing u"
    using unit_commands_kind by (fastforce simp: materializeUnitCommand_def)
  then have "rc_run_unit_id c = us_id existing" "existing \<in> set (ss_units stored)"
    by (auto simp: reviseUnitCommand_def dest: find_unit_Some)
  moreover have "stored \<in> set (snap_stages snap)" using st(1) by (auto simp: find_stage_def dest: find_Some_set)
  ultimately show ?thesis by (auto simp: all_units_def)
qed

lemma derive_names_units:
  assumes "derive env snap = Inr cmds" and "c \<in> set cmds" and "command_unit c = Some uid"
  shows "uid \<in> us_id ` set (all_units snap)"
proof (cases "is_fact c")
  case False
  then have "stage_command env snap c" using batch_command assms(1,2) by blast
  then show ?thesis using False assms(3) by (cases c) (auto simp: find_Some_revision)
next
  case True
  have und: "undecided snap" using assms by (cases "undecided snap") (auto elim!: derive_decided [of snap env])
  have "\<And>out. c \<noteq> CompleteRun out" using assms(3) by auto
  then obtain revised st where "st \<in> set (snap_stages snap)" "c \<in> set (stage_facts revised st)"
    using fact_in_batch [OF assms(1) und True] assms(2) by blast
  then show ?thesis using assms(3) True
    by (cases c) (auto simp: stage_facts_start stage_facts_satisfied all_units_def intro!: imageI dest!: in_set_takeD)
qed

definition unit_of_run :: "db \<Rightarrow> string \<Rightarrow> string \<Rightarrow> bool" where
  "unit_of_run d rid uid \<longleftrightarrow> (\<exists>ref\<in>unit_refs d. fst ref = uid \<and> fst (snd ref) = rid)"

lemma unit_of_run_unique:
  assumes "store_ok d" and "unit_of_run d rid uid" and "u \<in> set (db_units d)" and "u_id u = uid"
  shows "u_run_id u = rid"
proof -
  obtain v where v: "v \<in> set (db_units d)" "u_id v = uid" "u_run_id v = rid"
    using assms(2) by (auto simp: unit_of_run_def unit_refs_def unit_ref_def)
  have "distinct (map u_id (db_units d))"
    using assms(1) by (simp add: store_ok_def identity_ok_def identity_of_def unit_ref_def comp_def)
  then show ?thesis using v assms(3,4) by (auto dest: distinct_map_inj)
qed

lemma unit_of_run_mono: "unit_of_run d rid uid \<Longrightarrow> unit_refs d \<subseteq> unit_refs d' \<Longrightarrow> unit_of_run d' rid uid"
  by (auto simp: unit_of_run_def)

definition command_done :: "string \<Rightarrow> db \<Rightarrow> tx_effect \<times> db \<Rightarrow> bool" where
  "command_done rid d r \<longleftrightarrow>
     store_ok (snd r) \<and> (\<forall>p\<in>set (fx_pending (fst r)). tr_run_id p = rid) \<and> unit_refs d \<subseteq> unit_refs (snd r)"

lemma persist_done:
  assumes "persist_materialized_stage_tx env inp d = Inr r" and "store_ok d"
  shows "command_done (ps_run_id inp) d r"
  using persist_materialized_stage_tx_ok [of env inp d "fst r" "snd r"] persist_tx_refs [of env inp d "fst r" "snd r"] assms
  by (simp add: command_done_def)

lemma mark_unit_satisfied_done:
  assumes "store_ok d" and "unit_of_run d rid uid"
  shows "command_done rid d (mark_unit_satisfied_tx uid at d)"
proof -
  have "unit_refs (snd (mark_unit_satisfied_tx uid at d)) = unit_refs d"
    by (simp add: mark_unit_satisfied_tx_def unit_ref_def split: option.splits)
  moreover have "\<forall>p\<in>set (fx_pending (fst (mark_unit_satisfied_tx uid at d))). tr_run_id p = rid"
    using unit_of_run_unique [OF assms]
    by (auto simp: mark_unit_satisfied_tx_def NO_EFFECT_def unit_transition_def run_transition_def split: option.splits dest!: find_Some_set)
  ultimately show ?thesis using mark_unit_satisfied_ok [OF assms(1)] by (simp add: command_done_def)
qed

lemma start_work_done:
  assumes "store_ok d" and "unit_of_run d rid uid"
  shows "command_done rid d (start_work_tx order uid at d)"
proof -
  have "unit_refs (snd (start_work_tx order uid at d)) = unit_refs d"
    by (simp add: start_work_tx_def unit_ref_def split: option.splits)
  moreover have "\<forall>p\<in>set (fx_pending (fst (start_work_tx order uid at d))). tr_run_id p = rid"
    using unit_of_run_unique [OF assms]
    by (auto simp: start_work_tx_def NO_EFFECT_def unit_transition_def run_transition_def split: option.splits dest!: find_unit_row_id)
  ultimately show ?thesis using start_work_ok [OF assms(1)] by (simp add: command_done_def)
qed

lemma revise_run_owner: "revise_unit_input_tx inp d = Inr (r, d') \<Longrightarrow> revise_run r = Some rid \<Longrightarrow>
  \<exists>u. find_unit_row d (rv_run_unit_id inp) = Some u \<and> u_run_id u = rid"
  by (auto simp: revise_unit_input_tx_def Let_def split: option.splits if_splits)

lemma apply_revise_done:
  assumes "apply_revise_unit env loader snapshot c at d = Inr (effect, d')" and "store_ok d" and "unit_of_run d rid (rc_run_unit_id c)"
  shows "command_done rid d (effect, d')"
proof -
  obtain inp r where r: "revise_unit_input_tx inp d = Inr (r, d')" and inp: "rv_run_unit_id inp = rc_run_unit_id c"
    and effect: "effect = revise_effect r" and notfound: "revise_run r \<noteq> None"
  proof -
    obtain inp r0 d0 where tx: "revise_unit_input_tx inp d = Inr (r0, d0)" and inp: "rv_run_unit_id inp = rc_run_unit_id c"
      and rest: "(case r0 of ReviseTxNotFound detail \<Rightarrow> Err detail | ReviseTxUnchanged _ effect \<Rightarrow> Ok (effect, d0)
        | ReviseTxRevised _ effect \<Rightarrow> Ok (effect, d0)) = Inr (effect, d')"
      using assms(1) by (auto simp: apply_revise_unit_def split: option.splits)
    show thesis by (rule that [of inp r0]) (use tx inp rest in \<open>cases r0; auto\<close>)+
  qed
  obtain rid' u where u: "revise_run r = Some rid'" "find_unit_row d (rv_run_unit_id inp) = Some u" "u_run_id u = rid'"
    using notfound revise_run_owner [OF r] by blast
  then have "rid' = rid" using unit_of_run_unique [OF assms(2,3)] find_unit_row_id [OF u(2)] inp by simp
  then show ?thesis using revise_unit_input_tx_ok [OF r assms(2)] revise_tx_refs [OF r] u(1) effect by (simp add: command_done_def)
qed

lemma apply_command_done:
  assumes "apply_command env loader snapshot c at d = Inr r" and "store_ok d"
    and "\<And>uid. command_unit c = Some uid \<Longrightarrow> unit_of_run d (run_id (snap_run snapshot)) uid"
  shows "command_done (run_id (snap_run snapshot)) d r"
proof (cases c)
  case (MaterializeStage key sid policy)
  then obtain contract where "persist_materialized_stage_tx env (stage_write snapshot contract key sid policy [] False at) d = Inr r"
    using assms(1) by (auto simp: apply_command_def)
  then show ?thesis using persist_done [OF _ assms(2)] by (fastforce simp: stage_write_def)
next
  case (MaterializeUnit m)
  then obtain contract units where "persist_materialized_stage_tx env (stage_write snapshot contract (mc_stage_key m)
      (mc_stage_instance_id m) (mc_policy m) units False at) d = Inr r"
    using assms(1) by (auto simp: apply_command_def apply_materialize_unit_def)
  then show ?thesis using persist_done [OF _ assms(2)] by (fastforce simp: stage_write_def)
next
  case (CloseMaterialization key sid policy)
  then obtain contract where "persist_materialized_stage_tx env (stage_write snapshot contract key sid policy [] True at) d = Inr r"
    using assms(1) by (auto simp: apply_command_def)
  then show ?thesis using persist_done [OF _ assms(2)] by (fastforce simp: stage_write_def)
next
  case (ReviseUnit m)
  then show ?thesis using assms apply_revise_done [of env loader snapshot m at d "fst r" "snd r"] by (simp add: apply_command_def)
next
  case (MarkUnitSatisfied uid)
  then show ?thesis using assms by (auto simp: apply_command_def intro: mark_unit_satisfied_done)
next
  case (StartWork w uid)
  then show ?thesis using assms by (auto simp: apply_command_def intro: start_work_done)
next
  case (MarkStageSucceeded sid)
  then show ?thesis using assms(1) mark_stage_succeeded_ok [OF assms(2)]
    by (auto simp: apply_command_def command_done_def mark_stage_succeeded_tx_def)
next
  case (CompleteRun outcome)
  then show ?thesis using assms(1) complete_run_ok [OF assms(2)]
    by (auto simp: apply_command_def command_done_def complete_run_tx_def)
qed

section \<open>The ask\<close>

lemma snapshot_units: "us_id ` set (all_units (load_run_snapshot env run workflow d)) \<subseteq> {uid. unit_of_run d (run_id run) uid}"
  by (auto simp: all_units_def load_run_snapshot_def stage_snapshot_of_def unit_snapshot_of_def unit_of_run_def unit_refs_def unit_ref_def)

definition batch_ok :: "string \<Rightarrow> string set \<Rightarrow> batch_state \<Rightarrow> bool" where
  "batch_ok rid named st \<longleftrightarrow>
     store_ok (bs_db st) \<and> (\<forall>p\<in>set (fx_pending (bs_effect st)). tr_run_id p = rid) \<and> (\<forall>uid\<in>named. unit_of_run (bs_db st) rid uid)"

lemma apply_step_ok:
  assumes "apply_step env loader snapshot at c st = Inr st'" and "batch_ok (run_id (snap_run snapshot)) named st"
    and "\<And>uid. command_unit c = Some uid \<Longrightarrow> uid \<in> named"
  shows "batch_ok (run_id (snap_run snapshot)) named st'"
proof -
  obtain applied d where cmd: "apply_command env loader snapshot c at (bs_db st) = Inr (applied, d)"
    and st': "bs_effect st' = mergeEffects [bs_effect st, applied]" "bs_db st' = d"
    using assms(1) by (auto simp: apply_step_def)
  have "command_done (run_id (snap_run snapshot)) (bs_db st) (applied, d)"
    by (rule apply_command_done [OF cmd]) (use assms(2,3) in \<open>auto simp: batch_ok_def\<close>)
  then show ?thesis using assms(2) unit_of_run_mono [of "bs_db st" _ _ d]
    by (auto simp: batch_ok_def st' command_done_def mergeEffects_def)
qed

lemma batch_fold_ok:
  assumes "fold_result (apply_step env loader snapshot at) commands st = Inr st'" and "batch_ok (run_id (snap_run snapshot)) named st"
    and "\<And>c uid. c \<in> set commands \<Longrightarrow> command_unit c = Some uid \<Longrightarrow> uid \<in> named"
  shows "batch_ok (run_id (snap_run snapshot)) named st'"
  by (rule fold_result_invariant [OF assms(1), where P = "batch_ok (run_id (snap_run snapshot)) named"])
    (use assms(2) apply_step_ok assms(3) in blast)+

lemma decide_active_ok:
  assumes "decide_active env registry loader run at d = Inr (r, d')" and "store_ok d"
  shows "store_ok d'"
proof -
  obtain workflow where wf: "load_compiled_definition_tx registry d (run_definition_id run) = Inr workflow"
    using assms(1) by (auto simp: decide_active_def)
  let ?snapshot = "load_run_snapshot env run workflow d"
  have rid: "run_id (snap_run ?snapshot) = run_id run" by (simp add: load_run_snapshot_def)
  show ?thesis
  proof (cases "derive env ?snapshot")
    case (Inl c)
    then obtain v where "commit_batch (run_id run) (snd (fst (record_contradiction_tx (run_id run) c at d)))
        (snd (record_contradiction_tx (run_id run) c at d)) = Inr (v, d')"
      using assms(1) wf by (auto simp: decide_active_def Let_def case_prod_beta)
    then show ?thesis using record_contradiction_ok [OF assms(2)]
      by (elim store_ok_commit_batch [rotated]) (auto simp: record_contradiction_tx_def Let_def run_transition_def)
  next
    case (Inr commands)
    then obtain st v where fold: "fold_result (apply_step env loader ?snapshot at) commands
          \<lparr>bs_effect = NO_EFFECT, bs_started = [], bs_completed = None, bs_db = d\<rparr> = Inr st"
      and commit: "commit_batch (run_id run) (bs_effect st) (bs_db st) = Inr (v, d')"
      using assms(1) wf by (auto simp: decide_active_def Let_def)
    let ?named = "us_id ` set (all_units ?snapshot)"
    have "batch_ok (run_id (snap_run ?snapshot)) ?named st"
      by (rule batch_fold_ok [OF fold])
        (use assms(2) snapshot_units [of env run workflow d] derive_names_units [OF Inr] rid in \<open>auto simp: batch_ok_def NO_EFFECT_def\<close>)
    then show ?thesis using store_ok_commit_batch [OF _ commit] rid by (simp add: batch_ok_def)
  qed
qed

lemma decide_run_ok: "store_ok d \<Longrightarrow> store_ok (snd (decide_run env registry loader rid at d))"
  unfolding decide_run_def
  by (rule transaction_ok) (auto simp: Let_def split: option.splits if_splits dest: decide_active_ok)

section \<open>Cancellation\<close>

lemma unit_in_run_frame [simp]:
  "unit_in_run (update_waits p1 f1 d) rid uid = unit_in_run d rid uid" "unit_in_run (update_slots p2 f2 d) rid uid = unit_in_run d rid uid"
  "unit_in_run (update_orders p3 f3 d) rid uid = unit_in_run d rid uid" "unit_in_run (update_stages p4 f4 d) rid uid = unit_in_run d rid uid"
  by (simp_all add: unit_in_run_def row_update_defs)

lemma withdraw_run_ok:
  assumes "store_ok d"
  shows "store_ok (cancel_slots rid at (cancel_waits rid at d))"
proof -
  define fs where "fs s = (if unit_in_run d rid (slot_run_unit_id s) \<and> is_pending (slot_state s)
    then invalidate_slot (OperatorInvalidated ''run cancelled'') at s else s)" for s
  define fw where "fw w = (if (case wait_run_unit_id w of None \<Rightarrow> False | Some uid \<Rightarrow> unit_in_run d rid uid) \<and> wait_is_open w
    then close_wait WaitWithdrawn at w else w)" for w
  have keys: "slot_key (fs s) = slot_key s" "wait_ref (fw w) = wait_ref w" for s w by (simp_all add: fs_def fw_def)
  have d: "cancel_slots rid at (cancel_waits rid at d) = d\<lparr>db_slots := map fs (db_slots d), db_waits := map fw (db_waits d)\<rparr>"
    by (simp add: cancel_slots_def cancel_waits_def) (simp add: update_slots_def update_waits_def update_where_def fs_def [abs_def] fw_def [abs_def])
  have "parked_ok (map fs (db_slots d)) (map fw (db_waits d))"
  proof (rule parked_ok_map)
    show "parked_ok (db_slots d) (db_waits d)" using assms by (simp add: store_ok_def)
    show "is_pending (slot_state (fs s)) \<longleftrightarrow> wait_is_open (fw x)"
      if "slot_state s = SlotPending a (wait_id x) t" "wait_is_open x" "wait_slot_key x = Some (slot_key s)" for s x a t
      using that by (auto simp: fs_def fw_def wait_slot_key_def slot_key_def split: option.splits)
  qed (use keys in \<open>auto simp: fs_def fw_def split: if_splits\<close>)
  moreover have "held_ok (map fs (db_slots d)) (db_units d) (db_artifacts d)"
    by (rule held_ok_map) (use assms in \<open>auto simp: store_ok_def fs_def split: if_splits\<close>)
  ultimately show ?thesis by (intro store_ok_slots_waits [OF assms d keys]) (simp_all add: d)
qed

lemma cancel_rows_ok:
  assumes "store_ok d"
  shows "store_ok (cancel_rows rid outcome at d)"
proof -
  have "store_ok (cancel_orders rid at (cancel_slots rid at (cancel_waits rid at d)))"
    unfolding cancel_orders_def
    by (rule store_ok_update_orders [OF withdraw_run_ok [OF assms]])
      (auto simp: order_ref_def order_shape_def order_active_def active_order_def)
  then have "store_ok (cancel_units rid outcome at (cancel_orders rid at (cancel_slots rid at (cancel_waits rid at d))))"
    unfolding cancel_units_def by (rule store_ok_update_units) (auto simp: unit_ref_def unit_shape_def terminal_unit_def)
  then show ?thesis unfolding cancel_rows_def cancel_stages_def
    by (intro store_ok_bump end_run_ok end_stage_ok) auto
qed

lemma cancel_rows_version:
  assumes "find_run d rid = Some run"
  shows "currentVersion (cancel_rows rid outcome at d) rid = run_record_version run + 1"
proof -
  let ?inner = "cancel_stages rid outcome at (cancel_units rid outcome at (cancel_orders rid at (cancel_slots rid at (cancel_waits rid at d))))"
  have "find_run ?inner rid = Some run"
    using assms by (simp add: find_run_def cancel_stages_def cancel_units_def cancel_orders_def cancel_slots_def cancel_waits_def row_update_defs)
  then have "find_run (update_runs (\<lambda>r. run_id r = rid) (end_run rid RunCancelled outcome at) ?inner) rid = Some (end_run rid RunCancelled outcome at run)"
    using find_run_id [OF assms] by (simp add: find_update_runs end_run_def)
  then show ?thesis by (simp add: cancel_rows_def currentVersion_bump end_run_def)
qed

lemma cancel_run_ok:
  assumes "store_ok d"
  shows "store_ok (snd (cancel_run inp d))"
  unfolding cancel_run_def
proof (rule transaction_ok [OF _ assms], goal_cases)
  case (1 r d')
  show ?case
  proof (cases "find_run d (cn_run_id inp)")
    case None
    then show ?thesis using 1 assms by auto
  next
    case (Some run)
    let ?d1 = "cancel_rows (cn_run_id inp) (Cancelled (cn_reason inp)) (cn_cancelled_at inp) d"
    show ?thesis
    proof (cases "run_state run = RunActive")
      case False
      then show ?thesis using 1 assms Some by auto
    next
      case True
      obtain p where "insertTransition p (run_record_version run) (currentVersion ?d1 (cn_run_id inp)) ?d1 = Inr d'"
          and p: "tr_run_id p = cn_run_id inp"
        using 1 Some True by (auto simp: Let_def run_transition_def)
      then show ?thesis using store_ok_insertTransition [OF cancel_rows_ok [OF assms]] cancel_rows_version [OF Some] by auto
    qed
  qed
qed

section \<open>Deletion\<close>

lemma unit_in_run_iff:
  assumes "store_ok d" and "u \<in> set (db_units d)"
  shows "unit_in_run d rid (u_id u) \<longleftrightarrow> u_run_id u = rid"
proof -
  have "distinct (map u_id (db_units d))"
    using assms(1) by (simp add: store_ok_def identity_ok_def identity_of_def unit_ref_def comp_def)
  then show ?thesis using assms(2) by (auto simp: unit_in_run_def dest: distinct_map_inj)
qed

lemma stage_in_run_iff:
  assumes "store_ok d" and "u \<in> set (db_units d)"
  shows "stage_in_run d rid (u_stage_id u) \<longleftrightarrow> u_run_id u = rid"
proof -
  have dist: "distinct (map sr_id (db_stages d))"
    using assms(1) by (simp add: store_ok_def identity_ok_def identity_of_def stage_ref_def comp_def)
  obtain s where "s \<in> set (db_stages d)" "sr_id s = u_stage_id u" "sr_run_id s = u_run_id u"
    using assms by (force simp: store_ok_def identity_ok_def identity_of_def stage_ref_def unit_ref_def)
  then show ?thesis using distinct_map_inj [OF dist] unfolding stage_in_run_def by metis
qed

lemma slot_unit_in: "store_ok d \<Longrightarrow> s \<in> set (db_slots d) \<Longrightarrow> \<exists>u\<in>set (db_units d). u_id u = slot_run_unit_id s"
  by (force simp: store_ok_def identity_ok_def identity_of_def slot_key_def unit_ref_def)

lemma wait_unit_in:
  assumes "store_ok d" and "w \<in> set (db_waits d)" and "wait_run_unit_id w = Some uid"
  shows "\<exists>u\<in>set (db_units d). u_id u = uid \<and> u_stage_id u = wait_stage_instance_id w"
proof -
  have "wait_owned (map unit_ref (db_units d)) (wait_ref w)"
    using assms(1,2) by (simp add: store_ok_def identity_ok_def identity_of_def)
  then show ?thesis using assms(3) by (force simp: wait_ref_def unit_ref_def)
qed

text \<open>A run-owned wait goes with its slot.\<close>

lemma wait_goes_with_slot:
  assumes "store_ok d" and "w \<in> set (db_waits d)" and "wait_slot_key w = Some k"
  shows "stage_in_run d rid (wait_stage_instance_id w) \<longleftrightarrow> unit_in_run d rid (fst k)"
proof -
  have uid: "wait_run_unit_id w = Some (fst k)" using assms(3) by (auto simp: wait_slot_key_def split: option.splits)
  then obtain u where u: "u \<in> set (db_units d)" "u_id u = fst k" "u_stage_id u = wait_stage_instance_id w"
    using wait_unit_in [OF assms(1,2)] by blast
  then show ?thesis using unit_in_run_iff [OF assms(1) u(1), of rid] stage_in_run_iff [OF assms(1) u(1), of rid] by simp
qed

lemma delete_identity:
  assumes "store_ok d"
  shows "identity_ok (identity_of (delete_cascade rid d))"
proof -
  have id: "identity_ok (identity_of d)" using assms by (simp add: store_ok_def)
  let ?d = "delete_cascade rid d"
  have wait: "wait_owned (map unit_ref (db_units ?d)) (wait_ref w)" if w: "w \<in> set (db_waits d)" "\<not> stage_in_run d rid (wait_stage_instance_id w)" for w
  proof (cases "wait_run_unit_id w")
    case None
    then show ?thesis using id w(1) by (force simp: identity_ok_def identity_of_def wait_ref_def)
  next
    case (Some uid)
    then obtain u where u: "u \<in> set (db_units d)" "u_id u = uid" "u_stage_id u = wait_stage_instance_id w"
      using wait_unit_in [OF assms w(1)] by blast
    then have "u \<in> set (db_units ?d)" using stage_in_run_iff [OF assms u(1), of rid] w(2) by (simp add: delete_cascade_def)
    moreover have "wait_output_name w \<noteq> None" using id w(1) Some by (force simp: identity_ok_def identity_of_def wait_ref_def)
    ultimately show ?thesis using u Some by (force simp: wait_ref_def unit_ref_def)
  qed
  have unit: "(u_stage_id u, u_run_id u) \<in> stage_ref ` set (db_stages ?d)" if u: "u \<in> set (db_units d)" "u_run_id u \<noteq> rid" for u
    using id u by (force simp: identity_ok_def identity_of_def stage_ref_def unit_ref_def delete_cascade_def)
  have owner: "uid \<in> u_id ` set (db_units ?d)" if "uid \<in> u_id ` set (db_units d)" "\<not> unit_in_run d rid uid" for uid
    using that unit_in_run_iff [OF assms] by (force simp: delete_cascade_def)
  have slot: "slot_run_unit_id s \<in> u_id ` set (db_units ?d)" if "s \<in> set (db_slots d)" "\<not> unit_in_run d rid (slot_run_unit_id s)" for s
    using owner [OF _ that(2)] slot_unit_in [OF assms that(1)] by force
  have order: "wo_run_unit_id (or_order w) \<in> u_id ` set (db_units ?d)"
    if "w \<in> set (db_orders d)" "\<not> unit_in_run d rid (wo_run_unit_id (or_order w))" for w
    using owner [OF _ that(2)] store_ok_order_unit [OF assms that(1)] by force
  have stage: "sr_run_id s \<in> run_id ` set (db_runs ?d)" if "s \<in> set (db_stages d)" "sr_run_id s \<noteq> rid" for s
    using id that by (force simp: identity_ok_def identity_of_def stage_ref_def delete_cascade_def)
  show ?thesis
    unfolding identity_ok_def
  proof (intro conjI)
    show "\<forall>w\<in>set (id_waits (identity_of ?d)). wait_owned (id_units (identity_of ?d)) w"
      using wait by (auto simp: identity_of_def) (simp add: delete_cascade_def)
    show "\<forall>(u, r, s, _)\<in>set (id_units (identity_of ?d)). (s, r) \<in> set (id_stages (identity_of ?d))"
      using unit by (auto simp: identity_of_def unit_ref_def) (simp add: delete_cascade_def)
    show "\<forall>(u, _)\<in>set (id_slots (identity_of ?d)). u \<in> fst ` set (id_units (identity_of ?d))"
      using slot unfolding identity_of_units by (auto simp: identity_of_def slot_key_def) (simp add: delete_cascade_def)
    show "\<forall>(_, u)\<in>set (id_orders (identity_of ?d)). u \<in> fst ` set (id_units (identity_of ?d))"
      using order unfolding identity_of_units by (auto simp: identity_of_def order_ref_def) (simp add: delete_cascade_def)
    show "\<forall>(s, r)\<in>set (id_stages (identity_of ?d)). r \<in> set (id_runs (identity_of ?d))"
      using stage by (auto simp: identity_of_def stage_ref_def) (simp add: delete_cascade_def)
  qed (use id in \<open>simp_all add: identity_ok_def identity_of_def delete_cascade_def comp_def distinct_map_filter\<close>)
qed

lemma delete_cascade_ok:
  assumes "store_ok d"
  shows "store_ok (delete_cascade rid d)"
proof -
  let ?d = "delete_cascade rid d"
  have parked: "parked_ok (db_slots d) (db_waits d)" and held: "held_ok (db_slots d) (db_units d) (db_artifacts d)"
    and audit: "audit_ok (db_runs d) (db_transitions d)" and one: "one_active (db_orders d)"
    using assms by (simp_all add: store_ok_def)
  have "parked_ok (db_slots ?d) (db_waits ?d)"
    unfolding parked_ok_def
  proof (intro conjI ballI allI impI)
    fix s a w t assume s: "s \<in> set (db_slots ?d)" "slot_state s = SlotPending a w t"
    then have inS: "s \<in> set (db_slots d)" and run: "\<not> unit_in_run d rid (fst (slot_key s))" by (auto simp: delete_cascade_def slot_key_def)
    obtain x where x: "x \<in> set (db_waits d)" "wait_id x = w" "wait_is_open x" "wait_slot_key x = Some (slot_key s)" "wait_artifact_revision_id x = a"
      using parked inS s(2) unfolding parked_ok_def by blast
    then have "x \<in> set (db_waits ?d)" using wait_goes_with_slot [OF assms x(1,4)] run by (simp add: delete_cascade_def)
    then show "\<exists>x\<in>set (db_waits ?d). wait_id x = w \<and> wait_is_open x \<and> wait_slot_key x = Some (slot_key s) \<and> wait_artifact_revision_id x = a"
      using x by blast
  next
    fix x k assume x: "x \<in> set (db_waits ?d)" "wait_is_open x \<and> wait_slot_key x = Some k"
    then have inW: "x \<in> set (db_waits d)" and run: "\<not> stage_in_run d rid (wait_stage_instance_id x)" by (auto simp: delete_cascade_def)
    obtain s t where s: "s \<in> set (db_slots d)" "slot_key s = k" "slot_state s = SlotPending (wait_artifact_revision_id x) (wait_id x) t"
      using parked inW x(2) unfolding parked_ok_def by blast
    then have "s \<in> set (db_slots ?d)" using wait_goes_with_slot [OF assms inW, of k rid] x(2) run by (auto simp: delete_cascade_def slot_key_def)
    then show "\<exists>s\<in>set (db_slots ?d). slot_key s = k \<and> (\<exists>t. slot_state s = SlotPending (wait_artifact_revision_id x) (wait_id x) t)"
      using s by blast
  qed
  moreover have "held_ok (db_slots ?d) (db_units ?d) (db_artifacts ?d)"
    unfolding held_ok_def
  proof (intro ballI allI impI)
    fix s a assume s: "s \<in> set (db_slots ?d)" "slot_artifact (slot_state s) = Some a"
    then have inS: "s \<in> set (db_slots d)" and run: "\<not> unit_in_run d rid (slot_run_unit_id s)" by (auto simp: delete_cascade_def)
    obtain u where u: "u \<in> set (db_units d)" "u_id u = slot_run_unit_id s" "(a, u_run_id u) \<in> artifact_ref ` set (db_artifacts d)"
      using held inS s(2) unfolding held_ok_def by blast
    then have "u_run_id u \<noteq> rid" using unit_in_run_iff [OF assms u(1), of rid] run by simp
    then show "\<exists>u\<in>set (db_units ?d). u_id u = slot_run_unit_id s \<and> (a, u_run_id u) \<in> artifact_ref ` set (db_artifacts ?d)"
      using u by (intro bexI [of _ u]) (auto simp: delete_cascade_def artifact_ref_def image_iff)
  qed
  moreover have "audit_ok (db_runs ?d) (db_transitions ?d)" using audit by (fastforce simp: audit_ok_def delete_cascade_def)
  moreover have "one_active (db_orders ?d)" using one by (simp add: one_active_def delete_cascade_def)
  moreover have "shape_ok ?d" using assms by (simp add: store_ok_def shape_ok_def delete_cascade_def list_all_iff)
  ultimately show ?thesis using delete_identity [OF assms] by (simp add: store_ok_def)
qed

lemma delete_run_ok: "store_ok d \<Longrightarrow> store_ok (snd (delete_run rid d))"
  unfolding delete_run_def
  by (rule transaction_ok) (auto split: option.splits if_splits intro: delete_cascade_ok)

end
