(* ===== verification/Launch.thy ===== *)
theory Launch
  imports AskInvariant
begin

text \<open>
  Launching a run: the project and epic records (\<open>domain/projects.ts\<close>, \<open>domain/epic.ts\<close>,
  \<open>domain/runs.ts\<close>), the context a run starts with (\<open>runtime/prepare-run-context.ts\<close>), the
  repository identity of a project (\<open>runtime/project-identity.ts\<close>), the definition and run
  tables (\<open>storage/postgres-workflow-definitions.ts\<close>, \<open>storage/postgres-domain.ts\<close>), the launch
  itself (\<open>runtime/launch-run.ts\<close>), the sweep that starts what a launch left unstarted
  (\<open>runtime/run-launch-dispatch.ts\<close>) and cancellation (\<open>runtime/cancel-v2-run.ts\<close>).
\<close>

section \<open>Projects and epics\<close>

record forge_repository =
  fg_owner :: string
  fg_name :: string

record project =
  pj_id :: string
  pj_name :: string
  pj_repo_dir :: string
  pj_created_at :: string
  pj_forge_repository :: "forge_repository option"
  pj_base_branch :: "string option"

datatype final_merge_policy = MergeGuarded | MergeExternalConfirmation
datatype epic_lifecycle = EpicDraft | EpicActive | EpicFinalIntegration | EpicCompleted | EpicFailed
datatype final_merge_state = MergePending | MergePullRequestOpen | MergeAwaitingConfirmation | MergeMerged | MergeClosedWithoutMerge

record pull_request_reference =
  pq_number :: nat
  pq_url :: string
  pq_head_branch :: string
  pq_base_branch :: string

record epic_repository =
  eb_repository_key :: string
  eb_repository_path :: string
  eb_integration_branch :: string
  eb_forge_repository :: "forge_repository option"
  eb_final_pull_request :: "pull_request_reference option"
  eb_final_merge_state :: final_merge_state

record epic_profile =
  ep_id :: string
  ep_workflow_run_id :: string
  ep_title :: string
  ep_slug :: string
  ep_lifecycle_state :: epic_lifecycle
  ep_final_merge_policy :: final_merge_policy
  ep_base_branch :: string
  ep_repositories :: "epic_repository list"
  ep_created_at :: string
  ep_updated_at :: string

record epic_repository_request =
  xr_repository_key :: string
  xr_repository_path :: string
  xr_integration_branch :: string
  xr_forge_repository :: "forge_repository option"

record epic_profile_request =
  xq_title :: string
  xq_slug :: string
  xq_final_merge_policy :: final_merge_policy
  xq_base_branch :: "string option"
  xq_repositories :: "epic_repository_request list"

section \<open>The context of a run\<close>

type_synonym run_context = "json js_obj"

fun isRunContext :: "json \<Rightarrow> bool" where
  "isRunContext (JObj _) = True"
| "isRunContext _ = False"

definition new_binding :: "epic_repository_request \<Rightarrow> epic_repository" where
  "new_binding r =
     \<lparr>eb_repository_key = xr_repository_key r, eb_repository_path = xr_repository_path r,
      eb_integration_branch = xr_integration_branch r, eb_forge_repository = xr_forge_repository r,
      eb_final_pull_request = None, eb_final_merge_state = MergePending\<rparr>"

definition createEpicProfile :: "string \<Rightarrow> string \<Rightarrow> epic_profile_request \<Rightarrow> string \<Rightarrow> epic_profile" where
  "createEpicProfile i rid config created_at =
     \<lparr>ep_id = i, ep_workflow_run_id = rid, ep_title = xq_title config, ep_slug = xq_slug config,
      ep_lifecycle_state = EpicActive, ep_final_merge_policy = xq_final_merge_policy config,
      ep_base_branch = selectBaseBranch (xq_base_branch config) (xq_slug config),
      ep_repositories = map new_binding (xq_repositories config), ep_created_at = created_at, ep_updated_at = created_at\<rparr>"

definition project_context :: "project option \<Rightarrow> run_context" where
  "project_context p =
     (case p of
        None \<Rightarrow> []
      | Some pj \<Rightarrow>
          [(''project'', JObj [(''id'', JStr (pj_id pj)), (''name'', JStr (pj_name pj)), (''repo_dir'', JStr (pj_repo_dir pj))]),
           (''workdir'', JStr (pj_repo_dir pj))])"

definition repository_entry :: "epic_repository_request \<Rightarrow> json" where
  "repository_entry r =
     JObj [(''key'', JStr (xr_repository_key r)), (''path'', JStr (xr_repository_path r)),
           (''integration_branch'', JStr (xr_integration_branch r))]"

definition prepareRunContext :: "run_context \<Rightarrow> project option \<Rightarrow> epic_profile_request option \<Rightarrow> run_context" where
  "prepareRunContext caller_context pj epic =
     (let callerWins = obj_assign (project_context pj) caller_context
      in case epic of
           None \<Rightarrow> callerWins
         | Some e \<Rightarrow>
             obj_set ''repositories'' (JArr (map repository_entry (xq_repositories e)))
               (obj_set ''base_branch'' (JStr (selectBaseBranch (xq_base_branch e) (xq_slug e))) callerWins))"

section \<open>The repository identity of a project\<close>

definition github_prefixes :: "string list" where
  "github_prefixes = [''git@github.com:'', ''ssh://git@github.com/'', ''https://github.com/'', ''http://github.com/'']"

text \<open>\<open>replace(/\.git$/, "")\<close>.\<close>

definition strip_git :: "string \<Rightarrow> string" where
  "strip_git s = (if is_prefix_of (rev ''.git'') (rev s) then take (length s - 4) s else s)"

definition githubIdentityFromRemote :: "string \<Rightarrow> forge_repository option" where
  "githubIdentityFromRemote remoteValue =
     (let remote = rev (dropWhile (\<lambda>c. c = CHR ''/'') (rev (js_trim remoteValue)))
      in case List.find (\<lambda>p. is_prefix_of p remote) github_prefixes of
           None \<Rightarrow> None
         | Some pre \<Rightarrow>
             (case js_split (CHR ''/'') (strip_git (drop (length pre) remote)) of
                [own, name] \<Rightarrow> if own = [] \<or> name = [] then None else Some \<lparr>fg_owner = own, fg_name = name\<rparr>
              | _ \<Rightarrow> None))"

text \<open>\<open>GitProjectRepositoryIdentityResolver.resolve\<close>; \<open>git\<close> is what the subprocess printed, if it succeeded.\<close>

definition resolve_identity :: "(string \<Rightarrow> string list \<Rightarrow> string option) \<Rightarrow> string \<Rightarrow> (forge_repository \<times> string option) option" where
  "resolve_identity git repoDir =
     (case git repoDir [''remote'', ''get-url'', ''origin''] of
        None \<Rightarrow> None
      | Some remote \<Rightarrow>
          (case githubIdentityFromRemote remote of
             None \<Rightarrow> None
           | Some forge \<Rightarrow>
               (case git repoDir [''symbolic-ref'', ''--short'', ''refs/remotes/origin/HEAD''] of
                  None \<Rightarrow> Some (forge, None)
                | Some head \<Rightarrow>
                    if is_prefix_of ''origin/'' head \<and> drop 7 head \<noteq> [] then Some (forge, Some (drop 7 head))
                    else Some (forge, None))))"

section \<open>Equality of \<open>jsonb\<close>\<close>

text \<open>\<open>jsonb\<close> compares objects without regard to the order of their members.\<close>

fun jsonb :: "json \<Rightarrow> json" where
  "jsonb (JArr vs) = JArr (map jsonb vs)"
| "jsonb (JObj kvs) = JObj (sort_key fst (map (\<lambda>(k, v). (k, jsonb v)) kvs))"
| "jsonb v = v"

section \<open>The definition table\<close>

definition output_slot_json :: "output_slot \<Rightarrow> json" where
  "output_slot_json out = JObj [(''name'', JStr (os_name out)), (''artifact_type'', JStr (os_artifact_type out))]"

definition edge_json :: "edge \<Rightarrow> json" where
  "edge_json e =
     JObj [(''from'', JObj [(''stage'', JStr (from_stage e)), (''slot'', JStr (from_slot e))]),
           (''to'', JObj [(''stage'', JStr (to_stage e)), (''slot'', JStr (to_slot e))])]"

definition stage_node_json :: "stage_node \<Rightarrow> json" where
  "stage_node_json n =
     JObj [(''stage_type'', JStr (sn_stage_type n)),
           (''operator_role'', case sn_operator_role n of None \<Rightarrow> JNull | Some r \<Rightarrow> JStr (role_text r)),
           (''config'', sn_config n), (''inputs'', JArr (map input_slot_json (sn_inputs n))),
           (''outputs'', JArr (map output_slot_json (sn_outputs n)))]"

definition definition_json :: "workflow_definition \<Rightarrow> json" where
  "definition_json w =
     JObj [(''id'', JStr (wd_id w)), (''name'', JStr (wd_name w)), (''version'', num_json (wd_version w)),
           (''graph'', JObj [(''stages'', JObj (map (\<lambda>(k, n). (k, stage_node_json n)) (graph_stages (wd_graph w)))),
                             (''edges'', JArr (map edge_json (graph_edges (wd_graph w))))]),
           (''created_at'', JStr (wd_created_at w)), (''archived'', JBool (wd_archived w))]"

definition decodeDefinition :: "zod_env \<Rightarrow> definition_row \<Rightarrow> string + workflow_definition" where
  "decodeDefinition z row =
     (case parseWorkflowDefinition z (definition_json (df_definition row)) of
        Inl e \<Rightarrow> Err (''stored workflow definition is invalid: '' @ ve_detail e)
      | Inr w \<Rightarrow> Ok w)"

definition find_definition :: "db \<Rightarrow> string \<Rightarrow> definition_row option" where
  "find_definition d i = List.find (\<lambda>row. df_id row = i) (db_definitions d)"

definition find_definition_by_id :: "zod_env \<Rightarrow> db \<Rightarrow> string \<Rightarrow> string + workflow_definition option" where
  "find_definition_by_id z d i =
     (case find_definition d i of
        None \<Rightarrow> Ok None
      | Some row \<Rightarrow> bind_result (decodeDefinition z row) (\<lambda>w. Ok (Some w)))"

text \<open>
  \<open>INSERT ... ON CONFLICT (name, version)\<close>: an equal definition is the stored one, \<open>archived\<close> apart.
  A definition row holds the definition's own id, name and version.
\<close>

definition insert_immutable :: "zod_env \<Rightarrow> workflow_definition \<Rightarrow> db \<Rightarrow> (string + workflow_definition) \<times> db" where
  "insert_immutable z w d =
     (case List.find (\<lambda>row. wd_name (df_definition row) = wd_name w \<and> df_version row = wd_version w) (db_definitions d) of
        Some row \<Rightarrow>
          if jsonb (definition_json ((df_definition row)\<lparr>wd_archived := False\<rparr>)) = jsonb (definition_json (w\<lparr>wd_archived := False\<rparr>))
          then (decodeDefinition z row, d)
          else (Err (''workflow definition '' @ wd_name w @ ''@'' @ nat_to_string (wd_version w) @ '' conflicts with immutable stored content''), d)
      | None \<Rightarrow>
          if find_definition d (wd_id w) \<noteq> None then (Err (violates ''workflow_definition_pkey''), d)
          else if wd_version w = 0 then (Err ''workflow_definition_version_check'', d)
          else let row = \<lparr>df_id = wd_id w, df_version = wd_version w, df_definition = w\<rparr>
               in (decodeDefinition z row, d\<lparr>db_definitions := db_definitions d @ [row]\<rparr>))"

definition set_definition_archived :: "zod_env \<Rightarrow> string \<Rightarrow> bool \<Rightarrow> db \<Rightarrow> (string + workflow_definition option) \<times> db" where
  "set_definition_archived z i archived d =
     (let d' = d\<lparr>db_definitions := update_where (\<lambda>row. df_id row = i)
           (\<lambda>row. row\<lparr>df_definition := (df_definition row)\<lparr>wd_archived := archived\<rparr>\<rparr>) (db_definitions d)\<rparr>
      in (find_definition_by_id z d' i, d'))"

definition find_definition_by_name_version :: "zod_env \<Rightarrow> db \<Rightarrow> string \<Rightarrow> nat \<Rightarrow> string + workflow_definition option" where
  "find_definition_by_name_version z d name version =
     (case List.find (\<lambda>row. wd_name (df_definition row) = name \<and> df_version row = version) (db_definitions d) of
        None \<Rightarrow> Ok None
      | Some row \<Rightarrow> bind_result (decodeDefinition z row) (\<lambda>w. Ok (Some w)))"

text \<open>A listing leaves out the rows that no longer parse, where a lookup by id throws.\<close>

definition decodeListedDefinition :: "zod_env \<Rightarrow> definition_row \<Rightarrow> workflow_definition option" where
  "decodeListedDefinition z row =
     (case parseWorkflowDefinition z (definition_json (df_definition row)) of Inl _ \<Rightarrow> None | Inr w \<Rightarrow> Some w)"

text \<open>\<open>ORDER BY name, version DESC\<close>; the sorts are stable.\<close>

definition list_definitions :: "zod_env \<Rightarrow> bool \<Rightarrow> db \<Rightarrow> workflow_definition list" where
  "list_definitions z include_archived d =
     List.map_filter (decodeListedDefinition z)
       (sort_key (\<lambda>row. wd_name (df_definition row)) (rev (sort_key df_version (rev
         (filter (\<lambda>row. include_archived \<or> \<not> wd_archived (df_definition row)) (db_definitions d))))))"

section \<open>The run table\<close>

text \<open>
  The columns of \<open>workflow_run\<close> that only the launch reads, beside the run record, with the epic and
  project tables. A row that was never given them has the schema's defaults, \<open>NULL\<close> and \<open>false\<close>.
\<close>

record launch_columns =
  lc_run_id :: string
  lc_project_id :: "string option"
  lc_archived :: bool

record launch_store =
  ls_db :: db
  ls_columns :: "launch_columns list"
  ls_profiles :: "epic_profile list"
  ls_projects :: "project list"

record run_launch =
  rl_id :: string
  rl_definition_id :: string
  rl_project_id :: "string option"
  rl_context :: run_context
  rl_archived :: bool
  rl_created_at :: string

record launch_record = run_launch +
  rl_root_workflow_id :: string

record persist_launch =
  pt_run :: run_launch
  pt_epic_profile :: "epic_profile option"
  pt_definition_version :: nat

datatype create_failure_kind = CreateDefinitionNotFound | CreateDefinitionArchived | CreateProjectNotFound | CreateIdempotencyConflict

datatype create_result =
    RunCreated launch_record "epic_profile option"
  | RunReplayed launch_record "epic_profile option"
  | CreateRefused create_failure_kind string

definition runRecordWorkflowId :: "string \<Rightarrow> string" where
  "runRecordWorkflowId rid = ''v2-run:'' @ rid"

definition columns_of :: "launch_store \<Rightarrow> string \<Rightarrow> launch_columns" where
  "columns_of st i =
     (case List.find (\<lambda>c. lc_run_id c = i) (ls_columns st) of
        None \<Rightarrow> \<lparr>lc_run_id = i, lc_project_id = None, lc_archived = False\<rparr>
      | Some c \<Rightarrow> c)"

definition decodeLaunch :: "workflow_run \<Rightarrow> launch_columns \<Rightarrow> launch_record" where
  "decodeLaunch run cols =
     \<lparr>rl_id = run_id run, rl_definition_id = run_definition_id run, rl_project_id = lc_project_id cols,
      rl_context = (case run_context run of JObj kvs \<Rightarrow> kvs | _ \<Rightarrow> []), rl_archived = lc_archived cols,
      rl_created_at = run_created_at run, rl_root_workflow_id = runRecordWorkflowId (run_id run)\<rparr>"

definition find_launch_by_id :: "launch_store \<Rightarrow> string \<Rightarrow> launch_record option" where
  "find_launch_by_id st i = map_option (\<lambda>run. decodeLaunch run (columns_of st i)) (find_run (ls_db st) i)"

definition findProfile :: "launch_store \<Rightarrow> string \<Rightarrow> epic_profile option" where
  "findProfile st rid = List.find (\<lambda>p. ep_workflow_run_id p = rid) (ls_profiles st)"

text \<open>Everything but the timestamps.\<close>

definition profileMatches :: "launch_store \<Rightarrow> persist_launch \<Rightarrow> bool" where
  "profileMatches st inp =
     (case (pt_epic_profile inp, findProfile st (rl_id (pt_run inp))) of
        (None, stored) \<Rightarrow> stored = None
      | (Some _, None) \<Rightarrow> False
      | (Some p, Some q) \<Rightarrow>
          ep_id q = ep_id p \<and> ep_title q = ep_title p \<and> ep_slug q = ep_slug p \<and> ep_lifecycle_state q = ep_lifecycle_state p \<and>
          ep_final_merge_policy q = ep_final_merge_policy p \<and> ep_base_branch q = ep_base_branch p \<and>
          ep_repositories q = ep_repositories p)"

definition immutable_matches :: "persist_launch \<Rightarrow> workflow_run \<Rightarrow> launch_columns \<Rightarrow> bool" where
  "immutable_matches inp run cols \<longleftrightarrow>
     run_definition_id run = rl_definition_id (pt_run inp) \<and> lc_project_id cols = rl_project_id (pt_run inp) \<and>
     jsonb (run_context run) = jsonb (JObj (rl_context (pt_run inp)))"

definition new_run_row :: "persist_launch \<Rightarrow> workflow_run" where
  "new_run_row inp =
     \<lparr>run_id = rl_id (pt_run inp), run_definition_id = rl_definition_id (pt_run inp),
      run_definition_version = pt_definition_version inp, run_context = JObj (rl_context (pt_run inp)),
      run_state = RunActive, run_outcome = None, run_record_version = 0, run_created_at = rl_created_at (pt_run inp),
      run_ended_at = None\<rparr>"

definition insertProfile :: "epic_profile \<Rightarrow> launch_store \<Rightarrow> string + launch_store" where
  "insertProfile p st =
     (if \<exists>q\<in>set (ls_profiles st). ep_id q = ep_id p then Err (violates ''epic_workflow_profile_pkey'')
      else if \<exists>q\<in>set (ls_profiles st). ep_workflow_run_id q = ep_workflow_run_id p
        then Err (violates ''epic_workflow_profile_workflow_run_id_key'')
      else if find_run (ls_db st) (ep_workflow_run_id p) = None then Err ''epic_workflow_profile_workflow_run_id_fkey''
      else Ok (st\<lparr>ls_profiles := ls_profiles st @ [p]\<rparr>))"

definition insert_run_row :: "persist_launch \<Rightarrow> launch_store \<Rightarrow> launch_store" where
  "insert_run_row inp st =
     st\<lparr>ls_db := (ls_db st)\<lparr>db_runs := db_runs (ls_db st) @ [new_run_row inp]\<rparr>,
        ls_columns := [\<lparr>lc_run_id = rl_id (pt_run inp), lc_project_id = rl_project_id (pt_run inp),
          lc_archived = rl_archived (pt_run inp)\<rparr>] @ ls_columns st\<rparr>"

text \<open>
  The identifiers that reach the statement are UUIDs or absent, as the routes parse them; the casts that would fail on
  other strings are not modelled.
\<close>

definition create_run_tx :: "persist_launch \<Rightarrow> launch_store \<Rightarrow> string + create_result \<times> launch_store" where
  "create_run_tx inp st =
     (let run = pt_run inp; conflict = (\<lambda>detail. Ok (CreateRefused CreateIdempotencyConflict detail, st));
          def = ''workflow definition '' @ sq (rl_definition_id run)
      in case find_definition (ls_db st) (rl_definition_id run) of
           None \<Rightarrow> Ok (CreateRefused CreateDefinitionNotFound (def @ '' was not found''), st)
         | Some row \<Rightarrow>
             if df_version row \<noteq> pt_definition_version inp then conflict (def @ '' version changed during launch'')
             else case find_run (ls_db st) (rl_id run) of
               Some existing \<Rightarrow>
                 if \<not> immutable_matches inp existing (columns_of st (rl_id run)) \<or> \<not> profileMatches st inp
                 then conflict (''workflow run '' @ sq (rl_id run) @ '' conflicts with immutable stored launch data'')
                 else Ok (RunReplayed (decodeLaunch existing (columns_of st (rl_id run))) (findProfile st (rl_id run)), st)
             | None \<Rightarrow>
                 if wd_archived (df_definition row) then Ok (CreateRefused CreateDefinitionArchived (def @ '' is archived''), st)
                 else if (case rl_project_id run of None \<Rightarrow> False | Some p \<Rightarrow> p \<noteq> [] \<and> \<not> (\<exists>pj\<in>set (ls_projects st). pj_id pj = p))
                 then Ok (CreateRefused CreateProjectNotFound (''project '' @ sq (the (rl_project_id run)) @ '' was not found''), st)
                 else bind_result
                   (case pt_epic_profile inp of
                      None \<Rightarrow> Ok (insert_run_row inp st)
                    | Some p \<Rightarrow> insertProfile p (insert_run_row inp st))
                   (\<lambda>st'. Ok (RunCreated (run_launch.extend run \<lparr>rl_root_workflow_id = runRecordWorkflowId (rl_id run)\<rparr>)
                        (pt_epic_profile inp), st')))"

definition create_run :: "persist_launch \<Rightarrow> launch_store \<Rightarrow> (string + create_result) \<times> launch_store" where
  "create_run inp st = (case create_run_tx inp st of Inl e \<Rightarrow> (Inl e, st) | Inr (r, st') \<Rightarrow> (Inr r, st'))"

datatype archive_result = ArchiveUpdated bool | ArchiveUnchanged bool | ArchiveNotFound

definition set_run_archived :: "string \<Rightarrow> bool \<Rightarrow> launch_store \<Rightarrow> archive_result \<times> launch_store" where
  "set_run_archived i archived st =
     (case find_run (ls_db st) i of
        None \<Rightarrow> (ArchiveNotFound, st)
      | Some run \<Rightarrow>
          (let cols = columns_of st i
           in (if lc_archived cols \<noteq> archived then ArchiveUpdated archived else ArchiveUnchanged archived,
               st\<lparr>ls_columns := cols\<lparr>lc_archived := archived\<rparr> # filter (\<lambda>c. lc_run_id c \<noteq> i) (ls_columns st)\<rparr>)))"

text \<open>Deleting a run deletes its columns with its row, and cascades to its epic.\<close>

definition delete_launched_run :: "string \<Rightarrow> launch_store \<Rightarrow> (string + delete_result) \<times> launch_store" where
  "delete_launched_run rid st =
     (let (r, d) = delete_run rid (ls_db st)
      in (r, if r = Inr (Deleted rid)
             then st\<lparr>ls_db := d, ls_columns := filter (\<lambda>c. lc_run_id c \<noteq> rid) (ls_columns st),
                     ls_profiles := filter (\<lambda>p. ep_workflow_run_id p \<noteq> rid) (ls_profiles st)\<rparr>
             else st\<lparr>ls_db := d\<rparr>))"

record launch_filter =
  lf_archived :: "bool option"
  lf_definition_id :: "string option"
  lf_project_id :: "string option"

definition list_launches :: "launch_filter \<Rightarrow> launch_store \<Rightarrow> launch_record list" where
  "list_launches flt st =
     filter (\<lambda>l. (case lf_archived flt of None \<Rightarrow> True | Some b \<Rightarrow> rl_archived l = b) \<and>
                  (case lf_definition_id flt of None \<Rightarrow> True | Some i \<Rightarrow> rl_definition_id l = i) \<and>
                  (case lf_project_id flt of None \<Rightarrow> True | Some i \<Rightarrow> rl_project_id l = Some i))
       (map (\<lambda>r. decodeLaunch r (columns_of st (run_id r)))
         (rev (sort_key run_created_at (rev (sort_key run_id (db_runs (ls_db st)))))))"

text \<open>\<open>dbos.workflow_status\<close> is the list of workflow ids DBOS knows.\<close>

definition list_unstarted_runs :: "db \<Rightarrow> string list \<Rightarrow> nat \<Rightarrow> string list" where
  "list_unstarted_runs d status limit =
     take limit (map run_id (sort_key run_created_at (sort_key run_id
       (filter (\<lambda>r. run_state r = RunActive \<and> runRecordWorkflowId (run_id r) \<notin> set status) (db_runs d)))))"

section \<open>Launching\<close>

record launch_request =
  lq_workflow_def_id :: string
  lq_project_id :: "string option"
  lq_context :: run_context
  lq_epic_profile :: "epic_profile_request option"
  lq_idempotency_key :: "string option"

datatype launch_failure_kind =
    LaunchDefinitionNotFound | LaunchDefinitionArchived | LaunchProjectNotFound | LaunchContextRequirementsUnmet
  | LaunchIdempotencyConflict | LaunchProjectionUnavailable

record launch_error =
  le_kind :: launch_failure_kind
  le_detail :: string

definition launchFailure :: "launch_failure_kind \<Rightarrow> string \<Rightarrow> launch_error + 's" where
  "launchFailure kind detail = Inl \<lparr>le_kind = kind, le_detail = detail\<rparr>"

definition deterministicRunId :: "runtime_env \<Rightarrow> string \<Rightarrow> string" where
  "deterministicRunId env idempotencyKey =
     (let hex = take 32 (sha256_hex env (''oakridge-run:'' @ idempotencyKey))
      in slice 0 8 hex @ ''-'' @ slice 8 12 hex @ ''-4'' @ slice 13 16 hex @ ''-8'' @ slice 17 20 hex @ ''-'' @ drop 20 hex)"

text \<open>
  DBOS starts a root workflow: \<open>start workflow_id run_id status\<close> says whether the call succeeded and
  what \<open>dbos.workflow_status\<close> holds afterwards. The operator projection that a launch answers with
  is the parameter \<open>projection\<close>.
\<close>

type_synonym dbos_start = "string \<Rightarrow> string \<Rightarrow> string list \<Rightarrow> bool \<times> string list"

definition launch_run_id :: "runtime_env \<Rightarrow> string \<Rightarrow> launch_request \<Rightarrow> string" where
  "launch_run_id env new_id request =
     (case lq_idempotency_key request of
        Some (c # cs) \<Rightarrow> deterministicRunId env (c # cs)
      | _ \<Rightarrow> new_id)"

definition find_project :: "launch_store \<Rightarrow> string option \<Rightarrow> project option" where
  "find_project st p =
     (case p of
        Some (c # cs) \<Rightarrow> List.find (\<lambda>pj. pj_id pj = c # cs) (ls_projects st)
      | _ \<Rightarrow> None)"

definition named_project :: "string option \<Rightarrow> bool" where
  "named_project p \<longleftrightarrow> (case p of Some (_ # _) \<Rightarrow> True | _ \<Rightarrow> False)"

definition launch_input :: "runtime_env \<Rightarrow> string \<Rightarrow> string \<Rightarrow> launch_request \<Rightarrow> workflow_definition \<Rightarrow> launch_store \<Rightarrow> persist_launch" where
  "launch_input env now new_id request def st =
     (let rid = launch_run_id env new_id request;
          created_at = (case find_launch_by_id st rid of None \<Rightarrow> now | Some l \<Rightarrow> rl_created_at l)
      in \<lparr>pt_run = \<lparr>rl_id = rid, rl_definition_id = wd_id def, rl_project_id = lq_project_id request,
            rl_context = prepareRunContext (lq_context request) (find_project st (lq_project_id request)) (lq_epic_profile request),
            rl_archived = False, rl_created_at = created_at\<rparr>,
          pt_epic_profile = map_option (\<lambda>config. createEpicProfile rid rid config created_at) (lq_epic_profile request),
          pt_definition_version = wd_version def\<rparr>)"

text \<open>What is checked before anything is written.\<close>

definition launch_refusal :: "runtime_env \<Rightarrow> zod_env \<Rightarrow> string \<Rightarrow> launch_request \<Rightarrow> workflow_definition \<Rightarrow> launch_store \<Rightarrow> launch_error option" where
  "launch_refusal env z new_id request def st =
     (let rid = launch_run_id env new_id request; project = find_project st (lq_project_id request);
          context = prepareRunContext (lq_context request) project (lq_epic_profile request);
          unsatisfied = unsatisfiedContextRequirements (JObj context) (contextRequirementsOf z (wd_graph def))
      in if wd_archived def \<and> find_launch_by_id st rid = None
         then Some \<lparr>le_kind = LaunchDefinitionArchived, le_detail = ''workflow definition '' @ sq (lq_workflow_def_id request) @ '' is archived''\<rparr>
         else if named_project (lq_project_id request) \<and> project = None
         then Some \<lparr>le_kind = LaunchProjectNotFound, le_detail = ''project '' @ sq (the (lq_project_id request)) @ '' was not found''\<rparr>
         else if unsatisfied \<noteq> []
         then Some \<lparr>le_kind = LaunchContextRequirementsUnmet, le_detail = ''run context does not satisfy '' @ sq (wd_name def) @ '' v'' @
           nat_to_string (wd_version def) @ '': '' @ describeUnsatisfiedRequirements unsatisfied\<rparr>
         else None)"

definition finish_launch ::
    "(launch_store \<Rightarrow> string \<Rightarrow> 's option) \<Rightarrow> dbos_start \<Rightarrow> string \<Rightarrow> launch_store \<Rightarrow> string list \<Rightarrow> (launch_error + 's) \<times> launch_store \<times> string list" where
  "finish_launch projection start rid st status =
     (let status' = snd (start (runRecordWorkflowId rid) rid status)
      in (case projection st rid of
            None \<Rightarrow> launchFailure LaunchProjectionUnavailable
              (''workflow run '' @ sq rid @ '' was enqueued but its operator projection is not available'')
          | Some summary \<Rightarrow> Inr summary, st, status'))"

definition launchRun ::
    "runtime_env \<Rightarrow> zod_env \<Rightarrow> (launch_store \<Rightarrow> string \<Rightarrow> 's option) \<Rightarrow> dbos_start \<Rightarrow> string \<Rightarrow> string \<Rightarrow> launch_request \<Rightarrow>
       launch_store \<Rightarrow> string list \<Rightarrow> string + (launch_error + 's) \<times> launch_store \<times> string list" where
  "launchRun env z projection start now new_id request st status =
     bind_result (find_definition_by_id z (ls_db st) (lq_workflow_def_id request)) (\<lambda>found.
       case found of
         None \<Rightarrow> Ok (launchFailure LaunchDefinitionNotFound (''workflow definition '' @ sq (lq_workflow_def_id request) @ '' was not found''), st, status)
       | Some def \<Rightarrow>
           (case launch_refusal env z new_id request def st of
              Some e \<Rightarrow> Ok (Inl e, st, status)
            | None \<Rightarrow>
                (let inp = launch_input env now new_id request def st
                 in bind_result (create_run_tx inp st) (\<lambda>(persisted, st').
                      case persisted of
                        CreateRefused _ detail \<Rightarrow> Ok (launchFailure LaunchIdempotencyConflict detail, st', status)
                      | _ \<Rightarrow> Ok (finish_launch projection start (rl_id (pt_run inp)) st' status)))))"

section \<open>The launch sweep\<close>

definition PAGE_SIZE :: nat where
  "PAGE_SIZE = 100"

record sweep =
  sw_status :: "string list"
  sw_started :: nat
  sw_failed :: nat

definition sweep_one :: "dbos_start \<Rightarrow> string \<Rightarrow> sweep \<Rightarrow> sweep" where
  "sweep_one start rid s =
     (let (succeeded, status) = start (runRecordWorkflowId rid) rid (sw_status s)
      in if succeeded then s\<lparr>sw_status := status, sw_started := sw_started s + 1\<rparr>
         else s\<lparr>sw_status := status, sw_failed := sw_failed s + 1\<rparr>)"

text \<open>The loop has no bound of its own: whether it returns depends on what \<open>start\<close> does.\<close>

partial_function (option) dispatch_loop :: "dbos_start \<Rightarrow> db \<Rightarrow> string list \<Rightarrow> nat \<Rightarrow> (nat \<times> string list) option" where
  "dispatch_loop start d status started =
     (let page = list_unstarted_runs d status PAGE_SIZE;
          s = fold (sweep_one start) page \<lparr>sw_status = status, sw_started = started, sw_failed = 0\<rparr>
      in if length page < PAGE_SIZE \<or> sw_failed s > 0 then Some (sw_started s, sw_status s)
         else dispatch_loop start d (sw_status s) (sw_started s))"

definition dispatchRunLaunches :: "dbos_start \<Rightarrow> db \<Rightarrow> string list \<Rightarrow> (nat \<times> string list) option" where
  "dispatchRunLaunches start d status = dispatch_loop start d status 0"

section \<open>Cancelling and fencing\<close>

text \<open>
  \<open>fence executor_type\<close> is the adapter's \<open>cancel_or_fence\<close>, if one is registered; it answers with
  the message of what it threw. \<open>now\<close> gives the times of successive calls.
\<close>

type_synonym fencer = "string \<Rightarrow> (string \<Rightarrow> external_reference \<Rightarrow> string option) option"

definition fence_work :: "fencer \<Rightarrow> string option \<Rightarrow> (nat \<Rightarrow> string) \<Rightarrow> fenced_order \<Rightarrow> nat \<times> db \<Rightarrow> nat \<times> db" where
  "fence_work fence reason now work nd =
     (let (n, d) = nd; order = fo_work_order_id work
      in case fence (fo_executor_type work) of
           None \<Rightarrow>
             (n + 2, observe_executor order (HealthUnresponsive
                (''executor '' @ sq (fo_executor_type work) @ '' is unavailable for cancellation'') (now n)) (now (n + 1)) d)
         | Some cancel_or_fence \<Rightarrow>
             (case cancel_or_fence order (fo_external_reference work) of
                None \<Rightarrow> (n + 1, observe_executor order (HealthEndedCancelled reason (now n)) (now n) d)
              | Some message \<Rightarrow> (n + 1, observe_executor order (HealthUnresponsive message (now n)) (now n) d)))"

definition cancelV2Run :: "fencer \<Rightarrow> (nat \<Rightarrow> string) \<Rightarrow> string \<Rightarrow> string option \<Rightarrow> db \<Rightarrow> (string + cancel_result) \<times> db" where
  "cancelV2Run fence now rid reason d =
     (case cancel_run \<lparr>cn_run_id = rid, cn_actor = ''operator'', cn_reason = reason, cn_cancelled_at = now 0\<rparr> d of
        (Inr (RunCancelledResult r v works), d') \<Rightarrow>
          (Inr (RunCancelledResult r v works), snd (fold (fence_work fence reason now) works (1, d')))
      | result \<Rightarrow> result)"

end
