(* ===== verification/History.thy ===== *)
theory History
  imports AskInvariant
begin

text \<open>
  What no transaction of the run record undoes. \<open>record_le d d'\<close> says that \<open>d'\<close> is a later state of
  the record \<open>d\<close>: no row is gone, the columns that say what a row is are as they were, no run was added, a closed
  wait, an ended work order and an ended run are final, versions only grow, an output slot that
  changed has a larger version, and the audit log is only appended to.
\<close>

section \<open>Tables that only grow\<close>

definition grows :: "('a \<Rightarrow> 'a \<Rightarrow> bool) \<Rightarrow> 'a list \<Rightarrow> 'a list \<Rightarrow> bool" where
  "grows le xs ys \<longleftrightarrow> length xs \<le> length ys \<and> (\<forall>i < length xs. le (xs ! i) (ys ! i))"

lemma grows_refl: "(\<And>x. le x x) \<Longrightarrow> grows le xs xs"
  by (simp add: grows_def)

lemma grows_trans:
  assumes "grows le xs ys" and "grows le ys zs" and "\<And>x y z. le x y \<Longrightarrow> le y z \<Longrightarrow> le x z"
  shows "grows le xs zs"
  using assms unfolding grows_def by (meson order_trans less_le_trans)

lemma grows_append: "(\<And>x. le x x) \<Longrightarrow> grows le xs (xs @ ys)"
  by (simp add: grows_def nth_append)

lemma length_update_where [simp]: "length (update_where p f xs) = length xs"
  by (simp add: update_where_def)

lemma grows_update:
  assumes "\<And>x. le x x" and "\<And>x. x \<in> set xs \<Longrightarrow> p x \<Longrightarrow> le x (f x)"
  shows "grows le xs (update_where p f xs)"
  using assms by (auto simp: grows_def update_where_def)

lemma grows_member:
  assumes "grows le xs ys" and "x \<in> set xs"
  shows "\<exists>y\<in>set ys. le x y"
proof -
  obtain i where "i < length xs" "x = xs ! i" using assms(2) by (auto simp: in_set_conv_nth)
  then show ?thesis using assms(1) by (auto simp: grows_def intro!: bexI [of _ "ys ! i"])
qed

lemma grows_eq_prefix: "grows (=) xs ys \<longleftrightarrow> (\<exists>zs. ys = xs @ zs)"
proof
  assume "grows (=) xs ys"
  then have "take (length xs) ys = xs" by (intro nth_equalityI) (auto simp: grows_def)
  then have "ys = xs @ drop (length xs) ys" by (metis append_take_drop_id)
  then show "\<exists>zs. ys = xs @ zs" ..
next
  assume "\<exists>zs. ys = xs @ zs"
  then show "grows (=) xs ys" by (auto simp: grows_def nth_append)
qed

section \<open>Rows\<close>

definition run_le :: "workflow_run \<Rightarrow> workflow_run \<Rightarrow> bool" where
  "run_le r s \<longleftrightarrow>
     run_id s = run_id r \<and> run_definition_id s = run_definition_id r \<and> run_context s = run_context r \<and>
     run_created_at s = run_created_at r \<and> run_record_version r \<le> run_record_version s \<and>
     (run_state r = RunActive \<or> run_state s = run_state r \<and> run_outcome s = run_outcome r \<and> run_ended_at s = run_ended_at r)"

definition stage_le :: "stage_row \<Rightarrow> stage_row \<Rightarrow> bool" where
  "stage_le s t \<longleftrightarrow>
     stage_ref t = stage_ref s \<and> sr_stage_key t = sr_stage_key s \<and> sr_contract t = sr_contract s \<and>
     sr_attempt_root t = sr_attempt_root s \<and> (sr_closed s \<longrightarrow> sr_closed t)"

definition unit_le :: "unit_row \<Rightarrow> unit_row \<Rightarrow> bool" where
  "unit_le u v \<longleftrightarrow> unit_ref v = unit_ref u \<and> u_parameters v = u_parameters u \<and> (u_admitted u \<longrightarrow> u_admitted v)"

definition slot_le :: "run_output_slot \<Rightarrow> run_output_slot \<Rightarrow> bool" where
  "slot_le s t \<longleftrightarrow>
     slot_key t = slot_key s \<and> slot_artifact_type t = slot_artifact_type s \<and> slot_required t = slot_required s \<and>
     slot_release t = slot_release s \<and> (t = s \<or> slot_version s < slot_version t)"

definition order_le :: "order_row \<Rightarrow> order_row \<Rightarrow> bool" where
  "order_le w v \<longleftrightarrow>
     order_ref v = order_ref w \<and> wo_workflow_id (or_order v) = wo_workflow_id (or_order w) \<and>
     wo_request_idempotency_key (or_order v) = wo_request_idempotency_key (or_order w) \<and>
     or_capability_hash v = or_capability_hash w \<and> or_request v = or_request w \<and>
     (v = w \<or> order_active w \<and> wo_state (or_order v) \<noteq> WAvailable)"

definition wait_le :: "wait \<Rightarrow> wait \<Rightarrow> bool" where
  "wait_le w v \<longleftrightarrow> wait_ref v = wait_ref w \<and> wait_closes_on v = wait_closes_on w \<and> (v = w \<or> wait_is_open w)"

definition artifact_le :: "artifact_row \<Rightarrow> artifact_row \<Rightarrow> bool" where
  "artifact_le a b \<longleftrightarrow>
     (\<exists>life at. b = a\<lparr>a_lifecycle := life, a_lifecycle_updated_at := at\<rparr>) \<and> (b = a \<or> a_lifecycle a = LifeCurrent)"

lemmas le_defs = run_le_def stage_le_def unit_le_def slot_le_def order_le_def wait_le_def artifact_le_def

lemma le_refl [simp]:
  "run_le r r" "stage_le s s" "unit_le u u" "slot_le t t" "order_le w w" "wait_le x x" "artifact_le a a"
proof -
  have "a = a\<lparr>a_lifecycle := a_lifecycle a, a_lifecycle_updated_at := a_lifecycle_updated_at a\<rparr>" by simp
  then show "artifact_le a a" unfolding artifact_le_def by blast
qed (simp_all add: le_defs)

lemma run_le_trans: "run_le a b \<Longrightarrow> run_le b c \<Longrightarrow> run_le a c"
  by (auto simp: run_le_def)

lemma stage_le_trans: "stage_le a b \<Longrightarrow> stage_le b c \<Longrightarrow> stage_le a c"
  by (auto simp: stage_le_def)

lemma unit_le_trans: "unit_le a b \<Longrightarrow> unit_le b c \<Longrightarrow> unit_le a c"
  by (auto simp: unit_le_def)

lemma slot_le_trans: "slot_le a b \<Longrightarrow> slot_le b c \<Longrightarrow> slot_le a c"
  by (auto simp: slot_le_def)

lemma order_le_trans: "order_le a b \<Longrightarrow> order_le b c \<Longrightarrow> order_le a c"
  by (auto simp: order_le_def)

lemma wait_le_trans: "wait_le a b \<Longrightarrow> wait_le b c \<Longrightarrow> wait_le a c"
  by (auto simp: wait_le_def)

lemma artifact_le_trans: "artifact_le a b \<Longrightarrow> artifact_le b c \<Longrightarrow> artifact_le a c"
  by (cases a) (auto simp: artifact_le_def)

lemmas row_trans = run_le_trans stage_le_trans unit_le_trans slot_le_trans order_le_trans wait_le_trans artifact_le_trans

section \<open>The record\<close>

definition record_le :: "db \<Rightarrow> db \<Rightarrow> bool" where
  "record_le d e \<longleftrightarrow>
     grows run_le (db_runs d) (db_runs e) \<and> grows stage_le (db_stages d) (db_stages e) \<and>
     grows (=) (db_policies d) (db_policies e) \<and> grows unit_le (db_units d) (db_units e) \<and>
     grows (=) (db_dependencies d) (db_dependencies e) \<and> grows slot_le (db_slots d) (db_slots e) \<and>
     grows order_le (db_orders d) (db_orders e) \<and> grows wait_le (db_waits d) (db_waits e) \<and>
     grows artifact_le (db_artifacts d) (db_artifacts e) \<and> grows (=) (db_emissions d) (db_emissions e) \<and>
     grows (=) (db_admissions d) (db_admissions e) \<and> grows (=) (db_transitions d) (db_transitions e) \<and>
     length (db_runs e) = length (db_runs d) \<and> db_definitions e = db_definitions d \<and> db_seed e = db_seed d"

lemma grows_same [simp]:
  "grows run_le r r" "grows stage_le s s" "grows unit_le u u" "grows slot_le t t" "grows order_le w w" "grows wait_le x x"
  "grows artifact_le a a" "grows (=) y y"
  by (simp_all add: grows_refl)

lemma record_le_refl [simp]: "record_le d d"
  by (simp add: record_le_def)

lemma record_le_trans: "record_le d e \<Longrightarrow> record_le e f \<Longrightarrow> record_le d f"
  unfolding record_le_def
  by (elim conjE, intro conjI) (simp | erule (1) grows_trans, (erule row_trans | simp), assumption?)+

section \<open>Statements\<close>

named_theorems later \<open>statements and operations that lead to a later state of the record\<close>

lemma later_updates [later]:
  "(\<And>s. s \<in> set (db_stages d) \<Longrightarrow> p s \<Longrightarrow> stage_le s (f s)) \<Longrightarrow> record_le d (update_stages p f d)"
  "(\<And>u. u \<in> set (db_units d) \<Longrightarrow> q u \<Longrightarrow> unit_le u (g u)) \<Longrightarrow> record_le d (update_units q g d)"
  "(\<And>s. s \<in> set (db_slots d) \<Longrightarrow> r s \<Longrightarrow> slot_le s (h s)) \<Longrightarrow> record_le d (update_slots r h d)"
  by (simp_all add: record_le_def update_stages_def update_units_def update_slots_def grows_update)

lemma later_updates' [later]:
  "(\<And>s. s \<in> set (db_runs d) \<Longrightarrow> p s \<Longrightarrow> run_le s (f s)) \<Longrightarrow> record_le d (update_runs p f d)"
  "(\<And>w. w \<in> set (db_orders d) \<Longrightarrow> q w \<Longrightarrow> order_le w (g w)) \<Longrightarrow> record_le d (update_orders q g d)"
  "(\<And>w. w \<in> set (db_waits d) \<Longrightarrow> r w \<Longrightarrow> wait_le w (h w)) \<Longrightarrow> record_le d (update_waits r h d)"
  "(\<And>a. a \<in> set (db_artifacts d) \<Longrightarrow> t a \<Longrightarrow> artifact_le a (k a)) \<Longrightarrow> record_le d (update_artifacts t k d)"
  "record_le d (update_attachments v m d)"
  by (simp_all add: record_le_def update_runs_def update_orders_def update_waits_def update_artifacts_def update_attachments_def grows_update)

lemma later_inserts:
  "insert_stage s d = Inr d' \<Longrightarrow> record_le d d'"
  "insert_policy p d = Inr d' \<Longrightarrow> record_le d d'"
  "insert_unit u d = Inr d' \<Longrightarrow> record_le d d'"
  "insert_slot t d = Inr d' \<Longrightarrow> record_le d d'"
  "insert_order w d = Inr d' \<Longrightarrow> record_le d d'"
  "insert_dependency e d = Inr d' \<Longrightarrow> record_le d d'"
  "insert_wait x d = Inr d' \<Longrightarrow> record_le d d'"
  "insert_artifact a d = Inr d' \<Longrightarrow> record_le d d'"
  "insert_emission f d = Inr d' \<Longrightarrow> record_le d d'"
  "insert_admission c d = Inr d' \<Longrightarrow> record_le d d'"
  "insertTransition q prior resulting d = Inr d' \<Longrightarrow> record_le d d'"
  by (auto simp: insert_stage_def insert_policy_def insert_unit_def insert_slot_def insert_order_def insert_dependency_def
      insert_wait_def insert_artifact_def insert_emission_def insert_admission_def insertTransition_def record_le_def grows_append
      split: if_splits)

lemma later_fold:
  assumes "fold_result f xs d = Inr d'" and "\<And>x s t. f x s = Inr t \<Longrightarrow> record_le s t"
  shows "record_le d d'"
  by (rule fold_result_invariant [OF assms(1), of "record_le d"]) (auto intro: record_le_trans assms(2))

lemma later_bump [later]: "record_le d (bump_version i d)"
  unfolding bump_version_def by (rule later_updates') (simp add: run_le_def)

lemma run_unique:
  assumes "store_ok d" and "find_run d i = Some r" and "q \<in> set (db_runs d)" and "run_id q = i"
  shows "q = r"
  using assms find_run_id [OF assms(2)]
  by (auto simp: store_ok_def identity_ok_def identity_of_def dest: distinct_map_inj)

lemma later_set_version:
  assumes "store_ok d" and "find_run d i = Some r"
  shows "record_le d (set_version i (run_record_version r + 1) d)"
  unfolding set_version_def
  by (rule later_updates') (use run_unique [OF assms] in \<open>auto simp: run_le_def\<close>)

lemma later_commit_batch:
  assumes "commit_batch i effect d = Inr (v, d')"
  shows "record_le d d'"
proof (cases "fx_applied effect")
  case True
  then have "record_le (bump_version i d) d'"
    using assms by (auto simp: commit_batch_def Let_def intro: later_fold later_inserts(11))
  then show ?thesis using later_bump record_le_trans by blast
next
  case False
  then show ?thesis using assms by (simp add: commit_batch_def)
qed

lemma later_record_transition: "record_transition p d = Inr (v, d') \<Longrightarrow> record_le d d'"
  by (auto simp: record_transition_def Let_def intro: record_le_trans [OF later_bump later_inserts(11)])

lemma later_transaction:
  assumes "\<And>a d'. m d = Inr (a, d') \<Longrightarrow> record_le d d'"
  shows "record_le d (snd (transaction m d))"
  using assms by (auto simp: transaction_def split: sum.splits)

section \<open>Materialization, revision, retry and admission\<close>

lemma later_ensure_stage: "ensure_stage env inp d = Inr d' \<Longrightarrow> record_le d d'"
  by (auto simp: ensure_stage_def Let_def split: option.splits if_splits prod.splits
      intro: later_inserts record_le_trans [OF later_inserts(1) later_inserts(2)])

lemma later_persist_unit:
  assumes "persist_unit env inp u (c, d) = Inr (c', d')"
  shows "record_le d d'"
proof (cases "List.find (\<lambda>v. u_stage_id v = ps_stage_instance_id inp \<and> u_unit_id v = mu_unit_id u) (db_units d)")
  case None
  then obtain d1 d2 row order where "insert_unit row d = Inr d1" "insert_order order d2 = Inr d'"
    and slots: "fold_result (\<lambda>out. insert_slot (new_slot (mu_id u) out)) (mu_outputs u) d1 = Inr d2"
    using assms by (auto simp: persist_unit_def)
  moreover have "record_le d1 d2" using slots by (rule later_fold) (rule later_inserts)
  ultimately show ?thesis using later_inserts(3,5) record_le_trans by metis
next
  case (Some v)
  then show ?thesis using assms by (auto simp: persist_unit_def split: if_splits)
qed

lemma later_persist_units:
  assumes "fold_result (persist_unit env inp) us (c, d) = Inr (c', d')"
  shows "record_le d d'"
  using fold_result_invariant [OF assms, of "\<lambda>(_, e). record_le d e"]
  by (auto intro: record_le_trans dest: later_persist_unit)

lemma later_close_stage: "close_stage env inp d = Inr d' \<Longrightarrow> record_le d d'"
  by (auto simp: close_stage_def stage_le_def stage_ref_def intro: later_updates)

lemma later_persist_tx:
  assumes "persist_materialized_stage_tx env inp d = Inr (effect, d')"
  shows "record_le d d'"
proof -
  obtain d1 b c d2 d3 where d1: "ensure_stage env inp d = Inr d1"
    and d2: "fold_result (persist_unit env inp) (ps_units inp) (b, d1) = Inr (c, d2)"
    and d3: "fold_result insert_dependency (unit_dependencies inp) d2 = Inr d3"
    and d4: "close_stage env inp d3 = Inr d' \<or> d' = d3"
    using assms unfolding persist_materialized_stage_tx_def Let_def by (auto split: if_splits)
  have "record_le d2 d3" using d3 by (rule later_fold) (rule later_inserts)
  moreover have "record_le d3 d'" using d4 later_close_stage by auto
  ultimately show ?thesis using later_ensure_stage [OF d1] later_persist_units [OF d2] by (meson record_le_trans)
qed

lemma persist_materialized_stage_later: "record_le d (snd (persist_materialized_stage env inp d))"
proof -
  have "record_le d d'" if "persist_commit_tx env inp d = Inr (a, d')" for a d'
    using that by (auto simp: persist_commit_tx_def intro: record_le_trans dest!: later_persist_tx later_commit_batch)
  then show ?thesis by (auto simp: persist_materialized_stage_def split: sum.split intro: later_transaction)
qed

lemma later_end_orders [later]:
  "st \<noteq> WAvailable \<Longrightarrow> (\<And>w. p w \<Longrightarrow> order_active w) \<Longrightarrow>
     record_le d (update_orders p (\<lambda>w. w\<lparr>or_order := (or_order w)\<lparr>wo_state := st, wo_completed_at := at\<rparr>\<rparr>) d)"
  by (rule later_updates') (auto simp: order_le_def order_ref_def)

lemma later_abandon_active [later]: "record_le d (abandon_active uid at d)"
  unfolding abandon_active_def by (rule later_end_orders) (auto simp: order_active_def)

lemma later_close_waits [later]:
  "(\<And>w. w \<in> set (db_waits d) \<Longrightarrow> p w \<Longrightarrow> wait_is_open w) \<Longrightarrow> record_le d (update_waits p (close_wait outcome at) d)"
  by (rule later_updates') (auto simp: wait_le_def close_wait_def wait_ref_def)

lemma slot_le_invalidate: "slot_le s (invalidate_slot reason at s)" "slot_le s ((invalidate_slot reason at s)\<lparr>slot_updated_by := x\<rparr>)"
  by (auto simp: slot_le_def invalidate_slot_def slot_key_def)

lemma later_revise_rows: "record_le d (revise_rows inp d)"
  unfolding revise_rows_def Let_def
  by (intro record_le_trans [OF _ later_updates(3)] record_le_trans [OF _ later_close_waits] record_le_trans [OF _ later_abandon_active]
      later_updates(2)) (auto simp: unit_le_def unit_ref_def slot_le_invalidate)

lemma later_reopen_stage: "record_le d (reopen_stage sid d)"
  unfolding reopen_stage_def by (rule later_updates) (auto simp: stage_le_def stage_ref_def)

lemma later_revise_tx:
  assumes "revise_unit_input_tx inp d = Inr (r, d')"
  shows "record_le d d'"
proof -
  have "d' = d \<or> (\<exists>w d1 sid. insert_order w (revise_rows inp d) = Inr d1 \<and> d' = reopen_stage sid d1)"
    using assms by (auto simp: revise_unit_input_tx_def Let_def split: option.splits if_splits)
  then show ?thesis
    by (auto intro: record_le_trans [OF record_le_trans [OF later_revise_rows later_inserts(5)] later_reopen_stage])
qed

lemma revise_unit_input_later: "record_le d (snd (revise_unit_input inp d))"
  unfolding revise_unit_input_def
proof (rule later_transaction)
  fix a d' assume m: "revise_commit_tx inp d = Inr (a, d')"
  then obtain r d1 where r: "revise_unit_input_tx inp d = Inr (r, d1)" by (auto simp: revise_commit_tx_def)
  have "record_le d1 d'"
    using m r by (cases r) (auto simp: revise_commit_tx_def dest: later_commit_batch)
  then show "record_le d d'" using later_revise_tx [OF r] record_le_trans by blast
qed

lemma later_ready_units [later]:
  "record_le d (update_units p (\<lambda>u. u\<lparr>u_state := st, u_outcome := oc, u_ended_at := e\<rparr>) d)"
  by (rule later_updates) (auto simp: unit_le_def unit_ref_def)

lemma later_create_retry:
  assumes "create_retry inp at wid unit (run_record_version run) missing rebound d = Inr (r, d')" and "store_ok d"
    and "find_run d (u_run_id unit) = Some run" and "u_id unit \<in> u_id ` set (db_units d)"
  shows "record_le d d'"
proof -
  obtain order d1 p where ins: "insert_order order (abandon_active (u_id unit) at d) = Inr d1"
    and tr: "insertTransition p (run_record_version run) (run_record_version run + 1) (set_version (u_run_id unit) (run_record_version run + 1)
      (update_units (\<lambda>u. u_id u = u_id unit) (\<lambda>u. u\<lparr>u_state := UReady, u_outcome := None, u_ended_at := None\<rparr>) d1)) = Inr d'"
    using assms(1) by (auto simp: create_retry_def Let_def)
  let ?d2 = "update_units (\<lambda>u. u_id u = u_id unit) (\<lambda>u. u\<lparr>u_state := UReady, u_outcome := None, u_ended_at := None\<rparr>) d1"
  have runs: "db_runs ?d2 = db_runs d" using insert_order_Inr [OF ins] by (simp add: abandon_active_def row_update_defs)
  have same: "run_le q (q\<lparr>run_record_version := run_record_version run + 1\<rparr>)" if "q \<in> set (db_runs ?d2)" "run_id q = u_run_id unit" for q
    using run_unique [OF assms(2,3)] that runs by (auto simp: run_le_def)
  have "record_le ?d2 (set_version (u_run_id unit) (run_record_version run + 1) ?d2)"
    unfolding set_version_def using same by (rule later_updates')
  moreover have "record_le d ?d2"
    using later_abandon_active later_inserts(5) [OF ins] later_ready_units by (meson record_le_trans)
  ultimately show ?thesis using later_inserts(11) [OF tr] by (meson record_le_trans)
qed

lemma retry_unit_later:
  assumes "store_ok d"
  shows "record_le d (snd (retry_unit env inp at wid d))"
  unfolding retry_unit_def
proof (rule later_transaction)
  fix r d' assume m: "retry_unit_tx env inp at wid d = Inr (r, d')"
  show "record_le d d'"
  proof (cases "resolveRetryTarget (rt_target inp) d")
    case None
    then show ?thesis using m by (simp add: retry_unit_tx_def)
  next
    case (Some u)
    then show ?thesis
      using m resolveRetryTarget_in [OF Some]
      by (auto simp: retry_unit_tx_def Let_def split: option.splits if_splits intro: later_create_retry [OF _ assms])
  qed
qed

lemma later_record_admission:
  assumes "record_admission env request at unit run d = Inr (r, d')" and "store_ok d" and "find_run d i = Some run"
  shows "record_le d d'"
proof -
  let ?admit = "update_units (\<lambda>u. u_stage_id u = aq_stage_instance_id request \<and> u_unit_id u = aq_unit_id request)
    (\<lambda>u. u\<lparr>u_admitted := True, u_admitted_at := Some at\<rparr>)"
  obtain c d1 p where ins: "insert_admission c d = Inr d1"
    and tr: "insertTransition p (run_record_version run) (run_record_version run + 1)
      (set_version (run_id run) (run_record_version run + 1) (?admit d1)) = Inr d'"
    using assms(1) by (auto simp: record_admission_def Let_def)
  have runs: "db_runs (?admit d1) = db_runs d"
    using ins by (auto simp: insert_admission_def row_update_defs split: if_splits)
  have "record_le (?admit d1) (set_version (run_id run) (run_record_version run + 1) (?admit d1))"
    unfolding set_version_def
    by (rule later_updates') (use run_unique [OF assms(2,3)] find_run_id [OF assms(3)] runs in \<open>auto simp: run_le_def\<close>)
  moreover have "record_le d1 (?admit d1)" by (rule later_updates) (auto simp: unit_le_def unit_ref_def)
  ultimately show ?thesis using later_inserts(10) [OF ins] later_inserts(11) [OF tr] by (meson record_le_trans)
qed

lemma admit_unit_later: "store_ok d \<Longrightarrow> record_le d (snd (admit_unit env request at d))"
  unfolding admit_unit_def
  by (rule later_transaction)
    (auto simp: admit_unit_tx_def split: option.splits if_splits intro: later_record_admission)

section \<open>Publication and decisions\<close>

lemma later_set_slot [later]: "record_le d (set_slot k st w d)"
  unfolding set_slot_def by (rule later_updates) (auto simp: slot_le_def slot_key_def)

lemma later_lifecycle [later]:
  "(\<And>a. p a \<Longrightarrow> a_lifecycle a = LifeCurrent) \<Longrightarrow>
     record_le d (update_artifacts p (\<lambda>a. a\<lparr>a_lifecycle := life, a_lifecycle_updated_at := at\<rparr>) d)"
  by (rule later_updates') (auto simp: artifact_le_def)

lemma later_withdraw_replaced: "record_le d (withdraw_replaced request replaced d)"
  by (auto simp: withdraw_replaced_def split: option.split intro: later_lifecycle)

lemma later_release_now: "release_now request unit replaced d = Inr (r, d') \<Longrightarrow> record_le d d'"
  by (auto simp: release_now_def Let_def intro: record_le_trans [OF later_set_slot] dest!: later_record_transition)

lemma later_park:
  assumes "park request work unit slot replaced waitId d = Inr (r, d')"
  shows "record_le d d'"
proof -
  obtain d1 p v st where "insert_wait (opened_wait request work unit slot waitId) d = Inr d1"
    and "record_transition p (set_slot (request_slot request unit) st (pr_work_order_id request) d1) = Inr (v, d')"
    using assms by (auto simp: park_def Let_def)
  then show ?thesis using later_inserts(7) later_set_slot later_record_transition by (meson record_le_trans)
qed

lemma accept_inserts:
  assumes "accept_publication request work unit slot waitId d = Inr (r, d')"
  shows "\<exists>d1. insert_artifact (published_artifact request work unit slot) d = Inr d1 \<and> record_le d1 d'"
proof -
  let ?w = "withdraw_replaced request (replaced_artifact (slot_state slot))"
  obtain d1 d2 f where d1: "insert_artifact (published_artifact request work unit slot) d = Inr d1" and d2: "insert_emission f d1 = Inr d2"
    and rest: "release_now request unit (replaced_artifact (slot_state slot)) (?w d2) = Inr (r, d') \<or>
      park request work unit slot (replaced_artifact (slot_state slot)) waitId (?w d2) = Inr (r, d')"
    using assms by (auto simp: accept_publication_def Let_def split: if_splits)
  have "record_le (?w d2) d'" using rest later_release_now later_park by blast
  then show ?thesis using d1 later_inserts(9) [OF d2] later_withdraw_replaced by (meson record_le_trans)
qed

lemma later_accept: "accept_publication request work unit slot waitId d = Inr (r, d') \<Longrightarrow> record_le d d'"
  by (auto dest!: accept_inserts intro: record_le_trans dest: later_inserts(8))

lemma publish_artifact_later: "record_le d (snd (publish_artifact request waitId d))"
  unfolding publish_artifact_def
  by (rule later_transaction)
    (auto simp: publish_artifact_tx_def split: option.splits if_splits intro: later_accept)

lemma later_invalidate_rows: "record_le d (invalidate_rows request k slot d)"
proof -
  have step: "record_le d (update_slots p (invalidate_slot reason at) d)" for p reason at d
    by (rule later_updates) (simp add: slot_le_invalidate)
  have produce: "record_le d (abandon_producer request uid producer d)" for uid producer d
    unfolding abandon_producer_def by (rule later_end_orders) (auto simp: order_active_def)
  show ?thesis
    unfolding invalidate_rows_def Let_def
    by (auto split: option.split intro: step record_le_trans [OF step produce] record_le_trans [OF step later_ready_units]
        record_le_trans [OF record_le_trans [OF step produce] later_ready_units])
qed

lemma later_release_slot: "record_le d (release_slot request k artifact d)"
  unfolding release_slot_def
  by (rule record_le_trans [OF later_updates(3) later_lifecycle]) (auto simp: slot_le_def slot_key_def)

lemma later_apply_close:
  assumes "apply_close request rid k slot artifact outcome d = Inr (r, d')"
    and "\<And>w. w \<in> set (db_waits d) \<Longrightarrow> wait_id w = cl_wait_id request \<Longrightarrow> wait_is_open w"
  shows "record_le d d'"
proof -
  let ?d1 = "update_waits (\<lambda>w. wait_id w = cl_wait_id request) (close_wait outcome (cl_decided_at request)) d"
  have "record_le d ?d1" by (rule later_close_waits) (use assms(2) in auto)
  moreover obtain d2 v where "d2 = release_slot request k artifact ?d1 \<or> d2 = invalidate_rows request k slot ?d1"
    and "record_transition (close_transition request rid k) d2 = Inr (v, d')"
    using assms(1) by (auto simp: apply_close_def Let_def split: if_splits)
  ultimately show ?thesis
    using later_release_slot later_invalidate_rows later_record_transition by (meson record_le_trans)
qed

lemma later_closeOutputWait:
  assumes "store_ok d" and "closeOutputWaitTransaction request d = Inr (r, d')"
  shows "record_le d d'"
proof (cases "owned_wait d (cl_wait_id request)")
  case None
  then show ?thesis using assms(2) by (simp add: closeOutputWaitTransaction_def)
next
  case (Some wu)
  obtain w u where wu: "wu = (w, u)" by (cases wu)
  have fw: "find_wait d (cl_wait_id request) = Some w" using Some wu by (auto simp: owned_wait_def split: option.splits)
  show ?thesis
  proof (cases "wait_is_open w")
    case True
    then have "\<And>x. x \<in> set (db_waits d) \<Longrightarrow> wait_id x = cl_wait_id request \<Longrightarrow> wait_is_open x"
      using wait_unique [OF assms(1) fw] by blast
    then show ?thesis
      using assms(2) Some wu True
      by (auto simp: closeOutputWaitTransaction_def Let_def wait_is_open_def split: option.splits list.splits slot_state.splits
          intro: later_apply_close)
  next
    case False
    then show ?thesis
      using assms(2) Some wu
      by (auto simp: closeOutputWaitTransaction_def Let_def wait_is_open_def split: option.splits list.splits wait_status.splits if_splits)
  qed
qed

lemma close_output_wait_later: "store_ok d \<Longrightarrow> record_le d (snd (close_output_wait request d))"
  unfolding close_output_wait_def by (rule later_transaction) (rule later_closeOutputWait)

lemma later_coordinated: "coordinated_close request d = Inr (r, d') \<Longrightarrow> store_ok d \<Longrightarrow> record_le d d'"
  by (auto simp: coordinated_close_def split: sum.splits if_splits dest: later_closeOutputWait)

lemma later_close_upstream:
  assumes "close_upstream request uid d = Inr d'" and "store_ok d"
  shows "record_le d d'"
proof -
  have "fold_result (\<lambda>w d. bind_result (coordinated_close (upstream_request request w) d) (\<lambda>(_, d'). Ok d'))
      (upstream_handoffs d uid) d = Inr d'"
    using assms(1) by (auto simp: close_upstream_def split: list.splits)
  from fold_result_invariant [OF this, of "\<lambda>e. store_ok e \<and> record_le d e"] assms(2) show ?thesis
    by (auto dest: coordinated_close_ok later_coordinated intro: record_le_trans)
qed

lemma later_decide_gate:
  assumes "decide_gate_tx request d = Inr (r, d')" and "store_ok d"
  shows "record_le d d'"
proof -
  have "d' = d \<or> (\<exists>req own d1. coordinated_close req d = Inr (own, d1) \<and>
      (d' = d1 \<or> (\<exists>uid. close_upstream request uid d1 = Inr d')))"
    using assms(1) unfolding decide_gate_tx_def Let_def
    by (auto split: option.splits if_splits output_release.splits)
  then show ?thesis
    using assms(2) by (auto intro: later_coordinated record_le_trans dest: coordinated_close_ok later_close_upstream)
qed

lemma decide_gate_wait_later: "store_ok d \<Longrightarrow> record_le d (snd (decide_gate_wait request d))"
  by (auto simp: decide_gate_wait_def split: sum.splits failure.splits dest: later_decide_gate)

lemma complete_handoff_artifact_later: "store_ok d \<Longrightarrow> record_le d (snd (complete_handoff_artifact request d))"
  by (auto simp: complete_handoff_artifact_def Let_def close_output_wait_later split: option.splits output_release.splits)

section \<open>The ask and cancellation\<close>

lemma later_end_stage [later]: "record_le d (update_stages p (end_stage st outcome at) d)"
  by (rule later_updates) (auto simp: stage_le_def end_stage_def stage_ref_def)

lemma later_end_run:
  assumes "\<And>r. r \<in> set (db_runs d) \<Longrightarrow> p r \<Longrightarrow> run_state r = RunActive"
  shows "record_le d (update_runs p (end_run rid st outcome at) d)"
  by (rule later_updates') (auto simp: run_le_def end_run_def dest: assms)

lemma later_facts:
  "record_le d (snd (mark_unit_satisfied_tx uid at d))" "record_le d (snd (start_work_tx order uid at d))"
  "record_le d (snd (mark_stage_succeeded_tx sid at d))" "record_le d (snd (complete_run_tx rid outcome at d))"
proof -
  show "record_le d (snd (mark_unit_satisfied_tx uid at d))"
    by (auto simp: mark_unit_satisfied_tx_def order_active_def split: option.split intro: record_le_trans [OF later_ready_units later_end_orders])
  have "record_le d (update_orders (\<lambda>w. wo_id (or_order w) = order \<and> wo_state (or_order w) = WAvailable)
      (\<lambda>w. w\<lparr>or_order := (or_order w)\<lparr>wo_state := WStarted\<rparr>\<rparr>) d)"
    by (rule later_updates') (auto simp: order_le_def order_ref_def order_active_def active_order_def)
  moreover have "record_le d (update_units p (\<lambda>u. u\<lparr>u_state := UWorking\<rparr>) d)" for p d
    by (rule later_updates) (auto simp: unit_le_def unit_ref_def)
  ultimately show "record_le d (snd (start_work_tx order uid at d))"
    by (auto simp: start_work_tx_def split: option.split intro: record_le_trans)
  show "record_le d (snd (mark_stage_succeeded_tx sid at d))"
    by (simp add: mark_stage_succeeded_tx_def later_end_stage)
  show "record_le d (snd (complete_run_tx rid outcome at d))"
    unfolding complete_run_tx_def snd_conv by (rule record_le_trans [OF later_end_stage later_end_run]) simp
qed

lemma later_apply_revise:
  assumes "apply_revise_unit env loader snapshot c at d = Inr (effect, d')"
  shows "record_le d d'"
proof -
  obtain inp r d1 where r: "revise_unit_input_tx inp d = Inr (r, d1)"
    and d1: "(case r of ReviseTxNotFound detail \<Rightarrow> Err detail | ReviseTxUnchanged rid e \<Rightarrow> Ok (e, d1) | ReviseTxRevised rid e \<Rightarrow> Ok (e, d1)) =
      Inr (effect, d')"
    using assms by (auto simp: apply_revise_unit_def split: option.splits)
  from d1 have "d' = d1" by (cases r) auto
  then show ?thesis using later_revise_tx [OF r] by simp
qed

lemma later_apply_command:
  assumes "apply_command env loader snapshot c at d = Inr (effect, d')"
  shows "record_le d d'"
proof (cases c)
  case (MaterializeUnit x)
  then show ?thesis using assms by (auto simp: apply_command_def apply_materialize_unit_def dest: later_persist_tx)
next
  case (ReviseUnit x)
  then show ?thesis using assms later_apply_revise by (auto simp: apply_command_def)
qed (use assms later_facts in \<open>auto simp: apply_command_def dest: later_persist_tx intro: arg_cong [where f = snd] dest!: arg_cong [where f = snd]\<close>)

lemma later_batch:
  assumes "fold_result (apply_step env loader snapshot at) cs st = Inr st'"
  shows "record_le (bs_db st) (bs_db st')"
  by (rule fold_result_invariant [OF assms, of "\<lambda>s. record_le (bs_db st) (bs_db s)"])
    (auto simp: apply_step_def intro: record_le_trans dest!: later_apply_command)

lemma later_contradiction:
  assumes "\<And>r. r \<in> set (db_runs d) \<Longrightarrow> run_id r = rid \<Longrightarrow> run_state r = RunActive"
  shows "record_le d (snd (record_contradiction_tx rid c at d))"
  unfolding record_contradiction_tx_def Let_def snd_conv
  by (rule record_le_trans [OF later_end_stage later_end_run]) (use assms in \<open>simp add: update_stages_def\<close>)

lemma later_decide_active:
  assumes "decide_active env registry loader run at d = Inr (r, d')"
    and "\<And>q. q \<in> set (db_runs d) \<Longrightarrow> run_id q = run_id run \<Longrightarrow> run_state q = RunActive"
  shows "record_le d d'"
proof -
  obtain workflow where w: "load_compiled_definition_tx registry d (run_definition_id run) = Inr workflow"
    using assms(1) by (auto simp: decide_active_def)
  show ?thesis
  proof (cases "derive env (load_run_snapshot env run workflow d)")
    case (Inl c)
    obtain outcome effect d1 where rc: "record_contradiction_tx (run_id run) c at d = ((outcome, effect), d1)"
      by (cases "record_contradiction_tx (run_id run) c at d") auto
    obtain v where "commit_batch (run_id run) effect d1 = Inr (v, d')"
      using assms(1) w Inl rc by (auto simp: decide_active_def Let_def)
    then show ?thesis
      using later_contradiction [OF assms(2), where c = c and at = at] later_commit_batch record_le_trans rc by (metis snd_conv)
  next
    case (Inr commands)
    obtain st v where "fold_result (apply_step env loader (load_run_snapshot env run workflow d) at) commands
          \<lparr>bs_effect = NO_EFFECT, bs_started = [], bs_completed = None, bs_db = d\<rparr> = Inr st"
        and "commit_batch (run_id run) (bs_effect st) (bs_db st) = Inr (v, d')"
      using assms(1) w Inr by (auto simp: decide_active_def Let_def)
    then show ?thesis using later_batch later_commit_batch record_le_trans by (metis batch_state.select_convs(4))
  qed
qed

lemma decide_run_later:
  assumes "store_ok d"
  shows "record_le d (snd (decide_run env registry loader rid at d))"
  unfolding decide_run_def
proof (rule later_transaction, goal_cases)
  case (1 r d')
  show ?case
  proof (cases "find_run d rid")
    case None
    then show ?thesis using 1 by simp
  next
    case (Some row)
    then have active: "run_state q = RunActive" if "run_state row = RunActive" "q \<in> set (db_runs d)" "run_id q = run_id row" for q
      using run_unique [OF assms Some] find_run_id [OF Some] that by metis
    show ?thesis
      using 1 Some active by (auto simp: Let_def split: option.splits if_splits intro!: later_decide_active)
  qed
qed

lemma later_cancel_rows:
  assumes "\<And>r. r \<in> set (db_runs d) \<Longrightarrow> run_id r = rid \<Longrightarrow> run_state r = RunActive"
  shows "record_le d (cancel_rows rid outcome at d)"
proof -
  have w: "record_le e (cancel_waits rid at e)" for e
    unfolding cancel_waits_def by (rule later_close_waits) auto
  have s: "record_le e (cancel_slots rid at e)" for e
    unfolding cancel_slots_def by (rule later_updates) (simp add: slot_le_invalidate)
  have o: "record_le e (cancel_orders rid at e)" for e
    unfolding cancel_orders_def by (rule later_end_orders) (auto simp: order_active_def)
  have rest: "record_le e (cancel_units rid outcome at e)" "record_le e (cancel_stages rid outcome at e)" for e
    unfolding cancel_units_def cancel_stages_def by (rule later_ready_units later_end_stage)+
  let ?d = "cancel_stages rid outcome at (cancel_units rid outcome at (cancel_orders rid at (cancel_slots rid at (cancel_waits rid at d))))"
  have "record_le d ?d" using w s o rest by (meson record_le_trans)
  moreover have "record_le ?d (update_runs (\<lambda>r. run_id r = rid) (end_run rid RunCancelled outcome at) ?d)"
    by (rule later_end_run) (use assms in \<open>simp add: cancel_stages_def cancel_units_def cancel_orders_def cancel_slots_def cancel_waits_def row_update_defs\<close>)
  ultimately show ?thesis unfolding cancel_rows_def using later_bump record_le_trans by blast
qed

lemma cancel_run_later:
  assumes "store_ok d"
  shows "record_le d (snd (cancel_run inp d))"
  unfolding cancel_run_def
proof (rule later_transaction, goal_cases)
  case (1 r d')
  then show ?case
    using run_unique [OF assms, of "cn_run_id inp"]
    by (auto simp: Let_def split: option.splits if_splits intro!: record_le_trans [OF later_cancel_rows later_inserts(11)])
qed

end
