(* ===== verification/RunSteps.thy ===== *)
theory RunSteps
  imports Launch History
begin

text \<open>
  The program as a transition system: the operations of the run record behind one interface, the
  states that launches, operations, deletions and definition uploads can reach, and what holds of
  every one of them.
\<close>

section \<open>The interface of an operation\<close>

text \<open>
  What every writer of the run record promises the others: it keeps the invariant, and it leads to
  a later state of the same record.
\<close>

locale record_operation =
  fixes op :: "db \<Rightarrow> 'r \<times> db"
  assumes keeps: "store_ok d \<Longrightarrow> store_ok (snd (op d))"
    and later: "store_ok d \<Longrightarrow> record_le d (snd (op d))"
begin

lemma version_grows: "store_ok d \<Longrightarrow> r \<in> set (db_runs d) \<Longrightarrow> \<exists>s\<in>set (db_runs (snd (op d))). run_le r s"
  using later unfolding record_le_def by (blast intro: grows_member)

lemma audit_appended: "store_ok d \<Longrightarrow> \<exists>ts. db_transitions (snd (op d)) = db_transitions d @ ts"
  using later unfolding record_le_def by (simp add: grows_eq_prefix)

end

interpretation persisting: record_operation "persist_materialized_stage env inp" for env inp
  by unfold_locales (auto intro: persist_materialized_stage_ok persist_materialized_stage_later)

interpretation revising: record_operation "revise_unit_input inp" for inp
  by unfold_locales (auto intro: revise_unit_input_ok revise_unit_input_later)

interpretation retrying: record_operation "retry_unit env inp at order" for env inp at order
  by unfold_locales (auto intro: retry_unit_ok retry_unit_later)

interpretation admitting: record_operation "admit_unit env request at" for env request at
  by unfold_locales (auto intro: admit_unit_ok admit_unit_later)

interpretation publishing: record_operation "publish_artifact request waitId" for request waitId
  by unfold_locales (auto intro: publish_artifact_ok publish_artifact_later)

interpretation closing: record_operation "close_output_wait request" for request
  by unfold_locales (auto intro: close_output_wait_ok close_output_wait_later)

interpretation gating: record_operation "decide_gate_wait request" for request
  by unfold_locales (auto intro: decide_gate_wait_ok decide_gate_wait_later)

interpretation handing: record_operation "complete_handoff_artifact request" for request
  by unfold_locales (auto intro: complete_handoff_artifact_ok complete_handoff_artifact_later)

interpretation asking: record_operation "decide_run env registry loader rid at" for env registry loader rid at
  by unfold_locales (auto intro: decide_run_ok decide_run_later)

interpretation cancelling: record_operation "cancel_run request" for request
  by unfold_locales (auto intro: cancel_run_ok cancel_run_later)

text \<open>The attachment table is outside the invariant.\<close>

lemma attachments_ok: "store_ok (d\<lparr>db_attachments := x\<rparr>) = store_ok d"
  by (simp add: store_ok_def identity_of_def shape_ok_def)

lemma attachments_later: "record_le d (d\<lparr>db_attachments := x\<rparr>)"
  by (simp add: record_le_def)

interpretation attaching: record_operation "ensure_executor_attachment order executor at" for order executor at
  by unfold_locales (auto simp: ensure_executor_attachment_def Let_def attachments_ok attachments_later split: option.split)

interpretation observing: record_operation "\<lambda>d. ((), update_attachments p f d)" for p f
  by unfold_locales (simp_all add: update_attachments_def attachments_ok attachments_later)

section \<open>Operations\<close>

record config =
  cf_env :: runtime_env
  cf_registry :: "stage_type_compiler js_obj"
  cf_loader :: "(string \<Rightarrow> string + string) option"

datatype operation =
    PersistStage persist_stage
  | ReviseInput revise_input
  | RetryUnit retry_request string string
  | AdmitUnit admit_request string
  | PublishArtifact publish_request string
  | CloseWait close_wait_request
  | DecideGate gate_request
  | CompleteHandoff handoff_request
  | DecideRun string string
  | CancelRun cancel_request
  | EnsureAttachment string string string
  | AttachExternal string external_reference string
  | ObserveExecutor string executor_health string
  | RequestCleanup string string
  | FinishCleanup string bool string

fun perform :: "config \<Rightarrow> operation \<Rightarrow> db \<Rightarrow> db" where
  "perform cf (PersistStage inp) d = snd (persist_materialized_stage (cf_env cf) inp d)"
| "perform cf (ReviseInput inp) d = snd (revise_unit_input inp d)"
| "perform cf (RetryUnit inp at order) d = snd (retry_unit (cf_env cf) inp at order d)"
| "perform cf (AdmitUnit request at) d = snd (admit_unit (cf_env cf) request at d)"
| "perform cf (PublishArtifact request waitId) d = snd (publish_artifact request waitId d)"
| "perform cf (CloseWait request) d = snd (close_output_wait request d)"
| "perform cf (DecideGate request) d = snd (decide_gate_wait request d)"
| "perform cf (CompleteHandoff request) d = snd (complete_handoff_artifact request d)"
| "perform cf (DecideRun rid at) d = snd (decide_run (cf_env cf) (cf_registry cf) (cf_loader cf) rid at d)"
| "perform cf (CancelRun request) d = snd (cancel_run request d)"
| "perform cf (EnsureAttachment order executor at) d = snd (ensure_executor_attachment order executor at d)"
| "perform cf (AttachExternal order reference at) d = attach_external order reference at d"
| "perform cf (ObserveExecutor order health at) d = observe_executor order health at d"
| "perform cf (RequestCleanup order at) d = request_cleanup order at d"
| "perform cf (FinishCleanup order succeeded at) d = finish_cleanup order succeeded at d"

text \<open>Every operation of the record satisfies the interface, so every sequence of them does.\<close>

lemma observing_keeps: "store_ok d \<Longrightarrow> store_ok (update_attachments p f d)"
  using observing.keeps [of d p f] by simp

lemma observing_later: "store_ok d \<Longrightarrow> record_le d (update_attachments p f d)"
  using observing.later [of d p f] by simp

interpretation performing: record_operation "\<lambda>d. ((), perform cf x d)" for cf x
proof
  fix d assume ok: "store_ok d"
  show "store_ok (snd ((), perform cf x d))"
    using ok by (cases x)
      (auto intro: persisting.keeps revising.keeps retrying.keeps admitting.keeps publishing.keeps closing.keeps gating.keeps
        handing.keeps asking.keeps cancelling.keeps attaching.keeps
        simp: attach_external_def observe_executor_def request_cleanup_def finish_cleanup_def observing_keeps)
  show "record_le d (snd ((), perform cf x d))"
    using ok by (cases x)
      (auto intro: persisting.later revising.later retrying.later admitting.later publishing.later closing.later gating.later
        handing.later asking.later cancelling.later attaching.later
        simp: attach_external_def observe_executor_def request_cleanup_def finish_cleanup_def observing_later)
qed

definition perform_all :: "config \<Rightarrow> operation list \<Rightarrow> db \<Rightarrow> db" where
  "perform_all cf ops d = fold (perform cf) ops d"

interpretation history: record_operation "\<lambda>d. ((), perform_all cf ops d)" for cf ops
proof
  fix d assume ok: "store_ok d"
  have "store_ok (perform_all cf ops d) \<and> record_le d (perform_all cf ops d)"
    using ok
  proof (induction ops arbitrary: d)
    case Nil
    then show ?case by (simp add: perform_all_def)
  next
    case (Cons x ops)
    have "store_ok (perform cf x d)" "record_le d (perform cf x d)"
      using performing.keeps [OF Cons.prems] performing.later [OF Cons.prems] by simp_all
    with Cons.IH [of "perform cf x d"] show ?case by (auto simp: perform_all_def intro: record_le_trans)
  qed
  then show "store_ok (snd ((), perform_all cf ops d))" "record_le d (snd ((), perform_all cf ops d))" by simp_all
qed

lemma perform_all_ok: "store_ok d \<Longrightarrow> store_ok (perform_all cf ops d)"
  using history.keeps by simp

lemma perform_all_later: "store_ok d \<Longrightarrow> record_le d (perform_all cf ops d)"
  using history.later by simp

section \<open>Reachable states\<close>

definition insert_project :: "project \<Rightarrow> launch_store \<Rightarrow> launch_store" where
  "insert_project pj st =
     (if \<exists>q\<in>set (ls_projects st). pj_id q = pj_id pj then st else st\<lparr>ls_projects := ls_projects st @ [pj]\<rparr>)"

definition empty_db :: "string option \<Rightarrow> db" where
  "empty_db seed =
     \<lparr>db_definitions = [], db_runs = [], db_stages = [], db_policies = [], db_units = [], db_dependencies = [], db_slots = [],
      db_orders = [], db_waits = [], db_artifacts = [], db_emissions = [], db_attachments = [], db_admissions = [],
      db_transitions = [], db_seed = seed\<rparr>"

definition empty_store :: "string option \<Rightarrow> launch_store" where
  "empty_store seed = \<lparr>ls_db = empty_db seed, ls_columns = [], ls_profiles = [], ls_projects = []\<rparr>"

inductive reachable :: "config \<Rightarrow> zod_env \<Rightarrow> launch_store \<Rightarrow> bool" for cf z where
  migrated: "reachable cf z (empty_store seed)"
| defined: "reachable cf z st \<Longrightarrow> reachable cf z (st\<lparr>ls_db := snd (insert_immutable z w (ls_db st))\<rparr>)"
| definition_archived: "reachable cf z st \<Longrightarrow> reachable cf z (st\<lparr>ls_db := snd (set_definition_archived z i b (ls_db st))\<rparr>)"
| project_inserted: "reachable cf z st \<Longrightarrow> reachable cf z (insert_project pj st)"
| launched: "reachable cf z st \<Longrightarrow> reachable cf z (snd (create_run inp st))"
| run_archived: "reachable cf z st \<Longrightarrow> reachable cf z (snd (set_run_archived i b st))"
| performed: "reachable cf z st \<Longrightarrow> reachable cf z (st\<lparr>ls_db := perform cf x (ls_db st)\<rparr>)"
| run_deleted: "reachable cf z st \<Longrightarrow> reachable cf z (snd (delete_launched_run i st))"

lemma store_ok_definitions [simp]: "store_ok (d\<lparr>db_definitions := x\<rparr>) = store_ok d"
  by (simp add: store_ok_def identity_of_def shape_ok_def)

lemma insert_immutable_ok [simp]: "store_ok (snd (insert_immutable z w d)) = store_ok d"
  by (auto simp: insert_immutable_def Let_def split: option.split)

lemma set_definition_archived_ok [simp]: "store_ok (snd (set_definition_archived z i b d)) = store_ok d"
  by (simp add: set_definition_archived_def Let_def)

lemma store_ok_new_run:
  assumes "store_ok d" and "find_run d (run_id r) = None" and "run_shape r"
  shows "store_ok (d\<lparr>db_runs := db_runs d @ [r]\<rparr>)"
proof -
  have "identity_ok (identity_of (d\<lparr>db_runs := db_runs d @ [r]\<rparr>))"
    using assms by (auto simp: store_ok_def identity_ok_def identity_of_def find_run_None stage_ref_def)
  moreover have "audit_ok (db_runs d @ [r]) (db_transitions d)"
    using assms(1) unfolding store_ok_def audit_ok_def by fastforce
  ultimately show ?thesis using assms by (simp add: store_ok_def shape_ok_def)
qed

lemma insertProfile_db: "insertProfile p st = Inr st' \<Longrightarrow> ls_db st' = ls_db st \<and> ls_columns st' = ls_columns st"
  by (auto simp: insertProfile_def split: if_splits)

lemma create_run_cases:
  assumes "create_run_tx inp st = Inr (r, st')"
  shows "st' = st \<or> find_run (ls_db st) (rl_id (pt_run inp)) = None \<and>
    (st' = insert_run_row inp st \<and> pt_epic_profile inp = None \<or>
     (\<exists>p. pt_epic_profile inp = Some p \<and> insertProfile p (insert_run_row inp st) = Inr st'))"
  using assms by (auto simp: create_run_tx_def Let_def split: option.splits if_splits)

lemma create_run_ok:
  assumes "store_ok (ls_db st)"
  shows "store_ok (ls_db (snd (create_run inp st)))"
proof -
  have new: "store_ok (ls_db (insert_run_row inp st))" if "find_run (ls_db st) (rl_id (pt_run inp)) = None"
    using store_ok_new_run [OF assms, of "new_run_row inp"] that
    by (simp add: insert_run_row_def new_run_row_def run_shape_def)
  show ?thesis
  proof (cases "create_run_tx inp st")
    case (Inl e)
    then show ?thesis using assms by (simp add: create_run_def)
  next
    case (Inr rs)
    obtain r st' where rs: "rs = (r, st')" by (cases rs)
    show ?thesis
      using create_run_cases [OF Inr [unfolded rs]] new assms Inr rs
      by (auto simp: create_run_def dest: insertProfile_db)
  qed
qed

lemma delete_launched_db: "ls_db (snd (delete_launched_run i st)) = snd (delete_run i (ls_db st))"
  by (simp add: delete_launched_run_def split: prod.split)

lemma reachable_ok: "reachable cf z st \<Longrightarrow> store_ok (ls_db st)"
proof (induction rule: reachable.induct)
  case (migrated seed)
  then show ?case
    by (simp add: empty_store_def empty_db_def store_ok_def identity_ok_def identity_of_def parked_ok_def held_ok_def
        audit_ok_def one_active_def shape_ok_def)
next
  case (launched st inp)
  then show ?case by (simp add: create_run_ok)
next
  case (performed st x)
  then show ?case using performing.keeps [of "ls_db st" cf x] by simp
next
  case (run_deleted st i)
  then show ?case by (simp add: delete_launched_db delete_run_ok)
qed (auto simp: insert_project_def set_run_archived_def Let_def split: option.splits)

end
