(* ===== verification/Scenario.thy ===== *)
theory Scenario
  imports RunSteps
begin

text \<open>
  One run of the program, from an empty database to a decided gate, computed by the model: the
  sample workflow is stored, a run of it launched, asked twice, published to and decided. The
  properties of the run record are applied to its states.
\<close>

definition demo_config :: config where
  "demo_config = \<lparr>cf_env = sample_env, cf_registry = builtInStageTypeCompilers sample_zod, cf_loader = Some (\<lambda>_. Inr ''do it'')\<rparr>"

definition demo_launch :: persist_launch where
  "demo_launch = \<lparr>pt_run = \<lparr>rl_id = ''r'', rl_definition_id = ''d'', rl_project_id = None,
      rl_context = [(''oakridge_url'', JStr ''u''), (''workdir'', JStr ''w'')], rl_archived = False, rl_created_at = ''t0''\<rparr>,
     pt_epic_profile = None, pt_definition_version = 1\<rparr>"

definition demo_defined :: launch_store where
  "demo_defined = (empty_store (Some ''seed''))\<lparr>ls_db := snd (insert_immutable sample_zod sample_definition (empty_db (Some ''seed'')))\<rparr>"

definition demo_launched :: launch_store where
  "demo_launched = snd (create_run demo_launch demo_defined)"

abbreviation "uuid0 \<equiv> ''00000000-0000-4000-8000-000000000000''"
abbreviation "sha0 \<equiv> ''0000000000000000000000000000000000000000000000000000000000000000''"

definition demo_stage :: stage_row where
  "demo_stage =
     \<lparr>sr_id = uuid0, sr_run_id = ''r'', sr_stage_key = ''spec'', sr_stage_type = ''delegated_session'', sr_contract = CompiledContract sample_stage,
      sr_attempt_root = None, sr_coordinator = ''v2-stage:'' @ uuid0, sr_state = RunActive, sr_outcome = None, sr_closed = True,
      sr_started_at = ''t1'', sr_ended_at = None\<rparr>"

definition demo_unit :: unit_row where
  "demo_unit =
     \<lparr>u_id = uuid0, u_run_id = ''r'', u_stage_id = uuid0, u_unit_id = ''0'', u_parameters = JObj [], u_input_snapshot = [],
      u_input_fingerprint = sha0, u_state = UWorking, u_admitted = True, u_admitted_at = Some ''t1'', u_outcome = None,
      u_fingerprint = Some sha0, u_created_at = ''t1'', u_ended_at = None\<rparr>"

definition demo_slot :: run_output_slot where
  "demo_slot =
     \<lparr>slot_run_unit_id = uuid0, slot_identity = ScalarSlot ''spec'', slot_artifact_type = ''t'', slot_required = True,
      slot_release = Gate sample_steps False SelfStage, slot_state = SlotEmpty, slot_updated_by = None, slot_version = 0\<rparr>"

definition demo_request :: execution_request where
  "demo_request =
     \<lparr>er_execution_id = uuid0, er_stage_instance_id = uuid0, er_unit_id = ''0'', er_executor_type = ''delegated_session'',
      er_resolved_config =
        JObj [(''executor_type'', JStr ''delegated_session''), (''runtime'', JStr ''codex''), (''rendered_prompt'', JStr ''do it''),
          (''workdir'', JStr ''w''), (''session_name'', JStr ''s''), (''model'', JNull), (''effort'', JNull),
          (''executor_options'', JObj [(''pre_authorized_tools'', JArr []), (''yolo'', JBool False)]),
          (''publication'', JObj [(''base_url'', JStr ''u''), (''work_order_id'', JStr uuid0), (''capability'', JStr ''cap'')])],
      er_inputs = [], er_declared_outputs = [\<lparr>oc_name = ''spec'', oc_artifact_type = ''t'', oc_required = True\<rparr>],
      er_expected_artifacts = [\<lparr>ea_unit_id = ''0'', ea_output_name = ''spec'', ea_artifact_type = ''t''\<rparr>], er_workspace_source = None\<rparr>"

definition demo_order :: order_row where
  "demo_order =
     \<lparr>or_order =
        \<lparr>wo_id = uuid0, wo_run_unit_id = uuid0, wo_reason = ReasonInitial, wo_input_snapshot = [], wo_input_fingerprint = sha0,
         wo_state = WStarted, wo_workflow_id = ''v2-work:'' @ uuid0, wo_request_idempotency_key = ''initial'', wo_created_at = ''t1'',
         wo_completed_at = None\<rparr>,
      or_capability_hash = sha0, or_request = Some demo_request\<rparr>"

definition stage_step :: "(string \<times> json) list \<Rightarrow> transition_operation \<Rightarrow> string \<Rightarrow> nat \<Rightarrow> transition" where
  "stage_step detail kind at prior =
     \<lparr>tr_run_id = ''r'', tr_unit_id = None, tr_order_id = None, tr_wait_id = None, tr_output_name = None, tr_collection_key = None,
      tr_operation = kind, tr_actor = ''compiler'', tr_detail = JObj ((''stage_instance_id'', JStr uuid0) # detail),
      tr_created_at = at, tr_prior = prior, tr_resulting = prior + 1\<rparr>"

definition demo_started :: db where
  "demo_started =
     (ls_db demo_launched)\<lparr>
      db_runs := map (\<lambda>r. r\<lparr>run_record_version := 2\<rparr>) (db_runs (ls_db demo_launched)),
      db_stages := [demo_stage],
      db_policies := [\<lparr>pl_stage_id = uuid0, pl_policy = \<lparr>max_parallel = 1, manual_admission = False\<rparr>, pl_fingerprint = sha0\<rparr>],
      db_units := [demo_unit], db_slots := [demo_slot], db_orders := [demo_order],
      db_transitions :=
        [stage_step [(''unit_count'', JNum ''0''), (''materialization_closed'', JBool False)] StageMaterialized ''t1'' 0,
         stage_step [(''unit_count'', JNum ''1''), (''materialization_closed'', JBool False)] StageMaterialized ''t1'' 0,
         stage_step [(''unit_count'', JNum ''0''), (''materialization_closed'', JBool True)] StageMaterialized ''t2'' 1,
         stage_step [] MaterializationClosed ''t2'' 1,
         \<lparr>tr_run_id = ''r'', tr_unit_id = Some uuid0, tr_order_id = Some uuid0, tr_wait_id = None, tr_output_name = None,
          tr_collection_key = None, tr_operation = WorkStarted, tr_actor = ''system'', tr_detail = JObj [], tr_created_at = ''t2'',
          tr_prior = 1, tr_resulting = 2\<rparr>]\<rparr>"

definition demo_ask :: "string \<Rightarrow> db \<Rightarrow> (string + decide_result) \<times> db" where
  "demo_ask at = decide_run (cf_env demo_config) (cf_registry demo_config) (cf_loader demo_config) ''r'' at"

lemma demo_starts:
  "demo_ask ''t2'' (snd (demo_ask ''t1'' (ls_db demo_launched))) = (Inr (Asked (AskRecheck 2 [(uuid0, uuid0)])), demo_started)"
  by code_simp

lemma demo_launched_reachable: "reachable cf sample_zod demo_launched"
proof -
  have "reachable cf sample_zod demo_defined"
    unfolding demo_defined_def using reachable.defined [OF reachable.migrated] by (simp add: empty_store_def)
  then show ?thesis unfolding demo_launched_def by (rule reachable.launched)
qed

lemma demo_started_reachable: "reachable demo_config sample_zod (demo_launched\<lparr>ls_db := demo_started\<rparr>)"
proof -
  let ?st = "\<lambda>d. demo_launched\<lparr>ls_db := d\<rparr>"
  have step: "reachable demo_config sample_zod (?st d) \<Longrightarrow> reachable demo_config sample_zod (?st (snd (demo_ask at d)))" for d at
    using reachable.performed [of demo_config sample_zod "?st d" "DecideRun ''r'' at"] by (simp add: demo_ask_def)
  have "reachable demo_config sample_zod (?st (ls_db demo_launched))" using demo_launched_reachable by simp
  from step [OF step [OF this, of "''t1''"], of "''t2''"] show ?thesis by (simp add: demo_starts)
qed

lemma demo_started_ok: "store_ok demo_started"
  using reachable_ok [OF demo_started_reachable] by simp

definition demo_publish :: publish_request where
  "demo_publish =
     \<lparr>pr_artifact_id = ''a'', pr_work_order_id = uuid0, pr_capability_hash = sha0, pr_output_name = ''spec'', pr_collection_key = None,
      pr_body = JNull, pr_idempotency_key = ''k'', pr_payload_hash = ''h'', pr_published_at = ''t3''\<rparr>"

definition demo_published :: db where
  "demo_published = snd (publish_artifact demo_publish ''w'' demo_started)"

lemma demo_publishes:
  "publish_artifact demo_publish ''w'' demo_started = (Inr (PublishPending ''a'' ''w'' ''r'' 3), demo_published)"
proof -
  have "fst (publish_artifact demo_publish ''w'' demo_started) = Inr (PublishPending ''a'' ''w'' ''r'' 3)" by code_simp
  then show ?thesis by (simp add: demo_published_def prod_eq_iff)
qed

lemma demo_published_ok: "store_ok demo_published"
  using publishing.keeps [OF demo_started_ok] by (simp add: demo_published_def)

definition demo_approve :: close_wait_request where
  "demo_approve =
     \<lparr>cl_wait_id = ''w'', cl_disposition = DispRelease, cl_action = Some ''approve'', cl_actor = ''human'', cl_detail = None,
      cl_decided_at = ''t4''\<rparr>"

definition demo_approved :: db where
  "demo_approved = snd (close_output_wait demo_approve demo_published)"

lemma demo_approves: "close_output_wait demo_approve demo_published = (Inr (CloseReleased ''a'' ''r'' 4), demo_approved)"
proof -
  have "fst (close_output_wait demo_approve demo_published) = Inr (CloseReleased ''a'' ''r'' 4)" by code_simp
  then show ?thesis by (simp add: demo_approved_def prod_eq_iff)
qed

lemma demo_approved_ok: "store_ok demo_approved"
  using closing.keeps [OF demo_published_ok] by (simp add: demo_approved_def)

definition demo_finished :: db where
  "demo_finished = perform_all demo_config [DecideRun ''r'' ''t5'', DecideRun ''r'' ''t6'', DecideRun ''r'' ''t7''] demo_approved"

lemma demo_finishes: "map_option (\<lambda>run. (run_state run, run_outcome run, run_definition_id run)) (find_run demo_finished ''r'') =
    Some (RunSucceeded, Some Succeeded, ''d'') \<and>
  map df_id (db_definitions demo_finished) = [''d'']"
  by code_simp

lemma demo_finished_ok: "store_ok demo_finished"
  unfolding demo_finished_def using demo_approved_ok by (rule perform_all_ok)

definition demo_attached :: db where
  "demo_attached = perform_all demo_config [EnsureAttachment uuid0 ''delegated_session'' ''t3'', AttachExternal uuid0 (HeadlessRun ''s1'') ''t3''] demo_started"

lemma demo_attached_ok: "store_ok demo_attached"
  unfolding demo_attached_def using demo_started_ok by (rule perform_all_ok)

end
