(* ===== verification/RunProps.thy ===== *)
theory RunProps
  imports Scenario
begin

section \<open>The invariant\<close>

text \<open>
  C1. The run record is consistent in every state the program can reach, whatever launches, asks,
  publications, decisions, retries, admissions, revisions, cancellations, observations and
  deletions happened in whatever order: keys are unique and every row's owner exists, an output
  slot is pending exactly when an open wait on its artifact is waiting for it, the artifact a
  slot names is stored and belongs to the run, every audit row names one increment already made
  of its run's version, a unit has at most one available or started work order, and exactly the
  ended rows carry an outcome and an end time.
\<close>
theorem run_record_invariant:
  assumes "reachable cf z st"
  shows "store_ok (ls_db st)"
  using assms by (rule reachable_ok)

theorem run_record_invariant_witness:
  "reachable demo_config sample_zod (demo_launched\<lparr>ls_db := demo_started\<rparr>) \<and> db_orders demo_started = [demo_order] \<and> store_ok demo_started"
  using run_record_invariant [OF demo_started_reachable] demo_started_reachable by (simp add: demo_started_def)

section \<open>Looking rows up in a later state\<close>

lemma grows_find:
  assumes "grows le xs ys" and "List.find p xs = Some x" and "\<And>x y. le x y \<Longrightarrow> p y = p x"
  shows "\<exists>y. List.find p ys = Some y \<and> le x y"
  using assms(1,2)
proof (induction xs arbitrary: ys)
  case Nil
  then show ?case by simp
next
  case (Cons a xs)
  then obtain b zs where ys: "ys = b # zs" by (cases ys) (auto simp: grows_def)
  have ab: "le a b" and tail: "grows le xs zs"
    using Cons.prems(1) ys by (auto simp: grows_def nth_Cons split: nat.splits dest: spec [of _ 0])
  show ?case
    using Cons.IH [OF tail] Cons.prems(2) ab assms(3) [OF ab] ys by (auto split: if_splits)
qed

lemma record_le_grows:
  assumes "record_le d e"
  shows "grows run_le (db_runs d) (db_runs e)" "grows stage_le (db_stages d) (db_stages e)" "grows unit_le (db_units d) (db_units e)"
    "grows order_le (db_orders d) (db_orders e)" "grows wait_le (db_waits d) (db_waits e)" "grows slot_le (db_slots d) (db_slots e)"
    "grows artifact_le (db_artifacts d) (db_artifacts e)" "db_definitions e = db_definitions d"
  using assms by (simp_all add: record_le_def)

lemma later_find_run: "record_le d e \<Longrightarrow> find_run d i = Some r \<Longrightarrow> \<exists>s. find_run e i = Some s \<and> run_le r s"
  unfolding find_run_def by (rule grows_find [OF record_le_grows(1)]) (auto simp: run_le_def)

lemma later_find_stage: "record_le d e \<Longrightarrow> find_stage_row d i = Some r \<Longrightarrow> \<exists>s. find_stage_row e i = Some s \<and> stage_le r s"
  unfolding find_stage_row_def by (rule grows_find [OF record_le_grows(2)]) (auto simp: stage_le_def stage_ref_def)

lemma later_find_unit: "record_le d e \<Longrightarrow> find_unit_row d i = Some r \<Longrightarrow> \<exists>s. find_unit_row e i = Some s \<and> unit_le r s"
  unfolding find_unit_row_def by (rule grows_find [OF record_le_grows(3)]) (auto simp: unit_le_def unit_ref_def)

lemma later_find_order: "record_le d e \<Longrightarrow> find_order d i = Some r \<Longrightarrow> \<exists>s. find_order e i = Some s \<and> order_le r s"
  unfolding find_order_def by (rule grows_find [OF record_le_grows(4)]) (auto simp: order_le_def order_ref_def)

lemma later_find_wait: "record_le d e \<Longrightarrow> find_wait d i = Some r \<Longrightarrow> \<exists>s. find_wait e i = Some s \<and> wait_le r s"
  unfolding find_wait_def by (rule grows_find [OF record_le_grows(5)]) (auto simp: wait_le_def wait_ref_def)

lemma later_find_slot: "record_le d e \<Longrightarrow> find_slot d k = Some r \<Longrightarrow> \<exists>s. find_slot e k = Some s \<and> slot_le r s"
  unfolding find_slot_def by (rule grows_find [OF record_le_grows(6)]) (auto simp: slot_le_def)

lemma later_find_replay: "record_le d e \<Longrightarrow> find_replay request d = Some a \<Longrightarrow> \<exists>b. find_replay request e = Some b \<and> artifact_le a b"
  unfolding find_replay_def by (rule grows_find [OF record_le_grows(7)]) (auto simp: artifact_le_def)

lemma later_owned_order:
  assumes "record_le d e" and "owned_order d i = Some (w, u)"
  shows "\<exists>v t. owned_order e i = Some (v, t) \<and> order_le w v \<and> unit_le u t"
proof -
  have w: "find_order d i = Some w" and u: "find_unit_row d (wo_run_unit_id (or_order w)) = Some u"
    using assms(2) by (auto simp: owned_order_def split: option.splits)
  obtain v where v: "find_order e i = Some v" "order_le w v" using later_find_order [OF assms(1) w] by blast
  obtain t where t: "find_unit_row e (wo_run_unit_id (or_order w)) = Some t" "unit_le u t"
    using later_find_unit [OF assms(1) u] by blast
  have "wo_run_unit_id (or_order v) = wo_run_unit_id (or_order w)"
    using v(2) by (simp add: order_le_def order_ref_def)
  with v t show ?thesis by (simp add: owned_order_def)
qed

section \<open>Publication\<close>

lemma publish_tx:
  "publish_artifact request waitId d = (Inr r, d') \<longleftrightarrow> publish_artifact_tx request waitId d = Inr (r, d')"
  by (auto simp: publish_artifact_def transaction_def split: sum.splits prod.splits)

text \<open>What an accepted publication found, and that every other answer wrote nothing.\<close>

fun publication_stored :: "publish_result \<Rightarrow> bool" where
  "publication_stored (Published _ _ _) = True"
| "publication_stored (PublishPending _ _ _ _) = True"
| "publication_stored _ = False"

lemma refusal_stores_nothing: "publication_refusal request work slot = Some x \<Longrightarrow> \<not> publication_stored x"
  by (auto simp: publication_refusal_def Let_def split: if_splits slot_state.splits)

lemma publish_cases:
  assumes "publish_artifact_tx request waitId d = Inr (r, d')"
  shows "(\<exists>work unit slot. owned_order d (pr_work_order_id request) = Some (work, unit) \<and>
      or_capability_hash work = pr_capability_hash request \<and> find_slot d (request_slot request unit) = Some slot \<and>
      find_replay request d = None \<and> publication_refusal request work slot = None \<and>
      accept_publication request work unit slot waitId d = Inr (r, d')) \<or>
    d' = d \<and> \<not> publication_stored r"
  using assms unfolding publish_artifact_tx_def
  by (auto split: option.splits if_splits dest: refusal_stores_nothing)

lemma accept_results:
  assumes "accept_publication request work unit slot waitId d = Inr (r, d')"
  shows "\<exists>v. v = currentVersion d' (u_run_id unit) \<and>
    r = (if slot_release slot = Immediate then Published (pr_artifact_id request) (u_run_id unit) v
         else PublishPending (pr_artifact_id request) waitId (u_run_id unit) v)"
proof -
  have version: "v = currentVersion d' (tr_run_id p)" if "record_transition p d1 = Inr (v, d')" for p v d1
    using that by (auto simp: record_transition_def Let_def insertTransition_Inr currentVersion_def find_run_def)
  show ?thesis
    using assms
    by (auto simp: accept_publication_def release_now_def park_def Let_def publication_transition_def split: if_splits dest!: version)
qed

lemma find_append_Some: "List.find p xs = Some x \<Longrightarrow> List.find p (xs @ ys) = Some x"
  by (induction xs) auto

lemma find_append_None: "List.find p xs = None \<Longrightarrow> List.find p (xs @ ys) = List.find p ys"
  by (induction xs) (auto split: if_splits)

lemma accepted_replays:
  assumes "find_replay request d = None" and "insert_artifact (published_artifact request work unit slot) d = Inr d1"
  shows "find_replay request d1 = Some (published_artifact request work unit slot)"
proof -
  have "db_artifacts d1 = db_artifacts d @ [published_artifact request work unit slot]"
    using assms(2) by (auto simp: insert_artifact_def split: if_splits)
  then show ?thesis
    using assms(1) by (auto simp: find_replay_def find_append_None published_artifact_def Let_def)
qed

lemma record_transition_frame:
  assumes "record_transition p d = Inr (v, d')"
  shows "find_slot d' k = find_slot d k" "find_run d (tr_run_id p) \<noteq> None"
    "currentVersion d' (tr_run_id p) = currentVersion d (tr_run_id p) + 1"
proof -
  have some: "find_run d (tr_run_id p) \<noteq> None"
    using assms by (auto simp: record_transition_def Let_def insertTransition_Inr)
  then show "find_run d (tr_run_id p) \<noteq> None" .
  show "find_slot d' k = find_slot d k"
    using assms by (auto simp: record_transition_def Let_def insertTransition_Inr find_slot_def bump_version_def update_runs_def)
  have "currentVersion d' (tr_run_id p) = currentVersion (bump_version (tr_run_id p) d) (tr_run_id p)"
    using assms by (auto simp: record_transition_def Let_def insertTransition_Inr currentVersion_def find_run_def)
  then show "currentVersion d' (tr_run_id p) = currentVersion d (tr_run_id p) + 1"
    using some currentVersion_bump by (auto simp: currentVersion_def)
qed

lemma find_set_slot:
  assumes "find_slot d k = Some s"
  shows "find_slot (set_slot k st w d) k = Some (s\<lparr>slot_state := st, slot_updated_by := Some w, slot_version := slot_version s + 1\<rparr>)"
proof -
  have "List.find (\<lambda>s. slot_key s = k) (update_where (\<lambda>s. slot_key s = k)
      (\<lambda>s. s\<lparr>slot_state := st, slot_updated_by := Some w, slot_version := slot_version s + 1\<rparr>) xs) =
      Some (s\<lparr>slot_state := st, slot_updated_by := Some w, slot_version := slot_version s + 1\<rparr>)"
    if "List.find (\<lambda>s. slot_key s = k) xs = Some s" for xs
    using that by (induction xs) (auto simp: update_where_def split: if_splits)
  then show ?thesis using assms by (simp add: find_slot_def set_slot_def update_slots_def)
qed

lemma publication_transition_run [simp]: "tr_run_id (publication_transition request unit operation waitId detail) = u_run_id unit"
  by (simp add: publication_transition_def)

text \<open>Up to the slot write, accepting a publication leaves slots and runs alone.\<close>

lemma accept_parts:
  assumes "accept_publication request work unit slot waitId d = Inr (r, d')"
  shows "\<exists>e p v. db_slots e = db_slots d \<and> db_runs e = db_runs d \<and> tr_run_id p = u_run_id unit \<and>
    record_transition p (set_slot (request_slot request unit) (if slot_release slot = Immediate
      then SlotReleased (pr_artifact_id request) (pr_published_at request)
      else SlotPending (pr_artifact_id request) waitId (pr_published_at request)) (pr_work_order_id request) e) = Inr (v, d') \<and>
    publication_stored r"
proof -
  obtain a d1 f d2 where "insert_artifact a d = Inr d1" "insert_emission f d1 = Inr d2"
    and rest: "(if slot_release slot = Immediate
      then release_now request unit (replaced_artifact (slot_state slot)) (withdraw_replaced request (replaced_artifact (slot_state slot)) d2)
      else park request work unit slot (replaced_artifact (slot_state slot)) waitId
        (withdraw_replaced request (replaced_artifact (slot_state slot)) d2)) = Inr (r, d')"
    using assms by (auto simp: accept_publication_def Let_def)
  then have frame: "db_slots (withdraw_replaced request x d2) = db_slots d" "db_runs (withdraw_replaced request x d2) = db_runs d" for x
    by (auto simp: insert_artifact_def insert_emission_def withdraw_replaced_def update_artifacts_def split: if_splits option.splits)
  have waits: "db_slots e' = db_slots e \<and> db_runs e' = db_runs e" if "insert_wait x e = Inr e'" for x e e'
    using that by (auto simp: insert_wait_def split: if_splits)
  show ?thesis
  proof (cases "slot_release slot = Immediate")
    case True
    then obtain p v where "record_transition p (set_slot (request_slot request unit)
        (SlotReleased (pr_artifact_id request) (pr_published_at request)) (pr_work_order_id request)
        (withdraw_replaced request (replaced_artifact (slot_state slot)) d2)) = Inr (v, d')"
      "tr_run_id p = u_run_id unit" "publication_stored r"
      using rest by (auto simp: release_now_def Let_def)
    with True frame show ?thesis
      by (intro exI [of _ "withdraw_replaced request (replaced_artifact (slot_state slot)) d2"] exI [of _ p] exI [of _ v]) simp
  next
    case False
    then obtain e p v where "insert_wait (opened_wait request work unit slot waitId)
        (withdraw_replaced request (replaced_artifact (slot_state slot)) d2) = Inr e"
      "record_transition p (set_slot (request_slot request unit) (SlotPending (pr_artifact_id request) waitId (pr_published_at request))
        (pr_work_order_id request) e) = Inr (v, d')" "tr_run_id p = u_run_id unit" "publication_stored r"
      using rest by (auto simp: park_def Let_def)
    moreover from this(1) have "db_slots e = db_slots d" "db_runs e = db_runs d" using waits frame by metis+
    ultimately show ?thesis using False by (intro exI [of _ e] exI [of _ p] exI [of _ v]) simp
  qed
qed

lemma accept_stored: "accept_publication request work unit slot waitId d = Inr (r, d') \<Longrightarrow> publication_stored r"
  using accept_parts by blast

lemma accept_slot:
  assumes "accept_publication request work unit slot waitId d = Inr (r, d')" and "find_slot d (request_slot request unit) = Some slot"
  shows "\<exists>slot'. find_slot d' (request_slot request unit) = Some slot' \<and> slot_updated_by slot' = Some (pr_work_order_id request) \<and>
    slot_state slot' = (if slot_release slot = Immediate then SlotReleased (pr_artifact_id request) (pr_published_at request)
      else SlotPending (pr_artifact_id request) waitId (pr_published_at request))"
proof -
  obtain e p v where e: "db_slots e = db_slots d" and "record_transition p (set_slot (request_slot request unit) (if slot_release slot = Immediate
      then SlotReleased (pr_artifact_id request) (pr_published_at request)
      else SlotPending (pr_artifact_id request) waitId (pr_published_at request)) (pr_work_order_id request) e) = Inr (v, d')"
    using accept_parts [OF assms(1)] by blast
  moreover have "find_slot e (request_slot request unit) = Some slot" using assms(2) e by (simp add: find_slot_def)
  ultimately show ?thesis by (simp add: record_transition_frame(1) find_set_slot)
qed

lemma accept_version:
  assumes "accept_publication request work unit slot waitId d = Inr (r, d')"
  shows "currentVersion d' (u_run_id unit) = currentVersion d (u_run_id unit) + 1"
proof -
  obtain e p v st where e: "db_runs e = db_runs d" "tr_run_id p = u_run_id unit"
    and "record_transition p (set_slot (request_slot request unit) st (pr_work_order_id request) e) = Inr (v, d')"
    using accept_parts [OF assms] by blast
  then show ?thesis
    using record_transition_frame(3) by (fastforce simp: currentVersion_def find_run_def set_slot_def update_slots_def)
qed

text \<open>
  C4. A publication is applied once. When \<open>publish_artifact\<close> has accepted an artifact, the same
  request answers \<open>already_applied\<close> with that artifact, and writes nothing, after any sequence of
  other operations of the record: the artifact is neither stored twice nor lost.
\<close>
theorem publication_idempotent:
  assumes "store_ok d" and "publish_artifact request waitId d = (Inr r, d1)"
    and "r = Published a rid v \<or> r = PublishPending a w rid v"
  shows "publish_artifact request waitId' (perform_all cf ops d1) =
    (Inr (PublishAlreadyApplied a rid (currentVersion (perform_all cf ops d1) rid)), perform_all cf ops d1)"
proof -
  let ?e = "perform_all cf ops d1"
  have d1: "d1 = snd (publish_artifact request waitId d)" using assms(2) by simp
  have tx: "publish_artifact_tx request waitId d = Inr (r, d1)" using assms(2) by (simp add: publish_tx)
  have stored: "publication_stored r" using assms(3) by auto
  obtain work unit slot where accepted: "owned_order d (pr_work_order_id request) = Some (work, unit)"
      "or_capability_hash work = pr_capability_hash request" "find_slot d (request_slot request unit) = Some slot"
      "find_replay request d = None" "publication_refusal request work slot = None"
      "accept_publication request work unit slot waitId d = Inr (r, d1)"
    using publish_cases [OF tx] stored by blast
  obtain d0 where d0: "insert_artifact (published_artifact request work unit slot) d = Inr d0" "record_le d0 d1"
    using accept_inserts [OF accepted(6)] by blast
  have later: "record_le d1 ?e" by (rule perform_all_later) (simp add: d1 publishing.keeps assms(1))
  obtain b where b: "find_replay request ?e = Some b" "artifact_le (published_artifact request work unit slot) b"
    using later_find_replay [OF record_le_trans [OF d0(2) later] accepted_replays [OF accepted(4) d0(1)]] by blast
  have le: "record_le d ?e" using later_inserts(8) [OF d0(1)] d0(2) later by (meson record_le_trans)
  obtain work' unit' where o: "owned_order ?e (pr_work_order_id request) = Some (work', unit')" "order_le work work'" "unit_le unit unit'"
    using later_owned_order [OF le accepted(1)] by blast
  have unit: "u_id unit' = u_id unit" "u_run_id unit' = u_run_id unit" using o(3) by (auto simp: unit_le_def unit_ref_def)
  obtain slot' where s: "find_slot ?e (request_slot request unit') = Some slot'"
    using later_find_slot [OF le accepted(3)] unit by (auto simp: request_slot_def)
  have "a = pr_artifact_id request" "rid = u_run_id unit"
    using accept_results [OF accepted(6)] assms(3) by (auto split: if_splits)
  then show ?thesis
    using o b s accepted(2) unit
    by (auto simp: publish_tx publish_artifact_tx_def order_le_def artifact_le_def published_artifact_def Let_def)
qed

theorem publication_idempotent_witness:
  "publish_artifact demo_publish ''w2'' (perform_all demo_config [DecideRun ''r'' ''t4'', CloseWait demo_approve] demo_published) =
    (Inr (PublishAlreadyApplied ''a'' ''r'' (currentVersion (perform_all demo_config [DecideRun ''r'' ''t4'', CloseWait demo_approve] demo_published) ''r'')),
     perform_all demo_config [DecideRun ''r'' ''t4'', CloseWait demo_approve] demo_published)"
  by (rule publication_idempotent [OF demo_started_ok demo_publishes]) simp

text \<open>
  C5. Only an authorised publication changes the record. An artifact is stored only for a request
  that carries the capability of a work order that is not abandoned, into an output slot declared
  for that order's unit which is empty, or invalidated and not last written by the same order,
  which must then be active; the slot then names the artifact, released at once exactly when its
  policy is immediate and pending on the new wait otherwise. Every other answer leaves the record
  as it was.
\<close>
theorem publication_authorised:
  assumes "publish_artifact request waitId d = (Inr r, d')"
  shows "if publication_stored r
    then \<exists>work unit slot slot'. owned_order d (pr_work_order_id request) = Some (work, unit) \<and>
      or_capability_hash work = pr_capability_hash request \<and> wo_state (or_order work) \<noteq> WAbandoned \<and>
      find_slot d (request_slot request unit) = Some slot \<and>
      (slot_state slot = SlotEmpty \<or>
       (\<exists>old reason at. slot_state slot = SlotInvalidated old reason at) \<and> order_active work \<and>
         slot_updated_by slot \<noteq> Some (pr_work_order_id request)) \<and>
      find_slot d' (request_slot request unit) = Some slot' \<and> slot_updated_by slot' = Some (pr_work_order_id request) \<and>
      slot_state slot' = (if slot_release slot = Immediate then SlotReleased (pr_artifact_id request) (pr_published_at request)
        else SlotPending (pr_artifact_id request) waitId (pr_published_at request)) \<and>
      currentVersion d' (u_run_id unit) = currentVersion d (u_run_id unit) + 1
    else d' = d"
proof (cases "publication_stored r")
  case True
  then obtain work unit slot where accepted: "owned_order d (pr_work_order_id request) = Some (work, unit)"
      "or_capability_hash work = pr_capability_hash request" "find_slot d (request_slot request unit) = Some slot"
      "publication_refusal request work slot = None" "accept_publication request work unit slot waitId d = Inr (r, d')"
    using publish_cases [OF assms [unfolded publish_tx]] by blast
  have state: "wo_state (or_order work) \<noteq> WAbandoned"
      "slot_state slot = SlotEmpty \<or> (\<exists>old reason at. slot_state slot = SlotInvalidated old reason at) \<and> order_active work \<and>
         slot_updated_by slot \<noteq> Some (pr_work_order_id request)"
    using accepted(4) by (auto simp: publication_refusal_def Let_def order_active_def split: if_splits slot_state.splits)
  show ?thesis
    using True accepted state accept_slot [OF accepted(5) accepted(3)] accept_version [OF accepted(5)] by auto
next
  case False
  then show ?thesis using publish_cases [OF assms [unfolded publish_tx]] by (auto dest: accept_stored)
qed

theorem publication_authorised_witness:
  "\<exists>work unit slot'. owned_order demo_started uuid0 = Some (work, unit) \<and> or_capability_hash work = sha0 \<and>
    find_slot demo_published (request_slot demo_publish unit) = Some slot' \<and> slot_state slot' = SlotPending ''a'' ''w'' ''t3''"
  using publication_authorised [OF demo_publishes]
  by (auto simp: demo_publish_def demo_started_def demo_slot_def find_slot_def split: if_splits)

section \<open>Decisions\<close>

lemma close_tx:
  "close_output_wait request d = (Inr r, d') \<longleftrightarrow> closeOutputWaitTransaction request d = Inr (r, d')"
  by (auto simp: close_output_wait_def transaction_def split: sum.splits prod.splits)

fun wait_decided_now :: "close_result \<Rightarrow> string option" where
  "wait_decided_now (CloseReleased _ rid _) = Some rid"
| "wait_decided_now (CloseInvalidated rid _) = Some rid"
| "wait_decided_now _ = None"

lemma closed_case:
  assumes "closeOutputWaitTransaction request d = Inr (r, d')"
  shows "(\<exists>w u name slot artifact. owned_wait d (cl_wait_id request) = Some (w, u) \<and> wait_output_name w = Some name \<and> name \<noteq> [] \<and>
      wait_is_open w \<and> apply_close request (u_run_id u) (u_id u, name, wait_collection_key w) slot artifact
        (requestedOutcome request (closes_on_kind (wait_closes_on w))) d = Inr (r, d')) \<or>
    d' = d \<and> wait_decided_now r = None"
  using assms unfolding closeOutputWaitTransaction_def Let_def
  by (auto simp: wait_is_open_def split: option.splits list.splits wait_status.splits if_splits slot_state.splits)

lemma record_transition_waits: "record_transition p d = Inr (v, d') \<Longrightarrow> db_waits d' = db_waits d"
  by (auto simp: record_transition_def Let_def insertTransition_Inr bump_version_def update_runs_def)

lemma apply_close_waits:
  assumes "apply_close request rid k slot artifact outcome d = Inr (r, d')"
  shows "db_waits d' = update_where (\<lambda>w. wait_id w = cl_wait_id request) (close_wait outcome (cl_decided_at request)) (db_waits d)"
    "wait_decided_now r = Some rid"
proof -
  have "db_waits (release_slot request k artifact e) = db_waits e" "db_waits (invalidate_rows request k slot e) = db_waits e" for e
    by (auto simp: release_slot_def invalidate_rows_def abandon_producer_def Let_def row_update_defs split: option.split)
  then show "db_waits d' = update_where (\<lambda>w. wait_id w = cl_wait_id request) (close_wait outcome (cl_decided_at request)) (db_waits d)"
    using assms by (auto simp: apply_close_def Let_def update_waits_def split: if_splits dest!: record_transition_waits)
  show "wait_decided_now r = Some rid" using assms by (auto simp: apply_close_def Let_def)
qed

lemma find_update_waits:
  assumes "List.find (\<lambda>w. wait_id w = i) xs = Some w"
  shows "List.find (\<lambda>w. wait_id w = i) (update_where (\<lambda>w. wait_id w = i) (close_wait outcome at) xs) = Some (close_wait outcome at w)"
  using assms by (induction xs) (auto simp: update_where_def close_wait_def split: if_splits)

text \<open>
  C6. A wait is decided once. After \<open>close_output_wait\<close> has closed a wait, no sequence of other
  operations reopens it or changes its outcome: a request for the same outcome answers
  \<open>already_applied\<close>, any other request \<open>wait_conflict\<close>, and neither writes anything. A gate's outcomes
  are compared by the action taken, so a rejection is never absorbed into an approval.
\<close>
theorem wait_closed_once:
  assumes "store_ok d" and "find_wait d (cl_wait_id request) = Some w"
    and "close_output_wait request d = (Inr r, d1)" and "wait_decided_now r = Some rid"
    and "cl_wait_id request' = cl_wait_id request"
  shows "close_output_wait request' (perform_all cf ops d1) =
    (Inr (if sameOutcome (requestedOutcome request (closes_on_kind (wait_closes_on w))) (requestedOutcome request' (closes_on_kind (wait_closes_on w)))
          then CloseAlreadyApplied rid (currentVersion (perform_all cf ops d1) rid)
          else WaitConflict (''wait '' @ sq (cl_wait_id request) @ '' is already closed under a different disposition'')),
     perform_all cf ops d1)"
proof -
  let ?e = "perform_all cf ops d1" and ?outcome = "requestedOutcome request (closes_on_kind (wait_closes_on w))"
  have tx: "closeOutputWaitTransaction request d = Inr (r, d1)" using assms(3) by (simp add: close_tx)
  obtain w' u name slot artifact where ow: "owned_wait d (cl_wait_id request) = Some (w', u)" "wait_output_name w' = Some name" "name \<noteq> []"
    and ap: "apply_close request (u_run_id u) (u_id u, name, wait_collection_key w') slot artifact
        (requestedOutcome request (closes_on_kind (wait_closes_on w'))) d = Inr (r, d1)"
    using closed_case [OF tx] assms(4) by auto
  have w: "w' = w" "wait_run_unit_id w = Some (u_id u)" "find_unit_row d (u_id u) = Some u"
    using ow(1) assms(2) by (auto simp: owned_wait_def split: option.splits dest: find_unit_row_id)
  have rid: "rid = u_run_id u" using apply_close_waits(2) [OF ap] assms(4) by simp
  have "find_wait d1 (cl_wait_id request) = Some (close_wait ?outcome (cl_decided_at request) w)"
    using assms(2) apply_close_waits(1) [OF ap] w(1) by (simp add: find_wait_def find_update_waits)
  moreover have later: "record_le d1 ?e" "record_le d ?e"
    using perform_all_later [of d1] closing.keeps [OF assms(1), of request] closing.later [OF assms(1), of request] assms(3)
    by (auto intro: record_le_trans)
  ultimately have "find_wait ?e (cl_wait_id request) = Some (close_wait ?outcome (cl_decided_at request) w)"
    using later_find_wait [OF later(1)] by (fastforce simp: wait_le_def)
  moreover obtain u' where "find_unit_row ?e (u_id u) = Some u'" "unit_le u u'"
    using later_find_unit [OF later(2) w(3)] by blast
  ultimately show ?thesis
    using w ow rid assms(5)
    by (cases name)
      (auto simp: close_tx closeOutputWaitTransaction_def owned_wait_def close_wait_def Let_def unit_le_def unit_ref_def)
qed

theorem wait_closed_once_witness:
  "close_output_wait (demo_approve\<lparr>cl_disposition := DispFail, cl_action := Some ''fail''\<rparr>) (perform_all demo_config [DecideRun ''r'' ''t5''] demo_approved) =
    (Inr (WaitConflict (''wait '' @ sq ''w'' @ '' is already closed under a different disposition'')), perform_all demo_config [DecideRun ''r'' ''t5''] demo_approved)"
proof -
  have "map_option (\<lambda>w. closes_on_kind (wait_closes_on w)) (find_wait demo_published (cl_wait_id demo_approve)) = Some WaitGate" by code_simp
  then obtain w where w: "find_wait demo_published (cl_wait_id demo_approve) = Some w" "closes_on_kind (wait_closes_on w) = WaitGate" by blast
  show ?thesis
    using wait_closed_once [OF demo_published_ok w(1) demo_approves, of "''r''" "demo_approve\<lparr>cl_disposition := DispFail, cl_action := Some ''fail''\<rparr>"
      demo_config "[DecideRun ''r'' ''t5'']"] w(2)
    by (simp add: demo_approve_def requestedOutcome_def or_else_def)
qed

section \<open>The end of a run\<close>

text \<open>
  C7. The end of a run is final. Once a run has succeeded, failed or been cancelled, then after any
  sequence of operations it still has that state, outcome and end time; an ask answers
  \<open>complete\<close> with that outcome and a cancellation answers \<open>already_terminal\<close>, and neither writes
  anything.
\<close>
theorem terminal_run_final:
  assumes "store_ok d" and "find_run d rid = Some run" and "run_state run \<noteq> RunActive"
    and "List.find (\<lambda>row. df_id row = run_definition_id run) (db_definitions d) \<noteq> None" and "cn_run_id inp = rid"
  shows "\<exists>run' outcome. find_run (perform_all cf ops d) rid = Some run' \<and> run_outcome run = Some outcome \<and>
    run_state run' = run_state run \<and> run_outcome run' = Some outcome \<and> run_ended_at run' = run_ended_at run \<and>
    decide_run env registry loader rid at (perform_all cf ops d) = (Inr (Asked (AskComplete outcome)), perform_all cf ops d) \<and>
    cancel_run inp (perform_all cf ops d) = (Inr (RunAlreadyTerminal rid (run_state run)), perform_all cf ops d)"
proof -
  let ?e = "perform_all cf ops d"
  have later: "record_le d ?e" using assms(1) by (rule perform_all_later)
  obtain run' where run': "find_run ?e rid = Some run'" "run_le run run'" using later_find_run [OF later assms(2)] by blast
  have "run_shape run"
    using assms(1) find_run_id [OF assms(2)] by (auto simp: store_ok_def shape_ok_def list_all_iff)
  then obtain outcome where outcome: "run_outcome run = Some outcome"
    using assms(3) by (auto simp: run_shape_def)
  have same: "run_state run' = run_state run" "run_outcome run' = Some outcome" "run_ended_at run' = run_ended_at run"
      "run_definition_id run' = run_definition_id run"
    using run'(2) assms(3) outcome by (auto simp: run_le_def)
  obtain row where row: "List.find (\<lambda>row. df_id row = run_definition_id run) (db_definitions ?e) = Some row"
    using assms(4) record_le_grows(8) [OF later] by auto
  show ?thesis
    using run'(1) outcome same row assms(3,5)
    by (auto simp: decide_run_def cancel_run_def transaction_def Let_def or_else_def)
qed

theorem terminal_run_final_witness:
  "\<exists>run. find_run demo_finished ''r'' = Some run \<and> run_state run = RunSucceeded \<and>
    decide_run sample_env [] None ''r'' ''t9'' (perform_all demo_config [CloseWait demo_approve, PublishArtifact demo_publish ''w3''] demo_finished) =
      (Inr (Asked (AskComplete Succeeded)), perform_all demo_config [CloseWait demo_approve, PublishArtifact demo_publish ''w3''] demo_finished)"
proof -
  obtain run where run: "find_run demo_finished ''r'' = Some run" "run_state run = RunSucceeded" "run_outcome run = Some Succeeded" "run_definition_id run = ''d''"
    using demo_finishes by (auto simp: map_option_case split: option.splits)
  have "List.find (\<lambda>row. df_id row = run_definition_id run) (db_definitions demo_finished) \<noteq> None"
    using demo_finishes run(4) by (auto simp: find_None_iff)
  from terminal_run_final [OF demo_finished_ok run(1) _ this, where inp = "\<lparr>cn_run_id = ''r'', cn_actor = [], cn_reason = None, cn_cancelled_at = []\<rparr>"]
  show ?thesis using run by fastforce
qed

end
