(* ===== verification/RunCancel.thy ===== *)
theory RunCancel
  imports RunProps
begin

text \<open>
  Cancellation of a run: what \<open>cancel_run\<close> of \<open>storage/postgres-run-record.ts\<close> ends, what it
  leaves alone, and which work it hands to the executors to fence.
\<close>

section \<open>Cancellation\<close>

text \<open>Nothing of a run is left to do or to decide.\<close>

definition run_quiet :: "db \<Rightarrow> string \<Rightarrow> bool" where
  "run_quiet d rid \<longleftrightarrow>
     (\<forall>u\<in>set (db_units d). u_run_id u = rid \<longrightarrow> terminal_unit (u_state u)) \<and>
     (\<forall>w\<in>set (db_orders d). unit_in_run d rid (wo_run_unit_id (or_order w)) \<longrightarrow> \<not> order_active w) \<and>
     (\<forall>x\<in>set (db_waits d). \<forall>uid. wait_run_unit_id x = Some uid \<and> unit_in_run d rid uid \<longrightarrow> \<not> wait_is_open x) \<and>
     (\<forall>s\<in>set (db_slots d). unit_in_run d rid (slot_run_unit_id s) \<longrightarrow> \<not> is_pending (slot_state s)) \<and>
     (\<forall>s\<in>set (db_stages d). sr_run_id s = rid \<and> sr_attempt_root s = None \<longrightarrow> sr_state s \<noteq> RunActive)"

text \<open>What other runs own.\<close>

definition other_rows :: "db \<Rightarrow> string \<Rightarrow> unit_row list \<times> order_row list \<times> wait list \<times> run_output_slot list \<times> stage_row list \<times> workflow_run list" where
  "other_rows d rid =
     (filter (\<lambda>u. u_run_id u \<noteq> rid) (db_units d),
      filter (\<lambda>w. \<not> unit_in_run d rid (wo_run_unit_id (or_order w))) (db_orders d),
      filter (\<lambda>x. \<not> (\<exists>uid. wait_run_unit_id x = Some uid \<and> unit_in_run d rid uid)) (db_waits d),
      filter (\<lambda>s. \<not> unit_in_run d rid (slot_run_unit_id s)) (db_slots d),
      filter (\<lambda>s. sr_run_id s \<noteq> rid) (db_stages d), filter (\<lambda>r. run_id r \<noteq> rid) (db_runs d))"

lemma filter_update_where:
  "(\<And>x. p x \<Longrightarrow> \<not> q x \<and> \<not> q (f x)) \<Longrightarrow> filter q (update_where p f xs) = filter q xs"
  by (induction xs) (auto simp: update_where_def)

lemma cancel_rows_tables:
  "db_units (cancel_rows rid outcome at d) = update_where (\<lambda>u. u_run_id u = rid \<and> \<not> terminal_unit (u_state u))
     (\<lambda>u. u\<lparr>u_state := UCancelled, u_outcome := Some outcome, u_ended_at := Some at\<rparr>) (db_units d)"
  "db_orders (cancel_rows rid outcome at d) = update_where (\<lambda>w. unit_in_run d rid (wo_run_unit_id (or_order w)) \<and> active_order (wo_state (or_order w)))
     (\<lambda>w. w\<lparr>or_order := (or_order w)\<lparr>wo_state := WAbandoned, wo_completed_at := Some at\<rparr>\<rparr>) (db_orders d)"
  "db_waits (cancel_rows rid outcome at d) = update_where (\<lambda>w. (case wait_run_unit_id w of None \<Rightarrow> False | Some uid \<Rightarrow> unit_in_run d rid uid) \<and> wait_is_open w)
     (close_wait WaitWithdrawn at) (db_waits d)"
  "db_slots (cancel_rows rid outcome at d) = update_where (\<lambda>s. unit_in_run d rid (slot_run_unit_id s) \<and> is_pending (slot_state s))
     (invalidate_slot (OperatorInvalidated ''run cancelled'') at) (db_slots d)"
  "db_stages (cancel_rows rid outcome at d) = update_where (\<lambda>s. sr_run_id s = rid \<and> sr_attempt_root s = None \<and> sr_state s = RunActive)
     (end_stage RunCancelled outcome at) (db_stages d)"
  by (simp_all add: cancel_rows_def cancel_units_def cancel_stages_def cancel_orders_def cancel_slots_def cancel_waits_def
      bump_version_def row_update_defs unit_in_run_def)

lemma unit_in_run_map: "unit_in_run d rid uid \<longleftrightarrow> (uid, rid) \<in> set (map (\<lambda>u. (u_id u, u_run_id u)) (db_units d))"
  by (auto simp: unit_in_run_def)

lemma unit_in_run_cancel: "unit_in_run (cancel_rows rid outcome at d) rid' uid = unit_in_run d rid' uid"
  unfolding unit_in_run_map cancel_rows_tables by (subst map_update_where) auto

lemma cancel_rows_runs:
  "db_runs (cancel_rows rid outcome at d) = map (\<lambda>r. if run_id r = rid then (end_run rid RunCancelled outcome at r)
     \<lparr>run_record_version := run_record_version r + 1\<rparr> else r) (db_runs d)"
proof -
  have "db_runs (cancel_rows rid outcome at d) = update_where (\<lambda>r. run_id r = rid) (\<lambda>r. r\<lparr>run_record_version := run_record_version r + 1\<rparr>)
      (update_where (\<lambda>r. run_id r = rid) (end_run rid RunCancelled outcome at) (db_runs d))"
    by (simp add: cancel_rows_def cancel_units_def cancel_stages_def cancel_orders_def cancel_slots_def cancel_waits_def
        bump_version_def row_update_defs)
  also have "\<dots> = map (\<lambda>r. if run_id r = rid then (end_run rid RunCancelled outcome at r)
     \<lparr>run_record_version := run_record_version r + 1\<rparr> else r) (db_runs d)"
    by (induction "db_runs d") (simp_all add: update_where_def end_run_def)
  finally show ?thesis .
qed

lemma update_where_all:
  "(\<And>x. x \<in> set xs \<Longrightarrow> p x \<Longrightarrow> q (f x)) \<Longrightarrow> (\<And>x. x \<in> set xs \<Longrightarrow> \<not> p x \<Longrightarrow> q x) \<Longrightarrow> \<forall>y\<in>set (update_where p f xs). q y"
  by (auto simp: update_where_def)

lemma cancel_rows_quiet: "run_quiet (cancel_rows rid outcome at d) rid"
  unfolding run_quiet_def unit_in_run_cancel cancel_rows_tables
proof (intro conjI update_where_all, goal_cases)
qed (auto simp: terminal_unit_def active_order_def order_active_def close_wait_def wait_is_open_def
      invalidate_slot_def end_stage_def split: option.splits)

lemma cancel_rows_others: "other_rows (cancel_rows rid outcome at d) rid = other_rows d rid"
proof -
  have "filter (\<lambda>r. run_id r \<noteq> rid) (map (\<lambda>r. if run_id r = rid then (end_run rid RunCancelled outcome at r)
     \<lparr>run_record_version := run_record_version r + 1\<rparr> else r) xs) = filter (\<lambda>r. run_id r \<noteq> rid) xs" for xs
    by (induction xs) (auto simp: end_run_def)
  then have runs: "filter (\<lambda>r. run_id r \<noteq> rid) (db_runs (cancel_rows rid outcome at d)) = filter (\<lambda>r. run_id r \<noteq> rid) (db_runs d)"
    unfolding cancel_rows_runs .
  show ?thesis
    unfolding other_rows_def unit_in_run_cancel runs cancel_rows_tables
    by (auto simp: close_wait_def invalidate_slot_def end_stage_def intro!: filter_update_where split: option.splits)
qed

text \<open>
  C8. Cancelling a run stops all of it and nothing else. Afterwards the run is cancelled with the
  reason given, one version later, and nothing of it is left open: no unit is unfinished, no work
  order available or started, no wait open, no output pending, no stage active; every row of every
  other run is as it was; and the caller is handed exactly the work orders that were active with
  an external session attached, to fence them.
\<close>
theorem cancel_stops_run:
  assumes "store_ok d" and "cancel_run inp d = (Inr (RunCancelledResult rid v works), d')"
  shows "rid = cn_run_id inp \<and> run_quiet d' rid \<and> other_rows d' rid = other_rows d rid \<and> v = currentVersion d rid + 1 \<and>
    (\<exists>run. find_run d' rid = Some run \<and> run_state run = RunCancelled \<and> run_outcome run = Some (Cancelled (cn_reason inp)) \<and>
       run_record_version run = v) \<and>
    (\<forall>f. f \<in> set works \<longleftrightarrow> (\<exists>w a ref. w \<in> set (db_orders d) \<and> order_active w \<and> unit_in_run d rid (wo_run_unit_id (or_order w)) \<and>
       find_attachment d (wo_id (or_order w)) = Some a \<and> at_external_reference a = Some ref \<and>
       f = \<lparr>fo_work_order_id = wo_id (or_order w), fo_executor_type = at_executor_type a, fo_external_reference = ref\<rparr>))"
proof -
  let ?c = "cancel_rows (cn_run_id inp) (Cancelled (cn_reason inp)) (cn_cancelled_at inp) d"
  obtain run p where run: "find_run d (cn_run_id inp) = Some run" and rid: "rid = cn_run_id inp"
    and v: "v = currentVersion ?c rid" and works: "works = work_orders_to_fence d rid"
    and d': "insertTransition p (run_record_version run) v ?c = Inr d'"
    using assms(2) by (auto simp: cancel_run_def transaction_def Let_def split: option.splits if_splits sum.splits)
  have frame: "run_quiet d' rid = run_quiet ?c rid" "other_rows d' rid = other_rows ?c rid" "find_run d' rid = find_run ?c rid"
    using d' by (auto simp: insertTransition_Inr run_quiet_def other_rows_def unit_in_run_def find_run_def)
  have found: "find_run ?c rid = Some ((end_run rid RunCancelled (Cancelled (cn_reason inp)) (cn_cancelled_at inp) run)
      \<lparr>run_record_version := run_record_version run + 1\<rparr>)"
  proof -
    have "List.find (\<lambda>r. run_id r = i) (map (\<lambda>r. if run_id r = i then (end_run i RunCancelled outcome at r)
        \<lparr>run_record_version := run_record_version r + 1\<rparr> else r) xs) =
        Some ((end_run i RunCancelled outcome at run)\<lparr>run_record_version := run_record_version run + 1\<rparr>)"
      if "List.find (\<lambda>r. run_id r = i) xs = Some run" for xs outcome at i
      using that by (induction xs) (auto simp: end_run_def split: if_splits)
    from this [OF run [unfolded find_run_def]] show ?thesis unfolding rid find_run_def cancel_rows_runs .
  qed
  have "f \<in> set works \<longleftrightarrow> (\<exists>w a ref. w \<in> set (db_orders d) \<and> order_active w \<and> unit_in_run d rid (wo_run_unit_id (or_order w)) \<and>
       find_attachment d (wo_id (or_order w)) = Some a \<and> at_external_reference a = Some ref \<and>
       f = \<lparr>fo_work_order_id = wo_id (or_order w), fo_executor_type = at_executor_type a, fo_external_reference = ref\<rparr>)" for f
    unfolding works work_orders_to_fence_def fence_row_def order_active_def
    by (auto split: option.splits) metis
  then show ?thesis
    using rid frame found cancel_rows_quiet cancel_rows_others v run by (simp add: currentVersion_def end_run_def)
qed

definition demo_cancel :: cancel_request where
  "demo_cancel = \<lparr>cn_run_id = ''r'', cn_actor = ''human'', cn_reason = Some ''wrong epic'', cn_cancelled_at = ''t9''\<rparr>"

theorem cancel_stops_run_witness:
  "\<exists>d'. cancel_run demo_cancel demo_attached = (Inr (RunCancelledResult ''r'' 3 [\<lparr>fo_work_order_id = uuid0,
      fo_executor_type = ''delegated_session'', fo_external_reference = HeadlessRun ''s1''\<rparr>]), d') \<and>
    run_quiet d' ''r'' \<and> other_rows d' ''r'' = other_rows demo_attached ''r''"
proof -
  have "fst (cancel_run demo_cancel demo_attached) = Inr (RunCancelledResult ''r'' 3 [\<lparr>fo_work_order_id = uuid0,
      fo_executor_type = ''delegated_session'', fo_external_reference = HeadlessRun ''s1''\<rparr>])"
    by code_simp
  then obtain d' where d': "cancel_run demo_cancel demo_attached = (Inr (RunCancelledResult ''r'' 3 [\<lparr>fo_work_order_id = uuid0,
      fo_executor_type = ''delegated_session'', fo_external_reference = HeadlessRun ''s1''\<rparr>]), d')"
    by (metis prod.collapse)
  from cancel_stops_run [OF demo_attached_ok this] d' show ?thesis by blast
qed

end
