(* ===== verification/AskProps.thy ===== *)
theory AskProps
  imports RunCancel
begin

text \<open>
  What one ask does to the record beside its facts: the version moves by at most one step, of the
  run asked about only, and the work orders it starts are exactly named in its answer.
\<close>

section \<open>Versions and started work\<close>

definition versions :: "db \<Rightarrow> (string \<times> nat) list" where
  "versions d = map (\<lambda>r. (run_id r, run_record_version r)) (db_runs d)"

definition started_orders :: "db \<Rightarrow> string set" where
  "started_orders d = {wo_id (or_order w) | w. w \<in> set (db_orders d) \<and> wo_state (or_order w) = WStarted}"

lemma currentVersion_versions: "currentVersion d i = (case map_of (versions d) i of None \<Rightarrow> 0 | Some v \<Rightarrow> v)"
proof -
  have "map_option run_record_version (List.find (\<lambda>r. run_id r = i) rs) = map_of (map (\<lambda>r. (run_id r, run_record_version r)) rs) i" for rs
    by (induction rs) auto
  from this [of "db_runs d"] show ?thesis
    by (auto simp: currentVersion_def find_run_def versions_def split: option.splits)
qed

text \<open>Every work order carries the request its executor is started with, and is addressed by its own id.\<close>

definition addressed :: "materialized_work_order \<Rightarrow> bool" where
  "addressed w \<longleftrightarrow> mw_workflow_id w = workOrderWorkflowId (mw_id w)"

definition requested :: "db \<Rightarrow> bool" where
  "requested d \<longleftrightarrow> (\<forall>w\<in>set (db_orders d). or_request w \<noteq> None \<and> wo_workflow_id (or_order w) = workOrderWorkflowId (wo_id (or_order w)))"

text \<open>A command that starts nothing and leaves the version to the commit of its batch.\<close>

definition uncommitted :: "db \<Rightarrow> db \<Rightarrow> bool" where
  "uncommitted d d' \<longleftrightarrow> versions d' = versions d \<and> started_orders d' \<subseteq> started_orders d \<and> (requested d \<longrightarrow> requested d')"

lemma uncommitted_refl [simp]: "uncommitted d d"
  by (simp add: uncommitted_def)

lemma uncommitted_trans: "uncommitted d e \<Longrightarrow> uncommitted e f \<Longrightarrow> uncommitted d f"
  by (auto simp: uncommitted_def)

lemma uncommitted_rows: "db_runs d' = db_runs d \<Longrightarrow> db_orders d' = db_orders d \<Longrightarrow> uncommitted d d'"
  by (simp add: uncommitted_def versions_def started_orders_def requested_def)

lemma uncommitted_updates [simp]:
  "uncommitted d (update_stages p f d)" "uncommitted d (update_units p2 f2 d)"
  "uncommitted d (update_slots p3 f3 d)" "uncommitted d (update_waits p4 f4 d)"
  by (rule uncommitted_rows; simp add: row_update_defs)+

lemma uncommitted_runs:
  "(\<And>r. p r \<Longrightarrow> run_id (f r) = run_id r \<and> run_record_version (f r) = run_record_version r) \<Longrightarrow> uncommitted d (update_runs p f d)"
  by (simp add: uncommitted_def versions_def started_orders_def requested_def row_update_defs map_update_where)

lemma uncommitted_orders:
  "(\<And>w. p w \<Longrightarrow> wo_state (or_order (f w)) \<noteq> WStarted \<and> or_request (f w) = or_request w \<and> wo_id (or_order (f w)) = wo_id (or_order w) \<and>
     wo_workflow_id (or_order (f w)) = wo_workflow_id (or_order w)) \<Longrightarrow> uncommitted d (update_orders p f d)"
  by (auto simp: uncommitted_def versions_def started_orders_def requested_def row_update_defs set_update_where map_update_where split: if_splits)

lemma uncommitted_inserts:
  "insert_stage s d = Inr d' \<Longrightarrow> uncommitted d d'"
  "insert_policy po d = Inr d' \<Longrightarrow> uncommitted d d'"
  "insert_slot sl d = Inr d' \<Longrightarrow> uncommitted d d'"
  "insert_dependency e d = Inr d' \<Longrightarrow> uncommitted d d'"
  "insert_unit u d = Inr d' \<Longrightarrow> uncommitted d d'"
  by (auto simp: insert_stage_def insert_policy_def insert_slot_def insert_dependency_def insert_unit_def
      split: if_splits intro!: uncommitted_rows)

lemma uncommitted_insert_order:
  "insert_order (new_order uid reason snapshot fingerprint key at w) d = Inr d' \<Longrightarrow> addressed w \<Longrightarrow> uncommitted d d'"
  by (auto simp: insert_order_def uncommitted_def versions_def started_orders_def requested_def new_order_def addressed_def split: if_splits)

lemma uncommitted_fold:
  assumes "fold_result f xs d = Inr d'" and "\<And>x s t. f x s = Inr t \<Longrightarrow> uncommitted s t"
  shows "uncommitted d d'"
  by (rule fold_result_invariant [OF assms(1), of "uncommitted d"]) (auto intro: uncommitted_trans assms(2))

section \<open>Commands\<close>

lemma uncommitted_persist_unit:
  assumes "persist_unit env inp u (c, d) = Inr (c', d')" and "addressed (mu_initial_work_order u)"
  shows "uncommitted d d'"
proof (cases "List.find (\<lambda>v. u_stage_id v = ps_stage_instance_id inp \<and> u_unit_id v = mu_unit_id u) (db_units d)")
  case None
  then obtain d1 d2 where "uncommitted d d1" "uncommitted d2 d'"
    and slots: "fold_result (\<lambda>out. insert_slot (new_slot (mu_id u) out)) (mu_outputs u) d1 = Inr d2"
    using assms by (auto simp: persist_unit_def dest!: uncommitted_inserts(5) uncommitted_insert_order [OF _ assms(2)])
  moreover have "uncommitted d1 d2" using slots by (rule uncommitted_fold) (rule uncommitted_inserts)
  ultimately show ?thesis by (blast intro: uncommitted_trans)
next
  case (Some v)
  then show ?thesis using assms by (auto simp: persist_unit_def split: if_splits)
qed

lemma uncommitted_persist_units:
  assumes "fold_result (persist_unit env inp) us (c, d) = Inr (c', d')" and "\<forall>u\<in>set us. addressed (mu_initial_work_order u)"
  shows "uncommitted d d'"
  using fold_result_invariant [OF assms(1), of "\<lambda>(_, e). uncommitted d e"] assms(2)
  by (auto intro: uncommitted_trans dest: uncommitted_persist_unit)

lemma uncommitted_persist_tx:
  assumes "persist_materialized_stage_tx env inp d = Inr (effect, d')" and "\<forall>u\<in>set (ps_units inp). addressed (mu_initial_work_order u)"
  shows "uncommitted d d'"
proof -
  obtain d1 b c d2 d3 where d1: "ensure_stage env inp d = Inr d1"
    and d2: "fold_result (persist_unit env inp) (ps_units inp) (b, d1) = Inr (c, d2)"
    and d3: "fold_result insert_dependency (unit_dependencies inp) d2 = Inr d3"
    and d4: "close_stage env inp d3 = Inr d' \<or> d' = d3"
    using assms(1) unfolding persist_materialized_stage_tx_def Let_def by (auto split: if_splits)
  have "uncommitted d d1"
    using d1 by (auto simp: ensure_stage_def Let_def split: option.splits if_splits prod.splits
        intro: uncommitted_inserts uncommitted_trans [OF uncommitted_inserts(1) uncommitted_inserts(2)])
  moreover have "uncommitted d2 d3" using d3 by (rule uncommitted_fold) (rule uncommitted_inserts)
  moreover have "uncommitted d3 d'" using d4 by (auto simp: close_stage_def)
  ultimately show ?thesis using uncommitted_persist_units [OF d2 assms(2)] by (meson uncommitted_trans)
qed

lemma uncommitted_revise_tx:
  assumes "revise_unit_input_tx inp d = Inr (r, d')" and "addressed (rv_replacement inp)"
  shows "uncommitted d d'"
proof -
  have rows: "uncommitted d (revise_rows inp d)"
    unfolding revise_rows_def Let_def abandon_active_def
    by (intro uncommitted_trans [OF _ uncommitted_updates(3)] uncommitted_trans [OF _ uncommitted_updates(4)]
        uncommitted_trans [OF uncommitted_updates(2) uncommitted_orders]) simp
  have "d' = d \<or> (\<exists>d1 sid. insert_order (new_order (rv_run_unit_id inp) ReasonInputRevision (rv_input_snapshot inp)
      (rv_input_fingerprint inp) (''input_revision:'' @ rv_input_fingerprint inp) (rv_revised_at inp) (rv_replacement inp))
      (revise_rows inp d) = Inr d1 \<and> d' = reopen_stage sid d1)"
    using assms(1) by (auto simp: revise_unit_input_tx_def Let_def split: option.splits if_splits)
  then show ?thesis
    by (auto simp: reopen_stage_def intro: uncommitted_trans [OF uncommitted_trans [OF rows uncommitted_insert_order [OF _ assms(2)]] uncommitted_updates(1)])
qed

lemma start_work_started:
  "versions (snd (start_work_tx order uid at d)) = versions d"
  "started_orders (snd (start_work_tx order uid at d)) \<subseteq> started_orders d \<union> (if fx_applied (fst (start_work_tx order uid at d)) then {order} else {})"
  "requested d \<Longrightarrow> requested (snd (start_work_tx order uid at d))"
proof -
  let ?d = "update_orders (\<lambda>w. wo_id (or_order w) = order \<and> wo_state (or_order w) = WAvailable)
      (\<lambda>w. w\<lparr>or_order := (or_order w)\<lparr>wo_state := WStarted\<rparr>\<rparr>) d"
  have "started_orders ?d \<subseteq> insert order (started_orders d)" "versions ?d = versions d" "requested d \<Longrightarrow> requested ?d"
    by (auto simp: started_orders_def versions_def requested_def row_update_defs set_update_where map_update_where split: if_splits)
  moreover have "uncommitted ?d (update_units p f ?d)" for p f by simp
  ultimately show "versions (snd (start_work_tx order uid at d)) = versions d"
    and "started_orders (snd (start_work_tx order uid at d)) \<subseteq> started_orders d \<union> (if fx_applied (fst (start_work_tx order uid at d)) then {order} else {})"
    and "requested d \<Longrightarrow> requested (snd (start_work_tx order uid at d))"
    unfolding start_work_tx_def uncommitted_def by (auto simp: NO_EFFECT_def split: option.splits)
qed

definition command_starts :: "command \<Rightarrow> tx_effect \<Rightarrow> string set" where
  "command_starts c effect = (case c of StartWork w u \<Rightarrow> if fx_applied effect then {w} else {} | _ \<Rightarrow> {})"

lemma resolved_addressed: "resolveWorkOrder env deps inp = Inr w \<Longrightarrow> addressed w"
  by (auto simp: resolveWorkOrder_def addressed_def Let_def)

lemma apply_command_started:
  assumes "apply_command env loader snapshot c at d = Inr (effect, d')"
  shows "versions d' = versions d \<and> started_orders d' \<subseteq> started_orders d \<union> command_starts c effect \<and> (requested d \<longrightarrow> requested d')"
proof (cases c)
  case (StartWork w uid)
  then show ?thesis using assms start_work_started [where order = w and uid = uid and at = at and d = d] by (simp add: apply_command_def command_starts_def split: if_splits)
next
  case (ReviseUnit m)
  then obtain inp r e where "revise_unit_input_tx inp d = Inr (r, e)" "addressed (rv_replacement inp)"
    and "(case r of ReviseTxNotFound detail \<Rightarrow> Err detail | ReviseTxUnchanged _ effect \<Rightarrow> Ok (effect, e)
        | ReviseTxRevised _ effect \<Rightarrow> Ok (effect, e)) = Inr (effect, d')"
    using assms by (auto simp: apply_command_def apply_revise_unit_def split: option.splits dest!: resolved_addressed)
  then have "uncommitted d d'" using uncommitted_revise_tx by (cases r) auto
  then show ?thesis by (auto simp: uncommitted_def)
next
  case (MarkUnitSatisfied uid)
  have "uncommitted d (snd (mark_unit_satisfied_tx uid at d))"
    by (auto simp: mark_unit_satisfied_tx_def split: option.split intro!: uncommitted_trans [OF uncommitted_updates(2) uncommitted_orders])
  then show ?thesis using assms MarkUnitSatisfied by (auto simp: apply_command_def uncommitted_def)
next
  case (CompleteRun outcome)
  have "uncommitted d (snd (complete_run_tx (run_id (snap_run snapshot)) outcome at d))"
    by (auto simp: complete_run_tx_def end_run_def intro!: uncommitted_trans [OF uncommitted_updates(1) uncommitted_runs])
  then show ?thesis using assms CompleteRun by (auto simp: apply_command_def uncommitted_def)
next
  case (MarkStageSucceeded sid)
  have "uncommitted d (snd (mark_stage_succeeded_tx sid at d))" by (simp add: mark_stage_succeeded_tx_def)
  then show ?thesis using assms MarkStageSucceeded by (auto simp: apply_command_def uncommitted_def)
next
  case (MaterializeStage key sid policy)
  then show ?thesis using assms by (auto simp: apply_command_def uncommitted_def stage_write_def dest!: uncommitted_persist_tx)
next
  case (MaterializeUnit m)
  then show ?thesis using assms
    by (auto simp: apply_command_def apply_materialize_unit_def uncommitted_def stage_write_def dest!: uncommitted_persist_tx resolved_addressed)
next
  case (CloseMaterialization key sid policy)
  then show ?thesis using assms by (auto simp: apply_command_def uncommitted_def stage_write_def dest!: uncommitted_persist_tx)
qed

section \<open>The ask\<close>

definition batch_starts :: "db \<Rightarrow> batch_state \<Rightarrow> bool" where
  "batch_starts d st \<longleftrightarrow>
     versions (bs_db st) = versions d \<and> started_orders (bs_db st) \<subseteq> started_orders d \<union> fst ` set (bs_started st) \<and>
     (requested d \<longrightarrow> requested (bs_db st)) \<and> (\<forall>i\<in>fst ` set (bs_started st). find_order (bs_db st) i \<noteq> None) \<and>
     (bs_started st \<noteq> [] \<longrightarrow> fx_applied (bs_effect st))"

lemma batch_fold_starts:
  assumes "fold_result (apply_step env loader snapshot at) commands
      \<lparr>bs_effect = NO_EFFECT, bs_started = [], bs_completed = None, bs_db = d\<rparr> = Inr st"
  shows "batch_starts d st"
proof (rule fold_result_invariant [OF assms, where P = "batch_starts d"])
  show "batch_starts d \<lparr>bs_effect = NO_EFFECT, bs_started = [], bs_completed = None, bs_db = d\<rparr>" by (simp add: batch_starts_def)
next
  fix c s t assume before: "batch_starts d s" and step: "apply_step env loader snapshot at c s = Inr t"
  then obtain applied e where cmd: "apply_command env loader snapshot c at (bs_db s) = Inr (applied, e)"
    and t: "bs_db t = e" "bs_effect t = mergeEffects [bs_effect s, applied]"
      "bs_started t = bs_started s @ (case c of StartWork w u \<Rightarrow> if fx_applied applied then [(w, u)] else [] | _ \<Rightarrow> [])"
    by (auto simp: apply_step_def)
  have "find_order (bs_db s) i \<noteq> None \<Longrightarrow> find_order e i \<noteq> None" for i
    using later_find_order [OF later_apply_command [OF cmd]] by fastforce
  moreover have "find_order e w \<noteq> None" if "c = StartWork w u" "fx_applied applied" for w u
  proof -
    have "find_order (bs_db s) w \<noteq> None"
      using cmd that by (auto simp: apply_command_def start_work_tx_def NO_EFFECT_def find_order_def find_None_iff split: option.splits if_splits)
    then show ?thesis using later_find_order [OF later_apply_command [OF cmd]] by fastforce
  qed
  ultimately show "batch_starts d t"
    using apply_command_started [OF cmd] before t
    by (auto simp: batch_starts_def mergeEffects_def command_starts_def split: command.splits if_splits)
qed

text \<open>A batch that ends the run starts no work, so the answer \<open>complete\<close> loses no start.\<close>

lemma batch_origin:
  assumes "fold_result (apply_step env loader snapshot at) commands s = Inr t"
  shows "(bs_completed t = bs_completed s \<or> (\<exists>out. CompleteRun out \<in> set commands)) \<and>
    (\<forall>(w, u)\<in>set (bs_started t). (w, u) \<in> set (bs_started s) \<or> StartWork w u \<in> set commands)"
  using assms
proof (induction commands arbitrary: s)
  case (Cons c commands)
  then obtain m where m: "apply_step env loader snapshot at c s = Inr m"
      "fold_result (apply_step env loader snapshot at) commands m = Inr t" by auto
  then show ?case
    using Cons.IH [OF m(2)] by (fastforce simp: apply_step_def split: command.splits if_splits)
qed auto

lemma complete_batch:
  assumes "derive env snap = Inr commands" and "CompleteRun out \<in> set commands"
  shows "StartWork w u \<notin> set commands"
proof (cases "undecided snap")
  case True
  from assms(1) True obtain mat revised where
      commands: "commands = mat @ concat (map (stage_facts revised) (sorted_stages snap)) @ (if run_complete snap then [CompleteRun Succeeded] else [])"
    and ok: "loop_ok env snap (mat, revised)" by (rule derive_parts)
  have "run_complete snap"
    using assms(2) loop_no_fact [OF ok, of "CompleteRun out"] stage_facts_complete by (auto simp: commands split: if_splits)
  then have "StartWork w u \<notin> set (stage_facts revised st)" if "st \<in> set (snap_stages snap)" for st
    using that by (auto simp: stage_facts_start run_complete_def list_all_iff)
  then show ?thesis using loop_no_fact [OF ok, of "StartWork w u"] by (auto simp: commands split: if_splits)
next
  case False
  then obtain outcome where "derive env snap = Inr [CompleteRun outcome]" by (rule derive_decided)
  then show ?thesis using assms(1) by simp
qed

lemma versions_bump: "versions (bump_version i d) = map (\<lambda>(j, v). (j, if j = i then v + 1 else v)) (versions d)"
  by (auto simp: versions_def bump_version_def row_update_defs update_where_def)

lemma commit_batch_versions:
  assumes "commit_batch i effect d = Inr (v, d')"
  shows "db_orders d' = db_orders d \<and> v = currentVersion d' i \<and>
    versions d' = (if fx_applied effect then map (\<lambda>(j, v). (j, if j = i then v + 1 else v)) (versions d) else versions d)"
proof (cases "fx_applied effect")
  case True
  define b where "b = bump_version i d"
  from assms True obtain e where e: "fold_result (\<lambda>p. insertTransition p (currentVersion b i - 1) (currentVersion b i)) (fx_pending effect) b = Inr e"
      "(currentVersion b i, e) = (v, d')"
    unfolding commit_batch_def Let_def b_def [symmetric] by auto
  have "db_orders e = db_orders f \<and> db_runs e = db_runs f" if "fold_result (\<lambda>p. insertTransition p a b) ps f = Inr e" for a b ps e f
    by (rule fold_result_invariant [OF that, where P = "\<lambda>e. db_orders e = db_orders f \<and> db_runs e = db_runs f"])
      (auto simp: insertTransition_def split: if_splits)
  from this [OF e(1)] have "db_orders d' = db_orders b" "versions d' = versions b" using e(2) by (simp_all add: versions_def)
  moreover have "db_orders b = db_orders d" by (simp add: b_def bump_version_def row_update_defs)
  ultimately show ?thesis using True e(2) by (simp add: b_def versions_bump currentVersion_versions)
next
  case False
  then show ?thesis using assms by (auto simp: commit_batch_def)
qed

lemma decide_active_starts:
  assumes "decide_active env registry loader run at d = Inr (r, d')"
  shows "(requested d \<longrightarrow> requested d') \<and> (versions d' = versions d \<or> versions d' = map (\<lambda>(j, v). (j, if j = run_id run then v + 1 else v)) (versions d)) \<and>
    (case r of
       AskWait v \<Rightarrow> versions d' = versions d \<and> v = currentVersion d' (run_id run) \<and> started_orders d' \<subseteq> started_orders d
     | AskRecheck v started \<Rightarrow> versions d' = map (\<lambda>(j, v). (j, if j = run_id run then v + 1 else v)) (versions d) \<and>
         v = currentVersion d' (run_id run) \<and> started_orders d' \<subseteq> started_orders d \<union> fst ` set started \<and>
         (\<forall>i\<in>fst ` set started. find_order d' i \<noteq> None)
     | AskComplete outcome \<Rightarrow> started_orders d' \<subseteq> started_orders d)"
proof -
  obtain workflow where wf: "load_compiled_definition_tx registry d (run_definition_id run) = Inr workflow"
    using assms by (auto simp: decide_active_def)
  let ?snapshot = "load_run_snapshot env run workflow d"
  show ?thesis
  proof (cases "derive env ?snapshot")
    case (Inl c)
    let ?rc = "record_contradiction_tx (run_id run) c at d"
    obtain v where commit: "commit_batch (run_id run) (snd (fst ?rc)) (snd ?rc) = Inr (v, d')" and r: "r = AskComplete (fst (fst ?rc))"
      using assms wf Inl by (auto simp: decide_active_def Let_def case_prod_beta)
    have "versions (snd ?rc) = versions d" "db_orders (snd ?rc) = db_orders d"
      by (simp_all add: record_contradiction_tx_def Let_def versions_def row_update_defs map_update_where end_run_def)
    then show ?thesis using commit_batch_versions [OF commit] r by (auto simp: requested_def started_orders_def split: if_splits)
  next
    case (Inr commands)
    then obtain st v where fold: "fold_result (apply_step env loader ?snapshot at) commands
          \<lparr>bs_effect = NO_EFFECT, bs_started = [], bs_completed = None, bs_db = d\<rparr> = Inr st"
      and commit: "commit_batch (run_id run) (bs_effect st) (bs_db st) = Inr (v, d')"
      and r: "r = (case bs_completed st of Some outcome \<Rightarrow> AskComplete outcome
                | None \<Rightarrow> if fx_applied (bs_effect st) then AskRecheck v (bs_started st) else AskWait v)"
      using assms wf by (auto simp: decide_active_def Let_def)
    have same: "started_orders d' = started_orders (bs_db st)" "requested d' = requested (bs_db st)" "find_order d' = find_order (bs_db st)"
      using commit_batch_versions [OF commit] by (simp_all add: started_orders_def requested_def find_order_def fun_eq_iff)
    have "bs_started st = []" if "bs_completed st \<noteq> None"
      using batch_origin [OF fold] complete_batch [OF Inr] that by (cases "bs_started st") auto
    then show ?thesis
      using batch_fold_starts [OF fold] commit_batch_versions [OF commit] unfolding r same
      by (auto simp: batch_starts_def split: option.splits if_splits)
  qed
qed

text \<open>The work an ask starts is work of the run asked about, and was available.\<close>

lemma derived_start:
  assumes "derive env snap = Inr commands" and "StartWork w i \<in> set commands"
  obtains st u order where "st \<in> set (snap_stages snap)" "u \<in> set (ss_units st)" "order \<in> set (us_work_orders u)"
    "wo_id order = w" "wo_state order = WAvailable"
proof -
  have "undecided snap"
    using assms by (cases "undecided snap") (auto elim!: derive_decided [of snap env])
  from fact_in_batch [OF assms(1) this, of "StartWork w i"] assms(2)
  obtain revised st where st: "st \<in> set (snap_stages snap)" "StartWork w i \<in> set (stage_facts revised st)"
    by auto
  then obtain u where u: "u \<in> set (ss_units st)" "wo_id (the (next_order u)) = w" "startable st u"
    by (auto simp: stage_facts_start dest!: in_set_takeD)
  then obtain order where "next_order u = Some order" by (auto simp: startable_def)
  then show thesis using that [OF st(1) u(1)] next_order_oldest u(2) by fastforce
qed

lemma snapshot_order:
  assumes "st \<in> set (snap_stages (load_run_snapshot env run workflow d))" "u \<in> set (ss_units st)" "order \<in> set (us_work_orders u)"
  shows "\<exists>w\<in>set (db_orders d). or_order w = order \<and> unit_in_run d (run_id run) (wo_run_unit_id order)"
proof -
  obtain row where row: "row \<in> set (db_units d)" "u_run_id row = run_id run" "u = unit_snapshot_of env d row"
    using assms(1,2) by (auto simp: load_run_snapshot_def stage_snapshot_of_def)
  then obtain w where "w \<in> set (db_orders d)" "or_order w = order" "wo_run_unit_id order = u_id row"
    using assms(3) by (auto simp: unit_snapshot_of_def)
  then show ?thesis using row unfolding unit_in_run_def by metis
qed

lemma decide_active_own:
  assumes "decide_active env registry loader run at d = Inr (AskRecheck v started, d')" and "i \<in> fst ` set started"
  shows "\<exists>w\<in>set (db_orders d). wo_id (or_order w) = i \<and> wo_state (or_order w) = WAvailable \<and> unit_in_run d (run_id run) (wo_run_unit_id (or_order w))"
proof -
  obtain workflow where wf: "load_compiled_definition_tx registry d (run_definition_id run) = Inr workflow"
    using assms by (auto simp: decide_active_def)
  let ?snapshot = "load_run_snapshot env run workflow d"
  obtain commands where derived: "derive env ?snapshot = Inr commands"
    using assms(1) wf by (cases "derive env ?snapshot") (auto simp: decide_active_def Let_def case_prod_beta)
  then obtain st where fold: "fold_result (apply_step env loader ?snapshot at) commands
        \<lparr>bs_effect = NO_EFFECT, bs_started = [], bs_completed = None, bs_db = d\<rparr> = Inr st" and "started = bs_started st"
    using assms(1) wf by (auto simp: decide_active_def Let_def split: option.splits if_splits)
  then obtain uid where "StartWork i uid \<in> set commands" using batch_origin [OF fold] assms(2) by fastforce
  from derived_start [OF derived this] show ?thesis using snapshot_order by metis
qed

text \<open>
  C21. One ask is one step of the record. It moves the version of the run by at most one, and no
  other run's; an ask that changed nothing answers \<open>wait\<close> with the version it found and has
  started no work; an ask that answers \<open>recheck\<close> has moved the version by exactly one, and every work
  order it started is named in the answer, so the root that reads the answer starts a workflow
  for each of them; an ask that answers \<open>complete\<close> has started no work; and one that throws or finds no run has
  changed nothing at all.
\<close>
theorem ask_is_one_step:
  assumes "decide_run env registry loader rid at d = (r, d')"
  shows "currentVersion d rid \<le> currentVersion d' rid \<and> currentVersion d' rid \<le> currentVersion d rid + 1 \<and>
    (\<forall>i. i \<noteq> rid \<longrightarrow> currentVersion d' i = currentVersion d i) \<and>
    (case r of
       Inr (Asked (AskWait v)) \<Rightarrow> v = currentVersion d rid \<and> currentVersion d' rid = v \<and> started_orders d' \<subseteq> started_orders d
     | Inr (Asked (AskRecheck v started)) \<Rightarrow> v = currentVersion d rid + 1 \<and> currentVersion d' rid = v \<and>
         started_orders d' \<subseteq> started_orders d \<union> fst ` set started
     | Inr (Asked (AskComplete outcome)) \<Rightarrow> started_orders d' \<subseteq> started_orders d
     | _ \<Rightarrow> d' = d)"
proof (cases "\<exists>run a. find_run d rid = Some run \<and> decide_active env registry loader
    (run\<lparr>run_definition_version := df_version (the (List.find (\<lambda>r. df_id r = run_definition_id run) (db_definitions d)))\<rparr>) at d = Inr (a, d') \<and> r = Inr (Asked a)")
  case True
  then obtain run a where run: "find_run d rid = Some run"
    and active: "decide_active env registry loader
      (run\<lparr>run_definition_version := df_version (the (List.find (\<lambda>r. df_id r = run_definition_id run) (db_definitions d)))\<rparr>) at d = Inr (a, d')"
    and r: "r = Inr (Asked a)" by blast
  have bumped: "map_of (map (\<lambda>(j, v). (j, if j = k then v + 1 else v)) vs) i = map_option (\<lambda>v. if i = k then v + 1 else v) (map_of vs i)"
    for vs :: "(string \<times> nat) list" and i k by (induction vs) auto
  have known: "map_of (versions d) rid \<noteq> None"
    using find_run_id [OF run] by (auto simp: versions_def map_of_eq_None_iff image_iff)
  show ?thesis
    using decide_active_starts [OF active] find_run_id [OF run] known unfolding r currentVersion_versions
    by (auto simp: bumped split: option.splits ask_result.splits)
next
  case False
  then have "d' = d \<and> (\<forall>v s. r \<noteq> Inr (Asked (AskWait v)) \<and> r \<noteq> Inr (Asked (AskRecheck v s)))"
    using assms by (auto simp: decide_run_def transaction_def Let_def split: option.splits if_splits sum.splits)
  then show ?thesis by (auto split: sum.splits decide_result.splits ask_result.splits)
qed

theorem ask_is_one_step_witness:
  "decide_run (cf_env demo_config) (cf_registry demo_config) (cf_loader demo_config) ''r'' ''t2'' (snd (demo_ask ''t1'' (ls_db demo_launched))) =
     (Inr (Asked (AskRecheck 2 [(uuid0, uuid0)])), demo_started) \<and>
   currentVersion demo_started ''r'' = 2 \<and> started_orders demo_started \<subseteq> started_orders (snd (demo_ask ''t1'' (ls_db demo_launched))) \<union> {uuid0}"
  using ask_is_one_step [OF demo_starts [unfolded demo_ask_def]] demo_starts by (auto simp: demo_ask_def)

end
