(* ===== verification/LaunchProps.thy ===== *)
theory LaunchProps
  imports AskProps
begin

text \<open>
  Launching: a launched run is stored with a context its definition can read, launching again with
  the same key is the same launch, and the sweep that starts the roots of launched runs ends.
\<close>

section \<open>Epics belong to runs\<close>

definition epics_ok :: "launch_store \<Rightarrow> bool" where
  "epics_ok st \<longleftrightarrow> (\<forall>p\<in>set (ls_profiles st). find_run (ls_db st) (ep_workflow_run_id p) \<noteq> None)"

lemma epics_ok_later:
  assumes "epics_ok st" and "record_le (ls_db st) d"
  shows "epics_ok (st\<lparr>ls_db := d\<rparr>)"
  using assms later_find_run [OF assms(2)] by (fastforce simp: epics_ok_def)

lemma find_run_definitions [simp]: "find_run (d\<lparr>db_definitions := x\<rparr>) = find_run d"
  by (simp add: find_run_def fun_eq_iff)

lemma definitions_runs [simp]:
  "find_run (snd (insert_immutable z w d)) = find_run d" "find_run (snd (set_definition_archived z i b d)) = find_run d"
  by (auto simp: insert_immutable_def set_definition_archived_def Let_def split: option.split)

lemma insert_run_row_runs [simp]: "db_runs (ls_db (insert_run_row inp st)) = db_runs (ls_db st) @ [new_run_row inp]"
  "ls_profiles (insert_run_row inp st) = ls_profiles st" "ls_projects (insert_run_row inp st) = ls_projects st"
  "db_definitions (ls_db (insert_run_row inp st)) = db_definitions (ls_db st)"
  by (simp_all add: insert_run_row_def)

lemma find_run_append: "find_run d i = Some r \<Longrightarrow> List.find (\<lambda>r. run_id r = i) (db_runs d @ rs) = Some r"
proof -
  have "List.find P xs = Some r \<Longrightarrow> List.find P (xs @ ys) = Some r" for P and xs ys :: "workflow_run list"
    by (induction xs) auto
  then show "find_run d i = Some r \<Longrightarrow> ?thesis" by (simp add: find_run_def)
qed

lemma new_run_found: "find_run (ls_db st) (rl_id (pt_run inp)) = None \<Longrightarrow>
    find_run (ls_db (insert_run_row inp st)) (rl_id (pt_run inp)) = Some (new_run_row inp)"
  by (auto simp: find_run_def find_append_None new_run_row_def)

lemma insert_run_row_keeps: "find_run (ls_db st) i = Some r \<Longrightarrow> find_run (ls_db (insert_run_row inp st)) i = Some r"
  using find_run_append by (simp add: find_run_def)

lemma insertProfile_Inr:
  "insertProfile p st = Inr st' \<Longrightarrow> st' = st\<lparr>ls_profiles := ls_profiles st @ [p]\<rparr> \<and> findProfile st (ep_workflow_run_id p) = None \<and>
    find_run (ls_db st) (ep_workflow_run_id p) \<noteq> None"
  by (auto simp: insertProfile_def findProfile_def find_None_iff split: if_splits)

lemma create_run_epics:
  assumes "epics_ok st"
  shows "epics_ok (snd (create_run inp st))"
proof (cases "create_run_tx inp st")
  case (Inr rs)
  obtain r st' where rs: "rs = (r, st')" by (cases rs)
  have keep: "epics_ok (insert_run_row inp st)"
    using assms insert_run_row_keeps by (fastforce simp: epics_ok_def)
  have "epics_ok st'"
    using create_run_cases [OF Inr [unfolded rs]] assms keep
    by (auto dest!: insertProfile_Inr simp: epics_ok_def)
  then show ?thesis using Inr rs by (simp add: create_run_def)
next
  case (Inl e)
  then show ?thesis using assms by (simp add: create_run_def)
qed

lemma find_filter_other: "(\<And>x. p x \<Longrightarrow> q x) \<Longrightarrow> List.find p (filter q xs) = List.find p xs"
  by (induction xs) auto

lemma delete_run_epics:
  assumes "epics_ok st"
  shows "epics_ok (snd (delete_launched_run i st))"
proof -
  have other: "find_run (delete_cascade i d) j = find_run d j" if "j \<noteq> i" for d j
    using that unfolding find_run_def delete_cascade_def by (simp add: find_filter_other)
  show ?thesis
    using assms other
    by (auto simp: epics_ok_def delete_launched_run_def delete_run_def transaction_def Let_def split: option.splits if_splits)
qed

lemma reachable_epics: "reachable cf z st \<Longrightarrow> epics_ok st"
proof (induction rule: reachable.induct)
  case (launched st inp)
  then show ?case by (simp add: create_run_epics)
next
  case (run_deleted st i)
  then show ?case by (simp add: delete_run_epics)
next
  case (performed st x)
  then show ?case using performing.later [OF reachable_ok, of cf z st cf x] by (simp add: epics_ok_later)
qed (auto simp: epics_ok_def empty_store_def insert_project_def set_run_archived_def Let_def split: option.splits)

section \<open>What a launch stores\<close>

lemma columns_of_insert [simp]: "columns_of (insert_run_row inp st) (rl_id (pt_run inp)) =
    \<lparr>lc_run_id = rl_id (pt_run inp), lc_project_id = rl_project_id (pt_run inp), lc_archived = rl_archived (pt_run inp)\<rparr>"
  by (simp add: columns_of_def insert_run_row_def)

definition stored_launch :: "persist_launch \<Rightarrow> launch_store \<Rightarrow> bool" where
  "stored_launch inp st \<longleftrightarrow>
     (\<exists>run row. find_run (ls_db st) (rl_id (pt_run inp)) = Some run \<and> immutable_matches inp run (columns_of st (rl_id (pt_run inp))) \<and>
        profileMatches st inp \<and> find_definition (ls_db st) (rl_definition_id (pt_run inp)) = Some row \<and> df_version row = pt_definition_version inp)"

lemma create_run_stores:
  assumes "create_run_tx inp st = Inr (r, st')" and "\<And>k e. r \<noteq> CreateRefused k e" and "epics_ok st"
    and "\<And>p. pt_epic_profile inp = Some p \<Longrightarrow> ep_workflow_run_id p = rl_id (pt_run inp)"
  shows "stored_launch inp st' \<and> ls_projects st' = ls_projects st \<and> db_definitions (ls_db st') = db_definitions (ls_db st)"
proof -
  obtain row where row: "find_definition (ls_db st) (rl_definition_id (pt_run inp)) = Some row" "df_version row = pt_definition_version inp"
    using assms(1,2) by (auto simp: create_run_tx_def Let_def split: option.splits if_splits)
  show ?thesis
  proof (cases "find_run (ls_db st) (rl_id (pt_run inp))")
    case (Some run)
    then show ?thesis
      using assms(1,2) row by (auto simp: create_run_tx_def Let_def stored_launch_def split: if_splits)
  next
    case None
    let ?st = "insert_run_row inp st"
    have matches: "immutable_matches inp (new_run_row inp) (columns_of ?st (rl_id (pt_run inp)))"
      by (simp add: immutable_matches_def new_run_row_def)
    have fresh: "findProfile st (rl_id (pt_run inp)) = None"
      using assms(3) None by (auto simp: epics_ok_def findProfile_def find_None_iff)
    have "st' = ?st \<and> pt_epic_profile inp = None \<or> (\<exists>p. pt_epic_profile inp = Some p \<and> insertProfile p ?st = Inr st')"
      using assms(1,2) None row by (auto simp: create_run_tx_def Let_def split: if_splits option.splits)
    then have st': "st' = ?st \<and> pt_epic_profile inp = None \<or>
        (\<exists>p. pt_epic_profile inp = Some p \<and> st' = ?st\<lparr>ls_profiles := ls_profiles st @ [p]\<rparr>)"
      by (auto dest!: insertProfile_Inr)
    then have same: "ls_db st' = ls_db ?st" "columns_of st' = columns_of ?st" "ls_projects st' = ls_projects st"
      by (auto simp: columns_of_def fun_eq_iff)
    have "profileMatches st' inp"
      using st' fresh assms(4) by (auto simp: profileMatches_def findProfile_def find_append_None)
    then show ?thesis
      using same matches row new_run_found [OF None] by (auto simp: stored_launch_def find_definition_def)
  qed
qed

lemma launch_input_simps [simp]:
  "rl_id (pt_run (launch_input env now i request def st)) = launch_run_id env i request"
  "rl_definition_id (pt_run (launch_input env now i request def st)) = wd_id def"
  "rl_project_id (pt_run (launch_input env now i request def st)) = lq_project_id request"
  "rl_context (pt_run (launch_input env now i request def st)) =
     prepareRunContext (lq_context request) (find_project st (lq_project_id request)) (lq_epic_profile request)"
  "pt_definition_version (launch_input env now i request def st) = wd_version def"
  by (simp_all add: launch_input_def Let_def)

lemma launch_input_profile:
  "pt_epic_profile (launch_input env now i request def st) =
     map_option (\<lambda>config. createEpicProfile (launch_run_id env i request) (launch_run_id env i request) config
       (case find_launch_by_id st (launch_run_id env i request) of None \<Rightarrow> now | Some l \<Rightarrow> rl_created_at l)) (lq_epic_profile request)"
  by (simp add: launch_input_def Let_def)

lemma launch_accepted:
  assumes "launchRun env z projection start now i request st status = Inr (r, st', status')" and "epics_ok st"
    and "\<And>e. r = Inl e \<Longrightarrow> le_kind e = LaunchProjectionUnavailable"
  obtains def where "find_definition_by_id z (ls_db st) (lq_workflow_def_id request) = Inr (Some def)"
    and "launch_refusal env z i request def st = None" and "stored_launch (launch_input env now i request def st) st'"
    and "ls_projects st' = ls_projects st" and "db_definitions (ls_db st') = db_definitions (ls_db st)"
    and "st' = snd (create_run (launch_input env now i request def st) st)"
proof -
  obtain def where def: "find_definition_by_id z (ls_db st) (lq_workflow_def_id request) = Inr (Some def)"
    and none: "launch_refusal env z i request def st = None"
  proof -
    obtain found where found: "find_definition_by_id z (ls_db st) (lq_workflow_def_id request) = Inr found"
      using assms(1) by (auto simp: launchRun_def)
    then show thesis
      using assms(1,3) that
      by (auto simp: launchRun_def launchFailure_def launch_refusal_def Let_def split: option.splits if_splits)
  qed
  let ?inp = "launch_input env now i request def st"
  obtain persisted st1 where tx: "create_run_tx ?inp st = Inr (persisted, st1)"
    and rest: "(case persisted of CreateRefused _ detail \<Rightarrow> Ok (launchFailure LaunchIdempotencyConflict detail, st1, status)
        | _ \<Rightarrow> Ok (finish_launch projection start (rl_id (pt_run ?inp)) st1 status)) = (Inr (r, st', status') :: string + _)"
    using assms(1) def none by (auto simp: launchRun_def Let_def)
  have accepted: "persisted \<noteq> CreateRefused k e" for k e
    using rest assms(3) by (auto simp: launchFailure_def)
  then have st1: "st1 = st'" using rest by (cases persisted) (auto simp: finish_launch_def Let_def)
  have "stored_launch ?inp st1 \<and> ls_projects st1 = ls_projects st \<and> db_definitions (ls_db st1) = db_definitions (ls_db st)"
    by (rule create_run_stores [OF tx accepted assms(2)]) (auto simp: launch_input_profile createEpicProfile_def)
  moreover have "st' = snd (create_run ?inp st)" using tx st1 by (simp add: create_run_def)
  ultimately show thesis using that [OF def none] st1 by blast
qed

text \<open>
  A run that was launched can be run. When a launch succeeds, the run is stored under the
  launch's id, of the definition named, with a context (the project's, overridden by the caller's,
  with the epic's branch and repositories on top) in which every pointer the definition reads
  resolves; and an epic, if asked for, is stored with it, on the branch that the context names.
\<close>
theorem launch_persists:
  assumes "epics_ok st" and "launchRun env z projection start now i request st status = Inr (Inr summary, st', status')"
    and "ctx = prepareRunContext (lq_context request) (find_project st (lq_project_id request)) (lq_epic_profile request)"
  shows "\<exists>def run. find_definition_by_id z (ls_db st) (lq_workflow_def_id request) = Inr (Some def) \<and>
    find_run (ls_db st') (launch_run_id env i request) = Some run \<and> run_definition_id run = wd_id def \<and>
    jsonb (run_context run) = jsonb (JObj ctx) \<and>
    unsatisfiedContextRequirements (JObj ctx) (contextRequirementsOf z (wd_graph def)) = [] \<and>
    (case lq_epic_profile request of
       None \<Rightarrow> findProfile st' (launch_run_id env i request) = None
     | Some epic \<Rightarrow> \<exists>p. findProfile st' (launch_run_id env i request) = Some p \<and>
         ep_repositories p = map new_binding (xq_repositories epic) \<and>
         obj_get ctx ''base_branch'' = Some (JStr (ep_base_branch p)) \<and>
         obj_get ctx ''repositories'' = Some (JArr (map repository_entry (xq_repositories epic))))"
proof -
  obtain def where def: "find_definition_by_id z (ls_db st) (lq_workflow_def_id request) = Inr (Some def)"
    and none: "launch_refusal env z i request def st = None"
    and stored: "stored_launch (launch_input env now i request def st) st'"
    by (rule launch_accepted [OF assms(2,1)]) auto
  let ?rid = "launch_run_id env i request"
  obtain run where run: "find_run (ls_db st') ?rid = Some run" "run_definition_id run = wd_id def" "jsonb (run_context run) = jsonb (JObj ctx)"
    and profile: "profileMatches st' (launch_input env now i request def st)"
    using stored assms(3) by (auto simp: stored_launch_def immutable_matches_def)
  have "unsatisfiedContextRequirements (JObj ctx) (contextRequirementsOf z (wd_graph def)) = []"
    using none assms(3) by (auto simp: launch_refusal_def Let_def split: if_splits)
  moreover have "case lq_epic_profile request of
       None \<Rightarrow> findProfile st' ?rid = None
     | Some epic \<Rightarrow> \<exists>p. findProfile st' ?rid = Some p \<and>
         ep_repositories p = map new_binding (xq_repositories epic) \<and>
         obj_get ctx ''base_branch'' = Some (JStr (ep_base_branch p)) \<and>
         obj_get ctx ''repositories'' = Some (JArr (map repository_entry (xq_repositories epic)))"
    using profile assms(3)
    by (auto simp: profileMatches_def launch_input_profile createEpicProfile_def prepareRunContext_def Let_def obj_get_set
        split: option.splits)
  ultimately show ?thesis using def run by blast
qed

definition demo_launch_request :: launch_request where
  "demo_launch_request =
     \<lparr>lq_workflow_def_id = ''d'', lq_project_id = None, lq_context = [(''oakridge_url'', JStr ''u''), (''workdir'', JStr ''w'')],
      lq_epic_profile = Some \<lparr>xq_title = ''t'', xq_slug = ''s'', xq_final_merge_policy = MergeGuarded, xq_base_branch = None, xq_repositories = []\<rparr>,
      lq_idempotency_key = Some ''k''\<rparr>"

definition demo_projection :: "launch_store \<Rightarrow> string \<Rightarrow> string option" where
  "demo_projection st i = map_option run_id (find_run (ls_db st) i)"

definition demo_start :: dbos_start where
  "demo_start wid rid status = (True, wid # status)"

definition demo_launching :: "string + (launch_error + string) \<times> launch_store \<times> string list" where
  "demo_launching = launchRun sample_env sample_zod demo_projection demo_start ''t0'' ''x'' demo_launch_request demo_defined []"

lemma answered: "map_sum id (\<lambda>(r, st, status). (r, status)) x = Inr (r, s) \<Longrightarrow> \<exists>st. x = Inr (r, st, s)"
  by (cases x) auto

lemma demo_launching_works:
  "\<exists>st. launchRun sample_env sample_zod demo_projection demo_start ''t0'' ''x'' demo_launch_request demo_defined [] =
     Inr (Inr ''00000000-0000-4000-8000-000000000000'', st, [''v2-run:00000000-0000-4000-8000-000000000000''])"
proof -
  have "map_sum id (\<lambda>(r, st, status). (r, status)) demo_launching = Inr (Inr uuid0, [''v2-run:00000000-0000-4000-8000-000000000000''])"
    by code_simp
  then show ?thesis unfolding demo_launching_def [symmetric] by (rule answered)
qed

lemma demo_defined_reachable: "reachable cf sample_zod demo_defined"
  unfolding demo_defined_def using reachable.defined [OF reachable.migrated] by (simp add: empty_store_def)

theorem launch_persists_witness:
  "\<exists>def run st'. find_definition_by_id sample_zod (ls_db demo_defined) ''d'' = Inr (Some def) \<and>
    find_run (ls_db st') uuid0 = Some run \<and> run_definition_id run = wd_id def \<and> findProfile st' uuid0 \<noteq> None"
proof -
  obtain st where "launchRun sample_env sample_zod demo_projection demo_start ''t0'' ''x'' demo_launch_request demo_defined [] =
     Inr (Inr uuid0, st, [''v2-run:00000000-0000-4000-8000-000000000000''])"
    using demo_launching_works by blast
  from launch_persists [OF reachable_epics [OF demo_defined_reachable] this refl]
  have "\<exists>def run. find_definition_by_id sample_zod (ls_db demo_defined) ''d'' = Inr (Some def) \<and>
    find_run (ls_db st) (launch_run_id sample_env ''x'' demo_launch_request) = Some run \<and> run_definition_id run = wd_id def \<and>
    findProfile st (launch_run_id sample_env ''x'' demo_launch_request) \<noteq> None"
    by (auto simp: demo_launch_request_def)
  moreover have "launch_run_id sample_env ''x'' demo_launch_request = uuid0" by code_simp
  ultimately show ?thesis by auto
qed

section \<open>Launching again\<close>

lemma stored_launch_replays:
  assumes "stored_launch inp st"
  shows "\<exists>l p. create_run_tx inp st = Inr (RunReplayed l p, st)"
  using assms by (auto simp: stored_launch_def create_run_tx_def Let_def)

text \<open>What the store goes through between two launches: everything but the deletion of the run launched.\<close>

inductive meanwhile :: "config \<Rightarrow> zod_env \<Rightarrow> string \<Rightarrow> launch_store \<Rightarrow> launch_store \<Rightarrow> bool" for cf z rid where
  m_defined: "meanwhile cf z rid st (st\<lparr>ls_db := snd (insert_immutable z w (ls_db st))\<rparr>)"
| m_definition_archived: "meanwhile cf z rid st (st\<lparr>ls_db := snd (set_definition_archived z i b (ls_db st))\<rparr>)"
| m_project_inserted: "meanwhile cf z rid st (insert_project pj st)"
| m_launched: "meanwhile cf z rid st (snd (create_run (launch_input env now i request def st) st))"
| m_run_archived: "meanwhile cf z rid st (snd (set_run_archived i b st))"
| m_performed: "meanwhile cf z rid st (st\<lparr>ls_db := perform cf x (ls_db st)\<rparr>)"
| m_run_deleted: "i \<noteq> rid \<Longrightarrow> meanwhile cf z rid st (snd (delete_launched_run i st))"

text \<open>A definition, once stored, changes in its archived flag only.\<close>

definition same_definition :: "definition_row \<Rightarrow> definition_row \<Rightarrow> bool" where
  "same_definition row row' \<longleftrightarrow> (\<exists>b. row' = row\<lparr>df_definition := (df_definition row)\<lparr>wd_archived := b\<rparr>\<rparr>)"

lemma same_definition_refl [simp]: "same_definition row row"
  unfolding same_definition_def by (rule exI [of _ "wd_archived (df_definition row)"]) simp

lemma same_definition_trans: "same_definition a b \<Longrightarrow> same_definition b c \<Longrightarrow> same_definition a c"
  by (auto simp: same_definition_def)

lemma find_appended: "List.find p xs = Some x \<Longrightarrow> List.find p (xs @ ys) = Some x"
  by (induction xs) auto

lemma find_update_where:
  assumes "\<And>x. p (f x) = p x" and "List.find p xs = Some x"
  shows "List.find p (update_where q f xs) = Some (if q x then f x else x)"
  using assms(2) by (induction xs) (auto simp: update_where_def assms(1))

lemma definition_kept:
  assumes "meanwhile cf z rid st st'" and "store_ok (ls_db st)" and "find_definition (ls_db st) j = Some row"
  shows "\<exists>row'. find_definition (ls_db st') j = Some row' \<and> same_definition row row'"
  using assms(1)
proof cases
  case (m_defined w)
  then show ?thesis using assms(3) find_appended
    by (fastforce simp: insert_immutable_def Let_def find_definition_def split: option.split)
next
  case (m_definition_archived i b)
  then show ?thesis using assms(3)
    by (auto simp: set_definition_archived_def Let_def find_definition_def find_update_where same_definition_def intro: exI [of _ "wd_archived (df_definition row)"])
next
  case (m_launched env now i request def)
  have "db_definitions (ls_db (snd (create_run inp st))) = db_definitions (ls_db st)" for inp
    using create_run_cases [of inp st] by (auto simp: create_run_def split: sum.split prod.split dest!: insertProfile_db)
  then show ?thesis using assms(3) m_launched by (simp add: find_definition_def)
next
  case (m_performed x)
  then show ?thesis using assms(3) record_le_grows(8) [OF performing.later [OF assms(2), of cf x]] by (simp add: find_definition_def)
next
  case (m_run_deleted i)
  then show ?thesis using assms(3)
    by (auto simp: delete_launched_db delete_run_def transaction_def delete_cascade_def find_definition_def split: option.split)
qed (use assms(3) in \<open>auto simp: insert_project_def set_run_archived_def Let_def split: option.split\<close>)

lemma columns_of_id [simp]: "lc_run_id (columns_of st i) = i"
  by (auto simp: columns_of_def split: option.split dest!: find_Some_set)

lemma columns_of_db [simp]: "columns_of (st\<lparr>ls_db := d\<rparr>) = columns_of st"
  by (simp add: columns_of_def fun_eq_iff)

lemma columns_archived: "lc_project_id (columns_of (snd (set_run_archived i b st)) rid) = lc_project_id (columns_of st rid)"
proof (cases "i = rid")
  case False
  then have "List.find (\<lambda>c. lc_run_id c = rid) (filter (\<lambda>c. lc_run_id c \<noteq> i) (ls_columns st)) = List.find (\<lambda>c. lc_run_id c = rid) (ls_columns st)"
    by (intro find_filter_other) simp
  then show ?thesis using False by (auto simp: set_run_archived_def Let_def columns_of_def [of "_\<lparr>ls_columns := _\<rparr>"] columns_of_def [of st rid] split: option.split)
qed (auto simp: set_run_archived_def Let_def columns_of_def [of "_\<lparr>ls_columns := _\<rparr>"] split: option.split)

text \<open>The run of a launch, as the launch stored it.\<close>

definition kept_launch :: "string \<Rightarrow> launch_store \<Rightarrow> launch_store \<Rightarrow> bool" where
  "kept_launch rid st st' \<longleftrightarrow>
     (\<forall>run. find_run (ls_db st) rid = Some run \<longrightarrow> (\<exists>run'. find_run (ls_db st') rid = Some run' \<and>
        run_definition_id run' = run_definition_id run \<and> run_context run' = run_context run)) \<and>
     lc_project_id (columns_of st' rid) = lc_project_id (columns_of st rid) \<and> findProfile st' rid = findProfile st rid"

lemma kept_launch_created:
  assumes "find_run (ls_db st) rid \<noteq> None" and "\<And>p. pt_epic_profile inp = Some p \<Longrightarrow> ep_workflow_run_id p = rl_id (pt_run inp)"
  shows "kept_launch rid st (snd (create_run inp st))"
proof (cases "snd (create_run inp st) = st")
  case True
  then show ?thesis by (simp add: kept_launch_def)
next
  case False
  then obtain r st' where tx: "create_run_tx inp st = Inr (r, st')" and st': "snd (create_run inp st) = st'" "st' \<noteq> st"
    by (auto simp: create_run_def split: sum.splits prod.splits)
  have new: "find_run (ls_db st) (rl_id (pt_run inp)) = None"
    and rows: "st' = insert_run_row inp st \<or> (\<exists>p. pt_epic_profile inp = Some p \<and> insertProfile p (insert_run_row inp st) = Inr st')"
    using create_run_cases [OF tx] st'(2) by auto
  then have other: "rl_id (pt_run inp) \<noteq> rid" using assms(1) by auto
  have "ls_db st' = ls_db (insert_run_row inp st)" "ls_columns st' = ls_columns (insert_run_row inp st)"
    using rows by (auto dest!: insertProfile_db)
  moreover have "findProfile st' rid = findProfile st rid"
  proof -
    have tail: "List.find P (xs @ [p]) = List.find P xs" if "\<not> P p" for P p and xs :: "epic_profile list" using that by (induction xs) auto
    then show ?thesis using rows other assms(2) by (auto simp: findProfile_def dest!: insertProfile_Inr)
  qed
  moreover have "lc_project_id (columns_of st' rid) = lc_project_id (columns_of st rid)"
    using calculation(2) other by (simp add: columns_of_def insert_run_row_def)
  ultimately show ?thesis
    using insert_run_row_keeps [of st rid _ inp] unfolding st'(1) by (auto simp: kept_launch_def)
qed

lemma launch_kept:
  assumes "meanwhile cf z rid st st'" and "store_ok (ls_db st)" and "find_run (ls_db st) rid \<noteq> None"
  shows "kept_launch rid st st'"
  using assms(1)
proof cases
  case (m_launched env now i request def)
  then show ?thesis
    by (auto simp: launch_input_profile createEpicProfile_def intro!: kept_launch_created [OF assms(3)])
next
  case (m_run_archived i b)
  then show ?thesis using columns_archived [of i b st rid]
    by (auto simp: kept_launch_def set_run_archived_def findProfile_def Let_def split: option.split)
next
  case (m_performed x)
  have later: "record_le (ls_db st) (perform cf x (ls_db st))" using performing.later [OF assms(2)] by simp
  show ?thesis using m_performed later_find_run [OF later] by (fastforce simp: kept_launch_def findProfile_def run_le_def)
next
  case (m_run_deleted i)
  then show ?thesis
    by (auto simp: kept_launch_def delete_launched_run_def delete_run_def transaction_def delete_cascade_def find_run_def findProfile_def
        columns_of_def find_filter_other Let_def split: option.splits if_splits)
qed (auto simp: kept_launch_def insert_project_def findProfile_def columns_of_def)

lemma project_kept:
  assumes "meanwhile cf z rid st st'" and "find_project st p \<noteq> None \<or> \<not> named_project p"
  shows "find_project st' p = find_project st p"
proof -
  have "\<exists>pjs. ls_projects st' = ls_projects st @ pjs"
    using assms(1)
  proof cases
    case (m_launched env now i request def)
    have "ls_projects (snd (create_run inp st)) = ls_projects st" for inp
      using create_run_cases [of inp st] by (auto simp: create_run_def split: sum.split prod.split dest!: insertProfile_Inr)
    then show ?thesis using m_launched by simp
  next
    case (m_run_deleted i)
    then show ?thesis by (simp add: delete_launched_run_def split: prod.split)
  qed (auto simp: insert_project_def set_run_archived_def Let_def split: option.split)
  then show ?thesis
    using assms(2) by (auto simp: find_project_def named_project_def find_appended split: option.splits list.splits)
qed

lemma meanwhile_ok:
  assumes "meanwhile cf z rid st st'" and "store_ok (ls_db st)"
  shows "store_ok (ls_db st')"
  using assms(1)
proof cases
  case (m_launched env now i request def)
  then show ?thesis using create_run_ok [OF assms(2)] by simp
next
  case (m_performed x)
  then show ?thesis using performing.keeps [of "ls_db st" cf x] assms(2) by simp
next
  case (m_run_deleted i)
  then show ?thesis using delete_run_ok [OF assms(2)] by (simp add: delete_launched_db)
qed (use assms(2) in \<open>auto simp: insert_project_def set_run_archived_def Let_def split: option.split\<close>)

lemma meanwhile_keeps:
  assumes "(meanwhile cf z rid)\<^sup>*\<^sup>* st st'" and "store_ok (ls_db st)" and "find_run (ls_db st) rid \<noteq> None"
    and "find_project st p \<noteq> None \<or> \<not> named_project p"
  shows "store_ok (ls_db st') \<and> kept_launch rid st st' \<and> find_project st' p = find_project st p \<and>
    (\<forall>j row. find_definition (ls_db st) j = Some row \<longrightarrow>
      (\<exists>row'. find_definition (ls_db st') j = Some row' \<and> same_definition row row'))"
  using assms(1)
proof induction
  case base
  then show ?case using assms(2) by (auto simp: kept_launch_def)
next
  case (step t u)
  have run: "find_run (ls_db t) rid \<noteq> None" using step.IH assms(3) unfolding kept_launch_def by blast
  have "kept_launch rid t u" using launch_kept [OF step.hyps(2) _ run] step.IH by blast
  then have "kept_launch rid st u" using step.IH unfolding kept_launch_def by metis
  moreover have "find_project u p = find_project t p"
    using project_kept [OF step.hyps(2), of p] step.IH assms(4) by auto
  ultimately show ?case
    using step.IH meanwhile_ok [OF step.hyps(2)] definition_kept [OF step.hyps(2)] same_definition_trans by metis
qed

text \<open>
  \<open>z.object\<close> reads each member by the schema of its own: a definition that reads, reads with another
  \<open>archived\<close> flag too, and as the same definition with that flag.
\<close>

definition reads_archived :: "zod_env \<Rightarrow> bool" where
  "reads_archived z \<longleftrightarrow>
     (\<forall>w def b. zod_definition_shape z (definition_json w) = Inr def \<longrightarrow>
        zod_definition_shape z (definition_json (w\<lparr>wd_archived := b\<rparr>)) = Inr (def\<lparr>wd_archived := b\<rparr>))"

lemma parse_archived:
  assumes "reads_archived z" and "parseWorkflowDefinition z (definition_json w) = Inr def"
  shows "parseWorkflowDefinition z (definition_json (w\<lparr>wd_archived := b\<rparr>)) = Inr (def\<lparr>wd_archived := b\<rparr>)"
proof -
  obtain shape where shape: "zod_definition_shape z (definition_json w) = Inr shape" "validateGraphReferences z shape = Inr def"
    using assms(2) by (auto simp: parseWorkflowDefinition_def split: sum.splits)
  then have "shape = def" by (auto dest: validateGraphReferences_same)
  then show ?thesis
    using shape assms(1) by (auto simp: reads_archived_def parseWorkflowDefinition_def validateGraphReferences_def)
qed

lemma definition_found_again:
  assumes "reads_archived z" and "find_definition_by_id z d i = Inr (Some def)"
    and "\<And>row. find_definition d i = Some row \<Longrightarrow> \<exists>row'. find_definition d' i = Some row' \<and> same_definition row row'"
  shows "\<exists>b. find_definition_by_id z d' i = Inr (Some (def\<lparr>wd_archived := b\<rparr>))"
proof -
  obtain row where row: "find_definition d i = Some row" "decodeDefinition z row = Inr def"
    using assms(2) by (auto simp: find_definition_by_id_def split: option.splits)
  then obtain row' where row': "find_definition d' i = Some row'" "same_definition row row'" using assms(3) by blast
  then obtain b where b: "row' = row\<lparr>df_definition := (df_definition row)\<lparr>wd_archived := b\<rparr>\<rparr>" by (auto simp: same_definition_def)
  have "decodeDefinition z row' = Inr (def\<lparr>wd_archived := b\<rparr>)"
    using parse_archived [OF assms(1), of "df_definition row" def b] row(2) by (auto simp: decodeDefinition_def b split: sum.splits)
  then show ?thesis using row'(1) by (auto simp: find_definition_by_id_def)
qed

lemma stored_launch_kept:
  assumes "stored_launch inp st" and "kept_launch (rl_id (pt_run inp)) st st'"
    and "\<And>j row. find_definition (ls_db st) j = Some row \<Longrightarrow> \<exists>row'. find_definition (ls_db st') j = Some row' \<and> same_definition row row'"
  shows "stored_launch inp st'"
proof -
  obtain run row where run: "find_run (ls_db st) (rl_id (pt_run inp)) = Some run" "immutable_matches inp run (columns_of st (rl_id (pt_run inp)))"
      "profileMatches st inp" "find_definition (ls_db st) (rl_definition_id (pt_run inp)) = Some row" "df_version row = pt_definition_version inp"
    using assms(1) by (auto simp: stored_launch_def)
  obtain run' where "find_run (ls_db st') (rl_id (pt_run inp)) = Some run'" "run_definition_id run' = run_definition_id run" "run_context run' = run_context run"
    using assms(2) run(1) unfolding kept_launch_def by blast
  moreover obtain row' where "find_definition (ls_db st') (rl_definition_id (pt_run inp)) = Some row'" "df_version row' = df_version row"
    using assms(3) [OF run(4)] by (auto simp: same_definition_def)
  moreover have "profileMatches st' inp" using run(3) assms(2) by (simp add: profileMatches_def kept_launch_def)
  ultimately show ?thesis using run(2,5) assms(2) by (auto simp: stored_launch_def immutable_matches_def kept_launch_def)
qed

lemma stored_launch_same_request:
  assumes "stored_launch (launch_input env now i request def st) st'" and "lq_idempotency_key request = Some (c # key)"
    and "find_project st1 (lq_project_id request) = find_project st (lq_project_id request)"
  shows "stored_launch (launch_input env now' i' request (def\<lparr>wd_archived := b\<rparr>) st1) st'"
proof -
  have ids: "launch_run_id env i request = launch_run_id env i' request" using assms(2) by (simp add: launch_run_id_def)
  show ?thesis
    using assms(1,3) unfolding stored_launch_def immutable_matches_def profileMatches_def launch_input_profile launch_input_simps ids
    by (auto simp: createEpicProfile_def split: option.splits)
qed

text \<open>
  C23. A launch with an idempotency key happens once. After a launch with a non-empty key was accepted, launching again
  with the same request finds the run, whatever the store has been through since: operations of the record, other
  launches, definitions and projects stored, the definition or the run archived, other runs deleted, all but
  the deletion of this run. Nothing is written, and the run's root is started again under the same workflow id.
\<close>
theorem launch_once:
  assumes "reachable cf z st" and "reads_archived z" and "lq_idempotency_key request = Some (c # key)"
    and "launchRun env z projection start now i request st status = Inr (r, st1, status1)"
    and "case r of Inl e \<Rightarrow> le_kind e = LaunchProjectionUnavailable | Inr _ \<Rightarrow> True"
    and "(meanwhile cf z (deterministicRunId env (c # key)))\<^sup>*\<^sup>* st1 st2"
  shows "launchRun env z projection' start' now' i' request st2 status2 =
    Inr (finish_launch projection' start' (deterministicRunId env (c # key)) st2 status2)"
proof -
  obtain def where def: "find_definition_by_id z (ls_db st) (lq_workflow_def_id request) = Inr (Some def)"
    and none: "launch_refusal env z i request def st = None"
    and stored: "stored_launch (launch_input env now i request def st) st1"
    and same: "ls_projects st1 = ls_projects st" "db_definitions (ls_db st1) = db_definitions (ls_db st)"
    and created: "st1 = snd (create_run (launch_input env now i request def st) st)"
    by (rule launch_accepted [OF assms(4) reachable_epics [OF assms(1)]]) (use assms(5) in auto)
  have rid: "launch_run_id env j request = deterministicRunId env (c # key)" for j using assms(3) by (simp add: launch_run_id_def)
  have project: "find_project st1 p = find_project st p" for p using same(1) by (simp add: find_project_def split: option.split list.split)
  have ok: "store_ok (ls_db st1)" unfolding created using reachable_ok [OF assms(1)] by (rule create_run_ok)
  have run: "find_run (ls_db st1) (deterministicRunId env (c # key)) \<noteq> None" using stored by (auto simp: stored_launch_def rid)
  have named: "find_project st1 (lq_project_id request) \<noteq> None \<or> \<not> named_project (lq_project_id request)"
    using none project by (auto simp: launch_refusal_def Let_def split: if_splits)
  note kept = meanwhile_keeps [OF assms(6) ok run named]
  obtain b where def2: "find_definition_by_id z (ls_db st2) (lq_workflow_def_id request) = Inr (Some (def\<lparr>wd_archived := b\<rparr>))"
    using definition_found_again [OF assms(2) def, of "ls_db st2"] kept same(2) by (auto simp: find_definition_def)
  let ?inp = "launch_input env now' i' request (def\<lparr>wd_archived := b\<rparr>) st2"
  have "stored_launch (launch_input env now i request def st) st2"
    using stored_launch_kept [OF stored] kept by (simp add: rid)
  then have again: "stored_launch ?inp st2"
    by (rule stored_launch_same_request [OF _ assms(3)]) (use kept project in simp)
  have "find_launch_by_id st2 (launch_run_id env i' request) \<noteq> None"
    using again by (auto simp: stored_launch_def find_launch_by_id_def)
  then have none2: "launch_refusal env z i' request (def\<lparr>wd_archived := b\<rparr>) st2 = None"
    using none kept project by (auto simp: launch_refusal_def Let_def split: if_splits)
  obtain l p where "create_run_tx ?inp st2 = Inr (RunReplayed l p, st2)"
    using stored_launch_replays [OF again] by blast
  then show ?thesis using def2 none2 rid by (simp add: launchRun_def Let_def)
qed

text \<open>A reading of stored definitions that minds the archived flag.\<close>

definition archive_zod :: zod_env where
  "archive_zod = sample_zod\<lparr>zod_definition_shape :=
     (\<lambda>j. case j of JObj kvs \<Rightarrow> (case map_of kvs ''archived'' of Some (JBool b) \<Rightarrow> Inr (sample_definition\<lparr>wd_archived := b\<rparr>) | _ \<Rightarrow> Inl ''no'')
        | _ \<Rightarrow> Inl ''no'')\<rparr>"

lemma archive_zod_reads: "reads_archived archive_zod"
  by (auto simp: reads_archived_def archive_zod_def definition_json_def)

lemma archive_defined_reachable: "reachable cf archive_zod demo_defined"
proof -
  have "snd (insert_immutable archive_zod w d) = snd (insert_immutable sample_zod w d)" for w d
    by (auto simp: insert_immutable_def Let_def split: option.split)
  then show ?thesis
    unfolding demo_defined_def using reachable.defined [OF reachable.migrated, of cf archive_zod sample_definition "Some ''seed''"]
    by (simp add: empty_store_def)
qed

lemma archive_launching_works:
  "\<exists>st. launchRun sample_env archive_zod demo_projection demo_start ''t0'' ''x'' demo_launch_request demo_defined [] =
     Inr (Inr uuid0, st, [''v2-run:00000000-0000-4000-8000-000000000000''])"
proof -
  have "map_sum id (\<lambda>(r, st, status). (r, status))
      (launchRun sample_env archive_zod demo_projection demo_start ''t0'' ''x'' demo_launch_request demo_defined []) =
    Inr (Inr uuid0, [''v2-run:00000000-0000-4000-8000-000000000000''])" by code_simp
  then show ?thesis by (rule answered)
qed

theorem launch_once_witness:
  "\<exists>st1. launchRun sample_env archive_zod demo_projection demo_start ''t0'' ''x'' demo_launch_request demo_defined [] =
      Inr (Inr uuid0, st1, [''v2-run:00000000-0000-4000-8000-000000000000'']) \<and>
    (let st2 = st1\<lparr>ls_db := snd (set_definition_archived archive_zod ''d'' True (ls_db st1))\<rparr>
     in launchRun sample_env archive_zod demo_projection demo_start ''t9'' ''y'' demo_launch_request st2 [] =
       Inr (finish_launch demo_projection demo_start (deterministicRunId sample_env ''k'') st2 []))"
proof -
  obtain st where launched: "launchRun sample_env archive_zod demo_projection demo_start ''t0'' ''x'' demo_launch_request demo_defined [] =
     Inr (Inr uuid0, st, [''v2-run:00000000-0000-4000-8000-000000000000''])"
    using archive_launching_works by blast
  let ?st = "st\<lparr>ls_db := snd (set_definition_archived archive_zod ''d'' True (ls_db st))\<rparr>"
  have key: "lq_idempotency_key demo_launch_request = Some (CHR ''k'' # [])" by (simp add: demo_launch_request_def)
  have "(meanwhile demo_config archive_zod (deterministicRunId sample_env ''k''))\<^sup>*\<^sup>* st ?st"
    by (intro r_into_rtranclp m_definition_archived)
  note again = launch_once [OF archive_defined_reachable archive_zod_reads key launched _ this]
  show ?thesis unfolding Let_def by (intro exI [of _ st] conjI launched again) simp
qed

end
