(* ===== verification/Dispatch.thy ===== *)
theory Dispatch
  imports LaunchProps
begin

section \<open>The launch sweep\<close>

text \<open>The active runs whose root workflow DBOS does not know.\<close>

definition unstarted :: "db \<Rightarrow> string list \<Rightarrow> workflow_run list" where
  "unstarted d status = filter (\<lambda>r. run_state r = RunActive \<and> runRecordWorkflowId (run_id r) \<notin> set status) (db_runs d)"

text \<open>
  What DBOS promises of starting a workflow: a start that succeeds leaves a status row for the
  workflow id, whether or not there was one, and a start that fails leaves the status table as
  it was.
\<close>

definition starts_workflows :: "dbos_start \<Rightarrow> bool" where
  "starts_workflows start \<longleftrightarrow>
     (\<forall>wid rid status. set (snd (start wid rid status)) = (if fst (start wid rid status) then insert wid (set status) else set status))"

lemma workflow_id_inj [simp]: "runRecordWorkflowId i = runRecordWorkflowId j \<longleftrightarrow> i = j"
  by (simp add: runRecordWorkflowId_def)

lemma list_unstarted: "list_unstarted_runs d status limit = take limit (map run_id (sort_key run_created_at (sort_key run_id (unstarted d status))))"
  by (simp add: list_unstarted_runs_def unstarted_def)

lemma sweep_one_step:
  assumes "starts_workflows start"
  shows "set (sw_status (sweep_one start rid s)) = (if sw_failed (sweep_one start rid s) = sw_failed s then insert (runRecordWorkflowId rid) (set (sw_status s)) else set (sw_status s)) \<and>
    (sw_failed (sweep_one start rid s) = sw_failed s \<and> sw_started (sweep_one start rid s) = sw_started s + 1 \<or>
     sw_failed (sweep_one start rid s) = sw_failed s + 1 \<and> sw_started (sweep_one start rid s) = sw_started s)"
  using assms [unfolded starts_workflows_def, rule_format, of "runRecordWorkflowId rid" rid "sw_status s"]
  by (cases "start (runRecordWorkflowId rid) rid (sw_status s)") (auto simp: sweep_one_def)

lemma sweep_page:
  assumes "starts_workflows start" and "distinct page"
  shows "\<exists>ok \<subseteq> set page. set (sw_status (fold (sweep_one start) page s)) = set (sw_status s) \<union> runRecordWorkflowId ` ok \<and>
    sw_started (fold (sweep_one start) page s) = sw_started s + card ok \<and>
    sw_failed (fold (sweep_one start) page s) = sw_failed s + (length page - card ok)"
  using assms(2)
proof (induction page arbitrary: s)
  case Nil
  then show ?case by simp
next
  case (Cons rid page)
  let ?t = "sweep_one start rid s"
  obtain ok where ok: "ok \<subseteq> set page" "set (sw_status (fold (sweep_one start) page ?t)) = set (sw_status ?t) \<union> runRecordWorkflowId ` ok"
      "sw_started (fold (sweep_one start) page ?t) = sw_started ?t + card ok"
      "sw_failed (fold (sweep_one start) page ?t) = sw_failed ?t + (length page - card ok)"
    using Cons.IH [of ?t] Cons.prems by auto
  have fin: "finite ok" using ok(1) finite_subset by blast
  have le: "card ok \<le> length page" using card_mono [OF _ ok(1)] card_length [of page] by simp
  have new: "rid \<notin> ok" using ok(1) Cons.prems by auto
  note one = sweep_one_step [OF assms(1), of rid s]
  show ?case
  proof (cases "sw_failed ?t = sw_failed s")
    case True
    then show ?thesis
      using ok one fin new le by (intro exI [of _ "insert rid ok"]) auto
  next
    case False
    then show ?thesis using ok one le by (intro exI [of _ ok]) auto
  qed
qed

lemma unstarted_after:
  assumes "distinct (map run_id (db_runs d))" and "set status' = set status \<union> runRecordWorkflowId ` ok" and "ok \<subseteq> run_id ` set (unstarted d status)"
  shows "length (unstarted d status') + card ok = length (unstarted d status)"
proof -
  have "unstarted d status' = filter (\<lambda>r. run_id r \<notin> ok) (unstarted d status)"
    using assms(2) by (auto simp: unstarted_def intro!: filter_cong)
  moreover have "card ok = length (filter (\<lambda>r. run_id r \<in> ok) (unstarted d status))"
  proof -
    have "distinct (map run_id (filter (\<lambda>r. run_id r \<in> ok) (unstarted d status)))"
      using assms(1) by (simp add: unstarted_def distinct_map_filter)
    then have "length (filter (\<lambda>r. run_id r \<in> ok) (unstarted d status)) = card (set (map run_id (filter (\<lambda>r. run_id r \<in> ok) (unstarted d status))))"
      by (metis distinct_card length_map)
    moreover have "set (map run_id (filter (\<lambda>r. run_id r \<in> ok) (unstarted d status))) = ok" using assms(3) by auto
    ultimately show ?thesis by simp
  qed
  ultimately show ?thesis using sum_length_filter_compl [of "\<lambda>r. run_id r \<in> ok" "unstarted d status"] by simp
qed

lemma page_facts:
  assumes "distinct (map run_id (db_runs d))"
  shows "distinct (list_unstarted_runs d status limit)" "set (list_unstarted_runs d status limit) \<subseteq> run_id ` set (unstarted d status)"
    "length (list_unstarted_runs d status limit) = min limit (length (unstarted d status))"
proof -
  have "distinct (map run_id (unstarted d status))" using assms by (simp add: unstarted_def distinct_map_filter)
  then have "distinct (map run_id (sort_key run_created_at (sort_key run_id (unstarted d status))))"
    by (simp add: distinct_map)
  then show "distinct (list_unstarted_runs d status limit)" unfolding list_unstarted by (rule distinct_take)
  show "set (list_unstarted_runs d status limit) \<subseteq> run_id ` set (unstarted d status)"
    unfolding list_unstarted by (rule order_trans [OF set_take_subset]) simp
  show "length (list_unstarted_runs d status limit) = min limit (length (unstarted d status))"
    unfolding list_unstarted by simp
qed

lemma dispatch_loop_returns:
  assumes "starts_workflows start" and "distinct (map run_id (db_runs d))"
  shows "\<exists>n status'. dispatch_loop start d status started = Some (started + n, status') \<and>
    set status \<subseteq> set status' \<and> length (unstarted d status') + n = length (unstarted d status) \<and>
    ((\<forall>wid rid s. fst (start wid rid s)) \<longrightarrow> unstarted d status' = [])"
proof (induction "length (unstarted d status)" arbitrary: status started rule: less_induct)
  case less
  let ?page = "list_unstarted_runs d status PAGE_SIZE"
  let ?s = "fold (sweep_one start) ?page \<lparr>sw_status = status, sw_started = started, sw_failed = 0\<rparr>"
  obtain ok where ok: "ok \<subseteq> set ?page" "set (sw_status ?s) = set status \<union> runRecordWorkflowId ` ok"
      "sw_started ?s = started + card ok" "sw_failed ?s = length ?page - card ok"
    using sweep_page [OF assms(1) page_facts(1) [OF assms(2)], of status PAGE_SIZE "\<lparr>sw_status = status, sw_started = started, sw_failed = 0\<rparr>"] by auto
  have sub: "ok \<subseteq> run_id ` set (unstarted d status)" using ok(1) page_facts(2) [OF assms(2)] by blast
  note fewer = unstarted_after [OF assms(2) ok(2) sub]
  have le: "card ok \<le> length ?page" using card_mono [OF _ ok(1)] card_length [of ?page] by simp
  show ?case
  proof (cases "length ?page < PAGE_SIZE \<or> sw_failed ?s > 0")
    case True
    then have res: "dispatch_loop start d status started = Some (started + card ok, sw_status ?s)"
      using ok(3) by (subst dispatch_loop.simps) (simp add: Let_def)
    have "unstarted d (sw_status ?s) = []" if all: "\<forall>wid rid s. fst (start wid rid s)"
    proof -
      have "sw_failed (fold (sweep_one start) xs s) = sw_failed s" for xs s
        using all by (induction xs arbitrary: s) (simp_all add: sweep_one_def Let_def case_prod_beta)
      then have "sw_failed ?s = 0" by simp
      then have "length ?page < PAGE_SIZE" "card ok = length ?page" using True ok(4) le by simp_all
      then have "card ok = length (unstarted d status)" using page_facts(3) [OF assms(2), of status PAGE_SIZE] by simp
      then show ?thesis using fewer by simp
    qed
    then show ?thesis using res ok(2) fewer by (intro exI [of _ "card ok"] exI [of _ "sw_status ?s"]) auto
  next
    case False
    then have full: "card ok = PAGE_SIZE"
      using ok(4) le page_facts(3) [OF assms(2), of status PAGE_SIZE] by (auto simp: min_def split: if_splits)
    then have "length (unstarted d (sw_status ?s)) < length (unstarted d status)" using fewer by (simp add: PAGE_SIZE_def)
    from less.hyps [OF this, of "sw_started ?s"] obtain n status' where
      ih: "dispatch_loop start d (sw_status ?s) (sw_started ?s) = Some (sw_started ?s + n, status')"
        "set (sw_status ?s) \<subseteq> set status'" "length (unstarted d status') + n = length (unstarted d (sw_status ?s))"
        "(\<forall>wid rid s. fst (start wid rid s)) \<longrightarrow> unstarted d status' = []" by blast
    have "dispatch_loop start d status started = dispatch_loop start d (sw_status ?s) (sw_started ?s)"
      using False by (subst dispatch_loop.simps) (simp add: Let_def)
    then show ?thesis
      using ih ok(2,3) fewer by (intro exI [of _ "card ok + n"] exI [of _ status']) auto
  qed
qed

text \<open>
  C24. The launch sweep ends. On a consistent record, and with a DBOS that records the workflows it
  accepts, \<open>dispatchRunLaunches\<close> returns, however many pages of unstarted runs there are and whichever
  starts fail; the number it returns is the number of active runs it started, so at most the number
  that were unstarted; no run it found started is forgotten; and if no start fails no active run is
  left unstarted.
\<close>
theorem dispatch_ends:
  assumes "store_ok d" and "starts_workflows start"
  shows "\<exists>n status'. dispatchRunLaunches start d status = Some (n, status') \<and> n \<le> length (unstarted d status) \<and>
    set status \<subseteq> set status' \<and> length (unstarted d status') = length (unstarted d status) - n \<and>
    ((\<forall>wid rid s. fst (start wid rid s)) \<longrightarrow> unstarted d status' = [])"
proof -
  have "distinct (map run_id (db_runs d))" using assms(1) by (simp add: store_ok_def identity_ok_def identity_of_def)
  from dispatch_loop_returns [OF assms(2) this, of status 0] show ?thesis unfolding dispatchRunLaunches_def by fastforce
qed

theorem dispatch_ends_witness:
  "\<exists>n status'. dispatchRunLaunches demo_start demo_started [] = Some (n, status') \<and> unstarted demo_started status' = []"
proof -
  have "starts_workflows demo_start" by (simp add: starts_workflows_def demo_start_def)
  from dispatch_ends [OF demo_started_ok this] show ?thesis by (fastforce simp: demo_start_def)
qed

end
