(* ===== verification/RetryProps.thy ===== *)
theory RetryProps
  imports AskProps
begin

text \<open>
  The operator's retry of a unit whose work was lost: one fresh work order replaces whatever was
  active, and the same request never makes a second one.
\<close>

lemma create_retry_orders:
  assumes "create_retry inp at wid unit prior missing rebound d = Inr (r, d')"
  obtains order where "r = RetryCreated (or_order order) (u_run_id unit) (prior + 1)"
    and "db_orders d' = db_orders (abandon_active (u_id unit) at d) @ [order]"
    and "wo_id (or_order order) = wid" "wo_run_unit_id (or_order order) = u_id unit" "wo_state (or_order order) = WAvailable"
      "wo_request_idempotency_key (or_order order) = ''operator_retry:'' @ rt_idempotency_key inp"
      "or_request order = Some (fst rebound)"
      "wo_workflow_id (or_order order) = workOrderWorkflowId wid"
proof -
  let ?order = "new_order (u_id unit) ReasonOperatorRetry (u_input_snapshot unit) (u_input_fingerprint unit)
            (''operator_retry:'' @ rt_idempotency_key inp) at
            \<lparr>mw_id = wid, mw_workflow_id = ''v2-work:'' @ wid, mw_capability_hash = snd rebound, mw_request = fst rebound\<rparr>"
  obtain d1 p where ins: "insert_order ?order (abandon_active (u_id unit) at d) = Inr d1"
    and tr: "insertTransition p prior (prior + 1) (set_version (u_run_id unit) (prior + 1)
      (update_units (\<lambda>u. u_id u = u_id unit) (\<lambda>u. u\<lparr>u_state := UReady, u_outcome := None, u_ended_at := None\<rparr>) d1)) = Inr d'"
    and r: "r = RetryCreated (or_order ?order) (u_run_id unit) (prior + 1)"
    using assms by (auto simp: create_retry_def Let_def)
  show thesis
    by (rule that [of ?order])
      (use r insert_order_Inr [OF ins] ins tr in \<open>auto simp: insertTransition_Inr set_version_def row_update_defs new_order_def insert_order_def workOrderWorkflowId_def split: if_splits\<close>)
qed

lemma retry_created_cases:
  assumes "retry_unit_tx env inp at wid d = Inr (RetryCreated order rid v, d')"
  obtains unit stage run rebound where "resolveRetryTarget (rt_target inp) d = Some unit" "find_stage_row d (u_stage_id unit) = Some stage"
    "find_run d (u_run_id unit) = Some run" "run_state run = RunActive" "isRecordedMissingWork d (u_id unit)" "missing_slots env d (u_id unit) \<noteq> []"
    "\<not> (\<exists>w\<in>set (db_waits d). wait_run_unit_id w = Some (u_id unit) \<and> wait_is_open w)"
    "List.find (\<lambda>w. wo_run_unit_id (or_order w) = u_id unit \<and>
        wo_request_idempotency_key (or_order w) = ''operator_retry:'' @ rt_idempotency_key inp) (db_orders d) = None"
    "create_retry inp at wid unit (run_record_version run) (missing_slots env d (u_id unit)) rebound d = Inr (RetryCreated order rid v, d')"
  using assms by (auto simp: retry_unit_tx_def Let_def split: option.splits if_splits)

lemma later_retry_target:
  assumes "record_le d e" and "resolveRetryTarget target d = Some u"
  shows "\<exists>v. resolveRetryTarget target e = Some v \<and> unit_le u v"
proof (cases target)
  case (TargetRunUnit i)
  then show ?thesis using assms later_find_unit by simp
next
  case (TargetStageUnit s i)
  then show ?thesis
    using assms(2) grows_find [OF record_le_grows(3) [OF assms(1)], of "\<lambda>v. u_stage_id v = s \<and> u_unit_id v = i" u]
    by (auto simp: unit_le_def unit_ref_def)
qed

text \<open>
  C22. A retry replaces lost work, once. It is accepted only for a unit of an active run with no
  open wait, a required output still missing, and every active work order of which was started and
  is recorded as no longer running; afterwards the new order is the unit's only active one, available
  to be started. The same request, after any sequence of operations, finds that order and
  writes nothing.
\<close>
theorem retry_replaces_lost_work:
  assumes "store_ok d" and "retry_unit env inp at wid d = (Inr (RetryCreated order rid v), d1)"
  shows "(\<exists>unit row. resolveRetryTarget (rt_target inp) d = Some unit \<and> rid = u_run_id unit \<and>
      (\<exists>run. find_run d rid = Some run \<and> run_state run = RunActive) \<and>
      \<not> (\<exists>w\<in>set (db_waits d). wait_run_unit_id w = Some (u_id unit) \<and> wait_is_open w) \<and>
      isRecordedMissingWork d (u_id unit) \<and> missing_slots env d (u_id unit) \<noteq> [] \<and>
      active_orders d1 (u_id unit) = [row] \<and> or_order row = order \<and> wo_id order = wid \<and> wo_state order = WAvailable) \<and>
    (\<exists>order'. retry_unit env inp at' wid' (perform_all cf ops d1) =
        (Inr (RetryAlreadyCreated order' rid (currentVersion (perform_all cf ops d1) rid)), perform_all cf ops d1) \<and> wo_id order' = wid)"
proof -
  let ?e = "perform_all cf ops d1"
  have tx: "retry_unit_tx env inp at wid d = Inr (RetryCreated order rid v, d1)"
    using assms(2) by (auto simp: retry_unit_def transaction_def split: sum.splits)
  obtain unit stage run rebound where unit: "resolveRetryTarget (rt_target inp) d = Some unit" "find_stage_row d (u_stage_id unit) = Some stage"
      "find_run d (u_run_id unit) = Some run" "run_state run = RunActive" "isRecordedMissingWork d (u_id unit)" "missing_slots env d (u_id unit) \<noteq> []"
      "\<not> (\<exists>w\<in>set (db_waits d). wait_run_unit_id w = Some (u_id unit) \<and> wait_is_open w)"
      "List.find (\<lambda>w. wo_run_unit_id (or_order w) = u_id unit \<and>
        wo_request_idempotency_key (or_order w) = ''operator_retry:'' @ rt_idempotency_key inp) (db_orders d) = None"
      "create_retry inp at wid unit (run_record_version run) (missing_slots env d (u_id unit)) rebound d = Inr (RetryCreated order rid v, d1)"
    by (rule retry_created_cases [OF tx])
  obtain row where row: "RetryCreated order rid v = RetryCreated (or_order row) (u_run_id unit) (run_record_version run + 1)"
      "db_orders d1 = db_orders (abandon_active (u_id unit) at d) @ [row]"
      "wo_id (or_order row) = wid" "wo_run_unit_id (or_order row) = u_id unit" "wo_state (or_order row) = WAvailable"
      "wo_request_idempotency_key (or_order row) = ''operator_retry:'' @ rt_idempotency_key inp"
    by (rule create_retry_orders [OF unit(9)])
  let ?mine = "\<lambda>w. wo_run_unit_id (or_order w) = u_id unit \<and>
        wo_request_idempotency_key (or_order w) = ''operator_retry:'' @ rt_idempotency_key inp"
  have "active_orders (abandon_active (u_id unit) at d) (u_id unit) = []"
    by (auto simp: active_orders_def abandon_active_def row_update_defs filter_empty_conv set_update_where active_order_def split: if_splits)
  then have active: "active_orders d1 (u_id unit) = [row]"
    using row(2,4,5) by (simp add: active_orders_def active_order_def)
  have "List.find ?mine (db_orders (abandon_active (u_id unit) at d)) = None"
    using unit(8) by (auto simp: find_None_iff abandon_active_def row_update_defs set_update_where split: if_splits)
  then have found: "List.find ?mine (db_orders d1) = Some row" using row(2,4,6) by (simp add: find_append_None)
  have d1: "d1 = snd (retry_unit env inp at wid d)" using assms(2) by simp
  have later: "record_le d1 ?e" by (rule perform_all_later) (simp add: d1 retrying.keeps assms(1))
  then have le: "record_le d ?e" using retrying.later [OF assms(1)] d1 record_le_trans by metis
  obtain unit' where unit': "resolveRetryTarget (rt_target inp) ?e = Some unit'" "unit_le unit unit'"
    using later_retry_target [OF le unit(1)] by blast
  have refs: "u_id unit' = u_id unit" "u_run_id unit' = u_run_id unit" "u_stage_id unit' = u_stage_id unit"
    using unit'(2) by (auto simp: unit_le_def unit_ref_def)
  obtain stage' run' where sr: "find_stage_row ?e (u_stage_id unit) = Some stage'" "find_run ?e (u_run_id unit) = Some run'"
    using later_find_stage [OF le unit(2)] later_find_run [OF le unit(3)] by blast
  obtain row' where row': "List.find ?mine (db_orders ?e) = Some row'" "order_le row row'"
    using grows_find [OF record_le_grows(4) [OF later] found] by (auto simp: order_le_def order_ref_def)
  have "retry_unit env inp at' wid' ?e = (Inr (RetryAlreadyCreated (or_order row') rid (currentVersion ?e rid)), ?e)"
    using unit'(1) refs sr row'(1) row(1) by (simp add: retry_unit_def transaction_def retry_unit_tx_def Let_def currentVersion_def)
  moreover have "wo_id (or_order row') = wid" using row'(2) row(3) by (simp add: order_le_def order_ref_def)
  moreover have "or_order row = order \<and> wo_id order = wid \<and> wo_state order = WAvailable \<and> rid = u_run_id unit" using row(1,3,5) by simp
  ultimately show ?thesis using unit(1,3,4,5,6,7) active by blast
qed

definition demo_lost :: db where
  "demo_lost = perform_all demo_config [ObserveExecutor uuid0 (HealthUnresponsive ''gone'' ''t4'') ''t4''] demo_attached"

definition demo_retry :: retry_request where
  "demo_retry = \<lparr>rt_target = TargetRunUnit uuid0, rt_idempotency_key = ''k'', rt_actor = ''human''\<rparr>"

theorem retry_replaces_lost_work_witness:
  "\<exists>order v d1 row order'. retry_unit sample_env demo_retry ''t5'' ''new'' demo_lost = (Inr (RetryCreated order ''r'' v), d1) \<and>
    active_orders d1 uuid0 = [row] \<and> wo_id (or_order row) = ''new'' \<and>
    retry_unit sample_env demo_retry ''t6'' ''other'' (perform_all demo_config [DecideRun ''r'' ''t6''] d1) =
      (Inr (RetryAlreadyCreated order' ''r'' (currentVersion (perform_all demo_config [DecideRun ''r'' ''t6''] d1) ''r'')),
       perform_all demo_config [DecideRun ''r'' ''t6''] d1)"
proof -
  have "map_sum id (\<lambda>r. case r of RetryCreated w i v \<Rightarrow> Some i | _ \<Rightarrow> None) (fst (retry_unit sample_env demo_retry ''t5'' ''new'' demo_lost)) = Inr (Some ''r'')"
    by code_simp
  then obtain order v d1 where created: "retry_unit sample_env demo_retry ''t5'' ''new'' demo_lost = (Inr (RetryCreated order ''r'' v), d1)"
    by (cases "retry_unit sample_env demo_retry ''t5'' ''new'' demo_lost"; cases "fst (retry_unit sample_env demo_retry ''t5'' ''new'' demo_lost)")
      (auto split: retry_result.splits)
  have ok: "store_ok demo_lost" unfolding demo_lost_def using demo_attached_ok by (rule perform_all_ok)
  have target: "u_id unit = uuid0" if "resolveRetryTarget (rt_target demo_retry) demo_lost = Some unit" for unit
    using that find_unit_row_id by (fastforce simp: demo_retry_def)
  show ?thesis
    using retry_replaces_lost_work [OF ok created, where at' = "''t6''" and wid' = "''other''" and cf = demo_config and ops = "[DecideRun ''r'' ''t6'']"]
      created target by metis
qed

end
