(* ===== verification/Starts.thy ===== *)
theory Starts
  imports RetryProps
begin

text \<open>
  Who starts work: no operation of the record but the ask starts a work order, and every operation
  leaves each work order with the request its executor will be started with.
\<close>

definition starts_nothing :: "db \<Rightarrow> db \<Rightarrow> bool" where
  "starts_nothing d d' \<longleftrightarrow> started_orders d' \<subseteq> started_orders d \<and> (requested d \<longrightarrow> requested d')"

lemma starts_nothing_refl [simp]: "starts_nothing d d"
  by (simp add: starts_nothing_def)

lemma starts_nothing_trans [trans]: "starts_nothing d e \<Longrightarrow> starts_nothing e f \<Longrightarrow> starts_nothing d f"
  by (auto simp: starts_nothing_def)

lemma starts_nothing_uncommitted: "uncommitted d d' \<Longrightarrow> starts_nothing d d'"
  by (simp add: starts_nothing_def uncommitted_def)

lemma starts_nothing_orders: "db_orders d' = db_orders d \<Longrightarrow> starts_nothing d d'"
  by (simp add: starts_nothing_def started_orders_def requested_def)

lemma starts_nothing_commit: "commit_batch i effect d = Inr (v, d') \<Longrightarrow> starts_nothing d d'"
  using commit_batch_versions by (blast intro: starts_nothing_orders)

lemma starts_nothing_transaction:
  assumes "\<And>a d'. m d = Inr (a, d') \<Longrightarrow> starts_nothing d d'"
  shows "starts_nothing d (snd (transaction m d))"
  using assms by (auto simp: transaction_def split: sum.splits)

lemma persist_starts_nothing:
  assumes "\<forall>u\<in>set (ps_units inp). addressed (mu_initial_work_order u)"
  shows "starts_nothing d (snd (persist_materialized_stage env inp d))"
proof -
  have "starts_nothing d d'" if "persist_commit_tx env inp d = Inr (a, d')" for a d'
    using that by (auto simp: persist_commit_tx_def intro: starts_nothing_trans
        dest!: uncommitted_persist_tx [OF _ assms] starts_nothing_uncommitted starts_nothing_commit)
  then show ?thesis by (auto simp: persist_materialized_stage_def split: sum.split intro: starts_nothing_transaction)
qed

lemma revise_starts_nothing:
  assumes "addressed (rv_replacement inp)"
  shows "starts_nothing d (snd (revise_unit_input inp d))"
  unfolding revise_unit_input_def
proof (rule starts_nothing_transaction)
  fix a d' assume m: "revise_commit_tx inp d = Inr (a, d')"
  then obtain r d1 where r: "revise_unit_input_tx inp d = Inr (r, d1)" by (auto simp: revise_commit_tx_def)
  have "starts_nothing d1 d'"
    using m r by (cases r) (auto simp: revise_commit_tx_def dest: starts_nothing_commit)
  then show "starts_nothing d d'" using starts_nothing_uncommitted [OF uncommitted_revise_tx [OF r assms]] starts_nothing_trans by blast
qed

lemma create_retry_starts_nothing:
  assumes "create_retry inp at wid unit prior missing rebound d = Inr (r, d')"
  shows "starts_nothing d d'"
proof -
  obtain order where order: "db_orders d' = db_orders (abandon_active (u_id unit) at d) @ [order]"
      "wo_state (or_order order) = WAvailable" "or_request order = Some (fst rebound)"
      "wo_workflow_id (or_order order) = workOrderWorkflowId (wo_id (or_order order))"
    by (rule create_retry_orders [OF assms]) auto
  have "uncommitted d (abandon_active (u_id unit) at d)"
    unfolding abandon_active_def by (rule uncommitted_orders) simp
  then have "starts_nothing d (abandon_active (u_id unit) at d)" by (rule starts_nothing_uncommitted)
  moreover have "starts_nothing (abandon_active (u_id unit) at d) d'"
    using order by (auto simp: starts_nothing_def started_orders_def requested_def)
  ultimately show ?thesis by (rule starts_nothing_trans)
qed

lemma retry_starts_nothing: "starts_nothing d (snd (retry_unit env inp at wid d))"
  unfolding retry_unit_def
  by (rule starts_nothing_transaction)
    (auto simp: retry_unit_tx_def Let_def split: option.splits if_splits intro: create_retry_starts_nothing)

lemma record_transition_orders: "record_transition p d = Inr (v, d') \<Longrightarrow> db_orders d' = db_orders d"
  by (auto simp: record_transition_def Let_def insertTransition_Inr bump_version_def row_update_defs)

lemma publish_orders:
  assumes "accept_publication request work unit slot waitId d = Inr (r, d')"
  shows "db_orders d' = db_orders d"
proof -
  obtain d1 d2 where d1: "insert_artifact (published_artifact request work unit slot) d = Inr d1"
    and d2: "insert_emission (published_emission request (published_artifact request work unit slot)) d1 = Inr d2"
    and d3: "release_now request unit (replaced_artifact (slot_state slot)) (withdraw_replaced request (replaced_artifact (slot_state slot)) d2) = Inr (r, d') \<or>
      park request work unit slot (replaced_artifact (slot_state slot)) waitId (withdraw_replaced request (replaced_artifact (slot_state slot)) d2) = Inr (r, d')"
    using assms by (auto simp: accept_publication_def Let_def split: if_splits)
  have "db_orders d1 = db_orders d" "db_orders d2 = db_orders d1"
    using d1 d2 by (auto simp: insert_artifact_def insert_emission_def split: if_splits)
  moreover have "db_orders (withdraw_replaced request old e) = db_orders e" for old e
    by (simp add: withdraw_replaced_def row_update_defs split: option.split)
  moreover have "db_orders d' = db_orders e" if "release_now request unit old e = Inr (r, d') \<or> park request work unit slot old waitId e = Inr (r, d')" for old e
    using that by (auto simp: release_now_def park_def Let_def insert_wait_def set_slot_def row_update_defs split: if_splits dest!: record_transition_orders)
  ultimately show ?thesis using d3 by metis
qed

lemma publish_starts_nothing: "starts_nothing d (snd (publish_artifact request waitId d))"
  unfolding publish_artifact_def 
proof (rule starts_nothing_transaction)
  fix r d' assume "publish_artifact_tx request waitId d = Inr (r, d')"
  then have "d' = d \<or> (\<exists>work unit slot. accept_publication request work unit slot waitId d = Inr (r, d'))"
    by (auto simp: publish_artifact_tx_def split: option.splits if_splits)
  then show "starts_nothing d d'" using publish_orders starts_nothing_orders by auto
qed

lemma apply_close_starts_nothing:
  assumes "apply_close request rid k slot artifact outcome d = Inr (r, d')"
  shows "starts_nothing d d'"
proof -
  let ?d1 = "update_waits (\<lambda>w. wait_id w = cl_wait_id request) (close_wait outcome (cl_decided_at request)) d"
  have producer: "starts_nothing e (abandon_producer request uid producer e)" for e uid producer
    unfolding abandon_producer_def by (intro starts_nothing_uncommitted uncommitted_orders) simp
  have frame: "starts_nothing e (update_slots p f e)" "starts_nothing e (update_units p2 f2 e)" "starts_nothing e (update_artifacts p3 f3 e)"
      "starts_nothing e (update_waits p4 f4 e)" for e p f p2 f2 p3 f3 p4 f4
    by (rule starts_nothing_orders; simp add: row_update_defs)+
  have "starts_nothing ?d1 (invalidate_rows request k slot ?d1)" "starts_nothing ?d1 (release_slot request k artifact ?d1)"
    unfolding invalidate_rows_def release_slot_def Let_def
    by (auto split: option.split intro: frame starts_nothing_trans [OF frame(1)] starts_nothing_trans [OF _ frame(2)] producer
        starts_nothing_trans [OF frame(1) producer])
  moreover obtain p v e where "record_transition p e = Inr (v, d')"
      "e = invalidate_rows request k slot ?d1 \<or> e = release_slot request k artifact ?d1"
    using assms by (auto simp: apply_close_def Let_def split: if_splits)
  ultimately show ?thesis
    using starts_nothing_orders [OF record_transition_orders] starts_nothing_trans frame(4) by metis
qed

lemma close_tx_starts_nothing: "closeOutputWaitTransaction request d = Inr (r, d') \<Longrightarrow> starts_nothing d d'"
  by (auto simp: closeOutputWaitTransaction_def Let_def split: option.splits list.splits wait_status.splits if_splits slot_state.splits
      intro: apply_close_starts_nothing)

lemma close_starts_nothing: "starts_nothing d (snd (close_output_wait request d))"
  unfolding close_output_wait_def by (rule starts_nothing_transaction) (rule close_tx_starts_nothing)

lemma coordinated_starts_nothing: "coordinated_close request d = Inr (r, d') \<Longrightarrow> starts_nothing d d'"
  by (auto simp: coordinated_close_def split: sum.splits if_splits dest: close_tx_starts_nothing)

lemma upstream_starts_nothing:
  assumes "close_upstream request uid d = Inr d'"
  shows "starts_nothing d d'"
proof -
  obtain ws where "fold_result (\<lambda>w d. bind_result (coordinated_close (upstream_request request w) d) (\<lambda>(_, d'). Ok d')) ws d = Inr d'"
    using assms by (cases "upstream_handoffs d uid") (auto simp: close_upstream_def simp del: fold_result.simps)
  from fold_result_invariant [OF this, of "starts_nothing d"] show ?thesis
    by (auto intro: starts_nothing_trans dest: coordinated_starts_nothing)
qed

lemma gate_starts_nothing: "starts_nothing d (snd (decide_gate_wait request d))"
proof -
  have "starts_nothing d d'" if "decide_gate_tx request d = Inr (r, d')" for r d'
    using that
    by (auto simp: decide_gate_tx_def Let_def split: option.splits if_splits output_release.splits
        dest!: coordinated_starts_nothing upstream_starts_nothing intro: starts_nothing_trans)
  then show ?thesis by (auto simp: decide_gate_wait_def split: sum.split failure.split)
qed

lemma handoff_starts_nothing: "starts_nothing d (snd (complete_handoff_artifact request d))"
  by (auto simp: complete_handoff_artifact_def Let_def split: option.split output_release.split intro: close_starts_nothing)

lemma cancel_starts_nothing: "starts_nothing d (snd (cancel_run request d))"
proof -
  have rows: "starts_nothing d (cancel_rows rid outcome at d)" for rid outcome at
  proof -
    let ?d = "update_orders (\<lambda>w. unit_in_run d rid (wo_run_unit_id (or_order w)) \<and> active_order (wo_state (or_order w)))
        (\<lambda>w. w\<lparr>or_order := (or_order w)\<lparr>wo_state := WAbandoned, wo_completed_at := Some at\<rparr>\<rparr>) d"
    have "uncommitted d ?d" by (rule uncommitted_orders) simp
    moreover have "db_orders (cancel_rows rid outcome at d) = db_orders ?d" by (simp add: cancel_rows_tables(2) update_orders_def)
    ultimately show ?thesis by (blast intro: starts_nothing_trans [OF starts_nothing_uncommitted starts_nothing_orders])
  qed
  have "starts_nothing d d'" if "insertTransition p a b (cancel_rows rid outcome at d) = Inr d'" for p a b rid outcome at d'
    using that rows [of rid outcome at] by (auto simp: insertTransition_Inr intro: starts_nothing_trans [OF _ starts_nothing_orders])
  then show ?thesis
    by (auto simp: cancel_run_def Let_def split: option.splits if_splits intro!: starts_nothing_transaction)
qed

lemma admit_starts_nothing: "starts_nothing d (snd (admit_unit env request at d))"
proof -
  have "db_orders d' = db_orders d" if "record_admission env request at unit run d = Inr (r, d')" for unit run r d'
    using that by (auto simp: record_admission_def Let_def insert_admission_def insertTransition_Inr set_version_def row_update_defs split: if_splits)
  then show ?thesis
    unfolding admit_unit_def
    by (intro starts_nothing_transaction) (auto simp: admit_unit_tx_def split: option.splits if_splits intro: starts_nothing_orders)
qed

lemma attachment_starts_nothing:
  "starts_nothing d (update_attachments p f d)" "starts_nothing d (snd (ensure_executor_attachment order executor at d))"
  by (auto simp: ensure_executor_attachment_def Let_def update_attachments_def split: option.split intro: starts_nothing_orders)

fun is_ask :: "operation \<Rightarrow> bool" where
  "is_ask (DecideRun _ _) = True"
| "is_ask _ = False"

text \<open>
  A caller of \<open>persist_materialized_stage\<close> or \<open>revise_unit_input\<close> addresses the orders it brings by their ids, as
  \<open>resolveWorkOrder\<close> does.
\<close>

fun addressed_op :: "operation \<Rightarrow> bool" where
  "addressed_op (PersistStage inp) = list_all (\<lambda>u. addressed (mu_initial_work_order u)) (ps_units inp)"
| "addressed_op (ReviseInput inp) = addressed (rv_replacement inp)"
| "addressed_op _ = True"

lemma perform_starts_nothing: "\<not> is_ask x \<Longrightarrow> addressed_op x \<Longrightarrow> starts_nothing d (perform cf x d)"
  by (cases x) (auto simp: attach_external_def observe_executor_def request_cleanup_def finish_cleanup_def list_all_iff
      persist_starts_nothing revise_starts_nothing retry_starts_nothing admit_starts_nothing publish_starts_nothing close_starts_nothing
      gate_starts_nothing handoff_starts_nothing cancel_starts_nothing attachment_starts_nothing)

end
