(* ===== verification/Topology.thy ===== *)
theory Topology
  imports Starts
begin

text \<open>
  The workflows of \<open>workflows/run-record-topology.ts\<close>: the root of a run, which asks and starts a
  child for every work order the ask started; the child, which attaches an executor and observes it
  until it ends; and the cleanup workflow. DBOS is the scheduler: a workflow id is started once, and a workflow
  resumes where its record ends. A step whose result was not recorded, because the process died or the
  connection broke after the commit, is executed again: its effects stay and its answer is lost. The
  executors are parameters of the steps, and may answer differently every time.
\<close>

section \<open>Steps\<close>

record executor_adapter =
  xa_start_or_attach :: "execution_request \<Rightarrow> string \<Rightarrow> string + external_reference"
  xa_observe_terminal :: "string \<Rightarrow> external_reference \<Rightarrow> string + observation_attempt"
  xa_cancel_or_fence :: "string \<Rightarrow> external_reference \<Rightarrow> string + unit"

type_synonym executors = "string \<Rightarrow> executor_adapter option"

definition loadWorkOrderStep :: "string \<Rightarrow> db \<Rightarrow> string + work_order_execution" where
  "loadWorkOrderStep i d =
     bind_result (find_work_order_execution d i) (\<lambda>found.
       case found of None \<Rightarrow> Err (''work order '' @ sq i @ '' was not found'') | Some execution \<Rightarrow> Ok execution)"

definition executor_for :: "executors \<Rightarrow> work_order_execution \<Rightarrow> string + executor_adapter" where
  "executor_for find_executor execution =
     (case find_executor (er_executor_type (we_request execution)) of
        None \<Rightarrow> Err (''executor adapter '' @ sq (er_executor_type (we_request execution)) @ '' is not registered'')
      | Some adapter \<Rightarrow> Ok adapter)"

text \<open>The attachment is stored before the executor is asked to start, the reference after.\<close>

definition ensureExecutorStep :: "executors \<Rightarrow> (nat \<Rightarrow> string) \<Rightarrow> work_order_execution \<Rightarrow> db \<Rightarrow> (string + external_reference) \<times> db" where
  "ensureExecutorStep find_executor now execution d =
     (let order = wo_id (we_work_order execution)
      in case executor_for find_executor execution of
           Inl e \<Rightarrow> (Inl e, d)
         | Inr adapter \<Rightarrow>
             (case ensure_executor_attachment order (er_executor_type (we_request execution)) (now 0) d of
                (Inl e, d1) \<Rightarrow> (Inl e, d1)
              | (Inr _, d1) \<Rightarrow>
                  (case xa_start_or_attach adapter (we_request execution) order of
                     Inl e \<Rightarrow> (Inl e, d1)
                   | Inr reference \<Rightarrow> (Inr reference, attach_external order reference (now 1) d1))))"

definition observeExecutorStep ::
    "executors \<Rightarrow> string \<Rightarrow> work_order_execution \<Rightarrow> external_reference \<Rightarrow> db \<Rightarrow> (string + observation_attempt) \<times> db" where
  "observeExecutorStep find_executor now execution reference d =
     (case executor_for find_executor execution of
        Inl e \<Rightarrow> (Inl e, d)
      | Inr adapter \<Rightarrow>
          (case xa_observe_terminal adapter (er_execution_id (we_request execution)) reference of
             Inl e \<Rightarrow> (Inl e, d)
           | Inr (ObservationTerminal observation) \<Rightarrow>
               (Inr (ObservationTerminal observation),
                observe_executor (wo_id (we_work_order execution)) (executorHealthFromTerminal observation now) now d)
           | Inr ObservationPending \<Rightarrow>
               (Inr ObservationPending, observe_executor (wo_id (we_work_order execution)) (HealthRunning now) now d)))"

definition cleanupExecutorStep ::
    "executors \<Rightarrow> (nat \<Rightarrow> string) \<Rightarrow> work_order_execution \<Rightarrow> external_reference \<Rightarrow> db \<Rightarrow> (string + unit) \<times> db" where
  "cleanupExecutorStep find_executor now execution reference d =
     (let order = wo_id (we_work_order execution)
      in case executor_for find_executor execution of
           Inl e \<Rightarrow> (Inl e, d)
         | Inr adapter \<Rightarrow>
             (let d1 = request_cleanup order (now 0) d
              in case xa_cancel_or_fence adapter (er_execution_id (we_request execution)) reference of
                   Inl e \<Rightarrow> (Inl e, finish_cleanup order False (now 1) d1)
                 | Inr _ \<Rightarrow> (Inr (), finish_cleanup order True (now 1) d1)))"

section \<open>The workflows\<close>

datatype root_state =
    RootAsking
  | RootStarting "(string \<times> string) list"
  | RootBackingOff
  | RootReceiving
  | RootReturned stage_outcome
  | RootThrown string

text \<open>One pass of the root's loop up to its next suspension.\<close>

definition root_turn :: "config \<Rightarrow> string \<Rightarrow> string \<Rightarrow> db \<Rightarrow> root_state \<times> db" where
  "root_turn cf rid at d =
     (case decide_run (cf_env cf) (cf_registry cf) (cf_loader cf) rid at d of
        (Inl _, d') \<Rightarrow> (RootBackingOff, d')
      | (Inr (AskRunNotFound detail), d') \<Rightarrow> (RootThrown (''decide_run:run_not_found:'' @ detail), d')
      | (Inr (Asked (AskComplete outcome)), d') \<Rightarrow> (RootReturned outcome, d')
      | (Inr (Asked (AskRecheck _ started)), d') \<Rightarrow> (RootStarting started, d')
      | (Inr (Asked (AskWait _)), d') \<Rightarrow> (RootReceiving, d'))"

datatype worker_state =
    WorkerLoading
  | WorkerEnsuring work_order_execution
  | WorkerObserving work_order_execution external_reference
  | WorkerSleeping work_order_execution external_reference
  | WorkerEnded work_order_execution external_reference
  | WorkerThrown string

text \<open>
  One step of a child; \<open>WorkerEnded\<close> is the return, after which the cleanup workflow of the
  same execution and reference has been started.
\<close>

fun worker_turn :: "executors \<Rightarrow> (nat \<Rightarrow> string) \<Rightarrow> string \<Rightarrow> worker_state \<Rightarrow> db \<Rightarrow> worker_state \<times> db" where
  "worker_turn ex now order WorkerLoading d =
     (case loadWorkOrderStep order d of Inl e \<Rightarrow> (WorkerThrown e, d) | Inr execution \<Rightarrow> (WorkerEnsuring execution, d))"
| "worker_turn ex now order (WorkerEnsuring execution) d =
     (case ensureExecutorStep ex now execution d of
        (Inl e, d') \<Rightarrow> (WorkerThrown e, d')
      | (Inr reference, d') \<Rightarrow> (WorkerObserving execution reference, d'))"
| "worker_turn ex now order (WorkerObserving execution reference) d =
     (case observeExecutorStep ex (now 0) execution reference d of
        (Inl e, d') \<Rightarrow> (WorkerThrown e, d')
      | (Inr (ObservationTerminal _), d') \<Rightarrow> (WorkerEnded execution reference, d')
      | (Inr ObservationPending, d') \<Rightarrow> (WorkerSleeping execution reference, d'))"
| "worker_turn ex now order (WorkerSleeping execution reference) d = (WorkerObserving execution reference, d)"
| "worker_turn ex now order (WorkerEnded execution reference) d = (WorkerEnded execution reference, d)"
| "worker_turn ex now order (WorkerThrown e) d = (WorkerThrown e, d)"

section \<open>The system\<close>

text \<open>
  \<open>sy_lost\<close> and \<open>sy_deleted\<close> are history variables, which no step reads: the orders named by answers that
  no root recorded, and the runs that were deleted.
\<close>

record system =
  sy_store :: launch_store
  sy_roots :: "string \<Rightarrow> root_state option"
  sy_workers :: "string \<Rightarrow> (string \<times> worker_state) option"
  sy_cleanups :: "string \<Rightarrow> (work_order_execution \<times> external_reference) option"
  sy_lost :: "string set"
  sy_deleted :: "string set"

abbreviation sy_db :: "system \<Rightarrow> db" where
  "sy_db s \<equiv> ls_db (sy_store s)"

definition with_db :: "db \<Rightarrow> system \<Rightarrow> system" where
  "with_db d s = s\<lparr>sy_store := (sy_store s)\<lparr>ls_db := d\<rparr>\<rparr>"

text \<open>\<open>DBOS.startWorkflow\<close> with a workflow id that exists is the workflow that exists.\<close>

definition start_worker :: "string \<Rightarrow> string \<Rightarrow> system \<Rightarrow> system" where
  "start_worker wid order s =
     (if sy_workers s wid = None then s\<lparr>sy_workers := (sy_workers s)(wid \<mapsto> (order, WorkerLoading))\<rparr> else s)"

definition start_cleanup :: "work_order_execution \<Rightarrow> external_reference \<Rightarrow> system \<Rightarrow> system" where
  "start_cleanup execution reference s =
     (let wid = wo_workflow_id (we_work_order execution) @ '':cleanup''
      in if sy_cleanups s wid = None then s\<lparr>sy_cleanups := (sy_cleanups s)(wid \<mapsto> (execution, reference))\<rparr> else s)"

definition set_root :: "string \<Rightarrow> root_state \<Rightarrow> system \<Rightarrow> system" where
  "set_root rid r s = s\<lparr>sy_roots := (sy_roots s)(rid \<mapsto> r)\<rparr>"

definition set_worker :: "string \<Rightarrow> string \<times> worker_state \<Rightarrow> system \<Rightarrow> system" where
  "set_worker wid w s = s\<lparr>sy_workers := (sy_workers s)(wid \<mapsto> w)\<rparr>"

definition ended :: "worker_state \<Rightarrow> system \<Rightarrow> system" where
  "ended ws s = (case ws of WorkerEnded execution reference \<Rightarrow> start_cleanup execution reference s | _ \<Rightarrow> s)"

text \<open>The orders that an answer tells the root to start.\<close>

definition named :: "root_state \<Rightarrow> string set" where
  "named r = (case r of RootStarting todo \<Rightarrow> fst ` set todo | _ \<Rightarrow> {})"

definition lose :: "root_state \<Rightarrow> system \<Rightarrow> system" where
  "lose r s = s\<lparr>sy_lost := sy_lost s \<union> named r\<rparr>"

definition remove_run :: "string \<Rightarrow> system \<Rightarrow> system" where
  "remove_run rid s =
     (let (r, st) = delete_launched_run rid (sy_store s)
      in s\<lparr>sy_store := st, sy_deleted := (if r = Inr (Deleted rid) then insert rid (sy_deleted s) else sy_deleted s)\<rparr>)"

text \<open>
  Every step of the system: launches, definitions, projects, archiving and deletion, the workflows' own steps, and every other
  operation of the record at any time. Every step of a workflow may be executed and its result lost: of an ask
  (\<open>root_answer_lost\<close>, after which the root asks again at once or, its attempts used up, after the back-off), of the
  start of a worker (\<open>root_start_repeats\<close>), of a worker's step (\<open>worker_repeats\<close>) and of a cleanup. Only the
  root asks. A root is started for a run that is or was stored.
\<close>

inductive system_step :: "config \<Rightarrow> zod_env \<Rightarrow> system \<Rightarrow> system \<Rightarrow> bool" for cf z where
  stored: "system_step cf z s (with_db (snd (insert_immutable z w (sy_db s))) s)"
| definition_archived: "system_step cf z s (with_db (snd (set_definition_archived z i b (sy_db s))) s)"
| project_inserted: "system_step cf z s (s\<lparr>sy_store := insert_project pj (sy_store s)\<rparr>)"
| launched: "system_step cf z s (s\<lparr>sy_store := snd (create_run inp (sy_store s))\<rparr>)"
| run_archived: "system_step cf z s (s\<lparr>sy_store := snd (set_run_archived i b (sy_store s))\<rparr>)"
| run_deleted: "system_step cf z s (remove_run rid s)"
| root_started: "sy_roots s rid = None \<Longrightarrow> find_run (sy_db s) rid \<noteq> None \<or> rid \<in> sy_deleted s \<Longrightarrow>
    system_step cf z s (set_root rid RootAsking s)"
| root_asks: "sy_roots s rid = Some RootAsking \<Longrightarrow> root_turn cf rid at (sy_db s) = (r, d) \<Longrightarrow>
    system_step cf z s (set_root rid r (with_db d s))"
| root_answer_lost: "sy_roots s rid = Some RootAsking \<Longrightarrow> root_turn cf rid at (sy_db s) = (r, d) \<Longrightarrow>
    again \<in> {RootAsking, RootBackingOff} \<Longrightarrow> system_step cf z s (set_root rid again (lose r (with_db d s)))"
| root_starts: "sy_roots s rid = Some (RootStarting ((order, unit) # rest)) \<Longrightarrow> loadWorkOrderStep order (sy_db s) = Inr execution \<Longrightarrow>
    system_step cf z s (set_root rid (RootStarting rest)
      (start_worker (wo_workflow_id (we_work_order execution)) (wo_id (we_work_order execution)) s))"
| root_start_repeats: "sy_roots s rid = Some (RootStarting ((order, unit) # rest)) \<Longrightarrow> loadWorkOrderStep order (sy_db s) = Inr execution \<Longrightarrow>
    system_step cf z s (start_worker (wo_workflow_id (we_work_order execution)) (wo_id (we_work_order execution)) s)"
| root_throws: "sy_roots s rid = Some (RootStarting ((order, unit) # rest)) \<Longrightarrow> loadWorkOrderStep order (sy_db s) = Inl e \<Longrightarrow>
    system_step cf z s (set_root rid (RootThrown e) s)"
| root_continues: "sy_roots s rid = Some r \<Longrightarrow> r \<in> {RootStarting [], RootBackingOff, RootReceiving} \<Longrightarrow>
    system_step cf z s (set_root rid RootAsking s)"
| worker_works: "sy_workers s wid = Some (order, ws) \<Longrightarrow> worker_turn ex now order ws (sy_db s) = (ws', d) \<Longrightarrow>
    system_step cf z s (ended ws' (set_worker wid (order, ws') (with_db d s)))"
| worker_repeats: "sy_workers s wid = Some (order, ws) \<Longrightarrow> worker_turn ex now order ws (sy_db s) = (ws', d) \<Longrightarrow>
    system_step cf z s (with_db d s)"
| cleanup_works: "sy_cleanups s wid = Some (execution, reference) \<Longrightarrow> cleanupExecutorStep ex now execution reference (sy_db s) = (r, d) \<Longrightarrow>
    system_step cf z s (with_db d s)"
| operated: "\<not> is_ask x \<Longrightarrow> addressed_op x \<Longrightarrow> system_step cf z s (with_db (perform cf x (sy_db s)) s)"

inductive_cases system_stepE: "system_step cf z s t"

definition empty_system :: "string option \<Rightarrow> system" where
  "empty_system seed = \<lparr>sy_store = empty_store seed, sy_roots = Map.empty, sy_workers = Map.empty, sy_cleanups = Map.empty,
     sy_lost = {}, sy_deleted = {}\<rparr>"

inductive system_reachable :: "config \<Rightarrow> zod_env \<Rightarrow> system \<Rightarrow> bool" for cf z where
  begun: "system_reachable cf z (empty_system seed)"
| stepped: "system_reachable cf z s \<Longrightarrow> system_step cf z s t \<Longrightarrow> system_reachable cf z t"

section \<open>The invariant of the system\<close>

text \<open>The run that an order of the record belongs to.\<close>

definition order_run :: "db \<Rightarrow> string \<Rightarrow> string option" where
  "order_run d i = map_option (\<lambda>(w, u). u_run_id u) (owned_order d i)"

lemma find_order_id: "find_order d i = Some w \<Longrightarrow> wo_id (or_order w) = i \<and> w \<in> set (db_orders d)"
  by (auto simp: find_order_def dest!: find_Some_set)

lemma stored_order:
  assumes "store_ok d" and "w \<in> set (db_orders d)"
  shows "find_order d (wo_id (or_order w)) = Some w"
proof -
  have "distinct (map (\<lambda>w. wo_id (or_order w)) (db_orders d))"
    using assms(1) by (simp add: store_ok_def identity_ok_def identity_of_def order_ref_def comp_def)
  then show ?thesis unfolding find_order_def using assms(2) by (rule find_distinct_key)
qed

lemma stored_owner:
  assumes "store_ok d" and "w \<in> set (db_orders d)"
  obtains u where "owned_order d (wo_id (or_order w)) = Some (w, u)" "u \<in> set (db_units d)" "u_id u = wo_run_unit_id (or_order w)"
proof -
  obtain u where "find_unit_row d (wo_run_unit_id (or_order w)) = Some u"
    using store_ok_order_unit [OF assms] by (cases "find_unit_row d (wo_run_unit_id (or_order w))") (auto simp: find_unit_row_def find_None_iff)
  then show thesis using that [of u] stored_order [OF assms] find_unit_row_id by (simp add: owned_order_def)
qed

lemma order_run_unit:
  assumes "store_ok d" and "w \<in> set (db_orders d)"
  shows "unit_in_run d rid (wo_run_unit_id (or_order w)) \<longleftrightarrow> order_run d (wo_id (or_order w)) = Some rid"
proof -
  obtain u where u: "owned_order d (wo_id (or_order w)) = Some (w, u)" "u \<in> set (db_units d)" "u_id u = wo_run_unit_id (or_order w)"
    by (rule stored_owner [OF assms])
  then show ?thesis using unit_in_run_iff [OF assms(1) u(2), of rid] by (simp add: order_run_def)
qed

lemma started_run:
  assumes "store_ok d" and "i \<in> started_orders d"
  obtains rid where "order_run d i = Some rid"
proof -
  obtain w where w: "w \<in> set (db_orders d)" "wo_id (or_order w) = i" using assms(2) by (auto simp: started_orders_def)
  obtain u where "owned_order d (wo_id (or_order w)) = Some (w, u)" by (rule stored_owner [OF assms(1) w(1)])
  then show thesis using that w(2) by (simp add: order_run_def)
qed

lemma order_run_later: "record_le d e \<Longrightarrow> order_run d i = Some rid \<Longrightarrow> order_run e i = Some rid"
  using later_owned_order by (fastforce simp: order_run_def unit_le_def unit_ref_def)

text \<open>Every run names a definition that is stored.\<close>

definition runs_defined :: "db \<Rightarrow> bool" where
  "runs_defined d \<longleftrightarrow> (\<forall>r\<in>set (db_runs d). \<exists>row\<in>set (db_definitions d). df_id row = run_definition_id r)"

lemma runs_defined_later:
  assumes "record_le d e" and "runs_defined d"
  shows "runs_defined e"
proof -
  have len: "length (db_runs e) = length (db_runs d)" and rows: "\<forall>i < length (db_runs d). run_le (db_runs d ! i) (db_runs e ! i)"
    and same: "db_definitions e = db_definitions d"
    using assms(1) by (simp_all add: record_le_def grows_def)
  have "\<exists>row\<in>set (db_definitions d). df_id row = run_definition_id r" if r: "r \<in> set (db_runs e)" for r
  proof -
    obtain i where i: "i < length (db_runs d)" "r = db_runs e ! i" using r len by (auto simp: in_set_conv_nth)
    then have "run_definition_id r = run_definition_id (db_runs d ! i)" using rows by (simp add: run_le_def)
    then show ?thesis using assms(2) i(1) by (simp add: runs_defined_def)
  qed
  then show ?thesis by (simp add: runs_defined_def same)
qed

text \<open>
  A started order is on its way when the root of its run is about to start its workflow, when the workflow
  exists, or when its start was named by a lost answer only.
\<close>

definition on_its_way :: "system \<Rightarrow> string \<Rightarrow> string \<Rightarrow> bool" where
  "on_its_way s rid i \<longleftrightarrow>
     (\<exists>r. sy_roots s rid = Some r \<and> i \<in> named r) \<or> (\<exists>wid ws. sy_workers s wid = Some (i, ws)) \<or> i \<in> sy_lost s"

text \<open>
  A root is about to start orders of its own run, unless the run was deleted meanwhile, and then it has no started
  order even if it was launched again.
\<close>

definition root_ok :: "db \<Rightarrow> string set \<Rightarrow> string \<Rightarrow> root_state \<Rightarrow> bool" where
  "root_ok d deleted rid r \<longleftrightarrow>
     (find_run d rid \<noteq> None \<or> rid \<in> deleted) \<and>
     ((\<forall>i\<in>named r. order_run d i = Some rid) \<or> rid \<in> deleted \<and> (\<forall>i\<in>started_orders d. order_run d i \<noteq> Some rid)) \<and>
     (\<forall>e. r = RootThrown e \<longrightarrow> rid \<in> deleted)"

fun worker_holds :: "worker_state \<Rightarrow> (work_order_execution \<times> external_reference option) option" where
  "worker_holds (WorkerEnsuring x) = Some (x, None)"
| "worker_holds (WorkerObserving x r) = Some (x, Some r)"
| "worker_holds (WorkerSleeping x r) = Some (x, Some r)"
| "worker_holds (WorkerEnded x r) = Some (x, Some r)"
| "worker_holds _ = None"

definition worker_ok :: "(string \<Rightarrow> 'c option) \<Rightarrow> string \<Rightarrow> string \<Rightarrow> worker_state \<Rightarrow> bool" where
  "worker_ok cleanups wid i ws \<longleftrightarrow>
     wid = workOrderWorkflowId i \<and>
     (\<forall>x r. worker_holds ws = Some (x, r) \<longrightarrow> wo_id (we_work_order x) = i \<and> wo_workflow_id (we_work_order x) = wid) \<and>
     (\<forall>x r. ws = WorkerEnded x r \<longrightarrow> cleanups (wid @ '':cleanup'') \<noteq> None)"

definition system_ok :: "system \<Rightarrow> bool" where
  "system_ok s \<longleftrightarrow>
     store_ok (sy_db s) \<and> requested (sy_db s) \<and> runs_defined (sy_db s) \<and>
     (\<forall>i\<in>started_orders (sy_db s). \<forall>rid. order_run (sy_db s) i = Some rid \<longrightarrow> on_its_way s rid i) \<and>
     (\<forall>rid r. sy_roots s rid = Some r \<longrightarrow> root_ok (sy_db s) (sy_deleted s) rid r) \<and>
     (\<forall>wid i ws. sy_workers s wid = Some (i, ws) \<longrightarrow> worker_ok (sy_cleanups s) wid i ws)"

lemma with_db_simps [simp]:
  "sy_db (with_db d s) = d" "sy_roots (with_db d s) = sy_roots s" "sy_workers (with_db d s) = sy_workers s"
  "sy_cleanups (with_db d s) = sy_cleanups s" "sy_lost (with_db d s) = sy_lost s" "sy_deleted (with_db d s) = sy_deleted s"
  by (simp_all add: with_db_def)

lemma on_its_way_mono:
  assumes "on_its_way s rid i" and "\<And>r. sy_roots s rid = Some r \<Longrightarrow> i \<in> named r \<Longrightarrow> on_its_way t rid i"
    and "\<And>wid ws. sy_workers s wid = Some (i, ws) \<Longrightarrow> \<exists>ws'. sy_workers t wid = Some (i, ws')" and "sy_lost s \<subseteq> sy_lost t"
  shows "on_its_way t rid i"
  using assms unfolding on_its_way_def by blast

text \<open>A change of the database that starts nothing and keeps every run and every order in its run.\<close>

definition moves :: "db \<Rightarrow> db \<Rightarrow> bool" where
  "moves d d' \<longleftrightarrow> store_ok d' \<and> starts_nothing d d' \<and> (runs_defined d \<longrightarrow> runs_defined d') \<and>
     (\<forall>rid. find_run d rid \<noteq> None \<longrightarrow> find_run d' rid \<noteq> None) \<and>
     (\<forall>i rid. order_run d i = Some rid \<longrightarrow> order_run d' i = Some rid)"

lemma moves_later:
  assumes "store_ok d'" and "starts_nothing d d'" and "record_le d d'"
  shows "moves d d'"
  using assms runs_defined_later order_run_later later_find_run unfolding moves_def by (metis option.distinct(1) option.exhaust)

lemma moves_same:
  assumes "store_ok d'" "db_orders d' = db_orders d" "db_units d' = db_units d" "runs_defined d \<longrightarrow> runs_defined d'"
    "\<And>rid. find_run d rid \<noteq> None \<Longrightarrow> find_run d' rid \<noteq> None"
  shows "moves d d'"
proof -
  have "find_order d' = find_order d" "find_unit_row d' = find_unit_row d"
    using assms(2,3) by (simp_all add: fun_eq_iff find_order_def find_unit_row_def)
  then have "order_run d' = order_run d" by (intro ext) (simp add: order_run_def owned_order_def split: option.split)
  then show ?thesis using assms by (auto simp: moves_def starts_nothing_orders)
qed

lemma order_run_same_started:
  assumes "store_ok d" and "i \<in> started_orders d" and "\<And>rid. order_run d i = Some rid \<Longrightarrow> order_run d' i = Some rid" and "order_run d' i = Some rid"
  shows "order_run d i = Some rid"
  using started_run [OF assms(1,2)] assms(3,4) by (metis option.inject)

lemma moved_ok:
  assumes ok: "system_ok s" and "moves (sy_db s) (sy_db t)"
    and same: "sy_roots t = sy_roots s" "sy_workers t = sy_workers s" "sy_cleanups t = sy_cleanups s" "sy_lost t = sy_lost s" "sy_deleted t = sy_deleted s"
  shows "system_ok t"
proof -
  let ?d = "sy_db s" and ?e = "sy_db t"
  have m: "store_ok ?e" "started_orders ?e \<subseteq> started_orders ?d" "requested ?e" "runs_defined ?e"
    and runs: "\<And>rid. find_run ?d rid \<noteq> None \<Longrightarrow> find_run ?e rid \<noteq> None"
    and own: "\<And>i rid. order_run ?d i = Some rid \<Longrightarrow> order_run ?e i = Some rid"
    using assms(1,2) by (auto simp: moves_def starts_nothing_def system_ok_def)
  have before: "order_run ?d i = Some rid" if "i \<in> started_orders ?e" "order_run ?e i = Some rid" for i rid
    by (rule order_run_same_started [of ?d i ?e rid]) (use ok that m(2) own in \<open>auto simp: system_ok_def\<close>)
  have "on_its_way t = on_its_way s" using same by (simp add: on_its_way_def fun_eq_iff)
  then have "on_its_way t rid i" if "i \<in> started_orders ?e" "order_run ?e i = Some rid" for i rid
    using ok before [OF that] that m(2) by (auto simp: system_ok_def)
  moreover have "root_ok ?e (sy_deleted t) rid r" if "sy_roots s rid = Some r" for rid r
  proof -
    have "root_ok ?d (sy_deleted s) rid r" using ok that by (simp add: system_ok_def)
    then show ?thesis using runs own before m(2) unfolding root_ok_def same by blast
  qed
  ultimately show ?thesis using ok m same by (simp add: system_ok_def)
qed

text \<open>The executor steps write the attachment table only.\<close>

definition attachments_only :: "db \<Rightarrow> db \<Rightarrow> bool" where
  "attachments_only d d' \<longleftrightarrow> (\<exists>x. d' = d\<lparr>db_attachments := x\<rparr>)"

lemma attachments_only_refl [simp]: "attachments_only d d"
  unfolding attachments_only_def by (rule exI [of _ "db_attachments d"]) simp

lemma attachments_only_trans: "attachments_only d e \<Longrightarrow> attachments_only e f \<Longrightarrow> attachments_only d f"
  by (auto simp: attachments_only_def)

lemma attachments_only_moves: "attachments_only d d' \<Longrightarrow> store_ok d \<Longrightarrow> moves d d'"
  by (auto simp: attachments_only_def attachments_ok runs_defined_def find_run_def intro!: moves_same)

lemma attachments_only_ops [simp]:
  "attachments_only d (attach_external i reference at d)" "attachments_only d (observe_executor i health at d)"
  "attachments_only d (request_cleanup i at d)" "attachments_only d (finish_cleanup i b at d)"
  by (auto simp: attachments_only_def attach_external_def observe_executor_def request_cleanup_def finish_cleanup_def update_attachments_def)

lemma attachments_only_ensure: "ensure_executor_attachment i executor at d = (r, d') \<Longrightarrow> attachments_only d d'"
  by (auto simp: ensure_executor_attachment_def Let_def attachments_only_def split: option.splits if_splits intro: attachments_only_refl [unfolded attachments_only_def])

lemma ensure_attachments: "attachments_only d (snd (ensureExecutorStep ex now x d))"
  by (auto simp: ensureExecutorStep_def Let_def split: sum.splits prod.splits dest: attachments_only_ensure intro: attachments_only_trans)

lemma observe_attachments: "attachments_only d (snd (observeExecutorStep ex now x r d))"
  by (auto simp: observeExecutorStep_def split: sum.splits observation_attempt.splits)

lemma cleanup_attachments: "attachments_only d (snd (cleanupExecutorStep ex now x r d))"
  by (auto simp: cleanupExecutorStep_def Let_def split: sum.splits intro: attachments_only_trans [OF attachments_only_ops(3) attachments_only_ops(4)])

lemma worker_attachments: "worker_turn ex now i ws d = (ws', d') \<Longrightarrow> attachments_only d d'"
  using ensure_attachments [of d ex now] observe_attachments [of d ex "now 0"]
  by (cases ws) (auto split: sum.splits prod.splits observation_attempt.splits, (metis snd_conv)+)

text \<open>A work order of the record can be loaded, with its own request.\<close>

lemma load_stored_order:
  assumes "store_ok d" and "requested d" and "find_order d i = Some w"
  obtains request where "or_request w = Some request"
    "loadWorkOrderStep i d = Inr \<lparr>we_work_order = or_order w, we_request = request\<rparr>"
proof -
  have w: "w \<in> set (db_orders d)" "wo_id (or_order w) = i"
    using assms(3) by (auto simp: find_order_def dest!: find_Some_set)
  then obtain request where request: "or_request w = Some request" using assms(2) by (auto simp: requested_def)
  have ids: "identity_ok (identity_of d)" using assms(1) by (simp add: store_ok_def)
  have "wo_run_unit_id (or_order w) \<in> u_id ` set (db_units d)"
    using ids w(1) by (force simp: identity_ok_def identity_of_def order_ref_def unit_ref_def)
  then obtain u where u: "find_unit_row d (wo_run_unit_id (or_order w)) = Some u"
    by (cases "find_unit_row d (wo_run_unit_id (or_order w))") (auto simp: find_unit_row_def find_None_iff)
  then have "u \<in> set (db_units d)" by (auto simp: find_unit_row_def dest!: find_Some_set)
  then have "u_stage_id u \<in> sr_id ` set (db_stages d)"
    using ids by (force simp: identity_ok_def identity_of_def stage_ref_def unit_ref_def)
  then obtain st where "find_stage_row d (u_stage_id u) = Some st"
    by (cases "find_stage_row d (u_stage_id u)") (auto simp: find_stage_row_def find_None_iff)
  with u request assms(3) have "loadWorkOrderStep i d = Inr \<lparr>we_work_order = or_order w, we_request = request\<rparr>"
    by (simp add: loadWorkOrderStep_def find_work_order_execution_def owned_order_def)
  with request that show ?thesis by blast
qed

lemma loaded_order:
  assumes "store_ok d" and "requested d" and "find_order d i = Some w" and "loadWorkOrderStep i d = Inr x"
  shows "we_work_order x = or_order w"
proof -
  obtain request where "loadWorkOrderStep i d = Inr \<lparr>we_work_order = or_order w, we_request = request\<rparr>"
    by (rule load_stored_order [OF assms(1-3)])
  then show ?thesis using assms(4) by simp
qed

text \<open>
  One turn of the root: the work the ask started is named in its state, belongs to its run and was available,
  and only an ask about a run that is gone throws.
\<close>

lemma root_turn_facts:
  assumes turn: "root_turn cf rid at d = (r, d')" and db: "store_ok d" "requested d" "runs_defined d"
  shows "store_ok d'" and "record_le d d'" and "requested d'" and "started_orders d' \<subseteq> started_orders d \<union> named r"
    and "\<And>i. i \<in> named r \<Longrightarrow> order_run d i = Some rid \<and> (\<exists>w. find_order d i = Some w \<and> wo_state (or_order w) = WAvailable)"
    and "\<And>e. r = RootThrown e \<Longrightarrow> find_run d rid = None"
proof -
  obtain a where ask: "decide_run (cf_env cf) (cf_registry cf) (cf_loader cf) rid at d = (a, d')"
    using turn by (cases "decide_run (cf_env cf) (cf_registry cf) (cf_loader cf) rid at d")
      (auto simp: root_turn_def split: sum.splits decide_result.splits ask_result.splits)
  show "store_ok d'" "record_le d d'"
    using performing.keeps [of d cf "DecideRun rid at"] performing.later [of d cf "DecideRun rid at"] db(1) ask by simp_all
  have known: "List.find (\<lambda>row. df_id row = run_definition_id run) (db_definitions d) \<noteq> None" if "find_run d rid = Some run" for run
    using db(3) find_run_id [OF that] by (auto simp: runs_defined_def find_None_iff)
  then show "find_run d rid = None" if "r = RootThrown e" for e
    using turn that by (cases "find_run d rid") (auto simp: root_turn_def decide_run_def transaction_def Let_def
      split: option.splits if_splits sum.splits prod.splits decide_result.splits ask_result.splits)
  have facts: "requested d' \<and> started_orders d' \<subseteq> started_orders d \<union> named r \<and>
    (\<forall>i\<in>named r. \<exists>w\<in>set (db_orders d). wo_id (or_order w) = i \<and> wo_state (or_order w) = WAvailable \<and> unit_in_run d rid (wo_run_unit_id (or_order w)))"
  proof (cases "d' = d \<and> named r = {}")
    case True
    then show ?thesis using db(2) by simp
  next
    case False
    then obtain row v b where row: "find_run d rid = Some row" and a: "a = Inr (Asked b)"
      and active: "decide_active (cf_env cf) (cf_registry cf) (cf_loader cf) (row\<lparr>run_definition_version := v\<rparr>) at d = Inr (b, d')"
      using ask turn by (auto simp: decide_run_def transaction_def Let_def root_turn_def named_def
        split: option.splits if_splits sum.splits)
    have run: "run_id (row\<lparr>run_definition_version := v\<rparr>) = rid" using find_run_id [OF row] by simp
    have named: "named r = (case b of AskRecheck _ started \<Rightarrow> fst ` set started | _ \<Rightarrow> {})"
      using turn by (cases b) (force simp: root_turn_def ask a named_def)+
    have "\<exists>w\<in>set (db_orders d). wo_id (or_order w) = i \<and> wo_state (or_order w) = WAvailable \<and> unit_in_run d rid (wo_run_unit_id (or_order w))"
      if i: "i \<in> named r" for i
    proof -
      obtain k started where b: "b = AskRecheck k started" "i \<in> fst ` set started" using i named by (cases b) auto
      show ?thesis using decide_active_own [OF active [unfolded b(1)] b(2)] run by simp
    qed
    moreover have "requested d'" "started_orders d' \<subseteq> started_orders d \<union> named r"
      using decide_active_starts [OF active] db(2) unfolding named by (auto split: ask_result.splits)
    ultimately show ?thesis by blast
  qed
  then show "requested d'" "started_orders d' \<subseteq> started_orders d \<union> named r" by simp_all
  fix i assume "i \<in> named r"
  with facts obtain w where w: "w \<in> set (db_orders d)" "wo_id (or_order w) = i" "wo_state (or_order w) = WAvailable"
    "unit_in_run d rid (wo_run_unit_id (or_order w))" by blast
  then show "order_run d i = Some rid \<and> (\<exists>w. find_order d i = Some w \<and> wo_state (or_order w) = WAvailable)"
    using order_run_unit [OF db(1) w(1)] stored_order [OF db(1) w(1)] by auto
qed

lemma asked_ok:
  assumes ok: "system_ok s" and root: "sy_roots s rid = Some RootAsking" and turn: "root_turn cf rid at (sy_db s) = (r, sy_db t)"
    and t: "sy_roots t = (sy_roots s)(rid \<mapsto> r')" "sy_workers t = sy_workers s" "sy_cleanups t = sy_cleanups s" "sy_deleted t = sy_deleted s"
      "sy_lost s \<subseteq> sy_lost t"
    and r': "r' = r \<or> r' \<in> {RootAsking, RootBackingOff} \<and> named r \<subseteq> sy_lost t"
  shows "system_ok t"
proof -
  let ?d = "sy_db s" and ?e = "sy_db t"
  have db: "store_ok ?d" "requested ?d" "runs_defined ?d" using ok by (simp_all add: system_ok_def)
  note facts = root_turn_facts [OF turn db]
  have own: "order_run ?e i = Some q" if "order_run ?d i = Some q" for i q by (rule order_run_later [OF facts(2) that])
  have new: "q = rid" if "i \<in> started_orders ?e" "order_run ?e i = Some q" "i \<notin> started_orders ?d" for i q
    using that facts(4,5) own by fastforce
  have before: "order_run ?d i = Some q" if "i \<in> started_orders ?d" "order_run ?e i = Some q" for i q
    by (rule order_run_same_started [OF db(1) that(1) own that(2)])
  have "on_its_way t q i" if i: "i \<in> started_orders ?e" "order_run ?e i = Some q" for i q
  proof (cases "i \<in> started_orders ?d")
    case True
    then have "on_its_way s q i" using before [OF True i(2)] ok by (simp add: system_ok_def)
    then show ?thesis by (rule on_its_way_mono) (use root t in \<open>auto simp: on_its_way_def named_def\<close>)
  next
    case False
    then have "i \<in> named r" "q = rid" using i facts(4) new by auto
    then show ?thesis using r' t(1) by (auto simp: on_its_way_def)
  qed
  moreover have "root_ok ?e (sy_deleted t) rid r'"
  proof -
    have "root_ok ?d (sy_deleted s) rid RootAsking" using ok root by (simp add: system_ok_def)
    then have "find_run ?d rid \<noteq> None \<or> rid \<in> sy_deleted s" by (simp add: root_ok_def)
    then have "find_run ?e rid \<noteq> None \<or> rid \<in> sy_deleted s" "\<And>e. r = RootThrown e \<Longrightarrow> rid \<in> sy_deleted s"
      using later_find_run [OF facts(2)] facts(6) by fastforce+
    then show ?thesis using r' facts(5) own unfolding root_ok_def t by (auto simp: named_def)
  qed
  moreover have "root_ok ?e (sy_deleted t) q r2" if q: "sy_roots s q = Some r2" "q \<noteq> rid" for q r2
  proof -
    have "root_ok ?d (sy_deleted s) q r2" using ok q by (simp add: system_ok_def)
    moreover have "find_run ?e q \<noteq> None" if "find_run ?d q \<noteq> None" using later_find_run [OF facts(2)] that by fastforce
    moreover have "i \<in> started_orders ?d" if "i \<in> started_orders ?e" "order_run ?e i = Some q" for i using new that q(2) by blast
    ultimately show ?thesis using own before unfolding root_ok_def t by blast
  qed
  ultimately show ?thesis using ok t facts(1,3) runs_defined_later [OF facts(2) db(3)] by (auto simp: system_ok_def)
qed

text \<open>The other steps of a root.\<close>

lemma set_root_ok:
  assumes ok: "system_ok s" and r': "root_ok (sy_db s) (sy_deleted s) rid r'"
    and left: "\<And>i r. sy_roots s rid = Some r \<Longrightarrow> i \<in> named r \<Longrightarrow> i \<notin> named r' \<Longrightarrow> i \<in> started_orders (sy_db s) \<Longrightarrow>
      order_run (sy_db s) i = Some rid \<Longrightarrow> \<exists>wid ws. sy_workers s wid = Some (i, ws)"
  shows "system_ok (set_root rid r' s)"
proof -
  have "on_its_way (set_root rid r' s) q i" if "i \<in> started_orders (sy_db s)" "order_run (sy_db s) i = Some q" for i q
  proof -
    have "on_its_way s q i" using ok that by (simp add: system_ok_def)
    then show ?thesis using left that by (fastforce simp: on_its_way_def set_root_def)
  qed
  then show ?thesis using ok r' by (auto simp: system_ok_def set_root_def)
qed

lemma loaded_stored:
  assumes "store_ok d" and "requested d" and "loadWorkOrderStep i d = Inr x"
  shows "wo_id (we_work_order x) = i" and "wo_workflow_id (we_work_order x) = workOrderWorkflowId i"
proof -
  obtain w where w: "find_order d i = Some w"
    using assms(3) by (auto simp: loadWorkOrderStep_def find_work_order_execution_def owned_order_def split: option.splits)
  show "wo_id (we_work_order x) = i" and "wo_workflow_id (we_work_order x) = workOrderWorkflowId i"
    using loaded_order [OF assms(1,2) w assms(3)] find_order_id [OF w] assms(2) by (auto simp: requested_def)
qed

lemma start_worker_ok:
  assumes ok: "system_ok s"
  shows "system_ok (start_worker (workOrderWorkflowId i) i s)"
    and "\<exists>ws. sy_workers (start_worker (workOrderWorkflowId i) i s) (workOrderWorkflowId i) = Some (i, ws)"
proof -
  let ?wid = "workOrderWorkflowId i" and ?t = "start_worker (workOrderWorkflowId i) i s"
  have "on_its_way ?t q j" if "on_its_way s q j" for q j
    using that by (rule on_its_way_mono) (auto simp: on_its_way_def start_worker_def)
  moreover have "worker_ok (sy_cleanups s) ?wid i WorkerLoading" by (simp add: worker_ok_def)
  ultimately show "system_ok ?t" using ok by (auto simp: system_ok_def start_worker_def)
  have "j = i" if "sy_workers s ?wid = Some (j, ws)" for j ws
  proof -
    have "worker_ok (sy_cleanups s) ?wid j ws" using ok that by (simp add: system_ok_def)
    then show ?thesis by (simp add: worker_ok_def workOrderWorkflowId_def)
  qed
  then show "\<exists>ws. sy_workers ?t ?wid = Some (i, ws)" by (cases "sy_workers s ?wid") (auto simp: start_worker_def)
qed

lemma root_starts_ok:
  assumes ok: "system_ok s" and root: "sy_roots s rid = Some (RootStarting ((i, u) # rest))"
  shows "system_ok (set_root rid (RootStarting rest) (start_worker (workOrderWorkflowId i) i s))"
proof -
  let ?t = "start_worker (workOrderWorkflowId i) i s"
  have t: "sy_roots ?t = sy_roots s" "sy_db ?t = sy_db s" "sy_deleted ?t = sy_deleted s" by (simp_all add: start_worker_def)
  have "root_ok (sy_db s) (sy_deleted s) rid (RootStarting ((i, u) # rest))" using ok root by (simp add: system_ok_def)
  then have "root_ok (sy_db ?t) (sy_deleted ?t) rid (RootStarting rest)" by (auto simp: t root_ok_def named_def)
  then show ?thesis
    using start_worker_ok [OF ok, of i] root by (intro set_root_ok) (auto simp: t named_def, blast?)
qed

lemma root_throws_ok:
  assumes ok: "system_ok s" and root: "sy_roots s rid = Some (RootStarting ((i, u) # rest))"
    and load: "loadWorkOrderStep i (sy_db s) = Inl e"
  shows "system_ok (set_root rid (RootThrown e) s)"
proof -
  have db: "store_ok (sy_db s)" "requested (sy_db s)" using ok by (simp_all add: system_ok_def)
  have "find_order (sy_db s) i = None"
  proof (cases "find_order (sy_db s) i")
    case (Some w)
    obtain request where "loadWorkOrderStep i (sy_db s) = Inr \<lparr>we_work_order = or_order w, we_request = request\<rparr>"
      by (rule load_stored_order [OF db Some])
    then show ?thesis using load by simp
  qed
  then have "order_run (sy_db s) i \<noteq> Some rid" by (simp add: order_run_def owned_order_def)
  moreover have "root_ok (sy_db s) (sy_deleted s) rid (RootStarting ((i, u) # rest))" using ok root by (simp add: system_ok_def)
  ultimately have gone: "rid \<in> sy_deleted s" "\<forall>j\<in>started_orders (sy_db s). order_run (sy_db s) j \<noteq> Some rid"
    by (auto simp: root_ok_def named_def)
  then show ?thesis by (intro set_root_ok [OF ok]) (auto simp: root_ok_def named_def)
qed

lemma worker_turn_holds:
  assumes "worker_turn ex now i ws d = (ws', d')" and "worker_holds ws' = Some (x, r)"
  shows "(\<exists>r. worker_holds ws = Some (x, r)) \<or> loadWorkOrderStep i d = Inr x"
  using assms by (cases ws) (auto split: sum.splits prod.splits observation_attempt.splits)

lemma worker_works_ok:
  assumes ok: "system_ok s" and worker: "sy_workers s wid = Some (i, ws)" and turn: "worker_turn ex now i ws (sy_db s) = (ws', d)"
  shows "system_ok (ended ws' (set_worker wid (i, ws') (with_db d s)))"
proof -
  let ?d = "sy_db s"
  have db: "store_ok ?d" "requested ?d" and old: "worker_ok (sy_cleanups s) wid i ws"
    using ok worker by (simp_all add: system_ok_def)
  have held: "wo_id (we_work_order x) = i \<and> wo_workflow_id (we_work_order x) = wid" if "worker_holds ws' = Some (x, r)" for x r
    using worker_turn_holds [OF turn that] old loaded_stored [OF db] unfolding worker_ok_def by metis
  have moved: "system_ok (with_db d s)"
    by (rule moved_ok [OF ok]) (use attachments_only_moves [OF worker_attachments [OF turn] db(1)] in simp_all)
  let ?t = "ended ws' (set_worker wid (i, ws') (with_db d s))"
  have t: "sy_db ?t = d" "sy_roots ?t = sy_roots s" "sy_workers ?t = (sy_workers s)(wid \<mapsto> (i, ws'))" "sy_lost ?t = sy_lost s"
      "sy_deleted ?t = sy_deleted s" "\<And>v. sy_cleanups s v \<noteq> None \<Longrightarrow> sy_cleanups ?t v \<noteq> None"
    by (auto simp: ended_def set_worker_def start_cleanup_def Let_def split: worker_state.split)
  have "sy_cleanups ?t (wid @ '':cleanup'') \<noteq> None" if "ws' = WorkerEnded x r" for x r
    using held [of x "Some r"] that by (auto simp: ended_def set_worker_def start_cleanup_def Let_def)
  then have mine: "worker_ok (sy_cleanups ?t) wid i ws'" using held old by (auto simp: worker_ok_def)
  have others: "worker_ok (sy_cleanups ?t) v j vs" if "sy_workers s v = Some (j, vs)" for v j vs
  proof -
    have "worker_ok (sy_cleanups s) v j vs" using ok that by (simp add: system_ok_def)
    then show ?thesis using t(6) unfolding worker_ok_def by blast
  qed
  have "on_its_way ?t q j" if "on_its_way (with_db d s) q j" for q j
    using that by (rule on_its_way_mono) (use worker in \<open>auto simp: t on_its_way_def\<close>)
  then show ?thesis using moved mine others by (auto simp: system_ok_def t)
qed

text \<open>Launching and deleting.\<close>

lemma create_run_defined:
  "create_run_tx inp st = Inr (r, st') \<Longrightarrow> st' \<noteq> st \<Longrightarrow> \<exists>row\<in>set (db_definitions (ls_db st)). df_id row = rl_definition_id (pt_run inp)"
  by (auto simp: create_run_tx_def Let_def find_definition_def split: option.splits dest!: find_Some_set)

lemma create_run_moves:
  assumes "store_ok (ls_db st)"
  shows "moves (ls_db st) (ls_db (snd (create_run inp st)))"
proof (cases "snd (create_run inp st) = st")
  case True
  then show ?thesis using assms by (auto intro: moves_same)
next
  case False
  then obtain r st' where tx: "create_run_tx inp st = Inr (r, st')" and st': "snd (create_run inp st) = st'" "st' \<noteq> st"
    by (auto simp: create_run_def split: sum.splits prod.splits)
  have "ls_db st' = (ls_db st)\<lparr>db_runs := db_runs (ls_db st) @ [new_run_row inp]\<rparr>"
    using create_run_cases [OF tx] st'(2) by (auto simp: insert_run_row_def dest!: insertProfile_db)
  moreover have "store_ok (ls_db st')" using create_run_ok [OF assms, of inp] st'(1) by simp
  ultimately show ?thesis
    unfolding st'(1) using create_run_defined [OF tx st'(2)]
    by (intro moves_same) (auto simp: runs_defined_def find_run_def new_run_row_def find_None_iff)
qed

lemma order_run_iff:
  assumes "store_ok d"
  shows "order_run d i = Some q \<longleftrightarrow> (\<exists>w\<in>set (db_orders d). wo_id (or_order w) = i \<and> unit_in_run d q (wo_run_unit_id (or_order w)))"
proof
  assume q: "order_run d i = Some q"
  then obtain w where "find_order d i = Some w" by (auto simp: order_run_def owned_order_def split: option.splits)
  then show "\<exists>w\<in>set (db_orders d). wo_id (or_order w) = i \<and> unit_in_run d q (wo_run_unit_id (or_order w))"
    using find_order_id [of d i w] order_run_unit [OF assms, of w q] q by auto
qed (use order_run_unit [OF assms] in auto)

lemma order_run_deleted:
  assumes "store_ok d"
  shows "order_run (delete_cascade rid d) i = Some q \<longleftrightarrow> order_run d i = Some q \<and> q \<noteq> rid"
proof -
  let ?e = "delete_cascade rid d"
  have unit: "unit_in_run ?e q u \<longleftrightarrow> unit_in_run d q u \<and> q \<noteq> rid" for u by (auto simp: unit_in_run_def delete_cascade_def)
  have one: "q = rid" if "w \<in> set (db_orders d)" "unit_in_run d q (wo_run_unit_id (or_order w))" "unit_in_run d rid (wo_run_unit_id (or_order w))" for w
    using order_run_unit [OF assms that(1)] that(2,3) by simp
  have orders: "set (db_orders ?e) = {w \<in> set (db_orders d). \<not> unit_in_run d rid (wo_run_unit_id (or_order w))}" by (simp add: delete_cascade_def)
  show ?thesis
    unfolding order_run_iff [OF assms] order_run_iff [OF delete_cascade_ok [OF assms]] unit orders using one by blast
qed

lemma find_run_deleted: "find_run (delete_cascade i d) rid = (if rid = i then None else find_run d rid)"
proof -
  have "List.find (\<lambda>r. run_id r = rid) (filter (\<lambda>r. run_id r \<noteq> i) xs) = (if rid = i then None else List.find (\<lambda>r. run_id r = rid) xs)"
    for xs :: "workflow_run list"
    by (induction xs) auto
  then show ?thesis by (simp add: find_run_def delete_cascade_def)
qed

lemma remove_run_cases:
  "remove_run rid s = s \<or>
   sy_db (remove_run rid s) = delete_cascade rid (sy_db s) \<and> sy_deleted (remove_run rid s) = insert rid (sy_deleted s) \<and>
   sy_roots (remove_run rid s) = sy_roots s \<and> sy_workers (remove_run rid s) = sy_workers s \<and>
   sy_cleanups (remove_run rid s) = sy_cleanups s \<and> sy_lost (remove_run rid s) = sy_lost s"
  by (auto simp: remove_run_def delete_launched_run_def delete_run_def transaction_def split: option.splits)

lemma remove_run_ok:
  assumes ok: "system_ok s"
  shows "system_ok (remove_run rid s)"
proof (cases "remove_run rid s = s")
  case False
  let ?d = "sy_db s" and ?e = "delete_cascade rid (sy_db s)" and ?t = "remove_run rid s"
  have t: "sy_db ?t = ?e" "sy_deleted ?t = insert rid (sy_deleted s)" "sy_roots ?t = sy_roots s" "sy_workers ?t = sy_workers s"
      "sy_cleanups ?t = sy_cleanups s" "sy_lost ?t = sy_lost s"
    using remove_run_cases [of rid s] False by simp_all
  have db: "store_ok ?d" using ok by (simp add: system_ok_def)
  note run = order_run_deleted [OF db]
  have started: "started_orders ?e \<subseteq> started_orders ?d" by (auto simp: started_orders_def delete_cascade_def)
  have "on_its_way ?t = on_its_way s" by (simp add: on_its_way_def fun_eq_iff t)
  then have "on_its_way ?t q i" if "i \<in> started_orders ?e" "order_run ?e i = Some q" for i q
    using ok that started run by (auto simp: system_ok_def)
  moreover have "root_ok ?e (insert rid (sy_deleted s)) q r" if "sy_roots s q = Some r" for q r
  proof -
    have "root_ok ?d (sy_deleted s) q r" using ok that by (simp add: system_ok_def)
    then show ?thesis using started by (auto simp: root_ok_def run find_run_deleted)
  qed
  moreover have "requested ?e" "runs_defined ?e"
    using ok by (auto simp: system_ok_def requested_def runs_defined_def delete_cascade_def)
  ultimately show ?thesis using ok delete_cascade_ok [OF db, of rid] by (simp add: system_ok_def t)
qed (use ok in simp)

lemma stored_moves: "store_ok d \<Longrightarrow> moves d (snd (insert_immutable z w d))"
  by (auto simp: insert_immutable_def Let_def runs_defined_def find_run_def split: option.split intro!: moves_same)

lemma runs_defined_ids: "runs_defined d \<longleftrightarrow> (\<forall>r\<in>set (db_runs d). run_definition_id r \<in> set (map df_id (db_definitions d)))"
  by (force simp: runs_defined_def)

lemma definition_archived_moves:
  assumes "store_ok d"
  shows "moves d (snd (set_definition_archived z i b d))"
proof -
  have "map df_id (db_definitions (snd (set_definition_archived z i b d))) = map df_id (db_definitions d)"
    by (simp add: set_definition_archived_def Let_def map_update_where)
  then have "runs_defined d \<longrightarrow> runs_defined (snd (set_definition_archived z i b d))"
    unfolding runs_defined_ids by (simp only:) (simp add: set_definition_archived_def Let_def)
  then show ?thesis
    using assms by (intro moves_same) (auto simp: set_definition_archived_def Let_def find_run_def)
qed

lemma store_same: "moves d d" if "store_ok d"
  using that by (auto intro: moves_same)

lemma system_step_ok:
  assumes "system_step cf z s t" and ok: "system_ok s"
  shows "system_ok t"
proof -
  have db: "store_ok (sy_db s)" "requested (sy_db s)" using ok by (simp_all add: system_ok_def)
  from assms(1) show ?thesis
  proof (cases rule: system_step.cases)
    case (stored w)
    then show ?thesis using stored_moves [OF db(1), of z w] by (intro moved_ok [OF ok]) simp_all
  next
    case (definition_archived i b)
    then show ?thesis using definition_archived_moves [OF db(1), of z i b] by (intro moved_ok [OF ok]) simp_all
  next
    case (project_inserted pj)
    then show ?thesis using store_same [OF db(1)] by (intro moved_ok [OF ok]) (simp_all add: insert_project_def)
  next
    case (launched inp)
    then show ?thesis using create_run_moves [OF db(1), of inp] by (intro moved_ok [OF ok]) simp_all
  next
    case (run_archived i b)
    then show ?thesis using store_same [OF db(1)]
      by (intro moved_ok [OF ok]) (auto simp: set_run_archived_def Let_def split: option.split)
  next
    case (run_deleted rid)
    then show ?thesis using remove_run_ok [OF ok] by simp
  next
    case (root_started rid)
    then show ?thesis by (auto simp: root_ok_def named_def intro: set_root_ok [OF ok])
  next
    case (root_asks rid at r d)
    then show ?thesis by (intro asked_ok [OF ok, of rid cf at r _ r]) (auto simp: set_root_def)
  next
    case (root_answer_lost rid at r d again)
    then show ?thesis by (intro asked_ok [OF ok, of rid cf at r _ again]) (auto simp: set_root_def lose_def)
  next
    case (root_starts rid order unit rest x)
    then show ?thesis using root_starts_ok [OF ok, of rid order unit rest] loaded_stored [OF db] by simp
  next
    case (root_start_repeats rid order unit rest x)
    then show ?thesis using start_worker_ok(1) [OF ok, of order] loaded_stored [OF db] by simp
  next
    case (root_throws rid order unit rest e)
    then show ?thesis using root_throws_ok [OF ok] by simp
  next
    case (root_continues rid r)
    moreover have "root_ok (sy_db s) (sy_deleted s) rid r" using ok root_continues by (simp add: system_ok_def)
    ultimately show ?thesis by (auto simp: root_ok_def named_def intro: set_root_ok [OF ok])
  next
    case (worker_works wid order ws ex now ws' d)
    then show ?thesis using worker_works_ok [OF ok] by simp
  next
    case (worker_repeats wid order ws ex now ws' d)
    then show ?thesis using attachments_only_moves [OF worker_attachments db(1)] by (intro moved_ok [OF ok]) auto
  next
    case (cleanup_works wid x reference ex now r d)
    then have "attachments_only (sy_db s) d" using cleanup_attachments [of "sy_db s" ex now x reference] by simp
    then show ?thesis using cleanup_works attachments_only_moves [OF _ db(1)] by (intro moved_ok [OF ok]) auto
  next
    case (operated x)
    have "moves (sy_db s) (perform cf x (sy_db s))"
      using performing.keeps [of "sy_db s" cf x] performing.later [of "sy_db s" cf x] operated db(1)
      by (intro moves_later) (auto intro: perform_starts_nothing)
    then show ?thesis using operated by (intro moved_ok [OF ok]) auto
  qed
qed

lemma system_reachable_ok: "system_reachable cf z s \<Longrightarrow> system_ok s"
proof (induction rule: system_reachable.induct)
  case (begun seed)
  have "store_ok (empty_db seed)" using reachable_ok [OF reachable.migrated, of seed] by (simp add: empty_store_def)
  then show ?case
    by (simp add: empty_system_def system_ok_def empty_store_def requested_def started_orders_def runs_defined_def empty_db_def)
qed (rule system_step_ok)

section \<open>Started work is executed\<close>


definition demo_system :: "db \<Rightarrow> root_state \<Rightarrow> (string \<Rightarrow> (string \<times> worker_state) option) \<Rightarrow> system" where
  "demo_system d root workers =
     \<lparr>sy_store = demo_launched\<lparr>ls_db := d\<rparr>, sy_roots = [''r'' \<mapsto> root], sy_workers = workers, sy_cleanups = Map.empty,
      sy_lost = {}, sy_deleted = {}\<rparr>"

lemma demo_known: "find_run (ls_db demo_launched) ''r'' \<noteq> None"
  by code_simp

lemma demo_second_turn: "root_turn demo_config ''r'' ''t2'' (snd (demo_ask ''t1'' (ls_db demo_launched))) = (RootStarting [(uuid0, uuid0)], demo_started)"
  using demo_starts by (simp add: root_turn_def demo_ask_def)

lemma demo_system_asking:
  "system_reachable demo_config sample_zod (demo_system (snd (demo_ask ''t1'' (ls_db demo_launched))) RootAsking Map.empty)"
proof -
  let ?d1 = "snd (demo_ask ''t1'' (ls_db demo_launched))"
  have "system_reachable demo_config sample_zod ((empty_system (Some ''seed''))\<lparr>sy_store := demo_defined\<rparr>)"
    using system_reachable.stepped [OF system_reachable.begun system_step.stored, of demo_config sample_zod sample_definition "Some ''seed''"]
    by (simp add: with_db_def empty_system_def empty_store_def demo_defined_def)
  from system_reachable.stepped [OF this system_step.launched, of demo_launch]
  have "system_reachable demo_config sample_zod ((empty_system (Some ''seed''))\<lparr>sy_store := demo_launched\<rparr>)"
    by (simp add: demo_launched_def)
  from system_reachable.stepped [OF this system_step.root_started, of "''r''"]
  have asking: "system_reachable demo_config sample_zod (demo_system (ls_db demo_launched) RootAsking Map.empty)"
    using demo_known by (simp add: demo_system_def set_root_def empty_system_def)
  have "fst (demo_ask ''t1'' (ls_db demo_launched)) = Inr (Asked (AskRecheck 1 []))" by code_simp
  then have first: "root_turn demo_config ''r'' ''t1'' (ls_db demo_launched) = (RootStarting [], ?d1)"
    by (cases "demo_ask ''t1'' (ls_db demo_launched)") (simp add: root_turn_def demo_ask_def)
  from system_reachable.stepped [OF asking system_step.root_asks, of "''r''" "''t1''" "RootStarting []" ?d1] first
  have "system_reachable demo_config sample_zod (demo_system ?d1 (RootStarting []) Map.empty)"
    by (simp add: demo_system_def set_root_def with_db_def)
  from system_reachable.stepped [OF this system_step.root_continues, of "''r''" "RootStarting []"] show ?thesis
    by (simp add: demo_system_def set_root_def)
qed


text \<open>The same ask with its answer lost: the root asks again, and waits.\<close>

lemma demo_system_lost: "system_reachable demo_config sample_zod ((demo_system demo_started RootAsking Map.empty)\<lparr>sy_lost := {uuid0}\<rparr>)"
  using system_reachable.stepped [OF demo_system_asking system_step.root_answer_lost, of "''r''" "''t2''" _ _ RootAsking] demo_second_turn
  by (simp add: demo_system_def set_root_def with_db_def lose_def named_def)

lemma demo_third_turn: "root_turn demo_config ''r'' ''t3'' demo_started = (RootReceiving, demo_started)"
  by code_simp



section \<open>A lost start\<close>

text \<open>An order of the record, while it is there, only moves on.\<close>

lemma system_step_order:
  assumes "system_step cf z s t" and ok: "system_ok s" and w: "find_order (sy_db s) i = Some w" and v: "find_order (sy_db t) i = Some v"
  shows "order_le w v"
proof -
  have db: "store_ok (sy_db s)" "requested (sy_db s)" "runs_defined (sy_db s)" using ok by (simp_all add: system_ok_def)
  have same: "order_le w v" if "db_orders (sy_db t) = db_orders (sy_db s)"
    using w v that by (simp add: find_order_def order_le_def)
  have later: "order_le w v" if "record_le (sy_db s) (sy_db t)" using later_find_order [OF that w] v by auto
  from assms(1) show ?thesis
  proof (cases rule: system_step.cases)
    case (stored w)
    then show ?thesis by (intro same) (auto simp: insert_immutable_def Let_def split: option.split)
  next
    case (launched inp)
    then show ?thesis using create_run_cases [of inp "sy_store s"]
      by (intro same) (auto simp: create_run_def insert_run_row_def split: sum.split prod.split dest!: insertProfile_db)
  next
    case (run_archived j b)
    then show ?thesis by (intro same) (auto simp: set_run_archived_def Let_def split: option.split)
  next
    case (run_deleted rid)
    have "v = w"
    proof (cases "remove_run rid s = s")
      case False
      then have "find_order (delete_cascade rid (sy_db s)) i = Some v" using remove_run_cases [of rid s] run_deleted v by simp
      then have "v \<in> set (db_orders (sy_db s))" "wo_id (or_order v) = i" by (auto dest: find_order_id simp: delete_cascade_def)
      then show ?thesis using stored_order [OF db(1)] w by auto
    qed (use run_deleted w v in simp)
    then show ?thesis by (simp add: order_le_def)
  next
    case (root_asks rid at r d)
    then show ?thesis using root_turn_facts(2) [OF _ db] by (intro later) (auto simp: set_root_def)
  next
    case (root_answer_lost rid at r d again)
    then show ?thesis using root_turn_facts(2) [OF _ db] by (intro later) (auto simp: set_root_def lose_def)
  next
    case (worker_works wid order ws ex now ws' d)
    then have "attachments_only (sy_db s) d" using worker_attachments by blast
    then show ?thesis using worker_works by (intro same) (auto simp: attachments_only_def ended_def set_worker_def start_cleanup_def Let_def split: worker_state.split)
  next
    case (worker_repeats wid order ws ex now ws' d)
    then have "attachments_only (sy_db s) d" using worker_attachments by blast
    then show ?thesis using worker_repeats by (intro same) (auto simp: attachments_only_def)
  next
    case (cleanup_works wid x reference ex now r d)
    then have "attachments_only (sy_db s) d" using cleanup_attachments [of "sy_db s" ex now x reference] by simp
    then show ?thesis using cleanup_works by (intro same) (auto simp: attachments_only_def)
  next
    case (operated x)
    then show ?thesis using performing.later [OF db(1), of cf x] by (intro later) simp
  qed (intro same, simp add: set_definition_archived_def Let_def insert_project_def set_root_def start_worker_def)+
qed

text \<open>A root comes to name an order only when the order was available, and a worker is started only by a root that names its order.\<close>

lemma system_step_names:
  assumes "system_step cf z s t" and ok: "system_ok s" and "sy_roots t rid = Some r" and "i \<in> named r"
    and "\<And>r. sy_roots s rid = Some r \<Longrightarrow> i \<notin> named r"
  shows "\<exists>w. find_order (sy_db s) i = Some w \<and> wo_state (or_order w) = WAvailable"
proof -
  have db: "store_ok (sy_db s)" "requested (sy_db s)" "runs_defined (sy_db s)" using ok by (simp_all add: system_ok_def)
  from assms(1) show ?thesis
  proof (cases rule: system_step.cases)
    case (root_asks q at r2 d)
    then show ?thesis using root_turn_facts(5) [OF root_asks(3) db, of i] assms(3-5) by (auto simp: set_root_def split: if_splits)
  next
    case (root_starts q order unit rest x)
    then show ?thesis using assms(3-5) by (auto simp: set_root_def start_worker_def named_def split: if_splits)
  next
    case (run_deleted q)
    then show ?thesis using assms(3-5) remove_run_cases [of q s] by auto
  qed (use assms(3-5) in \<open>auto simp: set_root_def lose_def named_def start_worker_def set_worker_def ended_def start_cleanup_def Let_def
      split: if_splits worker_state.splits\<close>)
qed

lemma system_step_workers:
  assumes "system_step cf z s t" and ok: "system_ok s" and "sy_workers t wid = Some (i, ws)" and "\<And>wid ws. sy_workers s wid \<noteq> Some (i, ws)"
  shows "\<exists>rid r. sy_roots s rid = Some r \<and> i \<in> named r"
proof -
  have db: "store_ok (sy_db s)" "requested (sy_db s)" using ok by (simp_all add: system_ok_def)
  from assms(1) show ?thesis
  proof (cases rule: system_step.cases)
    case (root_starts rid order unit rest x)
    then have "i = order" using assms(3,4) loaded_stored [OF db] by (auto simp: set_root_def start_worker_def split: if_splits)
    then have "i \<in> named (RootStarting ((order, unit) # rest))" by (simp add: named_def)
    then show ?thesis using root_starts by blast
  next
    case (root_start_repeats rid order unit rest x)
    then have "i = order" using assms(3,4) loaded_stored [OF db] by (auto simp: start_worker_def split: if_splits)
    then have "i \<in> named (RootStarting ((order, unit) # rest))" by (simp add: named_def)
    then show ?thesis using root_start_repeats by blast
  next
    case (run_deleted q)
    then show ?thesis using assms(3,4) remove_run_cases [of q s] by auto
  qed (use assms(3,4) in \<open>auto simp: set_root_def lose_def set_worker_def ended_def start_cleanup_def Let_def
      split: if_splits worker_state.splits\<close>)
qed

text \<open>
  C25. A lost start is never made up for. A work order that is no longer available, that no root names and that has no
  workflow (as it is when the answer of the ask that started it was lost) stays so whatever the system does from
  there, for as long as the order is in the record: no later ask, of its run or any other, names it again, and
  no workflow is ever started for it.
\<close>
theorem lost_start_is_stuck:
  assumes "system_reachable cf z s"
    and "find_order (sy_db s) i = Some w" and "wo_state (or_order w) \<noteq> WAvailable"
    and "\<forall>rid todo. sy_roots s rid = Some (RootStarting todo) \<longrightarrow> i \<notin> fst ` set todo" and "\<forall>wid ws. sy_workers s wid \<noteq> Some (i, ws)"
    and "(\<lambda>s t. system_step cf z s t \<and> find_order (sy_db t) i \<noteq> None)\<^sup>*\<^sup>* s t"
  shows "(\<exists>v. find_order (sy_db t) i = Some v \<and> wo_state (or_order v) \<noteq> WAvailable) \<and>
    (\<forall>rid todo. sy_roots t rid = Some (RootStarting todo) \<longrightarrow> i \<notin> fst ` set todo) \<and>
    (\<forall>wid ws. sy_workers t wid \<noteq> Some (i, ws))"
proof -
  have stuck: "system_ok t \<and> (\<exists>v. find_order (sy_db t) i = Some v \<and> wo_state (or_order v) \<noteq> WAvailable) \<and>
      (\<forall>rid r. sy_roots t rid = Some r \<longrightarrow> i \<notin> named r) \<and> (\<forall>wid ws. sy_workers t wid \<noteq> Some (i, ws))"
    using assms(6)
  proof induction
    case base
    have "i \<notin> named r" if "sy_roots s rid = Some r" for rid r using assms(4) that by (cases r) (auto simp: named_def)
    then show ?case using system_reachable_ok [OF assms(1)] assms(2,3,5) by blast
  next
    case (step t u)
    then obtain v where v: "find_order (sy_db t) i = Some v" "wo_state (or_order v) \<noteq> WAvailable" by blast
    obtain v' where v': "find_order (sy_db u) i = Some v'" using step by auto
    have ok: "system_ok t" and step': "system_step cf z t u" using step by simp_all
    have "wo_state (or_order v') \<noteq> WAvailable" using system_step_order [OF step' ok v(1) v'] v(2) by (auto simp: order_le_def)
    moreover have "i \<notin> named r" if "sy_roots u rid = Some r" for rid r
      using system_step_names [OF step' ok that, of i] step v by auto
    moreover have "sy_workers u wid \<noteq> Some (i, ws)" for wid ws
      using system_step_workers [OF step' ok, of wid i ws] step by blast
    ultimately show ?case using system_step_ok [OF step' ok] v' by blast
  qed
  then have "i \<notin> named (RootStarting todo)" if "sy_roots t rid = Some (RootStarting todo)" for rid todo using that by blast
  then show ?thesis using stuck by (simp add: named_def)
qed

theorem lost_start_is_stuck_witness:
  "wo_state (or_order demo_order) = WStarted \<and>
   find_order (sy_db ((demo_system demo_started RootReceiving Map.empty)\<lparr>sy_lost := {uuid0}\<rparr>)) uuid0 = Some demo_order \<and>
   (\<forall>wid ws. sy_workers ((demo_system demo_started RootReceiving Map.empty)\<lparr>sy_lost := {uuid0}\<rparr>) wid \<noteq> Some (uuid0, ws))"
proof -
  define s where "s = (demo_system demo_started RootAsking Map.empty)\<lparr>sy_lost := {uuid0}\<rparr>"
  define t where "t = (demo_system demo_started RootReceiving Map.empty)\<lparr>sy_lost := {uuid0}\<rparr>"
  have found: "find_order demo_started uuid0 = Some demo_order" by (simp add: find_order_def demo_started_def demo_order_def)
  have order: "wo_state (or_order demo_order) = WStarted" by (simp add: demo_order_def)
  have db: "sy_db s = demo_started" "sy_db t = demo_started" "sy_roots s = [''r'' \<mapsto> RootAsking]" "sy_workers s = Map.empty"
    by (simp_all add: s_def t_def demo_system_def)
  have "system_step demo_config sample_zod s t"
    using system_step.root_asks [of s "''r''" demo_config "''t3''" RootReceiving demo_started sample_zod] demo_third_turn db
    by (simp add: s_def t_def demo_system_def set_root_def with_db_def)
  then have steps: "(\<lambda>s t. system_step demo_config sample_zod s t \<and> find_order (sy_db t) uuid0 \<noteq> None)\<^sup>*\<^sup>* s t"
    using found db by (intro r_into_rtranclp) simp
  have "\<forall>wid ws. sy_workers t wid \<noteq> Some (uuid0, ws)"
  proof -
    have start: "system_reachable demo_config sample_zod s" unfolding s_def by (rule demo_system_lost)
    have here: "find_order (sy_db s) uuid0 = Some demo_order" using found db(1) by simp
    have begun: "wo_state (or_order demo_order) \<noteq> WAvailable" using order by simp
    have quiet: "\<forall>rid todo. sy_roots s rid = Some (RootStarting todo) \<longrightarrow> uuid0 \<notin> fst ` set todo" by (simp add: db)
    have idle: "\<forall>wid ws. sy_workers s wid \<noteq> Some (uuid0, ws)" by (simp add: db)
    show ?thesis using lost_start_is_stuck [OF start here begun quiet idle steps] by blast
  qed
  then show ?thesis using found order db(2) unfolding t_def by simp
qed

end
