(* ===== verification/RunSpec.thy ===== *)
theory RunSpec
  imports Topology
begin

text \<open>
  The run as its clients see it, and the refinement: an abstract lifecycle of one run, which every
  step of the record implements, and every step of the workflows that drive it.
\<close>

section \<open>The specification\<close>

text \<open>A run is absent, live at a version, or ended at a version with a state and an outcome.\<close>

datatype run_view =
    RunAbsent
  | RunLive nat
  | RunEnded nat run_state "stage_outcome option"

inductive view_step :: "run_view \<Rightarrow> run_view \<Rightarrow> bool" where
  view_same: "view_step v v"
| view_begins: "view_step RunAbsent (RunLive 0)"
| view_moves: "m \<le> n \<Longrightarrow> view_step (RunLive m) (RunLive n)"
| view_ends: "m \<le> n \<Longrightarrow> state \<noteq> RunActive \<Longrightarrow> view_step (RunLive m) (RunEnded n state outcome)"
| view_noted: "m \<le> n \<Longrightarrow> view_step (RunEnded m state outcome) (RunEnded n state outcome)"
| view_removed: "view_step (RunEnded m state outcome) RunAbsent"

inductive_cases view_liveE: "view_step (RunLive m) v"
inductive_cases view_endedE: "view_step (RunEnded m state outcome) v"
inductive_simps view_absent_simps: "view_step RunAbsent v"

definition run_view_of :: "workflow_run option \<Rightarrow> run_view" where
  "run_view_of r =
     (case r of
        None \<Rightarrow> RunAbsent
      | Some run \<Rightarrow>
          if run_state run = RunActive then RunLive (run_record_version run)
          else RunEnded (run_record_version run) (run_state run) (run_outcome run))"

definition view :: "string \<Rightarrow> db \<Rightarrow> run_view" where
  "view rid d = run_view_of (find_run d rid)"

text \<open>
  A system refines a specification when an invariant holds at the start, every step keeps it, and every step
  of the system is one of the specification as seen through the abstraction.
\<close>

locale refinement =
  fixes init :: "'s \<Rightarrow> bool" and step :: "'s \<Rightarrow> 's \<Rightarrow> bool" and inv :: "'s \<Rightarrow> bool"
    and abs :: "'s \<Rightarrow> 'a" and spec :: "'a \<Rightarrow> 'a \<Rightarrow> bool"
  assumes starts: "init s \<Longrightarrow> inv s"
    and keeps: "inv s \<Longrightarrow> step s t \<Longrightarrow> inv t"
    and simulates: "inv s \<Longrightarrow> step s t \<Longrightarrow> spec (abs s) (abs t)"
begin

lemma history_inv: "init s \<Longrightarrow> step\<^sup>*\<^sup>* s t \<Longrightarrow> inv t"
  by (rotate_tac, induction rule: rtranclp_induct) (auto intro: starts keeps)

lemma history: "init s \<Longrightarrow> step\<^sup>*\<^sup>* s t \<Longrightarrow> spec\<^sup>*\<^sup>* (abs s) (abs t)"
proof (rotate_tac, induction rule: rtranclp_induct)
  case (step t u)
  then show ?case using simulates [OF history_inv] by (meson rtranclp.rtrancl_into_rtrancl)
qed simp

lemma history_step: "init s \<Longrightarrow> step\<^sup>*\<^sup>* s t \<Longrightarrow> step t u \<Longrightarrow> spec (abs t) (abs u)"
  by (rule simulates [OF history_inv])

end

section \<open>The record implements it\<close>

inductive store_step :: "config \<Rightarrow> zod_env \<Rightarrow> launch_store \<Rightarrow> launch_store \<Rightarrow> bool" for cf z where
  "store_step cf z st (st\<lparr>ls_db := snd (insert_immutable z w (ls_db st))\<rparr>)"
| "store_step cf z st (st\<lparr>ls_db := snd (set_definition_archived z i b (ls_db st))\<rparr>)"
| "store_step cf z st (insert_project pj st)"
| "store_step cf z st (snd (create_run inp st))"
| "store_step cf z st (snd (set_run_archived i b st))"
| "store_step cf z st (st\<lparr>ls_db := perform cf x (ls_db st)\<rparr>)"
| "store_step cf z st (snd (delete_launched_run i st))"

lemma store_step_reachable: "reachable cf z st \<Longrightarrow> store_step cf z st st' \<Longrightarrow> reachable cf z st'"
  by (erule store_step.cases) (auto intro: reachable.intros)

lemma later_run_absent:
  assumes "record_le d e" and "find_run d rid = None"
  shows "find_run e rid = None"
proof -
  have len: "length (db_runs e) = length (db_runs d)" and rows: "\<forall>i < length (db_runs d). run_le (db_runs d ! i) (db_runs e ! i)"
    using assms(1) by (simp_all add: record_le_def grows_def)
  have "run_id r \<noteq> rid" if r: "r \<in> set (db_runs e)" for r
  proof -
    obtain i where i: "i < length (db_runs d)" "r = db_runs e ! i" using r len by (auto simp: in_set_conv_nth)
    then have "run_id r = run_id (db_runs d ! i)" using rows by (simp add: run_le_def)
    then show ?thesis using assms(2) i(1) by (auto simp: find_run_def find_None_iff)
  qed
  then show ?thesis by (auto simp: find_run_def find_None_iff)
qed

lemma view_later:
  assumes "record_le d e"
  shows "view_step (view rid d) (view rid e)"
proof (cases "find_run d rid")
  case None
  then show ?thesis using later_run_absent [OF assms] by (simp add: view_def view_same)
next
  case (Some r)
  then obtain s where "find_run e rid = Some s" "run_le r s" using later_find_run [OF assms] by blast
  then show ?thesis using Some by (auto simp: view_def run_view_of_def run_le_def intro: view_step.intros)
qed

lemma view_same_runs: "db_runs e = db_runs d \<Longrightarrow> view_step (view rid d) (view rid e)"
  by (simp add: view_def find_run_def view_same)

lemma view_created: "view_step (view rid (ls_db st)) (view rid (ls_db (snd (create_run inp st))))"
proof -
  have new: "view_step (view rid (ls_db st)) (view rid (ls_db (insert_run_row inp st)))" if "find_run (ls_db st) (rl_id (pt_run inp)) = None"
  proof (cases "find_run (ls_db st) rid")
    case None
    then show ?thesis
      by (auto simp: view_def insert_run_row_def find_run_def find_append_None new_run_row_def run_view_of_def view_step.intros)
  next
    case (Some r)
    then have "find_run (ls_db (insert_run_row inp st)) rid = Some r"
      by (simp add: insert_run_row_def find_run_def find_append_Some)
    then show ?thesis using Some by (simp add: view_def view_same)
  qed
  show ?thesis
  proof (cases "create_run_tx inp st")
    case (Inl e)
    then show ?thesis by (simp add: create_run_def view_same)
  next
    case (Inr rs)
    obtain r st' where rs: "rs = (r, st')" by (cases rs)
    show ?thesis
      using create_run_cases [OF Inr [unfolded rs]] new Inr rs by (auto simp: create_run_def view_same dest: insertProfile_db)
  qed
qed

lemma view_deleted: "view_step (view rid d) (view rid (snd (delete_run i d)))"
proof (cases "find_run d i")
  case None
  then show ?thesis by (simp add: delete_run_def transaction_def view_same)
next
  case (Some run)
  have "view rid (delete_cascade i d) = (if rid = i then RunAbsent else view rid d)" by (simp add: view_def run_view_of_def find_run_deleted)
  moreover have "view i d = RunEnded (run_record_version run) (run_state run) (run_outcome run)" if "run_state run \<noteq> RunActive"
    using Some that by (simp add: view_def run_view_of_def)
  ultimately show ?thesis using Some by (auto simp: delete_run_def transaction_def intro: view_step.intros)
qed

lemma store_step_view:
  assumes "reachable cf z st" and "store_step cf z st st'"
  shows "view_step (view rid (ls_db st)) (view rid (ls_db st'))"
  using assms(2)
proof cases
  case (1 w)
  then show ?thesis by (auto simp: insert_immutable_def Let_def split: option.split intro: view_same_runs)
next
  case (2 i b)
  then show ?thesis by (auto simp: set_definition_archived_def Let_def intro: view_same_runs)
next
  case (3 pj)
  then show ?thesis by (simp add: insert_project_def view_same)
next
  case (4 inp)
  then show ?thesis by (simp add: view_created)
next
  case (5 i b)
  then show ?thesis by (auto simp: set_run_archived_def Let_def view_same split: option.split)
next
  case (6 x)
  then show ?thesis using view_later performing.later [OF reachable_ok [OF assms(1)], of cf x] by simp
next
  case (7 i)
  then show ?thesis by (simp add: delete_launched_db view_deleted)
qed

interpretation record_refines: refinement "\<lambda>st. \<exists>seed. st = empty_store seed" "store_step cf z" "reachable cf z" "\<lambda>st. view rid (ls_db st)" view_step
  for cf z rid
  by unfold_locales (auto intro: reachable.migrated store_step_reachable store_step_view)

section \<open>So do the workflows\<close>

lemma moves_view: "attachments_only d d' \<Longrightarrow> view_step (view rid d) (view rid d')"
  by (auto simp: attachments_only_def intro: view_same_runs)

lemma root_turn_performs:
  assumes "root_turn cf i at d = (r, d')"
  shows "d' = perform cf (DecideRun i at) d"
  using assms by (cases "decide_run (cf_env cf) (cf_registry cf) (cf_loader cf) i at d")
    (auto simp: root_turn_def split: sum.splits decide_result.splits ask_result.splits)

lemma system_step_view:
  assumes "system_ok s" and "system_step cf z s t"
  shows "view_step (view rid (sy_db s)) (view rid (sy_db t))"
proof -
  have ok: "store_ok (sy_db s)" using assms(1) by (simp add: system_ok_def)
  have op: "view_step (view rid (sy_db s)) (view rid (perform cf x (sy_db s)))" for x
    using view_later performing.later [OF ok, of cf x] by simp
  show ?thesis
    using assms(2)
  proof cases
    case (stored w)
    then show ?thesis by (auto simp: insert_immutable_def Let_def split: option.split intro: view_same_runs)
  next
    case (definition_archived i b)
    then show ?thesis by (auto simp: set_definition_archived_def Let_def intro: view_same_runs)
  next
    case (project_inserted pj)
    then show ?thesis by (simp add: insert_project_def view_same)
  next
    case (launched inp)
    then show ?thesis by (simp add: view_created)
  next
    case (run_archived i b)
    then show ?thesis by (auto simp: set_run_archived_def Let_def view_same split: option.split)
  next
    case (run_deleted i)
    then show ?thesis by (simp add: remove_run_def view_deleted case_prod_beta delete_launched_db)
  next
    case (root_asks i at r d)
    then show ?thesis using root_turn_performs [of cf i at "sy_db s" r d] op [of "DecideRun i at"] by (simp add: set_root_def)
  next
    case (root_answer_lost i at r d again)
    then show ?thesis using root_turn_performs [of cf i at "sy_db s" r d] op [of "DecideRun i at"] by (simp add: set_root_def lose_def)
  next
    case (worker_works wid order ws ex now ws' d)
    then show ?thesis using moves_view [OF worker_attachments]
      by (simp add: ended_def set_worker_def start_cleanup_def Let_def split: worker_state.split)
  next
    case (worker_repeats wid order ws ex now ws' d)
    then show ?thesis using moves_view [OF worker_attachments] by simp
  next
    case (cleanup_works wid x reference ex now r d)
    then show ?thesis using moves_view cleanup_attachments [of "sy_db s" ex now x reference] by simp
  next
    case (operated x)
    then show ?thesis using op by simp
  qed (auto simp: set_root_def start_worker_def view_same)
qed

interpretation system_refines: refinement "\<lambda>s. \<exists>seed. s = empty_system seed" "system_step cf z" system_ok "\<lambda>s. view rid (sy_db s)" view_step
  for cf z rid
  by unfold_locales (auto intro: system_reachable_ok system_reachable.begun system_step_ok system_step_view)

section \<open>The property\<close>

text \<open>
  C3. The lifecycle of a run, as a refinement. Seen from outside, a run is absent, live at a version
  or ended with an outcome. Whatever the history, every launch, operation, archiving and
  deletion of the record, and every step of the workflows that drive it, is for every run at once a step
  of this lifecycle: a run begins at version zero, its version never goes back, it ends once, its outcome never
  changes, and only an ended run is removed.
\<close>
theorem run_lifecycle_refined:
  "((store_step cf z)\<^sup>*\<^sup>* (empty_store seed) st \<and> store_step cf z st st' \<longrightarrow> view_step (view rid (ls_db st)) (view rid (ls_db st'))) \<and>
   ((system_step cf z)\<^sup>*\<^sup>* (empty_system seed) s \<and> system_step cf z s t \<longrightarrow> view_step (view rid (sy_db s)) (view rid (sy_db t)))"
  using record_refines.history_step [of "empty_store seed" cf z st st' rid] system_refines.history_step [of "empty_system seed" cf z s t rid]
  by blast

theorem run_lifecycle_refined_witness:
  "view ''r'' (ls_db demo_launched) = RunLive 0 \<and> view_step (RunLive 0) (view ''r'' (snd (demo_ask ''t1'' (ls_db demo_launched))))"
proof -
  have "store_step demo_config sample_zod (empty_store (Some ''seed'')) demo_defined"
    using store_step.intros(1) [of demo_config sample_zod "empty_store (Some ''seed'')" sample_definition]
    by (simp add: demo_defined_def empty_store_def)
  moreover have "store_step demo_config sample_zod demo_defined demo_launched"
    unfolding demo_launched_def by (rule store_step.intros(4))
  ultimately have "(store_step demo_config sample_zod)\<^sup>*\<^sup>* (empty_store (Some ''seed'')) demo_launched" by simp
  moreover have "store_step demo_config sample_zod demo_launched (demo_launched\<lparr>ls_db := snd (demo_ask ''t1'' (ls_db demo_launched))\<rparr>)"
    using store_step.intros(6) [of demo_config sample_zod demo_launched "DecideRun ''r'' ''t1''"] by (simp add: demo_ask_def)
  ultimately have "view_step (view ''r'' (ls_db demo_launched)) (view ''r'' (snd (demo_ask ''t1'' (ls_db demo_launched))))"
    using run_lifecycle_refined [of demo_config sample_zod "Some ''seed''" demo_launched _ "''r''"] by fastforce
  moreover have "view ''r'' (ls_db demo_launched) = RunLive 0" by code_simp
  ultimately show ?thesis by simp
qed

end
