(* ===== verification/PullRequest.thy ===== *)
theory PullRequest
  imports Launch
begin

text \<open>
  Pull requests as evidence: the vocabulary of \<open>domain/pull-request.ts\<close>, the reconciliation of a
  cohort's pull request (\<open>domain/cohort-pull-request.ts\<close>, \<open>runtime/cohort-pull-request.ts\<close> and the
  poller of \<open>runtime/github-pull-requests.ts\<close>), the final pull requests of an epic
  (\<open>domain/final-pull-request.ts\<close>) and their tables (\<open>storage/postgres-policy.ts\<close>).
\<close>

section \<open>What the run knows about a pull request\<close>

datatype observation_source = SourcePoll | SourceWebhook | SourceManualRecheck
datatype observed_state = PrOpen | PrMerged | PrClosedUnmerged

record pr_observation =
  ob_owner :: string
  ob_name :: string
  ob_number :: nat
  ob_url :: string
  ob_head_branch :: string
  ob_base_branch :: string
  ob_head_sha :: "string option"
  ob_state :: observed_state
  ob_source :: observation_source
  ob_observed_at :: string
  ob_merged_at :: "string option"

datatype mismatch_kind =
    MissingRepositoryIdentity
  | RepositoryMismatch
  | PullRequestMismatch
  | HeadBranchMismatch
  | BaseBranchMismatch
  | ClosedWithoutMerge
  | StaleObservation

record pr_mismatch =
  mm_kind :: mismatch_kind
  mm_detail :: string

definition pullRequestMismatch :: "mismatch_kind \<Rightarrow> string \<Rightarrow> pr_mismatch" where
  "pullRequestMismatch kind detail = \<lparr>mm_kind = kind, mm_detail = detail\<rparr>"

record pr_identity =
  pi_owner :: string
  pi_name :: string
  pi_number :: nat

text \<open>
  \<open>Number(digits)\<close>: the nearest double of an integer, ties to the even one; \<open>2 ^ 1024\<close> stands for
  \<open>Infinity\<close>.
\<close>

function excess_bits :: "int \<Rightarrow> nat" where
  "excess_bits n = (if n < 9007199254740992 then 0 else Suc (excess_bits (n div 2)))"
  by pat_completeness auto
termination
  by (relation "measure nat") auto

declare excess_bits.simps [simp del]

definition round_even :: "int \<Rightarrow> int \<Rightarrow> int" where
  "round_even n ulp =
     (let q = n div ulp; r = n mod ulp in (if 2 * r < ulp \<or> 2 * r = ulp \<and> even q then q else q + 1) * ulp)"

definition js_number :: "nat \<Rightarrow> nat" where
  "js_number n =
     (if excess_bits (int n) = 0 then n else nat (min (2 ^ 1024) (round_even (int n) (2 ^ excess_bits (int n)))))"

text \<open>The pattern \<open>[1-9][0-9]*\<close>.\<close>

definition is_pr_number :: "string \<Rightarrow> bool" where
  "is_pr_number s \<longleftrightarrow> all_digits s \<and> hd s \<noteq> CHR ''0''"

definition parseGithubPullRequestIdentity :: "string \<Rightarrow> pr_identity option" where
  "parseGithubPullRequestIdentity url =
     (case js_split (CHR ''/'') url of
        scheme # gap # host # own # name # pull # digits # rest \<Rightarrow>
          if scheme = ''https:'' \<and> gap = [] \<and> host = ''github.com'' \<and> own \<noteq> [] \<and> name \<noteq> [] \<and> pull = ''pull'' \<and>
             is_pr_number digits \<and> (rest = [] \<or> rest = [[]])
          then Some \<lparr>pi_owner = own, pi_name = name, pi_number = js_number (digits_value digits)\<rparr>
          else None
      | _ \<Rightarrow> None)"

definition repositoriesMatch :: "string \<Rightarrow> string \<Rightarrow> string \<Rightarrow> string \<Rightarrow> bool" where
  "repositoriesMatch leftOwner leftName rightOwner rightName \<longleftrightarrow>
     js_lower leftOwner = js_lower rightOwner \<and> js_lower leftName = js_lower rightName"

definition pullRequestUrlsMatch :: "string \<Rightarrow> string \<Rightarrow> bool" where
  "pullRequestUrlsMatch left right =
     (case (parseGithubPullRequestIdentity left, parseGithubPullRequestIdentity right) of
        (Some l, Some r) \<Rightarrow> pi_number l = pi_number r \<and> repositoriesMatch (pi_owner l) (pi_name l) (pi_owner r) (pi_name r)
      | _ \<Rightarrow> False)"

text \<open>
  Time and text as the language and the database read them: \<open>Date.parse\<close> (\<open>None\<close> is \<open>NaN\<close>), the cast
  to \<open>timestamptz\<close> (\<open>None\<close> is the cast that fails) and the text of a \<open>jsonb\<close> value.
\<close>

record pg_env =
  pg_date_parse :: "string \<Rightarrow> int option"
  pg_timestamptz :: "string \<Rightarrow> int option"
  pg_jsonb_text :: "json \<Rightarrow> string"

text \<open>\<open>Date.parse(a) > Date.parse(b)\<close>: false when either is \<open>NaN\<close>.\<close>

definition later_instant :: "pg_env \<Rightarrow> string \<Rightarrow> string \<Rightarrow> bool" where
  "later_instant pg a b = (case (pg_date_parse pg a, pg_date_parse pg b) of (Some x, Some y) \<Rightarrow> x > y | _ \<Rightarrow> False)"

fun cast_all :: "pg_env \<Rightarrow> string list \<Rightarrow> string + int list" where
  "cast_all pg [] = Ok []"
| "cast_all pg (s # ss) =
     (case pg_timestamptz pg s of
        None \<Rightarrow> Err (''invalid input syntax for type timestamp with time zone: '' @ [CHR 0x22] @ s @ [CHR 0x22])
      | Some t \<Rightarrow> bind_result (cast_all pg ss) (\<lambda>ts. Ok (t # ts)))"

definition opt_list :: "'a option \<Rightarrow> 'a list" where
  "opt_list x = (case x of None \<Rightarrow> [] | Some v \<Rightarrow> [v])"

section \<open>A cohort's pull request\<close>

record expected_cohort_pr =
  xp_run_id :: string
  xp_stage_instance_id :: string
  xp_unit_id :: string
  xp_repository_key :: string
  xp_url :: string
  xp_head_branch :: string
  xp_base_branch :: "string option"
  xp_forge_repository :: "forge_repository option"

record cohort_reconciliation =
  cr_run_id :: string
  cr_stage_instance_id :: string
  cr_unit_id :: string
  cr_repository_key :: string
  cr_observation :: pr_observation
  cr_mismatch :: "pr_mismatch option"
  cr_completed_at :: "string option"
  cr_updated_at :: string

datatype cohort_outcome =
    CohortMerged
  | CohortWaiting
  | CohortAlreadyCompleted
  | CohortMismatch pr_mismatch
  | CohortIgnoredStale pr_mismatch

definition findMismatch :: "expected_cohort_pr \<Rightarrow> pr_observation \<Rightarrow> pr_mismatch option" where
  "findMismatch expected observation =
     (case parseGithubPullRequestIdentity (xp_url expected) of
        None \<Rightarrow> Some (pullRequestMismatch PullRequestMismatch
          (''the cohort'' @ [CHR 0x27] @ ''s pr_summary URL is not a canonical GitHub pull request URL''))
      | Some identity \<Rightarrow>
          if \<not> pullRequestUrlsMatch (xp_url expected) (ob_url observation)
          then Some (pullRequestMismatch PullRequestMismatch ''observed pull request is not the one the build reported opening'')
          else if \<not> repositoriesMatch (ob_owner observation) (ob_name observation) (pi_owner identity) (pi_name identity)
          then Some (pullRequestMismatch RepositoryMismatch ''observed pull request belongs to another repository than its own URL'')
          else if (case xp_forge_repository expected of None \<Rightarrow> False
            | Some forge \<Rightarrow> \<not> repositoriesMatch (ob_owner observation) (ob_name observation) (fg_owner forge) (fg_name forge))
          then Some (pullRequestMismatch RepositoryMismatch ''observed pull request does not belong to the repository this run is bound to'')
          else if ob_head_branch observation \<noteq> xp_head_branch expected
          then Some (pullRequestMismatch HeadBranchMismatch
            (''observed head branch '' @ sq (ob_head_branch observation) @ '' is not the cohort branch '' @ sq (xp_head_branch expected)))
          else if (case xp_base_branch expected of None \<Rightarrow> False | Some base \<Rightarrow> ob_base_branch observation \<noteq> base)
          then Some (pullRequestMismatch BaseBranchMismatch
            (''observed base branch '' @ sq (ob_base_branch observation) @ '' is not the branch the cohort targets, '' @
             sq (the (xp_base_branch expected))))
          else if ob_state observation = PrClosedUnmerged
          then Some (pullRequestMismatch ClosedWithoutMerge ''pull request was closed without merging'')
          else if ob_state observation = PrMerged \<and> ob_merged_at observation = None
          then Some (pullRequestMismatch PullRequestMismatch ''merged observation carries no merged_at evidence'')
          else None)"

definition cohort_record ::
    "expected_cohort_pr \<Rightarrow> pr_observation \<Rightarrow> cohort_reconciliation option \<Rightarrow> string \<Rightarrow> pr_mismatch option \<Rightarrow> cohort_reconciliation" where
  "cohort_record expected observation previous reconciled_at mismatch =
     \<lparr>cr_run_id = xp_run_id expected, cr_stage_instance_id = xp_stage_instance_id expected, cr_unit_id = xp_unit_id expected,
      cr_repository_key = xp_repository_key expected, cr_observation = observation, cr_mismatch = mismatch,
      cr_completed_at = (case previous of None \<Rightarrow> None | Some p \<Rightarrow> cr_completed_at p), cr_updated_at = reconciled_at\<rparr>"

text \<open>A completion time is truthy unless it is the empty string.\<close>

definition is_completed :: "cohort_reconciliation \<Rightarrow> bool" where
  "is_completed r \<longleftrightarrow> cr_completed_at r \<noteq> None \<and> cr_completed_at r \<noteq> Some []"

definition reconcileCohortPullRequest ::
    "pg_env \<Rightarrow> expected_cohort_pr \<Rightarrow> pr_observation \<Rightarrow> cohort_reconciliation option \<Rightarrow> string \<Rightarrow> cohort_outcome \<times> cohort_reconciliation" where
  "reconcileCohortPullRequest pg expected observation previous reconciled_at =
     (let fresh =
            (case findMismatch expected observation of
               Some mismatch \<Rightarrow> (CohortMismatch mismatch, cohort_record expected observation previous reconciled_at (Some mismatch))
             | None \<Rightarrow>
                 (if ob_state observation = PrOpen then CohortWaiting else CohortMerged,
                  cohort_record expected observation previous reconciled_at None))
      in case previous of
           None \<Rightarrow> fresh
         | Some p \<Rightarrow>
             if is_completed p then (CohortAlreadyCompleted, p)
             else if later_instant pg (ob_observed_at (cr_observation p)) (ob_observed_at observation)
             then (CohortIgnoredStale (pullRequestMismatch StaleObservation ''observation is older than the reconciliation already recorded''), p)
             else fresh)"

definition withCompletion :: "cohort_reconciliation \<Rightarrow> string \<Rightarrow> cohort_reconciliation" where
  "withCompletion r completed_at =
     r\<lparr>cr_completed_at := Some (case cr_completed_at r of None \<Rightarrow> completed_at | Some t \<Rightarrow> t), cr_updated_at := completed_at\<rparr>"

definition operatorMergedObservation :: "expected_cohort_pr \<Rightarrow> string \<Rightarrow> pr_observation option" where
  "operatorMergedObservation expected confirmedAt =
     (case parseGithubPullRequestIdentity (xp_url expected) of
        None \<Rightarrow> None
      | Some identity \<Rightarrow>
          Some \<lparr>ob_owner = pi_owner identity, ob_name = pi_name identity, ob_number = pi_number identity, ob_url = xp_url expected,
            ob_head_branch = xp_head_branch expected, ob_base_branch = (case xp_base_branch expected of None \<Rightarrow> [] | Some b \<Rightarrow> b),
            ob_head_sha = None, ob_state = PrMerged, ob_source = SourceManualRecheck, ob_observed_at = confirmedAt,
            ob_merged_at = Some confirmedAt\<rparr>)"

section \<open>The tables\<close>

record final_reconciliation =
  fr_epic_profile_id :: string
  fr_repository_key :: string
  fr_observation :: pr_observation
  fr_mismatch :: "pr_mismatch option"
  fr_merged_evidence_at :: "string option"
  fr_confirmation_key :: "string option"
  fr_operator_comment :: "string option"
  fr_confirmed_at :: "string option"
  fr_updated_at :: string

record review_store =
  rs_store :: launch_store
  rs_cohorts :: "cohort_reconciliation list"
  rs_finals :: "final_reconciliation list"

definition cohort_key :: "cohort_reconciliation \<Rightarrow> string \<times> string" where
  "cohort_key r = (cr_stage_instance_id r, cr_unit_id r)"

definition find_cohort :: "string \<Rightarrow> string \<Rightarrow> review_store \<Rightarrow> cohort_reconciliation option" where
  "find_cohort stage unit st = List.find (\<lambda>r. cohort_key r = (stage, unit)) (rs_cohorts st)"

text \<open>
  \<open>INSERT ... ON CONFLICT (stage_instance_id, unit_id) DO UPDATE ... WHERE EXCLUDED.observed_at >= observed_at\<close>.
  The run and the stage are foreign keys; the column \<open>observed_at\<close> is the observation's own.
\<close>

definition upsert_cohort :: "pg_env \<Rightarrow> cohort_reconciliation \<Rightarrow> review_store \<Rightarrow> string + review_store" where
  "upsert_cohort pg r st =
     bind_result (cast_all pg (ob_observed_at (cr_observation r) # opt_list (cr_completed_at r) @ [cr_updated_at r])) (\<lambda>_.
     if find_run (ls_db (rs_store st)) (cr_run_id r) = None then Err ''cohort_pull_request_reconciliation_workflow_run_id_fkey''
     else if find_stage_row (ls_db (rs_store st)) (cr_stage_instance_id r) = None
     then Err ''cohort_pull_request_reconciliation_stage_instance_id_fkey''
     else case find_cohort (cr_stage_instance_id r) (cr_unit_id r) st of
       None \<Rightarrow> Ok (st\<lparr>rs_cohorts := rs_cohorts st @ [r]\<rparr>)
     | Some old \<Rightarrow>
         if the (pg_timestamptz pg (ob_observed_at (cr_observation r))) \<ge> the (pg_timestamptz pg (ob_observed_at (cr_observation old)))
         then Ok (st\<lparr>rs_cohorts := update_where (\<lambda>x. cohort_key x = cohort_key r)
           (\<lambda>x. x\<lparr>cr_repository_key := cr_repository_key r, cr_observation := cr_observation r, cr_mismatch := cr_mismatch r,
                 cr_completed_at := (case cr_completed_at x of None \<Rightarrow> cr_completed_at r | Some t \<Rightarrow> Some t),
                 cr_updated_at := cr_updated_at r\<rparr>) (rs_cohorts st)\<rparr>)
         else Ok st)"

text \<open>
  \<open>find_cohort_handoff\<close>: the unit's first slot with a handoff policy whose artifact is stored, and one
  effective \<open>dev.pr_summary\<close> of the unit, if any. \<open>LIMIT 1\<close> without an order takes the table's first row.
\<close>

record cohort_handoff_row =
  ch_run_id :: string
  ch_stage_instance_id :: string
  ch_unit_id :: string
  ch_repository_key :: string
  ch_artifact_id :: string
  ch_handoff_body :: json
  ch_summary_body :: json

definition effective_artifact :: "db \<Rightarrow> artifact_row \<Rightarrow> bool" where
  "effective_artifact d a \<longleftrightarrow>
     (\<exists>s\<in>set (db_slots d). case slot_state s of SlotPending x _ _ \<Rightarrow> x = a_id a | SlotReleased x _ \<Rightarrow> x = a_id a | _ \<Rightarrow> False)"

definition json_member_text :: "pg_env \<Rightarrow> json \<Rightarrow> string \<Rightarrow> string option" where
  "json_member_text pg body key =
     (case body of
        JObj kvs \<Rightarrow>
          (case obj_get kvs key of
             None \<Rightarrow> None
           | Some JNull \<Rightarrow> None
           | Some (JStr s) \<Rightarrow> Some s
           | Some v \<Rightarrow> Some (pg_jsonb_text pg v))
      | _ \<Rightarrow> None)"

fun is_handoff :: "output_release \<Rightarrow> bool" where
  "is_handoff (Handoff _ _) = True"
| "is_handoff _ = False"

definition handoff_rows :: "db \<Rightarrow> unit_row \<Rightarrow> (run_output_slot \<times> artifact_row) list" where
  "handoff_rows d u =
     concat (map (\<lambda>s. map (\<lambda>a. (s, a)) (filter (\<lambda>a. slot_artifact (slot_state s) = Some (a_id a)) (db_artifacts d)))
       (filter (\<lambda>s. slot_run_unit_id s = u_id u \<and> is_handoff (slot_release s)) (db_slots d)))"

definition find_cohort_handoff :: "pg_env \<Rightarrow> string \<Rightarrow> string \<Rightarrow> db \<Rightarrow> cohort_handoff_row option" where
  "find_cohort_handoff pg stage unit d =
     (case List.find (\<lambda>u. u_stage_id u = stage \<and> u_unit_id u = unit) (db_units d) of
        None \<Rightarrow> None
      | Some u \<Rightarrow>
          (case sort_key (\<lambda>(s, a). identity_output_name (slot_identity s)) (handoff_rows d u) of
             [] \<Rightarrow> None
           | (s, a) # _ \<Rightarrow>
               Some \<lparr>ch_run_id = u_run_id u, ch_stage_instance_id = u_stage_id u, ch_unit_id = u_unit_id u,
                 ch_repository_key = (case json_member_text pg (a_body a) ''repository_key'' of None \<Rightarrow> u_unit_id u | Some k \<Rightarrow> k),
                 ch_artifact_id = a_id a, ch_handoff_body = a_body a,
                 ch_summary_body = (case List.find (\<lambda>c. a_stage_id c = u_stage_id u \<and> a_unit_id c = u_unit_id u \<and>
                     a_artifact_type c = ''dev.pr_summary'' \<and> effective_artifact d c) (db_artifacts d) of
                   None \<Rightarrow> JNull | Some c \<Rightarrow> a_body c)\<rparr>))"

section \<open>Closing a cohort's wait on evidence\<close>

datatype cohort_error_kind = CohortNotFound | NotAPullRequestCohort | MissingPullRequestEvidence | CohortMismatched

record cohort_error =
  ce_kind :: cohort_error_kind
  ce_detail :: string
  ce_reconciliation :: "cohort_reconciliation option"

datatype cohort_evidence = Observed pr_observation | OperatorConfirmation string string

datatype cohort_resolution =
    Completed
  | AlreadyCompleted
  | MergedNotAwaiting string
  | Waiting
  | IgnoredStale

definition GITHUB_REVIEW_WAIT :: string where
  "GITHUB_REVIEW_WAIT = ''github_review''"

definition readString :: "json \<Rightarrow> string \<Rightarrow> string option" where
  "readString body key =
     (case body of
        JObj kvs \<Rightarrow> (case obj_get kvs key of Some (JStr s) \<Rightarrow> if js_trim s \<noteq> [] then Some s else None | _ \<Rightarrow> None)
      | _ \<Rightarrow> None)"

definition selectExpectedBaseBranch :: "epic_profile option \<Rightarrow> run_context option \<Rightarrow> string option" where
  "selectExpectedBaseBranch profile runContext =
     (case profile of
        Some p \<Rightarrow> Some (ep_base_branch p)
      | None \<Rightarrow> (case runContext of None \<Rightarrow> None
          | Some kvs \<Rightarrow> (case obj_get kvs ''base_branch'' of Some (JStr s) \<Rightarrow> Some s | _ \<Rightarrow> None)))"

definition cohort_failure :: "cohort_error_kind \<Rightarrow> string \<Rightarrow> cohort_reconciliation option \<Rightarrow> cohort_error" where
  "cohort_failure kind detail r = \<lparr>ce_kind = kind, ce_detail = detail, ce_reconciliation = r\<rparr>"

definition loadCohortHandoff :: "pg_env \<Rightarrow> string \<Rightarrow> string \<Rightarrow> review_store \<Rightarrow> cohort_error + (expected_cohort_pr \<times> string)" where
  "loadCohortHandoff pg stage unit st =
     (case find_cohort_handoff pg stage unit (ls_db (rs_store st)) of
        None \<Rightarrow> Err (cohort_failure CohortNotFound (''no run-owned handoff for stage '' @ sq stage @ '' unit '' @ sq unit) None)
      | Some row \<Rightarrow>
          (case (readString (ch_summary_body row) ''pr_url'', readString (ch_summary_body row) ''branch'') of
             (Some url, Some headBranch) \<Rightarrow>
               (let repositoryKey = (case readString (ch_handoff_body row) ''repository_key'' of Some k \<Rightarrow> k | None \<Rightarrow> ch_repository_key row);
                    run = find_launch_by_id (rs_store st) (ch_run_id row);
                    profile = findProfile (rs_store st) (ch_run_id row);
                    binding = (case profile of None \<Rightarrow> None
                      | Some p \<Rightarrow> List.find (\<lambda>b. eb_repository_key b = repositoryKey) (ep_repositories p))
                in Ok (\<lparr>xp_run_id = ch_run_id row, xp_stage_instance_id = ch_stage_instance_id row, xp_unit_id = ch_unit_id row,
                     xp_repository_key = repositoryKey, xp_url = url, xp_head_branch = headBranch,
                     xp_base_branch = selectExpectedBaseBranch profile (map_option rl_context run),
                     xp_forge_repository = (case binding of None \<Rightarrow> None | Some b \<Rightarrow> eb_forge_repository b)\<rparr>, ch_artifact_id row))
           | _ \<Rightarrow> Err (cohort_failure MissingPullRequestEvidence
               (''unit '' @ sq unit @ '' reported no pull request URL and branch: '' @ json_stringify (ch_summary_body row)) None)))"

definition findCohortPullRequestExpectation :: "pg_env \<Rightarrow> string \<Rightarrow> string \<Rightarrow> review_store \<Rightarrow> cohort_error + expected_cohort_pr" where
  "findCohortPullRequestExpectation pg stage unit st =
     bind_result (loadCohortHandoff pg stage unit st) (\<lambda>(expected, _). Ok expected)"

text \<open>A thrown error (of the database) is \<open>Inl\<close>; what was written before it stays written.\<close>

type_synonym cohort_answer = "string + (cohort_error + (cohort_resolution \<times> cohort_reconciliation))"

definition recorded :: "pg_env \<Rightarrow> cohort_reconciliation \<Rightarrow> (cohort_error + (cohort_resolution \<times> cohort_reconciliation)) \<Rightarrow>
    review_store \<Rightarrow> cohort_answer \<times> review_store" where
  "recorded pg r answer st = (case upsert_cohort pg r st of Inl e \<Rightarrow> (Inl e, st) | Inr st' \<Rightarrow> (Inr answer, st'))"

definition handoff_completion :: "cohort_evidence \<Rightarrow> string \<Rightarrow> pr_observation \<Rightarrow> string \<Rightarrow> handoff_request" where
  "handoff_completion evidence artifact observation now =
     \<lparr>hq_artifact_id = artifact, hq_external_kind = GITHUB_REVIEW_WAIT,
      hq_actor = (case evidence of OperatorConfirmation _ _ \<Rightarrow> ''operator'' | Observed _ \<Rightarrow> ''poller:github''),
      hq_correlation_id = ob_url observation, hq_decided_at = now\<rparr>"

definition complete_cohort ::
    "pg_env \<Rightarrow> handoff_request \<Rightarrow> cohort_reconciliation \<Rightarrow> string \<Rightarrow> review_store \<Rightarrow> cohort_answer \<times> review_store" where
  "complete_cohort pg request r now st =
     (case complete_handoff_artifact request (ls_db (rs_store st)) of
        (Inl e, d) \<Rightarrow> (Inl e, st\<lparr>rs_store := (rs_store st)\<lparr>ls_db := d\<rparr>\<rparr>)
      | (Inr completion, d) \<Rightarrow>
          (let st1 = st\<lparr>rs_store := (rs_store st)\<lparr>ls_db := d\<rparr>\<rparr>
           in case completion of
                WaitNotFound _ \<Rightarrow> recorded pg r (Ok (MergedNotAwaiting ''wait_not_found'', r)) st1
              | WaitConflict _ \<Rightarrow> recorded pg r (Ok (MergedNotAwaiting ''wait_conflict'', r)) st1
              | _ \<Rightarrow> recorded pg (withCompletion r now) (Ok (Completed, withCompletion r now)) st1))"

definition reconcileCohortEvidence ::
    "pg_env \<Rightarrow> string \<Rightarrow> string \<Rightarrow> cohort_evidence \<Rightarrow> string \<Rightarrow> review_store \<Rightarrow> cohort_answer \<times> review_store" where
  "reconcileCohortEvidence pg stage unit evidence now st =
     (case loadCohortHandoff pg stage unit st of
        Inl e \<Rightarrow> (Inr (Err e), st)
      | Inr (expected, artifact) \<Rightarrow>
          (case (case evidence of Observed ob \<Rightarrow> Some ob | OperatorConfirmation _ _ \<Rightarrow> operatorMergedObservation expected now) of
             None \<Rightarrow> (Inr (Err (cohort_failure MissingPullRequestEvidence
               (''the cohort'' @ [CHR 0x27] @ ''s reported pull request URL is not a canonical GitHub URL'') None)), st)
           | Some observation \<Rightarrow>
               (let previous = find_cohort (xp_stage_instance_id expected) (xp_unit_id expected) st;
                    (outcome, r) = reconcileCohortPullRequest pg expected observation previous now
                in case outcome of
                     CohortMismatch m \<Rightarrow> recorded pg r (Err (cohort_failure CohortMismatched (mm_detail m) (Some r))) st
                   | CohortIgnoredStale _ \<Rightarrow> (Inr (Ok (IgnoredStale, r)), st)
                   | CohortAlreadyCompleted \<Rightarrow> (Inr (Ok (AlreadyCompleted, r)), st)
                   | CohortWaiting \<Rightarrow> recorded pg r (Ok (Waiting, r)) st
                   | CohortMerged \<Rightarrow> complete_cohort pg (handoff_completion evidence artifact observation now) r now st)))"

end
