(* ===== verification/FinalPullRequest.thy ===== *)
theory FinalPullRequest
  imports PullRequest
begin

text \<open>
  The poller's sweep over the cohorts that wait for a review (\<open>runtime/github-pull-requests.ts\<close>), and the
  final pull requests of an epic: \<open>domain/final-pull-request.ts\<close> and
  \<open>PostgresFinalPullRequestRepository\<close> of \<open>storage/postgres-policy.ts\<close>.
\<close>

section \<open>The sweep\<close>

record cohort_summary =
  cy_stage_instance_id :: string
  cy_unit_id :: string
  cy_lifecycle :: string

datatype poll_resolution = Polled cohort_resolution | Unreadable | Refused string

record poll_outcome =
  po_stage_instance_id :: string
  po_unit_id :: string
  po_resolution :: poll_resolution

definition selectCohortsAwaitingReview :: "cohort_summary list \<Rightarrow> cohort_summary list" where
  "selectCohortsAwaitingReview cohorts = filter (\<lambda>c. cy_lifecycle c = ''github_review'') cohorts"

text \<open>
  The body of the loop for one cohort. \<open>reader\<close> is \<open>PullRequestReader.read\<close>, \<open>None\<close> when it cannot read or throws.
\<close>

definition poll_one ::
    "pg_env \<Rightarrow> (string \<Rightarrow> string \<Rightarrow> nat \<Rightarrow> pr_observation option) \<Rightarrow> string \<Rightarrow> cohort_summary \<Rightarrow> review_store \<Rightarrow> (string + poll_resolution) \<times> review_store" where
  "poll_one pg reader now c st =
     (case findCohortPullRequestExpectation pg (cy_stage_instance_id c) (cy_unit_id c) st of
        Inl e \<Rightarrow> (Inr (Refused (ce_detail e)), st)
      | Inr expected \<Rightarrow>
          (case parseGithubPullRequestIdentity (xp_url expected) of
             None \<Rightarrow> (Inr (Refused ''reported pull request URL is not a canonical GitHub URL''), st)
           | Some identity \<Rightarrow>
               (case reader (pi_owner identity) (pi_name identity) (pi_number identity) of
                  None \<Rightarrow> (Inr Unreadable, st)
                | Some observation \<Rightarrow>
                    (case reconcileCohortEvidence pg (cy_stage_instance_id c) (cy_unit_id c) (Observed observation) now st of
                       (Inl e, st') \<Rightarrow> (Inl e, st')
                     | (Inr (Inl e), st') \<Rightarrow> (Inr (Refused (ce_detail e)), st')
                     | (Inr (Inr (resolution, _)), st') \<Rightarrow> (Inr (Polled resolution), st')))))"

text \<open>An error thrown by the database ends the sweep; every other failure is one cohort's outcome.\<close>

fun poll_loop ::
    "pg_env \<Rightarrow> (string \<Rightarrow> string \<Rightarrow> nat \<Rightarrow> pr_observation option) \<Rightarrow> (nat \<Rightarrow> string) \<Rightarrow> nat \<Rightarrow> cohort_summary list \<Rightarrow> poll_outcome list \<Rightarrow> review_store \<Rightarrow>
     (string + poll_outcome list) \<times> review_store" where
  "poll_loop pg reader now n [] outcomes st = (Inr outcomes, st)"
| "poll_loop pg reader now n (c # cs) outcomes st =
     (case poll_one pg reader (now n) c st of
        (Inl e, st') \<Rightarrow> (Inl e, st')
      | (Inr resolution, st') \<Rightarrow>
          poll_loop pg reader now (Suc n) cs
            (outcomes @ [\<lparr>po_stage_instance_id = cy_stage_instance_id c, po_unit_id = cy_unit_id c, po_resolution = resolution\<rparr>]) st')"

definition pollCohortPullRequests ::
    "pg_env \<Rightarrow> (string \<Rightarrow> string \<Rightarrow> nat \<Rightarrow> pr_observation option) \<Rightarrow> (nat \<Rightarrow> string) \<Rightarrow> cohort_summary list \<Rightarrow> review_store \<Rightarrow>
     (string + poll_outcome list) \<times> review_store" where
  "pollCohortPullRequests pg reader now cohorts st = poll_loop pg reader now 0 (selectCohortsAwaitingReview cohorts) [] st"

section \<open>The final pull request of a repository\<close>

datatype final_outcome =
    FinalWaiting
  | FinalCompleted
  | FinalMismatch
  | FinalIgnoredStale
  | FinalAwaitingExternalConfirmation
  | FinalAlreadyCompleted

datatype final_error_kind =
    FinalNotEligible
  | FinalProfileNotFound
  | FinalRepositoryNotBound
  | FinalMissingRepositoryIdentity
  | FinalInvalidPullRequestUrl
  | FinalInvalidIdempotencyKey
  | FinalInvalidPolicy
  | FinalMissingMergedEvidence
  | FinalIdempotencyConflict

record final_error =
  fe_operation :: string
  fe_kind :: final_error_kind
  fe_detail :: string

record final_projection =
  fp_outcome :: final_outcome
  fp_profile :: epic_profile
  fp_reconciliation :: "final_reconciliation option"

definition observe_error :: "final_error_kind \<Rightarrow> string \<Rightarrow> final_error" where
  "observe_error kind detail = \<lparr>fe_operation = ''observe_final_pull_request'', fe_kind = kind, fe_detail = detail\<rparr>"

definition confirm_error :: "final_error_kind \<Rightarrow> string \<Rightarrow> final_error" where
  "confirm_error kind detail = \<lparr>fe_operation = ''confirm_final_pull_request'', fe_kind = kind, fe_detail = detail\<rparr>"

definition replaceRepository :: "epic_profile \<Rightarrow> string \<Rightarrow> (epic_repository \<Rightarrow> epic_repository) \<Rightarrow> string \<Rightarrow> epic_profile" where
  "replaceRepository profile key transform updatedAt =
     (let repositories = map (\<lambda>r. if eb_repository_key r = key then transform r else r) (ep_repositories profile)
      in profile\<lparr>ep_repositories := repositories,
           ep_lifecycle_state := (if list_all (\<lambda>r. eb_final_merge_state r = MergeMerged) repositories then EpicCompleted else EpicFinalIntegration),
           ep_updated_at := updatedAt\<rparr>)"

definition pullRequestReferencesMatch :: "pull_request_reference \<Rightarrow> pr_observation \<Rightarrow> bool" where
  "pullRequestReferencesMatch left observation \<longleftrightarrow>
     pq_number left = ob_number observation \<and> pullRequestUrlsMatch (pq_url left) (ob_url observation)"

definition final_reference :: "epic_profile \<Rightarrow> epic_repository \<Rightarrow> pr_identity \<Rightarrow> pr_observation \<Rightarrow> pull_request_reference" where
  "final_reference profile repository urlIdentity observation =
     (case eb_final_pull_request repository of
        Some reference \<Rightarrow> reference
      | None \<Rightarrow> \<lparr>pq_number = pi_number urlIdentity, pq_url = ob_url observation, pq_head_branch = ep_base_branch profile,
          pq_base_branch = eb_integration_branch repository\<rparr>)"

definition final_finding ::
    "epic_profile \<Rightarrow> epic_repository \<Rightarrow> forge_repository \<Rightarrow> pr_identity \<Rightarrow> pr_observation \<Rightarrow> pr_mismatch option" where
  "final_finding profile repository forge urlIdentity observation =
     (if \<not> repositoriesMatch (pi_owner urlIdentity) (pi_name urlIdentity) (fg_owner forge) (fg_name forge)
      then Some (pullRequestMismatch RepositoryMismatch ''final pull request URL does not belong to the Epic repository binding'')
      else if \<not> repositoriesMatch (ob_owner observation) (ob_name observation) (fg_owner forge) (fg_name forge)
      then Some (pullRequestMismatch RepositoryMismatch ''observed pull request belongs to another repository'')
      else if \<not> pullRequestReferencesMatch (final_reference profile repository urlIdentity observation) observation
      then Some (pullRequestMismatch PullRequestMismatch
        (''observed pull request does not match the build'' @ [CHR 0x27] @ ''s durable PR identity''))
      else if ob_head_branch observation \<noteq> ep_base_branch profile
      then Some (pullRequestMismatch HeadBranchMismatch
        (''observed pull request head branch does not match the epic'' @ [CHR 0x27] @ ''s base branch''))
      else if ob_base_branch observation \<noteq> eb_integration_branch repository
      then Some (pullRequestMismatch BaseBranchMismatch ''observed pull request base branch does not match the repository integration branch'')
      else if ob_state observation = PrClosedUnmerged
      then Some (pullRequestMismatch ClosedWithoutMerge ''pull request closed without merging into the integration branch'')
      else if ob_state observation = PrMerged \<and> ob_merged_at observation = None
      then Some (pullRequestMismatch PullRequestMismatch ''merged observation is missing merged_at evidence'')
      else None)"

definition final_next_state :: "epic_profile \<Rightarrow> epic_repository \<Rightarrow> pr_mismatch option \<Rightarrow> pr_observation \<Rightarrow> final_merge_state" where
  "final_next_state profile repository finding observation =
     (case finding of
        Some m \<Rightarrow> if mm_kind m = ClosedWithoutMerge then MergeClosedWithoutMerge else eb_final_merge_state repository
      | None \<Rightarrow>
          if ob_state observation = PrOpen then MergePullRequestOpen
          else if ep_final_merge_policy profile = MergeGuarded then MergeMerged else MergeAwaitingConfirmation)"

definition final_outcome_of :: "epic_profile \<Rightarrow> pr_mismatch option \<Rightarrow> pr_observation \<Rightarrow> final_outcome" where
  "final_outcome_of profile finding observation =
     (if finding \<noteq> None then FinalMismatch
      else if ob_state observation = PrOpen then FinalWaiting
      else if ep_final_merge_policy profile = MergeGuarded then FinalCompleted else FinalAwaitingExternalConfirmation)"

definition observed_reconciliation ::
    "epic_profile \<Rightarrow> string \<Rightarrow> pr_observation \<Rightarrow> pr_mismatch option \<Rightarrow> final_reconciliation option \<Rightarrow> string \<Rightarrow> final_reconciliation" where
  "observed_reconciliation profile key observation finding previous updated_at =
     \<lparr>fr_epic_profile_id = ep_id profile, fr_repository_key = key, fr_observation = observation, fr_mismatch = finding,
      fr_merged_evidence_at =
        (if finding = None \<and> ob_state observation = PrMerged then ob_merged_at observation
         else Option.bind previous fr_merged_evidence_at),
      fr_confirmation_key = Option.bind previous fr_confirmation_key, fr_operator_comment = Option.bind previous fr_operator_comment,
      fr_confirmed_at = Option.bind previous fr_confirmed_at, fr_updated_at = updated_at\<rparr>"

definition observeFinalPullRequest ::
    "pg_env \<Rightarrow> epic_profile \<Rightarrow> string \<Rightarrow> pr_observation \<Rightarrow> final_reconciliation option \<Rightarrow> bool \<Rightarrow> string \<Rightarrow> final_error + final_projection" where
  "observeFinalPullRequest pg profile key observation previous is_eligible updated_at =
     (if \<not> is_eligible then Err (observe_error FinalNotEligible ''final integration requires every build cohort and assessment to be complete'')
      else case List.find (\<lambda>r. eb_repository_key r = key) (ep_repositories profile) of
        None \<Rightarrow> Err (observe_error FinalRepositoryNotBound ''repository is not bound to the Epic'')
      | Some repository \<Rightarrow>
          if eb_final_merge_state repository = MergeMerged
          then Ok \<lparr>fp_outcome = FinalAlreadyCompleted, fp_profile = profile, fp_reconciliation = previous\<rparr>
          else case eb_forge_repository repository of
            None \<Rightarrow> Err (observe_error FinalMissingRepositoryIdentity ''Epic repository has no durable forge identity'')
          | Some forge \<Rightarrow>
              (case parseGithubPullRequestIdentity (ob_url observation) of
                 None \<Rightarrow> Err (observe_error FinalInvalidPullRequestUrl ''observation URL is not a canonical GitHub PR URL'')
               | Some urlIdentity \<Rightarrow>
                   if (case previous of None \<Rightarrow> False
                       | Some p \<Rightarrow> later_instant pg (ob_observed_at (fr_observation p)) (ob_observed_at observation))
                   then Ok \<lparr>fp_outcome = FinalIgnoredStale, fp_profile = profile, fp_reconciliation = previous\<rparr>
                   else
                     (let finding = final_finding profile repository forge urlIdentity observation;
                          registers = (case finding of None \<Rightarrow> True | Some m \<Rightarrow> mm_kind m = ClosedWithoutMerge)
                      in Ok \<lparr>fp_outcome = final_outcome_of profile finding observation,
                           fp_profile = replaceRepository profile key (\<lambda>current. current\<lparr>
                               eb_final_pull_request := (if registers then Some (final_reference profile repository urlIdentity observation)
                                 else eb_final_pull_request current),
                               eb_final_merge_state := final_next_state profile repository finding observation\<rparr>) updated_at,
                           fp_reconciliation = Some (observed_reconciliation profile key observation finding previous updated_at)\<rparr>)))"

record confirm_request =
  fc_idempotency_key :: string
  fc_operator_comment :: "string option"

definition truthy :: "string option \<Rightarrow> bool" where
  "truthy s \<longleftrightarrow> s \<noteq> None \<and> s \<noteq> Some []"

definition confirmFinalPullRequest ::
    "epic_profile \<Rightarrow> string \<Rightarrow> final_reconciliation option \<Rightarrow> confirm_request \<Rightarrow> bool \<Rightarrow> string \<Rightarrow> final_error + final_projection" where
  "confirmFinalPullRequest profile key reconciliation request is_eligible confirmed_at =
     (if js_trim (fc_idempotency_key request) = [] then Err (confirm_error FinalInvalidIdempotencyKey ''idempotency_key must not be empty'')
      else if \<not> is_eligible then Err (confirm_error FinalNotEligible ''final integration requires every build cohort and assessment to be complete'')
      else if ep_final_merge_policy profile \<noteq> MergeExternalConfirmation
      then Err (confirm_error FinalInvalidPolicy ''explicit confirmation is only valid for external_confirmation policy'')
      else case reconciliation of
        None \<Rightarrow> Err (confirm_error FinalMissingMergedEvidence ''final pull request has no durable merged evidence'')
      | Some r \<Rightarrow>
          if \<not> truthy (fr_merged_evidence_at r)
          then Err (confirm_error FinalMissingMergedEvidence ''final pull request has no durable merged evidence'')
          else if fr_confirmation_key r \<noteq> None \<and> fr_confirmation_key r \<noteq> Some (fc_idempotency_key request)
          then Err (confirm_error FinalIdempotencyConflict ''final pull request was confirmed with a different idempotency key'')
          else if \<not> list_ex (\<lambda>b. eb_repository_key b = key) (ep_repositories profile)
          then Err (confirm_error FinalRepositoryNotBound ''repository is not bound to the Epic'')
          else Ok \<lparr>fp_outcome = FinalCompleted,
            fp_profile = replaceRepository profile key (\<lambda>b. b\<lparr>eb_final_merge_state := MergeMerged\<rparr>) confirmed_at,
            fp_reconciliation = Some (r\<lparr>fr_confirmation_key := Some (fc_idempotency_key request),
              fr_operator_comment := fc_operator_comment request,
              fr_confirmed_at := Some (or_else (fr_confirmed_at r) confirmed_at), fr_updated_at := confirmed_at\<rparr>)\<rparr>)"

section \<open>The repository of final pull requests\<close>

definition lockReconciliation :: "review_store \<Rightarrow> string \<Rightarrow> string \<Rightarrow> final_reconciliation option" where
  "lockReconciliation st profile key =
     List.find (\<lambda>r. fr_epic_profile_id r = profile \<and> fr_repository_key r = key) (rs_finals st)"

text \<open>The rows of the eligibility query: every stage of the definition with role build or assessment, with its instance.\<close>

definition required_stages :: "db \<Rightarrow> string \<Rightarrow> (string \<times> operator_role) list" where
  "required_stages d rid =
     (case find_run d rid of
        None \<Rightarrow> []
      | Some run \<Rightarrow>
          (case find_definition d (run_definition_id run) of
             None \<Rightarrow> []
           | Some row \<Rightarrow>
               List.map_filter (\<lambda>(key, node). case sn_operator_role node of
                   Some RoleBuild \<Rightarrow> Some (key, RoleBuild) | Some RoleAssessment \<Rightarrow> Some (key, RoleAssessment) | _ \<Rightarrow> None)
                 (graph_stages (wd_graph (df_definition row)))))"

definition stage_rows_of :: "db \<Rightarrow> string \<Rightarrow> string \<Rightarrow> stage_row list" where
  "stage_rows_of d rid key = filter (\<lambda>s. sr_run_id s = rid \<and> sr_stage_key s = key \<and> sr_attempt_root s = None) (db_stages d)"

definition isFinalIntegrationEligible :: "db \<Rightarrow> string \<Rightarrow> bool" where
  "isFinalIntegrationEligible d rid \<longleftrightarrow>
     RoleBuild \<in> snd ` set (required_stages d rid) \<and> RoleAssessment \<in> snd ` set (required_stages d rid) \<and>
     list_all (\<lambda>(key, _). stage_rows_of d rid key \<noteq> [] \<and>
       list_all (\<lambda>s. sr_ended_at s \<noteq> None \<and> sr_outcome s = Some Succeeded) (stage_rows_of d rid key)) (required_stages d rid)"

definition updateProfile :: "epic_profile \<Rightarrow> review_store \<Rightarrow> review_store" where
  "updateProfile profile st =
     st\<lparr>rs_store := (rs_store st)\<lparr>ls_profiles := update_where (\<lambda>p. ep_id p = ep_id profile)
       (\<lambda>p. p\<lparr>ep_lifecycle_state := ep_lifecycle_state profile, ep_repositories := ep_repositories profile,
             ep_updated_at := ep_updated_at profile\<rparr>) (ls_profiles (rs_store st))\<rparr>\<rparr>"

text \<open>The insert of an observation: \<open>None\<close> when the row kept is newer, or as new and different.\<close>

definition write_observation :: "pg_env \<Rightarrow> final_reconciliation \<Rightarrow> review_store \<Rightarrow> string + review_store option" where
  "write_observation pg r st =
     bind_result (cast_all pg (ob_observed_at (fr_observation r) # opt_list (fr_merged_evidence_at r) @ opt_list (fr_confirmed_at r) @ [fr_updated_at r])) (\<lambda>_.
     case lockReconciliation st (fr_epic_profile_id r) (fr_repository_key r) of
       None \<Rightarrow> Ok (Some (st\<lparr>rs_finals := rs_finals st @ [r]\<rparr>))
     | Some old \<Rightarrow>
         (let new_at = the (pg_timestamptz pg (ob_observed_at (fr_observation r)));
              old_at = the (pg_timestamptz pg (ob_observed_at (fr_observation old)))
          in if new_at > old_at \<or> (new_at = old_at \<and> fr_observation r = fr_observation old)
             then Ok (Some (st\<lparr>rs_finals := update_where
               (\<lambda>x. fr_epic_profile_id x = fr_epic_profile_id r \<and> fr_repository_key x = fr_repository_key r)
               (\<lambda>x. x\<lparr>fr_observation := fr_observation r, fr_mismatch := fr_mismatch r,
                     fr_merged_evidence_at := (case fr_merged_evidence_at r of Some t \<Rightarrow> Some t | None \<Rightarrow> fr_merged_evidence_at x),
                     fr_updated_at := fr_updated_at r\<rparr>) (rs_finals st)\<rparr>))
             else Ok None))"

type_synonym final_answer = "string + (final_error + final_projection)"

definition profileNotFound :: "string \<Rightarrow> string" where
  "profileNotFound rid = ''workflow run '' @ sq rid @ '' has no Epic profile''"

text \<open>One transaction: an error thrown by a statement writes nothing.\<close>

definition observe_final :: "pg_env \<Rightarrow> string \<Rightarrow> string \<Rightarrow> pr_observation \<Rightarrow> string \<Rightarrow> review_store \<Rightarrow> final_answer \<times> review_store" where
  "observe_final pg rid key observation updated_at st =
     (case findProfile (rs_store st) rid of
        None \<Rightarrow> (Inr (Err (observe_error FinalProfileNotFound (profileNotFound rid))), st)
      | Some profile \<Rightarrow>
          (let previous = lockReconciliation st (ep_id profile) key
           in case observeFinalPullRequest pg profile key observation previous (isFinalIntegrationEligible (ls_db (rs_store st)) rid) updated_at of
                Inl e \<Rightarrow> (Inr (Err e), st)
              | Inr projection \<Rightarrow>
                  if fp_outcome projection \<in> {FinalAlreadyCompleted, FinalIgnoredStale} then (Inr (Ok projection), st)
                  else case fp_reconciliation projection of
                    None \<Rightarrow> (Inl ''final pull request observation produced no reconciliation'', st)
                  | Some r \<Rightarrow>
                      (case write_observation pg r st of
                         Inl e \<Rightarrow> (Inl e, st)
                       | Inr None \<Rightarrow>
                           (Inr (Ok \<lparr>fp_outcome = FinalIgnoredStale, fp_profile = profile, fp_reconciliation = previous\<rparr>), st)
                       | Inr (Some st1) \<Rightarrow> (Inr (Ok projection), updateProfile (fp_profile projection) st1))))"

definition write_confirmation :: "pg_env \<Rightarrow> string \<Rightarrow> string \<Rightarrow> confirm_request \<Rightarrow> string \<Rightarrow> review_store \<Rightarrow> string + review_store option" where
  "write_confirmation pg profile key request at st =
     bind_result (cast_all pg [at]) (\<lambda>_.
     let hit = (\<lambda>r. fr_epic_profile_id r = profile \<and> fr_repository_key r = key \<and> fr_merged_evidence_at r \<noteq> None \<and>
           (fr_confirmation_key r = None \<or> fr_confirmation_key r = Some (fc_idempotency_key request)))
     in if \<not> list_ex hit (rs_finals st) then Ok None
        else Ok (Some (st\<lparr>rs_finals := update_where hit
          (\<lambda>r. r\<lparr>fr_confirmation_key := Some (fc_idempotency_key request),
                fr_operator_comment := (if fr_confirmation_key r = None then fc_operator_comment request else fr_operator_comment r),
                fr_confirmed_at := Some (or_else (fr_confirmed_at r) at),
                fr_updated_at := (if the (pg_timestamptz pg (fr_updated_at r)) \<ge> the (pg_timestamptz pg at) then fr_updated_at r else at)\<rparr>)
          (rs_finals st)\<rparr>)))"

definition confirm_unused ::
    "pg_env \<Rightarrow> string \<Rightarrow> string \<Rightarrow> confirm_request \<Rightarrow> string \<Rightarrow> epic_profile \<Rightarrow> review_store \<Rightarrow> final_answer \<times> review_store" where
  "confirm_unused pg rid key request confirmed_at profile st =
     (let previous = lockReconciliation st (ep_id profile) key
      in if (case previous of None \<Rightarrow> False
             | Some r \<Rightarrow> fr_confirmation_key r = Some (fc_idempotency_key request) \<and> fr_confirmed_at r \<noteq> None)
         then (Inr (Ok \<lparr>fp_outcome = FinalAlreadyCompleted, fp_profile = profile, fp_reconciliation = previous\<rparr>), st)
         else case confirmFinalPullRequest profile key previous request (isFinalIntegrationEligible (ls_db (rs_store st)) rid) confirmed_at of
           Inl e \<Rightarrow> (Inr (Err e), st)
         | Inr projection \<Rightarrow>
             (case write_confirmation pg (ep_id profile) key request confirmed_at st of
                Inl e \<Rightarrow> (Inl e, st)
              | Inr None \<Rightarrow>
                  (Inr (Err (confirm_error FinalIdempotencyConflict ''final pull request confirmation raced with newer durable state'')), st)
              | Inr (Some st1) \<Rightarrow> (Inr (Ok projection), updateProfile (fp_profile projection) st1)))"

definition confirm_final :: "pg_env \<Rightarrow> string \<Rightarrow> string \<Rightarrow> confirm_request \<Rightarrow> string \<Rightarrow> review_store \<Rightarrow> final_answer \<times> review_store" where
  "confirm_final pg rid key request confirmed_at st =
     (case findProfile (rs_store st) rid of
        None \<Rightarrow> (Inr (Err (confirm_error FinalProfileNotFound (profileNotFound rid))), st)
      | Some profile \<Rightarrow>
          (case List.find (\<lambda>r. fr_epic_profile_id r = ep_id profile \<and> fr_confirmation_key r = Some (fc_idempotency_key request)) (rs_finals st) of
             Some used \<Rightarrow>
               if fr_repository_key used \<noteq> key
               then (Inr (Err (confirm_error FinalIdempotencyConflict ''confirmation idempotency key was already used for another repository'')), st)
               else confirm_unused pg rid key request confirmed_at profile st
           | None \<Rightarrow> confirm_unused pg rid key request confirmed_at profile st))"

end
