(* ===== verification/PrProps.thy ===== *)
theory PrProps
  imports FinalPullRequest RunCancel
begin

text \<open>
  What the evidence of a pull request can do: which URLs name one, when a cohort's pull request
  counts as merged, what its evidence may change in the record, and when an epic is complete.
\<close>

section \<open>URLs\<close>

lemma nat_to_string_ne [simp]: "nat_to_string n \<noteq> []"
  by (subst nat_to_string.simps) simp

lemma of_char_digit: "n < 10 \<Longrightarrow> (of_char (char_of (48 + n) :: char) :: nat) = 48 + n"
  by simp

lemma nat_to_string_digits:
  "list_all is_digit (nat_to_string n) \<and> digits_value (nat_to_string n) = n \<and> (0 < n \<longrightarrow> hd (nat_to_string n) \<noteq> CHR ''0'')"
proof (induction n rule: nat_to_string.induct)
  case (1 n)
  show ?case
  proof (cases "n < 10")
    case True
    have "char_of (48 + n) \<noteq> CHR ''0''" if "0 < n"
    proof
      assume "char_of (48 + n) = CHR ''0''"
      then have "(of_char (char_of (48 + n) :: char) :: nat) = of_char (CHR ''0'')" by simp
      then show False using of_char_digit [OF True] that by simp
    qed
    then show ?thesis using of_char_digit [OF True] True
      by (subst (1 2 3) nat_to_string.simps) (simp add: is_digit_def digits_value_def)
  next
    case False
    have last: "(of_char (char_of (48 + n mod 10) :: char) :: nat) = 48 + n mod 10" by (rule of_char_digit) simp
    moreover have "n mod 10 \<le> 9" by (simp add: less_Suc_eq_le [symmetric])
    ultimately have "is_digit (char_of (48 + n mod 10))" by (simp add: is_digit_def)
    then show ?thesis using 1 [OF False] False last
      by (subst (1 2 3) nat_to_string.simps) (simp add: digits_value_def hd_append)
  qed
qed

lemma js_number_exact: "n < 9007199254740992 \<Longrightarrow> js_number n = n"
  unfolding js_number_def by (subst excess_bits.simps) simp

definition pull_request_url :: "string \<Rightarrow> string \<Rightarrow> string \<Rightarrow> string" where
  "pull_request_url own name digits = ''https://github.com/'' @ own @ ''/'' @ name @ ''/pull/'' @ digits"

lemma split_pull_request_url:
  assumes "CHR ''/'' \<notin> set own" and "CHR ''/'' \<notin> set name" and "CHR ''/'' \<notin> set digits"
  shows "js_split (CHR ''/'') (pull_request_url own name digits) = [''https:'', [], ''github.com'', own, name, ''pull'', digits]"
    and "js_split (CHR ''/'') (pull_request_url own name digits @ ''/'') = [''https:'', [], ''github.com'', own, name, ''pull'', digits, []]"
  using assms by (simp_all add: pull_request_url_def js_split_app js_split_no_sep)

lemma split_parts_no_sep: "p \<in> set (js_split sep s) \<Longrightarrow> sep \<notin> set p"
  by (induction s arbitrary: p) (auto split: list.splits if_splits)

lemma digits_no_slash: "all_digits s \<Longrightarrow> CHR ''/'' \<notin> set s"
  by (auto simp: all_digits_def list_all_iff is_digit_def)

lemma parsed_url:
  assumes "parseGithubPullRequestIdentity url = Some i"
  obtains digits where "url = pull_request_url (pi_owner i) (pi_name i) digits \<or> url = pull_request_url (pi_owner i) (pi_name i) digits @ ''/''"
    "is_pr_number digits" "pi_number i = js_number (digits_value digits)"
    "pi_owner i \<noteq> []" "pi_name i \<noteq> []" "CHR ''/'' \<notin> set (pi_owner i)" "CHR ''/'' \<notin> set (pi_name i)"
proof -
  obtain own name digits rest where split: "js_split (CHR ''/'') url = ''https:'' # [] # ''github.com'' # own # name # ''pull'' # digits # rest"
    and ok: "own \<noteq> []" "name \<noteq> []" "is_pr_number digits" "rest = [] \<or> rest = [[]]"
    and i: "i = \<lparr>pi_owner = own, pi_name = name, pi_number = js_number (digits_value digits)\<rparr>"
    using assms by (auto simp: parseGithubPullRequestIdentity_def split: list.splits if_splits)
  have "url = pull_request_url own name digits \<or> url = pull_request_url own name digits @ ''/''"
    using js_join_split [of "CHR ''/''" url] ok(4) unfolding split by (auto simp: pull_request_url_def)
  moreover have "CHR ''/'' \<notin> set own" "CHR ''/'' \<notin> set name"
    using split_parts_no_sep [of own "CHR ''/''" url] split_parts_no_sep [of name "CHR ''/''" url] unfolding split by simp_all
  ultimately show ?thesis using that ok(1-3) by (simp add: i)
qed

text \<open>
  A pull request URL is read back. Every URL of a pull request, with or without a slash at its
  end, is parsed to exactly its owner, repository and number (below \<open>2 ^ 53\<close>); and everything the parser accepts is
  such a URL, so no other path of the forge is taken for a pull request.
\<close>
theorem pull_request_url_roundtrip:
  "(\<forall>own name n. own \<noteq> [] \<and> name \<noteq> [] \<and> CHR ''/'' \<notin> set own \<union> set name \<and> 0 < n \<and> n < 9007199254740992 \<longrightarrow>
      parseGithubPullRequestIdentity (pull_request_url own name (nat_to_string n)) = Some \<lparr>pi_owner = own, pi_name = name, pi_number = n\<rparr> \<and>
      parseGithubPullRequestIdentity (pull_request_url own name (nat_to_string n) @ ''/'') = Some \<lparr>pi_owner = own, pi_name = name, pi_number = n\<rparr>) \<and>
   (\<forall>url i. parseGithubPullRequestIdentity url = Some i \<longrightarrow>
      (\<exists>digits. url \<in> {pull_request_url (pi_owner i) (pi_name i) digits, pull_request_url (pi_owner i) (pi_name i) digits @ ''/''} \<and>
         is_pr_number digits \<and> pi_number i = js_number (digits_value digits)))"
proof (intro conjI allI impI)
  fix own name :: string and n :: nat
  assume ok: "own \<noteq> [] \<and> name \<noteq> [] \<and> CHR ''/'' \<notin> set own \<union> set name \<and> 0 < n \<and> n < 9007199254740992"
  have digits: "is_pr_number (nat_to_string n)" "digits_value (nat_to_string n) = n"
    using nat_to_string_digits [of n] ok by (simp_all add: is_pr_number_def all_digits_def)
  then have "CHR ''/'' \<notin> set (nat_to_string n)" using digits_no_slash by (simp add: is_pr_number_def)
  with ok split_pull_request_url [of own name "nat_to_string n"] digits js_number_exact [of n]
  show "parseGithubPullRequestIdentity (pull_request_url own name (nat_to_string n)) = Some \<lparr>pi_owner = own, pi_name = name, pi_number = n\<rparr>"
    "parseGithubPullRequestIdentity (pull_request_url own name (nat_to_string n) @ ''/'') = Some \<lparr>pi_owner = own, pi_name = name, pi_number = n\<rparr>"
    by (simp_all add: parseGithubPullRequestIdentity_def)
next
  fix url i assume "parseGithubPullRequestIdentity url = Some i"
  then show "\<exists>digits. url \<in> {pull_request_url (pi_owner i) (pi_name i) digits, pull_request_url (pi_owner i) (pi_name i) digits @ ''/''} \<and>
      is_pr_number digits \<and> pi_number i = js_number (digits_value digits)"
    by (rule parsed_url) auto
qed

theorem pull_request_url_roundtrip_witness:
  "parseGithubPullRequestIdentity (pull_request_url ''o'' ''r'' (nat_to_string 17)) = Some \<lparr>pi_owner = ''o'', pi_name = ''r'', pi_number = 17\<rparr>"
  using pull_request_url_roundtrip [THEN conjunct1, rule_format, of "''o''" "''r''" 17] by simp

section \<open>Cohorts\<close>

definition fresh_evidence :: "pg_env \<Rightarrow> cohort_reconciliation option \<Rightarrow> pr_observation \<Rightarrow> bool" where
  "fresh_evidence pg previous observation \<longleftrightarrow>
     (\<forall>p. previous = Some p \<longrightarrow> \<not> is_completed p \<and> \<not> later_instant pg (ob_observed_at (cr_observation p)) (ob_observed_at observation))"

lemma reconcile_fresh:
  "fst (reconcileCohortPullRequest pg expected observation previous at) = CohortMerged \<longleftrightarrow>
     fresh_evidence pg previous observation \<and> findMismatch expected observation = None \<and> ob_state observation \<noteq> PrOpen"
  by (auto simp: reconcileCohortPullRequest_def Let_def fresh_evidence_def split: option.splits)

text \<open>
  C27. A cohort's pull request counts as merged exactly when the evidence says so: it is not older
  than the evidence already recorded, no completion was recorded, and the observation is of the pull
  request the build reported (same number, owner and repository up to case, in its URL
  and in its own fields), in the repository the run is bound to, from the branch the build pushed to the
  branch the run targets, merged, with the time of the merge. The evidence an operator confirms by hand
  is held to the same rules.
\<close>
theorem cohort_merged_exactly:
  "fst (reconcileCohortPullRequest pg expected observation previous at) = CohortMerged \<longleftrightarrow>
     fresh_evidence pg previous observation \<and>
     (\<exists>i j. parseGithubPullRequestIdentity (xp_url expected) = Some i \<and> parseGithubPullRequestIdentity (ob_url observation) = Some j \<and>
        pi_number i = pi_number j \<and> repositoriesMatch (pi_owner i) (pi_name i) (pi_owner j) (pi_name j) \<and>
        repositoriesMatch (ob_owner observation) (ob_name observation) (pi_owner i) (pi_name i)) \<and>
     (xp_forge_repository expected \<in> {None} \<union> Some ` {forge. repositoriesMatch (ob_owner observation) (ob_name observation) (fg_owner forge) (fg_name forge)}) \<and>
     ob_head_branch observation = xp_head_branch expected \<and> xp_base_branch expected \<in> {None, Some (ob_base_branch observation)} \<and>
     ob_state observation = PrMerged \<and> ob_merged_at observation \<noteq> None"
proof -
  have "findMismatch expected observation = None \<and> ob_state observation \<noteq> PrOpen \<longleftrightarrow>
     (\<exists>i j. parseGithubPullRequestIdentity (xp_url expected) = Some i \<and> parseGithubPullRequestIdentity (ob_url observation) = Some j \<and>
        pi_number i = pi_number j \<and> repositoriesMatch (pi_owner i) (pi_name i) (pi_owner j) (pi_name j) \<and>
        repositoriesMatch (ob_owner observation) (ob_name observation) (pi_owner i) (pi_name i)) \<and>
     (xp_forge_repository expected \<in> {None} \<union> Some ` {forge. repositoriesMatch (ob_owner observation) (ob_name observation) (fg_owner forge) (fg_name forge)}) \<and>
     ob_head_branch observation = xp_head_branch expected \<and> xp_base_branch expected \<in> {None, Some (ob_base_branch observation)} \<and>
     ob_state observation = PrMerged \<and> ob_merged_at observation \<noteq> None"
    by (cases "ob_state observation")
      (auto simp: findMismatch_def pullRequestUrlsMatch_def split: option.splits if_splits)
  then show ?thesis unfolding reconcile_fresh by blast
qed

text \<open>The cohort table: its rows keep their completion.\<close>

definition completions_kept :: "review_store \<Rightarrow> review_store \<Rightarrow> bool" where
  "completions_kept st st' \<longleftrightarrow>
     (\<forall>stage unit old t. find_cohort stage unit st = Some old \<and> cr_completed_at old = Some t \<longrightarrow>
        (\<exists>new. find_cohort stage unit st' = Some new \<and> cr_completed_at new = Some t))"

lemma completions_kept_same: "rs_cohorts st' = rs_cohorts st \<Longrightarrow> completions_kept st st'"
  by (simp add: completions_kept_def find_cohort_def)

lemma find_updated_cohort:
  assumes "List.find (\<lambda>x. cohort_key x = k) xs = Some old" and "cr_completed_at old = Some t"
    and "\<And>x. cohort_key (f x) = cohort_key x" and "\<And>x t. cr_completed_at x = Some t \<Longrightarrow> cr_completed_at (f x) = Some t"
  shows "\<exists>new. List.find (\<lambda>x. cohort_key x = k) (update_where p f xs) = Some new \<and> cr_completed_at new = Some t"
  using assms by (induction xs) (auto simp: update_where_def split: if_splits)

lemma upsert_cohort_keeps:
  assumes "upsert_cohort pg r st = Inr st'"
  shows "rs_store st' = rs_store st \<and> rs_finals st' = rs_finals st \<and> completions_kept st st'"
proof -
  define f where "f x = x\<lparr>cr_repository_key := cr_repository_key r, cr_observation := cr_observation r, cr_mismatch := cr_mismatch r,
      cr_completed_at := (case cr_completed_at x of None \<Rightarrow> cr_completed_at r | Some t \<Rightarrow> Some t),
      cr_updated_at := cr_updated_at r\<rparr>" for x :: cohort_reconciliation
  have cases: "st' = st \<or> st' = st\<lparr>rs_cohorts := rs_cohorts st @ [r]\<rparr> \<or>
      st' = st\<lparr>rs_cohorts := update_where (\<lambda>x. cohort_key x = cohort_key r) f (rs_cohorts st)\<rparr>"
    using assms by (auto simp: upsert_cohort_def f_def [abs_def] split: option.splits if_splits)
  have "completions_kept st (st\<lparr>rs_cohorts := rs_cohorts st @ [r]\<rparr>)"
    by (auto simp: completions_kept_def find_cohort_def find_append_Some)
  moreover have "completions_kept st (st\<lparr>rs_cohorts := update_where p f (rs_cohorts st)\<rparr>)" for p
  proof -
    have "cohort_key (f x) = cohort_key x" "cr_completed_at x = Some t \<Longrightarrow> cr_completed_at (f x) = Some t" for x t
      by (simp_all add: f_def cohort_key_def)
    then show ?thesis unfolding completions_kept_def find_cohort_def using find_updated_cohort [where f = f] by fastforce
  qed
  ultimately show ?thesis using cases completions_kept_same [of st st] by auto
qed

lemma recorded_keeps:
  "recorded pg r answer st = (a, st') \<Longrightarrow> rs_store st' = rs_store st \<and> rs_finals st' = rs_finals st \<and> completions_kept st st'"
  by (auto simp: recorded_def split: sum.splits dest: upsert_cohort_keeps intro: completions_kept_same)

lemma complete_cohort_keeps:
  assumes "complete_cohort pg request r now st = (a, st')"
  shows "rs_store st' = (rs_store st)\<lparr>ls_db := snd (complete_handoff_artifact request (ls_db (rs_store st)))\<rparr> \<and>
    rs_finals st' = rs_finals st \<and> completions_kept st st'"
proof -
  obtain c d where c: "complete_handoff_artifact request (ls_db (rs_store st)) = (c, d)" by fastforce
  let ?st = "st\<lparr>rs_store := (rs_store st)\<lparr>ls_db := d\<rparr>\<rparr>"
  have "st' = ?st \<or> (\<exists>x answer. recorded pg x answer ?st = (a, st'))"
    using assms c by (auto simp: complete_cohort_def Let_def split: sum.splits close_result.splits)
  moreover have "completions_kept ?st st' = completions_kept st st'" by (simp add: completions_kept_def find_cohort_def)
  ultimately show ?thesis
    using c recorded_keeps [of pg _ _ ?st a st'] completions_kept_same [of ?st st] by (elim disjE exE) (auto simp: completions_kept_same)
qed

lemma loaded_handoff:
  assumes "loadCohortHandoff pg stage unit st = Inr (expected, artifact)"
  shows "xp_stage_instance_id expected = stage \<and> xp_unit_id expected = unit \<and>
    (\<exists>u s a. u \<in> set (db_units (ls_db (rs_store st))) \<and> u_stage_id u = stage \<and> u_unit_id u = unit \<and> u_run_id u = xp_run_id expected \<and>
       s \<in> set (db_slots (ls_db (rs_store st))) \<and> slot_run_unit_id s = u_id u \<and> slot_artifact (slot_state s) = Some artifact \<and>
       is_handoff (slot_release s))"
proof -
  let ?d = "ls_db (rs_store st)"
  obtain row where row: "find_cohort_handoff pg stage unit ?d = Some row"
    and e: "xp_stage_instance_id expected = ch_stage_instance_id row" "xp_unit_id expected = ch_unit_id row" "xp_run_id expected = ch_run_id row"
      "artifact = ch_artifact_id row"
    using assms by (auto simp: loadCohortHandoff_def Let_def split: option.splits)
  then obtain u s a rest where u: "List.find (\<lambda>u. u_stage_id u = stage \<and> u_unit_id u = unit) (db_units ?d) = Some u"
    and rows: "sort_key (\<lambda>(s, a). identity_output_name (slot_identity s)) (handoff_rows ?d u) = (s, a) # rest"
    and ids: "ch_run_id row = u_run_id u" "ch_stage_instance_id row = u_stage_id u" "ch_unit_id row = u_unit_id u" "ch_artifact_id row = a_id a"
    by (auto simp: find_cohort_handoff_def split: option.splits list.splits)
  have "(s, a) \<in> set (handoff_rows ?d u)" by (metis list.set_intros(1) rows set_sort)
  then have "s \<in> set (db_slots ?d)" "slot_run_unit_id s = u_id u" "slot_artifact (slot_state s) = Some (a_id a)"
      "is_handoff (slot_release s)"
    by (auto simp: handoff_rows_def)
  then show ?thesis using find_Some_set [OF u] ids e by metis
qed

text \<open>
  C26. Evidence closes a cohort's wait only by the rules, and only once. Whatever evidence arrives for
  a cohort, the record stays well formed and only moves forward; it changes at all only when the
  evidence counts as merged, and then by completing the handoff of an artifact that fills a handoff slot
  of that very cohort; the epics and final pull requests are untouched; a recorded completion
  is never lost, and evidence for a completed cohort changes nothing.
\<close>
theorem cohort_evidence_safe:
  assumes "reconcileCohortEvidence pg stage unit evidence now st = (answer, st')"
  shows "(store_ok (ls_db (rs_store st)) \<longrightarrow> store_ok (ls_db (rs_store st')) \<and> record_le (ls_db (rs_store st)) (ls_db (rs_store st'))) \<and>
    (rs_store st' = rs_store st \<or>
     (\<exists>expected observation u s artifact.
        loadCohortHandoff pg stage unit st = Inr (expected, artifact) \<and>
        (evidence = Observed observation \<or> operatorMergedObservation expected now = Some observation) \<and>
        fst (reconcileCohortPullRequest pg expected observation (find_cohort stage unit st) now) = CohortMerged \<and>
        u \<in> set (db_units (ls_db (rs_store st))) \<and> u_stage_id u = stage \<and> u_unit_id u = unit \<and>
        s \<in> set (db_slots (ls_db (rs_store st))) \<and> slot_run_unit_id s = u_id u \<and> is_handoff (slot_release s) \<and>
        slot_artifact (slot_state s) = Some artifact \<and>
        rs_store st' = (rs_store st)\<lparr>ls_db := snd (complete_handoff_artifact (handoff_completion evidence artifact observation now) (ls_db (rs_store st)))\<rparr>)) \<and>
    rs_finals st' = rs_finals st \<and> completions_kept st st' \<and>
    (\<forall>p. find_cohort stage unit st = Some p \<and> is_completed p \<longrightarrow> st' = st)"
proof (cases "\<exists>r x. recorded pg r x st = (answer, st') \<or> st' = st")
  case True
  then have kept: "rs_store st' = rs_store st" "rs_finals st' = rs_finals st" "completions_kept st st'"
    using recorded_keeps completions_kept_same by blast+
  have "st' = st" if "find_cohort stage unit st = Some p" "is_completed p" for p
    using assms that loaded_handoff [of pg stage unit st]
    by (auto simp: reconcileCohortEvidence_def reconcileCohortPullRequest_def Let_def split: sum.splits option.splits cohort_evidence.splits)
  with kept show ?thesis by auto
next
  case False
  then obtain expected artifact observation r where load: "loadCohortHandoff pg stage unit st = Inr (expected, artifact)"
    and ob: "evidence = Observed observation \<or> operatorMergedObservation expected now = Some observation"
    and merged: "reconcileCohortPullRequest pg expected observation (find_cohort stage unit st) now = (CohortMerged, r)"
    and complete: "complete_cohort pg (handoff_completion evidence artifact observation now) r now st = (answer, st')"
    using assms loaded_handoff [of pg stage unit st]
    by (auto simp: reconcileCohortEvidence_def Let_def split: sum.splits option.splits cohort_evidence.splits cohort_outcome.splits prod.splits)
  note kept = complete_cohort_keeps [OF complete]
  have safe: "store_ok d \<Longrightarrow> store_ok (snd (complete_handoff_artifact request d)) \<and> record_le d (snd (complete_handoff_artifact request d))" for request d
    by (simp add: handing.keeps handing.later)
  have "\<not> is_completed p" if "find_cohort stage unit st = Some p" for p
    using merged that by (auto simp: reconcileCohortPullRequest_def Let_def split: if_splits)
  moreover have "\<exists>expected observation u s artifact.
        loadCohortHandoff pg stage unit st = Inr (expected, artifact) \<and>
        (evidence = Observed observation \<or> operatorMergedObservation expected now = Some observation) \<and>
        fst (reconcileCohortPullRequest pg expected observation (find_cohort stage unit st) now) = CohortMerged \<and>
        u \<in> set (db_units (ls_db (rs_store st))) \<and> u_stage_id u = stage \<and> u_unit_id u = unit \<and>
        s \<in> set (db_slots (ls_db (rs_store st))) \<and> slot_run_unit_id s = u_id u \<and> is_handoff (slot_release s) \<and>
        slot_artifact (slot_state s) = Some artifact \<and>
        rs_store st' = (rs_store st)\<lparr>ls_db := snd (complete_handoff_artifact (handoff_completion evidence artifact observation now) (ls_db (rs_store st)))\<rparr>"
    using loaded_handoff [OF load] load kept ob merged by (metis fst_conv)
  ultimately show ?thesis using kept safe by auto
qed

text \<open>A cohort of the example that waits for its review, and the merge of its pull request.\<close>

definition demo_pg :: pg_env where
  "demo_pg = \<lparr>pg_date_parse = (\<lambda>_. Some 0), pg_timestamptz = (\<lambda>_. Some 0), pg_jsonb_text = json_stringify\<rparr>"

definition demo_summary :: artifact_row where
  "demo_summary =
     \<lparr>a_id = ''b'', a_chain_id = ''b'', a_run_id = ''r'', a_stage_id = uuid0, a_execution_id = uuid0, a_unit_id = ''0'', a_output_name = ''pr'',
      a_collection_key = None, a_artifact_type = ''dev.pr_summary'',
      a_body = JObj [(''pr_url'', JStr ''https://github.com/o/r/pull/7''), (''branch'', JStr ''work'')], a_label = ''0'', a_version = 1,
      a_idempotency_key = ''kb'', a_payload_hash = ''hb'', a_created_at = ''t2'', a_lifecycle = LifeReleased ''t2'', a_lifecycle_updated_at = ''t2'',
      a_attempt_workflow_id = ''v2-work:'' @ uuid0, a_work_order_id = Some uuid0\<rparr>"

definition demo_cohort :: db where
  "demo_cohort = snd (publish_artifact demo_publish ''w'' (demo_started\<lparr>
     db_slots := [demo_slot\<lparr>slot_release := Handoff RoleAssessment ''github_review''\<rparr>,
       demo_slot\<lparr>slot_identity := ScalarSlot ''pr'', slot_artifact_type := ''dev.pr_summary'', slot_release := Immediate,
         slot_state := SlotReleased ''b'' ''t2''\<rparr>],
     db_artifacts := [demo_summary]\<rparr>))"

definition demo_review :: review_store where
  "demo_review = \<lparr>rs_store = demo_launched\<lparr>ls_db := demo_cohort\<rparr>, rs_cohorts = [], rs_finals = []\<rparr>"

definition demo_observation :: pr_observation where
  "demo_observation =
     \<lparr>ob_owner = ''O'', ob_name = ''r'', ob_number = 7, ob_url = ''https://github.com/O/r/pull/7/'', ob_head_branch = ''work'', ob_base_branch = ''main'',
      ob_head_sha = None, ob_state = PrMerged, ob_source = SourcePoll, ob_observed_at = ''t4'', ob_merged_at = Some ''t4''\<rparr>"

definition demo_evidence :: "cohort_answer \<times> review_store" where
  "demo_evidence = reconcileCohortEvidence demo_pg uuid0 ''0'' (Observed demo_observation) ''t5'' demo_review"

theorem cohort_evidence_safe_witness:
  "(case fst demo_evidence of Inr (Inr (Completed, r)) \<Rightarrow> cr_completed_at r = Some ''t5'' | _ \<Rightarrow> False) \<and>
   completions_kept demo_review (snd demo_evidence) \<and> rs_finals (snd demo_evidence) = []"
proof -
  have "case fst demo_evidence of Inr (Inr (Completed, r)) \<Rightarrow> cr_completed_at r = Some ''t5'' | _ \<Rightarrow> False" by code_simp
  moreover obtain answer st' where e: "reconcileCohortEvidence demo_pg uuid0 ''0'' (Observed demo_observation) ''t5'' demo_review = (answer, st')"
    by fastforce
  ultimately show ?thesis using cohort_evidence_safe [OF e] e by (simp add: demo_evidence_def demo_review_def)
qed

section \<open>Epics\<close>




















end
