(* ===== verification/Spec2Isabelle.thy ===== *)
theory Spec2Isabelle
  imports Prelude Json Workflow RunTypes Compiler Decision Provisioning WorkOrder TrackerProps
    Encode Store Materialize Publish Ask Control RunInvariant Preserve AskInvariant
    Launch History RunSteps Scenario RunProps RunCancel AskProps LaunchProps Dispatch RetryProps Starts Topology RunSpec
    PullRequest FinalPullRequest PrProps
begin

text \<open>
  Oakridge: a verification library of its workflow orchestrator, \<open>src/oakridge-dbos/src\<close>, and of the task tracker
  and dispatcher of kbbl, \<open>src/kbbl/core\<close>. Source paths below are relative to the first directory, those of
  the kbbl theories to the second.

  \<^bold>\<open>The orchestrator.\<close> A workflow definition is a graph of stages. Launching it stores a run in
  PostgreSQL; the run record is the only authority on the run. A root workflow (on DBOS) asks the record
  what to do: one transaction reads the record as a snapshot, derives a batch of commands from
  it and applies them. Work orders that a batch starts get a child workflow each, which starts an
  executor and observes it; the executor publishes artifacts into output slots with the capability
  of its order. Slots release at once, after a gate decided by a human, or after a handoff that an
  external event completes, such as a merged pull request. Every change that can alter the answer of an
  ask is followed by another ask.

  \<^bold>\<open>The task tracker.\<close> kbbl keeps projects, specs, plans, cohorts with dependencies, briefs and assessments in SQLite. Agents and
  operators change them over HTTP; each handler checks, writes in one transaction and emits events, and the hooks on the
  events dispatch the next stage: the analyzer of a new spec, the writers of plans and briefs, a build when a brief is approved and the
  cohorts it depends on are done, the assessor when a plan is complete. A dispatch claims an attempt in a ledger, prepares
  the git branch and the prompt, and starts a session on a backend; at boot a reconciler settles what the last process left.

  \<^bold>\<open>The theories, in the order of the code.\<close>

  \<^item> \<open>Prelude\<close>: JavaScript's objects (association lists with JavaScript's key order), strings and
    arrays, results \<open>error + value\<close> with \<open>bind_result\<close> and \<open>fold_result\<close>, and their shared lemmas.
  \<^item> \<open>Json\<close>: JSON values and JSON Pointers (\<open>domain/json-pointer.ts\<close>, \<open>domain/primitives.ts\<close>), with the
    inherited members a plain index finds.
  \<^item> \<open>Workflow\<close>: definitions and their validation (\<open>domain/workflow.ts\<close>, \<open>domain/delegated-session.ts\<close>, \<open>validation/\<close>).
  \<^item> \<open>RunTypes\<close>: the vocabulary of runs, slots, work orders and waits (\<open>domain/run-record.ts\<close>, \<open>domain/wait.ts\<close>,
    \<open>domain/execution.ts\<close>, \<open>decision/snapshot.ts\<close>, \<open>decision/commands.ts\<close>).
  \<^item> \<open>Compiler\<close>: compilation, the context a launch must supply, binding resolution and prompt rendering (\<open>compiler/\<close>).
  \<^item> \<open>Decision\<close>: \<open>decision/derive.ts\<close> and \<open>decision/ids.ts\<close>: which commands a snapshot implies.
  \<^item> \<open>Provisioning\<close>: repository provisioning over a git runner (\<open>domain/repository-provisioning.ts\<close>, \<open>adapters/repository-provisioning.ts\<close>).
  \<^item> \<open>WorkOrder\<close>: the request of a work order and its publication capability (\<open>runtime/resolve-work-order.ts\<close>).
  \<^item> \<open>Encode\<close>, \<open>Store\<close>, \<open>Materialize\<close>, \<open>Publish\<close>, \<open>Ask\<close>, \<open>Control\<close>: \<open>storage/postgres-run-record.ts\<close>. The state is the record
    \<open>db\<close>, one list of rows per table; a statement is a function on it, a transaction (\<open>'a tx\<close>) a state passing function
    that changes nothing when it throws. The constraints of the schema that writers rely on are errors of the inserts.
  \<^item> \<open>Launch\<close>: projects, epics, definitions, runs and the launch sweep (\<open>storage/postgres-domain.ts\<close>,
    \<open>runtime/launch-run.ts\<close>, \<open>runtime/run-launch-dispatch.ts\<close>, \<open>runtime/cancel-v2-run.ts\<close>).
  \<^item> \<open>Topology\<close>: the root, worker and cleanup workflows (\<open>workflows/run-record-topology.ts\<close>) as state machines over
    the shared record, interleaved with every other operation (\<open>system_step\<close>). A step may be executed and its result lost;
    history variables keep the orders of lost answers and the deleted runs.
  \<^item> \<open>PullRequest\<close>, \<open>FinalPullRequest\<close>: evidence about pull requests, the poller, and the final merge of an epic
    (\<open>domain/pull-request.ts\<close>, \<open>domain/cohort-pull-request.ts\<close>, \<open>domain/final-pull-request.ts\<close>,
    \<open>runtime/cohort-pull-request.ts\<close>, \<open>runtime/github-pull-requests.ts\<close>, \<open>storage/postgres-policy.ts\<close>).
  \<^item> \<open>Tracker\<close>: the status machines and rows of kbbl (\<open>orchestrator/state-machine.ts\<close>, \<open>orchestrator/epic-state-machine.ts\<close>,
    \<open>types/task-tracker.ts\<close>). The state is the record \<open>tracker\<close>, one list of rows per table.
  \<^item> \<open>TrackerDb\<close>: the queries and updates of \<open>db/\<close> and \<open>review/\<close>.
  \<^item> \<open>CohortGraph\<close>: Kahn's algorithm as the cycle check (\<open>db/cohort-graph.ts\<close>) and as the order of a plan's cohorts
    (\<open>toposortCohorts\<close> of the dispatcher).
  \<^item> \<open>TrackerOps\<close>, \<open>TrackerRoutes\<close>, \<open>PlanRoutes\<close>: the handlers of \<open>server/handlers/\<close> and the event hooks
    (\<open>orchestrator/dispatch-hooks.ts\<close>, \<open>orchestrator/bootstrap.ts\<close>). A handler returns the database, the dispatches its events ask for and the reply.
  \<^item> \<open>DispatchLedger\<close>: attempts and the reconciler (\<open>db/dispatch-attempts.ts\<close>, \<open>orchestrator/dispatch-reconciler.ts\<close>).
  \<^item> \<open>Dispatcher\<close>: \<open>orchestrator/backends/dispatcher.ts\<close> and \<open>prompt-loader.ts\<close>, cut where the code awaits git and the backend.

  \<^bold>\<open>What is shown.\<close>

  \<^item> Definitions: every validated definition compiles; the launch check is sound for every binding; gate actions
    are the built-in ones; a template reads in exactly one way and is rendered by that reading; pointers round trip.
  \<^item> Decisions (\<open>Decision\<close>): which work starts, exactly; when units and stages are materialized,
    closed, satisfied and succeeded; dependency cycles are found exactly; a closed stage that is not done goes on
    unless something outside holds it up.
  \<^item> The record's invariant (\<open>RunInvariant\<close>, \<open>Preserve\<close>, \<open>AskInvariant\<close>): identities and references, parked slots and
    open waits name each other, one active order per unit, versions and audit rows agree. \<open>History\<close>: \<open>record_le\<close>, what
    no transaction undoes. Both are the laws of the locale \<open>record_operation\<close> (\<open>RunSteps\<close>), which is interpreted for every operation and
    for every sequence of operations; \<open>reachable\<close> closes it under launches and deletions.
  \<^item> On top of these: publication is authorised and idempotent, a wait closes once, a run ends once, cancellation stops
    the whole run (\<open>RunProps\<close>, \<open>RunCancel\<close>); one ask is one step and names what it started (\<open>AskProps\<close>); a retry
    replaces lost work (\<open>RetryProps\<close>); a launch persists and happens once, the sweep ends (\<open>LaunchProps\<close>, \<open>Dispatch\<close>).
  \<^item> The workflows: no operation but the ask starts work (\<open>Starts\<close>), so every started order has its workflow or is about to,
    unless the answer that named it was lost before DBOS recorded it (\<open>Topology\<close>); then nothing ever starts it, which \<open>Topology\<close> proves too.
  \<^item> Refinement (\<open>RunSpec\<close>): an abstract lifecycle of one run, implemented by every step of the record and of the
    workflows; the locale \<open>refinement\<close> carries the simulation over whole histories.
  \<^item> Pull requests (\<open>PrProps\<close>): when evidence counts as a merge, what it may change, when an epic is complete.
  \<^item> The task tracker: \<open>TrackerInv\<close> lists its forty operations, closes them under \<open>tracker_reachable\<close> and states
    what an invariant has to satisfy as a hierarchy of locales (\<open>benign_invariant\<close>, \<open>tracker_invariant\<close>, \<open>row_invariant\<close>).
    \<open>TrackerReach\<close> interprets them for the dependency graph, the ledger and blocked cohorts, \<open>TrackerWake\<close> for the wake-ups.
    \<open>TrackerProps\<close>: dependencies have no cycle and the check is exact, one active attempt per entity and
    stage, no doubled dispatch, restarts settle, builds start exactly when released, no wake-up is lost without unblocking or deleting a
    dependency; and two defects, an unblocked cohort that nothing starts and an epic left in the build stage by the merge route.

  \<open>Scenario\<close> computes one run of the program from an empty database to its end; the witnesses evaluate its states.

  \<^bold>\<open>Parameters.\<close> SHA-256 and fresh identifiers (\<open>runtime_env\<close>), zod's conversion of untyped JSON (\<open>zod_env\<close>), git, the
  prompt loader, DBOS's start of a workflow, the executors, the GitHub reader, kbbl's session services, backend, prompt files, collation and \<open>gh\<close> gateway, and \<open>Date.parse\<close> and the casts of PostgreSQL (\<open>pg_env\<close>)
  are arguments of the definitions that use them.

  \<^bold>\<open>Bounds and loops.\<close> Strings are lists of 8-bit code units, so the Unicode tables of \<open>trim\<close> and \<open>toLocaleLowerCase\<close> are those of
  Latin-1. Record versions are natural numbers. Every loop of the source is a terminating recursion: the cycle search and prompt rendering by
  a measure, Kahn's loops by the queue and the nodes still to join it, the launch sweep as a partial function proved to return, everything else on a list. The
  root and the workers run forever by design and are step relations.

  \<^bold>\<open>Not modelled.\<close> \<open>initialize_straight_through\<close> is translated but is not a step of \<open>reachable\<close>. The cache of compiled definitions, the
  surrogate ids of audit rows, the order of keys in \<open>jsonb\<close>, wakes (a wait may end at any time instead) and the order in which \<open>Promise.all\<close>
  runs its parts are left out. In \<open>system_step\<close> the operations that bring work orders from outside address
  them by their ids, as \<open>resolveWorkOrder\<close> does (\<open>addressed_op\<close>).
  Read models and routes (\<open>storage/postgres-operators.ts\<close>, \<open>operators/\<close>, \<open>http/\<close>), the collaboration and gate audit tables,
  process wiring and seeds are not modelled. Of kbbl, request bodies are taken as parsed, the steps of a dispatch between two awaits are
  operations of their own (claim, settle, reconcile), and agent sessions, worktrees, streams and the browser client
  are left out. The other programs of the repository are not modelled: \<open>lbc-dashboard\<close>, \<open>oakridge-core\<close>, \<open>legit-biz-club\<close>.
\<close>

end
